(* ===== verification/Prelude.thy ===== *)
theory Prelude
  imports Main "HOL-Library.Word"
begin

text \<open>
  Shared ground of the development.

  The server is written in Python; this theory fixes how Python's values and effects are
  represented everywhere else:
  \<^item> \<open>bytes\<close> and \<open>BytesIO\<close> are lists of 8-bit words; a stream is the list of the bytes
    that are still unread, so \<open>stream.read(n)\<close> is a split of that list;
  \<^item> Python integers are unbounded, hence \<^typ>\<open>int\<close>;
  \<^item> an exception is the \<^const>\<open>Inl\<close> of a result \<open>py_error + 'a\<close>; \<open>rbind\<close> is the
    sequencing that stops at the first exception.
  The generic lemmas on these, on finite maps of sets and on association lists carry the
  component proofs.
\<close>

named_theorems codec_simps \<open>reading back what a primitive writes\<close>
named_theorems byte_eval \<open>evaluating closed encodings\<close>
named_theorems frame_simps \<open>fields an operation leaves alone\<close>

type_synonym byte = "8 word"

section \<open>Exceptions and results\<close>

datatype py_error =
    IndexError
  | KeyError
  | ValueError
  | TypeError
  | AttributeError
  | OverflowError
  | StructError
  | UnicodeError
  | RecursionError
  | NotImplementedError
  | StopIteration
  | AssertionError
  | RuntimeError
  | Unreachable
  | InvalidConstructorException int
  | UnknownConstructorException int
  | Disconnection "int option"
  | IntegrityError
  | ErrorRpc int string
  | OtherError

type_synonym 'a res = "py_error + 'a"

definition rbind :: "'a res \<Rightarrow> ('a \<Rightarrow> 'b res) \<Rightarrow> 'b res" where
  "rbind m f = (case m of Inl e \<Rightarrow> Inl e | Inr x \<Rightarrow> f x)"

lemma rbind_simps [simp]:
  "rbind (Inl e) f = Inl e"
  "rbind (Inr x) f = f x"
  by (simp_all add: rbind_def)

lemma rbind_Inr_iff: "rbind m f = Inr y \<longleftrightarrow> (\<exists>x. m = Inr x \<and> f x = Inr y)"
  by (cases m) simp_all

lemma rbind_Inl_iff:
  "rbind m f = Inl e \<longleftrightarrow> m = Inl e \<or> (\<exists>x. m = Inr x \<and> f x = Inl e)"
  by (cases m) simp_all

lemma rbind_cong [fundef_cong]:
  "m = m' \<Longrightarrow> (\<And>x. m' = Inr x \<Longrightarrow> f x = g x) \<Longrightarrow> rbind m f = rbind m' g"
  by (cases m') simp_all

section \<open>Actions on a state\<close>

text \<open>
  Code that changes a state and may raise: the state it leaves behind comes with the result, so
  that an exception does not undo what was done before it.
\<close>

type_synonym ('a, 's) act = "'s \<Rightarrow> 'a res \<times> 's"

definition sreturn :: "'a \<Rightarrow> ('a, 's) act" where
  "sreturn x = (\<lambda>s. (Inr x, s))"

definition sraise :: "py_error \<Rightarrow> ('a, 's) act" where
  "sraise e = (\<lambda>s. (Inl e, s))"

definition sbind :: "('a, 's) act \<Rightarrow> ('a \<Rightarrow> ('b, 's) act) \<Rightarrow> ('b, 's) act" where
  "sbind m f = (\<lambda>s. case m s of (Inl e, s') \<Rightarrow> (Inl e, s') | (Inr x, s') \<Rightarrow> f x s')"

definition sget :: "('s \<Rightarrow> 'a) \<Rightarrow> ('a, 's) act" where
  "sget f = (\<lambda>s. (Inr (f s), s))"

definition supd :: "('s \<Rightarrow> 's) \<Rightarrow> (unit, 's) act" where
  "supd f = (\<lambda>s. (Inr (), f s))"

definition slift :: "'a res \<Rightarrow> ('a, 's) act" where
  "slift r = (\<lambda>s. (r, s))"

definition sthen :: "(unit, 's) act \<Rightarrow> ('b, 's) act \<Rightarrow> ('b, 's) act" where
  "sthen m k = sbind m (\<lambda>_. k)"

text \<open>\<open>try: m finally: k\<close>; an exception of \<open>k\<close> replaces the one of \<open>m\<close>.\<close>

definition sfinally :: "('a, 's) act \<Rightarrow> (unit, 's) act \<Rightarrow> ('a, 's) act" where
  "sfinally m k =
     (\<lambda>s. case m s of (r, s1) \<Rightarrow> (case k s1 of (Inl e, s2) \<Rightarrow> (Inl e, s2) | (Inr _, s2) \<Rightarrow> (r, s2)))"

lemmas act_defs = sreturn_def sraise_def sbind_def sget_def supd_def slift_def sthen_def

lemma sbind_eval [simp]:
  "sbind (sreturn x) f = f x"
  "sbind (sraise e) f1 = sraise e"
  "sbind (sget g) f2 s = f2 (g s) s"
  "sbind (supd h) f3 s = f3 () (h s)"
  "sthen (supd h) k s = k (h s)"
  "sthen (sreturn ()) k1 = k1"
  "sreturn x1 s = (Inr x1, s)"
  "sraise e s = (Inl e, s)"
  "sget g1 s = (Inr (g1 s), s)"
  "supd h s = (Inr (), h s)"
  "slift r s = (r, s)"
  by (simp_all add: act_defs)

lemma sbind_cong [fundef_cong]:
  "s = s' \<Longrightarrow> m s' = m' s' \<Longrightarrow> (\<And>x t. m' s' = (Inr x, t) \<Longrightarrow> f x t = g x t) \<Longrightarrow> sbind m f s = sbind m' g s'"
  by (auto simp: sbind_def split: prod.split sum.split)

section \<open>Byte streams\<close>

text \<open>
  \<open>BytesIO.read(n)\<close>: at most \<open>n\<close> bytes, fewer at the end of the stream, never an
  exception; a negative \<open>n\<close> reads everything that is left.
\<close>

definition stream_read :: "int \<Rightarrow> byte list \<Rightarrow> byte list \<times> byte list" where
  "stream_read n s = (if n < 0 then (s, []) else (take (nat n) s, drop (nat n) s))"

lemma stream_read_append:
  "n = int (length xs) \<Longrightarrow> stream_read n (xs @ ys) = (xs, ys)"
  by (simp add: stream_read_def)

lemma stream_read_length:
  "stream_read n s = (xs, ys) \<Longrightarrow> length ys \<le> length s"
  by (auto simp: stream_read_def split: if_splits)

lemma stream_read_concat:
  "stream_read n s = (xs, ys) \<Longrightarrow> xs @ ys = s"
  by (auto simp: stream_read_def split: if_splits)

section \<open>Little-endian and big-endian integers\<close>

fun le_bytes :: "nat \<Rightarrow> nat \<Rightarrow> byte list" where
  "le_bytes 0 v = []"
| "le_bytes (Suc n) v = of_nat v # le_bytes n (v div 256)"

fun le_nat :: "byte list \<Rightarrow> nat" where
  "le_nat [] = 0"
| "le_nat (b # bs) = unat b + 256 * le_nat bs"

lemma le_bytes_numeral [byte_eval]:
  "le_bytes (numeral k) v = of_nat v # le_bytes (pred_numeral k) (v div 256)"
  by (simp only: numeral_eq_Suc [of k] le_bytes.simps)

lemma length_le_bytes [simp]: "length (le_bytes n v) = n"
  by (induction n arbitrary: v) simp_all

lemma unat_byte_bound: "unat (b :: byte) < 256"
  using unsigned_less [of b] by simp

lemma le_nat_le_bytes [codec_simps]: "le_nat (le_bytes n v) = v mod 256 ^ n"
proof (induction n arbitrary: v)
  case (Suc n)
  have "le_nat (le_bytes (Suc n) v) = v mod 256 + 256 * ((v div 256) mod 256 ^ n)"
    using Suc.IH by (simp add: unat_of_nat)
  then show ?case by (simp add: mod_mult2_eq)
qed simp

lemma le_nat_bound: "le_nat bs < 256 ^ length bs"
proof (induction bs)
  case (Cons b bs)
  then show ?case using unat_byte_bound [of b] by simp
qed simp

lemma le_bytes_le_nat [codec_simps]: "le_bytes (length bs) (le_nat bs) = bs"
proof (induction bs)
  case (Cons b bs)
  have "(unat b + 256 * le_nat bs) div 256 = le_nat bs"
    using unat_byte_bound [of b] by simp
  moreover have "(of_nat (unat b + 256 * le_nat bs) :: byte) = b"
    using unat_byte_bound [of b] by (simp add: word_unat_eq_iff unat_of_nat del: of_nat_add)
  ultimately show ?case using Cons by (simp del: of_nat_add)
qed simp

lemma le_nat_inj: "length xs = length ys \<Longrightarrow> le_nat xs = le_nat ys \<Longrightarrow> xs = ys"
  by (metis le_bytes_le_nat)

text \<open>
  \<open>int.to_bytes(n, 'little', signed=...)\<close> raises \<open>OverflowError\<close> for a value that does
  not fit, and \<open>int.from_bytes\<close> accepts any number of bytes.
\<close>

definition int_fits :: "nat \<Rightarrow> bool \<Rightarrow> int \<Rightarrow> bool" where
  "int_fits n sg v =
     (if sg then - (256 ^ n) \<le> 2 * v \<and> 2 * v < 256 ^ n else 0 \<le> v \<and> v < 256 ^ n)"

definition py_to_bytes_le :: "nat \<Rightarrow> bool \<Rightarrow> int \<Rightarrow> byte list res" where
  "py_to_bytes_le n sg v =
     (if int_fits n sg v then Inr (le_bytes n (nat (v mod 256 ^ n))) else Inl OverflowError)"

definition py_from_bytes_le :: "bool \<Rightarrow> byte list \<Rightarrow> int" where
  "py_from_bytes_le sg bs =
     (let u = int (le_nat bs); m = 256 ^ length bs
      in if sg \<and> m \<le> 2 * u then u - m else u)"

lemma py_to_bytes_le_length: "py_to_bytes_le n sg v = Inr bs \<Longrightarrow> length bs = n"
  by (auto simp: py_to_bytes_le_def split: if_splits)

lemma py_from_to_bytes_le [codec_simps]:
  assumes "py_to_bytes_le n sg v = Inr bs"
  shows "py_from_bytes_le sg bs = v"
proof -
  have fits: "int_fits n sg v" and bs: "bs = le_bytes n (nat (v mod 256 ^ n))"
    using assms by (auto simp: py_to_bytes_le_def split: if_splits)
  define m :: int where "m = 256 ^ n"
  have m: "0 < m" by (simp add: m_def)
  have "int (le_nat bs) = int (nat (v mod m) mod 256 ^ n)"
    by (simp add: bs m_def codec_simps)
  also have "\<dots> = int (nat (v mod m)) mod m"
    by (simp add: m_def zmod_int)
  also have "\<dots> = v mod m" using m by simp
  finally have u: "int (le_nat bs) = v mod m" .
  have len: "length bs = n" using bs by simp
  show ?thesis
  proof (cases "v < 0")
    case True
    then have s: "sg" "- m \<le> 2 * v" using fits by (auto simp: int_fits_def m_def split: if_splits)
    have "v mod m = (v + m) mod m" by simp
    also have "\<dots> = v + m" using True s(2) m by (intro mod_pos_pos_trivial) auto
    finally have "v mod m = v + m" .
    then show ?thesis using True s u len m by (simp add: py_from_bytes_le_def m_def [symmetric])
  next
    case False
    then have lt: "v < m" "sg \<longrightarrow> 2 * v < m"
      using fits by (auto simp: int_fits_def m_def split: if_splits)
    then have "v mod m = v" using False by simp
    then show ?thesis using u len lt by (auto simp: py_from_bytes_le_def m_def [symmetric] Let_def)
  qed
qed

text \<open>Big-endian, as in \<open>int.from_bytes(b, 'big')\<close> and \<open>v.to_bytes(n, 'big')\<close>.\<close>

definition py_from_bytes_be :: "byte list \<Rightarrow> int" where
  "py_from_bytes_be bs = int (le_nat (rev bs))"

definition py_to_bytes_be :: "nat \<Rightarrow> int \<Rightarrow> byte list res" where
  "py_to_bytes_be n v = rbind (py_to_bytes_le n False v) (\<lambda>bs. Inr (rev bs))"

lemma py_from_to_bytes_be [codec_simps]:
  "py_to_bytes_be n v = Inr bs \<Longrightarrow> py_from_bytes_be bs = v"
  by (auto simp: py_to_bytes_be_def py_from_bytes_be_def rbind_Inr_iff py_from_bytes_le_def
      dest: py_from_to_bytes_le)

lemma py_to_bytes_be_length: "py_to_bytes_be n v = Inr bs \<Longrightarrow> length bs = n"
  by (auto simp: py_to_bytes_be_def rbind_Inr_iff dest: py_to_bytes_le_length)

end
