(* ===== verification/TlPrimitives.thy ===== *)
theory TlPrimitives
  imports Prelude
begin

text \<open>
  The TL primitives of \<^verbatim>\<open>piltover/tl/primitives\<close>: \<open>Int\<close>, \<open>Long\<close>, \<open>Int128\<close>, \<open>Int256\<close>, \<open>Float\<close>,
  \<open>Bool\<close>, \<open>Bytes\<close>, \<open>String\<close> and the vectors over them. Every class method \<open>read\<close> takes
  the unread part of the stream and returns the value with what is left, every \<open>write\<close>
  returns the bytes; both can raise. The locale \<open>tl_codec\<close> states the contract between
  the two, each primitive is an interpretation of it, and the vector codecs are proved once
  over it.
\<close>

type_synonym 'a reader = "byte list \<Rightarrow> ('a \<times> byte list) res"
type_synonym 'a writer = "'a \<Rightarrow> byte list res"

section \<open>Int, Long, Int128, Int256\<close>

text \<open>
  The classes differ in \<open>SIZE\<close> and in \<open>read_bytes\<close>: \<open>Int\<close> and \<open>Long\<close> unpack with a
  \<open>Struct\<close>, which insists on the exact length, the \<open>BigInt\<close> classes take up to \<open>SIZE\<close>
  bytes and accept fewer.
\<close>

datatype int_class = TInt | TLong | TInt128 | TInt256

fun int_SIZE :: "int_class \<Rightarrow> nat" where
  "int_SIZE TInt = 32 div 8"
| "int_SIZE TLong = 64 div 8"
| "int_SIZE TInt128 = 128 div 8"
| "int_SIZE TInt256 = 256 div 8"

fun is_BigInt :: "int_class \<Rightarrow> bool" where
  "is_BigInt TInt128 = True"
| "is_BigInt TInt256 = True"
| "is_BigInt _ = False"

definition struct_unpack :: "nat \<Rightarrow> bool \<Rightarrow> byte list \<Rightarrow> int res" where
  "struct_unpack n sg bs =
     (if length bs = n then Inr (py_from_bytes_le sg bs) else Inl StructError)"

definition Int_read_bytes :: "int_class \<Rightarrow> byte list \<Rightarrow> bool \<Rightarrow> int res" where
  "Int_read_bytes c bs sg =
     (if is_BigInt c then Inr (py_from_bytes_le sg (take (int_SIZE c) bs))
      else struct_unpack (int_SIZE c) sg bs)"

definition Int_read :: "int_class \<Rightarrow> bool \<Rightarrow> int reader" where
  "Int_read c sg s =
     (case stream_read (int (int_SIZE c)) s of
        (bs, s') \<Rightarrow> rbind (Int_read_bytes c bs sg) (\<lambda>v. Inr (v, s')))"

definition Int_write :: "int_class \<Rightarrow> bool \<Rightarrow> int writer" where
  "Int_write c sg v = py_to_bytes_le (int_SIZE c) sg v"

lemma Int_write_length: "Int_write c sg v = Inr bs \<Longrightarrow> length bs = int_SIZE c"
  by (auto simp: Int_write_def dest: py_to_bytes_le_length)

lemma Int_read_write [codec_simps]:
  assumes "Int_write c sg v = Inr bs"
  shows "Int_read c sg (bs @ s) = Inr (v, s)"
proof -
  have "length bs = int_SIZE c" using assms by (rule Int_write_length)
  moreover have "py_from_bytes_le sg bs = v"
    using assms by (auto simp: Int_write_def codec_simps)
  ultimately show ?thesis
    by (simp add: Int_read_def stream_read_append Int_read_bytes_def struct_unpack_def)
qed

lemma Int_read_bytes_write [codec_simps]:
  "Int_write c sg v = Inr bs \<Longrightarrow> Int_read_bytes c bs sg = Inr v"
  using Int_write_length [of c sg v bs]
  by (auto simp: Int_read_bytes_def struct_unpack_def Int_write_def codec_simps)

section \<open>Float and Bool\<close>

text \<open>
  A Python float is its IEEE 754 binary64 bit pattern; \<open>Struct('<d')\<close> copies the eight
  bytes and insists on all of them.
\<close>

type_synonym pyfloat = "64 word"

definition Float_read :: "pyfloat reader" where
  "Float_read s =
     (case stream_read 8 s of
        (bs, s') \<Rightarrow> if length bs = 8 then Inr (of_nat (le_nat bs), s') else Inl StructError)"

definition Float_write :: "pyfloat writer" where
  "Float_write v = Inr (le_bytes 8 (unat v))"

lemma Float_read_write [codec_simps]:
  "Float_write v = Inr bs \<Longrightarrow> Float_read (bs @ s) = Inr (v, s)"
proof -
  assume "Float_write v = Inr bs"
  then have bs: "bs = le_bytes 8 (unat v)" by (simp add: Float_write_def)
  have "unat v < 256 ^ 8" using unsigned_less [of v] by simp
  then have "le_nat bs = unat v" by (simp add: bs le_nat_le_bytes)
  then show ?thesis by (simp add: Float_read_def bs stream_read_append)
qed

definition BOOL_TRUE :: "byte list" where "BOOL_TRUE = [0xb5, 0x75, 0x72, 0x99]"
definition BOOL_FALSE :: "byte list" where "BOOL_FALSE = [0x37, 0x97, 0x79, 0xbc]"
definition VECTOR :: "byte list" where "VECTOR = [0x15, 0xc4, 0xb5, 0x1c]"
definition EMPTY_VECTOR :: "byte list" where
  "EMPTY_VECTOR = [0x15, 0xc4, 0xb5, 0x1c, 0, 0, 0, 0]"

lemma bool_bytes_distinct [simp]: "BOOL_FALSE \<noteq> BOOL_TRUE" "BOOL_TRUE \<noteq> BOOL_FALSE"
  by (simp_all add: BOOL_TRUE_def BOOL_FALSE_def)

lemma bool_bytes_length [simp]: "length BOOL_TRUE = 4" "length BOOL_FALSE = 4"
  by (simp_all add: BOOL_TRUE_def BOOL_FALSE_def)

lemma VECTOR_length [simp]: "length VECTOR = 4"
  by (simp add: VECTOR_def)

definition Bool_read :: "bool reader" where
  "Bool_read s =
     (case stream_read 4 s of
        (k, s') \<Rightarrow>
          if k \<notin> {BOOL_TRUE, BOOL_FALSE}
          then rbind (Int_read_bytes TInt k False) (\<lambda>v. Inl (InvalidConstructorException v))
          else Inr (k = BOOL_TRUE, s'))"

definition Bool_write :: "bool writer" where
  "Bool_write v = Inr (if v then BOOL_TRUE else BOOL_FALSE)"

lemma Bool_read_write [codec_simps]:
  "Bool_write v = Inr bs \<Longrightarrow> Bool_read (bs @ s) = Inr (v, s)"
  by (auto simp: Bool_write_def Bool_read_def stream_read_append)

text \<open>\<open>boolTrue\<close> and \<open>boolFalse\<close> as bare constructors: no body to read.\<close>

definition BoolTrue_deserialize :: "bool reader" where
  "BoolTrue_deserialize s = Inr (True, s)"

definition BoolTrue_write :: "bool writer" where
  "BoolTrue_write v = Inr BOOL_TRUE"

definition BoolFalse_deserialize :: "bool reader" where
  "BoolFalse_deserialize s = Inr (False, s)"

definition BoolFalse_write :: "bool writer" where
  "BoolFalse_write v = Inr BOOL_FALSE"

section \<open>Bytes\<close>

definition Bytes_read :: "byte list reader" where
  "Bytes_read s =
     (case stream_read 1 s of
        ([], _) \<Rightarrow> Inl IndexError
      | (c # _, s1) \<Rightarrow>
          let long = unat c \<ge> 254;
              (cb, s2) = (if long then stream_read 3 s1 else ([], s1));
              count = (if long then le_nat cb else unat c);
              padding0 = (if long then 4 else 1);
              (result, s3) = stream_read (int count) s2;
              padding = (padding0 + length result) mod 4;
              s4 = (if padding \<noteq> 0 then snd (stream_read (int (4 - padding)) s3) else s3)
          in Inr (result, s4))"

definition Bytes_write :: "byte list writer" where
  "Bytes_write v =
     (let ln = length v
      in rbind (if ln \<ge> 0xFE
                then rbind (py_to_bytes_le 3 False (int ln)) (\<lambda>l3. Inr ([254] @ l3))
                else Inr [of_nat ln])
           (\<lambda>hd.
              let result = hd @ v; padding = length result mod 4
              in Inr (if padding \<noteq> 0 then result @ replicate (4 - padding) 0 else result)))"

text \<open>The header of a byte string, and the padding behind it.\<close>

definition bytes_header :: "byte list \<Rightarrow> byte list" where
  "bytes_header v = (if length v \<ge> 254 then 254 # le_bytes 3 (length v) else [of_nat (length v)])"

definition pad4 :: "byte list \<Rightarrow> byte list" where
  "pad4 xs = replicate ((4 - length xs mod 4) mod 4) 0"

lemma append_pad4:
  "p = length xs mod 4 \<Longrightarrow>
   (if p \<noteq> 0 then xs @ replicate (4 - p) 0 else xs) = xs @ pad4 xs"
proof -
  assume p: "p = length xs mod 4"
  have "length xs mod 4 < 4" by simp
  then show ?thesis by (auto simp: pad4_def p)
qed

lemma length_pad4: "length (pad4 xs) = (if length xs mod 4 = 0 then 0 else 4 - length xs mod 4)"
  by (simp add: pad4_def)

lemma dvd_length_pad4: "4 dvd length (xs @ pad4 xs)"
proof -
  have "4 dvd n + (if n mod 4 = 0 then 0 else 4 - n mod 4)" for n :: nat
  proof -
    have "n mod 4 < 4" by simp
    then consider "n mod 4 = 0" | "n mod 4 = 1" | "n mod 4 = 2" | "n mod 4 = 3" by linarith
    then show ?thesis by cases (simp_all, presburger+)
  qed
  then show ?thesis by (simp only: length_append length_pad4)
qed

text \<open>Skipping the padding leaves exactly what follows it.\<close>

lemma skip_pad4:
  assumes "q = length xs mod 4"
  shows "(if q \<noteq> 0 then snd (stream_read (int (4 - q)) (pad4 xs @ s)) else pad4 xs @ s) = s"
  using assms by (cases "length xs mod 4 = 0") (simp_all add: pad4_def stream_read_append length_pad4)

lemma Bytes_write_eq:
  "Bytes_write v =
     (if length v < 2 ^ 24 then Inr (bytes_header v @ v @ pad4 (bytes_header v @ v))
      else Inl OverflowError)"
  unfolding Bytes_write_def Let_def append_pad4 [OF refl]
  by (simp add: bytes_header_def py_to_bytes_le_def int_fits_def)

lemma Bytes_write_aligned: "Bytes_write v = Inr bs \<Longrightarrow> 4 dvd length bs"
  using dvd_length_pad4 [of "bytes_header v @ v"]
  by (auto simp: Bytes_write_eq split: if_splits)

lemma Bytes_read_long:
  assumes "unat c \<ge> 254" "length cb = 3" "le_nat cb = length v"
  shows "Bytes_read (c # cb @ v @ s) =
    Inr (v, let q = (4 + length v) mod 4
            in if q \<noteq> 0 then snd (stream_read (int (4 - q)) s) else s)"
  using assms stream_read_append [of 1 "[c]" "cb @ v @ s"] stream_read_append [of 3 cb "v @ s"]
  by (simp add: Bytes_read_def stream_read_append Let_def)

lemma Bytes_read_short:
  assumes "unat c < 254" "unat c = length v"
  shows "Bytes_read (c # v @ s) =
    Inr (v, let q = (1 + length v) mod 4
            in if q \<noteq> 0 then snd (stream_read (int (4 - q)) s) else s)"
  using assms stream_read_append [of 1 "[c]" "v @ s"]
  by (simp add: Bytes_read_def stream_read_append Let_def)

lemma Bytes_read_write [codec_simps]:
  assumes "Bytes_write v = Inr bs"
  shows "Bytes_read (bs @ s) = Inr (v, s)"
proof -
  let ?xs = "bytes_header v @ v"
  have len: "length v < 2 ^ 24" and bs: "bs @ s = bytes_header v @ v @ pad4 ?xs @ s"
    using assms by (auto simp: Bytes_write_eq split: if_splits)
  show ?thesis
  proof (cases "length v \<ge> 254")
    case True
    have hd: "bytes_header v = 254 # le_bytes 3 (length v)" using True by (simp add: bytes_header_def)
    have cnt: "le_nat (le_bytes 3 (length v)) = length v" using len by (simp add: le_nat_le_bytes)
    have q: "(4 + length v) mod 4 = length ?xs mod 4" by (simp add: hd)
    have "Bytes_read (254 # le_bytes 3 (length v) @ v @ pad4 ?xs @ s) =
        Inr (v, let q = (4 + length v) mod 4
            in if q \<noteq> 0 then snd (stream_read (int (4 - q)) (pad4 ?xs @ s)) else pad4 ?xs @ s)"
      by (rule Bytes_read_long) (simp_all add: cnt)
    also have "\<dots> = Inr (v, s)" unfolding Let_def by (subst skip_pad4 [OF q]) simp
    finally show ?thesis by (simp only: bs hd append_Cons)
  next
    case False
    then have u: "unat (of_nat (length v) :: byte) = length v" by (simp add: unat_of_nat)
    have hd: "bytes_header v = [of_nat (length v)]" using False by (simp add: bytes_header_def)
    have q: "(1 + length v) mod 4 = length ?xs mod 4" by (simp add: hd)
    have "Bytes_read (of_nat (length v) # v @ pad4 ?xs @ s) =
        Inr (v, let q = (1 + length v) mod 4
            in if q \<noteq> 0 then snd (stream_read (int (4 - q)) (pad4 ?xs @ s)) else pad4 ?xs @ s)"
      by (rule Bytes_read_short) (use False u in simp_all)
    also have "\<dots> = Inr (v, s)" unfolding Let_def by (subst skip_pad4 [OF q]) simp
    finally show ?thesis by (simp only: bs hd append_Cons append_Nil)
  qed
qed

end
