(* ===== verification/TlVector.thy ===== *)
theory TlVector
  imports TlPrimitives
begin

text \<open>
  \<open>String\<close> (UTF-8 text inside \<open>Bytes\<close>) and the vectors of \<^verbatim>\<open>piltover/tl/primitives/vector.py\<close>.
  A Python string is the list of its code points; strict UTF-8 coding as \<open>str.encode\<close> and
  \<open>bytes.decode\<close> do it is written out, with the surrogates and the overlong and truncated
  forms refused. The locale \<open>tl_codec\<close> is the contract between \<open>write\<close> and \<open>read\<close> of an
  element type; the element-wise vectors are proved over it and interpreted for each class.
\<close>

section \<open>UTF-8\<close>

type_synonym pystr = "nat list"

definition utf8_char :: "nat \<Rightarrow> byte list res" where
  "utf8_char c =
     (if c < 0x80 then Inr [of_nat c]
      else if c < 0x800 then Inr [of_nat (0xC0 + c div 64), of_nat (0x80 + c mod 64)]
      else if 0xD800 \<le> c \<and> c \<le> 0xDFFF then Inl UnicodeError
      else if c < 0x10000 then
        Inr [of_nat (0xE0 + c div 4096), of_nat (0x80 + c div 64 mod 64), of_nat (0x80 + c mod 64)]
      else if c < 0x110000 then
        Inr [of_nat (0xF0 + c div 262144), of_nat (0x80 + c div 4096 mod 64),
             of_nat (0x80 + c div 64 mod 64), of_nat (0x80 + c mod 64)]
      else Inl UnicodeError)"

fun utf8_encode :: "pystr \<Rightarrow> byte list res" where
  "utf8_encode [] = Inr []"
| "utf8_encode (c # cs) =
     rbind (utf8_char c) (\<lambda>b. rbind (utf8_encode cs) (\<lambda>bs. Inr (b @ bs)))"

definition is_cont :: "byte \<Rightarrow> bool" where
  "is_cont b \<longleftrightarrow> 0x80 \<le> unat b \<and> unat b < 0xC0"

text \<open>One code point off the front of a non-empty byte list.\<close>

definition utf8_take :: "byte \<Rightarrow> byte list \<Rightarrow> (nat \<times> byte list) res" where
  "utf8_take b0 bs =
     (let n = unat b0 in
      if n < 0x80 then Inr (n, bs)
      else if 0xC2 \<le> n \<and> n < 0xE0 then
        (case bs of
           b1 # r \<Rightarrow>
             if is_cont b1 then Inr (64 * (n - 0xC0) + (unat b1 - 0x80), r) else Inl UnicodeError
         | [] \<Rightarrow> Inl UnicodeError)
      else if 0xE0 \<le> n \<and> n < 0xF0 then
        (case bs of
           b1 # b2 # r \<Rightarrow>
             (let c = 4096 * (n - 0xE0) + 64 * (unat b1 - 0x80) + (unat b2 - 0x80)
              in if is_cont b1 \<and> is_cont b2 \<and> 0x800 \<le> c \<and> \<not> (0xD800 \<le> c \<and> c \<le> 0xDFFF)
                 then Inr (c, r) else Inl UnicodeError)
         | _ \<Rightarrow> Inl UnicodeError)
      else if 0xF0 \<le> n \<and> n < 0xF5 then
        (case bs of
           b1 # b2 # b3 # r \<Rightarrow>
             (let c = 262144 * (n - 0xF0) + 4096 * (unat b1 - 0x80) + 64 * (unat b2 - 0x80)
                      + (unat b3 - 0x80)
              in if is_cont b1 \<and> is_cont b2 \<and> is_cont b3 \<and> 0x10000 \<le> c \<and> c < 0x110000
                 then Inr (c, r) else Inl UnicodeError)
         | _ \<Rightarrow> Inl UnicodeError)
      else Inl UnicodeError)"

lemma utf8_take_length: "utf8_take b bs = Inr (c, r) \<Longrightarrow> length r \<le> length bs"
  by (auto simp: utf8_take_def Let_def split: if_splits list.splits)

function utf8_decode :: "byte list \<Rightarrow> pystr res" where
  "utf8_decode [] = Inr []"
| "utf8_decode (b # bs) =
     (case utf8_take b bs of
        Inl e \<Rightarrow> Inl e
      | Inr (c, r) \<Rightarrow> rbind (utf8_decode r) (\<lambda>cs. Inr (c # cs)))"
  by pat_completeness auto
termination
  by (relation "measure length") (auto dest: utf8_take_length)

lemma utf8_take_char:
  assumes "utf8_char c = Inr bs"
  shows "\<exists>b0 r. bs = b0 # r \<and> utf8_take b0 (r @ s) = Inr (c, s)"
proof -
  have u: "unat (of_nat n :: byte) = n" if "n < 256" for n using that by (simp add: unat_of_nat)
  consider (one) "c < 0x80" | (two) "0x80 \<le> c" "c < 0x800"
    | (three) "0x800 \<le> c" "c < 0x10000" "\<not> (0xD800 \<le> c \<and> c \<le> 0xDFFF)"
    | (four) "0x10000 \<le> c" "c < 0x110000"
    using assms by (force simp: utf8_char_def split: if_splits)
  then show ?thesis
  proof cases
    case one
    then show ?thesis using assms by (auto simp: utf8_char_def utf8_take_def u)
  next
    case two
    have a: "2 \<le> c div 64" "c div 64 < 32" using two by auto
    have "64 * (c div 64) + c mod 64 = c" by simp
    then have t: "utf8_take (of_nat (0xC0 + c div 64)) (of_nat (0x80 + c mod 64) # s) = Inr (c, s)"
      using a two by (simp add: utf8_take_def u is_cont_def Let_def del: of_nat_add)
    have "bs = [of_nat (0xC0 + c div 64), of_nat (0x80 + c mod 64)]"
      using two assms by (simp add: utf8_char_def del: of_nat_add)
    with t show ?thesis by (metis append_Cons append_Nil)
  next
    case three
    have a: "c div 4096 < 16" using three by auto
    have sum: "4096 * (c div 4096) + 64 * (c div 64 mod 64) + c mod 64 = c"
    proof -
      have "64 * (c div 64) + c mod 64 = c" by simp
      moreover have "64 * (c div 64 div 64) + c div 64 mod 64 = c div 64" by simp
      moreover have "c div 64 div 64 = c div 4096" by (simp add: div_mult2_eq [symmetric])
      ultimately show ?thesis by linarith
    qed
    have t: "utf8_take (of_nat (0xE0 + c div 4096))
        (of_nat (0x80 + c div 64 mod 64) # of_nat (0x80 + c mod 64) # s) = Inr (c, s)"
      using a sum three by (simp add: utf8_take_def u is_cont_def Let_def del: of_nat_add)
    have "bs = [of_nat (0xE0 + c div 4096), of_nat (0x80 + c div 64 mod 64), of_nat (0x80 + c mod 64)]"
      using three assms by (simp add: utf8_char_def del: of_nat_add split: if_splits)
    with t show ?thesis by (metis append_Cons append_Nil)
  next
    case four
    have a: "c div 262144 < 5" using four by auto
    have sum: "262144 * (c div 262144) + 4096 * (c div 4096 mod 64) + 64 * (c div 64 mod 64) + c mod 64 = c"
    proof -
      have "64 * (c div 64) + c mod 64 = c" by simp
      moreover have "64 * (c div 64 div 64) + c div 64 mod 64 = c div 64" by simp
      moreover have "64 * (c div 4096 div 64) + c div 4096 mod 64 = c div 4096" by simp
      moreover have "c div 64 div 64 = c div 4096" "c div 4096 div 64 = c div 262144"
        by (simp_all add: div_mult2_eq [symmetric])
      ultimately show ?thesis by linarith
    qed
    have t: "utf8_take (of_nat (0xF0 + c div 262144))
        (of_nat (0x80 + c div 4096 mod 64) # of_nat (0x80 + c div 64 mod 64)
         # of_nat (0x80 + c mod 64) # s) = Inr (c, s)"
      using a sum four by (simp add: utf8_take_def u is_cont_def Let_def del: of_nat_add)
    have "bs = [of_nat (0xF0 + c div 262144), of_nat (0x80 + c div 4096 mod 64),
        of_nat (0x80 + c div 64 mod 64), of_nat (0x80 + c mod 64)]"
      using four assms by (simp add: utf8_char_def del: of_nat_add split: if_splits)
    with t show ?thesis by (metis append_Cons append_Nil)
  qed
qed

lemma utf8_decode_encode [codec_simps]: "utf8_encode cs = Inr bs \<Longrightarrow> utf8_decode bs = Inr cs"
proof (induction cs arbitrary: bs)
  case (Cons c cs)
  then obtain b r where b: "utf8_char c = Inr b" and r: "utf8_encode cs = Inr r" and bs: "bs = b @ r"
    by (auto simp: rbind_Inr_iff)
  obtain b0 t where "b = b0 # t" "utf8_take b0 (t @ r) = Inr (c, r)"
    using utf8_take_char [OF b] by blast
  then show ?case using Cons.IH [OF r] by (simp add: bs)
qed simp

section \<open>String\<close>

definition String_read :: "pystr reader" where
  "String_read s =
     rbind (Bytes_read s) (\<lambda>(bs, s'). rbind (utf8_decode bs) (\<lambda>v. Inr (v, s')))"

definition String_write :: "pystr writer" where
  "String_write v = rbind (utf8_encode v) Bytes_write"

lemma String_read_write [codec_simps]:
  "String_write v = Inr bs \<Longrightarrow> String_read (bs @ s) = Inr (v, s)"
  by (auto simp: String_write_def String_read_def rbind_Inr_iff codec_simps)

section \<open>The codec contract\<close>

text \<open>
  What a \<open>write\<close> promises to the \<open>read\<close> of the same class: whatever was written is read
  back, and the rest of the stream is untouched.
\<close>

locale tl_codec =
  fixes wr :: "'a writer" and rd :: "'a reader"
  assumes rd_wr: "wr x = Inr bs \<Longrightarrow> rd (bs @ s) = Inr (x, s)"
begin

lemma wr_inj: "wr x = Inr bs \<Longrightarrow> wr y = Inr bs \<Longrightarrow> x = y"
  using rd_wr [of x bs "[]"] rd_wr [of y bs "[]"] by simp

text \<open>No encoding is a proper prefix of another: streams of values parse in one way.\<close>

lemma wr_prefix_free: "wr x = Inr bs \<Longrightarrow> wr y = Inr (bs @ cs) \<Longrightarrow> x = y \<and> cs = []"
  using rd_wr [of x bs cs] rd_wr [of y "bs @ cs" "[]"] by auto

end

interpretation int_codec: tl_codec "Int_write c sg" "Int_read c sg" for c sg
  by unfold_locales (rule Int_read_write)

interpretation float_codec: tl_codec Float_write Float_read
  by unfold_locales (rule Float_read_write)

interpretation bool_codec: tl_codec Bool_write Bool_read
  by unfold_locales (rule Bool_read_write)

interpretation bytes_codec: tl_codec Bytes_write Bytes_read
  by unfold_locales (rule Bytes_read_write)

interpretation string_codec: tl_codec String_write String_read
  by unfold_locales (rule String_read_write)

section \<open>Vectors\<close>

definition Vector_check_constructor :: "byte list \<Rightarrow> byte list res" where
  "Vector_check_constructor s =
     (case stream_read 4 s of
        (k, s') \<Rightarrow>
          if k \<noteq> VECTOR
          then rbind (Int_read_bytes TInt k False) (\<lambda>v. Inl (InvalidConstructorException v))
          else Inr s')"

definition Vector_read_header :: "int reader" where
  "Vector_read_header s = rbind (Vector_check_constructor s) (Int_read TInt True)"

definition Vector_header :: "int writer" where
  "Vector_header count = rbind (Int_write TInt True count) (\<lambda>c. Inr (VECTOR @ c))"

lemma Vector_read_header_header [codec_simps]:
  "Vector_header n = Inr bs \<Longrightarrow> Vector_read_header (bs @ s) = Inr (n, s)"
  by (auto simp: Vector_header_def rbind_Inr_iff Vector_read_header_def Vector_check_constructor_def
      stream_read_append codec_simps)

interpretation header_codec: tl_codec Vector_header Vector_read_header
  by unfold_locales (rule Vector_read_header_header)

subsection \<open>Packed vectors: \<open>IntVector\<close>, \<open>LongVector\<close>, \<open>FloatVector\<close>\<close>

text \<open>
  The body is one \<open>array\<close> of fixed-size elements. On reading, the bytes that are there are
  cut into elements: a short stream gives a shorter array, and only a length that is no
  multiple of the element size raises \<open>ValueError\<close>.
\<close>

fun chunks :: "nat \<Rightarrow> 'a list \<Rightarrow> 'a list list" where
  "chunks n [] = []"
| "chunks n (x # xs) = (x # take (n - 1) xs) # chunks n (drop (n - 1) xs)"

fun write_all :: "'a writer \<Rightarrow> 'a list \<Rightarrow> byte list res" where
  "write_all wr [] = Inr []"
| "write_all wr (x # xs) = rbind (wr x) (\<lambda>b. rbind (write_all wr xs) (\<lambda>bs. Inr (b @ bs)))"

definition PrimitiveVector_read :: "nat \<Rightarrow> (byte list \<Rightarrow> 'a) \<Rightarrow> 'a list reader" where
  "PrimitiveVector_read sz unpack s =
     rbind (Vector_read_header s)
       (\<lambda>(count, s1).
          case stream_read (count * int sz) s1 of
            (data, s2) \<Rightarrow>
              if length data mod sz \<noteq> 0 then Inl ValueError
              else Inr (map unpack (chunks sz data), s2))"

definition PrimitiveVector_write :: "'a writer \<Rightarrow> 'a list writer" where
  "PrimitiveVector_write pack xs =
     rbind (write_all pack xs)
       (\<lambda>arr. rbind (Vector_header (int (length xs))) (\<lambda>hd. Inr (hd @ arr)))"

definition IntVector_read :: "int list reader" where
  "IntVector_read = PrimitiveVector_read (int_SIZE TInt) (py_from_bytes_le True)"

definition IntVector_write :: "int list writer" where
  "IntVector_write = PrimitiveVector_write (py_to_bytes_le (int_SIZE TInt) True)"

definition LongVector_read :: "int list reader" where
  "LongVector_read = PrimitiveVector_read (int_SIZE TLong) (py_from_bytes_le True)"

definition LongVector_write :: "int list writer" where
  "LongVector_write = PrimitiveVector_write (py_to_bytes_le (int_SIZE TLong) True)"

definition FloatVector_read :: "pyfloat list reader" where
  "FloatVector_read = PrimitiveVector_read 8 (\<lambda>bs. of_nat (le_nat bs))"

definition FloatVector_write :: "pyfloat list writer" where
  "FloatVector_write = PrimitiveVector_write Float_write"

lemma chunks_append:
  assumes "length b = n" "0 < n"
  shows "chunks n (b @ xs) = b # chunks n xs"
proof -
  obtain x t where "b = x # t" using assms by (cases b) auto
  then show ?thesis using assms by simp
qed

lemma write_all_fixed:
  assumes "write_all pack xs = Inr bs" "0 < n"
    and "\<And>x b. pack x = Inr b \<Longrightarrow> length b = n \<and> unpack b = x"
  shows "length bs = length xs * n \<and> map unpack (chunks n bs) = xs"
  using assms(1)
proof (induction xs arbitrary: bs)
  case (Cons x xs)
  then obtain b r where "pack x = Inr b" "write_all pack xs = Inr r" "bs = b @ r"
    by (auto simp: rbind_Inr_iff)
  with Cons.IH [of r] assms(2,3) show ?case by (auto simp: chunks_append)
qed simp

lemma PrimitiveVector_read_write:
  assumes w: "PrimitiveVector_write pack xs = Inr bs" and "0 < n"
    and "\<And>x b. pack x = Inr b \<Longrightarrow> length b = n \<and> unpack b = x"
  shows "PrimitiveVector_read n unpack (bs @ s) = Inr (xs, s)"
proof -
  obtain arr hd where arr: "write_all pack xs = Inr arr" and hd: "Vector_header (int (length xs)) = Inr hd"
    and bs: "bs = hd @ arr"
    using w by (auto simp: PrimitiveVector_write_def rbind_Inr_iff)
  have "length arr = length xs * n" "map unpack (chunks n arr) = xs"
    using write_all_fixed [OF arr assms(2,3)] by auto
  then show ?thesis
    by (simp add: PrimitiveVector_read_def bs header_codec.rd_wr [OF hd] stream_read_append)
qed

interpretation int_vector: tl_codec IntVector_write IntVector_read
  unfolding IntVector_write_def IntVector_read_def
  by unfold_locales
    (rule PrimitiveVector_read_write, assumption, simp, blast intro: py_to_bytes_le_length py_from_to_bytes_le)

interpretation long_vector: tl_codec LongVector_write LongVector_read
  unfolding LongVector_write_def LongVector_read_def
  by unfold_locales
    (rule PrimitiveVector_read_write, assumption, simp, blast intro: py_to_bytes_le_length py_from_to_bytes_le)

lemma Float_write_unpack: "Float_write x = Inr b \<Longrightarrow> length b = 8 \<and> of_nat (le_nat b) = x"
  using Float_read_write [of x b "[]"]
  by (auto simp: Float_write_def Float_read_def stream_read_def)

interpretation float_vector: tl_codec FloatVector_write FloatVector_read
  unfolding FloatVector_write_def FloatVector_read_def
  by unfold_locales (rule PrimitiveVector_read_write, assumption, simp, rule Float_write_unpack)

subsection \<open>Element-wise vectors\<close>

fun read_n :: "nat \<Rightarrow> 'a reader \<Rightarrow> 'a list reader" where
  "read_n 0 rd s = Inr ([], s)"
| "read_n (Suc n) rd s =
     rbind (rd s) (\<lambda>(x, s1). rbind (read_n n rd s1) (\<lambda>(xs, s2). Inr (x # xs, s2)))"

definition ElementVector_read :: "'a reader \<Rightarrow> 'a list reader" where
  "ElementVector_read rd s =
     rbind (Vector_read_header s) (\<lambda>(count, s1). read_n (nat count) rd s1)"

definition ElementVector_write :: "'a writer \<Rightarrow> 'a list writer" where
  "ElementVector_write wr xs =
     rbind (Vector_header (int (length xs)))
       (\<lambda>hd. rbind (write_all wr xs) (\<lambda>bs. Inr (hd @ bs)))"

context tl_codec
begin

lemma read_n_write_all:
  "write_all wr xs = Inr bs \<Longrightarrow> read_n (length xs) rd (bs @ s) = Inr (xs, s)"
proof (induction xs arbitrary: bs)
  case (Cons x xs)
  then show ?case by (auto simp: rbind_Inr_iff rd_wr)
qed simp

lemma vector_rd_wr:
  "ElementVector_write wr xs = Inr bs \<Longrightarrow> ElementVector_read rd (bs @ s) = Inr (xs, s)"
  by (auto simp: ElementVector_write_def ElementVector_read_def rbind_Inr_iff header_codec.rd_wr
      read_n_write_all)

end

interpretation int_elements: tl_codec "ElementVector_write (Int_write c sg)" "ElementVector_read (Int_read c sg)"
  for c sg
  by unfold_locales (rule int_codec.vector_rd_wr)

interpretation bool_vector: tl_codec "ElementVector_write Bool_write" "ElementVector_read Bool_read"
  by unfold_locales (rule bool_codec.vector_rd_wr)

interpretation bytes_vector: tl_codec "ElementVector_write Bytes_write" "ElementVector_read Bytes_read"
  by unfold_locales (rule bytes_codec.vector_rd_wr)

interpretation string_vector: tl_codec "ElementVector_write String_write" "ElementVector_read String_read"
  by unfold_locales (rule string_codec.vector_rd_wr)

end
