(* ===== verification/TlCore.thy ===== *)
theory TlCore
  imports TlVector
begin

text \<open>
  The TL object layer: \<^verbatim>\<open>piltover/tl/core_types.py\<close> (messages, containers, RPC results, gzip,
  future salts), the dispatch of \<^verbatim>\<open>tl_object.py\<close>, \<^verbatim>\<open>serialization_utils.py\<close> and
  the content-relatedness test of \<^verbatim>\<open>tl/utils.py\<close>.

  The classes that \<^verbatim>\<open>tools/tl_gen.py\<close> generates from the schema are not in the repository:
  they are the type variable \<open>'g\<close>, and a \<open>registry\<close> holds what the core layer calls on them.
  Reading is recursive through gzip and containers; the fuel is the interpreter's recursion
  limit and running out of it is \<^const>\<open>RecursionError\<close>.
\<close>

section \<open>Objects\<close>

text \<open>
  A Python \<open>bool\<close> can stand where an object is read, because \<open>tl.all.objects\<close> maps the two
  boolean constructors to \<open>BoolTrue\<close> and \<open>BoolFalse\<close>; it is \<open>BoolObj\<close>.
\<close>

datatype prim_vector =
    IntV "int list" | LongV "int list" | FloatV "pyfloat list"
  | Int128V "int list" | Int256V "int list"
  | BoolV "bool list" | BytesV "byte list list" | StringV "pystr list"

datatype tl_array = Array_i "int list" | Array_q "int list" | Array_d "pyfloat list"

datatype 'g tl_object =
    Generated 'g
  | BoolObj bool
  | MessageObj "'g tl_message"
  | MsgContainer "'g tl_message list"
  | RpcResult int "'g tl_value"
  | GzipPacked "byte list"
  | FutureSalts int int "'g list"
and 'g tl_message = Message (message_id: int) (seq_no: int) (msg_obj: "'g tl_object")
and 'g tl_value =
    VRawInt int
  | VInt int_class int
  | VFloat pyfloat
  | VBytes "byte list"
  | VStr pystr
  | VObj "'g tl_object"
  | VRawList "'g tl_value list"
  | VVector prim_vector
  | VObjVector "'g tl_object list"
  | VArray tl_array
  | VOther

record 'g registry =
  gen_tlid :: "'g \<Rightarrow> int"
  gen_write :: "'g \<Rightarrow> byte list res"
  gen_objects :: "int \<Rightarrow> 'g reader option"
  salt_serialize :: "'g \<Rightarrow> byte list res"
  salt_deserialize :: "'g reader"
  decompress :: "byte list \<Rightarrow> byte list res"

abbreviation Message_tlid :: int where "Message_tlid \<equiv> 0x5bb8e511"
abbreviation MsgContainer_tlid :: int where "MsgContainer_tlid \<equiv> 0x73f1f8dc"
abbreviation RpcResult_tlid :: int where "RpcResult_tlid \<equiv> 0xf35c6d01"
abbreviation GzipPacked_tlid :: int where "GzipPacked_tlid \<equiv> 0x3072cfa1"
abbreviation FutureSalts_tlid :: int where "FutureSalts_tlid \<equiv> 0xae500895"
abbreviation BoolTrue_tlid :: int where "BoolTrue_tlid \<equiv> 0x997275b5"
abbreviation BoolFalse_tlid :: int where "BoolFalse_tlid \<equiv> 0xbc799737"

definition core_tlids :: "int set" where
  "core_tlids = {Message_tlid, MsgContainer_tlid, RpcResult_tlid, GzipPacked_tlid,
     FutureSalts_tlid, BoolTrue_tlid, BoolFalse_tlid}"

fun tlid :: "'g registry \<Rightarrow> 'g tl_object \<Rightarrow> int" where
  "tlid R (Generated g) = gen_tlid R g"
| "tlid R (BoolObj b) = (if b then BoolTrue_tlid else BoolFalse_tlid)"
| "tlid R (MessageObj _) = Message_tlid"
| "tlid R (MsgContainer _) = MsgContainer_tlid"
| "tlid R (RpcResult _ _) = RpcResult_tlid"
| "tlid R (GzipPacked _) = GzipPacked_tlid"
| "tlid R (FutureSalts _ _ _) = FutureSalts_tlid"

section \<open>Writing\<close>

fun prim_vector_write :: "prim_vector writer" where
  "prim_vector_write (IntV xs) = IntVector_write xs"
| "prim_vector_write (LongV xs) = LongVector_write xs"
| "prim_vector_write (FloatV xs) = FloatVector_write xs"
| "prim_vector_write (Int128V xs) = ElementVector_write (Int_write TInt128 True) xs"
| "prim_vector_write (Int256V xs) = ElementVector_write (Int_write TInt256 True) xs"
| "prim_vector_write (BoolV xs) = ElementVector_write Bool_write xs"
| "prim_vector_write (BytesV xs) = ElementVector_write Bytes_write xs"
| "prim_vector_write (StringV xs) = ElementVector_write String_write xs"

fun array_length :: "tl_array \<Rightarrow> nat" where
  "array_length (Array_i xs) = length xs"
| "array_length (Array_q xs) = length xs"
| "array_length (Array_d xs) = length xs"

fun array_tobytes :: "tl_array \<Rightarrow> byte list res" where
  "array_tobytes (Array_i xs) = write_all (py_to_bytes_le 4 True) xs"
| "array_tobytes (Array_q xs) = write_all (py_to_bytes_le 8 True) xs"
| "array_tobytes (Array_d xs) = write_all Float_write xs"

text \<open>The fields of a message around its already written body.\<close>

definition Message_frame :: "int \<Rightarrow> int \<Rightarrow> byte list \<Rightarrow> byte list res" where
  "Message_frame mid seq body =
     rbind (Int_write TLong True mid) (\<lambda>a.
     rbind (Int_write TInt True seq) (\<lambda>b.
     rbind (Int_write TInt True (int (length body))) (\<lambda>c. Inr (a @ b @ c @ body))))"

text \<open>
  \<open>TLObject.write\<close> puts the constructor in front of \<open>serialize\<close>; \<open>Message\<close> overrides it
  and writes no constructor. A \<open>bool\<close> has no \<open>write\<close> method.
\<close>

fun TLObject_write :: "'g registry \<Rightarrow> 'g tl_object \<Rightarrow> byte list res"
  and TLObject_write_all :: "'g registry \<Rightarrow> 'g tl_object list \<Rightarrow> byte list res"
  and Message_serialize :: "'g registry \<Rightarrow> 'g tl_message \<Rightarrow> byte list res"
  and Message_serialize_all :: "'g registry \<Rightarrow> 'g tl_message list \<Rightarrow> byte list res"
  and SerializationUtils_write :: "'g registry \<Rightarrow> 'g tl_value \<Rightarrow> byte list res" where
  "TLObject_write R (Generated g) = gen_write R g"
| "TLObject_write R (BoolObj b) = Inl AttributeError"
| "TLObject_write R (MessageObj m) = Message_serialize R m"
| "TLObject_write R (MsgContainer ms) =
     rbind (Int_write TInt False MsgContainer_tlid) (\<lambda>i.
     rbind (Int_write TInt True (int (length ms))) (\<lambda>n.
     rbind (Message_serialize_all R ms) (\<lambda>bs. Inr (i @ n @ bs))))"
| "TLObject_write R (RpcResult mid v) =
     rbind (Int_write TInt False RpcResult_tlid) (\<lambda>i.
     rbind (Int_write TLong True mid) (\<lambda>m.
     rbind (SerializationUtils_write R v) (\<lambda>bs. Inr (i @ m @ bs))))"
| "TLObject_write R (GzipPacked p) =
     rbind (Int_write TInt False GzipPacked_tlid) (\<lambda>i.
     rbind (Bytes_write p) (\<lambda>bs. Inr (i @ bs)))"
| "TLObject_write R (FutureSalts mid now salts) =
     rbind (Int_write TInt False FutureSalts_tlid) (\<lambda>i.
     rbind (Int_write TLong True mid) (\<lambda>m.
     rbind (Int_write TInt True now) (\<lambda>t.
     rbind (Int_write TInt True (int (length salts))) (\<lambda>n.
     rbind (write_all (salt_serialize R) salts) (\<lambda>bs. Inr (i @ m @ t @ n @ bs))))))"
| "TLObject_write_all R [] = Inr []"
| "TLObject_write_all R (x # xs) =
     rbind (TLObject_write R x) (\<lambda>b. rbind (TLObject_write_all R xs) (\<lambda>bs. Inr (b @ bs)))"
| "Message_serialize R (Message mid seq x) = rbind (TLObject_write R x) (Message_frame mid seq)"
| "Message_serialize_all R [] = Inr []"
| "Message_serialize_all R (m # ms) =
     rbind (Message_serialize R m) (\<lambda>b. rbind (Message_serialize_all R ms) (\<lambda>bs. Inr (b @ bs)))"
| "SerializationUtils_write R (VRawInt n) = Inl TypeError"
| "SerializationUtils_write R (VInt c n) = Int_write c True n"
| "SerializationUtils_write R (VFloat x) = Float_write x"
| "SerializationUtils_write R (VBytes bs) = Bytes_write bs"
| "SerializationUtils_write R (VStr cs) = String_write cs"
| "SerializationUtils_write R (VObj x) =
     (case x of BoolObj b \<Rightarrow> Inr (if b then BOOL_TRUE else BOOL_FALSE) | _ \<Rightarrow> TLObject_write R x)"
| "SerializationUtils_write R (VRawList vs) = (if vs = [] then Inr EMPTY_VECTOR else Inl TypeError)"
| "SerializationUtils_write R (VVector v) = prim_vector_write v"
| "SerializationUtils_write R (VObjVector xs) =
     rbind (Vector_header (int (length xs))) (\<lambda>hd.
     rbind (TLObject_write_all R xs) (\<lambda>bs. Inr (hd @ bs)))"
| "SerializationUtils_write R (VArray a) =
     rbind (Int_write TInt True (int (array_length a))) (\<lambda>n.
     rbind (array_tobytes a) (\<lambda>bs. Inr (VECTOR @ n @ bs)))"
| "SerializationUtils_write R VOther = Inl TypeError"

section \<open>Reading\<close>

text \<open>\<open>Message.deserialize\<close>, over the reader of the body; the body has its own stream.\<close>

definition Message_deserialize :: "'g tl_object reader \<Rightarrow> 'g tl_message reader" where
  "Message_deserialize rd s =
     rbind (Int_read TLong True s) (\<lambda>(mid, s1).
     rbind (Int_read TInt True s1) (\<lambda>(seq, s2).
     rbind (Int_read TInt True s2) (\<lambda>(len, s3).
     case stream_read len s3 of
       (b, s4) \<Rightarrow> rbind (rd b) (\<lambda>(body, _). Inr (Message mid seq body, s4)))))"

definition MsgContainer_deserialize :: "'g tl_object reader \<Rightarrow> 'g tl_object reader" where
  "MsgContainer_deserialize rd s =
     rbind (Int_read TInt True s) (\<lambda>(count, s1).
     rbind (read_n (nat count) (Message_deserialize rd) s1) (\<lambda>(ms, s2). Inr (MsgContainer ms, s2)))"

definition RpcResult_deserialize :: "'g tl_object reader \<Rightarrow> 'g tl_object reader" where
  "RpcResult_deserialize rd s =
     rbind (Int_read TLong True s) (\<lambda>(mid, s1).
     rbind (rd s1) (\<lambda>(x, s2). Inr (RpcResult mid (VObj x), s2)))"

definition GzipPacked_deserialize :: "'g registry \<Rightarrow> 'g tl_object reader \<Rightarrow> 'g tl_object reader" where
  "GzipPacked_deserialize R rd s =
     rbind (Bytes_read s) (\<lambda>(packed, s1).
     rbind (decompress R packed) (\<lambda>d.
     rbind (rd d) (\<lambda>(x, _). Inr (x, s1))))"

definition FutureSalts_deserialize :: "'g registry \<Rightarrow> 'g tl_object reader" where
  "FutureSalts_deserialize R s =
     rbind (Int_read TLong True s) (\<lambda>(mid, s1).
     rbind (Int_read TInt True s1) (\<lambda>(now, s2).
     rbind (Int_read TInt True s2) (\<lambda>(count, s3).
     rbind (read_n (nat count) (salt_deserialize R) s3) (\<lambda>(salts, s4).
     Inr (FutureSalts mid now salts, s4)))))"

text \<open>The dispatch on the constructor, as \<open>tl.all.objects\<close> is built: the core entries win.\<close>

definition deserialize_constructor ::
    "'g registry \<Rightarrow> 'g tl_object reader \<Rightarrow> int \<Rightarrow> 'g tl_object reader" where
  "deserialize_constructor R rd c s =
     (if c = Message_tlid then rbind (Message_deserialize rd s) (\<lambda>(m, s'). Inr (MessageObj m, s'))
      else if c = MsgContainer_tlid then MsgContainer_deserialize rd s
      else if c = RpcResult_tlid then RpcResult_deserialize rd s
      else if c = GzipPacked_tlid then GzipPacked_deserialize R rd s
      else if c = FutureSalts_tlid then FutureSalts_deserialize R s
      else if c = BoolTrue_tlid then
        rbind (BoolTrue_deserialize s) (\<lambda>(b, s'). Inr (BoolObj b, s'))
      else if c = BoolFalse_tlid then
        rbind (BoolFalse_deserialize s) (\<lambda>(b, s'). Inr (BoolObj b, s'))
      else case gen_objects R c of
        None \<Rightarrow> Inl (UnknownConstructorException c)
      | Some d \<Rightarrow> rbind (d s) (\<lambda>(g, s'). Inr (Generated g, s')))"

fun TLObject_read :: "'g registry \<Rightarrow> nat \<Rightarrow> 'g tl_object reader" where
  "TLObject_read R 0 s = Inl RecursionError"
| "TLObject_read R (Suc n) s =
     rbind (Int_read TInt False s)
       (\<lambda>(c, s'). deserialize_constructor R (TLObject_read R n) c s')"

text \<open>\<open>TLObject.read\<close> on a generated class: only that class's constructor is accepted.\<close>

definition TLObject_read_class :: "int \<Rightarrow> 'g reader \<Rightarrow> 'g reader" where
  "TLObject_read_class own d s =
     rbind (Int_read TInt False s)
       (\<lambda>(c, s'). if c \<noteq> own then Inl (InvalidConstructorException c) else d s')"

datatype vector_kind = KInt | KLong | KFloat | KInt128 | KInt256 | KBool | KBytes | KString | KObject

datatype tl_type =
    TyInt int_class | TyFloat | TyBool | TyBytes | TyStr | TyObject | TyRawList
  | TyVector vector_kind | TyOther

fun Vector_read :: "'g tl_object reader \<Rightarrow> vector_kind \<Rightarrow> 'g tl_value reader" where
  "Vector_read rd KInt s = rbind (IntVector_read s) (\<lambda>(v, s'). Inr (VArray (Array_i v), s'))"
| "Vector_read rd KLong s = rbind (LongVector_read s) (\<lambda>(v, s'). Inr (VArray (Array_q v), s'))"
| "Vector_read rd KFloat s = rbind (FloatVector_read s) (\<lambda>(v, s'). Inr (VArray (Array_d v), s'))"
| "Vector_read rd KInt128 s =
     rbind (ElementVector_read (Int_read TInt128 True) s) (\<lambda>(v, s'). Inr (VVector (Int128V v), s'))"
| "Vector_read rd KInt256 s =
     rbind (ElementVector_read (Int_read TInt256 True) s) (\<lambda>(v, s'). Inr (VVector (Int256V v), s'))"
| "Vector_read rd KBool s =
     rbind (ElementVector_read Bool_read s) (\<lambda>(v, s'). Inr (VVector (BoolV v), s'))"
| "Vector_read rd KBytes s =
     rbind (ElementVector_read Bytes_read s) (\<lambda>(v, s'). Inr (VVector (BytesV v), s'))"
| "Vector_read rd KString s =
     rbind (ElementVector_read String_read s) (\<lambda>(v, s'). Inr (VVector (StringV v), s'))"
| "Vector_read rd KObject s =
     rbind (ElementVector_read rd s) (\<lambda>(v, s'). Inr (VObjVector v, s'))"

fun SerializationUtils_read :: "'g tl_object reader \<Rightarrow> tl_type \<Rightarrow> 'g tl_value reader" where
  "SerializationUtils_read rd (TyInt c) s = rbind (Int_read c True s) (\<lambda>(v, s'). Inr (VInt c v, s'))"
| "SerializationUtils_read rd TyFloat s = rbind (Float_read s) (\<lambda>(v, s'). Inr (VFloat v, s'))"
| "SerializationUtils_read rd TyBool s =
     (case stream_read 4 s of (k, s') \<Rightarrow> Inr (VObj (BoolObj (k = BOOL_TRUE)), s'))"
| "SerializationUtils_read rd TyBytes s = rbind (Bytes_read s) (\<lambda>(v, s'). Inr (VBytes v, s'))"
| "SerializationUtils_read rd TyStr s = rbind (String_read s) (\<lambda>(v, s'). Inr (VStr v, s'))"
| "SerializationUtils_read rd TyObject s = rbind (rd s) (\<lambda>(v, s'). Inr (VObj v, s'))"
| "SerializationUtils_read rd TyRawList s = Inl TypeError"
| "SerializationUtils_read rd (TyVector k) s = Vector_read rd k s"
| "SerializationUtils_read rd TyOther s = Inl TypeError"

section \<open>Content-related messages\<close>

definition is_id_strictly_not_content_related :: "int \<Rightarrow> bool" where
  "is_id_strictly_not_content_related i =
     (i \<in> {0x62d6b459, 0xda69fb52, 0x04deb57d, MsgContainer_tlid})"

definition is_content_related :: "'g registry \<Rightarrow> 'g tl_object \<Rightarrow> bool" where
  "is_content_related R x = (\<not> is_id_strictly_not_content_related (tlid R x))"

definition is_id_strictly_content_related :: "int \<Rightarrow> bool" where
  "is_id_strictly_content_related i = (i = RpcResult_tlid)"

end
