(* ===== verification/TlCoreFacts.thy ===== *)
theory TlCoreFacts
  imports TlCore
begin

text \<open>
  What the TL object layer promises: an object that was written is read back, over any registry
  whose generated classes do so themselves; enough recursion for that is the nesting depth of
  the object; more recursion never changes a result; a gzip wrapper is transparent.
\<close>

section \<open>Registries, nesting depth and readable objects\<close>

text \<open>
  The generated classes, as the generator emits them: \<open>write\<close> is the constructor followed by
  the fields, the class is registered under its constructor, which is none of the core ones,
  and \<open>deserialize\<close> reads the fields back. \<open>FutureSalt\<close> is written without a constructor.
\<close>

definition registry_ok :: "'g registry \<Rightarrow> bool" where
  "registry_ok R \<longleftrightarrow>
     (\<forall>g bs. gen_write R g = Inr bs \<longrightarrow>
        (\<exists>c i body d. Int_write TInt False c = Inr i \<and> bs = i @ body \<and> c \<notin> core_tlids
           \<and> gen_objects R c = Some d \<and> (\<forall>s. d (body @ s) = Inr (g, s)))) \<and>
     (\<forall>g bs s. salt_serialize R g = Inr bs \<longrightarrow> salt_deserialize R (bs @ s) = Inr (g, s))"

fun depth :: "'g tl_object \<Rightarrow> nat"
  and depths :: "'g tl_message list \<Rightarrow> nat" where
  "depth (MsgContainer ms) = Suc (depths ms)"
| "depth (RpcResult _ v) = (case v of VObj x \<Rightarrow> Suc (depth x) | _ \<Rightarrow> 1)"
| "depth _ = 1"
| "depths [] = 0"
| "depths (Message _ _ x # ms) = max (depth x) (depths ms)"

text \<open>
  What \<open>TLObject.read\<close> can give back as it was: not a bare \<open>Message\<close>, which is written without
  its constructor, not a \<open>GzipPacked\<close>, which is read as its content, and in an RPC result an
  object or a boolean, because the constructor of a vector is not registered.
\<close>

fun readable :: "'g tl_object \<Rightarrow> bool"
  and readables :: "'g tl_message list \<Rightarrow> bool" where
  "readable (MessageObj _) = False"
| "readable (GzipPacked _) = False"
| "readable (MsgContainer ms) = readables ms"
| "readable (RpcResult _ v) = (case v of VObj x \<Rightarrow> readable x | _ \<Rightarrow> False)"
| "readable _ = True"
| "readables [] = True"
| "readables (Message _ _ x # ms) = (readable x \<and> readables ms)"

section \<open>Reading back\<close>

lemma core_tlid_write [simp]:
  "Int_write TInt False c = Inr i \<Longrightarrow> Int_read TInt False (i @ s) = Inr (c, s)"
  by (rule Int_read_write)

lemma Message_frame_read:
  assumes "Message_frame mid seq body = Inr bs"
  shows "Message_deserialize rd (bs @ s) = rbind (rd body) (\<lambda>(x, _). Inr (Message mid seq x, s))"
  using assms
  by (auto simp: Message_frame_def rbind_Inr_iff Message_deserialize_def codec_simps stream_read_append)

lemma bool_constructor_bytes:
  "Int_write TInt False BoolTrue_tlid = Inr BOOL_TRUE"
  "Int_write TInt False BoolFalse_tlid = Inr BOOL_FALSE"
  by (simp_all add: Int_write_def py_to_bytes_le_def int_fits_def BOOL_TRUE_def BOOL_FALSE_def byte_eval)

lemma bool_read:
  "TLObject_read R (Suc n) ((if b then BOOL_TRUE else BOOL_FALSE) @ s) = Inr (BoolObj b, s)"
  by (cases b)
    (simp_all add: core_tlid_write [OF bool_constructor_bytes(1)]
      core_tlid_write [OF bool_constructor_bytes(2)]
      deserialize_constructor_def BoolTrue_deserialize_def BoolFalse_deserialize_def)

lemma generated_read:
  assumes "registry_ok R" "gen_write R g = Inr bs"
  shows "TLObject_read R (Suc n) (bs @ s) = Inr (Generated g, s)"
proof -
  obtain c i body d where "Int_write TInt False c = Inr i" "bs = i @ body" "c \<notin> core_tlids"
      "gen_objects R c = Some d" "\<And>s. d (body @ s) = Inr (g, s)"
    using assms unfolding registry_ok_def by metis
  then show ?thesis by (simp add: deserialize_constructor_def core_tlids_def)
qed

lemma salts_read:
  assumes "registry_ok R" "write_all (salt_serialize R) xs = Inr bs"
  shows "read_n (length xs) (salt_deserialize R) (bs @ s) = Inr (xs, s)"
proof -
  have "tl_codec (salt_serialize R) (salt_deserialize R)"
    using assms(1) by (simp add: tl_codec_def registry_ok_def)
  then show ?thesis using assms(2) by (rule tl_codec.read_n_write_all)
qed

lemma depth_pos: "0 < depth x"
  by (cases x) (auto split: tl_value.splits)

lemma messages_read:
  assumes obj: "\<And>x bs s. readable x \<Longrightarrow> depth x \<le> n \<Longrightarrow> TLObject_write R x = Inr bs \<Longrightarrow>
      TLObject_read R n (bs @ s) = Inr (x, s)"
  shows "readables ms \<Longrightarrow> depths ms \<le> n \<Longrightarrow> Message_serialize_all R ms = Inr cs \<Longrightarrow>
      read_n (length ms) (Message_deserialize (TLObject_read R n)) (cs @ s) = Inr (ms, s)"
proof (induction ms arbitrary: cs)
  case (Cons m ms)
  obtain mid seq x where m: "m = Message mid seq x" by (cases m)
  from Cons.prems(3) obtain body b r where w: "TLObject_write R x = Inr body"
      "Message_frame mid seq body = Inr b" "Message_serialize_all R ms = Inr r" "cs = b @ r"
    by (auto simp: m rbind_Inr_iff)
  have "TLObject_read R n (body @ []) = Inr (x, [])"
    using Cons.prems(1,2) w(1) by (intro obj) (auto simp: m)
  moreover have "read_n (length ms) (Message_deserialize (TLObject_read R n)) (r @ s) = Inr (ms, s)"
    using Cons.prems(1,2) w(3) by (intro Cons.IH) (auto simp: m)
  ultimately show ?case by (simp add: w(4) m Message_frame_read [OF w(2)])
qed simp

lemma read_written:
  assumes "registry_ok R"
  shows "readable x \<Longrightarrow> depth x \<le> n \<Longrightarrow> TLObject_write R x = Inr bs \<Longrightarrow>
    TLObject_read R n (bs @ s) = Inr (x, s)"
proof (induction n arbitrary: x bs s)
  case 0
  then show ?case using depth_pos [of x] by simp
next
  case (Suc n)
  note IH = Suc.IH and readable = Suc.prems(1) and deep = Suc.prems(2) and w = Suc.prems(3)
  show ?case
  proof (cases x)
    case (Generated g)
    then show ?thesis using w by (auto intro: generated_read [OF assms] simp del: TLObject_read.simps)
  next
    case (MsgContainer ms)
    from w obtain i k cs where ws: "Int_write TInt False MsgContainer_tlid = Inr i"
        "Int_write TInt True (int (length ms)) = Inr k" "Message_serialize_all R ms = Inr cs"
        "bs = i @ k @ cs"
      by (auto simp: MsgContainer rbind_Inr_iff)
    have "read_n (length ms) (Message_deserialize (TLObject_read R n)) (cs @ s) = Inr (ms, s)"
      using readable deep ws(3) by (intro messages_read IH) (simp_all add: MsgContainer)
    then show ?thesis using ws(1,2,4)
      by (simp add: MsgContainer deserialize_constructor_def MsgContainer_deserialize_def codec_simps)
  next
    case (RpcResult mid v)
    then obtain y where v: "v = VObj y" "readable y" "depth y \<le> n"
      using readable deep by (cases v) auto
    from w obtain i k ys where ws: "Int_write TInt False RpcResult_tlid = Inr i"
        "Int_write TLong True mid = Inr k" "SerializationUtils_write R v = Inr ys" "bs = i @ k @ ys"
      by (auto simp: RpcResult rbind_Inr_iff)
    have "TLObject_read R n (ys @ s) = Inr (y, s)"
    proof (cases "\<exists>b. y = BoolObj b")
      case True
      obtain n' where "n = Suc n'" using v(3) depth_pos [of y] by (cases n) auto
      then show ?thesis using True ws(3) v(1) by (auto simp: bool_read simp del: TLObject_read.simps)
    next
      case False
      then have "TLObject_write R y = Inr ys" using ws(3) v(1) by (cases y) auto
      then show ?thesis using IH v by blast
    qed
    then show ?thesis using ws
      by (simp add: RpcResult v(1) deserialize_constructor_def RpcResult_deserialize_def codec_simps)
  next
    case (FutureSalts mid now salts)
    from w obtain i m t k cs where "Int_write TInt False FutureSalts_tlid = Inr i"
        "Int_write TLong True mid = Inr m" "Int_write TInt True now = Inr t"
        "Int_write TInt True (int (length salts)) = Inr k"
        "write_all (salt_serialize R) salts = Inr cs" "bs = i @ m @ t @ k @ cs"
      by (auto simp: FutureSalts rbind_Inr_iff)
    then show ?thesis using salts_read [OF assms, of salts cs s]
      by (simp add: FutureSalts deserialize_constructor_def FutureSalts_deserialize_def codec_simps)
  qed (use readable w in auto)
qed

section \<open>Recursion\<close>

text \<open>More fuel never changes what reading returns, an exception other than the fuel's included.\<close>

definition fuel_le :: "'a res \<Rightarrow> 'a res \<Rightarrow> bool" where
  "fuel_le m m' \<longleftrightarrow> m = m' \<or> m = Inl RecursionError"

lemma fuel_le_refl: "fuel_le m m"
  by (simp add: fuel_le_def)

lemma fuel_le_rbind:
  "fuel_le m m' \<Longrightarrow> (\<And>x. fuel_le (f x) (g x)) \<Longrightarrow> fuel_le (rbind m f) (rbind m' g)"
  by (cases m) (auto simp: fuel_le_def rbind_def split: sum.splits)

lemma fuel_le_prod: "(\<And>a b. fuel_le (f a b) (g a b)) \<Longrightarrow> fuel_le (case_prod f p) (case_prod g p)"
  by (cases p) simp

lemmas fuel_le_intros = fuel_le_rbind fuel_le_prod fuel_le_refl

lemma read_n_mono: "(\<And>s. fuel_le (rd s) (rd' s)) \<Longrightarrow> fuel_le (read_n n rd s) (read_n n rd' s)"
  by (induction n arbitrary: s) (simp_all add: fuel_le_intros)

lemma Message_deserialize_mono:
  "(\<And>s. fuel_le (rd s) (rd' s)) \<Longrightarrow> fuel_le (Message_deserialize rd s) (Message_deserialize rd' s)"
  unfolding Message_deserialize_def by (intro fuel_le_intros)

lemma deserialize_constructor_mono:
  assumes "\<And>s. fuel_le (rd s) (rd' s)"
  shows "fuel_le (deserialize_constructor R rd c s) (deserialize_constructor R rd' c s)"
  unfolding deserialize_constructor_def MsgContainer_deserialize_def RpcResult_deserialize_def
    GzipPacked_deserialize_def
  by (simp add: fuel_le_intros assms read_n_mono Message_deserialize_mono)

lemma TLObject_read_mono: "fuel_le (TLObject_read R n s) (TLObject_read R (Suc n) s)"
proof (induction n arbitrary: s)
  case (Suc n)
  show ?case
    by (subst (1 2) TLObject_read.simps(2)) (intro fuel_le_intros deserialize_constructor_mono Suc.IH)
qed (simp add: fuel_le_def)

lemma TLObject_read_fuel:
  assumes "TLObject_read R n s = r" "r \<noteq> Inl RecursionError" "n \<le> m"
  shows "TLObject_read R m s = r"
  using assms(3)
proof (induction m rule: dec_induct)
  case (step k)
  then show ?case using TLObject_read_mono [of R k s] assms(2) by (simp add: fuel_le_def del: TLObject_read.simps)
qed (use assms in simp)

section \<open>Gzip\<close>

text \<open>Reading a gzip wrapper is reading its content, with the rest of the outer stream kept.\<close>

lemma gzip_read:
  assumes "TLObject_write R (GzipPacked p) = Inr bs"
  shows "TLObject_read R (Suc n) (bs @ s) =
    rbind (decompress R p) (\<lambda>d. rbind (TLObject_read R n d) (\<lambda>(x, _). Inr (x, s)))"
  using assms
  by (auto simp: rbind_Inr_iff deserialize_constructor_def GzipPacked_deserialize_def codec_simps)

text \<open>Nothing bounds the nesting: a gzip stream that decompresses to itself never resolves.\<close>

lemma gzip_quine:
  assumes "TLObject_write R (GzipPacked p) = Inr bs" "decompress R p = Inr bs"
  shows "TLObject_read R n bs = Inl RecursionError"
proof (induction n)
  case (Suc n)
  then show ?case using gzip_read [OF assms(1), of n "[]"] assms(2)
    by (simp del: TLObject_read.simps)
qed simp

end
