(* ===== verification/TlProperties.thy ===== *)
theory TlProperties
  imports TlCoreFacts
begin

text \<open>
  What the wire format promises (\<^verbatim>\<open>piltover/tl\<close>): objects, byte strings, texts and vectors are
  read back as they were written; the recursion limit only decides whether reading ends.
\<close>

section \<open>The wire format\<close>

text \<open>
  A registry with one generated class, a \<open>pong\<close> that carries an identifier, and with
  \<open>FutureSalt\<close> as one number: a concrete registry for the witnesses.
\<close>

definition pong_tlid :: int where
  "pong_tlid = 0x347773c5"

definition pong_registry :: "int registry" where
  "pong_registry =
     \<lparr>gen_tlid = (\<lambda>_. pong_tlid),
      gen_write = (\<lambda>g. rbind (Int_write TInt False pong_tlid) (\<lambda>i.
                       rbind (Int_write TLong True g) (\<lambda>b. Inr (i @ b)))),
      gen_objects = [pong_tlid \<mapsto> Int_read TLong True],
      salt_serialize = Int_write TLong True,
      salt_deserialize = Int_read TLong True,
      decompress = (\<lambda>_. Inr [0xa1, 0xcf, 0x72, 0x30, 0, 0, 0, 0])\<rparr>"

lemma pong_registry_ok: "registry_ok pong_registry"
proof -
  have "pong_tlid \<notin> core_tlids" by (simp add: pong_tlid_def core_tlids_def)
  then show ?thesis
    unfolding registry_ok_def pong_registry_def
    by (auto simp: rbind_Inr_iff intro!: Int_read_write)
qed



text \<open>
  The recursion limit only decides whether reading ends: a result other than
  \<open>RecursionError\<close>, an exception included, is the same under every higher limit.
\<close>

theorem tl_read_limit:
  assumes "TLObject_read R n s \<noteq> Inl RecursionError" "n \<le> m"
  shows "TLObject_read R m s = TLObject_read R n s"
  using TLObject_read_fuel [OF refl assms] .

lemma tl_read_limit_witness:
  "TLObject_read pong_registry 7 BOOL_TRUE = Inr (BoolObj True, [])"
proof -
  have "TLObject_read pong_registry 1 BOOL_TRUE = Inr (BoolObj True, [])"
    using bool_read [of pong_registry 0 True "[]"] by simp
  then show ?thesis using tl_read_limit [of pong_registry 1 BOOL_TRUE 7] by simp
qed

text \<open>
  Nothing bounds the nesting of gzip wrappers: a packed object whose data decompresses to
  the object itself exhausts every recursion limit.
\<close>

theorem gzip_nesting_unbounded:
  assumes "TLObject_write R (GzipPacked p) = Inr bs" "decompress R p = Inr bs"
  shows "\<forall>n. TLObject_read R n bs = Inl RecursionError"
  using gzip_quine [OF assms] by blast

lemma gzip_nesting_unbounded_witness:
  "\<forall>n. TLObject_read pong_registry n [0xa1, 0xcf, 0x72, 0x30, 0, 0, 0, 0] = Inl RecursionError"
  by (rule gzip_nesting_unbounded [of _ "[]"])
    (simp_all add: pong_registry_def Bytes_write_def Int_write_def py_to_bytes_le_def int_fits_def
      rbind_def Let_def byte_eval numeral_3_eq_3)

section \<open>Byte strings, texts and vectors\<close>

text \<open>
  A byte string shorter than 16 MiB is written padded to whole words and read back exactly,
  whatever follows it; a longer one cannot be written.
\<close>

theorem bytes_on_the_wire:
  "if length v < 2 ^ 24
   then \<exists>bs. Bytes_write v = Inr bs \<and> 4 dvd length bs \<and> (\<forall>s. Bytes_read (bs @ s) = Inr (v, s))
   else Bytes_write v = Inl OverflowError"
proof (cases "length v < 2 ^ 24")
  case True
  then obtain bs where bs: "Bytes_write v = Inr bs" by (simp add: Bytes_write_eq)
  then show ?thesis using True Bytes_write_aligned [OF bs] Bytes_read_write [OF bs] by auto
next
  case False
  then show ?thesis by (simp add: Bytes_write_eq)
qed

text \<open>
  A vector of texts is read back as it was written: the count, every text in UTF-8 with its
  length and padding, and none of the bytes that follow.
\<close>

theorem text_vector_roundtrip:
  assumes "ElementVector_write String_write xs = Inr bs"
  shows "ElementVector_read String_read (bs @ s) = Inr (xs, s)"
  using assms by (rule string_vector.rd_wr)

lemma text_vector_roundtrip_witness:
  "\<exists>bs. ElementVector_write String_write [[0x68, 0x20ac], []] = Inr bs
    \<and> ElementVector_read String_read (bs @ [7]) = Inr ([[0x68, 0x20ac], []], [7])"
proof -
  have "\<not> isl (ElementVector_write String_write [[0x68, 0x20ac], []])"
    by (simp add: ElementVector_write_def String_write_def utf8_char_def Bytes_write_eq Vector_header_def VECTOR_def
        Int_write_def py_to_bytes_le_def int_fits_def rbind_def Let_def byte_eval)
  then have "\<exists>bs. ElementVector_write String_write [[0x68, 0x20ac], []] = Inr bs"
    by (cases "ElementVector_write String_write [[0x68, 0x20ac], []]") simp_all
  then show ?thesis using text_vector_roundtrip by blast
qed

text \<open>
  A vector of 64-bit numbers is read back as it was written; numbers that do not fit are
  refused by the writer.
\<close>

theorem long_vector_roundtrip:
  assumes "LongVector_write xs = Inr bs"
  shows "LongVector_read (bs @ s) = Inr (xs, s)"
  using assms by (rule long_vector.rd_wr)

lemma long_vector_roundtrip_witness:
  "\<exists>bs. LongVector_write [- 1, 2 ^ 62] = Inr bs \<and> LongVector_read (bs @ [9]) = Inr ([- 1, 2 ^ 62], [9])"
proof -
  have "\<not> isl (LongVector_write [- 1, 2 ^ 62])"
    by (simp add: LongVector_write_def PrimitiveVector_write_def Vector_header_def VECTOR_def
        Int_write_def py_to_bytes_le_def int_fits_def rbind_def Let_def byte_eval)
  then have "\<exists>bs. LongVector_write [- 1, 2 ^ 62] = Inr bs" by (cases "LongVector_write [- 1, 2 ^ 62]") simp_all
  then show ?thesis using long_vector_roundtrip by blast
qed

end
