(* ===== verification/SessionState.thy ===== *)
theory SessionState
  imports TlCore Complex_Main
begin

text \<open>
  The state of a session (\<^verbatim>\<open>piltover/session/session.py\<close>) and the operations that touch only
  that state: message identifiers and sequence numbers, salts, acknowledgements, the bounded
  record of completed RPCs, and the validation of incoming messages.

  \<open>asyncio\<close> tasks, events and locks appear as the flags another operation can see: whether a
  cleanup or a flush task is pending, and whether the waiting writer was woken. Time is a
  parameter of every operation that asks for it.
\<close>

section \<open>Keys and salts\<close>

record auth_data =
  auth_key_id :: "int option"
  auth_key :: "byte list option"
  perm_auth_key_id :: "int option"

definition AuthData_is_temp :: "auth_data \<Rightarrow> bool" where
  "AuthData_is_temp d = (auth_key_id d \<noteq> perm_auth_key_id d)"

definition check_key :: "auth_data \<Rightarrow> int option \<Rightarrow> bool" where
  "check_key d expected =
     (if auth_key d = None \<or> expected = None then False else auth_key_id d = expected)"

record salt =
  salt :: "byte list"
  valid_at :: int

record msg_id_values =
  last_time :: int
  offset :: int

section \<open>The session\<close>

type_synonym queued = "int \<times> int \<times> byte list"

record session =
  client :: "nat option"
  session_id :: int
  auth_data :: "auth_data option"
  min_msg_id :: int
  msg_id_values :: msg_id_values
  out_seq_no :: int
  user_id :: "int option"
  auth_id :: "int option"
  is_bot :: bool
  mfa_pending :: bool
  auth_loaded_at :: real
  had_init_connection :: bool
  channel_ids :: "int set"
  channels_loaded_at :: real
  salt_now :: salt
  salt_prev :: salt
  no_updates :: bool
  layer :: int
  is_internal_push :: bool
  message_queue :: "queued list"
  unencrypted_queue :: "(int \<times> byte list) list"
  message_available :: "nat option"
  rpc_completions :: "int \<Rightarrow> bool option"
  rpc_completed_ids :: "int set"
  rpc_completed_order :: "int list"
  upd_seq :: "int option"
  flush_task :: bool
  pending_outbound :: "(int \<times> int \<times> byte list) list"
  resend_pending_on_connect :: bool
  cleanup_task :: bool

definition zero_salt :: salt where
  "zero_salt = \<lparr>salt = replicate 8 0, valid_at = 0\<rparr>"

definition new_session :: "int \<Rightarrow> nat option \<Rightarrow> auth_data option \<Rightarrow> session" where
  "new_session sid c d =
     \<lparr>client = c, session_id = sid, auth_data = d, min_msg_id = 0,
      msg_id_values = \<lparr>last_time = 0, offset = 0\<rparr>, out_seq_no = 0,
      user_id = None, auth_id = None, is_bot = False, mfa_pending = False,
      auth_loaded_at = 0, had_init_connection = False,
      channel_ids = {}, channels_loaded_at = 0,
      salt_now = zero_salt, salt_prev = zero_salt,
      no_updates = False, layer = 133, is_internal_push = False,
      message_queue = [], unencrypted_queue = [], message_available = None,
      rpc_completions = (\<lambda>_. None), rpc_completed_ids = {}, rpc_completed_order = [],
      upd_seq = None, flush_task = False, pending_outbound = [],
      resend_pending_on_connect = False, cleanup_task = False\<rparr>"

definition uniq_id :: "session \<Rightarrow> int \<times> int" where
  "uniq_id s =
     (case auth_data s of
        None \<Rightarrow> 0
      | Some d \<Rightarrow> (case auth_key_id d of None \<Rightarrow> 0 | Some k \<Rightarrow> k), session_id s)"

section \<open>Message identifiers and sequence numbers\<close>

definition msg_id :: "real \<Rightarrow> bool \<Rightarrow> session \<Rightarrow> int \<times> session" where
  "msg_id t in_reply s =
     (let now = \<lfloor>t\<rfloor>;
          v = msg_id_values s;
          off = (if now = last_time v then offset v + 4 else 0)
      in (now * 2 ^ 32 + off + (if in_reply then 1 else 3),
          s\<lparr>msg_id_values := \<lparr>last_time = now, offset = off\<rparr>\<rparr>))"

definition get_outgoing_seq_no :: "bool \<Rightarrow> session \<Rightarrow> int \<times> session" where
  "get_outgoing_seq_no content_related s =
     (let ret = out_seq_no s * 2
      in if content_related then (ret + 1, s\<lparr>out_seq_no := out_seq_no s + 1\<rparr>) else (ret, s))"

definition pack_message ::
    "'g registry \<Rightarrow> real \<Rightarrow> 'g tl_object \<Rightarrow> bool \<Rightarrow> session \<Rightarrow> 'g tl_message \<times> session" where
  "pack_message R t x in_reply s =
     (let (mid, s1) = msg_id t in_reply s;
          (seq, s2) = get_outgoing_seq_no (is_content_related R x) s1
      in (Message mid seq x, s2))"

fun pack_all ::
    "'g registry \<Rightarrow> real \<Rightarrow> ('g tl_object \<times> bool) list \<Rightarrow> session \<Rightarrow> 'g tl_message list \<times> session" where
  "pack_all R t [] s = ([], s)"
| "pack_all R t ((x, in_reply) # xs) s =
     (let (m, s1) = pack_message R t x in_reply s; (ms, s2) = pack_all R t xs s1
      in (m # ms, s2))"

definition pack_container ::
    "'g registry \<Rightarrow> real \<Rightarrow> ('g tl_object \<times> bool) list \<Rightarrow> session \<Rightarrow> 'g tl_message \<times> session" where
  "pack_container R t objects s =
     (let (ms, s1) = pack_all R t objects s in pack_message R t (MsgContainer ms) False s1)"

section \<open>Acknowledgements\<close>

text \<open>
  \<open>pending_outbound\<close> is an \<open>OrderedDict\<close>: storing under a key that is present keeps its
  position, a new key goes to the end.
\<close>

fun od_set :: "'k \<Rightarrow> 'v \<Rightarrow> ('k \<times> 'v) list \<Rightarrow> ('k \<times> 'v) list" where
  "od_set k v [] = [(k, v)]"
| "od_set k v ((k', v') # xs) = (if k' = k then (k, v) # xs else (k', v') # od_set k v xs)"

definition od_pop :: "'k \<Rightarrow> ('k \<times> 'v) list \<Rightarrow> ('k \<times> 'v) list" where
  "od_pop k xs = filter (\<lambda>(k', _). k' \<noteq> k) xs"

definition track_pending_outbound :: "int \<Rightarrow> int \<Rightarrow> byte list \<Rightarrow> session \<Rightarrow> session" where
  "track_pending_outbound mid seq data s =
     s\<lparr>pending_outbound := od_set mid (seq, data) (pending_outbound s)\<rparr>"

fun ack_outbound :: "int list \<Rightarrow> session \<Rightarrow> session" where
  "ack_outbound [] s = s"
| "ack_outbound (m # ms) s = ack_outbound ms (s\<lparr>pending_outbound := od_pop m (pending_outbound s)\<rparr>)"

section \<open>Completed RPCs\<close>

abbreviation (input) RPC_COMPLETION_TRACK_LIMIT :: nat where
  "RPC_COMPLETION_TRACK_LIMIT \<equiv> 256"

text \<open>
  \<open>rpc_completions\<close> maps a message identifier to its event, and the event to whether it is
  set. The pruning loop pops the oldest identifier while more than the limit are recorded;
  popping from an empty deque raises \<open>IndexError\<close>, which the loop of the model keeps by
  stopping there with \<open>None\<close>.
\<close>

function prune_loop ::
    "int set \<Rightarrow> int list \<Rightarrow> (int \<Rightarrow> bool option) \<Rightarrow> (int set \<times> int list \<times> (int \<Rightarrow> bool option)) option" where
  "prune_loop ids order ev =
     (if card ids > RPC_COMPLETION_TRACK_LIMIT
      then case order of
             [] \<Rightarrow> None
           | oldest # rest \<Rightarrow> prune_loop (ids - {oldest}) rest (ev(oldest := None))
      else Some (ids, order, ev))"
  by pat_completeness auto
termination
  by (relation "measure (\<lambda>(ids, order, ev). length order)") auto

declare prune_loop.simps [simp del]

definition prune_rpc_completions :: "session \<Rightarrow> session res" where
  "prune_rpc_completions s =
     (case prune_loop (rpc_completed_ids s) (rpc_completed_order s) (rpc_completions s) of
        None \<Rightarrow> Inl IndexError
      | Some (ids, order, ev) \<Rightarrow>
          Inr (s\<lparr>rpc_completed_ids := ids, rpc_completed_order := order, rpc_completions := ev\<rparr>))"

definition mark_rpc_completed :: "int \<Rightarrow> session \<Rightarrow> session res" where
  "mark_rpc_completed m s =
     rbind
       (if m \<notin> rpc_completed_ids s
        then prune_rpc_completions
               (s\<lparr>rpc_completed_ids := insert m (rpc_completed_ids s),
                  rpc_completed_order := rpc_completed_order s @ [m]\<rparr>)
        else Inr s)
       (\<lambda>s1. Inr (if rpc_completions s1 m \<noteq> None
                  then s1\<lparr>rpc_completions := (rpc_completions s1)(m \<mapsto> True)\<rparr> else s1))"

text \<open>
  \<open>wait_for_rpc\<close> up to the await: either the RPC is known to be completed, or the caller waits
  on the event registered for it; \<open>wait_for_rpc_result\<close> is what the await returns, given whether
  the event was set before the timeout.
\<close>

datatype rpc_wait = Completed | WaitOn int

definition wait_for_rpc :: "int \<Rightarrow> session \<Rightarrow> rpc_wait \<times> session" where
  "wait_for_rpc m s =
     (if m \<in> rpc_completed_ids s then (Completed, s)
      else case rpc_completions s m of
             None \<Rightarrow> (WaitOn m, s\<lparr>rpc_completions := (rpc_completions s)(m \<mapsto> False)\<rparr>)
           | Some _ \<Rightarrow> (WaitOn m, s))"

definition wait_for_rpc_result :: "rpc_wait \<Rightarrow> bool \<Rightarrow> bool" where
  "wait_for_rpc_result w set_in_time = (case w of Completed \<Rightarrow> True | WaitOn _ \<Rightarrow> set_in_time)"

section \<open>Salts\<close>

text \<open>\<open>hmac\<close> is HMAC-SHA1 of the standard library: key, message, 20-byte digest.\<close>

definition make_salt :: "(byte list \<Rightarrow> byte list \<Rightarrow> byte list) \<Rightarrow> byte list \<Rightarrow> int \<Rightarrow> int \<Rightarrow> byte list res" where
  "make_salt hmac salt_key key_id timestamp =
     rbind (Int_write TLong True key_id) (\<lambda>a.
     rbind (Int_write TInt True timestamp) (\<lambda>b. Inr (take 8 (hmac salt_key (a @ b)))))"

definition salt_window :: "real \<Rightarrow> int" where
  "salt_window t = \<lfloor>t / (30 * 60)\<rfloor>"

definition update_salts_maybe ::
    "(byte list \<Rightarrow> byte list \<Rightarrow> byte list) \<Rightarrow> byte list \<Rightarrow> real \<Rightarrow> bool \<Rightarrow> session \<Rightarrow> session res" where
  "update_salts_maybe hmac salt_key t force s =
     (case Option.bind (auth_data s) auth_key_id of
        None \<Rightarrow> Inr (s\<lparr>salt_now := zero_salt, salt_prev := zero_salt\<rparr>)
      | Some k \<Rightarrow>
          (let now = salt_window t in
           if valid_at (salt_now s) = now \<and> \<not> force then Inr s
           else rbind (make_salt hmac salt_key k now) (\<lambda>a.
                rbind (make_salt hmac salt_key k (now - 1)) (\<lambda>b.
                Inr (s\<lparr>salt_now := \<lparr>salt = a, valid_at = now\<rparr>,
                       salt_prev := \<lparr>salt = b, valid_at = now - 1\<rparr>\<rparr>)))))"

section \<open>Incoming messages\<close>

record decrypted_packet =
  pkt_salt :: "byte list"
  pkt_session_id :: int
  pkt_message_id :: int
  pkt_seq_no :: int
  pkt_data :: "byte list"

definition bad_msg_code :: "real \<Rightarrow> int \<Rightarrow> decrypted_packet \<Rightarrow> int" where
  "bad_msg_code t inner_id p =
     (let m = pkt_message_id p; seq = pkt_seq_no p in
      if m mod 4 \<noteq> 0 then 18
      else if real_of_int (m div 2 ^ 32) < t - 300 then 16
      else if real_of_int (m div 2 ^ 32) > t + 30 then 17
      else if seq mod 2 = 1 \<and> is_id_strictly_not_content_related inner_id then 34
      else if seq mod 2 = 0 \<and> is_id_strictly_content_related inner_id then 35
      else 0)"

text \<open>
  \<open>is_message_bad\<close>: the notification that is enqueued for a message that is refused, \<open>None\<close>
  for one that is accepted.
\<close>

datatype bad_message =
    BadMsgNotification int int int
  | BadServerSalt int int int int

definition is_message_bad :: "real \<Rightarrow> decrypted_packet \<Rightarrow> bool \<Rightarrow> session \<Rightarrow> bad_message option res" where
  "is_message_bad t p check_salt s =
     rbind (Int_read_bytes TInt (take 4 (pkt_data p)) False) (\<lambda>inner_id.
     let code = bad_msg_code t inner_id p in
     if code \<noteq> 0 then Inr (Some (BadMsgNotification (pkt_message_id p) (pkt_seq_no p) code))
     else if check_salt \<and> pkt_salt p \<notin> {salt (salt_now s), salt (salt_prev s)}
     then rbind (Int_read_bytes TLong (salt (salt_now s)) True) (\<lambda>ns.
            Inr (Some (BadServerSalt (pkt_message_id p) (pkt_seq_no p) 48 ns)))
     else Inr None)"

end
