(* ===== verification/PyText.thy ===== *)
theory PyText
  imports Prelude
begin

text \<open>
  Python's strings where the server takes them apart: splitting and stripping, numbers in decimal and
  hexadecimal, identifiers in hexadecimal. Strings are lists of Latin-1 characters here; what
  \<open>str.isdigit\<close> and \<open>str.strip\<close> say of other characters is left out.
\<close>

section \<open>Numbers\<close>

fun py_split :: "char \<Rightarrow> string \<Rightarrow> string list" where
  "py_split d [] = [[]]"
| "py_split d (c # cs) =
     (if c = d then [] # py_split d cs
      else case py_split d cs of [] \<Rightarrow> [[c]] | w # ws \<Rightarrow> (c # w) # ws)"

definition is_digit :: "char \<Rightarrow> bool" where
  "is_digit c \<longleftrightarrow> 48 \<le> (of_char c :: nat) \<and> (of_char c :: nat) \<le> 57"

fun digits_value :: "nat \<Rightarrow> string \<Rightarrow> nat" where
  "digits_value acc [] = acc"
| "digits_value acc (c # cs) = digits_value (10 * acc + (of_char c - 48)) cs"

text \<open>\<open>int(s)\<close> on the decimal strings that occur in field paths.\<close>

definition py_int :: "string \<Rightarrow> int res" where
  "py_int s =
     (case s of
        [] \<Rightarrow> Inl ValueError
      | c # cs \<Rightarrow>
          if c = CHR ''-'' \<and> cs \<noteq> [] \<and> list_all is_digit cs then Inr (- int (digits_value 0 cs))
          else if list_all is_digit s then Inr (int (digits_value 0 s)) else Inl ValueError)"

text \<open>A number in a text, as an f-string writes it.\<close>

fun nat_str :: "nat \<Rightarrow> string" where
  "nat_str n = (if n < 10 then [char_of (48 + n)] else nat_str (n div 10) @ [char_of (48 + n mod 10)])"

declare nat_str.simps [simp del]

definition int_str :: "int \<Rightarrow> string" where
  "int_str i = (if i < 0 then CHR ''-'' # nat_str (nat (- i)) else nat_str (nat i))"

section \<open>Blanks\<close>

definition is_space :: "char \<Rightarrow> bool" where
  "is_space ch \<longleftrightarrow> (of_char ch :: nat) \<in> {9, 10, 11, 12, 13, 28, 29, 30, 31, 32, 133, 160}"

definition py_strip :: "string \<Rightarrow> string" where
  "py_strip t = rev (dropWhile is_space (rev (dropWhile is_space t)))"

section \<open>\<open>int\<close> of a text\<close>

text \<open>
  \<open>int(s)\<close> and \<open>int(s, 16)\<close>: blanks around, a sign, single underscores between digits, in base 16 the
  prefix; decimal texts of more than 4300 digits are refused.
\<close>

definition digit_groups :: "(char \<Rightarrow> bool) \<Rightarrow> string \<Rightarrow> bool" where
  "digit_groups ok s \<longleftrightarrow> list_all (\<lambda>w. w \<noteq> [] \<and> list_all ok w) (py_split (CHR ''_'') s)"

definition split_sign :: "string \<Rightarrow> int \<times> string" where
  "split_sign s = (case s of [] \<Rightarrow> (1, []) | c # cs \<Rightarrow>
     if c = CHR ''-'' then (- 1, cs) else if c = CHR ''+'' then (1, cs) else (1, s))"

definition int_of_text :: "string \<Rightarrow> int res" where
  "int_of_text s =
     (let (sign, body) = split_sign (py_strip s); ds = filter is_digit body in
      if digit_groups is_digit body \<and> length ds \<le> 4300 then Inr (sign * int (digits_value 0 ds)) else Inl ValueError)"

definition hex_digit :: "char \<Rightarrow> nat option" where
  "hex_digit c = (let n = of_char c :: nat in
     if 48 \<le> n \<and> n \<le> 57 then Some (n - 48)
     else if 97 \<le> n \<and> n \<le> 102 then Some (n - 87)
     else if 65 \<le> n \<and> n \<le> 70 then Some (n - 55) else None)"

definition is_hex :: "char \<Rightarrow> bool" where
  "is_hex c \<longleftrightarrow> hex_digit c \<noteq> None"

fun hex_value :: "nat \<Rightarrow> string \<Rightarrow> nat" where
  "hex_value acc [] = acc"
| "hex_value acc (c # cs) = hex_value (16 * acc + (case hex_digit c of None \<Rightarrow> 0 | Some d \<Rightarrow> d)) cs"

definition drop_hex_prefix :: "string \<Rightarrow> string" where
  "drop_hex_prefix s =
     (if take 2 s \<in> {''0x'', ''0X''} then (if take 1 (drop 2 s) = ''_'' then drop 3 s else drop 2 s) else s)"

definition int_of_hex_text :: "string \<Rightarrow> int res" where
  "int_of_hex_text s =
     (let (sign, rest) = split_sign (py_strip s); body = drop_hex_prefix rest in
      if digit_groups is_hex body then Inr (sign * int (hex_value 0 (filter is_hex body))) else Inl ValueError)"

section \<open>Bytes in hexadecimal\<close>

text \<open>\<open>bytes.hex\<close> and \<open>bytes.fromhex\<close>, which skips blanks between the bytes.\<close>

definition hex_char :: "nat \<Rightarrow> char" where
  "hex_char d = char_of (if d < 10 then 48 + d else 87 + d)"

definition bytes_hex :: "byte list \<Rightarrow> string" where
  "bytes_hex bs = concat (map (\<lambda>b. [hex_char (unat b div 16), hex_char (unat b mod 16)]) bs)"

definition is_ascii_space :: "char \<Rightarrow> bool" where
  "is_ascii_space c \<longleftrightarrow> (of_char c :: nat) \<in> {9, 10, 11, 12, 13, 32}"

fun bytes_fromhex :: "string \<Rightarrow> byte list res" where
  "bytes_fromhex [] = Inr []"
| "bytes_fromhex (c # cs) =
     (if is_ascii_space c then bytes_fromhex cs
      else case cs of
             [] \<Rightarrow> Inl ValueError
           | d # ds \<Rightarrow>
               (case (hex_digit c, hex_digit d) of
                  (Some x, Some y) \<Rightarrow> rbind (bytes_fromhex ds) (\<lambda>bs. Inr (of_nat (16 * x + y) # bs))
                | _ \<Rightarrow> Inl ValueError))"

section \<open>\<open>UUID\<close>\<close>

text \<open>A UUID is its 128-bit number.\<close>

fun remove_all :: "string \<Rightarrow> string \<Rightarrow> string" where
  "remove_all sub [] = []"
| "remove_all sub (c # cs) =
     (if sub \<noteq> [] \<and> take (length sub) (c # cs) = sub then remove_all sub (drop (length sub - 1) cs)
      else c # remove_all sub cs)"

definition strip_braces :: "string \<Rightarrow> string" where
  "strip_braces s = (let b = (\<lambda>c. c = CHR ''{'' \<or> c = CHR ''}'') in rev (dropWhile b (rev (dropWhile b s))))"

definition uuid_of :: "string \<Rightarrow> int res" where
  "uuid_of s =
     (let h = filter (\<lambda>c. c \<noteq> CHR ''-'') (strip_braces (remove_all ''uuid:'' (remove_all ''urn:'' s))) in
      if length h \<noteq> 32 then Inl ValueError
      else rbind (int_of_hex_text h) (\<lambda>i. if 0 \<le> i \<and> i < 2 ^ 128 then Inr i else Inl ValueError))"

definition uuid_hex :: "int \<Rightarrow> string" where
  "uuid_hex i = map (\<lambda>j. hex_char (nat (i div 16 ^ (31 - j) mod 16))) [0..<32]"

section \<open>Facts\<close>

lemma hex_digit_char: "d < 16 \<Longrightarrow> hex_digit (hex_char d) = Some d"
  by (simp add: hex_digit_def hex_char_def Let_def)

lemma hex_char_plain: "d < 16 \<Longrightarrow> hex_char d \<noteq> CHR ''-'' \<and> hex_char d \<noteq> CHR ''_'' \<and> \<not> is_ascii_space (hex_char d)"
  by (auto simp: hex_char_def is_ascii_space_def dest: arg_cong [of _ _ "of_char :: char \<Rightarrow> nat"])

lemma fromhex_hex: "bytes_fromhex (bytes_hex bs) = Inr bs"
proof (induction bs)
  case (Cons b bs)
  have d: "unat b div 16 < 16" "unat b mod 16 < 16"
    using unat_byte_bound [of b] by simp_all
  show ?case using Cons d hex_char_plain [OF d(1)]
    by (simp add: bytes_hex_def hex_digit_char mult.commute [of 16])
qed (simp add: bytes_hex_def)

lemma bytes_hex_length: "length (bytes_hex bs) = 2 * length bs"
  by (induction bs) (simp_all add: bytes_hex_def)

lemma hex_value_acc: "hex_value acc cs = acc * 16 ^ length cs + hex_value 0 cs"
proof (induction cs arbitrary: acc)
  case (Cons c cs)
  show ?case
    using Cons.IH [of "16 * acc + (case hex_digit c of None \<Rightarrow> 0 | Some d \<Rightarrow> d)"]
      Cons.IH [of "case hex_digit c of None \<Rightarrow> 0 | Some d \<Rightarrow> d"] by (simp add: algebra_simps)
qed simp

lemma hex_value_digits:
  "int (hex_value 0 (map (\<lambda>j. hex_char (nat (i div 16 ^ (n - 1 - j) mod 16))) [0..<n])) = i mod 16 ^ n"
proof (induction n)
  case (Suc n)
  have d: "hex_digit (hex_char (nat (i div 16 ^ n mod 16))) = Some (nat (i div 16 ^ n mod 16))"
    by (rule hex_digit_char) simp
  have "map (\<lambda>j. hex_char (nat (i div 16 ^ (Suc n - 1 - j) mod 16))) [0..<Suc n]
      = hex_char (nat (i div 16 ^ n mod 16)) # map (\<lambda>j. hex_char (nat (i div 16 ^ (n - 1 - j) mod 16))) [0..<n]"
    by (simp add: upt_conv_Cons map_Suc_upt [symmetric] del: upt_Suc map_Suc_upt)
  then have "int (hex_value 0 (map (\<lambda>j. hex_char (nat (i div 16 ^ (Suc n - 1 - j) mod 16))) [0..<Suc n]))
      = (i div 16 ^ n mod 16) * 16 ^ n + i mod 16 ^ n"
    using Suc.IH hex_value_acc [of "nat (i div 16 ^ n mod 16)"] by (simp add: d)
  also have "\<dots> = i mod 16 ^ Suc n"
    using mod_mult2_eq' [of i "16 ^ n" 16] by (simp add: zmod_zmult2_eq mult.commute)
  finally show ?case .
qed simp

lemma uuid_hex_chars: "c \<in> set (uuid_hex i) \<Longrightarrow> \<exists>d < 16. c = hex_char d"
proof -
  have "nat (i div 16 ^ k mod 16) < 16" for k by simp
  then show "c \<in> set (uuid_hex i) \<Longrightarrow> \<exists>d < 16. c = hex_char d" unfolding uuid_hex_def by fastforce
qed

lemma remove_all_id: "sub \<noteq> [] \<Longrightarrow> hd sub \<notin> set s \<Longrightarrow> remove_all sub s = s"
proof (induction s)
  case (Cons c cs)
  have "take (length sub) (c # cs) \<noteq> sub" using Cons.prems by (cases sub) auto
  then show ?case using Cons by simp
qed simp

lemma dropWhile_id: "(\<And>c. c \<in> set s \<Longrightarrow> \<not> P c) \<Longrightarrow> dropWhile P s = s"
  by (cases s) simp_all

lemma py_split_none: "d \<notin> set s \<Longrightarrow> py_split d s = [s]"
  by (induction s) auto

lemma hex_char_other:
  assumes "d < 16"
  shows "hex_char d \<notin> {CHR ''u'', CHR ''x'', CHR ''X'', CHR ''+'', CHR ''-'', CHR ''_'', CHR ''{'', CHR ''}''} \<and> \<not> is_space (hex_char d)"
proof -
  have "(of_char (hex_char d) :: nat) = (if d < 10 then 48 + d else 87 + d)" using assms by (simp add: hex_char_def)
  then have "(of_char (hex_char d) :: nat) \<in> {48..57} \<union> {97..102}" using assms by auto
  then show ?thesis by (auto simp: is_space_def)
qed

lemma uuid_of_hex:
  assumes "0 \<le> i" "i < 2 ^ 128"
  shows "uuid_of (uuid_hex i) = Inr i"
proof -
  let ?s = "uuid_hex i"
  have other: "\<not> is_space c" "c \<notin> {CHR ''u'', CHR ''x'', CHR ''X'', CHR ''+'', CHR ''-'', CHR ''_'', CHR ''{'', CHR ''}''}" "is_hex c"
    if "c \<in> set ?s" for c using uuid_hex_chars [OF that] hex_char_other by (auto simp: is_hex_def hex_digit_char)
  have len: "length ?s = 32" by (simp add: uuid_hex_def)
  have u: "CHR ''u'' \<notin> set ?s" "CHR ''_'' \<notin> set ?s" using other(2) by blast+
  then have "remove_all ''urn:'' ?s = ?s" "remove_all ''uuid:'' ?s = ?s"
    by (auto intro!: remove_all_id)
  moreover have "strip_braces ?s = ?s"
    using other(2) unfolding strip_braces_def Let_def by (subst dropWhile_id, auto)+
  moreover have "filter (\<lambda>c. c \<noteq> CHR ''-'') ?s = ?s" using other(2) by (auto simp: filter_id_conv)
  moreover have "int_of_hex_text ?s = Inr i"
  proof -
    obtain a b r where s: "?s = a # b # r" using len by (cases "?s"; cases "tl ?s") auto
    have strip: "py_strip ?s = ?s"
      using other(1) unfolding py_strip_def by (subst dropWhile_id, auto)+
    have sign: "split_sign ?s = (1, ?s)" using other(2) [of a] by (simp add: split_sign_def s)
    have pre: "drop_hex_prefix ?s = ?s" using other(2) [of b] by (simp add: drop_hex_prefix_def s)
    have groups: "digit_groups is_hex ?s" using py_split_none [of "CHR ''_''" ?s] u other(3) s
      by (auto simp: digit_groups_def list_all_iff)
    have "filter is_hex ?s = ?s" using other(3) by (auto simp: filter_id_conv)
    moreover have "int (hex_value 0 ?s) = i mod 16 ^ 32" using hex_value_digits [of i 32] by (simp add: uuid_hex_def)
    moreover have "(16 :: int) ^ 32 = 2 ^ 128" by simp
    ultimately show ?thesis using assms by (simp add: int_of_hex_text_def strip sign pre groups)
  qed
  ultimately show ?thesis using assms len by (simp add: uuid_of_def)
qed

end
