(* ===== verification/Outbound.thy ===== *)
theory Outbound
  imports TlCore PyText "HOL-Library.AList"
begin

text \<open>
  What the server pushes to sessions: an object, possibly wrapped with requirements on the
  client's layer (\<open>ObjectWithLayerRequirement\<close>) or with the keys of values that must be
  resolved for each receiver (\<open>NeedsContextValues\<close>, built by \<open>NeedContextValuesContext\<close> of
  \<^verbatim>\<open>piltover/context.py\<close>). The field paths of the layer requirements are followed on the generic
  object tree \<open>node\<close>, as \<open>getattr\<close> and list indexing do on the generated classes.
\<close>

section \<open>Object trees and field paths\<close>

datatype 'a node = Leaf 'a | NList "'a node list" | NObj "(string \<times> 'a node) list"

definition py_index :: "'a list \<Rightarrow> int \<Rightarrow> nat res" where
  "py_index xs i =
     (let j = (if i < 0 then i + int (length xs) else i)
      in if 0 \<le> j \<and> j < int (length xs) then Inr (nat j) else Inl IndexError)"

definition delete_at :: "nat \<Rightarrow> 'a list \<Rightarrow> 'a list" where
  "delete_at i xs = take i xs @ drop (Suc i) xs"

definition get_attr_or_element :: "'a node \<Rightarrow> string \<Rightarrow> 'a node res" where
  "get_attr_or_element n name =
     (case n of
        NList xs \<Rightarrow> rbind (py_int name) (\<lambda>i. rbind (py_index xs i) (\<lambda>j. Inr (xs ! j)))
      | NObj fs \<Rightarrow> (case map_of fs name of None \<Rightarrow> Inl AttributeError | Some v \<Rightarrow> Inr v)
      | Leaf _ \<Rightarrow> Inl AttributeError)"

text \<open>Writing a changed child back where the path found it (the objects are mutated in place).\<close>

definition set_attr_or_element :: "'a node \<Rightarrow> string \<Rightarrow> 'a node \<Rightarrow> 'a node res" where
  "set_attr_or_element n name v =
     (case n of
        NList xs \<Rightarrow> rbind (py_int name) (\<lambda>i. rbind (py_index xs i) (\<lambda>j. Inr (NList (xs[j := v]))))
      | NObj fs \<Rightarrow> Inr (NObj (AList.update name v fs))
      | Leaf a \<Rightarrow> Inr (Leaf a))"

fun drop_path :: "string list \<Rightarrow> 'a node \<Rightarrow> 'a node res" where
  "drop_path [] n = Inr n"
| "drop_path [p] n =
     (case n of
        NList xs \<Rightarrow> rbind (py_int p) (\<lambda>i. rbind (py_index xs i) (\<lambda>j. Inr (NList (delete_at j xs))))
      | _ \<Rightarrow> Inr n)"
| "drop_path (p # q # ps) n =
     rbind (get_attr_or_element n p) (\<lambda>c. rbind (drop_path (q # ps) c) (set_attr_or_element n p))"

record field_requirement =
  field :: string
  min_layer :: int
  max_layer :: int

text \<open>
  The loop of \<open>_prepare_outbound_obj\<close>: the fields whose layer range does not hold the session's
  layer are removed, one after the other.
\<close>

fun drop_fields :: "(string list \<Rightarrow> 'x \<Rightarrow> 'x res) \<Rightarrow> int \<Rightarrow> field_requirement list \<Rightarrow> 'x \<Rightarrow> 'x res" where
  "drop_fields dp layer [] x = Inr x"
| "drop_fields dp layer (f # fs) x =
     (if min_layer f \<le> layer \<and> layer \<le> max_layer f then drop_fields dp layer fs x
      else rbind (dp (py_split (CHR ''.'') (field f)) x) (drop_fields dp layer fs))"

section \<open>Values resolved per receiver\<close>

record context_needs =
  poll_answers :: "int set"
  chat_participants :: "int set"
  channel_participants :: "int set"
  users :: "int set"
  channel_messages :: "int set"

definition empty_needs :: context_needs where
  "empty_needs = \<lparr>poll_answers = {}, chat_participants = {}, channel_participants = {},
     users = {}, channel_messages = {}\<rparr>"

definition needs_any :: "context_needs \<Rightarrow> bool" where
  "needs_any c \<longleftrightarrow> poll_answers c \<noteq> {} \<or> chat_participants c \<noteq> {} \<or> channel_participants c \<noteq> {}
     \<or> users c \<noteq> {} \<or> channel_messages c \<noteq> {}"

record needs_values =
  nv_poll_answers :: "int list option"
  nv_chat_participants :: "int list option"
  nv_channel_participants :: "int list option"
  nv_users :: "int list option"
  nv_channel_messages :: "int list option"

text \<open>\<open>list(s) if s else None\<close>; the order of a set's elements is Python's own, here ascending.\<close>

definition list_or_none :: "int set \<Rightarrow> int list option" where
  "list_or_none S = (if S = {} then None else Some (sorted_list_of_set S))"

text \<open>
  An object on its way to the sessions, with the wrappers the server puts around it: first
  \<open>NeedsContextValues\<close>, then \<open>ObjectWithLayerRequirement\<close> around that.
\<close>

record 'g outbound =
  out_obj :: "'g tl_object"
  out_ctx :: "needs_values option"
  out_layer :: "field_requirement list option"

definition needs_to_tl :: "context_needs \<Rightarrow> needs_values" where
  "needs_to_tl c =
     \<lparr>nv_poll_answers = list_or_none (poll_answers c),
      nv_chat_participants = list_or_none (chat_participants c),
      nv_channel_participants = list_or_none (channel_participants c),
      nv_users = list_or_none (users c),
      nv_channel_messages = list_or_none (channel_messages c)\<rparr>"

section \<open>Pushes\<close>

text \<open>What the push path asks of the generated classes.\<close>

record 'g push_registry =
  reg :: "'g registry"
  is_updates :: "'g \<Rightarrow> bool"
  is_group_call_update :: "'g \<Rightarrow> bool"
  set_seq :: "int \<Rightarrow> 'g \<Rightarrow> 'g"
  drop_attr_path :: "string list \<Rightarrow> 'g tl_object \<Rightarrow> 'g tl_object res"
  context_of :: "'g tl_object \<Rightarrow> context_needs"

definition obj_is_updates :: "'g push_registry \<Rightarrow> 'g tl_object \<Rightarrow> bool" where
  "obj_is_updates P x = (case x of Generated g \<Rightarrow> is_updates P g | _ \<Rightarrow> False)"

definition deliver_updates_to_internal_push :: "'g push_registry \<Rightarrow> 'g outbound \<Rightarrow> bool" where
  "deliver_updates_to_internal_push P x =
     (if out_layer x \<noteq> None \<or> out_ctx x \<noteq> None then False
      else case out_obj x of Generated g \<Rightarrow> is_updates P g \<or> is_group_call_update P g | _ \<Rightarrow> False)"

definition unwrap_updates_obj :: "'g outbound \<Rightarrow> 'g outbound" where
  "unwrap_updates_obj x = (if out_layer x \<noteq> None then x\<lparr>out_layer := None\<rparr> else x)"

definition updates_need_immediate_flush :: "'g push_registry \<Rightarrow> 'g outbound \<Rightarrow> bool" where
  "updates_need_immediate_flush P x =
     (let y = unwrap_updates_obj x in out_ctx y = None \<and> obj_is_updates P (out_obj y))"

text \<open>
  A field path into the wrapped object: the context wrapper is an object whose attribute \<open>obj\<close>
  is the wrapped one, so the paths into it start with \<open>obj\<close>. A path that ends at a parent that
  is not a list deletes nothing.
\<close>

definition drop_outbound_path :: "'g push_registry \<Rightarrow> needs_values option \<Rightarrow> string list \<Rightarrow> 'g tl_object \<Rightarrow> 'g tl_object res" where
  "drop_outbound_path P ctx path x =
     (case ctx of
        None \<Rightarrow> drop_attr_path P path x
      | Some _ \<Rightarrow>
          (case path of
             [] \<Rightarrow> Inr x
           | [_] \<Rightarrow> Inr x
           | p # ps \<Rightarrow> if p = ''obj'' then drop_attr_path P ps x else Inl AttributeError))"

definition prepare_outbound_obj :: "'g push_registry \<Rightarrow> int \<Rightarrow> 'g outbound \<Rightarrow> 'g outbound res" where
  "prepare_outbound_obj P layer x =
     (case out_layer x of
        None \<Rightarrow> Inr x
      | Some fs \<Rightarrow>
          rbind (drop_fields (drop_outbound_path P (out_ctx x)) layer fs (out_obj x))
            (\<lambda>y. Inr (x\<lparr>out_obj := y, out_layer := None\<rparr>)))"

end
