(* ===== verification/Broker.thy ===== *)
theory Broker
  imports SessionState Outbound
begin

text \<open>
  The message broker (\<^verbatim>\<open>piltover/message_brokers/base_broker.py\<close>): which sessions are subscribed
  to which users, keys, authorizations and channels, and who receives a message.

  Sessions are shared mutable objects; a session is its reference (a number), and the
  subscription tables hold references. Each table maps an identifier to the set of its
  subscribers and never holds an empty set. The locale \<open>subscription_table\<close> states the contract
  of such a table against the relation it stands for.
\<close>

type_synonym sref = nat
type_synonym sub_table = "int \<Rightarrow> sref set option"

record broker =
  subscribed_users :: sub_table
  subscribed_sessions :: "int \<Rightarrow> sref option"
  subscribed_keys :: sub_table
  subscribed_auths :: sub_table
  subscribed_channels :: sub_table
  internal_push_users :: sub_table

definition broker_cleanup :: "broker \<Rightarrow> broker" where
  "broker_cleanup b =
     b\<lparr>subscribed_users := Map.empty, subscribed_sessions := Map.empty, subscribed_keys := Map.empty,
       subscribed_auths := Map.empty, subscribed_channels := Map.empty,
       internal_push_users := Map.empty\<rparr>"

section \<open>One table\<close>

text \<open>\<open>not user_id\<close>: there is no identifier, or it is zero.\<close>

definition falsy :: "int option \<Rightarrow> bool" where
  "falsy k = (k = None \<or> k = Some 0)"

definition sub_insert :: "int \<Rightarrow> sref \<Rightarrow> sub_table \<Rightarrow> sub_table" where
  "sub_insert k s m = m(k \<mapsto> insert s (case m k of None \<Rightarrow> {} | Some S \<Rightarrow> S))"

definition sub_discard :: "int \<Rightarrow> sref \<Rightarrow> sub_table \<Rightarrow> sub_table" where
  "sub_discard k s m =
     (case m k of
        None \<Rightarrow> m
      | Some S \<Rightarrow> let S' = S - {s} in if S' = {} then m(k := None) else m(k \<mapsto> S'))"

definition sub_add :: "int option \<Rightarrow> sref \<Rightarrow> sub_table \<Rightarrow> sub_table" where
  "sub_add k s m = (if falsy k then m else sub_insert (the k) s m)"

definition sub_remove :: "int option \<Rightarrow> sref \<Rightarrow> sub_table \<Rightarrow> sub_table" where
  "sub_remove k s m = (if falsy k \<or> m (the k) = None then m else sub_discard (the k) s m)"

section \<open>Subscribing and unsubscribing\<close>

definition subscribe_user :: "int option \<Rightarrow> sref \<Rightarrow> broker \<Rightarrow> broker" where
  "subscribe_user k s b = b\<lparr>subscribed_users := sub_add k s (subscribed_users b)\<rparr>"

definition subscribe_key :: "int option \<Rightarrow> sref \<Rightarrow> broker \<Rightarrow> broker" where
  "subscribe_key k s b = b\<lparr>subscribed_keys := sub_add k s (subscribed_keys b)\<rparr>"

definition subscribe_auth :: "int option \<Rightarrow> sref \<Rightarrow> broker \<Rightarrow> broker" where
  "subscribe_auth k s b = b\<lparr>subscribed_auths := sub_add k s (subscribed_auths b)\<rparr>"

definition subscribe_internal_push :: "int option \<Rightarrow> sref \<Rightarrow> broker \<Rightarrow> broker" where
  "subscribe_internal_push k s b = b\<lparr>internal_push_users := sub_add k s (internal_push_users b)\<rparr>"

definition unsubscribe_user :: "int option \<Rightarrow> sref \<Rightarrow> broker \<Rightarrow> broker" where
  "unsubscribe_user k s b = b\<lparr>subscribed_users := sub_remove k s (subscribed_users b)\<rparr>"

definition unsubscribe_key :: "int option \<Rightarrow> sref \<Rightarrow> broker \<Rightarrow> broker" where
  "unsubscribe_key k s b = b\<lparr>subscribed_keys := sub_remove k s (subscribed_keys b)\<rparr>"

definition unsubscribe_auth :: "int option \<Rightarrow> sref \<Rightarrow> broker \<Rightarrow> broker" where
  "unsubscribe_auth k s b = b\<lparr>subscribed_auths := sub_remove k s (subscribed_auths b)\<rparr>"

definition unsubscribe_internal_push :: "int option \<Rightarrow> sref \<Rightarrow> broker \<Rightarrow> broker" where
  "unsubscribe_internal_push k s b = b\<lparr>internal_push_users := sub_remove k s (internal_push_users b)\<rparr>"

text \<open>The channel identifiers come as iterables; the lists give the order of iteration.\<close>

definition channels_diff_update :: "sref \<Rightarrow> int list \<Rightarrow> int list \<Rightarrow> broker \<Rightarrow> broker" where
  "channels_diff_update s to_delete to_add b =
     b\<lparr>subscribed_channels :=
         fold (\<lambda>c. sub_insert c s) to_add
           (fold (\<lambda>c. sub_discard c s) to_delete (subscribed_channels b))\<rparr>"

definition session_keys :: "session \<Rightarrow> int option \<times> int option" where
  "session_keys x =
     (Option.bind (auth_data x) auth_key_id, Option.bind (auth_data x) perm_auth_key_id)"

definition subscribe :: "sref \<Rightarrow> session \<Rightarrow> broker \<Rightarrow> broker" where
  "subscribe s x b =
     (let b1 = b\<lparr>subscribed_sessions := (subscribed_sessions b)(session_id x \<mapsto> s)\<rparr>;
          b2 = subscribe_user (user_id x) s b1;
          b3 = subscribe_key (fst (session_keys x)) s b2;
          b4 = subscribe_key (snd (session_keys x)) s b3;
          b5 = subscribe_auth (auth_id x) s b4;
          b6 = channels_diff_update s [] (sorted_list_of_set (channel_ids x)) b5
      in if is_internal_push x then subscribe_internal_push (user_id x) s b6
         else unsubscribe_internal_push (user_id x) s b6)"

definition unsubscribe :: "sref \<Rightarrow> session \<Rightarrow> broker \<Rightarrow> broker" where
  "unsubscribe s x b =
     (let b1 = b\<lparr>subscribed_sessions := (subscribed_sessions b)(session_id x := None)\<rparr>;
          b2 = unsubscribe_user (user_id x) s b1;
          b3 = unsubscribe_key (fst (session_keys x)) s b2;
          b4 = unsubscribe_key (snd (session_keys x)) s b3;
          b5 = unsubscribe_auth (auth_id x) s b4;
          b6 = channels_diff_update s (sorted_list_of_set (channel_ids x)) [] b5
      in unsubscribe_internal_push (user_id x) s b6)"

section \<open>Messages between the parts of the server\<close>

datatype 'o message_internal =
    MessageToUsers "int list option" "int list option" "int list option" "int list option"
      "int list option" 'o "int option"
  | MessageToUsersShort "int option" "int option" "int option" "int option" "int option" 'o "int option"
  | SetSessionInternalPush int int int
  | ChannelSubscribe "int list" "int list" bool
  | InternalPushForUsers "int list"
  | InternalPushForUsersShort int

text \<open>The targets of a message, in the order users, keys, channels, authorizations, ignored.\<close>

record targets =
  t_users :: "int list"
  t_keys :: "int list"
  t_channels :: "int list"
  t_auths :: "int list"
  t_ignore :: "int set"

definition opt_list :: "int option \<Rightarrow> int list" where
  "opt_list x = (case x of None \<Rightarrow> [] | Some i \<Rightarrow> [i])"

definition list_opt :: "'a list option \<Rightarrow> 'a list" where
  "list_opt x = (case x of None \<Rightarrow> [] | Some xs \<Rightarrow> xs)"

fun message_targets :: "'o message_internal \<Rightarrow> targets" where
  "message_targets (MessageToUsers us ks cs auths ign x l) =
     \<lparr>t_users = list_opt us, t_keys = list_opt ks, t_channels = list_opt cs, t_auths = list_opt auths,
      t_ignore = set (list_opt ign)\<rparr>"
| "message_targets (MessageToUsersShort u k c a ign x l) =
     \<lparr>t_users = opt_list u, t_keys = opt_list k, t_channels = opt_list c, t_auths = opt_list a,
      t_ignore = set (opt_list ign)\<rparr>"
| "message_targets _ = \<lparr>t_users = [], t_keys = [], t_channels = [], t_auths = [], t_ignore = {}\<rparr>"

definition subs :: "sub_table \<Rightarrow> int \<Rightarrow> sref set" where
  "subs m k = (case m k of None \<Rightarrow> {} | Some S \<Rightarrow> S)"

text \<open>\<open>send_to\<close>: the sessions a message is addressed to, before the filter of \<open>_deliver\<close>.\<close>

definition send_to :: "broker \<Rightarrow> targets \<Rightarrow> sref set" where
  "send_to b t =
     fold (\<lambda>u S. S \<union> subs (subscribed_users b) u) (t_users t) {}
     \<union> fold (\<lambda>k S. S \<union> subs (subscribed_keys b) k) (t_keys t) {}
     \<union> fold (\<lambda>c S. S \<union> subs (subscribed_channels b) c) (t_channels t) {}
     \<union> fold (\<lambda>a S. if a \<in> t_ignore t then S else S \<union> subs (subscribed_auths b) a) (t_auths t) {}"

text \<open>The filter at the head of \<open>_deliver\<close>.\<close>

definition deliverable :: "targets \<Rightarrow> bool \<Rightarrow> session \<Rightarrow> bool" where
  "deliverable t to_internal_push x =
     (\<not> ((case auth_id x of None \<Rightarrow> False | Some a \<Rightarrow> a \<in> t_ignore t)
         \<or> (is_internal_push x \<and> \<not> to_internal_push))
      \<and> client x \<noteq> None)"

definition recipients :: "broker \<Rightarrow> (sref \<Rightarrow> session) \<Rightarrow> targets \<Rightarrow> bool \<Rightarrow> sref set" where
  "recipients b h t to_internal_push =
     {s \<in> send_to b t. deliverable t to_internal_push (h s)}"

text \<open>
  \<open>_process_channels_subscribe\<close>: every session of the users is (un)subscribed, and the cached
  channel lists of the users are dropped (the identifiers are returned).
\<close>

definition sessions_of_users :: "broker \<Rightarrow> int list \<Rightarrow> sref set" where
  "sessions_of_users b us = fold (\<lambda>u S. S \<union> subs (subscribed_users b) u) us {}"

definition process_channels_subscribe :: "int list \<Rightarrow> int list \<Rightarrow> bool \<Rightarrow> broker \<Rightarrow> int list \<times> broker" where
  "process_channels_subscribe cs us sub b =
     (let (to_add, to_delete) = (if sub then (cs, []) else ([], cs))
      in (us, fold (\<lambda>s. channels_diff_update s to_delete to_add)
                (sorted_list_of_set (sessions_of_users b us)) b))"

text \<open>\<open>_process_internal_push_to_users\<close>: the sessions that are sent \<open>UpdatesTooLong\<close>.\<close>

definition internal_push_recipients :: "broker \<Rightarrow> (sref \<Rightarrow> session) \<Rightarrow> int list \<Rightarrow> sref set" where
  "internal_push_recipients b h us =
     {s \<in> fold (\<lambda>u S. S \<union> subs (internal_push_users b) u) us {}. client (h s) \<noteq> None}"

section \<open>The contract of a subscription table\<close>

locale subscription_table =
  fixes add remove :: "'k \<Rightarrow> sref \<Rightarrow> 't \<Rightarrow> 't"
    and rel :: "'t \<Rightarrow> (int \<times> sref) set"
    and wf :: "'t \<Rightarrow> bool"
    and key :: "'k \<Rightarrow> int option"
  assumes rel_add: "wf m \<Longrightarrow> rel (add k s m) = rel m \<union> {(i, s) | i. key k = Some i}"
    and rel_remove: "wf m \<Longrightarrow> rel (remove k s m) = rel m - {(i, s) | i. key k = Some i}"
    and wf_add: "wf m \<Longrightarrow> wf (add k s m)"
    and wf_remove: "wf m \<Longrightarrow> wf (remove k s m)"
begin

lemma remove_add_rel: "wf m \<Longrightarrow> rel (remove k s (add k s m)) = rel m - {(i, s) | i. key k = Some i}"
  by (auto simp: rel_remove rel_add wf_add)

lemma other_session_kept: "wf m \<Longrightarrow> s \<noteq> t \<Longrightarrow> (i, t) \<in> rel (remove k s m) \<longleftrightarrow> (i, t) \<in> rel m"
  by (auto simp: rel_remove)

lemma fold_add_rel: "wf m \<Longrightarrow>
    rel (fold (\<lambda>k. add k s) ks m) = rel m \<union> {(i, s) | i. \<exists>k \<in> set ks. key k = Some i}
    \<and> wf (fold (\<lambda>k. add k s) ks m)"
  by (induction ks arbitrary: m) (auto simp: rel_add wf_add)

lemma fold_remove_rel: "wf m \<Longrightarrow>
    rel (fold (\<lambda>k. remove k s) ks m) = rel m - {(i, s) | i. \<exists>k \<in> set ks. key k = Some i}
    \<and> wf (fold (\<lambda>k. remove k s) ks m)"
  by (induction ks arbitrary: m) (auto simp: rel_remove wf_remove)

end

definition sub_rel :: "sub_table \<Rightarrow> (int \<times> sref) set" where
  "sub_rel m = {(k, s). \<exists>S. m k = Some S \<and> s \<in> S}"

definition sub_wf :: "sub_table \<Rightarrow> bool" where
  "sub_wf m \<longleftrightarrow> (\<forall>k S. m k = Some S \<longrightarrow> S \<noteq> {})"

definition truthy_key :: "int option \<Rightarrow> int option" where
  "truthy_key k = (if falsy k then None else k)"

lemma subs_rel: "s \<in> subs m k \<longleftrightarrow> (k, s) \<in> sub_rel m"
  by (auto simp: subs_def sub_rel_def split: option.splits)

text \<open>The channel table, whose identifiers are taken as they are.\<close>

lemma sub_discard_subs: "subs (sub_discard k s m) i = (if i = k then subs m i - {s} else subs m i)"
  by (auto simp: subs_def sub_discard_def Let_def split: option.split)

lemma sub_insert_subs: "subs (sub_insert k s m) i = (if i = k then insert s (subs m i) else subs m i)"
  by (auto simp: subs_def sub_insert_def split: option.split)

interpretation channel_table: subscription_table sub_insert sub_discard sub_rel sub_wf Some
proof
  show "sub_rel (sub_insert k s m) = sub_rel m \<union> {(i, s) | i. Some k = Some i}" for k s m
    by (auto simp: subs_rel [symmetric] sub_insert_subs split: if_splits)
  show "sub_rel (sub_discard k s m) = sub_rel m - {(i, s) | i. Some k = Some i}" for k s m
    by (auto simp: subs_rel [symmetric] sub_discard_subs split: if_splits)
  show "sub_wf (sub_insert k s m)" if "sub_wf m" for k s m
    using that by (auto simp: sub_wf_def sub_insert_def)
  show "sub_wf (sub_discard k s m)" if "sub_wf m" for k s m
    using that by (auto simp: sub_wf_def sub_discard_def Let_def split: option.splits if_splits)
qed

text \<open>The tables of users, keys, authorizations and internal pushes: no identifier, or zero, is ignored.\<close>

interpretation id_table: subscription_table sub_add sub_remove sub_rel sub_wf truthy_key
proof
  show "sub_rel (sub_add k s m) = sub_rel m \<union> {(i, s) | i. truthy_key k = Some i}"
    if "sub_wf m" for k s m
    using channel_table.rel_add [OF that, of "the k" s]
    by (cases "falsy k") (auto simp: sub_add_def truthy_key_def, auto simp: falsy_def)
  show "sub_rel (sub_remove k s m) = sub_rel m - {(i, s) | i. truthy_key k = Some i}"
    if "sub_wf m" for k s m
  proof (cases "falsy k \<or> m (the k) = None")
    case True
    then have "(i, s) \<notin> sub_rel m" if "truthy_key k = Some i" for i
      using that by (auto simp: truthy_key_def sub_rel_def split: if_splits)
    then show ?thesis using True by (auto simp: sub_remove_def)
  next
    case False
    then have "truthy_key k = Some (the k)" by (auto simp: truthy_key_def falsy_def)
    moreover have "sub_remove k s m = sub_discard (the k) s m" using False by (auto simp: sub_remove_def)
    ultimately show ?thesis using channel_table.rel_remove [OF that, of "the k" s] by simp
  qed
  show "sub_wf (sub_add k s m)" if "sub_wf m" for k s m
    using that by (simp add: sub_add_def channel_table.wf_add)
  show "sub_wf (sub_remove k s m)" if "sub_wf m" for k s m
    using that by (simp add: sub_remove_def channel_table.wf_remove)
qed

end
