(* ===== verification/Server.thy ===== *)
theory Server
  imports Broker
begin

text \<open>
  The gateway's shared state and the session operations that reach beyond one session
  (\<^verbatim>\<open>piltover/session/session.py\<close>, \<^verbatim>\<open>session_manager.py\<close>): connecting and disconnecting,
  queueing and flushing, refreshing the authorization, finalizing.

  The state holds the sessions by reference, \<open>SessionManager.sessions\<close>, the broker, the
  channel-list cache, the \<open>upd_seq\<close> column, the clients whose event was set, and the users with
  a scheduled leave of their group calls. An operation that can raise returns the state it
  leaves behind together with the exception. The database is a record of queries.
\<close>

record user_auth =
  ua_id :: int
  ua_user_id :: int
  ua_is_bot :: bool
  ua_mfa_pending :: bool
  ua_upd_seq :: int

record db =
  get_auth_data :: "int \<Rightarrow> auth_data option"
  authorization_of :: "int \<Rightarrow> user_auth option"
  channels_of :: "int \<Rightarrow> int list"
  perm_key_layer :: "int \<Rightarrow> int option"

record server =
  heap :: "sref \<Rightarrow> session"
  next_ref :: sref
  sessions :: "int \<times> int \<Rightarrow> sref option"
  broker :: broker
  channel_cache :: "int \<Rightarrow> int list option"
  upd_seq_column :: "int \<Rightarrow> int option"
  woken :: "nat set"
  leave_scheduled :: "int set"

type_synonym outcome = "server \<times> py_error option"

definition upd_session :: "sref \<Rightarrow> (session \<Rightarrow> session) \<Rightarrow> server \<Rightarrow> server" where
  "upd_session r f w = w\<lparr>heap := (heap w)(r := f (heap w r))\<rparr>"

definition upd_broker :: "(broker \<Rightarrow> broker) \<Rightarrow> server \<Rightarrow> server" where
  "upd_broker f w = w\<lparr>broker := f (broker w)\<rparr>"

definition wake :: "nat \<Rightarrow> server \<Rightarrow> server" where
  "wake c w = w\<lparr>woken := insert c (woken w)\<rparr>"

section \<open>Cleanup tasks and flush scheduling\<close>

definition cancel_cleanup :: "session \<Rightarrow> session" where
  "cancel_cleanup s = s\<lparr>cleanup_task := False\<rparr>"

definition schedule_cleanup :: "sref \<Rightarrow> server \<Rightarrow> server" where
  "schedule_cleanup r = upd_session r (\<lambda>s. if cleanup_task s then s else s\<lparr>cleanup_task := True\<rparr>)"

definition schedule_outbound_flush :: "session \<Rightarrow> session" where
  "schedule_outbound_flush s =
     (if client s = None then s else if flush_task s then s else s\<lparr>flush_task := True\<rparr>)"

definition has_connected_session_for_user :: "int \<Rightarrow> sref option \<Rightarrow> server \<Rightarrow> bool" where
  "has_connected_session_for_user u exclude w =
     (\<exists>r \<in> ran (sessions w). Some r \<noteq> exclude \<and> user_id (heap w r) = Some u
        \<and> client (heap w r) \<noteq> None)"

definition cancel_scheduled_leave :: "int \<Rightarrow> server \<Rightarrow> server" where
  "cancel_scheduled_leave u w = w\<lparr>leave_scheduled := leave_scheduled w - {u}\<rparr>"

definition schedule_leave :: "int \<Rightarrow> server \<Rightarrow> server" where
  "schedule_leave u w = w\<lparr>leave_scheduled := insert u (leave_scheduled w)\<rparr>"

section \<open>Connecting\<close>

definition connect_session :: "nat \<Rightarrow> session \<Rightarrow> session" where
  "connect_session c s =
     (let s1 = (cancel_cleanup s)\<lparr>client := Some c, message_available := Some c\<rparr>
      in if pending_outbound s1 \<noteq> [] then s1\<lparr>resend_pending_on_connect := True\<rparr> else s1)"

definition connect :: "nat \<Rightarrow> sref \<Rightarrow> server \<Rightarrow> server" where
  "connect c r w =
     (let w1 = upd_session r (connect_session c) w;
          s1 = heap w1 r;
          w2 = (if message_queue s1 \<noteq> [] \<or> resend_pending_on_connect s1 then wake c w1 else w1);
          w3 = upd_broker (subscribe r (heap w2 r)) w2;
          w4 = upd_session r schedule_outbound_flush w3
      in case user_id (heap w4 r) of None \<Rightarrow> w4 | Some u \<Rightarrow> cancel_scheduled_leave u w4)"

definition disconnect_session :: "session \<Rightarrow> session" where
  "disconnect_session s =
     s\<lparr>client := None, message_available := None, had_init_connection := False, flush_task := False\<rparr>"

definition disconnect :: "sref \<Rightarrow> server \<Rightarrow> server" where
  "disconnect r w =
     (let was_connected = client (heap w r) \<noteq> None;
          u = user_id (heap w r);
          w1 = upd_session r disconnect_session w
      in if \<not> was_connected then w1
         else let w2 = schedule_cleanup r w1
              in case u of
                   None \<Rightarrow> w2
                 | Some u \<Rightarrow>
                     if has_connected_session_for_user u (Some r) w2 then w2 else schedule_leave u w2)"

section \<open>Finalizing\<close>

definition finalize_session :: "session \<Rightarrow> session" where
  "finalize_session s =
     (cancel_cleanup s)\<lparr>client := None, message_available := None,
        rpc_completions := Map.empty, rpc_completed_ids := {}, rpc_completed_order := [],
        upd_seq := None, flush_task := False, pending_outbound := [],
        resend_pending_on_connect := False, message_queue := [], unencrypted_queue := []\<rparr>"

definition manager_finalize :: "sref \<Rightarrow> server \<Rightarrow> server" where
  "manager_finalize r w =
     (let s = heap w r; u = user_id s in
      case Option.bind (auth_data s) auth_key_id of
        None \<Rightarrow> upd_session r finalize_session w
      | Some k \<Rightarrow>
          (let w1 = w\<lparr>sessions := (sessions w)((k, session_id s) := None)\<rparr>;
               w2 = upd_broker (unsubscribe r (heap w1 r)) w1;
               w3 = upd_session r finalize_session w2
           in case u of
                None \<Rightarrow> w3
              | Some u \<Rightarrow> if has_connected_session_for_user u None w3 then w3 else schedule_leave u w3))"

text \<open>What the delayed cleanup task does when its sleep is over and it was not cancelled.\<close>

definition delayed_cleanup :: "sref \<Rightarrow> server \<Rightarrow> server" where
  "delayed_cleanup r w = (if client (heap w r) \<noteq> None then w else manager_finalize r w)"

definition get_or_create :: "int \<Rightarrow> nat option \<Rightarrow> auth_data \<Rightarrow> server \<Rightarrow> (sref \<times> bool) \<times> server" where
  "get_or_create sid c d w =
     (let u = (the (auth_key_id d), sid) in
      case sessions w u of
        Some r \<Rightarrow> ((r, False), w)
      | None \<Rightarrow>
          (let r = next_ref w
           in ((r, True),
               w\<lparr>heap := (heap w)(r := new_session sid c (Some d)), next_ref := Suc r,
                 sessions := (sessions w)(u \<mapsto> r)\<rparr>)))"

section \<open>Queueing\<close>

definition enqueue_unencrypted :: "real \<Rightarrow> byte list res \<Rightarrow> bool \<Rightarrow> sref \<Rightarrow> server \<Rightarrow> outcome" where
  "enqueue_unencrypted t written in_reply r w =
     (let (mid, s1) = msg_id t in_reply (heap w r); w1 = upd_session r (\<lambda>_. s1) w in
      case written of
        Inl e \<Rightarrow> (w1, Some e)
      | Inr data \<Rightarrow>
          (let w2 = upd_session r (\<lambda>s. s\<lparr>unencrypted_queue := unencrypted_queue s @ [(mid, data)]\<rparr>) w1;
               w3 = (case message_available (heap w2 r) of None \<Rightarrow> w2 | Some c \<Rightarrow> wake c w2)
           in (upd_session r schedule_outbound_flush w3, None)))"

text \<open>
  \<open>_next_upd_seq\<close>; the write-back of the column is a task of its own that the model performs
  at once.
\<close>

definition next_upd_seq :: "sref \<Rightarrow> server \<Rightarrow> int \<times> server" where
  "next_upd_seq r w =
     (let s = heap w r in
      case auth_id s of
        None \<Rightarrow> (0, w)
      | Some a \<Rightarrow>
          (let cur = (case upd_seq s of
                        Some q \<Rightarrow> q
                      | None \<Rightarrow> (case upd_seq_column w a of None \<Rightarrow> 0 | Some q \<Rightarrow> q));
               w1 = upd_session r (\<lambda>s. s\<lparr>upd_seq := Some (cur + 1)\<rparr>) w
           in (cur + 1, w1\<lparr>upd_seq_column := (upd_seq_column w1)(a \<mapsto> cur + 1)\<rparr>)))"

text \<open>
  \<open>ser s nv x\<close> is \<open>x.write(ctx)\<close> in the serialization context of the session, with the values
  resolved for \<open>nv\<close>. The message identifier and the sequence number are used up before the
  object is serialized, also when that raises.
\<close>

type_synonym 'g serializer = "session \<Rightarrow> needs_values option \<Rightarrow> 'g tl_object \<Rightarrow> byte list res"

text \<open>Updates carry the sequence number of the authorization.\<close>

definition set_updates_seq ::
    "'g push_registry \<Rightarrow> sref \<Rightarrow> 'g tl_object \<Rightarrow> server \<Rightarrow> 'g tl_object \<times> server" where
  "set_updates_seq P r x w =
     (case x of
        Generated g \<Rightarrow>
          if is_updates P g \<and> auth_id (heap w r) \<noteq> None
          then let (q, w') = next_upd_seq r w in (Generated (set_seq P q g), w')
          else (x, w)
      | _ \<Rightarrow> (x, w))"

definition put_message :: "sref \<Rightarrow> queued \<Rightarrow> server \<Rightarrow> server" where
  "put_message r q w =
     (let w1 = upd_session r (\<lambda>s. s\<lparr>message_queue := message_queue s @ [q]\<rparr>) w;
          w2 = (case message_available (heap w1 r) of None \<Rightarrow> w1 | Some c \<Rightarrow> wake c w1)
      in upd_session r schedule_outbound_flush w2)"

definition enqueue ::
    "'g push_registry \<Rightarrow> 'g serializer \<Rightarrow> real \<Rightarrow> 'g outbound \<Rightarrow> bool \<Rightarrow> sref \<Rightarrow> server \<Rightarrow> outcome" where
  "enqueue P ser t x in_reply r w =
     (case prepare_outbound_obj P (layer (heap w r)) x of
        Inl e \<Rightarrow> (w, Some e)
      | Inr y \<Rightarrow>
          (let (x1, w1) = set_updates_seq P r (out_obj y) w;
               (m, s2) = pack_message (reg P) t x1 in_reply (heap w1 r);
               w2 = upd_session r (\<lambda>_. s2) w1
           in case ser s2 (out_ctx y) (msg_obj m) of
                Inl e \<Rightarrow> (w2, Some e)
              | Inr data \<Rightarrow> (put_message r (message_id m, seq_no m, data) w2, None)))"

section \<open>Writing the queues out\<close>

text \<open>
  A frame is what \<open>Client\<close> hands to the transport. The connection takes a number of writes
  (\<open>budget\<close>) before it is reset; the write that fails raises \<^const>\<open>Disconnection\<close>. An entry is
  taken off its queue before it is written.
\<close>

datatype frame =
    Unencrypted int "byte list"
  | Encrypted "byte list" int int int "byte list"

fun write_unencrypted_queue ::
    "nat \<Rightarrow> (int \<times> byte list) list \<Rightarrow> (int \<times> byte list) list \<times> frame list \<times> nat \<times> py_error option" where
  "write_unencrypted_queue n [] = ([], [], n, None)"
| "write_unencrypted_queue 0 (u # us) = (us, [], 0, Some (Disconnection None))"
| "write_unencrypted_queue (Suc n) ((mid, data) # us) =
     (let (rest, fs, k, e) = write_unencrypted_queue n us
      in (rest, Unencrypted mid data # fs, k, e))"

definition can_encrypt :: "session \<Rightarrow> bool" where
  "can_encrypt s = (Option.bind (auth_data s) auth_key \<noteq> None)"

text \<open>\<open>write_message\<close>: one encrypted message, with the salt brought up to date first.\<close>

definition write_message ::
    "(session \<Rightarrow> session res) \<Rightarrow> nat \<Rightarrow> queued \<Rightarrow> session \<Rightarrow> session \<times> frame list \<times> nat \<times> py_error option" where
  "write_message salts n q s =
     (case q of (mid, seq, data) \<Rightarrow>
        if \<not> can_encrypt s then (s, [], n, Some Unreachable)
        else case salts s of
               Inl e \<Rightarrow> (s, [], n, Some e)
             | Inr s1 \<Rightarrow>
                 (case n of
                    0 \<Rightarrow> (s1, [], 0, Some (Disconnection None))
                  | Suc k \<Rightarrow> (s1, [Encrypted (salt (salt_now s1)) (session_id s1) mid seq data], k, None)))"

fun resend_pending ::
    "(session \<Rightarrow> session res) \<Rightarrow> nat \<Rightarrow> queued list \<Rightarrow> session \<Rightarrow> session \<times> frame list \<times> nat \<times> py_error option" where
  "resend_pending salts n [] s = (s, [], n, None)"
| "resend_pending salts n (q # qs) s =
     (case write_message salts n q s of
        (s1, fs, k, Some e) \<Rightarrow> (s1, fs, k, Some e)
      | (s1, fs, k, None) \<Rightarrow>
          (let (s2, fs2, k2, e) = resend_pending salts k qs s1 in (s2, fs @ fs2, k2, e)))"

text \<open>The last loop of \<open>_write_session_queues\<close>: pop, write, then track as pending.\<close>

fun write_message_queue ::
    "(session \<Rightarrow> session res) \<Rightarrow> nat \<Rightarrow> queued list \<Rightarrow> session \<Rightarrow> session \<times> frame list \<times> nat \<times> py_error option" where
  "write_message_queue salts n [] s = (s\<lparr>message_queue := []\<rparr>, [], n, None)"
| "write_message_queue salts n (q # qs) s =
     (case write_message salts n q (s\<lparr>message_queue := qs\<rparr>) of
        (s1, fs, k, Some e) \<Rightarrow> (s1, fs, k, Some e)
      | (s1, fs, k, None) \<Rightarrow>
          (let s2 = track_pending_outbound (fst q) (fst (snd q)) (snd (snd q)) s1;
               (s3, fs3, k3, e) = write_message_queue salts k qs s2
           in (s3, fs @ fs3, k3, e)))"

definition resend_phase ::
    "(session \<Rightarrow> session res) \<Rightarrow> nat \<Rightarrow> session \<Rightarrow> session \<times> frame list \<times> nat \<times> py_error option" where
  "resend_phase salts n s =
     (if resend_pending_on_connect s \<and> pending_outbound s \<noteq> []
      then resend_pending salts n (pending_outbound s) (s\<lparr>resend_pending_on_connect := False\<rparr>)
      else (s, [], n, None))"

definition write_session_queues ::
    "(session \<Rightarrow> session res) \<Rightarrow> nat \<Rightarrow> session \<Rightarrow> session \<times> frame list \<times> py_error option" where
  "write_session_queues salts budget s =
     (let (us, fs1, n1, e1) = write_unencrypted_queue budget (unencrypted_queue s);
          s1 = s\<lparr>unencrypted_queue := us\<rparr>
      in case e1 of
           Some e \<Rightarrow> (s1, fs1, Some e)
         | None \<Rightarrow>
             (let (s2, fs2, n2, e2) = resend_phase salts n1 s1
              in case e2 of
                   Some e \<Rightarrow> (s2, fs1 @ fs2, Some e)
                 | None \<Rightarrow>
                     (let (s3, fs3, n3, e3) = write_message_queue salts n2 (message_queue s2) s2
                      in (s3, fs1 @ fs2 @ fs3, e3))))"

text \<open>\<open>flush_outbound\<close>: a disconnection is handled here, every other exception goes on.\<close>

definition flush_outbound ::
    "(session \<Rightarrow> session res) \<Rightarrow> nat \<Rightarrow> sref \<Rightarrow> server \<Rightarrow> frame list \<times> outcome" where
  "flush_outbound salts budget r w =
     (if client (heap w r) = None then ([], w, None)
      else let (s1, fs, e) = write_session_queues salts budget (heap w r);
               w1 = upd_session r (\<lambda>_. s1) w
           in case e of
                None \<Rightarrow> (fs, w1, None)
              | Some (Disconnection c) \<Rightarrow> (fs, disconnect r w1, None)
              | Some e' \<Rightarrow> (fs, w1, Some e'))"

section \<open>Authorization\<close>

definition reset_auth :: "sref \<Rightarrow> server \<Rightarrow> server" where
  "reset_auth r w =
     (let s = heap w r;
          w1 = upd_broker (unsubscribe_auth (auth_id s) r) w;
          w2 = upd_broker (unsubscribe_user (user_id s) r) w1;
          w3 = upd_broker (channels_diff_update r (sorted_list_of_set (channel_ids s)) []) w2
      in upd_session r (\<lambda>s. s\<lparr>user_id := None, auth_id := None, is_bot := False, mfa_pending := False,
           upd_seq := None, channel_ids := {}\<rparr>) w3)"

definition refresh_channels :: "db \<Rightarrow> real \<Rightarrow> sref \<Rightarrow> server \<Rightarrow> server" where
  "refresh_channels D t r w =
     (let w1 = upd_session r (\<lambda>s. s\<lparr>channels_loaded_at := t\<rparr>) w;
          u = the (user_id (heap w1 r));
          (ids, w2) = (case channel_cache w1 u of
                         Some ids \<Rightarrow> (ids, w1)
                       | None \<Rightarrow> (channels_of D u,
                                   w1\<lparr>channel_cache := (channel_cache w1)(u \<mapsto> channels_of D u)\<rparr>));
          old = channel_ids (heap w2 r); new = set ids;
          w3 = upd_session r (\<lambda>s. s\<lparr>channel_ids := new\<rparr>) w2
      in upd_broker (channels_diff_update r (sorted_list_of_set (old - new))
           (sorted_list_of_set (new - old))) w3)"

definition resubscribe :: "int option \<Rightarrow> int option \<Rightarrow> sref \<Rightarrow> server \<Rightarrow> server" where
  "resubscribe old_user old_auth r w =
     (let s = heap w r;
          w1 = (if old_user \<noteq> user_id s
                then upd_broker (subscribe_user (user_id s) r)
                       (if falsy old_user then w else upd_broker (unsubscribe_user old_user r) w)
                else w)
      in if old_auth \<noteq> auth_id s
         then upd_broker (subscribe_auth (auth_id s) r)
                (if falsy old_auth then w1 else upd_broker (unsubscribe_auth old_auth r) w1)
         else w1)"

definition load_auth :: "user_auth \<Rightarrow> session \<Rightarrow> session" where
  "load_auth a s =
     s\<lparr>user_id := Some (ua_user_id a), auth_id := Some (ua_id a), is_bot := ua_is_bot a,
       mfa_pending := ua_mfa_pending a, upd_seq := Some (ua_upd_seq a)\<rparr>"

text \<open>
  \<open>refresh_auth_maybe\<close>: when forced, the key data is fetched again first, and may then be
  \<open>None\<close>; the authorization of the permanent key is loaded when the last load is a minute old.
\<close>

definition refetch_auth_data :: "db \<Rightarrow> bool \<Rightarrow> sref \<Rightarrow> server \<Rightarrow> server" where
  "refetch_auth_data D force r w =
     (case Option.bind (auth_data (heap w r)) auth_key_id of
        None \<Rightarrow> w
      | Some k \<Rightarrow> if force then upd_session r (\<lambda>s. s\<lparr>auth_data := get_auth_data D k\<rparr>) w else w)"

definition reload_auth :: "db \<Rightarrow> real \<Rightarrow> bool \<Rightarrow> int \<Rightarrow> sref \<Rightarrow> server \<Rightarrow> server" where
  "reload_auth D t reload perm r w =
     (let old_user = user_id (heap w r); old_auth = auth_id (heap w r);
          w2 = (if reload then upd_session r (\<lambda>s. s\<lparr>auth_loaded_at := t\<rparr>) w else w)
      in if reload \<and> authorization_of D perm = None then reset_auth r w2
         else let w3 = (if reload then upd_session r (load_auth (the (authorization_of D perm))) w2 else w2);
                  s3 = heap w3 r;
                  w4 = (if auth_id s3 \<noteq> None \<and> \<not> mfa_pending s3 \<and> t - channels_loaded_at s3 > 60 * 5
                        then refresh_channels D t r w3 else w3)
              in resubscribe old_user old_auth r w4)"

definition refresh_auth_maybe :: "db \<Rightarrow> real \<Rightarrow> bool \<Rightarrow> sref \<Rightarrow> server \<Rightarrow> outcome" where
  "refresh_auth_maybe D t force r w =
     (if auth_data (heap w r) = None then (w, None)
      else let w1 = refetch_auth_data D force r w; s1 = heap w1 r in
           case auth_data s1 of
             None \<Rightarrow> (w1, Some AttributeError)
           | Some d \<Rightarrow>
               (case (auth_key_id d, perm_auth_key_id d) of
                  (Some _, Some perm) \<Rightarrow>
                    (reload_auth D t (t - auth_loaded_at s1 > 60 \<or> force \<or> auth_id s1 = None) perm r w1, None)
                | _ \<Rightarrow> (reset_auth r w1, None)))"

definition fetch_layer :: "db \<Rightarrow> int \<Rightarrow> session \<Rightarrow> session" where
  "fetch_layer D newest s =
     (case Option.bind (auth_data s) perm_auth_key_id of
        None \<Rightarrow> s
      | Some k \<Rightarrow> (case perm_key_layer D k of None \<Rightarrow> s | Some l \<Rightarrow> s\<lparr>layer := min l newest\<rparr>))"

end
