(* ===== verification/BrokerFacts.thy ===== *)
theory BrokerFacts
  imports Broker
begin

text \<open>
  Who receives what: the recipients of a message as a set comprehension over the subscription
  relations, the effect of subscribing and unsubscribing on those relations, and the
  independence of the order in which sets of channels are iterated.
\<close>

lemma fold_Un_eq: "fold (\<lambda>x S. S \<union> f x) xs A = A \<union> \<Union> (f ` set xs)"
  by (induction xs arbitrary: A) auto

lemma fold_Un_filter_eq:
  "fold (\<lambda>x S. if P x then S else S \<union> f x) xs A = A \<union> \<Union> (f ` {x \<in> set xs. \<not> P x})"
  by (induction xs arbitrary: A) auto

lemma send_to_iff:
  "s \<in> send_to b t \<longleftrightarrow>
     (\<exists>u \<in> set (t_users t). (u, s) \<in> sub_rel (subscribed_users b))
     \<or> (\<exists>k \<in> set (t_keys t). (k, s) \<in> sub_rel (subscribed_keys b))
     \<or> (\<exists>c \<in> set (t_channels t). (c, s) \<in> sub_rel (subscribed_channels b))
     \<or> (\<exists>a \<in> set (t_auths t) - t_ignore t. (a, s) \<in> sub_rel (subscribed_auths b))"
  by (auto simp: send_to_def fold_Un_eq fold_Un_filter_eq subs_rel)

lemma recipients_iff:
  "s \<in> recipients b h t p \<longleftrightarrow> s \<in> send_to b t \<and> deliverable t p (h s)"
  by (simp add: recipients_def)

section \<open>Well-formed brokers\<close>

definition broker_wf :: "broker \<Rightarrow> bool" where
  "broker_wf b \<longleftrightarrow> sub_wf (subscribed_users b) \<and> sub_wf (subscribed_keys b)
     \<and> sub_wf (subscribed_auths b) \<and> sub_wf (subscribed_channels b) \<and> sub_wf (internal_push_users b)"

lemma broker_wfD [simp]:
  assumes "broker_wf b"
  shows "sub_wf (subscribed_users b)" "sub_wf (subscribed_keys b)" "sub_wf (subscribed_auths b)"
    "sub_wf (subscribed_channels b)" "sub_wf (internal_push_users b)"
  using assms by (simp_all add: broker_wf_def)

text \<open>The five relations of a broker, and who is in any of them.\<close>

lemmas table_op_defs = subscribe_user_def subscribe_key_def subscribe_auth_def
  subscribe_internal_push_def unsubscribe_user_def unsubscribe_key_def unsubscribe_auth_def
  unsubscribe_internal_push_def

lemma sub_rel_ops [simp]:
  assumes "broker_wf b"
  shows "sub_rel (subscribed_users (subscribe_user k s b)) =
      sub_rel (subscribed_users b) \<union> {(i, s) | i. truthy_key k = Some i}"
    and "sub_rel (subscribed_keys (subscribe_key k s b)) =
      sub_rel (subscribed_keys b) \<union> {(i, s) | i. truthy_key k = Some i}"
    and "sub_rel (subscribed_auths (subscribe_auth k s b)) =
      sub_rel (subscribed_auths b) \<union> {(i, s) | i. truthy_key k = Some i}"
    and "sub_rel (internal_push_users (subscribe_internal_push k s b)) =
      sub_rel (internal_push_users b) \<union> {(i, s) | i. truthy_key k = Some i}"
    and "sub_rel (subscribed_users (unsubscribe_user k s b)) =
      sub_rel (subscribed_users b) - {(i, s) | i. truthy_key k = Some i}"
    and "sub_rel (subscribed_keys (unsubscribe_key k s b)) =
      sub_rel (subscribed_keys b) - {(i, s) | i. truthy_key k = Some i}"
    and "sub_rel (subscribed_auths (unsubscribe_auth k s b)) =
      sub_rel (subscribed_auths b) - {(i, s) | i. truthy_key k = Some i}"
    and "sub_rel (internal_push_users (unsubscribe_internal_push k s b)) =
      sub_rel (internal_push_users b) - {(i, s) | i. truthy_key k = Some i}"
  unfolding table_op_defs using assms by (simp_all add: id_table.rel_add id_table.rel_remove)

lemma sub_rel_channels_diff [simp]:
  assumes "broker_wf b"
  shows "sub_rel (subscribed_channels (channels_diff_update s ds xs b)) =
      (sub_rel (subscribed_channels b) - {(c, s) | c. c \<in> set ds}) \<union> {(c, s) | c. c \<in> set xs}"
    and "broker_wf (channels_diff_update s ds xs b)"
proof -
  let ?m = "subscribed_channels b"
  let ?m1 = "fold (\<lambda>c. sub_discard c s) ds ?m"
  have 1: "sub_rel ?m1 = sub_rel ?m - {(i, s) | i. \<exists>k \<in> set ds. Some k = Some i} \<and> sub_wf ?m1"
    using assms by (intro channel_table.fold_remove_rel) simp
  have 2: "sub_rel (fold (\<lambda>c. sub_insert c s) xs ?m1) = sub_rel ?m1 \<union> {(i, s) | i. \<exists>k \<in> set xs. Some k = Some i}
      \<and> sub_wf (fold (\<lambda>c. sub_insert c s) xs ?m1)"
    using 1 by (intro channel_table.fold_add_rel) simp
  show "sub_rel (subscribed_channels (channels_diff_update s ds xs b)) =
      (sub_rel ?m - {(c, s) | c. c \<in> set ds}) \<union> {(c, s) | c. c \<in> set xs}"
    using 1 2 by (simp add: channels_diff_update_def)
  show "broker_wf (channels_diff_update s ds xs b)"
    using 2 assms unfolding channels_diff_update_def broker_wf_def by (simp del: broker_wfD)
qed

lemma broker_wf_ops [simp]:
  assumes "broker_wf b"
  shows "broker_wf (subscribe_user k s b)" "broker_wf (subscribe_key k s b)"
    "broker_wf (subscribe_auth k s b)" "broker_wf (subscribe_internal_push k s b)"
    "broker_wf (unsubscribe_user k s b)" "broker_wf (unsubscribe_key k s b)"
    "broker_wf (unsubscribe_auth k s b)" "broker_wf (unsubscribe_internal_push k s b)"
    "broker_wf (b\<lparr>subscribed_sessions := f\<rparr>)"
  using assms unfolding table_op_defs broker_wf_def
  by (simp_all add: id_table.wf_add id_table.wf_remove del: broker_wfD)

text \<open>Each operation changes one table.\<close>

lemma broker_frames [simp]:
  "subscribed_keys (subscribe_user k s b) = subscribed_keys b"
  "subscribed_auths (subscribe_user k s b) = subscribed_auths b"
  "subscribed_channels (subscribe_user k s b) = subscribed_channels b"
  "internal_push_users (subscribe_user k s b) = internal_push_users b"
  "subscribed_users (subscribe_key k s b) = subscribed_users b"
  "subscribed_auths (subscribe_key k s b) = subscribed_auths b"
  "subscribed_channels (subscribe_key k s b) = subscribed_channels b"
  "internal_push_users (subscribe_key k s b) = internal_push_users b"
  "subscribed_users (subscribe_auth k s b) = subscribed_users b"
  "subscribed_keys (subscribe_auth k s b) = subscribed_keys b"
  "subscribed_channels (subscribe_auth k s b) = subscribed_channels b"
  "internal_push_users (subscribe_auth k s b) = internal_push_users b"
  "subscribed_users (subscribe_internal_push k s b) = subscribed_users b"
  "subscribed_keys (subscribe_internal_push k s b) = subscribed_keys b"
  "subscribed_auths (subscribe_internal_push k s b) = subscribed_auths b"
  "subscribed_channels (subscribe_internal_push k s b) = subscribed_channels b"
  "subscribed_keys (unsubscribe_user k s b) = subscribed_keys b"
  "subscribed_auths (unsubscribe_user k s b) = subscribed_auths b"
  "subscribed_channels (unsubscribe_user k s b) = subscribed_channels b"
  "internal_push_users (unsubscribe_user k s b) = internal_push_users b"
  "subscribed_users (unsubscribe_key k s b) = subscribed_users b"
  "subscribed_auths (unsubscribe_key k s b) = subscribed_auths b"
  "subscribed_channels (unsubscribe_key k s b) = subscribed_channels b"
  "internal_push_users (unsubscribe_key k s b) = internal_push_users b"
  "subscribed_users (unsubscribe_auth k s b) = subscribed_users b"
  "subscribed_keys (unsubscribe_auth k s b) = subscribed_keys b"
  "subscribed_channels (unsubscribe_auth k s b) = subscribed_channels b"
  "internal_push_users (unsubscribe_auth k s b) = internal_push_users b"
  "subscribed_users (unsubscribe_internal_push k s b) = subscribed_users b"
  "subscribed_keys (unsubscribe_internal_push k s b) = subscribed_keys b"
  "subscribed_auths (unsubscribe_internal_push k s b) = subscribed_auths b"
  "subscribed_channels (unsubscribe_internal_push k s b) = subscribed_channels b"
  "subscribed_users (channels_diff_update s ds xs b) = subscribed_users b"
  "subscribed_keys (channels_diff_update s ds xs b) = subscribed_keys b"
  "subscribed_auths (channels_diff_update s ds xs b) = subscribed_auths b"
  "internal_push_users (channels_diff_update s ds xs b) = internal_push_users b"
  by (simp_all add: subscribe_user_def subscribe_key_def subscribe_auth_def subscribe_internal_push_def
      unsubscribe_user_def unsubscribe_key_def unsubscribe_auth_def unsubscribe_internal_push_def
      channels_diff_update_def)

section \<open>Subscribing and unsubscribing a whole session\<close>

definition key_ids :: "session \<Rightarrow> int set" where
  "key_ids x = {i. truthy_key (fst (session_keys x)) = Some i \<or> truthy_key (snd (session_keys x)) = Some i}"

lemma subscribe_rel:
  assumes "broker_wf b" "finite (channel_ids x)"
  shows "broker_wf (subscribe s x b)"
    and "sub_rel (subscribed_users (subscribe s x b)) =
      sub_rel (subscribed_users b) \<union> {(i, s) | i. truthy_key (user_id x) = Some i}"
    and "sub_rel (subscribed_keys (subscribe s x b)) =
      sub_rel (subscribed_keys b) \<union> {(i, s) | i. i \<in> key_ids x}"
    and "sub_rel (subscribed_auths (subscribe s x b)) =
      sub_rel (subscribed_auths b) \<union> {(i, s) | i. truthy_key (auth_id x) = Some i}"
    and "sub_rel (subscribed_channels (subscribe s x b)) =
      sub_rel (subscribed_channels b) \<union> {(c, s) | c. c \<in> channel_ids x}"
    and "sub_rel (internal_push_users (subscribe s x b)) =
      (if is_internal_push x
       then sub_rel (internal_push_users b) \<union> {(i, s) | i. truthy_key (user_id x) = Some i}
       else sub_rel (internal_push_users b) - {(i, s) | i. truthy_key (user_id x) = Some i})"
  using assms by (auto simp: subscribe_def Let_def key_ids_def)

lemma unsubscribe_rel:
  assumes "broker_wf b" "finite (channel_ids x)"
  shows "broker_wf (unsubscribe s x b)"
    and "sub_rel (subscribed_users (unsubscribe s x b)) =
      sub_rel (subscribed_users b) - {(i, s) | i. truthy_key (user_id x) = Some i}"
    and "sub_rel (subscribed_keys (unsubscribe s x b)) =
      sub_rel (subscribed_keys b) - {(i, s) | i. i \<in> key_ids x}"
    and "sub_rel (subscribed_auths (unsubscribe s x b)) =
      sub_rel (subscribed_auths b) - {(i, s) | i. truthy_key (auth_id x) = Some i}"
    and "sub_rel (subscribed_channels (unsubscribe s x b)) =
      sub_rel (subscribed_channels b) - {(c, s) | c. c \<in> channel_ids x}"
    and "sub_rel (internal_push_users (unsubscribe s x b)) =
      sub_rel (internal_push_users b) - {(i, s) | i. truthy_key (user_id x) = Some i}"
  using assms by (auto simp: unsubscribe_def Let_def key_ids_def)

section \<open>Channel subscriptions\<close>

lemma channels_subscribe_rel:
  assumes "broker_wf b" "finite (sessions_of_users b us)"
  shows "sub_rel (subscribed_channels (snd (process_channels_subscribe cs us sub b))) =
    (if sub then sub_rel (subscribed_channels b) \<union> {(c, s). c \<in> set cs \<and> s \<in> sessions_of_users b us}
     else sub_rel (subscribed_channels b) - {(c, s). c \<in> set cs \<and> s \<in> sessions_of_users b us})"
    and "broker_wf (snd (process_channels_subscribe cs us sub b))"
proof -
  have step: "sub_rel (subscribed_channels (fold (\<lambda>s. channels_diff_update s ds xs) ss b')) =
      (sub_rel (subscribed_channels b') - {(c, s). c \<in> set ds \<and> s \<in> set ss})
        \<union> {(c, s). c \<in> set xs \<and> s \<in> set ss}
      \<and> broker_wf (fold (\<lambda>s. channels_diff_update s ds xs) ss b')"
    if "broker_wf b'" "ds = [] \<or> xs = []" for ds xs ss b'
    using that(1)
  proof (induction ss arbitrary: b')
    case (Cons s ss)
    then show ?case using that(2) by (fastforce simp: Cons.IH)
  qed simp
  let ?ss = "sorted_list_of_set (sessions_of_users b us)"
  have ss: "set ?ss = sessions_of_users b us" using assms(2) by simp
  show "sub_rel (subscribed_channels (snd (process_channels_subscribe cs us sub b))) =
    (if sub then sub_rel (subscribed_channels b) \<union> {(c, s). c \<in> set cs \<and> s \<in> sessions_of_users b us}
     else sub_rel (subscribed_channels b) - {(c, s). c \<in> set cs \<and> s \<in> sessions_of_users b us})"
    using step [OF assms(1), of "[]" cs ?ss] step [OF assms(1), of cs "[]" ?ss] ss
    by (simp add: process_channels_subscribe_def)
  show "broker_wf (snd (process_channels_subscribe cs us sub b))"
    using step [OF assms(1), of "[]" cs ?ss] step [OF assms(1), of cs "[]" ?ss]
    by (simp add: process_channels_subscribe_def)
qed

end
