(* ===== verification/SessionStateFacts.thy ===== *)
theory SessionStateFacts
  imports SessionState
begin

text \<open>
  Properties of the session-local operations: message identifiers grow strictly while the clock
  does not go back, sequence numbers count content-related messages, the record of completed
  RPCs keeps its bound and evicts in order of completion, a salt is accepted for its window and
  the next one, and an incoming message is accepted exactly when no rule refuses it.
\<close>

section \<open>Message identifiers\<close>

fun msg_ids :: "(real \<times> bool) list \<Rightarrow> session \<Rightarrow> int list \<times> session" where
  "msg_ids [] s = ([], s)"
| "msg_ids ((t, r) # cs) s =
     (let (m, s1) = msg_id t r s; (ms, s2) = msg_ids cs s1 in (m # ms, s2))"

text \<open>The clock, in whole seconds, never goes back, starting from the last one used.\<close>

fun clock_ok :: "int \<Rightarrow> (real \<times> bool) list \<Rightarrow> bool" where
  "clock_ok lo [] = True"
| "clock_ok lo ((t, r) # cs) = (lo \<le> \<lfloor>t\<rfloor> \<and> clock_ok \<lfloor>t\<rfloor> cs)"

definition id_bound :: "session \<Rightarrow> int" where
  "id_bound s = last_time (msg_id_values s) * 2 ^ 32 + offset (msg_id_values s) + 3"

lemma msg_id_step:
  assumes "msg_id t r s = (m, s')" "last_time (msg_id_values s) \<le> \<lfloor>t\<rfloor>"
    and "0 \<le> offset (msg_id_values s)" "offset (msg_id_values s) + 3 < 2 ^ 32"
  shows "id_bound s < m" "m \<le> id_bound s'" "last_time (msg_id_values s') = \<lfloor>t\<rfloor>"
    and "0 \<le> offset (msg_id_values s')"
    and "offset (msg_id_values s') \<le> offset (msg_id_values s) + 4"
    and "offset (msg_id_values s) mod 4 = 0 \<Longrightarrow> offset (msg_id_values s') mod 4 = 0"
    and "offset (msg_id_values s) mod 4 = 0 \<Longrightarrow> m mod 4 = (if r then 1 else 3)"
proof -
  let ?v = "msg_id_values s"
  consider (same) "\<lfloor>t\<rfloor> = last_time ?v" | (later) "last_time ?v + 1 \<le> \<lfloor>t\<rfloor>"
    using assms(2) by linarith
  then show "id_bound s < m"
  proof cases
    case later
    then have "(last_time ?v + 1) * 2 ^ 32 \<le> \<lfloor>t\<rfloor> * 2 ^ 32" by (intro mult_right_mono) auto
    then show ?thesis using later assms by (auto simp: msg_id_def id_bound_def Let_def algebra_simps)
  qed (use assms in \<open>auto simp: msg_id_def id_bound_def Let_def\<close>)
  show "m \<le> id_bound s'" "last_time (msg_id_values s') = \<lfloor>t\<rfloor>" "0 \<le> offset (msg_id_values s')"
    and "offset (msg_id_values s') \<le> offset ?v + 4"
    and "offset ?v mod 4 = 0 \<Longrightarrow> offset (msg_id_values s') mod 4 = 0"
    using assms by (auto simp: msg_id_def id_bound_def Let_def)
  show "m mod 4 = (if r then 1 else 3)" if z: "offset ?v mod 4 = 0"
  proof -
    define off where "off = (if \<lfloor>t\<rfloor> = last_time ?v then offset ?v + 4 else 0)"
    have "off mod 4 = 0" using z by (simp add: off_def)
    then obtain q where "off = 4 * q" by auto
    then have m: "m = (if r then 1 else 3) + 4 * (\<lfloor>t\<rfloor> * 2 ^ 30 + q)"
      using assms(1) by (auto simp: msg_id_def Let_def off_def)
    have "m mod 4 = (if r then 1 else 3) mod 4" by (simp only: m mod_mult_self2)
    then show ?thesis by (cases r) simp_all
  qed
qed

lemma msg_ids_increasing:
  assumes "clock_ok (last_time (msg_id_values s)) cs" "0 \<le> offset (msg_id_values s)"
    and "offset (msg_id_values s) + 4 * int (length cs) + 3 < 2 ^ 32"
  shows "sorted_wrt (<) (fst (msg_ids cs s)) \<and> (\<forall>m \<in> set (fst (msg_ids cs s)). id_bound s < m)"
  using assms
proof (induction cs arbitrary: s)
  case (Cons c cs)
  obtain t r where c: "c = (t, r)" by (cases c)
  obtain m s1 where step: "msg_id t r s = (m, s1)" by (cases "msg_id t r s")
  have len: "int (length (c # cs)) = int (length cs) + 1" by simp
  note facts = msg_id_step [OF step]
  have "offset (msg_id_values s) + 3 < 2 ^ 32" using Cons.prems(2,3) len by linarith
  moreover have "last_time (msg_id_values s) \<le> \<lfloor>t\<rfloor>" using Cons.prems(1) c by simp
  ultimately have f: "id_bound s < m" "m \<le> id_bound s1" "last_time (msg_id_values s1) = \<lfloor>t\<rfloor>"
      "0 \<le> offset (msg_id_values s1)" "offset (msg_id_values s1) \<le> offset (msg_id_values s) + 4"
    using facts Cons.prems(2) by blast+
  have "clock_ok (last_time (msg_id_values s1)) cs" using Cons.prems(1) f(3) c by simp
  moreover have "offset (msg_id_values s1) + 4 * int (length cs) + 3 < 2 ^ 32"
    using Cons.prems(3) f(5) len by linarith
  ultimately have "sorted_wrt (<) (fst (msg_ids cs s1)) \<and> (\<forall>k \<in> set (fst (msg_ids cs s1)). id_bound s1 < k)"
    using f(4) by (intro Cons.IH)
  moreover have "m < k \<and> id_bound s < k" if "id_bound s1 < k" for k using f(1,2) that by linarith
  ultimately show ?case using f(1) by (auto simp: c step split: prod.splits)
qed simp

section \<open>Sequence numbers\<close>

fun seq_nos :: "bool list \<Rightarrow> session \<Rightarrow> int list \<times> session" where
  "seq_nos [] s = ([], s)"
| "seq_nos (c # cs) s =
     (let (q, s1) = get_outgoing_seq_no c s; (qs, s2) = seq_nos cs s1 in (q # qs, s2))"

lemma seq_nos_nth:
  "i < length cs \<Longrightarrow> fst (seq_nos cs s) ! i =
     2 * (out_seq_no s + int (length (filter id (take i cs)))) + (if cs ! i then 1 else 0)"
proof (induction cs arbitrary: s i)
  case (Cons c cs)
  show ?case
  proof (cases i)
    case (Suc n)
    then have "n < length cs" using Cons.prems by simp
    then show ?thesis
      using Cons.IH [of n "s\<lparr>out_seq_no := out_seq_no s + 1\<rparr>"] Cons.IH [of n s] Suc
      by (simp add: get_outgoing_seq_no_def Let_def split_beta)
  qed (simp add: get_outgoing_seq_no_def Let_def split_beta)
qed simp

section \<open>Completed RPCs\<close>

definition rpc_inv :: "session \<Rightarrow> bool" where
  "rpc_inv s \<longleftrightarrow> distinct (rpc_completed_order s) \<and> set (rpc_completed_order s) = rpc_completed_ids s
     \<and> length (rpc_completed_order s) \<le> RPC_COMPLETION_TRACK_LIMIT"

lemma prune_loop_drop:
  assumes "distinct order"
  shows "prune_loop (set order) order ev =
    (let k = length order - RPC_COMPLETION_TRACK_LIMIT
     in Some (set (drop k order), drop k order, ev |` (- set (take k order))))"
  using assms
proof (induction order arbitrary: ev)
  case Nil
  show ?case by (simp add: prune_loop.simps)
next
  case (Cons x xs)
  have card: "card (set (x # xs)) = Suc (length xs)" using Cons.prems by (simp add: distinct_card)
  show ?case
  proof (cases "length (x # xs) > RPC_COMPLETION_TRACK_LIMIT")
    case True
    let ?k = "length xs - RPC_COMPLETION_TRACK_LIMIT"
    have k: "length (x # xs) - RPC_COMPLETION_TRACK_LIMIT = Suc ?k" using True by simp
    have ids: "set (x # xs) - {x} = set xs" using Cons.prems by auto
    have ev: "(ev(x := None)) |` (- set (take ?k xs)) = ev |` (- set (take (Suc ?k) (x # xs)))"
      by (auto simp: restrict_map_def)
    have "prune_loop (set (x # xs)) (x # xs) ev = prune_loop (set xs) xs (ev(x := None))"
      using True card ids by (subst prune_loop.simps) (simp del: set_simps)
    also have "\<dots> = Some (set (drop ?k xs), drop ?k xs, (ev(x := None)) |` (- set (take ?k xs)))"
      using Cons.IH [of "ev(x := None)"] Cons.prems unfolding Let_def by (simp only: distinct.simps)
    finally show ?thesis unfolding Let_def k ev by (simp only: drop_Suc_Cons)
  next
    case False
    then show ?thesis using card by (subst prune_loop.simps) (auto simp: restrict_map_def)
  qed
qed

lemma mark_new:
  assumes "rpc_inv s" "m \<notin> rpc_completed_ids s"
  shows "\<exists>s'. mark_rpc_completed m s = Inr s' \<and> rpc_inv s' \<and>
    rpc_completed_order s' =
      (let os = rpc_completed_order s @ [m] in drop (length os - RPC_COMPLETION_TRACK_LIMIT) os)"
proof -
  let ?os = "rpc_completed_order s @ [m]"
  have d: "distinct ?os" "insert m (rpc_completed_ids s) = set ?os"
    using assms by (auto simp: rpc_inv_def)
  show ?thesis
    using assms(2) d(1)
    by (auto simp: mark_rpc_completed_def prune_rpc_completions_def d(2) prune_loop_drop Let_def
        rpc_inv_def dest: in_set_dropD simp del: set_append)
qed

lemma mark_known:
  assumes "rpc_inv s" "m \<in> rpc_completed_ids s"
  shows "\<exists>s'. mark_rpc_completed m s = Inr s' \<and> rpc_inv s'
    \<and> rpc_completed_order s' = rpc_completed_order s"
  using assms by (auto simp: mark_rpc_completed_def rpc_inv_def)

lemma mark_rpc_completed_inv:
  assumes "rpc_inv s"
  shows "\<exists>s'. mark_rpc_completed m s = Inr s' \<and> rpc_inv s' \<and> m \<in> rpc_completed_ids s'"
proof (cases "m \<in> rpc_completed_ids s")
  case True
  then show ?thesis using mark_known [OF assms True] assms by (auto simp: rpc_inv_def)
next
  case False
  obtain s' where s': "mark_rpc_completed m s = Inr s'" "rpc_inv s'"
      "rpc_completed_order s' =
        (let os = rpc_completed_order s @ [m] in drop (length os - RPC_COMPLETION_TRACK_LIMIT) os)"
    using mark_new [OF assms False] by blast
  have "length (rpc_completed_order s) \<le> RPC_COMPLETION_TRACK_LIMIT" using assms by (simp add: rpc_inv_def)
  then have "m \<in> set (rpc_completed_order s')" by (simp add: s'(3) Let_def)
  then show ?thesis using s'(1,2) by (auto simp: rpc_inv_def)
qed

fun mark_all :: "int list \<Rightarrow> session \<Rightarrow> session res" where
  "mark_all [] s = Inr s"
| "mark_all (m # ms) s = rbind (mark_rpc_completed m s) (mark_all ms)"

text \<open>
  Fresh completions push the oldest ones out, in order: what is remembered is the tail of
  everything that completed.
\<close>

lemma mark_all_fresh:
  assumes "rpc_inv s" "distinct ms" "set ms \<inter> set (rpc_completed_order s) = {}"
  shows "\<exists>s'. mark_all ms s = Inr s' \<and> rpc_inv s' \<and>
    rpc_completed_order s' =
      (let os = rpc_completed_order s @ ms in drop (length os - RPC_COMPLETION_TRACK_LIMIT) os)"
  using assms
proof (induction ms arbitrary: s)
  case Nil
  then show ?case by (simp add: rpc_inv_def)
next
  case (Cons m ms)
  have "m \<notin> rpc_completed_ids s" using Cons.prems by (auto simp: rpc_inv_def)
  then obtain s1 where s1: "mark_rpc_completed m s = Inr s1" "rpc_inv s1"
      "rpc_completed_order s1 =
        (let os = rpc_completed_order s @ [m] in drop (length os - RPC_COMPLETION_TRACK_LIMIT) os)"
    using mark_new [OF Cons.prems(1)] by blast
  let ?o = "rpc_completed_order s" and ?k = "length (rpc_completed_order s @ [m]) - RPC_COMPLETION_TRACK_LIMIT"
  have sub: "set (rpc_completed_order s1) \<subseteq> insert m (set ?o)"
    using set_drop_subset [of ?k "?o @ [m]"] by (auto simp: s1(3) Let_def)
  then have "set ms \<inter> set (rpc_completed_order s1) = {}" using Cons.prems(2,3) by auto
  then obtain s2 where s2: "mark_all ms s1 = Inr s2" "rpc_inv s2"
      "rpc_completed_order s2 =
        (let os = rpc_completed_order s1 @ ms in drop (length os - RPC_COMPLETION_TRACK_LIMIT) os)"
    using Cons.IH [OF s1(2)] Cons.prems(2) by auto
  have "length ?o \<le> RPC_COMPLETION_TRACK_LIMIT" using Cons.prems(1) by (simp add: rpc_inv_def)
  then have "?k \<le> 1" by simp
  then have "drop (length (rpc_completed_order s1 @ ms) - RPC_COMPLETION_TRACK_LIMIT)
      (rpc_completed_order s1 @ ms)
    = drop (length (?o @ m # ms) - RPC_COMPLETION_TRACK_LIMIT) (?o @ m # ms)"
    using \<open>length ?o \<le> RPC_COMPLETION_TRACK_LIMIT\<close>
    by (cases "length ?o = RPC_COMPLETION_TRACK_LIMIT"; cases ?o) (auto simp: s1(3) Let_def)
  then show ?case using s1(1) s2 by (simp add: Let_def)
qed

section \<open>Salts\<close>

lemma update_salts_windows:
  assumes "update_salts_maybe hmac key t force s = Inr s'" "auth_data s = Some d" "auth_key_id d = Some k"
    and "valid_at (salt_now s) \<noteq> salt_window t \<or> force"
  shows "make_salt hmac key k (salt_window t) = Inr (salt (salt_now s'))
    \<and> make_salt hmac key k (salt_window t - 1) = Inr (salt (salt_prev s'))
    \<and> valid_at (salt_now s') = salt_window t \<and> valid_at (salt_prev s') = salt_window t - 1"
  using assms by (auto simp: update_salts_maybe_def rbind_Inr_iff Let_def)

end
