(* ===== verification/ServerFacts.thy ===== *)
theory ServerFacts
  imports Server BrokerFacts SessionStateFacts
begin

text \<open>
  Properties of the operations on the shared state: what a flush sends and keeps, and that the
  subscription tables agree with the sessions' own fields.
\<close>

section \<open>Frames\<close>

lemma upd_session_simps [simp, frame_simps]:
  "heap (upd_session r f w) r = f (heap w r)"
  "q \<noteq> r \<Longrightarrow> heap (upd_session r f w) q = heap w q"
  "next_ref (upd_session r f w) = next_ref w"
  "sessions (upd_session r f w) = sessions w"
  "broker (upd_session r f w) = broker w"
  "channel_cache (upd_session r f w) = channel_cache w"
  "upd_seq_column (upd_session r f w) = upd_seq_column w"
  "woken (upd_session r f w) = woken w"
  "leave_scheduled (upd_session r f w) = leave_scheduled w"
  by (simp_all add: upd_session_def)

lemma upd_broker_simps [simp, frame_simps]:
  "heap (upd_broker f w) = heap w"
  "next_ref (upd_broker f w) = next_ref w"
  "sessions (upd_broker f w) = sessions w"
  "broker (upd_broker f w) = f (broker w)"
  "channel_cache (upd_broker f w) = channel_cache w"
  "upd_seq_column (upd_broker f w) = upd_seq_column w"
  "leave_scheduled (upd_broker f w) = leave_scheduled w"
  by (simp_all add: upd_broker_def)

lemma wake_simps [simp, frame_simps]:
  "heap (wake c w) = heap w" "next_ref (wake c w) = next_ref w" "sessions (wake c w) = sessions w"
  "broker (wake c w) = broker w" "leave_scheduled (wake c w) = leave_scheduled w"
  "upd_seq_column (wake c w) = upd_seq_column w"
  by (simp_all add: wake_def)

lemma leave_simps [simp, frame_simps]:
  "heap (schedule_leave u w) = heap w" "heap (cancel_scheduled_leave u w) = heap w"
  "broker (schedule_leave u w) = broker w" "broker (cancel_scheduled_leave u w) = broker w"
  "sessions (schedule_leave u w) = sessions w" "sessions (cancel_scheduled_leave u w) = sessions w"
  "next_ref (schedule_leave u w) = next_ref w" "next_ref (cancel_scheduled_leave u w) = next_ref w"
  by (simp_all add: schedule_leave_def cancel_scheduled_leave_def)

section \<open>Flushing\<close>

text \<open>The salts of a session may be renewed while writing; nothing else of it changes.\<close>

definition salts_ok :: "(session \<Rightarrow> session res) \<Rightarrow> bool" where
  "salts_ok f \<longleftrightarrow> (\<forall>s s'. f s = Inr s' \<longrightarrow>
     message_queue s' = message_queue s \<and> pending_outbound s' = pending_outbound s
     \<and> unencrypted_queue s' = unencrypted_queue s \<and> auth_data s' = auth_data s
     \<and> session_id s' = session_id s \<and> resend_pending_on_connect s' = resend_pending_on_connect s)"

lemma update_salts_ok: "salts_ok (update_salts_maybe hmac key t force)"
  by (auto simp: salts_ok_def update_salts_maybe_def Let_def rbind_Inr_iff split: option.splits if_splits)

fun frame_of :: "frame \<Rightarrow> int \<times> byte list" where
  "frame_of (Unencrypted mid data) = (mid, data)"
| "frame_of (Encrypted _ _ mid _ data) = (mid, data)"

definition track_all :: "queued list \<Rightarrow> (int \<times> int \<times> byte list) list \<Rightarrow> (int \<times> int \<times> byte list) list" where
  "track_all qs p = fold (\<lambda>q. od_set (fst q) (snd q)) qs p"

text \<open>
  The message queue, written until a write fails: the messages before the failing one are on
  the wire and tracked, the ones behind it are still queued.
\<close>

lemma write_message_ok:
  assumes "salts_ok salts" "write_message salts n q s = (s', fs, k, e)"
  shows "message_queue s' = message_queue s" "pending_outbound s' = pending_outbound s"
    "unencrypted_queue s' = unencrypted_queue s"
    "resend_pending_on_connect s' = resend_pending_on_connect s"
    "e = None \<Longrightarrow> map frame_of fs = [(fst q, snd (snd q))] \<and> n = Suc k"
    "e \<noteq> None \<Longrightarrow> fs = [] \<and> k = n"
  using assms unfolding write_message_def salts_ok_def
  by (auto split: prod.splits if_splits sum.splits nat.splits)

lemma write_message_queue_ok:
  assumes ok: "salts_ok salts"
  shows "write_message_queue salts n qs s = (s', fs, k, None) \<Longrightarrow>
    message_queue s' = [] \<and> pending_outbound s' = track_all qs (pending_outbound s)
    \<and> map frame_of fs = map (\<lambda>q. (fst q, snd (snd q))) qs \<and> unencrypted_queue s' = unencrypted_queue s"
proof (induction qs arbitrary: n s s' fs k)
  case (Cons q qs)
  obtain s1 fs1 k1 e1 where w: "write_message salts n q (s\<lparr>message_queue := qs\<rparr>) = (s1, fs1, k1, e1)"
    by (metis prod_cases4)
  have "e1 = None" using Cons.prems w by (cases e1) auto
  moreover obtain s3 fs3 k3 where rest:
      "write_message_queue salts k1 qs (track_pending_outbound (fst q) (fst (snd q)) (snd (snd q)) s1)
        = (s3, fs3, k3, None)" "s' = s3" "fs = fs1 @ fs3"
    using Cons.prems w \<open>e1 = None\<close> by (auto simp: Let_def split: prod.splits)
  moreover note Cons.IH [OF rest(1)] write_message_ok [OF ok w]
  ultimately show ?case by (auto simp: track_pending_outbound_def track_all_def)
qed (auto simp: track_all_def)

lemma write_message_queue_fail:
  assumes ok: "salts_ok salts"
  shows "write_message_queue salts n qs s = (s', fs, k, Some e) \<Longrightarrow>
    \<exists>pre q post. qs = pre @ q # post \<and> message_queue s' = post
      \<and> pending_outbound s' = track_all pre (pending_outbound s)
      \<and> map frame_of fs = map (\<lambda>q. (fst q, snd (snd q))) pre \<and> unencrypted_queue s' = unencrypted_queue s"
proof (induction qs arbitrary: n s s' fs k)
  case (Cons q qs)
  obtain s1 fs1 k1 e1 where w: "write_message salts n q (s\<lparr>message_queue := qs\<rparr>) = (s1, fs1, k1, e1)"
    by (metis prod_cases4)
  note one = write_message_ok [OF ok w]
  show ?case
  proof (cases e1)
    case (Some e')
    then have "s' = s1" "fs = fs1" using Cons.prems w by auto
    then show ?thesis using one Some
      by (intro exI [of _ "[]"] exI [of _ q] exI [of _ qs]) (simp add: track_all_def)
  next
    case None
    then obtain s3 fs3 k3 where rest:
        "write_message_queue salts k1 qs (track_pending_outbound (fst q) (fst (snd q)) (snd (snd q)) s1)
          = (s3, fs3, k3, Some e)" "s' = s3" "fs = fs1 @ fs3"
      using Cons.prems w by (auto simp: Let_def split: prod.splits)
    then obtain pre q' post where "qs = pre @ q' # post" "message_queue s3 = post"
        "pending_outbound s3 = track_all pre
          (pending_outbound (track_pending_outbound (fst q) (fst (snd q)) (snd (snd q)) s1))"
        "map frame_of fs3 = map (\<lambda>q. (fst q, snd (snd q))) pre"
        "unencrypted_queue s3 = unencrypted_queue (track_pending_outbound (fst q) (fst (snd q)) (snd (snd q)) s1)"
      using Cons.IH by blast
    then show ?thesis using one None rest
      by (intro exI [of _ "q # pre"] exI [of _ q'] exI [of _ post])
        (simp add: track_all_def track_pending_outbound_def)
  qed
qed simp

lemma od_set_keys: "set (map fst (od_set k v xs)) = insert k (set (map fst xs))"
  by (induction k v xs rule: od_set.induct) auto

lemma od_set_lookup: "map_of (od_set k v xs) i = (if i = k then Some v else map_of xs i)"
  by (induction xs) auto

lemma od_pop_lookup: "map_of (od_pop k xs) i = (if i = k then None else map_of xs i)"
  by (induction xs) (auto simp: od_pop_def)

lemma track_all_lookup:
  "map_of (track_all qs p) i = (if i \<in> fst ` set qs then map_of (rev qs) i else map_of p i)"
proof (induction qs arbitrary: p)
  case (Cons q qs)
  have none: "map_of (rev qs) i = None \<longleftrightarrow> i \<notin> fst ` set qs" by (simp add: map_of_eq_None_iff)
  have "map_of (track_all (q # qs) p) i =
      (if i \<in> fst ` set qs then map_of (rev qs) i else map_of (od_set (fst q) (snd q) p) i)"
    using Cons [of "od_set (fst q) (snd q) p"] by (simp add: track_all_def)
  moreover have "map_of (rev (q # qs)) i = (if i \<in> fst ` set qs then map_of (rev qs) i
      else if i = fst q then Some (snd q) else None)"
    using none by (cases q) (auto simp: map_add_def split: option.splits)
  ultimately show ?case by (auto simp: od_set_lookup)
qed (simp add: track_all_def)

lemma ack_outbound_lookup:
  "map_of (pending_outbound (ack_outbound ms s)) i =
    (if i \<in> set ms then None else map_of (pending_outbound s) i)"
  by (induction ms arbitrary: s) (auto simp: od_pop_lookup)

lemma write_unencrypted_queue_ok:
  "write_unencrypted_queue n us = (rest, fs, k, None) \<Longrightarrow> rest = [] \<and> map frame_of fs = us"
  by (induction n us arbitrary: rest fs k rule: write_unencrypted_queue.induct)
    (auto split: prod.splits)

lemma resend_pending_ok:
  assumes "salts_ok salts"
  shows "resend_pending salts n qs s = (s', fs, k, e) \<Longrightarrow>
    message_queue s' = message_queue s \<and> pending_outbound s' = pending_outbound s
    \<and> unencrypted_queue s' = unencrypted_queue s
    \<and> (e = None \<longrightarrow> map frame_of fs = map (\<lambda>q. (fst q, snd (snd q))) qs)"
proof (induction qs arbitrary: n s s' fs k e)
  case (Cons q qs)
  obtain s1 fs1 k1 e1 where w: "write_message salts n q s = (s1, fs1, k1, e1)"
    by (metis prod_cases4)
  note one = write_message_ok [OF assms w]
  show ?case
  proof (cases e1)
    case None
    then obtain fs2 where "resend_pending salts k1 qs s1 = (s', fs2, k, e)" "fs = fs1 @ fs2"
      using Cons.prems w by (auto simp: Let_def split: prod.splits)
    then show ?thesis using Cons.IH one None by auto
  qed (use Cons.prems w one in auto)
qed auto

lemma resend_phase_ok:
  assumes "salts_ok salts" "resend_phase salts n s = (s', fs, k, e)"
  shows "message_queue s' = message_queue s" "pending_outbound s' = pending_outbound s"
    "unencrypted_queue s' = unencrypted_queue s"
    "e = None \<Longrightarrow> map frame_of fs =
      (if resend_pending_on_connect s then map (\<lambda>q. (fst q, snd (snd q))) (pending_outbound s) else [])"
proof -
  note r = resend_pending_ok [OF assms(1), of n "pending_outbound s" "s\<lparr>resend_pending_on_connect := False\<rparr>" s' fs k e]
  show "message_queue s' = message_queue s" "pending_outbound s' = pending_outbound s"
    "unencrypted_queue s' = unencrypted_queue s"
    using assms(2) r by (auto simp: resend_phase_def split: if_splits)
  show "map frame_of fs =
      (if resend_pending_on_connect s then map (\<lambda>q. (fst q, snd (snd q))) (pending_outbound s) else [])"
    if "e = None"
    using assms(2) r that by (auto simp: resend_phase_def split: if_splits)
qed

text \<open>A flush that reports no error wrote everything, in order, and keeps it until it is acknowledged.\<close>

lemma flush_success:
  assumes "salts_ok salts" "write_session_queues salts budget s = (s', fs, None)"
  shows "unencrypted_queue s' = [] \<and> message_queue s' = []
    \<and> pending_outbound s' = track_all (message_queue s) (pending_outbound s)
    \<and> map frame_of fs =
        unencrypted_queue s
        @ (if resend_pending_on_connect s then map (\<lambda>q. (fst q, snd (snd q))) (pending_outbound s) else [])
        @ map (\<lambda>q. (fst q, snd (snd q))) (message_queue s)"
proof -
  obtain us fs1 n1 e1 where 1: "write_unencrypted_queue budget (unencrypted_queue s) = (us, fs1, n1, e1)"
    by (metis prod_cases4)
  have e1: "e1 = None" using assms(2) 1 by (cases e1) (auto simp: write_session_queues_def)
  let ?s1 = "s\<lparr>unencrypted_queue := us\<rparr>"
  obtain s2 fs2 n2 e2 where 2: "resend_phase salts n1 ?s1 = (s2, fs2, n2, e2)" by (metis prod_cases4)
  have e2: "e2 = None"
    using assms(2) 1 2 e1 by (cases e2) (auto simp: write_session_queues_def Let_def)
  obtain fs3 n3 where 3: "write_message_queue salts n2 (message_queue s2) s2 = (s', fs3, n3, None)"
      and fs: "fs = fs1 @ fs2 @ fs3"
    using assms(2) 1 2 e1 e2 by (auto simp: write_session_queues_def Let_def split: prod.splits)
  have u: "us = []" "map frame_of fs1 = unencrypted_queue s"
    using write_unencrypted_queue_ok 1 e1 by auto
  show ?thesis using u fs e2 resend_phase_ok [OF assms(1) 2] write_message_queue_ok [OF assms(1) 3] by simp
qed

text \<open>
  A flush that fails keeps everything except at most one message: the one whose write failed has
  left the queue and was not tracked yet.
\<close>

lemma flush_failure:
  assumes "salts_ok salts" "write_session_queues salts budget s = (s', fs, Some e)"
  shows "\<exists>pre lost. length lost \<le> 1 \<and> message_queue s = pre @ lost @ message_queue s'
    \<and> pending_outbound s' = track_all pre (pending_outbound s)"
proof -
  obtain us fs1 n1 e1 where 1: "write_unencrypted_queue budget (unencrypted_queue s) = (us, fs1, n1, e1)"
    by (metis prod_cases4)
  show ?thesis
  proof (cases e1)
    case (Some e')
    then have "s' = s\<lparr>unencrypted_queue := us\<rparr>" using assms(2) 1 by (simp add: write_session_queues_def)
    then show ?thesis by (intro exI [of _ "[]"]) (simp add: track_all_def)
  next
    case e1: None
    let ?s1 = "s\<lparr>unencrypted_queue := us\<rparr>"
    obtain s2 fs2 n2 e2 where 2: "resend_phase salts n1 ?s1 = (s2, fs2, n2, e2)" by (metis prod_cases4)
    have r: "message_queue s2 = message_queue s" "pending_outbound s2 = pending_outbound s"
      using resend_phase_ok [OF assms(1) 2] by simp_all
    show ?thesis
    proof (cases e2)
      case (Some e')
      then have "s' = s2" using assms(2) 1 2 e1 by (auto simp: write_session_queues_def Let_def)
      then show ?thesis using r by (intro exI [of _ "[]"]) (simp add: track_all_def)
    next
      case None
      then obtain fs3 n3 where 3: "write_message_queue salts n2 (message_queue s2) s2 = (s', fs3, n3, Some e)"
        using assms(2) 1 2 e1 by (auto simp: write_session_queues_def Let_def split: prod.splits)
      obtain pre q post where "message_queue s2 = pre @ q # post" "message_queue s' = post"
          "pending_outbound s' = track_all pre (pending_outbound s2)"
        using write_message_queue_fail [OF assms(1) 3] by blast
      then show ?thesis using r by (intro exI [of _ pre] exI [of _ "[q]"]) simp
    qed
  qed
qed

end
