(* ===== verification/Messages.thy ===== *)
theory Messages
  imports Server
begin

text \<open>
  Messages between the parts of the server, from \<open>SessionManager.send\<close> and its relatives
  (\<^verbatim>\<open>piltover/session/session_manager.py\<close>) to the sessions
  (\<^verbatim>\<open>piltover/message_brokers/base_broker.py\<close>), over the in-memory broker, which processes a
  message inside \<open>send\<close>. The sessions of a message are served one after the other, in the order
  of their references; Python serves them in the order of a set and may interleave them.
\<close>

section \<open>What a handler gets from outside\<close>

record 'g env =
  push :: "'g push_registry"
  serializer :: "'g serializer"
  hmac_sha1 :: "byte list \<Rightarrow> byte list \<Rightarrow> byte list"
  server_salt_key :: "byte list"
  database :: db
  clock :: real
  write_budget :: "sref \<Rightarrow> nat"
  updates_too_long :: 'g

definition env_salts :: "'g env \<Rightarrow> session \<Rightarrow> session res" where
  "env_salts E = update_salts_maybe (hmac_sha1 E) (server_salt_key E) (clock E) False"

type_synonym sent = "(sref \<times> frame) list"

section \<open>Building a message\<close>

datatype ids = NoIds | OneId int | ManyIds "int list"

fun ids_falsy :: "ids \<Rightarrow> bool" where
  "ids_falsy NoIds = True"
| "ids_falsy (OneId i) = (i = 0)"
| "ids_falsy (ManyIds xs) = (xs = [])"

fun shrink_ids :: "ids \<Rightarrow> ids" where
  "shrink_ids (ManyIds [i]) = OneId i"
| "shrink_ids x = x"

fun ids_scalar :: "ids \<Rightarrow> bool" where
  "ids_scalar (ManyIds _) = False"
| "ids_scalar _ = True"

fun scalar_of :: "ids \<Rightarrow> int option" where
  "scalar_of (OneId i) = Some i"
| "scalar_of _ = None"

fun list_of :: "ids \<Rightarrow> int list option" where
  "list_of NoIds = None"
| "list_of (OneId i) = Some [i]"
| "list_of (ManyIds xs) = Some xs"

definition prefix_field :: "field_requirement \<Rightarrow> field_requirement" where
  "prefix_field f = f\<lparr>field := ''obj.'' @ field f\<rparr>"

text \<open>The object with the values it needs from each receiver announced.\<close>

definition wrap_context :: "'g push_registry \<Rightarrow> 'g outbound \<Rightarrow> 'g outbound" where
  "wrap_context P x =
     (let c = context_of P (out_obj x)
      in if needs_any c
         then x\<lparr>out_ctx := Some (needs_to_tl c), out_layer := map_option (map prefix_field) (out_layer x)\<rparr>
         else x)"

definition build_message ::
    "'g push_registry \<Rightarrow> 'g outbound \<Rightarrow> ids \<Rightarrow> ids \<Rightarrow> ids \<Rightarrow> ids \<Rightarrow> ids \<Rightarrow> int option
      \<Rightarrow> 'g outbound message_internal option" where
  "build_message P x user key channel auth ignore_auth lay =
     (if ids_falsy user \<and> ids_falsy key \<and> ids_falsy channel \<and> ids_falsy auth then None
      else let u = shrink_ids user; k = shrink_ids key; c = shrink_ids channel;
               a = shrink_ids auth; ign = shrink_ids ignore_auth;
               y = wrap_context P x
           in if ids_scalar u \<and> ids_scalar k \<and> ids_scalar c \<and> ids_scalar a \<and> ids_scalar ign
              then Some (MessageToUsersShort (scalar_of u) (scalar_of k) (scalar_of c) (scalar_of a)
                     (scalar_of ign) y lay)
              else Some (MessageToUsers (list_of u) (list_of k) (list_of c) (list_of a)
                     (list_of ign) y lay))"

definition build_internal_push :: "ids \<Rightarrow> 'o message_internal option" where
  "build_internal_push user =
     (if ids_falsy user then None
      else case shrink_ids user of
             ManyIds us \<Rightarrow> Some (InternalPushForUsers us)
           | OneId u \<Rightarrow> Some (InternalPushForUsersShort u)
           | NoIds \<Rightarrow> None)"

definition build_channel_subscribe :: "int \<Rightarrow> int list \<Rightarrow> bool \<Rightarrow> 'o message_internal option" where
  "build_channel_subscribe channel us sub =
     (if us \<noteq> [] \<and> channel \<noteq> 0 then Some (ChannelSubscribe [channel] us sub) else None)"

section \<open>Processing a message\<close>

text \<open>
  \<open>_deliver\<close>: the session is asked for its state when its turn comes; whatever is raised stays
  here.
\<close>

definition deliver ::
    "'g env \<Rightarrow> targets \<Rightarrow> 'g outbound \<Rightarrow> sref \<Rightarrow> sent \<times> server \<Rightarrow> sent \<times> server" where
  "deliver E t x r = (\<lambda>(out, w).
     if \<not> deliverable t (deliver_updates_to_internal_push (push E) x) (heap w r) then (out, w)
     else case enqueue (push E) (serializer E) (clock E) x False r w of
            (w1, Some _) \<Rightarrow> (out, w1)
          | (w1, None) \<Rightarrow>
              if updates_need_immediate_flush (push E) x
              then let (fs, w2, _) = flush_outbound (env_salts E) (write_budget E r) r w1
                   in (out @ map (Pair r) fs, w2)
              else (out, w1))"

definition process_message_to_users ::
    "'g env \<Rightarrow> targets \<Rightarrow> 'g outbound \<Rightarrow> server \<Rightarrow> sent \<times> server" where
  "process_message_to_users E t x w =
     fold (deliver E t x) (sorted_list_of_set (send_to (broker w) t)) ([], w)"

definition push_too_long :: "'g env \<Rightarrow> sref \<Rightarrow> sent \<times> server \<Rightarrow> sent \<times> server" where
  "push_too_long E r = (\<lambda>(out, w).
     if client (heap w r) = None then (out, w)
     else case enqueue (push E) (serializer E) (clock E)
                 \<lparr>out_obj = Generated (updates_too_long E), out_ctx = None, out_layer = None\<rparr> False r w of
            (w1, Some _) \<Rightarrow> (out, w1)
          | (w1, None) \<Rightarrow>
              (let (fs, w2, _) = flush_outbound (env_salts E) (write_budget E r) r w1
               in (out @ map (Pair r) fs, w2)))"

definition process_internal_push :: "'g env \<Rightarrow> int list \<Rightarrow> server \<Rightarrow> sent \<times> server" where
  "process_internal_push E us w =
     fold (push_too_long E)
       (sorted_list_of_set (fold (\<lambda>u S. S \<union> subs (internal_push_users (broker w)) u) us {})) ([], w)"

definition drop_channel_cache :: "int list \<Rightarrow> server \<Rightarrow> server" where
  "drop_channel_cache us w = w\<lparr>channel_cache := fold (\<lambda>u m. m(u := None)) us (channel_cache w)\<rparr>"

definition process_channel_subscribe :: "int list \<Rightarrow> int list \<Rightarrow> bool \<Rightarrow> server \<Rightarrow> server" where
  "process_channel_subscribe cs us sub w =
     (let (dropped, b) = process_channels_subscribe cs us sub (broker w)
      in (drop_channel_cache dropped w)\<lparr>broker := b\<rparr>)"

text \<open>
  A session that only wants to know that there is something to fetch. The exception of
  \<open>refresh_auth_maybe\<close> leaves the handler before the session is subscribed.
\<close>

definition set_session_internal_push :: "'g env \<Rightarrow> int \<Rightarrow> int \<Rightarrow> server \<Rightarrow> outcome" where
  "set_session_internal_push E key sid w =
     (case sessions w (key, sid) of
        None \<Rightarrow> (w, None)
      | Some r \<Rightarrow>
          (case refresh_auth_maybe (database E) (clock E) True r
                  (upd_session r (\<lambda>s. s\<lparr>is_internal_push := True\<rparr>) w) of
             (w1, Some e) \<Rightarrow> (w1, Some e)
           | (w1, None) \<Rightarrow> (upd_broker (subscribe r (heap w1 r)) w1, None)))"

fun process_message :: "'g env \<Rightarrow> 'g outbound message_internal \<Rightarrow> server \<Rightarrow> sent \<times> outcome" where
  "process_message E (SetSessionInternalPush key sid u) w = ([], set_session_internal_push E key sid w)"
| "process_message E (ChannelSubscribe cs us sub) w = ([], process_channel_subscribe cs us sub w, None)"
| "process_message E (InternalPushForUsers us) w =
     (let (out, w1) = process_internal_push E us w in (out, w1, None))"
| "process_message E (InternalPushForUsersShort u) w =
     (let (out, w1) = process_internal_push E [u] w in (out, w1, None))"
| "process_message E (MessageToUsers us ks cs as ign x lay) w =
     (let (out, w1) = process_message_to_users E
            (message_targets (MessageToUsers us ks cs as ign x lay)) x w
      in (out, w1, None))"
| "process_message E (MessageToUsersShort u k c a ign x lay) w =
     (let (out, w1) = process_message_to_users E
            (message_targets (MessageToUsersShort u k c a ign x lay)) x w
      in (out, w1, None))"

text \<open>\<open>SessionManager.send\<close> and the like, over the in-memory broker.\<close>

definition manager_send ::
    "'g env \<Rightarrow> 'g outbound message_internal option \<Rightarrow> server \<Rightarrow> sent \<times> outcome" where
  "manager_send E m w = (case m of None \<Rightarrow> ([], w, None) | Some msg \<Rightarrow> process_message E msg w)"

end
