(* ===== verification/Subscriptions.thy ===== *)
theory Subscriptions
  imports ServerFacts Messages
begin

text \<open>
  The agreement between the broker's tables and the sessions. A step relation collects the
  operations of the gateway on the shared state; in every reachable state a session stands in
  the table of users (and of authorizations) exactly for the user (authorization) it is logged
  in as, as long as it is connected.
\<close>

section \<open>The invariant\<close>

text \<open>What the tables of users and authorizations hold for one session.\<close>

definition user_ids :: "broker \<Rightarrow> sref \<Rightarrow> int set" where
  "user_ids b r = {u. (u, r) \<in> sub_rel (subscribed_users b)}"

definition auth_ids :: "broker \<Rightarrow> sref \<Rightarrow> int set" where
  "auth_ids b r = {a. (a, r) \<in> sub_rel (subscribed_auths b)}"

text \<open>
  A session may stand only under its own user and authorization, and stands there when it is
  connected.
\<close>

definition agree :: "broker \<Rightarrow> sref \<Rightarrow> session \<Rightarrow> bool" where
  "agree b r s \<longleftrightarrow> finite (channel_ids s)
     \<and> user_ids b r \<subseteq> set_option (truthy_key (user_id s))
     \<and> auth_ids b r \<subseteq> set_option (truthy_key (auth_id s))
     \<and> (client s \<noteq> None \<longrightarrow> user_ids b r = set_option (truthy_key (user_id s))
         \<and> auth_ids b r = set_option (truthy_key (auth_id s)))"

text \<open>The references that occur in any of the five tables.\<close>

definition broker_refs :: "broker \<Rightarrow> sref set" where
  "broker_refs b = Range (sub_rel (subscribed_users b)) \<union> Range (sub_rel (subscribed_keys b))
     \<union> Range (sub_rel (subscribed_auths b)) \<union> Range (sub_rel (subscribed_channels b))
     \<union> Range (sub_rel (internal_push_users b))"

definition sub_inv :: "server \<Rightarrow> bool" where
  "sub_inv w \<longleftrightarrow> broker_wf (broker w) \<and> broker_refs (broker w) \<subseteq> {..<next_ref w}
     \<and> ran (sessions w) \<subseteq> {..<next_ref w} \<and> (\<forall>r. agree (broker w) r (heap w r))"

lemma truthy_keyD: "truthy_key k = Some i \<Longrightarrow> k = Some i \<and> i \<noteq> 0"
  by (auto simp: truthy_key_def falsy_def split: if_splits)

lemma truthy_key_simps [simp]: "truthy_key None = None" "falsy k \<Longrightarrow> truthy_key k = None"
  by (simp_all add: truthy_key_def falsy_def)

text \<open>
  An operation that leaves the broker alone and changes no session's user, authorization or
  channels, and connects none, keeps the invariant.
\<close>

definition quiet_session :: "session \<Rightarrow> session \<Rightarrow> bool" where
  "quiet_session s s' \<longleftrightarrow> user_id s' = user_id s \<and> auth_id s' = auth_id s
     \<and> channel_ids s' = channel_ids s \<and> (client s' \<noteq> None \<longrightarrow> client s \<noteq> None)"

definition quiet :: "server \<Rightarrow> server \<Rightarrow> bool" where
  "quiet w w' \<longleftrightarrow> broker w' = broker w \<and> next_ref w' = next_ref w \<and> sessions w' = sessions w \<and>
     (\<forall>r. quiet_session (heap w r) (heap w' r))"

lemma quiet_agree: "quiet_session s s' \<Longrightarrow> agree b r s \<Longrightarrow> agree b r s'"
  by (auto simp: quiet_session_def agree_def)

lemma quiet_inv: "sub_inv w \<Longrightarrow> quiet w w' \<Longrightarrow> sub_inv w'"
  unfolding sub_inv_def quiet_def using quiet_agree by metis

lemma quiet_session_refl [simp]: "quiet_session s s"
  by (simp add: quiet_session_def)

lemma quiet_session_trans: "quiet_session s s' \<Longrightarrow> quiet_session s' s'' \<Longrightarrow> quiet_session s s''"
  by (simp add: quiet_session_def)

lemma quiet_refl [intro, simp]: "quiet w w"
  by (simp add: quiet_def)

lemma quiet_trans: "quiet w w' \<Longrightarrow> quiet w' w'' \<Longrightarrow> quiet w w''"
  unfolding quiet_def using quiet_session_trans by metis

lemma quiet_upd: "quiet_session (heap w r) (f (heap w r)) \<Longrightarrow> quiet w (upd_session r f w)"
  by (simp add: quiet_def upd_session_def)

lemma quiet_wake [simp]: "quiet w (wake c w)"
  by (simp add: quiet_def)

lemma quiet_leave [simp]: "quiet w (schedule_leave u w)" "quiet w (cancel_scheduled_leave u w)"
  by (simp_all add: quiet_def)

lemma quiet_updI: "quiet w0 w \<Longrightarrow> quiet_session (heap w r) (f (heap w r)) \<Longrightarrow> quiet w0 (upd_session r f w)"
  by (rule quiet_trans [OF _ quiet_upd])

lemma quiet_wake_maybe: "quiet w0 w \<Longrightarrow> quiet w0 (case x of None \<Rightarrow> w | Some c \<Rightarrow> wake c w)"
  by (cases x) (auto intro: quiet_trans)

lemma quiet_column: "quiet w0 w \<Longrightarrow> quiet w0 (w\<lparr>upd_seq_column := f\<rparr>)"
  by (simp add: quiet_def)

lemma pack_message_quiet: "pack_message R t x b s = (m, s') \<Longrightarrow> quiet_session s s'"
  by (auto simp: pack_message_def msg_id_def get_outgoing_seq_no_def quiet_session_def Let_def
      split: if_splits prod.splits)

lemma msg_id_quiet: "msg_id t b s = (m, s') \<Longrightarrow> quiet_session s s'"
  by (auto simp: msg_id_def quiet_session_def Let_def)

lemma flush_sched_quiet: "quiet_session s (schedule_outbound_flush s)"
  by (simp add: schedule_outbound_flush_def quiet_session_def)

lemma quiet_queues:
  "quiet_session s (s\<lparr>message_queue := q\<rparr>)" "quiet_session s (s\<lparr>unencrypted_queue := u\<rparr>)"
  "quiet_session s (s\<lparr>upd_seq := n\<rparr>)"
  by (simp_all add: quiet_session_def)

lemma next_upd_seq_quiet: "quiet w (snd (next_upd_seq r w))"
  unfolding next_upd_seq_def Let_def
  by (auto intro!: quiet_column quiet_updI quiet_queues split: option.splits)

lemma set_updates_seq_quiet: "quiet w (snd (set_updates_seq P r x w))"
  by (cases x) (simp_all add: set_updates_seq_def split_beta next_upd_seq_quiet)

lemma quiet_put:
  "quiet w0 w \<Longrightarrow> (\<And>s. quiet_session s (f s)) \<Longrightarrow>
   quiet w0 (upd_session r schedule_outbound_flush
     (case message_available (heap (upd_session r f w) r) of
        None \<Rightarrow> upd_session r f w | Some c \<Rightarrow> wake c (upd_session r f w)))"
  by (intro quiet_updI quiet_wake_maybe flush_sched_quiet)

lemma put_message_quiet: "quiet w0 w \<Longrightarrow> quiet w0 (put_message r q w)"
  unfolding put_message_def Let_def by (rule quiet_put) (simp_all add: quiet_queues)

lemma enqueue_unencrypted_quiet: "quiet w (fst (enqueue_unencrypted t x in_reply r w))"
proof -
  obtain mid s1 where m: "msg_id t in_reply (heap w r) = (mid, s1)" by (metis surj_pair)
  have q: "quiet w (upd_session r (\<lambda>_. s1) w)"
    by (rule quiet_upd) (rule msg_id_quiet [OF m])
  show ?thesis
  proof (cases x)
    case (Inr b)
    show ?thesis
      using quiet_put [OF q, of "\<lambda>s. s\<lparr>unencrypted_queue := unencrypted_queue s @ [(mid, b)]\<rparr>" r]
      by (simp add: enqueue_unencrypted_def m Let_def quiet_queues Inr)
  qed (simp add: enqueue_unencrypted_def m Let_def q)
qed

lemma enqueue_quiet: "quiet w (fst (enqueue P ser t x in_reply r w))"
proof (cases "prepare_outbound_obj P (layer (heap w r)) x")
  case (Inr y)
  obtain x1 w1 where x1: "set_updates_seq P r (out_obj y) w = (x1, w1)" by (metis surj_pair)
  obtain m s2 where p: "pack_message (reg P) t x1 in_reply (heap w1 r) = (m, s2)" by (metis surj_pair)
  have "quiet w w1" using set_updates_seq_quiet [of w P r "out_obj y"] x1 by simp
  then have "quiet w (upd_session r (\<lambda>_. s2) w1)"
    using pack_message_quiet [OF p] by (intro quiet_updI)
  then show ?thesis
    by (cases "ser s2 (out_ctx y) (msg_obj m)")
      (simp_all add: enqueue_def Inr x1 p put_message_quiet)
qed (simp add: enqueue_def)

section \<open>Operations on the tables\<close>

lemma slices [simp]:
  assumes "broker_wf b"
  shows "user_ids (subscribe_user k s b) r = (if r = s then user_ids b r \<union> set_option (truthy_key k) else user_ids b r)"
    and "auth_ids (subscribe_auth k s b) r = (if r = s then auth_ids b r \<union> set_option (truthy_key k) else auth_ids b r)"
    and "user_ids (unsubscribe_user k s b) r = (if r = s then user_ids b r - set_option (truthy_key k) else user_ids b r)"
    and "auth_ids (unsubscribe_auth k s b) r = (if r = s then auth_ids b r - set_option (truthy_key k) else auth_ids b r)"
    and "user_ids (subscribe_auth k s b) r = user_ids b r"
    and "auth_ids (subscribe_user k s b) r = auth_ids b r"
    and "user_ids (unsubscribe_auth k s b) r = user_ids b r"
    and "auth_ids (unsubscribe_user k s b) r = auth_ids b r"
    and "user_ids (channels_diff_update s ds xs b) r = user_ids b r"
    and "auth_ids (channels_diff_update s ds xs b) r = auth_ids b r"
  using assms by (auto simp: user_ids_def auth_ids_def)

lemma slices_session [simp]:
  assumes "broker_wf b" "finite (channel_ids x)"
  shows "user_ids (subscribe s x b) r =
      (if r = s then user_ids b r \<union> set_option (truthy_key (user_id x)) else user_ids b r)"
    and "auth_ids (subscribe s x b) r =
      (if r = s then auth_ids b r \<union> set_option (truthy_key (auth_id x)) else auth_ids b r)"
    and "user_ids (unsubscribe s x b) r =
      (if r = s then user_ids b r - set_option (truthy_key (user_id x)) else user_ids b r)"
    and "auth_ids (unsubscribe s x b) r =
      (if r = s then auth_ids b r - set_option (truthy_key (auth_id x)) else auth_ids b r)"
  by (auto simp: user_ids_def auth_ids_def subscribe_rel [OF assms] unsubscribe_rel [OF assms])

lemma refs_ops [simp]:
  assumes "broker_wf b"
  shows "broker_refs (subscribe_user k s b) \<subseteq> insert s (broker_refs b)"
    and "broker_refs (subscribe_auth k s b) \<subseteq> insert s (broker_refs b)"
    and "broker_refs (unsubscribe_user k s b) \<subseteq> insert s (broker_refs b)"
    and "broker_refs (unsubscribe_auth k s b) \<subseteq> insert s (broker_refs b)"
    and "broker_refs (channels_diff_update s ds xs b) \<subseteq> insert s (broker_refs b)"
  unfolding broker_refs_def using assms by auto

lemma refs_session [simp]:
  assumes "broker_wf b" "finite (channel_ids x)"
  shows "broker_refs (subscribe s x b) \<subseteq> insert s (broker_refs b)"
    and "broker_refs (unsubscribe s x b) \<subseteq> insert s (broker_refs b)"
  unfolding broker_refs_def by (auto simp: subscribe_rel [OF assms] unsubscribe_rel [OF assms] split: if_splits)

text \<open>An operation on one session: the tables change only there.\<close>

definition local_change :: "sref \<Rightarrow> broker \<Rightarrow> broker \<Rightarrow> bool" where
  "local_change r b b' \<longleftrightarrow> broker_wf b' \<and> broker_refs b' \<subseteq> insert r (broker_refs b)
     \<and> (\<forall>q. q \<noteq> r \<longrightarrow> user_ids b' q = user_ids b q \<and> auth_ids b' q = auth_ids b q)"

lemma local_change_refl: "broker_wf b \<Longrightarrow> local_change r b b"
  by (auto simp: local_change_def)

lemma local_change_trans: "local_change r b b' \<Longrightarrow> local_change r b' b'' \<Longrightarrow> local_change r b b''"
  unfolding local_change_def by auto

lemma local_change_ops:
  assumes "broker_wf b"
  shows "local_change r b (subscribe_user k r b)" "local_change r b (subscribe_auth k r b)"
    "local_change r b (unsubscribe_user k r b)" "local_change r b (unsubscribe_auth k r b)"
    "local_change r b (channels_diff_update r ds xs b)"
  using assms by (simp_all add: local_change_def)

lemma local_change_session:
  assumes "broker_wf b" "finite (channel_ids x)"
  shows "local_change r b (subscribe r x b)" "local_change r b (unsubscribe r x b)"
  using assms by (simp_all add: local_change_def subscribe_rel(1) unsubscribe_rel(1))

lemma local_inv:
  assumes "sub_inv w" "r < next_ref w" "local_change r (broker w) (broker w')"
    and "next_ref w' = next_ref w" "\<And>q. q \<noteq> r \<Longrightarrow> heap w' q = heap w q"
    and "ran (sessions w') \<subseteq> ran (sessions w)" "agree (broker w') r (heap w' r)"
  shows "sub_inv w'"
proof -
  have "agree (broker w') q (heap w' q)" for q
  proof (cases "q = r")
    case False
    then show ?thesis using assms(1,3,5) by (simp add: sub_inv_def agree_def local_change_def)
  qed (use assms(7) in simp)
  moreover have "broker_refs (broker w') \<subseteq> {..<next_ref w'}"
    using assms(1,2,3,4) unfolding sub_inv_def local_change_def by auto
  moreover have "ran (sessions w') \<subseteq> {..<next_ref w'}"
    using assms(1,4,6) unfolding sub_inv_def by auto
  ultimately show ?thesis using assms(3) by (simp add: sub_inv_def local_change_def)
qed

section \<open>The gateway's operations keep the agreement\<close>

lemma sub_invD:
  assumes "sub_inv w"
  shows "broker_wf (broker w)" "agree (broker w) r (heap w r)" "finite (channel_ids (heap w r))"
  using assms by (simp_all add: sub_inv_def agree_def)

lemma connect_session_fields [simp]:
  "user_id (connect_session c s) = user_id s" "auth_id (connect_session c s) = auth_id s"
  "channel_ids (connect_session c s) = channel_ids s" "auth_data (connect_session c s) = auth_data s"
  "session_id (connect_session c s) = session_id s" "client (connect_session c s) = Some c"
  by (simp_all add: connect_session_def cancel_cleanup_def Let_def)

lemma schedule_flush_fields [simp]:
  "user_id (schedule_outbound_flush s) = user_id s" "auth_id (schedule_outbound_flush s) = auth_id s"
  "channel_ids (schedule_outbound_flush s) = channel_ids s" "client (schedule_outbound_flush s) = client s"
  by (simp_all add: schedule_outbound_flush_def)

lemma connect_inv:
  assumes "sub_inv w" "r < next_ref w"
  shows "sub_inv (connect c r w)"
proof (rule local_inv [OF assms])
  note wf = sub_invD(1) [OF assms(1)] and ag = sub_invD(2) [OF assms(1), of r]
  let ?s = "connect_session c (heap w r)"
  have b: "broker (connect c r w) = subscribe r ?s (broker w)"
    by (simp add: connect_def Let_def split: option.split)
  have h: "heap (connect c r w) r = schedule_outbound_flush ?s"
    by (simp add: connect_def Let_def split: option.split)
  have fin: "finite (channel_ids ?s)" using ag by (simp add: agree_def)
  show "local_change r (broker w) (broker (connect c r w))"
    unfolding b using wf fin by (rule local_change_session)
  show "agree (broker (connect c r w)) r (heap (connect c r w) r)"
    using ag wf fin unfolding agree_def b h by (auto simp: slices_session)
qed (simp_all add: connect_def Let_def split: option.split)

lemma disconnect_quiet: "quiet w (disconnect r w)"
proof -
  have q: "quiet w (upd_session r disconnect_session w)"
    by (rule quiet_upd) (simp add: quiet_session_def disconnect_session_def)
  have "quiet w (schedule_cleanup r (upd_session r disconnect_session w))"
    unfolding schedule_cleanup_def by (rule quiet_updI [OF q]) (simp add: quiet_session_def)
  then show ?thesis using q
    by (simp add: disconnect_def Let_def quiet_trans [OF _ quiet_leave(1)] split: option.split)
qed

lemma finalize_session_fields [simp]:
  "user_id (finalize_session s) = user_id s" "auth_id (finalize_session s) = auth_id s"
  "channel_ids (finalize_session s) = channel_ids s" "client (finalize_session s) = None"
  by (simp_all add: finalize_session_def cancel_cleanup_def)

lemma manager_finalize_inv:
  assumes "sub_inv w" "r < next_ref w"
  shows "sub_inv (manager_finalize r w)"
proof (cases "Option.bind (auth_data (heap w r)) auth_key_id")
  case None
  have "quiet w (upd_session r finalize_session w)"
    by (rule quiet_upd) (simp add: quiet_session_def)
  then show ?thesis using assms(1) None by (simp add: manager_finalize_def quiet_inv)
next
  case (Some k)
  note wf = sub_invD(1) [OF assms(1)] and ag = sub_invD(2) [OF assms(1), of r]
  have fin: "finite (channel_ids (heap w r))" using ag by (simp add: agree_def)
  have b: "broker (manager_finalize r w) = unsubscribe r (heap w r) (broker w)"
    and h: "heap (manager_finalize r w) = (heap w)(r := finalize_session (heap w r))"
    and n: "next_ref (manager_finalize r w) = next_ref w"
    and t: "sessions (manager_finalize r w) = (sessions w)((k, session_id (heap w r)) := None)"
    using Some by (simp_all add: manager_finalize_def Let_def upd_session_def split: option.split)
  show ?thesis
  proof (rule local_inv [OF assms])
    show "local_change r (broker w) (broker (manager_finalize r w))"
      unfolding b using wf fin by (rule local_change_session)
    show "agree (broker (manager_finalize r w)) r (heap (manager_finalize r w) r)"
      using ag wf fin unfolding agree_def b h by (auto simp: slices_session)
    show "ran (sessions (manager_finalize r w)) \<subseteq> ran (sessions w)"
      unfolding t by (auto simp: ran_def)
  qed (simp_all add: n h)
qed

lemma delayed_cleanup_inv: "sub_inv w \<Longrightarrow> r < next_ref w \<Longrightarrow> sub_inv (delayed_cleanup r w)"
  by (simp add: delayed_cleanup_def manager_finalize_inv)

lemma new_session_agree: "agree b r (new_session sid c d) \<longleftrightarrow> user_ids b r = {} \<and> auth_ids b r = {}"
  by (auto simp: agree_def new_session_def)

lemma get_or_create_inv:
  assumes "sub_inv w"
  shows "sub_inv (snd (get_or_create sid c d w))"
proof (cases "sessions w (the (auth_key_id d), sid)")
  case None
  have "next_ref w \<notin> broker_refs (broker w)" using assms by (auto simp: sub_inv_def)
  then have "user_ids (broker w) (next_ref w) = {} \<and> auth_ids (broker w) (next_ref w) = {}"
    by (auto simp: broker_refs_def user_ids_def auth_ids_def)
  then show ?thesis using assms None
    by (auto simp: get_or_create_def Let_def sub_inv_def new_session_agree)
qed (use assms in \<open>simp add: get_or_create_def Let_def\<close>)

lemma reset_auth_inv:
  assumes "sub_inv w" "r < next_ref w"
  shows "sub_inv (reset_auth r w)"
proof (rule local_inv [OF assms])
  note wf = sub_invD(1) [OF assms(1)] and ag = sub_invD(2) [OF assms(1), of r]
  let ?s = "heap w r"
  have b: "broker (reset_auth r w) = channels_diff_update r (sorted_list_of_set (channel_ids ?s)) []
      (unsubscribe_user (user_id ?s) r (unsubscribe_auth (auth_id ?s) r (broker w)))"
    by (simp add: reset_auth_def Let_def)
  have 1: "local_change r (broker w) (unsubscribe_auth (auth_id ?s) r (broker w))" (is "local_change r _ ?b1")
    using wf by (rule local_change_ops)
  have 2: "local_change r ?b1 (unsubscribe_user (user_id ?s) r ?b1)" (is "local_change r _ ?b2")
    using wf by (simp add: local_change_ops)
  have 3: "local_change r ?b2 (channels_diff_update r (sorted_list_of_set (channel_ids ?s)) [] ?b2)"
    using wf by (simp add: local_change_ops)
  show "local_change r (broker w) (broker (reset_auth r w))"
    unfolding b using local_change_trans [OF 1 local_change_trans [OF 2 3]] .
  show "agree (broker (reset_auth r w)) r (heap (reset_auth r w) r)"
    using ag wf unfolding agree_def b by (auto simp: reset_auth_def Let_def)
qed (simp_all add: reset_auth_def Let_def)

text \<open>Reloading the authorization: the channels first, then the user and the authorization.\<close>

lemma unsubscribe_falsy:
  "falsy k \<Longrightarrow> unsubscribe_user k r b = b" "falsy k \<Longrightarrow> unsubscribe_auth k r b = b"
  by (simp_all add: unsubscribe_user_def unsubscribe_auth_def sub_remove_def)

definition swapped :: "int option \<Rightarrow> int option \<Rightarrow> int option \<Rightarrow> int option \<Rightarrow> sref \<Rightarrow> broker \<Rightarrow> broker" where
  "swapped old_user old_auth user auth r b =
     (let b1 = (if old_user \<noteq> user then subscribe_user user r (unsubscribe_user old_user r b) else b)
      in if old_auth \<noteq> auth then subscribe_auth auth r (unsubscribe_auth old_auth r b1) else b1)"

lemma resubscribe_broker:
  "broker (resubscribe old_user old_auth r w) =
     swapped old_user old_auth (user_id (heap w r)) (auth_id (heap w r)) r (broker w)"
  "heap (resubscribe old_user old_auth r w) = heap w"
  "next_ref (resubscribe old_user old_auth r w) = next_ref w"
  "sessions (resubscribe old_user old_auth r w) = sessions w"
  by (cases "falsy old_user"; cases "falsy old_auth";
      simp_all add: resubscribe_def swapped_def Let_def unsubscribe_falsy)+

lemma swapped_user_change:
  assumes "broker_wf b"
  shows "local_change r b (if x then subscribe_user u r (unsubscribe_user v r b) else b)"
  using assms local_change_trans [OF local_change_ops(3) [of b r v] local_change_ops(1) [of "unsubscribe_user v r b" r u]]
  by (simp add: local_change_refl)

lemma swapped_auth_change:
  assumes "broker_wf b"
  shows "local_change r b (if x then subscribe_auth u r (unsubscribe_auth v r b) else b)"
  using assms local_change_trans [OF local_change_ops(4) [of b r v] local_change_ops(2) [of "unsubscribe_auth v r b" r u]]
  by (simp add: local_change_refl)

lemma swapped_change:
  assumes "broker_wf b"
  shows "local_change r b (swapped old_user old_auth user auth r b)"
  unfolding swapped_def Let_def
  by (rule local_change_trans [OF swapped_user_change [OF assms] swapped_auth_change]) (use assms in simp)

lemma swapped_slices:
  assumes "broker_wf b"
  shows "user_ids (swapped old_user old_auth user auth r b) r =
      (if old_user \<noteq> user then user_ids b r - set_option (truthy_key old_user) \<union> set_option (truthy_key user)
       else user_ids b r)"
    and "auth_ids (swapped old_user old_auth user auth r b) r =
      (if old_auth \<noteq> auth then auth_ids b r - set_option (truthy_key old_auth) \<union> set_option (truthy_key auth)
       else auth_ids b r)"
  unfolding swapped_def Let_def using assms by simp_all

lemma resubscribe_inv:
  assumes "sub_inv w" "r < next_ref w" "local_change r (broker w) (broker w')"
    and "user_ids (broker w') r = user_ids (broker w) r" "auth_ids (broker w') r = auth_ids (broker w) r"
    and "next_ref w' = next_ref w" "\<And>q. q \<noteq> r \<Longrightarrow> heap w' q = heap w q"
    and "finite (channel_ids (heap w' r))" "client (heap w' r) = client (heap w r)"
    and "sessions w' = sessions w"
  shows "sub_inv (resubscribe (user_id (heap w r)) (auth_id (heap w r)) r w')"
proof (rule local_inv [OF assms(1,2)])
  have wf: "broker_wf (broker w')" using assms(3) by (simp add: local_change_def)
  show "local_change r (broker w) (broker (resubscribe (user_id (heap w r)) (auth_id (heap w r)) r w'))"
    unfolding resubscribe_broker using assms(3) swapped_change [OF wf] by (rule local_change_trans)
  show "agree (broker (resubscribe (user_id (heap w r)) (auth_id (heap w r)) r w')) r
      (heap (resubscribe (user_id (heap w r)) (auth_id (heap w r)) r w') r)"
    using sub_invD(2) [OF assms(1), of r] assms(4,5,8,9)
    unfolding agree_def resubscribe_broker swapped_slices [OF wf] by auto
qed (simp_all add: resubscribe_broker assms(6,7,10))

lemma refresh_channels_facts:
  assumes "broker_wf (broker w)"
  shows "local_change r (broker w) (broker (refresh_channels D t r w))"
    and "user_ids (broker (refresh_channels D t r w)) q = user_ids (broker w) q"
    and "auth_ids (broker (refresh_channels D t r w)) q = auth_ids (broker w) q"
    and "next_ref (refresh_channels D t r w) = next_ref w"
    and "q \<noteq> r \<Longrightarrow> heap (refresh_channels D t r w) q = heap w q"
    and "finite (channel_ids (heap (refresh_channels D t r w) r))"
    and "client (heap (refresh_channels D t r w) r) = client (heap w r)"
    and "sessions (refresh_channels D t r w) = sessions w"
  using assms by (auto simp: refresh_channels_def Let_def local_change_ops split: option.split)

lemma load_auth_fields [simp]:
  "client (load_auth a s) = client s" "channel_ids (load_auth a s) = channel_ids s"
  by (simp_all add: load_auth_def)

lemma refetch_quiet: "quiet w (refetch_auth_data D force r w)"
  by (auto simp: refetch_auth_data_def quiet_session_def intro!: quiet_upd split: option.split)

lemma reload_auth_inv:
  assumes "sub_inv w" "r < next_ref w"
  shows "sub_inv (reload_auth D t reload perm r w)"
proof -
  define w2 where "w2 = (if reload then upd_session r (\<lambda>s. s\<lparr>auth_loaded_at := t\<rparr>) w else w)"
  define w3 where "w3 = (if reload then upd_session r (load_auth (the (authorization_of D perm))) w2 else w2)"
  define w4 where "w4 = (if auth_id (heap w3 r) \<noteq> None \<and> \<not> mfa_pending (heap w3 r)
      \<and> t - channels_loaded_at (heap w3 r) > 60 * 5 then refresh_channels D t r w3 else w3)"
  have eq: "reload_auth D t reload perm r w = (if reload \<and> authorization_of D perm = None then reset_auth r w2
      else resubscribe (user_id (heap w r)) (auth_id (heap w r)) r w4)"
    by (simp only: reload_auth_def Let_def w4_def w3_def w2_def)
  have q2: "quiet w w2" by (auto simp: w2_def quiet_session_def intro: quiet_upd)
  then have i2: "sub_inv w2" "next_ref w2 = next_ref w"
    using quiet_inv [OF assms(1)] by (simp_all add: quiet_def)
  have w3: "broker w3 = broker w" "next_ref w3 = next_ref w" "sessions w3 = sessions w" "\<And>q. q \<noteq> r \<Longrightarrow> heap w3 q = heap w q"
      "client (heap w3 r) = client (heap w r)" "channel_ids (heap w3 r) = channel_ids (heap w r)"
    by (auto simp: w3_def w2_def)
  have wf: "broker_wf (broker w)" and fin: "finite (channel_ids (heap w r))"
    using sub_invD [OF assms(1)] by simp_all
  have w4: "local_change r (broker w) (broker w4)" "user_ids (broker w4) r = user_ids (broker w) r"
      "auth_ids (broker w4) r = auth_ids (broker w) r" "next_ref w4 = next_ref w"
      "\<And>q. q \<noteq> r \<Longrightarrow> heap w4 q = heap w q" "finite (channel_ids (heap w4 r))"
      "client (heap w4 r) = client (heap w r)" "sessions w4 = sessions w"
    using refresh_channels_facts [of w3] wf w3 fin
    by (simp_all add: w4_def local_change_refl)
  show ?thesis unfolding eq
    using reset_auth_inv [OF i2(1)] i2(2) assms(2) resubscribe_inv [OF assms w4] by simp
qed

lemma refresh_auth_inv:
  assumes "sub_inv w" "r < next_ref w"
  shows "sub_inv (fst (refresh_auth_maybe D t force r w))" (is ?i)
    and "next_ref (fst (refresh_auth_maybe D t force r w)) = next_ref w" (is ?n)
proof -
  let ?w1 = "refetch_auth_data D force r w"
  have 1: "sub_inv ?w1" "next_ref ?w1 = next_ref w"
    using refetch_quiet quiet_inv [OF assms(1)] by (auto simp: quiet_def)
  then show ?i using assms
    by (auto simp: refresh_auth_maybe_def Let_def reset_auth_inv reload_auth_inv split: option.split)
  have "next_ref (reload_auth D t x p r w') = next_ref w'" for x p w'
    by (simp add: reload_auth_def Let_def resubscribe_broker reset_auth_def refresh_channels_def
        split: option.split)
  moreover have "next_ref (reset_auth r w') = next_ref w'" for w'
    by (simp add: reset_auth_def Let_def)
  ultimately show ?n using 1(2) by (simp add: refresh_auth_maybe_def Let_def split: option.split)
qed

end
