(* ===== verification/Reachable.thy ===== *)
theory Reachable
  imports Subscriptions
begin

text \<open>
  The gateway's operations on the shared state as a step relation, and the agreement between the
  broker's tables and the sessions in every reachable state.
\<close>

section \<open>Writing and delivering change no table\<close>

definition salts_quiet :: "(session \<Rightarrow> session res) \<Rightarrow> bool" where
  "salts_quiet f \<longleftrightarrow> (\<forall>s s'. f s = Inr s' \<longrightarrow> quiet_session s s')"

lemma update_salts_quiet: "salts_quiet (update_salts_maybe hmac key t force)"
  by (auto simp: salts_quiet_def quiet_session_def update_salts_maybe_def Let_def rbind_Inr_iff
      split: option.splits if_splits)

lemma env_salts_quiet: "salts_quiet (env_salts E)"
  by (simp add: env_salts_def update_salts_quiet)

lemma write_message_quiet:
  "salts_quiet salts \<Longrightarrow> write_message salts n q s = (s', fs, k, e) \<Longrightarrow> quiet_session s s'"
  by (auto simp: write_message_def salts_quiet_def split: prod.splits if_splits sum.splits nat.splits)

lemma resend_pending_quiet:
  assumes "salts_quiet salts"
  shows "resend_pending salts n qs s = (s', fs, k, e) \<Longrightarrow> quiet_session s s'"
proof (induction qs arbitrary: n s fs)
  case (Cons q qs)
  obtain s1 fs1 k1 e1 where w: "write_message salts n q s = (s1, fs1, k1, e1)" by (metis prod_cases4)
  note q1 = write_message_quiet [OF assms w]
  show ?case
  proof (cases e1)
    case None
    obtain s2 fs2 k2 e2 where r: "resend_pending salts k1 qs s1 = (s2, fs2, k2, e2)" by (metis prod_cases4)
    have "s' = s2" "k = k2" "e = e2" using Cons.prems w r None by auto
    then show ?thesis using Cons.IH [of k1 s1 fs2] r quiet_session_trans [OF q1] by simp
  qed (use Cons.prems w q1 in auto)
qed simp

lemma track_quiet: "quiet_session s (track_pending_outbound m q d s)"
  by (simp add: track_pending_outbound_def quiet_session_def)

lemma write_message_queue_quiet:
  assumes "salts_quiet salts"
  shows "write_message_queue salts n qs s = (s', fs, k, e) \<Longrightarrow> quiet_session s s'"
proof (induction qs arbitrary: n s fs)
  case (Cons q qs)
  let ?s0 = "s\<lparr>message_queue := qs\<rparr>"
  obtain s1 fs1 k1 e1 where w: "write_message salts n q ?s0 = (s1, fs1, k1, e1)" by (metis prod_cases4)
  have q1: "quiet_session s s1"
    using quiet_session_trans [OF quiet_queues(1) write_message_quiet [OF assms w]] .
  show ?case
  proof (cases e1)
    case None
    let ?s2 = "track_pending_outbound (fst q) (fst (snd q)) (snd (snd q)) s1"
    obtain s3 fs3 k3 e3 where r: "write_message_queue salts k1 qs ?s2 = (s3, fs3, k3, e3)" by (metis prod_cases4)
    have "s' = s3" "k = k3" "e = e3" using Cons.prems w r None by (auto simp: Let_def)
    then show ?thesis
      using Cons.IH [of k1 ?s2 fs3] r quiet_session_trans [OF q1 quiet_session_trans [OF track_quiet]] by simp
  qed (use Cons.prems w q1 in auto)
qed (auto simp: quiet_session_def)

lemma write_session_queues_quiet:
  assumes "salts_quiet salts" "write_session_queues salts budget s = (s', fs, e)"
  shows "quiet_session s s'"
proof -
  obtain us fs1 n1 e1 where 1: "write_unencrypted_queue budget (unencrypted_queue s) = (us, fs1, n1, e1)"
    by (metis prod_cases4)
  let ?s1 = "s\<lparr>unencrypted_queue := us\<rparr>"
  obtain s2 fs2 n2 e2 where 2: "resend_phase salts n1 ?s1 = (s2, fs2, n2, e2)" by (metis prod_cases4)
  obtain s3 fs3 n3 e3 where 3: "write_message_queue salts n2 (message_queue s2) s2 = (s3, fs3, n3, e3)"
    by (metis prod_cases4)
  have "quiet_session (?s1\<lparr>resend_pending_on_connect := False\<rparr>) s2 \<or> s2 = ?s1"
    using 2 resend_pending_quiet [OF assms(1)] by (auto simp: resend_phase_def split: if_splits)
  then have q2: "quiet_session s s2" by (auto simp: quiet_session_def)
  have q3: "quiet_session s s3"
    using quiet_session_trans [OF q2 write_message_queue_quiet [OF assms(1) 3]] .
  have "s' = ?s1 \<or> s' = s2 \<or> s' = s3"
    using assms(2) 1 2 3 by (auto simp: write_session_queues_def Let_def split: option.splits)
  then show ?thesis using q2 q3 quiet_queues(2) by metis
qed

lemma flush_quiet:
  assumes "salts_quiet salts" "flush_outbound salts budget r w = (fs, w', e)"
  shows "quiet w w'"
proof (cases "client (heap w r)")
  case (Some c)
  obtain s1 fs1 e1 where 1: "write_session_queues salts budget (heap w r) = (s1, fs1, e1)" by (metis prod_cases3)
  have q: "quiet w (upd_session r (\<lambda>_. s1) w)"
    using write_session_queues_quiet [OF assms(1) 1] by (rule quiet_upd)
  have "w' = upd_session r (\<lambda>_. s1) w \<or> w' = disconnect r (upd_session r (\<lambda>_. s1) w)"
    using assms(2) 1 Some by (auto simp: flush_outbound_def Let_def split: option.splits py_error.splits)
  then show ?thesis using q quiet_trans [OF q disconnect_quiet] by auto
qed (use assms in \<open>simp add: flush_outbound_def\<close>)

lemma enqueue_flush_quiet:
  assumes "enqueue P ser t x b r w = (w1, e)" "flush_outbound (env_salts E) n r w1 = (fs, w2, e2)"
  shows "quiet w w1 \<and> quiet w w2"
  using enqueue_quiet [of w P ser t x b r] assms quiet_trans flush_quiet [OF env_salts_quiet assms(2)] by auto

lemma deliver_quiet: "quiet w0 w \<Longrightarrow> quiet w0 (snd (deliver E t x r (out, w)))"
proof -
  assume q: "quiet w0 w"
  obtain w1 e where 1: "enqueue (push E) (serializer E) (clock E) x False r w = (w1, e)" by (metis surj_pair)
  obtain fs w2 e2 where 2: "flush_outbound (env_salts E) (write_budget E r) r w1 = (fs, w2, e2)"
    by (metis prod_cases3)
  have "quiet w0 w1" "quiet w0 w2" using enqueue_flush_quiet [OF 1 2] quiet_trans [OF q] by auto
  then show ?thesis using q by (simp add: deliver_def 1 2 split: option.split)
qed

lemma push_too_long_quiet: "quiet w0 w \<Longrightarrow> quiet w0 (snd (push_too_long E r (out, w)))"
proof -
  assume q: "quiet w0 w"
  let ?x = "\<lparr>out_obj = Generated (updates_too_long E), out_ctx = None, out_layer = None\<rparr>"
  obtain w1 e where 1: "enqueue (push E) (serializer E) (clock E) ?x False r w = (w1, e)" by (metis surj_pair)
  obtain fs w2 e2 where 2: "flush_outbound (env_salts E) (write_budget E r) r w1 = (fs, w2, e2)"
    by (metis prod_cases3)
  have "quiet w0 w1" "quiet w0 w2" using enqueue_flush_quiet [OF 1 2] quiet_trans [OF q] by auto
  then show ?thesis using q by (simp add: push_too_long_def 1 2 split: option.split)
qed

lemma fold_quiet:
  assumes "\<And>r out w. quiet w0 w \<Longrightarrow> quiet w0 (snd (f r (out, w)))"
  shows "quiet w0 w \<Longrightarrow> quiet w0 (snd (fold f rs (out, w)))"
proof (induction rs arbitrary: out w)
  case (Cons r rs)
  obtain out1 w1 where "f r (out, w) = (out1, w1)" by (metis surj_pair)
  then show ?case using Cons.IH assms [OF Cons.prems, of r out] by simp
qed simp

lemma process_quiet:
  "quiet w (snd (process_message_to_users E t x w))" "quiet w (snd (process_internal_push E us w))"
  unfolding process_message_to_users_def process_internal_push_def
  by (rule fold_quiet; simp add: deliver_quiet push_too_long_quiet)+

section \<open>The other messages\<close>

lemma sessions_of_users_refs: "sessions_of_users b us \<subseteq> broker_refs b"
  by (auto simp: sessions_of_users_def fold_Un_eq subs_rel broker_refs_def)

lemma process_channels_fields:
  "subscribed_users (snd (process_channels_subscribe cs us sub b)) = subscribed_users b"
  "subscribed_keys (snd (process_channels_subscribe cs us sub b)) = subscribed_keys b"
  "subscribed_auths (snd (process_channels_subscribe cs us sub b)) = subscribed_auths b"
  "internal_push_users (snd (process_channels_subscribe cs us sub b)) = internal_push_users b"
proof -
  have "subscribed_users (fold (\<lambda>s. channels_diff_update s ds xs) ss b) = subscribed_users b
      \<and> subscribed_keys (fold (\<lambda>s. channels_diff_update s ds xs) ss b) = subscribed_keys b
      \<and> subscribed_auths (fold (\<lambda>s. channels_diff_update s ds xs) ss b) = subscribed_auths b
      \<and> internal_push_users (fold (\<lambda>s. channels_diff_update s ds xs) ss b) = internal_push_users b" for ss ds xs
    by (induction ss arbitrary: b) simp_all
  then show "subscribed_users (snd (process_channels_subscribe cs us sub b)) = subscribed_users b"
    "subscribed_keys (snd (process_channels_subscribe cs us sub b)) = subscribed_keys b"
    "subscribed_auths (snd (process_channels_subscribe cs us sub b)) = subscribed_auths b"
    "internal_push_users (snd (process_channels_subscribe cs us sub b)) = internal_push_users b"
    by (simp_all add: process_channels_subscribe_def)
qed

lemma process_channel_subscribe_inv:
  assumes "sub_inv w"
  shows "sub_inv (process_channel_subscribe cs us sub w)"
proof -
  let ?b = "snd (process_channels_subscribe cs us sub (broker w))"
  have fin: "finite (sessions_of_users (broker w) us)"
    using assms sessions_of_users_refs [of "broker w" us]
    by (meson finite_lessThan finite_subset sub_inv_def)
  note rel = channels_subscribe_rel [OF sub_invD(1) [OF assms] fin, of cs sub]
  have b: "broker (process_channel_subscribe cs us sub w) = ?b"
    and h: "heap (process_channel_subscribe cs us sub w) = heap w"
    and n: "next_ref (process_channel_subscribe cs us sub w) = next_ref w"
    and t: "sessions (process_channel_subscribe cs us sub w) = sessions w"
    by (simp_all add: process_channel_subscribe_def drop_channel_cache_def split_beta)
  have "broker_refs ?b \<subseteq> broker_refs (broker w)"
    using sessions_of_users_refs [of "broker w" us] rel(1)
    unfolding broker_refs_def process_channels_fields by (auto split: if_splits)
  moreover have "agree ?b r s = agree (broker w) r s" for r s
    by (simp add: agree_def user_ids_def auth_ids_def process_channels_fields)
  ultimately show ?thesis using assms rel(2) by (auto simp: sub_inv_def b h n t)
qed

lemma subscribe_inv:
  assumes "sub_inv w" "r < next_ref w"
  shows "sub_inv (upd_broker (subscribe r (heap w r)) w)"
proof (rule local_inv [OF assms])
  note wf = sub_invD(1) [OF assms(1)] and ag = sub_invD(2,3) [OF assms(1), of r]
  show "local_change r (broker w) (broker (upd_broker (subscribe r (heap w r)) w))"
    using local_change_session(1) [OF wf ag(2)] by simp
  show "agree (broker (upd_broker (subscribe r (heap w r)) w)) r
      (heap (upd_broker (subscribe r (heap w r)) w) r)"
    using ag wf by (auto simp: agree_def slices_session)
qed simp_all

lemma session_refs: "sub_inv w \<Longrightarrow> sessions w k = Some r \<Longrightarrow> r < next_ref w"
  by (auto simp: sub_inv_def intro: ranI)

lemma set_session_internal_push_inv:
  assumes "sub_inv w"
  shows "sub_inv (fst (set_session_internal_push E key sid w))"
proof (cases "sessions w (key, sid)")
  case (Some r)
  let ?w1 = "upd_session r (\<lambda>s. s\<lparr>is_internal_push := True\<rparr>) w"
  have q: "quiet w ?w1" by (rule quiet_upd) (simp add: quiet_session_def)
  then have 1: "sub_inv ?w1" "r < next_ref ?w1"
    using quiet_inv [OF assms q] session_refs [OF assms Some] by (simp_all add: quiet_def)
  obtain w2 e where 2: "refresh_auth_maybe (database E) (clock E) True r ?w1 = (w2, e)" by (metis surj_pair)
  have "sub_inv w2" "r < next_ref w2"
    using refresh_auth_inv [OF 1, of "database E" "clock E" True] 2 1(2) by simp_all
  then show ?thesis
    by (cases e) (simp_all add: set_session_internal_push_def Some 2 subscribe_inv)
qed (simp add: set_session_internal_push_def assms)

lemma process_message_inv: "sub_inv w \<Longrightarrow> sub_inv (fst (snd (process_message E m w)))"
  by (cases m)
    (simp_all add: split_beta set_session_internal_push_inv process_channel_subscribe_inv
      quiet_inv [OF _ process_quiet(1)] quiet_inv [OF _ process_quiet(2)])

section \<open>Reachable states\<close>

definition initial_server :: "server \<Rightarrow> bool" where
  "initial_server w \<longleftrightarrow> broker w = broker_cleanup (broker w) \<and> sessions w = Map.empty
     \<and> (\<forall>r. user_id (heap w r) = None \<and> auth_id (heap w r) = None \<and> channel_ids (heap w r) = {})"

inductive server_step :: "'g env \<Rightarrow> server \<Rightarrow> server \<Rightarrow> bool" for E :: "'g env" where
  step_create: "server_step E w (snd (get_or_create sid c d w))"
| step_connect: "r < next_ref w \<Longrightarrow> server_step E w (connect c r w)"
| step_disconnect: "server_step E w (disconnect r w)"
| step_finalize: "r < next_ref w \<Longrightarrow> server_step E w (manager_finalize r w)"
| step_cleanup: "r < next_ref w \<Longrightarrow> server_step E w (delayed_cleanup r w)"
| step_refresh: "r < next_ref w \<Longrightarrow> server_step E w (fst (refresh_auth_maybe D t force r w))"
| step_enqueue: "server_step E w (fst (enqueue (push E) (serializer E) t x in_reply r w))"
| step_unencrypted: "server_step E w (fst (enqueue_unencrypted t bs in_reply r w))"
| step_flush: "flush_outbound (update_salts_maybe (hmac_sha1 E) (server_salt_key E) t force) n r w = (fs, w', e) \<Longrightarrow>
    server_step E w w'"
| step_message: "server_step E w (fst (snd (manager_send E m w)))"
| step_ack: "server_step E w (upd_session r (ack_outbound ms) w)"
| step_layer: "server_step E w (upd_session r (fetch_layer D l) w)"
| step_completed: "mark_rpc_completed m (heap w r) = Inr s \<Longrightarrow> server_step E w (upd_session r (\<lambda>_. s) w)"
| step_wait: "server_step E w (upd_session r (\<lambda>s. snd (wait_for_rpc m s)) w)"

inductive server_reachable :: "'g env \<Rightarrow> server \<Rightarrow> bool" for E :: "'g env" where
  reach_init: "initial_server w \<Longrightarrow> server_reachable E w"
| reach_step: "server_reachable E w \<Longrightarrow> server_step E w w' \<Longrightarrow> server_reachable E w'"

lemma ack_quiet: "quiet_session s (ack_outbound ms s)"
proof (induction ms arbitrary: s)
  case (Cons m ms)
  have "quiet_session s (s\<lparr>pending_outbound := od_pop m (pending_outbound s)\<rparr>)"
    by (simp add: quiet_session_def)
  then show ?case using quiet_session_trans [OF _ Cons.IH] by simp
qed simp

lemma fetch_layer_quiet: "quiet_session s (fetch_layer D l s)"
  by (auto simp: fetch_layer_def quiet_session_def split: option.split)

lemma mark_quiet: "mark_rpc_completed m s = Inr s' \<Longrightarrow> quiet_session s s'"
  by (auto simp: mark_rpc_completed_def prune_rpc_completions_def rbind_Inr_iff quiet_session_def
      split: if_splits option.splits)

lemma wait_quiet: "quiet_session s (snd (wait_for_rpc m s))"
  by (auto simp: wait_for_rpc_def quiet_session_def split: option.split)

lemma server_step_inv:
  assumes "server_step E w w'" "sub_inv w"
  shows "sub_inv w'"
  using assms
proof cases
  case (step_message m)
  then show ?thesis using assms(2)
    by (cases m) (simp_all add: manager_send_def process_message_inv)
next
  case (step_flush t force n r fs e)
  then show ?thesis using quiet_inv [OF assms(2) flush_quiet [OF update_salts_quiet]] by blast
next
  case (step_refresh r D t force)
  then show ?thesis using refresh_auth_inv(1) [OF assms(2)] by blast
next
  case step_disconnect
  then show ?thesis using quiet_inv [OF assms(2) disconnect_quiet] by blast
next
  case (step_completed m r s)
  then show ?thesis
    using quiet_inv [OF assms(2) quiet_upd [of w r "\<lambda>_. s"]] mark_quiet by blast
next
  case step_enqueue
  then show ?thesis using quiet_inv [OF assms(2) enqueue_quiet] by blast
next
  case step_unencrypted
  then show ?thesis using quiet_inv [OF assms(2) enqueue_unencrypted_quiet] by blast
qed (use assms(2) in \<open>simp_all add: get_or_create_inv connect_inv manager_finalize_inv delayed_cleanup_inv
    quiet_inv [OF assms(2) quiet_upd] ack_quiet fetch_layer_quiet wait_quiet\<close>)

lemma initial_inv: "initial_server w \<Longrightarrow> sub_inv w"
proof -
  assume w: "initial_server w"
  then have b: "broker w = broker_cleanup (broker w)" by (simp add: initial_server_def)
  have rel: "sub_rel Map.empty = {}" by (simp add: sub_rel_def)
  have "broker_wf (broker_cleanup b)" "broker_refs (broker_cleanup b) = {}"
    "user_ids (broker_cleanup b) r = {}" "auth_ids (broker_cleanup b) r = {}" for b r
    by (simp_all add: broker_cleanup_def broker_wf_def sub_wf_def broker_refs_def user_ids_def auth_ids_def rel
        del: broker_wfD)
  from this [of "broker w"] show ?thesis using w
    unfolding sub_inv_def agree_def b [symmetric] by (simp add: initial_server_def)
qed

lemma reachable_inv: "server_reachable E w \<Longrightarrow> sub_inv w"
  by (induction rule: server_reachable.induct) (auto intro: initial_inv server_step_inv)

end
