(* ===== verification/SessionProperties.thy ===== *)
theory SessionProperties
  imports TlProperties Reachable
begin

text \<open>
  What sessions, their outgoing queues and the broker promise together
  (\<^verbatim>\<open>piltover/session\<close>, \<^verbatim>\<open>piltover/message_brokers\<close>).
\<close>

section \<open>A small server\<close>

text \<open>One client, logged in as user 7 with authorization 5 on a temporary key.\<close>

definition demo_auth :: auth_data where
  "demo_auth = \<lparr>auth_key_id = Some 11, auth_key = Some (replicate 256 1), perm_auth_key_id = Some 12\<rparr>"

definition demo_db :: db where
  "demo_db = \<lparr>get_auth_data = (\<lambda>_. Some demo_auth),
     authorization_of = (\<lambda>_. Some \<lparr>ua_id = 5, ua_user_id = 7, ua_is_bot = False, ua_mfa_pending = False, ua_upd_seq = 0\<rparr>),
     channels_of = (\<lambda>_. []), perm_key_layer = (\<lambda>_. None)\<rparr>"

definition demo_env :: "int env" where
  "demo_env = \<lparr>push = \<lparr>reg = pong_registry, is_updates = (\<lambda>_. False), is_group_call_update = (\<lambda>_. False),
       set_seq = (\<lambda>_ g. g), drop_attr_path = (\<lambda>_ x. Inr x),
       context_of = (\<lambda>_. \<lparr>poll_answers = {}, chat_participants = {}, channel_participants = {}, users = {},
         channel_messages = {}\<rparr>)\<rparr>,
     serializer = (\<lambda>_ _ x. TLObject_write pong_registry x), hmac_sha1 = (\<lambda>k d. take 20 (d @ k)),
     server_salt_key = replicate 20 0, database = demo_db, clock = 100, write_budget = (\<lambda>_. 10),
     updates_too_long = 1\<rparr>"

definition empty_server :: server where
  "empty_server =
     \<lparr>heap = (\<lambda>_. new_session 0 None None), next_ref = 0, sessions = Map.empty,
      broker = \<lparr>subscribed_users = Map.empty, subscribed_sessions = Map.empty, subscribed_keys = Map.empty,
        subscribed_auths = Map.empty, subscribed_channels = Map.empty, internal_push_users = Map.empty\<rparr>,
      channel_cache = Map.empty, upd_seq_column = Map.empty, woken = {}, leave_scheduled = {}\<rparr>"

definition demo_server :: server where
  "demo_server =
     connect 0 0 (fst (refresh_auth_maybe demo_db 100 False 0 (snd (get_or_create 3 (Some 0) demo_auth empty_server))))"

lemma demo_reachable: "server_reachable demo_env demo_server"
proof -
  let ?w1 = "snd (get_or_create 3 (Some 0) demo_auth empty_server)"
  have n: "next_ref ?w1 = 1" by (simp add: get_or_create_def empty_server_def)
  have "server_reachable demo_env empty_server"
    by (rule reach_init) (simp add: initial_server_def empty_server_def broker_cleanup_def new_session_def)
  then have 1: "server_reachable demo_env ?w1" by (rule reach_step) (rule step_create)
  then have inv: "sub_inv ?w1" by (rule reachable_inv)
  have 2: "server_reachable demo_env (fst (refresh_auth_maybe demo_db 100 False 0 ?w1))"
    using n by (intro reach_step [OF 1] step_refresh) simp
  show ?thesis unfolding demo_server_def
    by (rule reach_step [OF 2], rule step_connect) (simp add: refresh_auth_inv(2) [OF inv] n)
qed

lemma upd_broker_heap: "heap (upd_broker f w) = heap w"
  by (simp add: upd_broker_def)

lemma resubscribe_heap: "heap (resubscribe u a r w) = heap w"
  by (simp add: resubscribe_def Let_def upd_broker_heap)

lemma demo_loaded:
  "heap (fst (refresh_auth_maybe demo_db 100 False 0 (snd (get_or_create 3 (Some 0) demo_auth empty_server)))) 0 =
    load_auth (the (authorization_of demo_db 12)) ((new_session 3 (Some 0) (Some demo_auth))\<lparr>auth_loaded_at := 100\<rparr>)"
proof -
  define w1 where "w1 = snd (get_or_create 3 (Some 0) demo_auth empty_server)"
  have h: "heap w1 0 = new_session 3 (Some 0) (Some demo_auth)"
    by (simp add: w1_def get_or_create_def empty_server_def Let_def)
  have d: "auth_data (heap w1 0) = Some demo_auth" "auth_loaded_at (heap w1 0) = 0" "auth_id (heap w1 0) = None"
    by (simp_all add: h new_session_def)
  have c: "channels_loaded_at (heap w1 0) = 0" by (simp add: h new_session_def)
  have r: "refresh_auth_maybe demo_db 100 False 0 w1 = (reload_auth demo_db 100 True 12 0 w1, None)"
    using d by (simp add: refresh_auth_maybe_def refetch_auth_data_def demo_auth_def)
  have a: "authorization_of demo_db 12 \<noteq> None" by (simp add: demo_db_def)
  have k: "channels_loaded_at (load_auth x s) = channels_loaded_at s" for x s by (simp add: load_auth_def)
  show ?thesis unfolding w1_def [symmetric] r fst_conv reload_auth_def Let_def
    using a c by (simp add: resubscribe_heap k upd_session_def h del: not_None_eq)
qed

lemma demo_session:
  "user_id (heap demo_server 0) = Some 7" "client (heap demo_server 0) = Some 0"
  "auth_id (heap demo_server 0) = Some 5" "is_internal_push (heap demo_server 0) = False"
proof -
  have f: "user_id (schedule_outbound_flush s) = user_id s" "client (schedule_outbound_flush s) = client s"
    "auth_id (schedule_outbound_flush s) = auth_id s" "is_internal_push (schedule_outbound_flush s) = is_internal_push s"
    "user_id (connect_session c s) = user_id s" "client (connect_session c s) = Some c"
    "auth_id (connect_session c s) = auth_id s" "is_internal_push (connect_session c s) = is_internal_push s" for s c
    by (simp_all add: schedule_outbound_flush_def connect_session_def cancel_cleanup_def Let_def)
  define w where "w = fst (refresh_auth_maybe demo_db 100 False 0 (snd (get_or_create 3 (Some 0) demo_auth empty_server)))"
  have h: "heap (connect 0 0 w) 0 = schedule_outbound_flush (connect_session 0 (heap w 0))"
    by (simp add: connect_def Let_def split: option.split)
  have l: "user_id (heap w 0) = Some 7" "auth_id (heap w 0) = Some 5" "is_internal_push (heap w 0) = False"
    unfolding w_def demo_loaded by (simp_all add: load_auth_def demo_db_def new_session_def)
  show "user_id (heap demo_server 0) = Some 7" "client (heap demo_server 0) = Some 0"
    "auth_id (heap demo_server 0) = Some 5" "is_internal_push (heap demo_server 0) = False"
    unfolding demo_server_def w_def [symmetric] h f l by (rule refl)+
qed

section \<open>Who receives an update\<close>

lemma users_table_sound:
  assumes "sub_inv w" "(u, r) \<in> sub_rel (subscribed_users (broker w))"
  shows "user_id (heap w r) = Some u \<and> u \<noteq> 0"
proof -
  have "user_ids (broker w) r \<subseteq> set_option (truthy_key (user_id (heap w r)))"
    using assms(1) by (auto simp: sub_inv_def agree_def)
  then have "truthy_key (user_id (heap w r)) = Some u" using assms(2) by (auto simp: user_ids_def)
  then show ?thesis by (rule truthy_keyD)
qed

lemma users_table_complete:
  assumes "sub_inv w" "client (heap w r) \<noteq> None" "user_id (heap w r) = Some u" "u \<noteq> 0"
  shows "(u, r) \<in> sub_rel (subscribed_users (broker w))"
proof -
  have "user_ids (broker w) r = set_option (truthy_key (user_id (heap w r)))"
    using assms(1,2) by (auto simp: sub_inv_def agree_def)
  then show ?thesis using assms(3,4) by (auto simp: user_ids_def truthy_key_def falsy_def)
qed



section \<open>Numbering\<close>

text \<open>
  C19. While the server's clock does not go back, the message identifiers a session hands out
  increase strictly, however many fall into one second.
\<close>

theorem message_ids_increase:
  assumes "clock_ok (last_time (msg_id_values s)) cs" "0 \<le> offset (msg_id_values s)"
    and "offset (msg_id_values s) + 4 * int (length cs) + 3 < 2 ^ 32"
  shows "sorted_wrt (<) (fst (msg_ids cs s))"
  using msg_ids_increasing [OF assms] by blast

lemma message_ids_increase_witness:
  "sorted_wrt (<) (fst (msg_ids [(5.1, True), (5.9, False), (5.9, True), (7, True)] (new_session 3 None None)))
    \<and> fst (msg_ids [(5.1, True), (5.9, False)] (new_session 3 None None)) = [5 * 2 ^ 32 + 1, 5 * 2 ^ 32 + 7]"
proof -
  have f: "\<lfloor>5.1 :: real\<rfloor> = 5" "\<lfloor>5.9 :: real\<rfloor> = 5" by linarith+
  have "sorted_wrt (<) (fst (msg_ids [(5.1, True), (5.9, False), (5.9, True), (7, True)] (new_session 3 None None)))"
    by (rule message_ids_increase) (simp_all add: new_session_def f)
  then show ?thesis by (simp add: new_session_def msg_id_def f Let_def)
qed

text \<open>
  The sequence number of the \<open>i\<close>-th outgoing message is twice the number of content-related
  messages before it, plus one if it is content-related itself.
\<close>

theorem sequence_numbers:
  assumes "i < length cs"
  shows "fst (seq_nos cs (new_session sid c d)) ! i =
    2 * int (length (filter id (take i cs))) + (if cs ! i then 1 else 0)"
  using seq_nos_nth [OF assms, of "new_session sid c d"] by (simp add: new_session_def)

lemma sequence_numbers_witness: "fst (seq_nos [True, False, True] (new_session 1 None None)) ! 2 = 3"
  using sequence_numbers [of 2 "[True, False, True]" 1 None None] by (simp add: numeral_2_eq_2)

section \<open>Flushing the queues\<close>

definition demo_queued :: session where
  "demo_queued = (new_session 3 (Some 0) (Some demo_auth))\<lparr>unencrypted_queue := [(8, [1])],
     pending_outbound := [(2, 1, [5])], resend_pending_on_connect := True,
     message_queue := [(4, 3, [7]), (6, 5, [9])]\<rparr>"

lemma demo_salts_current:
  assumes "auth_data s = Some demo_auth" "salt_now s = zero_salt"
  shows "update_salts_maybe hmac key 0 False s = Inr s"
  using assms by (simp add: update_salts_maybe_def demo_auth_def zero_salt_def salt_window_def)

lemma demo_write:
  assumes "auth_data s = Some demo_auth" "salt_now s = zero_salt"
  shows "write_message (update_salts_maybe hmac key 0 False) n q s =
    (case n of 0 \<Rightarrow> (s, [], 0, Some (Disconnection None))
     | Suc k \<Rightarrow> (s, [Encrypted (salt zero_salt) (session_id s) (fst q) (fst (snd q)) (snd (snd q))], k, None))"
  using assms demo_salts_current [OF assms]
  by (simp add: write_message_def can_encrypt_def demo_auth_def split: prod.split nat.split)

text \<open>
  A flush that goes through empties both queues: the plain messages go out first, then, on a
  new connection, the ones not yet acknowledged, then the new ones, in the order they were queued;
  and the new ones wait for their acknowledgement from then on.
\<close>

theorem flush_writes_everything:
  assumes "write_session_queues (update_salts_maybe hmac key t force) budget s = (s', fs, None)"
  shows "unencrypted_queue s' = [] \<and> message_queue s' = []
    \<and> pending_outbound s' = track_all (message_queue s) (pending_outbound s)
    \<and> map frame_of fs =
        unencrypted_queue s
        @ (if resend_pending_on_connect s then map (\<lambda>q. (fst q, snd (snd q))) (pending_outbound s) else [])
        @ map (\<lambda>q. (fst q, snd (snd q))) (message_queue s)"
  by (rule flush_success [OF update_salts_ok assms])

lemma flush_writes_everything_witness:
  "\<exists>s' fs. write_session_queues (update_salts_maybe (\<lambda>_ _. []) [] 0 False) 4 demo_queued = (s', fs, None)
    \<and> map fst (pending_outbound s') = [2, 4, 6] \<and> map frame_of fs = [(8, [1]), (2, [5]), (4, [7]), (6, [9])]"
proof -
  obtain s' fs where run: "write_session_queues (update_salts_maybe (\<lambda>_ _. []) [] 0 False) 4 demo_queued = (s', fs, None)"
    by (simp add: write_session_queues_def resend_phase_def demo_write demo_queued_def new_session_def
        track_pending_outbound_def numeral_eq_Suc)
  show ?thesis using flush_writes_everything [OF run] run
    by (simp add: demo_queued_def track_all_def new_session_def)
qed

text \<open>
  A flush that fails loses at most one message: what was queued is what was written and now
  waits for its acknowledgement, then possibly the one whose write failed, then what is still queued.
\<close>

theorem flush_loses_one:
  assumes "write_session_queues (update_salts_maybe hmac key t force) budget s = (s', fs, Some e)"
  shows "\<exists>written lost. length lost \<le> 1 \<and> message_queue s = written @ lost @ message_queue s'
    \<and> pending_outbound s' = track_all written (pending_outbound s)"
  using flush_failure [OF update_salts_ok assms] .

lemma flush_loses_one_witness:
  "\<exists>s' fs. write_session_queues (update_salts_maybe (\<lambda>_ _. []) [] 0 False) 2 demo_queued = (s', fs, Some (Disconnection None))
    \<and> message_queue s' = [(6, 5, [9])] \<and> pending_outbound s' = [(2, 1, [5])]
    \<and> (\<exists>written lost. length lost \<le> 1 \<and> message_queue demo_queued = written @ lost @ message_queue s'
         \<and> pending_outbound s' = track_all written (pending_outbound demo_queued))"
proof -
  obtain s' fs where run: "write_session_queues (update_salts_maybe (\<lambda>_ _. []) [] 0 False) 2 demo_queued
      = (s', fs, Some (Disconnection None))" "message_queue s' = [(6, 5, [9])]" "pending_outbound s' = [(2, 1, [5])]"
    by (simp add: write_session_queues_def resend_phase_def demo_write demo_queued_def new_session_def
        track_pending_outbound_def numeral_eq_Suc)
  show ?thesis using flush_loses_one [OF run(1)] run by blast
qed

section \<open>The record of completed requests\<close>

text \<open>
  C35. Of any number of different requests a session remembers the last 256 as completed, in their
  order, and marking them never fails.
\<close>

theorem completions_remembered:
  assumes "distinct ms"
  shows "\<exists>s'. mark_all ms (new_session sid c d) = Inr s'
    \<and> rpc_completed_order s' = drop (length ms - 256) ms \<and> rpc_completed_ids s' = set (drop (length ms - 256) ms)"
proof -
  have "rpc_inv (new_session sid c d)" "rpc_completed_order (new_session sid c d) = []"
    by (simp_all add: rpc_inv_def new_session_def)
  then obtain s' where "mark_all ms (new_session sid c d) = Inr s'" "rpc_inv s'"
    "rpc_completed_order s' = drop (length ms - 256) ms"
    using mark_all_fresh [of "new_session sid c d" ms] assms by (auto simp: Let_def)
  then show ?thesis by (auto simp: rpc_inv_def)
qed

lemma completions_remembered_witness:
  "\<exists>s'. mark_all [0..300] (new_session 3 None None) = Inr s' \<and> 44 \<notin> rpc_completed_ids s' \<and> 45 \<in> rpc_completed_ids s'"
proof -
  obtain s' where s: "mark_all [0..300] (new_session 3 None None) = Inr s'"
    "rpc_completed_ids s' = set (drop (length [0..300] - 256) [0..300])"
    using completions_remembered [of "[0..300]" 3 None None] by auto
  have drop_upto: "drop n [a..b] = [a + int n..b]" for n and a b :: int
    by (rule nth_equalityI) simp_all
  have "set (drop (length [0..300] - 256) [0..300 :: int]) = {45..300}"
    unfolding drop_upto set_upto length_upto by simp
  then have "rpc_completed_ids s' = {45..300}" using s(2) by simp
  then show ?thesis using s(1) by simp
qed

end
