(* ===== verification/AuthKeys.thy ===== *)
theory AuthKeys
  imports Server
begin

text \<open>
  The stored authorization keys (\<^verbatim>\<open>piltover/db/models/authkey.py\<close>) and the request that binds a
  temporary key to a permanent one (\<^verbatim>\<open>piltover/app/handlers/auth.py\<close>). A table is a map from
  the primary key to the row. Decryption and the parsing of packets belong to the transport
  library and are parameters.
\<close>

section \<open>Keys\<close>

record perm_key =
  pk_auth_key :: "byte list"
  pk_layer :: int

record temp_key =
  tk_auth_key :: "byte list"
  tk_expires_at :: int
  tk_perm_key :: "int option"

record key_store =
  perm_keys :: "int \<Rightarrow> perm_key option"
  temp_keys :: "int \<Rightarrow> temp_key option"

text \<open>
  \<open>_create_ignore_asyncmy_overflow\<close>: the insertion is refused when the identifier is taken; the
  driver may also raise although the row was inserted. Either way the row that is there decides.
\<close>

definition create_ignore_overflow ::
    "bool \<Rightarrow> int \<Rightarrow> 'r \<Rightarrow> ('r \<Rightarrow> 'r \<Rightarrow> bool) \<Rightarrow> (int \<Rightarrow> 'r option) \<Rightarrow> (int \<Rightarrow> 'r option) \<times> 'r res" where
  "create_ignore_overflow driver_raises i row same_key rows =
     (let (rows', raised) =
            (case rows i of
               None \<Rightarrow> (rows(i \<mapsto> row), if driver_raises then Some OverflowError else None)
             | Some _ \<Rightarrow> (rows, Some IntegrityError))
      in case raised of
           None \<Rightarrow> (rows', Inr row)
         | Some e \<Rightarrow>
             (case rows' i of
                None \<Rightarrow> (rows', Inl e)
              | Some r \<Rightarrow> (rows', if same_key r row then Inr r else Inl e)))"

definition AuthKey_create_key :: "bool \<Rightarrow> int \<Rightarrow> byte list \<Rightarrow> key_store \<Rightarrow> key_store \<times> perm_key res" where
  "AuthKey_create_key driver_raises i key ks =
     (let (rows, r) = create_ignore_overflow driver_raises i \<lparr>pk_auth_key = key, pk_layer = 133\<rparr>
            (\<lambda>a b. pk_auth_key a = pk_auth_key b) (perm_keys ks)
      in (ks\<lparr>perm_keys := rows\<rparr>, r))"

definition TempAuthKey_create_key ::
    "bool \<Rightarrow> int \<Rightarrow> byte list \<Rightarrow> int \<Rightarrow> key_store \<Rightarrow> key_store \<times> temp_key res" where
  "TempAuthKey_create_key driver_raises i key expires ks =
     (let (rows, r) = create_ignore_overflow driver_raises i
            \<lparr>tk_auth_key = key, tk_expires_at = expires, tk_perm_key = None\<rparr>
            (\<lambda>a b. tk_auth_key a = tk_auth_key b) (temp_keys ks)
      in (ks\<lparr>temp_keys := rows\<rparr>, r))"

definition AuthKey_get_auth_data :: "int \<Rightarrow> bool \<Rightarrow> int \<Rightarrow> key_store \<Rightarrow> auth_data option" where
  "AuthKey_get_auth_data now allow_expired i ks =
     (case perm_keys ks i of
        Some k \<Rightarrow> Some \<lparr>auth_key_id = Some i, auth_key = Some (pk_auth_key k), perm_auth_key_id = Some i\<rparr>
      | None \<Rightarrow>
          (case temp_keys ks i of
             None \<Rightarrow> None
           | Some t \<Rightarrow>
               if allow_expired \<or> tk_expires_at t > now
               then Some \<lparr>auth_key_id = Some i, auth_key = Some (tk_auth_key t),
                      perm_auth_key_id = tk_perm_key t\<rparr>
               else None))"

definition is_registered :: "int \<Rightarrow> int \<Rightarrow> key_store \<Rightarrow> bool" where
  "is_registered now i ks = (AuthKey_get_auth_data now False i ks \<noteq> None)"

definition valid_temp_key :: "int \<Rightarrow> int \<Rightarrow> key_store \<Rightarrow> bool" where
  "valid_temp_key now i ks = (case temp_keys ks i of None \<Rightarrow> False | Some t \<Rightarrow> tk_expires_at t > now)"

definition can_bind_temp_auth_key :: "int \<Rightarrow> int \<Rightarrow> int \<Rightarrow> key_store \<Rightarrow> bool" where
  "can_bind_temp_auth_key now temp perm ks = (valid_temp_key now temp ks \<and> perm_keys ks perm \<noteq> None)"

section \<open>Binding a temporary key\<close>

record request_context =
  rc_auth_key_id :: int
  rc_perm_auth_key_id :: "int option"
  rc_message_id :: int
  rc_session_id :: int

record bind_request =
  br_perm_auth_key_id :: int
  br_nonce :: int
  br_encrypted_message :: "byte list"

record bind_inner =
  bi_nonce :: int
  bi_temp_auth_key_id :: int
  bi_perm_auth_key_id :: int
  bi_temp_session_id :: int

text \<open>The packet as the library parses it (\<open>None\<close>: not an encrypted one), its key id, its decryption.\<close>

record 'p packet_lib =
  parse_packet :: "byte list \<Rightarrow> 'p option"
  packet_key_id :: "'p \<Rightarrow> int"
  decrypt_v1 :: "'p \<Rightarrow> byte list \<Rightarrow> decrypted_packet res"
  read_bind_inner :: "byte list \<Rightarrow> bind_inner res"

definition sec_check :: "bool \<Rightarrow> unit res" where
  "sec_check cond = (if cond then Inr () else Inl OtherError)"

text \<open>The checks on the inner message; an \<open>ErrorRpc\<close> goes on, everything else becomes one.\<close>

definition check_bind_inner ::
    "'p packet_lib \<Rightarrow> request_context \<Rightarrow> bind_request \<Rightarrow> 'p \<Rightarrow> key_store \<Rightarrow> bind_inner res" where
  "check_bind_inner L c req p ks =
     (case perm_keys ks (packet_key_id L p) of
        None \<Rightarrow> Inl (ErrorRpc 401 ''AUTH_KEY_UNREGISTERED'')
      | Some k \<Rightarrow>
          rbind (decrypt_v1 L p (pk_auth_key k)) (\<lambda>m.
          rbind (sec_check (pkt_seq_no m = 0)) (\<lambda>_.
          rbind (sec_check (length (pkt_data m) = 40)) (\<lambda>_.
          rbind (sec_check (pkt_message_id m = rc_message_id c)) (\<lambda>_.
          rbind (read_bind_inner L (pkt_data m)) (\<lambda>x.
          rbind (sec_check (bi_perm_auth_key_id x = packet_key_id L p)) (\<lambda>_.
          rbind (sec_check (bi_nonce x = br_nonce req)) (\<lambda>_.
          rbind (sec_check (bi_temp_session_id x = rc_session_id c)) (\<lambda>_.
          rbind (sec_check (bi_temp_auth_key_id x = rc_auth_key_id c)) (\<lambda>_. Inr x))))))))))"

definition as_invalid_message :: "'a res \<Rightarrow> 'a res" where
  "as_invalid_message r =
     (case r of
        Inl (ErrorRpc c m) \<Rightarrow> Inl (ErrorRpc c m)
      | Inl _ \<Rightarrow> Inl (ErrorRpc 400 ''ENCRYPTED_MESSAGE_INVALID'')
      | Inr x \<Rightarrow> Inr x)"

definition bind_rows :: "int \<Rightarrow> int \<Rightarrow> (int \<Rightarrow> temp_key option) \<Rightarrow> int \<Rightarrow> temp_key option" where
  "bind_rows temp perm rows i =
     (case rows i of
        None \<Rightarrow> None
      | Some t \<Rightarrow>
          if i = temp then Some (t\<lparr>tk_perm_key := Some perm\<rparr>)
          else if tk_perm_key t = Some perm then None else Some t)"

definition bind_temp_auth_key ::
    "'p packet_lib \<Rightarrow> int \<Rightarrow> request_context \<Rightarrow> bind_request \<Rightarrow> key_store \<Rightarrow> key_store res" where
  "bind_temp_auth_key L now c req ks =
     (if rc_perm_auth_key_id c = Some (rc_auth_key_id c)
      then Inl (ErrorRpc 400 ''TEMP_AUTH_KEY_EMPTY'')
      else if rc_perm_auth_key_id c \<noteq> None then Inl (ErrorRpc 400 ''TEMP_AUTH_KEY_ALREADY_BOUND'')
      else if \<not> valid_temp_key now (rc_auth_key_id c) ks then Inl (ErrorRpc 401 ''AUTH_KEY_UNREGISTERED'')
      else case parse_packet L (br_encrypted_message req) of
             None \<Rightarrow> Inl (ErrorRpc 400 ''ENCRYPTED_MESSAGE_INVALID'')
           | Some p \<Rightarrow>
               if packet_key_id L p \<noteq> br_perm_auth_key_id req
               then Inl (ErrorRpc 400 ''ENCRYPTED_MESSAGE_INVALID'')
               else rbind (as_invalid_message (check_bind_inner L c req p ks)) (\<lambda>x.
                    Inr (ks\<lparr>temp_keys := bind_rows (bi_temp_auth_key_id x) (packet_key_id L p) (temp_keys ks)\<rparr>)))"

section \<open>Properties\<close>

text \<open>Whatever the driver does, an identifier gets the key it was created with first.\<close>

lemma create_ignore_overflow_eq:
  "same_key row row \<Longrightarrow> create_ignore_overflow d i row same_key rows =
     (case rows i of
        None \<Rightarrow> (rows(i \<mapsto> row), Inr row)
      | Some r \<Rightarrow> (rows, if same_key r row then Inr r else Inl IntegrityError))"
  by (auto simp: create_ignore_overflow_def split: option.split)

text \<open>A permanent key has at most one temporary key bound to it.\<close>

definition bound_once :: "key_store \<Rightarrow> bool" where
  "bound_once ks \<longleftrightarrow> (\<forall>i j t u p. temp_keys ks i = Some t \<longrightarrow> temp_keys ks j = Some u \<longrightarrow>
     tk_perm_key t = Some p \<longrightarrow> tk_perm_key u = Some p \<longrightarrow> i = j)"

lemma bind_rows_bound_once:
  assumes "bound_once ks"
  shows "bound_once (ks\<lparr>temp_keys := bind_rows temp perm (temp_keys ks)\<rparr>)"
  using assms unfolding bound_once_def bind_rows_def by (auto split: option.splits if_splits)

lemma temp_create_bound_once:
  "bound_once ks \<Longrightarrow> bound_once (fst (TempAuthKey_create_key d i key e ks))"
  unfolding bound_once_def TempAuthKey_create_key_def
  by (auto simp: create_ignore_overflow_eq split: option.splits)

lemma bind_temp_auth_key_ok:
  assumes "bind_temp_auth_key L now c req ks = Inr ks'"
  obtains p k m x t where
    "parse_packet L (br_encrypted_message req) = Some p" "packet_key_id L p = br_perm_auth_key_id req"
    "perm_keys ks (br_perm_auth_key_id req) = Some k" "decrypt_v1 L p (pk_auth_key k) = Inr m"
    "pkt_seq_no m = 0" "pkt_message_id m = rc_message_id c" "length (pkt_data m) = 40"
    "read_bind_inner L (pkt_data m) = Inr x" "bi_nonce x = br_nonce req"
    "bi_perm_auth_key_id x = br_perm_auth_key_id req" "bi_temp_session_id x = rc_session_id c"
    "bi_temp_auth_key_id x = rc_auth_key_id c" "rc_perm_auth_key_id c = None"
    "temp_keys ks (rc_auth_key_id c) = Some t" "tk_expires_at t > now"
    "ks' = ks\<lparr>temp_keys := bind_rows (rc_auth_key_id c) (br_perm_auth_key_id req) (temp_keys ks)\<rparr>"
proof -
  have ok: "as_invalid_message r = Inr x \<Longrightarrow> r = Inr x" for r :: "'z res" and x
    by (auto simp: as_invalid_message_def split: sum.splits py_error.splits)
  have chk: "sec_check b = Inr u \<longleftrightarrow> b" for b u by (simp add: sec_check_def)
  from assms obtain p x where p: "parse_packet L (br_encrypted_message req) = Some p"
      "packet_key_id L p = br_perm_auth_key_id req" "rc_perm_auth_key_id c = None"
      "valid_temp_key now (rc_auth_key_id c) ks" "check_bind_inner L c req p ks = Inr x"
      "ks' = ks\<lparr>temp_keys := bind_rows (bi_temp_auth_key_id x) (packet_key_id L p) (temp_keys ks)\<rparr>"
    unfolding bind_temp_auth_key_def
    by (auto simp: rbind_Inr_iff dest: ok split: if_splits option.splits)
  from p(5) obtain k m where "perm_keys ks (packet_key_id L p) = Some k"
      "decrypt_v1 L p (pk_auth_key k) = Inr m" "pkt_seq_no m = 0" "length (pkt_data m) = 40"
      "pkt_message_id m = rc_message_id c" "read_bind_inner L (pkt_data m) = Inr x"
      "bi_perm_auth_key_id x = packet_key_id L p" "bi_nonce x = br_nonce req"
      "bi_temp_session_id x = rc_session_id c" "bi_temp_auth_key_id x = rc_auth_key_id c"
    unfolding check_bind_inner_def by (auto simp: rbind_Inr_iff chk split: option.splits)
  then show thesis using p that by (auto simp: valid_temp_key_def split: option.splits)
qed

lemma bound_auth_data:
  assumes "bind_temp_auth_key L now c req ks = Inr ks'" "perm_keys ks (rc_auth_key_id c) = None"
  shows "\<exists>d. AuthKey_get_auth_data now False (rc_auth_key_id c) ks' = Some d
    \<and> perm_auth_key_id d = Some (br_perm_auth_key_id req) \<and> auth_key_id d = Some (rc_auth_key_id c)"
  using assms(1)
proof (rule bind_temp_auth_key_ok)
  fix t
  assume "temp_keys ks (rc_auth_key_id c) = Some t" "tk_expires_at t > now"
    "ks' = ks\<lparr>temp_keys := bind_rows (rc_auth_key_id c) (br_perm_auth_key_id req) (temp_keys ks)\<rparr>"
  then show ?thesis using assms(2) by (simp add: AuthKey_get_auth_data_def bind_rows_def)
qed

end
