(* ===== verification/Gateway.thy ===== *)
theory Gateway
  imports Messages AuthKeys
begin

text \<open>
  The gateway's side of one connection (\<^verbatim>\<open>piltover/gateway/client.py\<close>): the cache of the
  connection's sessions and keys, the gate in front of every request, the handlers of the
  protocol's own requests (\<^verbatim>\<open>piltover/gateway/_system_handlers.py\<close>), the dispatch of the others
  to a worker, and the way of a received packet through all of this.

  The state is the connection's own part and the part all connections share. The LRU caches
  belong to a library: a cache is a partial map with a capacity, and which entry it gives up is
  a parameter. So are the worker, decryption, and what the generated classes look like.
\<close>

section \<open>State\<close>

record client_state =
  client_ref :: nat
  keygen_session :: sref
  active_sessions :: "int \<times> int \<Rightarrow> sref option"
  active_keys :: "int \<Rightarrow> byte list option"
  rejected_auth_keys :: "int set"
  disconnect_timeout :: "real option option"

record gateway =
  conn :: client_state
  srv :: server
  store :: key_store
  unknown_auth_key_ids :: "int \<Rightarrow> unit option"

text \<open>\<open>disconnect_timeout\<close> is \<open>None\<close> before the worker runs, then a deadline or \<open>Some None\<close>.\<close>

datatype 'g request =
    MsgsAck "int list"
  | MsgsStateReq "int list"
  | Ping int
  | PingDelayDisconnect int int
  | InvokeWithLayer int "'g tl_object"
  | InvokeAfterMsg int "'g tl_object"
  | InvokeAfterMsgs "int list" "'g tl_object"
  | InvokeWithoutUpdates "'g tl_object"
  | InitConnection "'g tl_object"
  | DestroySession int
  | RpcDropAnswer
  | GetFutureSalts int
  | BindTempAuthKey int
  | OtherRequest

datatype 'g reply =
    Pong int int
  | MsgsStateInfo int "byte list"
  | RpcErrorResult int int string
  | DestroySessionOk int
  | RpcAnswerUnknown int
  | FutureSaltsReply int int "(int \<times> int \<times> int) list"
  | WorkerResult "'g outbound"
  | AckNotice "int list"
  | InputMethodInvalid int int
  | BadNotice bad_message
  | NewSessionCreated int int int

text \<open>What the worker makes of a request, with the state it leaves behind.\<close>

datatype 'g task_outcome =
    TaskFailed
  | TaskError
  | NotAResponse
  | TaskResponse "int option" bool "'g outbound option"

record 'g gw_env = "'g env" +
  request_of :: "'g tl_object \<Rightarrow> 'g request"
  reply_outbound :: "'g reply \<Rightarrow> 'g outbound"
  worker :: "'g tl_object \<Rightarrow> session \<Rightarrow> int \<Rightarrow> gateway \<Rightarrow> 'g task_outcome \<times> gateway"
  slow_worker :: "int \<Rightarrow> bool"
  completed_in_time :: "int \<Rightarrow> bool"
  top_layer :: int
  session_victim :: "(int \<times> int \<Rightarrow> sref option) \<Rightarrow> int \<times> int"
  key_victim :: "(int \<Rightarrow> byte list option) \<Rightarrow> int"
  unknown_victim :: "(int \<Rightarrow> unit option) \<Rightarrow> int"
  decrypt :: "byte list \<Rightarrow> byte list \<Rightarrow> decrypted_packet option"
  recursion_limit :: nat
  bind_tlid :: "byte list"

type_synonym 'a gw = "('a, gateway) act"

definition now_int :: "'g gw_env \<Rightarrow> int" where
  "now_int E = \<lfloor>clock E\<rfloor>"

text \<open>The queries of the session code, over the stored keys.\<close>

definition gw_db :: "'g gw_env \<Rightarrow> key_store \<Rightarrow> db" where
  "gw_db E ks = (database E)
     \<lparr>get_auth_data := \<lambda>k. AuthKey_get_auth_data (now_int E) False k ks,
      perm_key_layer := \<lambda>k. map_option pk_layer (perm_keys ks k)\<rparr>"

definition on_srv :: "(server \<Rightarrow> server) \<Rightarrow> gateway \<Rightarrow> gateway" where
  "on_srv f g = g\<lparr>srv := f (srv g)\<rparr>"

definition on_conn :: "(client_state \<Rightarrow> client_state) \<Rightarrow> gateway \<Rightarrow> gateway" where
  "on_conn f g = g\<lparr>conn := f (conn g)\<rparr>"

definition sess :: "sref \<Rightarrow> gateway \<Rightarrow> session" where
  "sess r g = heap (srv g) r"

definition run_outcome :: "(server \<Rightarrow> outcome) \<Rightarrow> unit gw" where
  "run_outcome f =
     (\<lambda>g. case f (srv g) of (w, None) \<Rightarrow> (Inr (), g\<lparr>srv := w\<rparr>) | (w, Some e) \<Rightarrow> (Inl e, g\<lparr>srv := w\<rparr>))"

definition gw_enqueue :: "'g gw_env \<Rightarrow> sref \<Rightarrow> 'g reply \<Rightarrow> bool \<Rightarrow> unit gw" where
  "gw_enqueue E r x in_reply =
     run_outcome (enqueue (push E) (serializer E) (clock E) (reply_outbound E x) in_reply r)"

definition gw_refresh :: "'g gw_env \<Rightarrow> bool \<Rightarrow> sref \<Rightarrow> unit gw" where
  "gw_refresh E force r =
     (\<lambda>g. run_outcome (refresh_auth_maybe (gw_db E (store g)) (clock E) force r) g)"

section \<open>Caches\<close>

text \<open>Storing under a new key in a full cache gives up the entry the library chooses.\<close>

definition lru_put ::
    "nat \<Rightarrow> (('k \<Rightarrow> 'v option) \<Rightarrow> 'k) \<Rightarrow> 'k \<Rightarrow> 'v \<Rightarrow> ('k \<Rightarrow> 'v option) \<Rightarrow> ('k \<Rightarrow> 'v option) \<times> 'v option" where
  "lru_put cap victim k v m =
     (if m k = None \<and> cap \<le> card (dom m)
      then ((m(victim m := None))(k \<mapsto> v), m (victim m)) else (m(k \<mapsto> v), None))"

definition get_cached_session :: "int \<Rightarrow> int \<Rightarrow> gateway \<Rightarrow> sref option" where
  "get_cached_session key sid g = active_sessions (conn g) (key, sid)"

text \<open>\<open>_get_session\<close>; the session that falls out of the cache is disconnected.\<close>

definition get_session :: "'g gw_env \<Rightarrow> int \<Rightarrow> auth_data \<Rightarrow> gateway \<Rightarrow> (sref \<times> bool) \<times> gateway" where
  "get_session E sid d g =
     (case get_cached_session (the (auth_key_id d)) sid g of
        Some r \<Rightarrow> ((r, False), g)
      | None \<Rightarrow>
          (let c = client_ref (conn g);
               ((r, created), w1) = get_or_create sid (Some c) d (srv g);
               w2 = connect c r w1;
               (cache, evicted) =
                 lru_put 4 (session_victim E) (uniq_id (heap w2 r)) r (active_sessions (conn g));
               w3 = (case evicted of None \<Rightarrow> w2 | Some q \<Rightarrow> disconnect q w2)
           in ((r, created), g\<lparr>srv := w3, conn := (conn g)\<lparr>active_sessions := cache\<rparr>\<rparr>)))"

definition drop_auth_key :: "int \<Rightarrow> sref \<Rightarrow> gateway \<Rightarrow> gateway" where
  "drop_auth_key key r g =
     g\<lparr>conn := (conn g)\<lparr>active_keys := (active_keys (conn g))(key := None),
          active_sessions := (active_sessions (conn g))(uniq_id (sess r g) := None)\<rparr>,
       srv := disconnect r (srv g)\<rparr>"

section \<open>The gate\<close>

datatype gate = GateOk | GateDrop | GateUnregistered

definition auth_gate :: "'g gw_env \<Rightarrow> int \<Rightarrow> 'g tl_object \<Rightarrow> gateway \<Rightarrow> gate" where
  "auth_gate E key x g =
     (if key \<in> rejected_auth_keys (conn g) then GateDrop
      else if \<not> is_registered (now_int E) key (store g) then GateUnregistered
      else case request_of E x of
             BindTempAuthKey perm \<Rightarrow>
               if can_bind_temp_auth_key (now_int E) key perm (store g) then GateOk else GateUnregistered
           | _ \<Rightarrow> GateOk)"

definition auth_key_unregistered_result :: "int \<Rightarrow> 'g reply" where
  "auth_key_unregistered_result mid = RpcErrorResult mid 401 ''AUTH_KEY_UNREGISTERED''"

definition respond_auth_key_unregistered :: "'g gw_env \<Rightarrow> int \<Rightarrow> sref \<Rightarrow> int \<Rightarrow> unit gw" where
  "respond_auth_key_unregistered E mid r key =
     (\<lambda>g. if key \<in> rejected_auth_keys (conn g) then (Inr (), g)
          else sthen (supd (on_conn (\<lambda>c. c\<lparr>rejected_auth_keys := insert key (rejected_auth_keys c)\<rparr>)))
                 (sthen (gw_enqueue E r (auth_key_unregistered_result mid) True)
                   (supd (drop_auth_key key r))) g)"

definition get_auth_data_or_404 :: "'g gw_env \<Rightarrow> int \<Rightarrow> auth_data gw" where
  "get_auth_data_or_404 E key =
     (\<lambda>g. if unknown_auth_key_ids g key \<noteq> None then (Inl (Disconnection (Some (-404))), g)
          else case AuthKey_get_auth_data (now_int E) True key (store g) of
                 None \<Rightarrow>
                   (Inl (Disconnection (Some (-404))),
                    g\<lparr>unknown_auth_key_ids :=
                        fst (lru_put 4096 (unknown_victim E) key () (unknown_auth_key_ids g))\<rparr>)
               | Some d \<Rightarrow> (Inr d, g))"

section \<open>Requests of the protocol itself\<close>

definition ping_delay_disconnect :: "'g gw_env \<Rightarrow> int \<Rightarrow> gateway \<Rightarrow> gateway" where
  "ping_delay_disconnect E delay g =
     (if disconnect_timeout (conn g) \<noteq> None \<and> delay > 0
      then on_conn (\<lambda>c. c\<lparr>disconnect_timeout := Some (Some (clock E + real_of_int delay))\<rparr>) g else g)"

text \<open>
  \<open>_wait_for_invoke_after\<close>: the identifiers in their order; each one is completed already, or is
  completed before the timeout, or ends the request with an error.
\<close>

fun wait_for_invoke_after :: "'g gw_env \<Rightarrow> sref \<Rightarrow> int \<Rightarrow> int list \<Rightarrow> gateway \<Rightarrow> 'g reply option \<times> gateway" where
  "wait_for_invoke_after E r mid [] g = (None, g)"
| "wait_for_invoke_after E r mid (m # ms) g =
     (let (wt, s) = wait_for_rpc m (sess r g); g1 = on_srv (upd_session r (\<lambda>_. s)) g
      in if wait_for_rpc_result wt (completed_in_time E m) then wait_for_invoke_after E r mid ms g1
         else (Some (RpcErrorResult mid 420 ''MSG_WAIT_TIMEOUT''), g1))"

definition set_layer :: "'g gw_env \<Rightarrow> int \<Rightarrow> sref \<Rightarrow> gateway \<Rightarrow> gateway" where
  "set_layer E requested r g =
     (let l = min requested (top_layer E); s = sess r g;
          g1 = (if l \<noteq> layer s
                then (case Option.bind (auth_data s) perm_auth_key_id of
                        None \<Rightarrow> g
                      | Some k \<Rightarrow>
                          g\<lparr>store := (store g)\<lparr>perm_keys := (perm_keys (store g))
                             (k := map_option (\<lambda>p. p\<lparr>pk_layer := l\<rparr>) (perm_keys (store g) k))\<rparr>\<rparr>)
                else g)
      in on_srv (upd_session r (\<lambda>s. s\<lparr>layer := l\<rparr>)) g1)"

definition init_connection :: "sref \<Rightarrow> gateway \<Rightarrow> gateway" where
  "init_connection r g =
     (if truthy_key (auth_id (sess r g)) \<noteq> None \<and> \<not> had_init_connection (sess r g)
      then on_srv (upd_session r (\<lambda>s. s\<lparr>had_init_connection := True\<rparr>)) g else g)"

definition destroy_session :: "sref \<Rightarrow> int \<Rightarrow> gateway \<Rightarrow> gateway" where
  "destroy_session r sid g =
     (case Option.bind (auth_data (sess r g)) auth_key_id of
        None \<Rightarrow> g
      | Some k \<Rightarrow> (case sessions (srv g) (k, sid) of None \<Rightarrow> g | Some q \<Rightarrow> on_srv (manager_finalize q) g))"

fun future_salt_list ::
    "(byte list \<Rightarrow> byte list \<Rightarrow> byte list) \<Rightarrow> byte list \<Rightarrow> int \<Rightarrow> int \<Rightarrow> nat \<Rightarrow> (int \<times> int \<times> int) list res" where
  "future_salt_list hmac key k base 0 = Inr []"
| "future_salt_list hmac key k base (Suc n) =
     rbind (make_salt hmac key k base) (\<lambda>b.
     rbind (Int_read_bytes TLong b True) (\<lambda>v.
     rbind (future_salt_list hmac key k (base + 1) n) (\<lambda>xs.
     Inr ((base * 30 * 60, (base + 1) * 30 * 60, v) # xs))))"

definition get_future_salts :: "'g gw_env \<Rightarrow> int \<Rightarrow> int \<Rightarrow> session \<Rightarrow> 'g reply res" where
  "get_future_salts E mid num s =
     (let limit = min (max num 1) 64; base = now_int E div (30 * 60) in
      case auth_data s of
        None \<Rightarrow> Inl AttributeError
      | Some d \<Rightarrow>
          (case auth_key_id d of
             None \<Rightarrow> Inl AttributeError
           | Some k \<Rightarrow>
               rbind (future_salt_list (hmac_sha1 E) (server_salt_key E) k base (nat limit)) (\<lambda>xs.
               Inr (FutureSaltsReply mid (now_int E) xs))))"

section \<open>Dispatch\<close>

text \<open>
  \<open>_process_request\<close>: a request of the protocol goes to its handler, which may process the query
  it wraps in turn; every other request passes the gate and goes to a worker. The fuel is the
  recursion limit.
\<close>

definition worker_reply :: "'g gw_env \<Rightarrow> int \<Rightarrow> sref \<Rightarrow> 'g task_outcome \<Rightarrow> 'g reply option gw" where
  "worker_reply E mid r out =
     (case out of
        TaskFailed \<Rightarrow> sreturn (Some (RpcErrorResult mid 500 ''INTERNAL_SERVER_ERROR_TIMEOUT''))
      | TaskError \<Rightarrow> sreturn (Some (RpcErrorResult mid 500 ''INTERNAL_SERVER_ERROR''))
      | NotAResponse \<Rightarrow> sreturn (Some (RpcErrorResult mid 500 ''INTERNAL_SERVER_ERROR''))
      | TaskResponse transport refresh x \<Rightarrow>
          (case transport of
             Some e \<Rightarrow> sraise (Disconnection (if e = 0 then None else Some (- \<bar>e\<bar>)))
           | None \<Rightarrow>
               sthen (if refresh
                      then sthen (gw_refresh E True r)
                             (\<lambda>g. (Inr (), on_srv (upd_session r (fetch_layer (gw_db E (store g)) (top_layer E))) g))
                      else sreturn ())
                 (sreturn (map_option WorkerResult x))))"

text \<open>The task runs; when it is slow, an acknowledgement is queued before its result is awaited.\<close>

definition run_worker :: "'g gw_env \<Rightarrow> 'g tl_object \<Rightarrow> sref \<Rightarrow> int \<Rightarrow> 'g task_outcome gw" where
  "run_worker E x r mid =
     (\<lambda>g. let (out, g1) = worker E x (sess r g) mid g
          in if slow_worker E mid
             then (case gw_enqueue E r (AckNotice [mid]) False g1 of
                     (Inl _, g2) \<Rightarrow> (Inr TaskFailed, g2)
                   | (Inr _, g2) \<Rightarrow> (Inr out, g2))
             else (Inr out, g1))"

definition to_worker :: "'g gw_env \<Rightarrow> 'g tl_object \<Rightarrow> int \<Rightarrow> sref \<Rightarrow> 'g reply option gw" where
  "to_worker E x mid r =
     (\<lambda>g. case Option.bind (auth_data (sess r g)) auth_key_id of
            None \<Rightarrow> (Inl AttributeError, g)
          | Some key \<Rightarrow>
              (case auth_gate E key x g of
                 GateDrop \<Rightarrow> (Inr None, g)
               | GateUnregistered \<Rightarrow>
                   sthen (respond_auth_key_unregistered E mid r key)
                     (sraise (Disconnection (Some (-404)))) g
               | GateOk \<Rightarrow> sbind (run_worker E x r mid) (worker_reply E mid r) g))"

fun process_request :: "nat \<Rightarrow> 'g gw_env \<Rightarrow> 'g tl_object \<Rightarrow> int \<Rightarrow> sref \<Rightarrow> 'g reply option gw" where
  "process_request 0 E x mid r = sraise RecursionError"
| "process_request (Suc n) E x mid r =
     (case request_of E x of
        MsgsAck ids \<Rightarrow> sthen (supd (on_srv (upd_session r (ack_outbound ids)))) (sreturn None)
      | MsgsStateReq ids \<Rightarrow> sreturn (Some (MsgsStateInfo mid (replicate (length ids) 4)))
      | Ping i \<Rightarrow> sreturn (Some (Pong mid i))
      | PingDelayDisconnect i delay \<Rightarrow>
          sthen (supd (ping_delay_disconnect E delay)) (sreturn (Some (Pong mid i)))
      | InvokeWithLayer l q \<Rightarrow> sthen (supd (set_layer E l r)) (process_request n E q mid r)
      | InvokeAfterMsg m q \<Rightarrow>
          (\<lambda>g. case wait_for_invoke_after E r mid [m] g of
                 (Some err, g1) \<Rightarrow> (Inr (Some err), g1)
               | (None, g1) \<Rightarrow> process_request n E q mid r g1)
      | InvokeAfterMsgs ms q \<Rightarrow>
          (\<lambda>g. case wait_for_invoke_after E r mid ms g of
                 (Some err, g1) \<Rightarrow> (Inr (Some err), g1)
               | (None, g1) \<Rightarrow> process_request n E q mid r g1)
      | InvokeWithoutUpdates q \<Rightarrow>
          sthen (supd (on_srv (upd_session r (\<lambda>s. s\<lparr>no_updates := True\<rparr>)))) (process_request n E q mid r)
      | InitConnection q \<Rightarrow> sthen (supd (init_connection r)) (process_request n E q mid r)
      | DestroySession sid \<Rightarrow>
          sthen (supd (destroy_session r sid)) (sreturn (Some (DestroySessionOk sid)))
      | RpcDropAnswer \<Rightarrow> sreturn (Some (RpcAnswerUnknown mid))
      | GetFutureSalts num \<Rightarrow>
          (\<lambda>g. case get_future_salts E mid num (sess r g) of
                 Inl e \<Rightarrow> (Inl e, g) | Inr x \<Rightarrow> (Inr (Some x), g))
      | BindTempAuthKey perm \<Rightarrow> to_worker E x mid r
      | OtherRequest \<Rightarrow> to_worker E x mid r)"

definition mark_completed :: "int \<Rightarrow> sref \<Rightarrow> unit gw" where
  "mark_completed mid r =
     (\<lambda>g. case mark_rpc_completed mid (sess r g) of
            Inl e \<Rightarrow> (Inl e, g) | Inr s \<Rightarrow> (Inr (), on_srv (upd_session r (\<lambda>_. s)) g))"

definition propagate :: "'g gw_env \<Rightarrow> int \<Rightarrow> 'g tl_object \<Rightarrow> sref \<Rightarrow> unit gw" where
  "propagate E mid x r =
     sfinally
       (sbind (process_request (recursion_limit E) E x mid r) (\<lambda>res.
          case res of None \<Rightarrow> sreturn () | Some y \<Rightarrow> gw_enqueue E r y True))
       (mark_completed mid r)"

fun propagate_all :: "'g gw_env \<Rightarrow> 'g tl_message list \<Rightarrow> sref \<Rightarrow> unit gw" where
  "propagate_all E [] r = sreturn ()"
| "propagate_all E (Message mid seq x # ms) r = sthen (propagate E mid x r) (propagate_all E ms r)"

definition handle_encrypted_message :: "'g gw_env \<Rightarrow> int \<Rightarrow> 'g tl_object \<Rightarrow> sref \<Rightarrow> unit gw" where
  "handle_encrypted_message E mid x r =
     sthen (gw_refresh E False r)
       (case x of MsgContainer ms \<Rightarrow> propagate_all E ms r | _ \<Rightarrow> propagate E mid x r)"

section \<open>Receiving\<close>

text \<open>The key of a packet, from the cache or the database; the loaded data is used again below.\<close>

definition packet_key :: "'g gw_env \<Rightarrow> int \<Rightarrow> (byte list \<times> auth_data option) gw" where
  "packet_key E key =
     (\<lambda>g. case active_keys (conn g) key of
            Some k \<Rightarrow> (Inr (k, None), g)
          | None \<Rightarrow>
              sbind (get_auth_data_or_404 E key) (\<lambda>d.
              sthen (supd (on_conn (\<lambda>c. c\<lparr>active_keys :=
                  fst (lru_put 8 (key_victim E) key (the (auth_key d)) (active_keys c))\<rparr>)))
                (sreturn (the (auth_key d), Some d))) g)"

definition packet_session :: "'g gw_env \<Rightarrow> int \<Rightarrow> auth_data option \<Rightarrow> int \<Rightarrow> sref gw" where
  "packet_session E key loaded sid =
     (\<lambda>g. case get_cached_session key sid g of
            Some r \<Rightarrow> (Inr r, g)
          | None \<Rightarrow>
              sbind (case loaded of Some d \<Rightarrow> sreturn d | None \<Rightarrow> get_auth_data_or_404 E key) (\<lambda>d g1.
                let ((r, created), g2) = get_session E sid d g1
                in case env_salts (env.truncate E) (sess r g2) of
                     Inl e \<Rightarrow> (Inl e, g2)
                   | Inr s \<Rightarrow> (Inr r, on_srv (upd_session r (\<lambda>_. s)) g2)) g)"

text \<open>The exceptions of reading that are answered; a constructor is reported when it is known.\<close>

fun read_failure :: "py_error \<Rightarrow> int option" where
  "read_failure StructError = Some 0"
| "read_failure ValueError = Some 0"
| "read_failure UnicodeError = Some 0"
| "read_failure (InvalidConstructorException c) = Some c"
| "read_failure (UnknownConstructorException c) = Some c"
| "read_failure _ = None"

definition first_message :: "'g gw_env \<Rightarrow> int \<Rightarrow> sref \<Rightarrow> unit gw" where
  "first_message E mid r =
     (\<lambda>g. if min_msg_id (sess r g) \<noteq> 0 then (Inr (), g)
          else let g1 = on_srv (upd_session r (\<lambda>s. fetch_layer (gw_db E (store g)) (top_layer E)
                          (s\<lparr>min_msg_id := mid\<rparr>))) g
               in case Int_read_bytes TLong (salt (salt_now (sess r g1))) True of
                    Inl e \<Rightarrow> (Inl e, g1)
                  | Inr v \<Rightarrow> gw_enqueue E r (NewSessionCreated mid (session_id (sess r g1)) v) False g1)"

definition check_message :: "'g gw_env \<Rightarrow> decrypted_packet \<Rightarrow> sref \<Rightarrow> bool gw" where
  "check_message E p r =
     (\<lambda>g. case is_message_bad (clock E) p (take 4 (pkt_data p) \<noteq> bind_tlid E) (sess r g) of
            Inl e \<Rightarrow> (Inl e, g)
          | Inr None \<Rightarrow> (Inr False, g)
          | Inr (Some b) \<Rightarrow> sthen (gw_enqueue E r (BadNotice b) True) (sreturn True) g)"

definition recv_message :: "'g gw_env \<Rightarrow> int \<Rightarrow> decrypted_packet \<Rightarrow> sref \<Rightarrow> unit gw" where
  "recv_message E key p r =
     (case TLObject_read (reg (push E)) (recursion_limit E) (pkt_data p) of
        Inl e \<Rightarrow>
          (case read_failure e of
             None \<Rightarrow> sraise e
           | Some c \<Rightarrow> gw_enqueue E r (InputMethodInvalid (pkt_message_id p) c) False)
      | Inr (x, rest) \<Rightarrow>
          sthen (first_message E (pkt_message_id p) r)
            (\<lambda>g. case auth_gate E key x g of
                   GateDrop \<Rightarrow> (Inr (), g)
                 | GateUnregistered \<Rightarrow>
                     sthen (respond_auth_key_unregistered E (pkt_message_id p) r key)
                       (sraise (Disconnection (Some (-404)))) g
                 | GateOk \<Rightarrow> handle_encrypted_message E (pkt_message_id p) x r g))"

text \<open>\<open>_recv_packet\<close> on an encrypted packet; the quick acknowledgement is not modelled.\<close>

definition recv_encrypted :: "'g gw_env \<Rightarrow> int \<Rightarrow> byte list \<Rightarrow> unit gw" where
  "recv_encrypted E key payload =
     (\<lambda>g. if key \<in> rejected_auth_keys (conn g) then (Inr (), g)
          else sbind (packet_key E key) (\<lambda>(k, loaded).
            case decrypt E k payload of
              None \<Rightarrow> sraise (Disconnection (Some (-404)))
            | Some p \<Rightarrow>
                sbind (packet_session E key loaded (pkt_session_id p)) (\<lambda>r.
                sbind (check_message E p r) (\<lambda>bad.
                if bad then sreturn () else recv_message E key p r))) g)"

section \<open>Sending\<close>

definition outbound_sessions :: "gateway \<Rightarrow> sref list" where
  "outbound_sessions g =
     keygen_session (conn g) # sorted_list_of_set (ran (active_sessions (conn g)))"

definition has_pending_outbound :: "gateway \<Rightarrow> bool" where
  "has_pending_outbound g =
     list_ex (\<lambda>r. unencrypted_queue (sess r g) \<noteq> [] \<or> message_queue (sess r g) \<noteq> []) (outbound_sessions g)"

definition flush_session_outbound :: "'g gw_env \<Rightarrow> sref \<Rightarrow> unit gw" where
  "flush_session_outbound E r =
     run_outcome (\<lambda>w. snd (flush_outbound (env_salts (env.truncate E)) (write_budget E r) r w))"

fun flush_all :: "'g gw_env \<Rightarrow> sref list \<Rightarrow> unit gw" where
  "flush_all E [] = sreturn ()"
| "flush_all E (r # rs) = sthen (flush_session_outbound E r) (flush_all E rs)"

text \<open>
  The inner loop of \<open>_worker_loop_send\<close>, up to the point where the task waits for new messages.
  Nothing in it gives control back to the event loop when no write does.
\<close>

fun send_until_idle :: "nat \<Rightarrow> 'g gw_env \<Rightarrow> gateway \<Rightarrow> (unit res \<times> gateway) option" where
  "send_until_idle 0 E g = None"
| "send_until_idle (Suc n) E g =
     (if \<not> has_pending_outbound g then Some (Inr (), g)
      else case flush_all E (outbound_sessions g) g of
             (Inl e, g1) \<Rightarrow> Some (Inl e, g1)
           | (Inr _, g1) \<Rightarrow> send_until_idle n E g1)"

text \<open>The end of the connection: every session of its cache is disconnected.\<close>

definition close_connection :: "gateway \<Rightarrow> gateway" where
  "close_connection g =
     g\<lparr>srv := fold disconnect (sorted_list_of_set (ran (active_sessions (conn g)))) (srv g),
       conn := (conn g)\<lparr>active_sessions := Map.empty\<rparr>\<rparr>"

end
