(* ===== verification/SendLoop.thy ===== *)
theory SendLoop
  imports Gateway Reachable
begin

text \<open>
  The send loop of a connection. It gets to its waiting point in one round when every session it
  serves is connected and the writes go through. It never gets there while one of them is
  disconnected with something left in a queue: flushing such a session does nothing, and nothing
  else in the loop lets another task run.
\<close>

section \<open>A disconnected session with a queue\<close>

definition stuck :: "sref \<Rightarrow> gateway \<Rightarrow> bool" where
  "stuck r g \<longleftrightarrow> client (sess r g) = None
     \<and> (unencrypted_queue (sess r g) \<noteq> [] \<or> message_queue (sess r g) \<noteq> [])"

lemma flush_other:
  assumes "flush_outbound salts n q w = (fs, w', e)" "q \<noteq> r"
  shows "heap w' r = heap w r"
proof (cases "client (heap w q)")
  case (Some c)
  obtain s1 fs1 e1 where 1: "write_session_queues salts n (heap w q) = (s1, fs1, e1)" by (metis prod_cases3)
  have "heap (disconnect q (upd_session q (\<lambda>_. s1) w)) r = heap w r"
    using assms(2) by (simp add: disconnect_def schedule_cleanup_def Let_def split: option.split)
  then show ?thesis
    using assms 1 Some by (auto simp: flush_outbound_def Let_def split: option.splits py_error.splits)
qed (use assms in \<open>simp add: flush_outbound_def\<close>)

lemma flush_session_other:
  assumes "flush_session_outbound E q g = (res, g')" "q \<noteq> r"
  shows "sess r g' = sess r g" "conn g' = conn g"
proof -
  obtain fs w' e where 1: "flush_outbound (env_salts (env.truncate E)) (write_budget E q) q (srv g) = (fs, w', e)"
    by (metis prod_cases3)
  show "sess r g' = sess r g" "conn g' = conn g"
    using assms 1 flush_other [OF 1 assms(2)]
    by (auto simp: flush_session_outbound_def run_outcome_def sess_def split: option.splits)
qed

lemma flush_stuck:
  assumes "stuck r g"
  shows "flush_session_outbound E r g = (Inr (), g)"
  using assms by (simp add: stuck_def flush_session_outbound_def run_outcome_def flush_outbound_def sess_def)

lemma flush_all_stuck:
  "stuck r g \<Longrightarrow> flush_all E rs g = (res, g') \<Longrightarrow> stuck r g' \<and> conn g' = conn g"
proof (induction rs arbitrary: g)
  case (Cons q rs)
  obtain res1 g1 where 1: "flush_session_outbound E q g = (res1, g1)" by (metis surj_pair)
  have "stuck r g1 \<and> conn g1 = conn g"
  proof (cases "q = r")
    case True
    then show ?thesis using 1 flush_stuck [OF Cons.prems(1), of E] Cons.prems(1) by simp
  next
    case False
    then show ?thesis using flush_session_other [OF 1] Cons.prems(1) by (simp add: stuck_def)
  qed
  then show ?case
    using Cons.IH [of g1] Cons.prems(2) 1 by (cases res1) (auto simp: sthen_def sbind_def)
qed simp

lemma stuck_pending: "stuck r g \<Longrightarrow> r \<in> set (outbound_sessions g) \<Longrightarrow> has_pending_outbound g"
  by (auto simp: stuck_def has_pending_outbound_def list_ex_iff)

lemma send_never_idle:
  "stuck r g \<Longrightarrow> r \<in> set (outbound_sessions g) \<Longrightarrow> send_until_idle n E g \<noteq> Some (Inr (), g')"
proof (induction n arbitrary: g)
  case (Suc n)
  obtain res1 g1 where 1: "flush_all E (outbound_sessions g) g = (res1, g1)" by (metis surj_pair)
  note s1 = flush_all_stuck [OF Suc.prems(1) 1]
  then have "r \<in> set (outbound_sessions g1)" using Suc.prems(2) by (simp add: outbound_sessions_def)
  then show ?case
    using Suc.IH [of g1] s1 1 stuck_pending [OF Suc.prems] by (cases res1) auto
qed simp

section \<open>Writes that go through\<close>

text \<open>A session that can be written to: it has a key, and the key's identifier is a 64-bit integer.\<close>

definition writable :: "session \<Rightarrow> bool" where
  "writable s \<longleftrightarrow> can_encrypt s
     \<and> (case Option.bind (auth_data s) auth_key_id of None \<Rightarrow> True | Some k \<Rightarrow> int_fits 8 True k)"

definition salts_fine :: "(session \<Rightarrow> session res) \<Rightarrow> bool" where
  "salts_fine f \<longleftrightarrow> (\<forall>s. writable s \<longrightarrow> (\<exists>s'. f s = Inr s' \<and> writable s'))"

lemma update_salts_fine:
  assumes "int_fits 4 True (salt_window t)" "int_fits 4 True (salt_window t - 1)"
  shows "salts_fine (update_salts_maybe hmac key t force)"
  using assms
  by (auto simp: salts_fine_def writable_def can_encrypt_def update_salts_maybe_def make_salt_def Let_def
      Int_write_def py_to_bytes_le_def split: option.splits)

lemma write_message_through:
  assumes "salts_fine salts" "writable s" "0 < n"
  shows "\<exists>s' fs. write_message salts n q s = (s', fs, n - 1, None) \<and> writable s'"
proof -
  obtain s1 where "salts s = Inr s1" "writable s1" using assms(1,2) by (auto simp: salts_fine_def)
  then show ?thesis using assms(2,3) by (cases q; cases n) (simp_all add: write_message_def writable_def)
qed

lemma resend_through:
  assumes "salts_fine salts"
  shows "writable s \<Longrightarrow> length qs \<le> n \<Longrightarrow>
    \<exists>s' fs. resend_pending salts n qs s = (s', fs, n - length qs, None) \<and> writable s'"
proof (induction qs arbitrary: n s)
  case (Cons q qs)
  have le: "length qs \<le> n - 1" using Cons.prems(2) by simp
  obtain s1 fs1 where 1: "write_message salts n q s = (s1, fs1, n - 1, None)" "writable s1"
    using Cons.prems write_message_through [OF assms, of s n q] by auto
  then obtain s2 fs2 where "resend_pending salts (n - 1) qs s1 = (s2, fs2, n - 1 - length qs, None)" "writable s2"
    using Cons.IH [OF 1(2) le] by blast
  then show ?case using 1 by simp
qed simp

lemma queue_through:
  assumes "salts_fine salts"
  shows "writable s \<Longrightarrow> length qs \<le> n \<Longrightarrow>
    \<exists>s' fs. write_message_queue salts n qs s = (s', fs, n - length qs, None)"
proof (induction qs arbitrary: n s)
  case (Cons q qs)
  have le: "length qs \<le> n - 1" using Cons.prems(2) by simp
  have "writable (s\<lparr>message_queue := qs\<rparr>)" using Cons.prems(1) by (simp add: writable_def can_encrypt_def)
  then obtain s1 fs1 where 1: "write_message salts n q (s\<lparr>message_queue := qs\<rparr>) = (s1, fs1, n - 1, None)"
      "writable s1"
    using write_message_through [OF assms, of "s\<lparr>message_queue := qs\<rparr>" n q] Cons.prems(2) by auto
  let ?s2 = "track_pending_outbound (fst q) (fst (snd q)) (snd (snd q)) s1"
  have c2: "writable ?s2" using 1(2) by (simp add: writable_def can_encrypt_def track_pending_outbound_def)
  obtain s2 fs2 where "write_message_queue salts (n - 1) qs ?s2 = (s2, fs2, n - 1 - length qs, None)"
    using Cons.IH [OF c2 le] by blast
  then show ?case using 1 by simp
qed simp

lemma unencrypted_through:
  "length us \<le> n \<Longrightarrow> \<exists>fs. write_unencrypted_queue n us = ([], fs, n - length us, None)"
proof (induction us arbitrary: n)
  case (Cons u us)
  then obtain m where n: "n = Suc m" by (cases n) auto
  then obtain fs where "write_unencrypted_queue m us = ([], fs, m - length us, None)"
    using Cons.IH [of m] Cons.prems by auto
  then show ?case using n by (cases u) simp
qed simp

definition queued_writes :: "session \<Rightarrow> nat" where
  "queued_writes s = length (unencrypted_queue s) + length (pending_outbound s) + length (message_queue s)"

lemma write_queues_through:
  assumes "salts_fine salts" "salts_ok salts" "writable s \<or> (message_queue s = [] \<and> pending_outbound s = [])"
    and "queued_writes s \<le> n"
  shows "\<exists>s' fs. write_session_queues salts n s = (s', fs, None)"
proof -
  let ?n1 = "n - length (unencrypted_queue s)"
  obtain fs1 where 1: "write_unencrypted_queue n (unencrypted_queue s) = ([], fs1, ?n1, None)"
    using unencrypted_through [of "unencrypted_queue s" n] assms(4) by (auto simp: queued_writes_def)
  let ?s1 = "s\<lparr>unencrypted_queue := []\<rparr>"
  have "\<exists>s2 fs2 n2. resend_phase salts ?n1 ?s1 = (s2, fs2, n2, None) \<and> length (message_queue s) \<le> n2
      \<and> (writable s2 \<or> message_queue s = [])"
  proof (cases "resend_pending_on_connect s \<and> pending_outbound s \<noteq> []")
    case True
    then have "writable (?s1\<lparr>resend_pending_on_connect := False\<rparr>)"
      using assms(3) by (auto simp: writable_def can_encrypt_def)
    then show ?thesis
      using True resend_through [OF assms(1), of "?s1\<lparr>resend_pending_on_connect := False\<rparr>" "pending_outbound s" ?n1]
        assms(4) by (fastforce simp: resend_phase_def queued_writes_def)
  next
    case False
    then show ?thesis using assms(3,4) by (auto simp: resend_phase_def queued_writes_def writable_def can_encrypt_def)
  qed
  then obtain s2 fs2 n2 where 2: "resend_phase salts ?n1 ?s1 = (s2, fs2, n2, None)"
      "length (message_queue s) \<le> n2" "writable s2 \<or> message_queue s = []" by blast
  have q: "message_queue s2 = message_queue s" using resend_phase_ok [OF assms(2) 2(1)] by simp
  obtain s3 fs3 n3 where "write_message_queue salts n2 (message_queue s2) s2 = (s3, fs3, n3, None)"
    using 2(2,3) queue_through [OF assms(1), of s2 "message_queue s" n2] unfolding q by auto
  then show ?thesis using 1 2 by (simp add: write_session_queues_def)
qed

section \<open>One round\<close>

text \<open>A session the loop can empty: connected, and every queued write fits before the next reset.\<close>

definition flushable :: "'g gw_env \<Rightarrow> sref \<Rightarrow> session \<Rightarrow> bool" where
  "flushable E r s \<longleftrightarrow> client s \<noteq> None \<and> (writable s \<or> (message_queue s = [] \<and> pending_outbound s = []))
     \<and> queued_writes s \<le> write_budget E r"

definition drained :: "session \<Rightarrow> bool" where
  "drained s \<longleftrightarrow> unencrypted_queue s = [] \<and> message_queue s = []"

lemma env_salts_ok: "salts_ok (env_salts E)"
  by (simp add: env_salts_def update_salts_ok)

lemma flush_drains:
  assumes "salts_fine (env_salts (env.truncate E))" "flushable E r (sess r g)"
  shows "\<exists>g'. flush_session_outbound E r g = (Inr (), g') \<and> drained (sess r g') \<and> conn g' = conn g
    \<and> (\<forall>q. q \<noteq> r \<longrightarrow> sess q g' = sess q g)"
proof -
  obtain s' fs where 1: "write_session_queues (env_salts (env.truncate E)) (write_budget E r) (sess r g) = (s', fs, None)"
    using write_queues_through [OF assms(1) env_salts_ok, of "sess r g" "write_budget E r"] assms(2)
    unfolding flushable_def by blast
  obtain c where c: "client (heap (srv g) r) = Some c" using assms(2) by (auto simp: flushable_def sess_def)
  have f: "flush_session_outbound E r g = (Inr (), g\<lparr>srv := upd_session r (\<lambda>_. s') (srv g)\<rparr>)"
    using 1 c by (simp add: flush_session_outbound_def run_outcome_def flush_outbound_def sess_def)
  have "drained s'" using flush_success [OF env_salts_ok 1] by (simp add: drained_def)
  then show ?thesis using f by (auto simp: sess_def)
qed

lemma flush_all_drains:
  assumes "salts_fine (env_salts (env.truncate E))"
  shows "distinct rs \<Longrightarrow> (\<forall>r \<in> set rs. flushable E r (sess r g)) \<Longrightarrow>
    \<exists>g'. flush_all E rs g = (Inr (), g') \<and> (\<forall>r \<in> set rs. drained (sess r g')) \<and> conn g' = conn g
      \<and> (\<forall>q. q \<notin> set rs \<longrightarrow> sess q g' = sess q g)"
proof (induction rs arbitrary: g)
  case (Cons r rs)
  obtain g1 where 1: "flush_session_outbound E r g = (Inr (), g1)" "drained (sess r g1)" "conn g1 = conn g"
      "\<And>q. q \<noteq> r \<Longrightarrow> sess q g1 = sess q g"
    using flush_drains [OF assms, of r g] Cons.prems(2) by auto
  have "\<forall>q \<in> set rs. flushable E q (sess q g1)"
    using Cons.prems 1(4) by (metis distinct.simps(2) list.set_intros(2))
  then obtain g2 where 2: "flush_all E rs g1 = (Inr (), g2)" "\<forall>q \<in> set rs. drained (sess q g2)"
      "conn g2 = conn g1" "\<forall>q. q \<notin> set rs \<longrightarrow> sess q g2 = sess q g1"
    using Cons.IH [of g1] Cons.prems(1) by auto
  moreover have "sess r g2 = sess r g1" using 2(4) Cons.prems(1) by simp
  ultimately show ?case using 1 by (auto simp: sthen_def sbind_def)
qed simp

lemma send_reaches_idle:
  assumes "salts_fine (env_salts (env.truncate E))" "distinct (outbound_sessions g)"
    and "\<forall>r \<in> set (outbound_sessions g). flushable E r (sess r g)"
  shows "\<exists>g'. send_until_idle 2 E g = Some (Inr (), g') \<and> \<not> has_pending_outbound g'"
proof -
  obtain g1 where 1: "flush_all E (outbound_sessions g) g = (Inr (), g1)"
      "\<forall>r \<in> set (outbound_sessions g). drained (sess r g1)" "conn g1 = conn g"
    using flush_all_drains [OF assms] by blast
  then have "outbound_sessions g1 = outbound_sessions g" by (simp add: outbound_sessions_def)
  then have "\<not> has_pending_outbound g1"
    using 1(2) by (auto simp: has_pending_outbound_def list_ex_iff drained_def)
  then show ?thesis using 1(1) by (simp add: numeral_2_eq_2)
qed

end
