(* ===== verification/GatewayFacts.thy ===== *)
theory GatewayFacts
  imports Gateway Reachable
begin

text \<open>
  Properties of the gateway: what an unregistered key can and cannot reach, completion of every
  request, the capacity of the session cache, the salts promised in advance, the layer of a
  connection, and a session that two connections use.
\<close>

section \<open>Frames\<close>

lemma run_outcome_frame:
  "run_outcome f g = (r, g') \<Longrightarrow> conn g' = conn g \<and> store g' = store g
     \<and> unknown_auth_key_ids g' = unknown_auth_key_ids g \<and> srv g' = fst (f (srv g))"
  by (auto simp: run_outcome_def split: prod.splits option.splits)

lemma gw_enqueue_frame:
  "gw_enqueue E q x b g = (r, g') \<Longrightarrow> conn g' = conn g \<and> store g' = store g"
  unfolding gw_enqueue_def by (drule run_outcome_frame) simp

lemma on_srv_simps [simp]:
  "conn (on_srv f g) = conn g" "store (on_srv f g) = store g" "srv (on_srv f g) = f (srv g)"
  "srv (on_conn h g) = srv g" "store (on_conn h g) = store g" "conn (on_conn h g) = h (conn g)"
  by (simp_all add: on_srv_def on_conn_def)

lemma first_message_frame:
  "first_message E mid q g = (r, g') \<Longrightarrow> conn g' = conn g \<and> store g' = store g"
  by (auto simp: first_message_def Let_def split: if_splits sum.splits dest: gw_enqueue_frame)

section \<open>The gate\<close>

lemma gate_unregistered:
  assumes "\<not> is_registered (now_int E) key (store g)" "key \<notin> rejected_auth_keys (conn g)"
  shows "auth_gate E key x g = GateUnregistered"
  using assms by (simp add: auth_gate_def)

lemma respond_rejects:
  assumes "respond_auth_key_unregistered E mid r key g = (res, g')" "key \<notin> rejected_auth_keys (conn g)"
  shows "key \<in> rejected_auth_keys (conn g')"
proof -
  let ?g1 = "on_conn (\<lambda>c. c\<lparr>rejected_auth_keys := insert key (rejected_auth_keys c)\<rparr>) g"
  obtain res1 g2 where 1: "gw_enqueue E r (auth_key_unregistered_result mid) True ?g1 = (res1, g2)"
    by (metis surj_pair)
  then have "key \<in> rejected_auth_keys (conn g2)" using gw_enqueue_frame [OF 1] by simp
  then show ?thesis
    using assms 1 by (cases res1) (auto simp: respond_auth_key_unregistered_def sthen_def sbind_def supd_def drop_auth_key_def)
qed

lemma rejected_ignored: "key \<in> rejected_auth_keys (conn g) \<Longrightarrow> recv_encrypted E key payload g = (Inr (), g)"
  by (simp add: recv_encrypted_def)

lemma unregistered_blocked:
  assumes "\<not> is_registered (now_int E) key (store g)" "key \<notin> rejected_auth_keys (conn g)"
    and "TLObject_read (reg (push E)) (recursion_limit E) (pkt_data p) = Inr (x, rest)"
    and "first_message E (pkt_message_id p) r g = (Inr (), g1)"
    and "recv_message E key p r g = (res, g')"
  shows "(\<exists>e. res = Inl e) \<and> key \<in> rejected_auth_keys (conn g')
    \<and> g' = snd (respond_auth_key_unregistered E (pkt_message_id p) r key g1)"
proof -
  have g1: "\<not> is_registered (now_int E) key (store g1)" "key \<notin> rejected_auth_keys (conn g1)"
    using assms(1,2) first_message_frame [OF assms(4)] by simp_all
  obtain res2 g2 where 2: "respond_auth_key_unregistered E (pkt_message_id p) r key g1 = (res2, g2)"
    by (metis surj_pair)
  have "recv_message E key p r g = sthen (respond_auth_key_unregistered E (pkt_message_id p) r key)
      (sraise (Disconnection (Some (-404)))) g1"
    using gate_unregistered [OF g1] assms(3,4) by (simp add: recv_message_def sthen_def sbind_def)
  then show ?thesis
    using assms(5) 2 respond_rejects [OF 2 g1(2)]
    by (cases res2) (auto simp: sthen_def sbind_def sraise_def)
qed

section \<open>The session cache\<close>

lemma lru_put_card:
  assumes "finite (dom m)" "card (dom m) \<le> cap" "0 < cap"
    and "cap \<le> card (dom m) \<Longrightarrow> victim m \<in> dom m" "lru_put cap victim k v m = (m', e)"
  shows "finite (dom m') \<and> card (dom m') \<le> cap \<and> m' k = Some v"
proof (cases "m k = None \<and> cap \<le> card (dom m)")
  case True
  then have v: "victim m \<in> dom m" and k: "k \<notin> dom m" using assms(4) by auto
  have m': "dom m' = insert k (dom m - {victim m})" and mk: "m' k = Some v"
    using True assms(5) by (auto simp: lru_put_def split: if_splits)
  have "card (dom m - {victim m}) = card (dom m) - 1" using v assms(1) by simp
  then show ?thesis using assms(1-3) k mk unfolding m' by (simp add: card_insert_if)
next
  case False
  then have m': "m' = m(k \<mapsto> v)" using assms(5) by (auto simp: lru_put_def)
  show ?thesis
  proof (cases "m k")
    case None
    then have "k \<notin> dom m" "card (dom m) < cap" using False by auto
    then show ?thesis using assms(1) by (simp add: m')
  next
    case (Some u)
    then have "insert k (dom m) = dom m" by auto
    then show ?thesis using assms(1,2) by (simp add: m')
  qed
qed

definition cache_ok :: "gateway \<Rightarrow> bool" where
  "cache_ok g \<longleftrightarrow> finite (dom (active_sessions (conn g))) \<and> card (dom (active_sessions (conn g))) \<le> 4"

lemma get_session_cache:
  assumes "cache_ok g" "\<And>m. 4 \<le> card (dom m) \<Longrightarrow> session_victim E m \<in> dom m"
    and "get_session E sid d g = ((r, created), g')"
  shows "cache_ok g'"
proof (cases "get_cached_session (the (auth_key_id d)) sid g")
  case None
  let ?m = "active_sessions (conn g)"
  obtain q cr w1 where 1: "get_or_create sid (Some (client_ref (conn g))) d (srv g) = ((q, cr), w1)"
    by (metis surj_pair)
  let ?w2 = "connect (client_ref (conn g)) q w1"
  obtain m' e where 2: "lru_put 4 (session_victim E) (uniq_id (heap ?w2 q)) q ?m = (m', e)" by (metis surj_pair)
  have "finite (dom m') \<and> card (dom m') \<le> 4 \<and> m' (uniq_id (heap ?w2 q)) = Some q"
    using lru_put_card [OF _ _ _ _ 2] assms(1,2) by (simp add: cache_ok_def)
  moreover have "active_sessions (conn g') = m'"
    using assms(3) None 1 2 by (auto simp: get_session_def Let_def)
  ultimately show ?thesis by (simp add: cache_ok_def)
qed (use assms in \<open>auto simp: get_session_def\<close>)

section \<open>Salts promised in advance\<close>

lemma future_salt_list_nth:
  "future_salt_list hmac key k base n = Inr xs \<Longrightarrow> i < n \<Longrightarrow>
     \<exists>b v. make_salt hmac key k (base + int i) = Inr b \<and> Int_read_bytes TLong b True = Inr v
       \<and> xs ! i = ((base + int i) * 30 * 60, (base + int i + 1) * 30 * 60, v)"
proof (induction n arbitrary: base xs i)
  case (Suc n)
  from Suc.prems(1) obtain b v ys where 1: "make_salt hmac key k base = Inr b"
      "Int_read_bytes TLong b True = Inr v" "future_salt_list hmac key k (base + 1) n = Inr ys"
      "xs = (base * 30 * 60, (base + 1) * 30 * 60, v) # ys"
    by (auto simp: rbind_Inr_iff)
  show ?case
  proof (cases i)
    case (Suc j)
    then have "j < n" using Suc.prems(2) by simp
    moreover have "base + 1 + int j = base + int i" using \<open>i = Suc j\<close> by simp
    ultimately show ?thesis using Suc.IH [OF 1(3), of j] 1(4) \<open>i = Suc j\<close> by (simp add: add.assoc)
  qed (use 1 in simp)
qed simp

lemma future_salt_list_length: "future_salt_list hmac key k base n = Inr xs \<Longrightarrow> length xs = n"
  by (induction n arbitrary: base xs) (auto simp: rbind_Inr_iff)

text \<open>A salt made for a window is accepted by a session whose salts were renewed inside it.\<close>

lemma made_salt_accepted:
  assumes "make_salt hmac key k w = Inr b" "salt_window t = w \<or> salt_window t = w + 1"
    and "auth_data s = Some d" "auth_key_id d = Some k"
    and "update_salts_maybe hmac key t True s = Inr s'"
    and "pkt_salt p = b" "Int_read_bytes TInt (take 4 (pkt_data p)) False = Inr inner"
    and "bad_msg_code now inner p = 0"
  shows "is_message_bad now p check s' = Inr None"
  using assms by (auto simp: update_salts_maybe_def is_message_bad_def rbind_Inr_iff Let_def)

lemma window_of_interval:
  assumes "w * 30 * 60 \<le> \<lfloor>t\<rfloor>" "\<lfloor>t\<rfloor> < (w + 1) * 30 * 60"
  shows "salt_window t = w"
proof -
  have "real_of_int (w * 30 * 60) \<le> t" using assms(1) by linarith
  moreover have "t < real_of_int ((w + 1) * 30 * 60)" using assms(2) by linarith
  ultimately have "real_of_int w \<le> t / (30 * 60)" "t / (30 * 60) < real_of_int w + 1"
    by (simp_all add: field_simps)
  then show ?thesis unfolding salt_window_def by linarith
qed

section \<open>Two connections on one session\<close>

lemma close_disconnects:
  assumes "finite (ran (active_sessions (conn g)))" "r \<in> ran (active_sessions (conn g))"
  shows "client (heap (srv (close_connection g)) r) = None"
proof -
  have one: "client (heap (disconnect q w) r) = None" if "client (heap w r) = None \<or> q = r" for q w
  proof -
    have "client (heap (disconnect q w) r) = (if q = r then None else client (heap w r))"
      by (auto simp: disconnect_def schedule_cleanup_def Let_def disconnect_session_def upd_session_def
          split: option.split)
    then show ?thesis using that by auto
  qed
  have all: "client (heap (fold disconnect qs w) r) = None" if "r \<in> set qs \<or> client (heap w r) = None" for qs w
    using that
  proof (induction qs arbitrary: w)
    case (Cons q qs)
    then show ?case using one [of w q] by auto
  qed simp
  show ?thesis using assms all by (simp add: close_connection_def)
qed

end
