(* ===== verification/Effects.thy ===== *)
theory Effects
  imports Prelude
begin

text \<open>
  What effectful code promises about the state it leaves behind, whether it returns or raises.
  The promise is a relation between the state before and after; a relation that is reflexive
  and transitive passes through every combinator, so that a handler is covered by its parts.
\<close>

definition honours :: "('s \<Rightarrow> 's \<Rightarrow> bool) \<Rightarrow> ('a, 's) act \<Rightarrow> bool" where
  "honours R m \<longleftrightarrow> (\<forall>s. R s (snd (m s)))"

definition keeps :: "('s \<Rightarrow> bool) \<Rightarrow> 's \<Rightarrow> 's \<Rightarrow> bool" where
  "keeps P s s' \<longleftrightarrow> (P s \<longrightarrow> P s')"

lemma keepsI [intro]: "(P s \<Longrightarrow> P s') \<Longrightarrow> keeps P s s'"
  by (simp add: keeps_def)

lemma honoursI: "(\<And>s. R s (snd (m s))) \<Longrightarrow> honours R m"
  by (simp add: honours_def)

lemma honoursD: "honours R m \<Longrightarrow> m s = (r, s') \<Longrightarrow> R s s'"
  by (metis honours_def snd_conv)

locale guarantee =
  fixes R :: "'s \<Rightarrow> 's \<Rightarrow> bool"
  assumes same: "R s s"
    and chain: "R s t \<Longrightarrow> R t u \<Longrightarrow> R s u"
begin

lemma bind:
  assumes "honours R m" "\<And>x. honours R (f x)"
  shows "honours R (sbind m f)"
proof (rule honoursI)
  fix s
  obtain r t where 1: "m s = (r, t)" by (metis surj_pair)
  then have "R s t" by (rule honoursD [OF assms(1)])
  then show "R s (snd (sbind m f s))"
    using 1 assms(2) chain by (cases r) (auto simp: sbind_def honours_def)
qed

lemma seq: "honours R m \<Longrightarrow> honours R k \<Longrightarrow> honours R (sthen m k)"
  unfolding sthen_def by (rule bind)

lemma nothing [simp]: "honours R (sreturn x)" "honours R (sraise e)" "honours R (sget g)" "honours R (slift r)"
  by (simp_all add: honours_def same act_defs)

lemma update: "(\<And>s. R s (f s)) \<Longrightarrow> honours R (supd f)"
  by (simp add: honours_def)

lemma branch: "(b \<Longrightarrow> honours R m) \<Longrightarrow> (\<not> b \<Longrightarrow> honours R k) \<Longrightarrow> honours R (if b then m else k)"
  by simp

end

end
