(* ===== verification/Completion.thy ===== *)
theory Completion
  imports GatewayFacts Effects
begin

text \<open>
  Every request that was propagated is recorded as completed, however it ended, so that a later
  \<open>invokeAfterMsg\<close> on it does not wait. Handlers keep the record of completed requests well
  formed; the worker is asked to do so.
\<close>

section \<open>Operations that keep the record\<close>

definition rpc_keeps :: "server \<Rightarrow> server \<Rightarrow> bool" where
  "rpc_keeps w w' \<longleftrightarrow> (\<forall>r. rpc_inv (heap w r) \<longrightarrow> rpc_inv (heap w' r))"

lemma rpc_keeps_refl [simp, intro]: "rpc_keeps w w"
  by (simp add: rpc_keeps_def)

lemma rpc_keeps_trans: "rpc_keeps w w' \<Longrightarrow> rpc_keeps w' w'' \<Longrightarrow> rpc_keeps w w''"
  by (simp add: rpc_keeps_def)

lemma rpc_keeps_heap: "heap w' = heap w \<Longrightarrow> rpc_keeps w w'"
  by (simp add: rpc_keeps_def)

text \<open>Functions on a session that leave the record alone, or clear it.\<close>

definition rpc_local :: "(session \<Rightarrow> session) \<Rightarrow> bool" where
  "rpc_local f \<longleftrightarrow> (\<forall>s. rpc_inv s \<longrightarrow> rpc_inv (f s))"

lemma rpc_keeps_upd: "rpc_local f \<Longrightarrow> rpc_keeps w (upd_session r f w)"
  by (simp add: rpc_keeps_def rpc_local_def upd_session_def)

lemma rpc_keeps_upd_at: "(rpc_inv (heap w r) \<Longrightarrow> rpc_inv (f (heap w r))) \<Longrightarrow> rpc_keeps w (upd_session r f w)"
  by (simp add: rpc_keeps_def upd_session_def)

lemma rpc_local_fields [simp]:
  "rpc_local (\<lambda>s. s\<lparr>message_queue := q s\<rparr>)" "rpc_local (\<lambda>s. s\<lparr>upd_seq := n\<rparr>)"
  "rpc_local (\<lambda>s. s\<lparr>auth_data := d\<rparr>)" "rpc_local (\<lambda>s. s\<lparr>auth_loaded_at := t\<rparr>)"
  "rpc_local (\<lambda>s. s\<lparr>channels_loaded_at := t\<rparr>)" "rpc_local (\<lambda>s. s\<lparr>channel_ids := c\<rparr>)"
  "rpc_local (\<lambda>s. s\<lparr>user_id := None, auth_id := None, is_bot := False, mfa_pending := False,
     upd_seq := None, channel_ids := {}\<rparr>)"
  "rpc_local (\<lambda>s. s\<lparr>layer := l\<rparr>)" "rpc_local (\<lambda>s. s\<lparr>no_updates := True\<rparr>)"
  "rpc_local (\<lambda>s. s\<lparr>had_init_connection := True\<rparr>)" "rpc_local (load_auth a)"
  "rpc_local schedule_outbound_flush" "rpc_local disconnect_session" "rpc_local finalize_session"
  "rpc_local (fetch_layer D l)" "rpc_local (\<lambda>s. if cleanup_task s then s else s\<lparr>cleanup_task := True\<rparr>)"
  by (auto simp: rpc_local_def rpc_inv_def load_auth_def schedule_outbound_flush_def
      disconnect_session_def finalize_session_def cancel_cleanup_def fetch_layer_def split: option.split)

lemma rpc_keeps_wake: "rpc_keeps w w' \<Longrightarrow> rpc_keeps w (case x of None \<Rightarrow> w' | Some c \<Rightarrow> wake c w')"
  by (cases x) (simp_all add: rpc_keeps_def)

lemma rpc_keeps_updI: "rpc_keeps w w' \<Longrightarrow> rpc_local f \<Longrightarrow> rpc_keeps w (upd_session r f w')"
  using rpc_keeps_trans rpc_keeps_upd by blast

lemma next_upd_seq_keeps: "rpc_keeps w (snd (next_upd_seq r w))"
  by (auto simp: next_upd_seq_def Let_def rpc_keeps_def rpc_inv_def upd_session_def split: option.splits)

lemma set_updates_seq_keeps: "rpc_keeps w (snd (set_updates_seq P r x w))"
  by (cases x) (simp_all add: set_updates_seq_def split_beta next_upd_seq_keeps)

lemma pack_message_keeps: "pack_message R t x b s = (m, s') \<Longrightarrow> rpc_inv s \<Longrightarrow> rpc_inv s'"
  by (auto simp: pack_message_def msg_id_def get_outgoing_seq_no_def rpc_inv_def Let_def
      split: if_splits prod.splits)

lemma put_message_keeps: "rpc_keeps w w' \<Longrightarrow> rpc_keeps w (put_message r q w')"
  unfolding put_message_def Let_def by (intro rpc_keeps_updI rpc_keeps_wake) simp_all

lemma enqueue_keeps: "rpc_keeps w (fst (enqueue P ser t x b r w))"
proof (cases "prepare_outbound_obj P (layer (heap w r)) x")
  case (Inr y)
  obtain x1 w1 where x1: "set_updates_seq P r (out_obj y) w = (x1, w1)" by (metis surj_pair)
  obtain m s2 where p: "pack_message (reg P) t x1 b (heap w1 r) = (m, s2)" by (metis surj_pair)
  have "rpc_keeps w w1" using set_updates_seq_keeps [of w P r "out_obj y"] x1 by simp
  then have "rpc_keeps w (upd_session r (\<lambda>_. s2) w1)"
    using rpc_keeps_upd_at [of w1 r "\<lambda>_. s2"] pack_message_keeps [OF p] rpc_keeps_trans by blast
  then show ?thesis
    by (cases "ser s2 (out_ctx y) (msg_obj m)") (simp_all add: enqueue_def Inr x1 p put_message_keeps)
qed (simp add: enqueue_def)

lemma disconnect_keeps: "rpc_keeps w (disconnect r w)"
proof -
  have 1: "rpc_keeps w (upd_session r disconnect_session w)" by (simp add: rpc_keeps_upd)
  then have 2: "rpc_keeps w (schedule_cleanup r (upd_session r disconnect_session w))"
    unfolding schedule_cleanup_def by (rule rpc_keeps_updI) simp
  then have "rpc_keeps w (schedule_leave u (schedule_cleanup r (upd_session r disconnect_session w)))" for u
    by (simp add: rpc_keeps_def)
  then show ?thesis using 1 2 by (simp add: disconnect_def Let_def split: option.split)
qed

lemma manager_finalize_keeps: "rpc_keeps w (manager_finalize r w)"
proof -
  have f: "rpc_inv (finalize_session s)" if "rpc_inv s" for s
    using that rpc_local_fields(14) by (simp add: rpc_local_def)
  have "heap (manager_finalize r w) = (heap w)(r := finalize_session (heap w r))"
    by (simp add: manager_finalize_def Let_def upd_session_def split: option.split)
  then show ?thesis using f by (simp add: rpc_keeps_def)
qed

lemma reset_auth_keeps: "rpc_keeps w (reset_auth r w)"
  unfolding reset_auth_def Let_def
  by (rule rpc_keeps_updI) (auto intro!: rpc_keeps_heap)

lemma refresh_channels_keeps: "rpc_keeps w (refresh_channels D t r w)"
  by (auto simp: refresh_channels_def Let_def rpc_keeps_def rpc_inv_def upd_session_def split: option.split)

lemma reload_auth_keeps: "rpc_keeps w (reload_auth D t reload perm r w)"
proof -
  define w2 where "w2 = (if reload then upd_session r (\<lambda>s. s\<lparr>auth_loaded_at := t\<rparr>) w else w)"
  define w3 where "w3 = (if reload then upd_session r (load_auth (the (authorization_of D perm))) w2 else w2)"
  define w4 where "w4 = (if auth_id (heap w3 r) \<noteq> None \<and> \<not> mfa_pending (heap w3 r)
      \<and> t - channels_loaded_at (heap w3 r) > 60 * 5 then refresh_channels D t r w3 else w3)"
  have eq: "reload_auth D t reload perm r w = (if reload \<and> authorization_of D perm = None then reset_auth r w2
      else resubscribe (user_id (heap w r)) (auth_id (heap w r)) r w4)"
    by (simp only: reload_auth_def Let_def w4_def w3_def w2_def)
  have k2: "rpc_keeps w w2" by (simp add: w2_def rpc_keeps_upd)
  have k3: "rpc_keeps w w3" using k2 by (simp add: w3_def rpc_keeps_updI)
  have k4: "rpc_keeps w w4" using k3 rpc_keeps_trans [OF k3 refresh_channels_keeps] by (simp add: w4_def)
  have "rpc_keeps w (resubscribe (user_id (heap w r)) (auth_id (heap w r)) r w4)"
    using k4 by (simp add: rpc_keeps_def resubscribe_broker)
  then show ?thesis unfolding eq using rpc_keeps_trans [OF k2 reset_auth_keeps] by simp
qed

lemma refresh_auth_keeps: "rpc_keeps w (fst (refresh_auth_maybe D t force r w))"
proof -
  have 1: "rpc_keeps w (refetch_auth_data D force r w)"
    by (auto simp: refetch_auth_data_def rpc_keeps_upd split: option.split)
  show ?thesis
    using 1 rpc_keeps_trans [OF 1 reset_auth_keeps] rpc_keeps_trans [OF 1 reload_auth_keeps]
    by (auto simp: refresh_auth_maybe_def Let_def split: option.split)
qed

section \<open>The handlers of the gateway\<close>

definition gw_keeps :: "gateway \<Rightarrow> gateway \<Rightarrow> bool" where
  "gw_keeps g g' \<longleftrightarrow> rpc_keeps (srv g) (srv g')"

abbreviation act_keeps :: "'a gw \<Rightarrow> bool" where
  "act_keeps \<equiv> honours gw_keeps"

lemmas act_keeps_def = honours_def [of gw_keeps]

lemma gw_keeps_refl [simp, intro]: "gw_keeps g g"
  by (simp add: gw_keeps_def)

lemma gw_keeps_trans: "gw_keeps g g' \<Longrightarrow> gw_keeps g' g'' \<Longrightarrow> gw_keeps g g''"
  unfolding gw_keeps_def by (rule rpc_keeps_trans)

interpretation completion: guarantee gw_keeps
  by unfold_locales (auto intro: gw_keeps_trans)

lemmas act_keepsD = honoursD [of gw_keeps]
lemmas act_keeps_bind = completion.bind
lemmas act_keeps_then = completion.seq
lemmas act_keeps_simple = completion.nothing

lemma act_keeps_supd: "(\<And>g. gw_keeps g (f g)) \<Longrightarrow> act_keeps (supd f)"
  by (simp add: act_keeps_def)

lemma act_keeps_outcome: "(\<And>w. rpc_keeps w (fst (f w))) \<Longrightarrow> act_keeps (run_outcome f)"
  unfolding act_keeps_def gw_keeps_def
  by (metis prod.collapse run_outcome_frame)

lemma gw_enqueue_keeps [simp]: "act_keeps (gw_enqueue E r x b)"
  unfolding gw_enqueue_def by (rule act_keeps_outcome) (rule enqueue_keeps)

lemma gw_refresh_keeps [simp]: "act_keeps (gw_refresh E force r)"
  unfolding gw_refresh_def act_keeps_def
  using act_keeps_outcome [OF refresh_auth_keeps] by (simp add: act_keeps_def)

lemma srv_keeps: "rpc_local f \<Longrightarrow> gw_keeps g (on_srv (upd_session r f) g)"
  by (simp add: gw_keeps_def rpc_keeps_upd)

lemma ack_local: "rpc_local (ack_outbound ids)"
proof -
  have "rpc_completed_ids (ack_outbound ids s) = rpc_completed_ids s
      \<and> rpc_completed_order (ack_outbound ids s) = rpc_completed_order s" for s
    by (induction ids arbitrary: s) simp_all
  then show ?thesis by (simp add: rpc_local_def rpc_inv_def)
qed

lemma wait_keeps: "gw_keeps g (snd (wait_for_invoke_after E r mid ms g))"
proof (induction ms arbitrary: g)
  case (Cons m ms)
  obtain wt s where 1: "wait_for_rpc m (sess r g) = (wt, s)" by (metis surj_pair)
  then have "rpc_inv (sess r g) \<Longrightarrow> rpc_inv s"
    by (auto simp: wait_for_rpc_def rpc_inv_def split: if_splits option.splits)
  then have "gw_keeps g (on_srv (upd_session r (\<lambda>_. s)) g)"
    by (auto simp: gw_keeps_def sess_def intro: rpc_keeps_upd_at)
  then show ?case using 1 Cons.IH gw_keeps_trans by (auto simp: Let_def)
qed simp

text \<open>What the worker is asked: it leaves the records of completed requests well formed.\<close>

definition worker_keeps :: "'g gw_env \<Rightarrow> bool" where
  "worker_keeps E \<longleftrightarrow> (\<forall>x s mid g. gw_keeps g (snd (worker E x s mid g)))"

lemma respond_keeps: "act_keeps (respond_auth_key_unregistered E mid r key)"
proof -
  have 1: "act_keeps (supd (on_conn f))" for f
    by (rule act_keeps_supd) (simp add: gw_keeps_def)
  have 2: "act_keeps (supd (drop_auth_key key r))"
    by (rule act_keeps_supd) (simp add: gw_keeps_def drop_auth_key_def disconnect_keeps)
  have "act_keeps (sthen (supd (on_conn (\<lambda>c. c\<lparr>rejected_auth_keys := insert key (rejected_auth_keys c)\<rparr>)))
      (sthen (gw_enqueue E r (auth_key_unregistered_result mid) True) (supd (drop_auth_key key r))))"
    by (intro act_keeps_then 1 2 gw_enqueue_keeps)
  then show ?thesis by (auto simp: respond_auth_key_unregistered_def act_keeps_def)
qed

lemma run_worker_keeps:
  assumes "worker_keeps E"
  shows "act_keeps (run_worker E x r mid)"
  unfolding act_keeps_def
proof
  fix g
  obtain out g1 where 1: "worker E x (sess r g) mid g = (out, g1)" by (metis surj_pair)
  then have k: "gw_keeps g g1" using assms unfolding worker_keeps_def by (metis snd_conv)
  obtain r2 g2 where 2: "gw_enqueue E r (AckNotice [mid]) False g1 = (r2, g2)" by (metis surj_pair)
  have "gw_keeps g g2" using gw_keeps_trans [OF k act_keepsD [OF gw_enqueue_keeps 2]] .
  then show "gw_keeps g (snd (run_worker E x r mid g))"
    using 1 2 k by (cases r2) (simp_all add: run_worker_def)
qed

lemma worker_reply_keeps: "act_keeps (worker_reply E mid r out)"
proof -
  have "act_keeps (\<lambda>g. (Inr (), on_srv (upd_session r (fetch_layer (gw_db E (store g)) (top_layer E))) g))"
    unfolding act_keeps_def by (simp add: srv_keeps)
  then show ?thesis
    by (auto simp: worker_reply_def intro!: act_keeps_then split: task_outcome.split option.split)
qed

lemma to_worker_keeps:
  assumes "worker_keeps E"
  shows "act_keeps (to_worker E x mid r)"
proof -
  have 1: "act_keeps (sthen (respond_auth_key_unregistered E mid r key) (sraise e))" for key e
    by (intro act_keeps_then respond_keeps act_keeps_simple)
  have 2: "act_keeps (sbind (run_worker E x r mid) (worker_reply E mid r))"
    by (intro act_keeps_bind run_worker_keeps worker_reply_keeps assms)
  show ?thesis unfolding act_keeps_def to_worker_def
    using 1 2 by (auto simp: act_keeps_def split: option.split gate.split)
qed

lemma set_layer_keeps: "gw_keeps g (set_layer E l r g)"
  by (auto simp: set_layer_def Let_def gw_keeps_def rpc_keeps_upd split: option.split)

lemma init_connection_keeps: "gw_keeps g (init_connection r g)"
  by (simp add: init_connection_def srv_keeps)

lemma destroy_session_keeps: "gw_keeps g (destroy_session r sid g)"
  by (auto simp: destroy_session_def gw_keeps_def manager_finalize_keeps split: option.split)

lemma ping_delay_keeps: "gw_keeps g (ping_delay_disconnect E delay g)"
  by (simp add: ping_delay_disconnect_def gw_keeps_def)

lemma invoke_after_keeps:
  assumes "act_keeps m"
  shows "act_keeps (\<lambda>g. case wait_for_invoke_after E r mid ms g of
     (Some err, g1) \<Rightarrow> (Inr (Some err), g1) | (None, g1) \<Rightarrow> m g1)"
  unfolding act_keeps_def
proof
  fix g
  obtain e g1 where 1: "wait_for_invoke_after E r mid ms g = (e, g1)" by (metis surj_pair)
  have "gw_keeps g g1" using wait_keeps [of g E r mid ms] 1 by simp
  then show "gw_keeps g (snd (case wait_for_invoke_after E r mid ms g of
     (Some err, g1) \<Rightarrow> (Inr (Some err), g1) | (None, g1) \<Rightarrow> m g1))"
    using 1 assms gw_keeps_trans by (cases e) (auto simp: act_keeps_def)
qed

lemma process_request_keeps:
  assumes "worker_keeps E"
  shows "act_keeps (process_request n E x mid r)"
proof (induction n arbitrary: x)
  case (Suc n)
  have salts: "act_keeps (\<lambda>g. case get_future_salts E mid num (sess r g) of
      Inl e \<Rightarrow> (Inl e, g) | Inr x \<Rightarrow> (Inr (Some x), g))" for num
    by (auto simp: act_keeps_def split: sum.split)
  show ?case
    by (cases "request_of E x")
      (auto intro!: act_keeps_then act_keeps_supd Suc.IH invoke_after_keeps salts to_worker_keeps assms
        srv_keeps set_layer_keeps init_connection_keeps destroy_session_keeps ping_delay_keeps ack_local
        simp del: sbind_eval wait_for_invoke_after.simps)
qed simp

lemma completed_after:
  assumes "worker_keeps E" "rpc_inv (sess r g)" "propagate E mid x r g = (res, g')"
  shows "rpc_inv (sess r g') \<and> mid \<in> rpc_completed_ids (sess r g')"
proof -
  let ?m = "sbind (process_request (recursion_limit E) E x mid r) (\<lambda>res.
      case res of None \<Rightarrow> sreturn () | Some y \<Rightarrow> gw_enqueue E r y True)"
  obtain res1 g1 where 1: "?m g = (res1, g1)" by (metis surj_pair)
  have "act_keeps ?m"
    by (rule act_keeps_bind [OF process_request_keeps [OF assms(1)]]) (auto split: option.split)
  then have "gw_keeps g g1" using 1 act_keepsD by blast
  then have "rpc_inv (sess r g1)" using assms(2) by (simp add: gw_keeps_def rpc_keeps_def sess_def)
  then obtain s where "mark_rpc_completed mid (sess r g1) = Inr s" "rpc_inv s" "mid \<in> rpc_completed_ids s"
    using mark_rpc_completed_inv by blast
  then show ?thesis
    using assms(3) 1 by (auto simp: propagate_def sfinally_def mark_completed_def sess_def)
qed

text \<open>A completed request is not waited for.\<close>

lemma completed_not_waited:
  assumes "mid \<in> rpc_completed_ids (sess r g)"
  shows "fst (wait_for_invoke_after E r m [mid] g) = None"
  using assms by (simp add: wait_for_rpc_def wait_for_rpc_result_def)

end
