(* ===== verification/GatewayProperties.thy ===== *)
theory GatewayProperties
  imports SessionProperties SendLoop Completion
begin

text \<open>
  What a connection promises to its client (\<^verbatim>\<open>piltover/gateway/client.py\<close>,
  \<^verbatim>\<open>_system_handlers.py\<close>): completion of requests, the gate for unregistered keys, the caches,
  salts, and when the send loop comes to rest.
\<close>

section \<open>A small connection\<close>

definition demo_gw_env :: "int gw_env" where
  "demo_gw_env = \<lparr>push = push demo_env, serializer = serializer demo_env, hmac_sha1 = hmac_sha1 demo_env,
     server_salt_key = server_salt_key demo_env, database = demo_db, clock = 100, write_budget = (\<lambda>_. 10),
     updates_too_long = 1, request_of = (\<lambda>_. OtherRequest),
     reply_outbound = (\<lambda>_. \<lparr>out_obj = BoolObj True, out_ctx = None, out_layer = None\<rparr>),
     worker = (\<lambda>_ _ _ g. (NotAResponse, g)), slow_worker = (\<lambda>_. False), completed_in_time = (\<lambda>_. False),
     top_layer = 200, session_victim = (\<lambda>m. SOME k. k \<in> dom m), key_victim = (\<lambda>_. 0), unknown_victim = (\<lambda>_. 0),
     decrypt = (\<lambda>_ _. None), recursion_limit = 5, bind_tlid = []\<rparr>"

definition demo_gateway :: "session \<Rightarrow> gateway" where
  "demo_gateway s = \<lparr>conn = \<lparr>client_ref = 0, keygen_session = 0, active_sessions = Map.empty, active_keys = Map.empty,
       rejected_auth_keys = {}, disconnect_timeout = None\<rparr>,
     srv = empty_server\<lparr>heap := (\<lambda>_. s)\<rparr>, store = \<lparr>perm_keys = Map.empty, temp_keys = Map.empty\<rparr>,
     unknown_auth_key_ids = Map.empty\<rparr>"

lemma demo_sess [simp]: "sess r (demo_gateway s) = s"
  by (simp add: sess_def demo_gateway_def)

section \<open>Requests\<close>

text \<open>
  C13. However a request ends, with a reply, without one or with an exception, it is recorded as
  completed, and a request that asks to run after it does not wait.
\<close>

theorem request_completes:
  assumes "worker_keeps E" "rpc_inv (sess r g)" "propagate E mid x r g = (res, g')"
  shows "rpc_inv (sess r g') \<and> mid \<in> rpc_completed_ids (sess r g')
    \<and> fst (wait_for_invoke_after E r m [mid] g') = None"
  using completed_after [OF assms] completed_not_waited by blast

lemma request_completes_witness:
  "\<exists>res g'. propagate demo_gw_env 8 (BoolObj True) 0 (demo_gateway (new_session 3 None None)) = (res, g')
    \<and> 8 \<in> rpc_completed_ids (sess 0 g') \<and> fst (wait_for_invoke_after demo_gw_env 0 12 [8] g') = None"
proof -
  obtain res g' where run: "propagate demo_gw_env 8 (BoolObj True) 0 (demo_gateway (new_session 3 None None)) = (res, g')"
    by (metis surj_pair)
  have "worker_keeps demo_gw_env" by (simp add: worker_keeps_def demo_gw_env_def)
  moreover have "rpc_inv (sess 0 (demo_gateway (new_session 3 None None)))"
    by (simp add: rpc_inv_def new_session_def)
  ultimately show ?thesis using request_completes [OF _ _ run] run by blast
qed

text \<open>
  C28. A request under a key that is not registered never reaches a handler: the client is told
  once, the key is refused from then on, and the connection ends.
\<close>

theorem unregistered_key_refused:
  assumes "\<not> is_registered (now_int E) key (store g)" "key \<notin> rejected_auth_keys (conn g)"
    and "TLObject_read (reg (push E)) (recursion_limit E) (pkt_data p) = Inr (x, rest)"
    and "first_message E (pkt_message_id p) r g = (Inr (), g1)"
    and "recv_message E key p r g = (res, g')"
  shows "(\<exists>e. res = Inl e) \<and> key \<in> rejected_auth_keys (conn g') \<and> recv_encrypted E key payload g' = (Inr (), g')
    \<and> g' = snd (respond_auth_key_unregistered E (pkt_message_id p) r key g1)"
  using unregistered_blocked [OF assms] rejected_ignored by blast

lemma unregistered_key_refused_witness:
  "\<exists>res g'. recv_message demo_gw_env 11 \<lparr>pkt_salt = [], pkt_session_id = 3, pkt_message_id = 4, pkt_seq_no = 1,
        pkt_data = BOOL_TRUE\<rparr> 0 (demo_gateway ((new_session 3 None None)\<lparr>min_msg_id := 4\<rparr>)) = (res, g')
    \<and> (\<exists>e. res = Inl e) \<and> recv_encrypted demo_gw_env 11 [1, 2] g' = (Inr (), g')"
proof -
  let ?p = "\<lparr>pkt_salt = [], pkt_session_id = 3, pkt_message_id = 4, pkt_seq_no = 1, pkt_data = BOOL_TRUE\<rparr>"
  let ?g = "demo_gateway ((new_session 3 None None)\<lparr>min_msg_id := 4\<rparr>)"
  obtain res g' where run: "recv_message demo_gw_env 11 ?p 0 ?g = (res, g')" by (metis surj_pair)
  have 1: "\<not> is_registered (now_int demo_gw_env) 11 (store ?g)" 
    by (simp add: is_registered_def AuthKey_get_auth_data_def demo_gateway_def)
  have 2: "11 \<notin> rejected_auth_keys (conn ?g)" by (simp add: demo_gateway_def)
  have 3: "TLObject_read (reg (push demo_gw_env)) (recursion_limit demo_gw_env) (pkt_data ?p) = Inr (BoolObj True, [])"
    using bool_read [of pong_registry 4 True "[]"] by (simp add: demo_gw_env_def demo_env_def eval_nat_numeral)
  have 4: "first_message demo_gw_env (pkt_message_id ?p) 0 ?g = (Inr (), ?g)" by (simp add: first_message_def)
  have u: "(\<exists>e. res = Inl e) \<and> 11 \<in> rejected_auth_keys (conn g') \<and> recv_encrypted demo_gw_env 11 [1, 2] g' = (Inr (), g')"
    using unregistered_key_refused [OF 1 2 3 4 run] by blast
  show ?thesis by (intro exI [of _ res] exI [of _ g'] conjI) (use run u in blast)+
qed

section \<open>Caches and salts\<close>

text \<open>C39. A connection serves at most four sessions at a time, also while new ones come in.\<close>

theorem session_cache_bounded:
  assumes "\<And>m. 4 \<le> card (dom m) \<Longrightarrow> session_victim E m \<in> dom m"
    and "finite (dom (active_sessions (conn g))) \<and> card (dom (active_sessions (conn g))) \<le> 4"
    and "get_session E sid d g = ((r, created), g')"
  shows "finite (dom (active_sessions (conn g'))) \<and> card (dom (active_sessions (conn g'))) \<le> 4"
  using get_session_cache [of g E sid d r created g'] assms by (simp add: cache_ok_def)

lemma session_cache_bounded_witness:
  "\<exists>r created g'. get_session demo_gw_env 3 demo_auth (demo_gateway (new_session 3 None None)) = ((r, created), g')
    \<and> card (dom (active_sessions (conn g'))) \<le> 4"
proof -
  obtain r created g' where run:
    "get_session demo_gw_env 3 demo_auth (demo_gateway (new_session 3 None None)) = ((r, created), g')"
    by (metis surj_pair)
  have v: "session_victim demo_gw_env m \<in> dom m" if "4 \<le> card (dom m)" for m
  proof -
    have "session_victim demo_gw_env m = (SOME k. k \<in> dom m)" by (simp add: demo_gw_env_def)
    moreover have "dom m \<noteq> {}" using that by (metis card.empty not_numeral_le_zero)
    ultimately show ?thesis using some_in_eq [of "dom m"] by metis
  qed
  show ?thesis using session_cache_bounded [OF v _ run] run by (auto simp: demo_gateway_def)
qed

text \<open>
  A salt handed out in advance is accepted while the server's clock is in its half hour, and for
  half an hour more.
\<close>

theorem future_salts_accepted:
  assumes "future_salt_list hmac key k base n = Inr xs" "i < n"
    and "(base + int i) * 30 * 60 \<le> \<lfloor>t\<rfloor>" "\<lfloor>t\<rfloor> < (base + int i + 2) * 30 * 60"
    and "auth_data s = Some d" "auth_key_id d = Some k" "update_salts_maybe hmac key t True s = Inr s'"
  shows "\<exists>b v. xs ! i = ((base + int i) * 30 * 60, (base + int i + 1) * 30 * 60, v) \<and> Int_read_bytes TLong b True = Inr v
    \<and> (\<forall>p moment inner. pkt_salt p = b \<and> Int_read_bytes TInt (take 4 (pkt_data p)) False = Inr inner
         \<and> bad_msg_code moment inner p = 0 \<longrightarrow> is_message_bad moment p True s' = Inr None)"
proof -
  obtain b v where b: "make_salt hmac key k (base + int i) = Inr b" "Int_read_bytes TLong b True = Inr v"
    "xs ! i = ((base + int i) * 30 * 60, (base + int i + 1) * 30 * 60, v)"
    using future_salt_list_nth [OF assms(1,2)] by blast
  have "salt_window t = base + int i \<or> salt_window t = base + int i + 1"
  proof (cases "\<lfloor>t\<rfloor> < (base + int i + 1) * 30 * 60")
    case True
    then show ?thesis using window_of_interval [OF assms(3)] by blast
  next
    case False
    then show ?thesis using window_of_interval [of "base + int i + 1" t] assms(4) by (simp add: algebra_simps)
  qed
  then show ?thesis using b made_salt_accepted [OF b(1) _ assms(5,6,7)] by blast
qed

lemma future_salts_accepted_witness:
  "\<exists>xs s' b v. future_salt_list (\<lambda>key d. d) [] 11 0 2 = Inr xs
    \<and> update_salts_maybe (\<lambda>key d. d) [] 2000 True (new_session 3 None (Some demo_auth)) = Inr s'
    \<and> xs ! 1 = (1800, 3600, v) \<and> Int_read_bytes TLong b True = Inr v
    \<and> (\<forall>p moment inner. pkt_salt p = b \<and> Int_read_bytes TInt (take 4 (pkt_data p)) False = Inr inner
         \<and> bad_msg_code moment inner p = 0 \<longrightarrow> is_message_bad moment p True s' = Inr None)"
proof -
  have w: "salt_window 2000 = 1" using window_of_interval [of 1 2000] by simp
  have salts: "\<exists>b. make_salt (\<lambda>key d. d) [] 11 j = Inr b \<and> length b = 8" if "j \<in> {0, 1}" for j
    using that by (auto simp: make_salt_def Int_write_def py_to_bytes_le_def int_fits_def rbind_def)
  have nums: "\<exists>v. Int_read_bytes TLong b True = Inr v" if "length b = 8" for b
    using that by (simp add: Int_read_bytes_def struct_unpack_def)
  obtain b0 v0 b1 v1 where b: "make_salt (\<lambda>key d. d) [] 11 0 = Inr b0" "Int_read_bytes TLong b0 True = Inr v0"
    "make_salt (\<lambda>key d. d) [] 11 1 = Inr b1" "Int_read_bytes TLong b1 True = Inr v1"
    using salts nums by (metis insertCI)
  obtain xs where xs: "future_salt_list (\<lambda>key d. d) [] 11 0 2 = Inr xs"
    using b by (simp add: numeral_2_eq_2)
  obtain s' where s': "update_salts_maybe (\<lambda>key d. d) [] 2000 True (new_session 3 None (Some demo_auth)) = Inr s'"
    using b by (simp add: update_salts_maybe_def new_session_def demo_auth_def w)
  show ?thesis
    using future_salts_accepted [OF xs, of 1 2000 "new_session 3 None (Some demo_auth)" demo_auth s'] xs s'
    by (auto simp: new_session_def demo_auth_def)
qed

section \<open>The send loop\<close>

text \<open>
  C38. When every session of the connection is connected, has a key if it has encrypted messages, and
  the transport takes what is queued, the send loop comes to rest in one round, with empty queues.
\<close>

theorem send_loop_rests:
  assumes "int_fits 4 True (salt_window (clock E))" "int_fits 4 True (salt_window (clock E) - 1)"
    and "distinct (outbound_sessions g)" "\<forall>r \<in> set (outbound_sessions g). flushable E r (sess r g)"
  shows "\<exists>g'. send_until_idle 2 E g = Some (Inr (), g') \<and> \<not> has_pending_outbound g'"
proof -
  have "salts_fine (env_salts (env.truncate E))"
    using update_salts_fine assms(1,2) by (simp add: env_salts_def env.truncate_def)
  then show ?thesis using send_reaches_idle assms(3,4) by blast
qed

lemma send_loop_rests_witness:
  "has_pending_outbound (demo_gateway demo_queued)
   \<and> (\<exists>g'. send_until_idle 2 demo_gw_env (demo_gateway demo_queued) = Some (Inr (), g') \<and> \<not> has_pending_outbound g')"
proof -
  have o: "outbound_sessions (demo_gateway demo_queued) = [0]"
    by (simp add: outbound_sessions_def demo_gateway_def)
  have w: "salt_window (clock demo_gw_env) = 0"
    using window_of_interval [of 0 100] by (simp add: demo_gw_env_def)
  have f: "flushable demo_gw_env 0 demo_queued"
    by (simp add: flushable_def writable_def can_encrypt_def queued_writes_def demo_queued_def demo_auth_def
        demo_gw_env_def new_session_def int_fits_def)
  have "has_pending_outbound (demo_gateway demo_queued)"
    unfolding has_pending_outbound_def o by (simp add: demo_queued_def)
  moreover have "\<exists>g'. send_until_idle 2 demo_gw_env (demo_gateway demo_queued) = Some (Inr (), g') \<and> \<not> has_pending_outbound g'"
    by (rule send_loop_rests) (use o w f in \<open>simp_all add: int_fits_def\<close>)
  ultimately show ?thesis ..
qed

text \<open>
  While a session the connection serves is disconnected with something in a queue, the send loop
  never comes to rest: no number of rounds ends it, and it never waits.
\<close>

theorem send_loop_spins:
  assumes "client (sess r g) = None" "message_queue (sess r g) \<noteq> []" "r \<in> set (outbound_sessions g)"
  shows "send_until_idle n E g \<noteq> Some (Inr (), g')"
  using send_never_idle [of r g n E g'] assms by (simp add: stuck_def)

lemma send_loop_spins_witness:
  "\<forall>n g'. send_until_idle n demo_gw_env (demo_gateway (demo_queued\<lparr>client := None\<rparr>)) \<noteq> Some (Inr (), g')"
proof (intro allI)
  fix n g'
  have "0 \<in> set (outbound_sessions (demo_gateway (demo_queued\<lparr>client := None\<rparr>)))"
    by (simp add: outbound_sessions_def demo_gateway_def)
  then show "send_until_idle n demo_gw_env (demo_gateway (demo_queued\<lparr>client := None\<rparr>)) \<noteq> Some (Inr (), g')"
    by (intro send_loop_spins [of 0]) (simp_all add: demo_queued_def)
qed

text \<open>
  A session that has moved to a new connection is disconnected when the old connection, which
  still lists it, ends.
\<close>

theorem old_connection_disconnects:
  assumes "finite (ran (active_sessions (conn g)))" "active_sessions (conn g) k = Some r"
  shows "client (heap (srv (close_connection (on_srv (connect c r) g))) r) = None"
proof -
  have "r \<in> ran (active_sessions (conn g))" using assms(2) by (rule ranI)
  then show ?thesis using close_disconnects [of "on_srv (connect c r) g" r] assms(1) by (simp add: on_srv_def)
qed

lemma old_connection_disconnects_witness:
  "client (heap (srv (close_connection (on_srv (connect 9 0)
     (on_conn (\<lambda>c. c\<lparr>active_sessions := [(11, 3) \<mapsto> 0]\<rparr>) (demo_gateway demo_queued))))) 0) = None"
  by (rule old_connection_disconnects [of _ "(11, 3)"]) (simp_all add: on_conn_def)

end
