(* ===== verification/KeyGen.thy ===== *)
theory KeyGen
  imports AuthKeys
begin

text \<open>
  The exchange that creates an authorization key (\<^verbatim>\<open>piltover/gateway/_keygen_handlers.py\<close>,
  \<^verbatim>\<open>piltover/utils/rsa_utils.py\<close>, \<^verbatim>\<open>piltover/utils/gen_primes.py\<close>). Hash functions, AES-IGE, the
  generated classes and the random bytes are parameters; modular powers are computed.
\<close>

section \<open>Numbers\<close>

definition powmod :: "int \<Rightarrow> int \<Rightarrow> int \<Rightarrow> int" where
  "powmod b e m = (b ^ nat e) mod m"

definition CURRENT_DH_PRIME :: int where
  "CURRENT_DH_PRIME = 0xC71CAEB9C6B1C9048E6C522F70F13F73980D40238E3E21C14934D037563D930F48198A0AA7C14058229493D22530F4DBFA336F6E0AC925139543AED44CCE7C3720FD51F69458705AC68CD4FE6B6B13ABDC9746512969328454F18FAF8C595F642477FE96BB2A941D5BCD1D4AC8CC49880708FA9B378E3C4F3A9060BEE67CF9A4A4A695811051907E162753B56B0F6B410DBA74D8A84B2A14B3144E0EF1284754FD17ED950D5965B4B9DD46582DB1178D169C6BC465B0D6FF9CA3928FEF5B9AE4E418FC15E83EBEA0F87FA9FF5EED70050DED2849F47BF959D956850CE929851F0D8115F635B105EE2E4E15D04B2454BF6F4FADF034B10403119CD8E3B92FCC5B"

definition gen_safe_prime :: "int \<times> int" where
  "gen_safe_prime = (let g = 2 in (CURRENT_DH_PRIME, CURRENT_DH_PRIME mod (4 * g)))"

section \<open>RSA\<close>

definition xor_bytes :: "byte list \<Rightarrow> byte list \<Rightarrow> byte list" where
  "xor_bytes a b = map (\<lambda>(i, j). xor i j) (zip a b)"

definition rsa_decrypt :: "byte list \<Rightarrow> int \<Rightarrow> int \<Rightarrow> byte list res" where
  "rsa_decrypt data n d = py_to_bytes_be 256 (powmod (py_from_bytes_be data) d n)"

text \<open>\<open>bytes.zfill\<close>: a sign stays in front of the padding.\<close>

definition zfill :: "nat \<Rightarrow> byte list \<Rightarrow> byte list" where
  "zfill n x =
     (let pad = replicate (n - length x) 0x30 in
      case x of [] \<Rightarrow> pad | c # cs \<Rightarrow> if c = 0x2b \<or> c = 0x2d then c # pad @ cs else pad @ x)"

record crypto =
  sha1 :: "byte list \<Rightarrow> byte list"
  sha256 :: "byte list \<Rightarrow> byte list"
  ige256_encrypt :: "byte list \<Rightarrow> byte list \<Rightarrow> byte list \<Rightarrow> byte list"
  ige256_decrypt :: "byte list \<Rightarrow> byte list \<Rightarrow> byte list \<Rightarrow> byte list"

definition rsa_pad_inverse :: "crypto \<Rightarrow> byte list \<Rightarrow> byte list res" where
  "rsa_pad_inverse C key_aes_encrypted =
     (let temp_key_xor = take 32 key_aes_encrypted;
          aes_encrypted = drop 32 key_aes_encrypted;
          temp_key = xor_bytes temp_key_xor (sha256 C aes_encrypted);
          data_with_hash = ige256_decrypt C aes_encrypted (zfill 32 temp_key) (replicate 32 0)
      in if length data_with_hash \<noteq> 224 then Inl RuntimeError
         else let data_pad_reversed = take 192 data_with_hash;
                  temp_data_hash = drop 192 data_with_hash;
                  data_with_padding = rev data_pad_reversed
              in if temp_data_hash \<noteq> sha256 C (temp_key @ data_with_padding) then Inl RuntimeError
                 else Inr data_with_padding)"

text \<open>\<open>bytes.lstrip(b"\0")\<close>.\<close>

definition lstrip_zeros :: "byte list \<Rightarrow> byte list" where
  "lstrip_zeros = dropWhile (\<lambda>b. b = 0)"

section \<open>State and messages\<close>

record gen_auth =
  ga_p :: int
  ga_q :: int
  ga_server_nonce :: int
  ga_is_temp :: bool
  ga_expires_in :: int
  ga_new_nonce :: "byte list option"
  ga_server_nonce_bytes :: "byte list option"
  ga_tmp_aes_key :: "byte list option"
  ga_tmp_aes_iv :: "byte list option"
  ga_a :: int
  ga_auth_key :: "byte list option"
  ga_auth_key_id :: "int option"

record pq_inner =
  pq_temp :: bool
  pq_nonce :: int
  pq_server_nonce :: int
  pq_new_nonce :: int
  pq_expires_in :: int

record client_dh =
  dh_nonce :: int
  dh_server_nonce :: int
  dh_g_b :: "byte list"

datatype kg_reply =
    ResPQ int int "byte list" "int list"
  | ServerDHParamsOk int int "byte list"
  | DhGenOk int int int
  | DhGenFail int int int

text \<open>The generated classes: any object can be read and written, some are a \<open>PQInnerData\<close>.\<close>

record 'o kg_lib = crypto +
  read_object :: "byte list \<Rightarrow> 'o res"
  write_object :: "'o \<Rightarrow> byte list res"
  as_pq_inner :: "'o \<Rightarrow> pq_inner option"
  read_client_dh :: "byte list \<Rightarrow> client_dh res"
  write_client_dh :: "client_dh \<Rightarrow> byte list res"
  write_server_dh :: "int \<Rightarrow> int \<Rightarrow> int \<Rightarrow> byte list \<Rightarrow> byte list \<Rightarrow> int \<Rightarrow> byte list res"
  random_bytes :: "nat \<Rightarrow> byte list"
  rsa_n :: int
  rsa_d :: int
  fingerprint :: int
  server_time :: real
  driver_raises :: bool

type_synonym 'a kg = "('a, gen_auth) act"

abbreviation disconnect_404 where "disconnect_404 \<equiv> sraise (Disconnection (Some (-404)))"

definition require_404 :: "bool \<Rightarrow> unit kg" where
  "require_404 b = (if b then sreturn () else disconnect_404)"

section \<open>Step 1: \<open>req_pq\<close>\<close>

text \<open>\<open>p\<close> and \<open>q\<close> come from \<open>gmpy2.next_prime\<close>.\<close>

definition req_pq_sync :: "int \<Rightarrow> int \<Rightarrow> int \<Rightarrow> gen_auth res" where
  "req_pq_sync p q server_nonce =
     (if p = -1 \<or> q = -1 \<or> q = p then Inl (Disconnection (Some (-404)))
      else Inr \<lparr>ga_p = min p q, ga_q = max p q, ga_server_nonce = server_nonce, ga_is_temp = False,
             ga_expires_in = 0, ga_new_nonce = None, ga_server_nonce_bytes = None,
             ga_tmp_aes_key = None, ga_tmp_aes_iv = None, ga_a = 0, ga_auth_key = None,
             ga_auth_key_id = None\<rparr>)"

definition req_pq :: "'o kg_lib \<Rightarrow> int \<Rightarrow> int \<Rightarrow> int \<Rightarrow> int \<Rightarrow> (gen_auth \<times> kg_reply) res" where
  "req_pq L p q server_nonce nonce =
     rbind (req_pq_sync p q server_nonce) (\<lambda>ga.
     rbind (py_to_bytes_be 8 (ga_p ga * ga_q ga)) (\<lambda>pq.
     Inr (ga, ResPQ nonce (ga_server_nonce ga) pq [fingerprint L])))"

section \<open>Step 2: \<open>req_DH_params\<close>\<close>

record req_dh_params =
  rd_p :: "byte list"
  rd_q :: "byte list"
  rd_server_nonce :: int
  rd_encrypted_data :: "byte list"

text \<open>The decrypted data, and whether it carries a SHA-1 digest in front (the old padding).\<close>

definition unpad :: "'o kg_lib \<Rightarrow> byte list \<Rightarrow> bool \<times> byte list" where
  "unpad L key_aes_encrypted =
     (case rsa_pad_inverse (crypto.truncate L) key_aes_encrypted of
        Inl _ \<Rightarrow> (True, lstrip_zeros key_aes_encrypted)
      | Inr data \<Rightarrow> (False, lstrip_zeros data))"

definition read_inner :: "'o kg_lib \<Rightarrow> bool \<Rightarrow> byte list \<Rightarrow> 'o res" where
  "read_inner L old data =
     (if old
      then rbind (read_object L (drop 20 data)) (\<lambda>x.
           rbind (write_object L x) (\<lambda>bs.
           if sha1 L bs \<noteq> take 20 data then Inl (Disconnection (Some (-404))) else Inr x))
      else read_object L data)"

definition good_g_a :: "int \<Rightarrow> int \<Rightarrow> int \<Rightarrow> bool" where
  "good_g_a p g g_a \<longleftrightarrow> \<not> (g \<le> 1 \<or> g \<ge> p - 1 \<or> g_a \<le> 1 \<or> g_a \<ge> p - 1
     \<or> g_a \<le> 2 ^ (2048 - 64) \<or> g_a \<ge> p - 2 ^ (2048 - 64))"

definition tmp_aes :: "(byte list \<Rightarrow> byte list) \<Rightarrow> byte list \<Rightarrow> byte list \<Rightarrow> byte list \<times> byte list" where
  "tmp_aes h new_nonce server_nonce =
     (h (new_nonce @ server_nonce) @ take 12 (h (server_nonce @ new_nonce)),
      drop 12 (h (server_nonce @ new_nonce)) @ h (new_nonce @ new_nonce) @ take 4 new_nonce)"

definition req_dh_answer :: "'o kg_lib \<Rightarrow> pq_inner \<Rightarrow> kg_reply kg" where
  "req_dh_answer L x =
     sbind (slift (Int_write TInt256 True (pq_new_nonce x))) (\<lambda>new_nonce.
     sthen (supd (\<lambda>ga. ga\<lparr>ga_new_nonce := Some new_nonce\<rparr>))
     (let (p, g) = gen_safe_prime; a = py_from_bytes_be (random_bytes L 256); g_a = powmod g a p in
      sthen (supd (\<lambda>ga. ga\<lparr>ga_a := a\<rparr>))
     (sthen (require_404 (good_g_a p g g_a))
     (sbind (slift (py_to_bytes_be 256 p)) (\<lambda>p_bytes.
      sbind (slift (py_to_bytes_be 256 g_a)) (\<lambda>g_a_bytes.
      sbind (sget ga_server_nonce) (\<lambda>sn.
      sbind (slift (write_server_dh L (pq_nonce x) sn g p_bytes g_a_bytes \<lfloor>server_time L\<rfloor>)) (\<lambda>answer.
      sbind (slift (Int_write TInt128 True sn)) (\<lambda>sn_bytes.
      let with_hash = sha1 L answer @ answer;
          padded = with_hash @ random_bytes L (nat ((- int (length with_hash)) mod 16));
          (key, iv) = tmp_aes (sha1 L) new_nonce sn_bytes
      in sthen (supd (\<lambda>ga. ga\<lparr>ga_server_nonce_bytes := Some sn_bytes, ga_tmp_aes_key := Some key,
                  ga_tmp_aes_iv := Some iv\<rparr>))
           (sreturn (ServerDHParamsOk (pq_nonce x) sn (ige256_encrypt L padded key iv))))))))))))"

definition req_dh_params_sync :: "'o kg_lib \<Rightarrow> req_dh_params \<Rightarrow> kg_reply kg" where
  "req_dh_params_sync L req =
     sthen (require_404 (length (rd_p req) = 4 \<and> length (rd_q req) = 4))
     (sbind (sget (\<lambda>ga. py_from_bytes_be (rd_p req) = ga_p ga \<and> py_from_bytes_be (rd_q req) = ga_q ga)) (\<lambda>pq.
      sthen (require_404 pq)
     (sbind (sget (\<lambda>ga. ga_server_nonce ga = rd_server_nonce req)) (\<lambda>sn.
      sthen (require_404 sn)
     (sthen (require_404 (length (rd_encrypted_data req) = 256))
     (sbind (slift (rsa_decrypt (rd_encrypted_data req) (rsa_n L) (rsa_d L))) (\<lambda>padded.
      let (old, data) = unpad L padded in
      sbind (slift (read_inner L old data)) (\<lambda>x.
      case as_pq_inner L x of
        None \<Rightarrow> disconnect_404
      | Some inner \<Rightarrow>
          sbind (sget (\<lambda>ga. ga_server_nonce ga = pq_server_nonce inner)) (\<lambda>same.
          sthen (require_404 same)
         (sthen (supd (\<lambda>ga. ga\<lparr>ga_is_temp := pq_temp inner,
                   ga_expires_in := (if pq_temp inner then max (pq_expires_in inner) 86400 else 0)\<rparr>))
            (req_dh_answer L inner)))))))))))"

section \<open>Step 3: \<open>set_client_DH_params\<close>\<close>

record set_client_dh =
  sc_server_nonce :: int
  sc_encrypted_data :: "byte list"

definition set_client_dh_params_sync :: "'o kg_lib \<Rightarrow> set_client_dh \<Rightarrow> (client_dh \<times> byte list) kg" where
  "set_client_dh_params_sync L req =
     sbind (sget (\<lambda>ga. ga_tmp_aes_key ga \<noteq> None \<and> ga_server_nonce ga = sc_server_nonce req)) (\<lambda>ready.
     sthen (require_404 ready)
    (sbind (sget (\<lambda>ga. ige256_decrypt L (sc_encrypted_data req) (the (ga_tmp_aes_key ga)) (the (ga_tmp_aes_iv ga)))) (\<lambda>d.
     sbind (slift (read_client_dh L (drop 20 d))) (\<lambda>x.
     sbind (slift (write_client_dh L x)) (\<lambda>bs.
     sthen (require_404 (sha1 L bs = take 20 d))
    (sbind (sget (\<lambda>ga. ga_server_nonce ga = dh_server_nonce x)) (\<lambda>same.
     sthen (require_404 same)
    (sbind (sget (\<lambda>ga. powmod (py_from_bytes_be (dh_g_b x)) (ga_a ga) (fst gen_safe_prime))) (\<lambda>k.
     sbind (slift (py_to_bytes_be 256 k)) (\<lambda>auth_key.
     sthen (supd (\<lambda>ga. ga\<lparr>ga_auth_key := Some auth_key\<rparr>))
       (sreturn (x, sha1 L auth_key))))))))))))"

definition nonce_hash :: "'o kg_lib \<Rightarrow> gen_auth \<Rightarrow> byte \<Rightarrow> byte list \<Rightarrow> int" where
  "nonce_hash L ga n aux =
     (let h = sha1 L (the (ga_new_nonce ga) @ [n] @ aux)
      in py_from_bytes_le True (drop (length h - 16) h))"

text \<open>The new key is stored before the client is told; a key that cannot be stored ends the connection.\<close>

definition set_client_dh_params ::
    "'o kg_lib \<Rightarrow> set_client_dh \<Rightarrow> gen_auth \<Rightarrow> key_store \<Rightarrow> kg_reply list \<times> unit res \<times> gen_auth \<times> key_store" where
  "set_client_dh_params L req ga ks =
     (case set_client_dh_params_sync L req ga of
        (Inl e, ga1) \<Rightarrow> ([], Inl e, ga1, ks)
      | (Inr (x, digest), ga1) \<Rightarrow>
          (case Int_read_bytes TLong (drop (length digest - 8) digest) True of
             Inl e \<Rightarrow> ([], Inl e, ga1, ks)
           | Inr i \<Rightarrow>
               (let ga2 = ga1\<lparr>ga_auth_key_id := Some i\<rparr>; key = the (ga_auth_key ga2); aux = take 8 digest;
                    (ks', stored) =
                      (if ga_expires_in ga2 \<noteq> 0
                       then (let (k, r) = TempAuthKey_create_key (driver_raises L) i key
                                  \<lfloor>server_time L + real_of_int (ga_expires_in ga2)\<rfloor> ks
                             in (k, rbind r (\<lambda>_. Inr ())))
                       else (let (k, r) = AuthKey_create_key (driver_raises L) i key ks
                             in (k, rbind r (\<lambda>_. Inr ()))))
                in case stored of
                     Inl _ \<Rightarrow> ([DhGenFail (dh_nonce x) (ga_server_nonce ga2) (nonce_hash L ga2 3 aux)],
                               Inl (Disconnection (Some (-404))), ga2, ks')
                   | Inr _ \<Rightarrow> ([DhGenOk (dh_nonce x) (ga_server_nonce ga2) (nonce_hash L ga2 1 aux)],
                               Inr (), ga2, ks'))))"

end
