(* ===== verification/KeyGenFacts.thy ===== *)
theory KeyGenFacts
  imports KeyGen
begin

text \<open>
  Properties of the key exchange: the RSA padding the server undoes is the documented one, both
  sides arrive at the same key, a key is stored only after every check, and what is not checked.
\<close>

section \<open>RSA padding\<close>

text \<open>The padding as the comment in \<^verbatim>\<open>rsa_utils.py\<close> describes it, for 192 bytes and a 32-byte key.\<close>

definition rsa_pad :: "crypto \<Rightarrow> byte list \<Rightarrow> byte list \<Rightarrow> byte list" where
  "rsa_pad C data_with_padding temp_key =
     (let data_with_hash = rev data_with_padding @ sha256 C (temp_key @ data_with_padding);
          aes_encrypted = ige256_encrypt C data_with_hash temp_key (replicate 32 0)
      in xor_bytes temp_key (sha256 C aes_encrypted) @ aes_encrypted)"

definition crypto_ok :: "crypto \<Rightarrow> bool" where
  "crypto_ok C \<longleftrightarrow> (\<forall>x. length (sha256 C x) = 32)
     \<and> (\<forall>x k iv. length x mod 16 = 0 \<longrightarrow> length (ige256_encrypt C x k iv) = length x
          \<and> ige256_decrypt C (ige256_encrypt C x k iv) k iv = x)"

lemma xor_bytes_length [simp]: "length (xor_bytes a b) = min (length a) (length b)"
  by (simp add: xor_bytes_def)

lemma xor_bytes_cancel: "length a = length b \<Longrightarrow> xor_bytes (xor_bytes a b) b = a"
  by (induction a b rule: list_induct2) (auto simp: xor_bytes_def bit_eq_iff bit_simps)

lemma zfill_id: "n \<le> length x \<Longrightarrow> zfill n x = x"
  by (cases x) (simp_all add: zfill_def)

lemma rsa_pad_inverse_pad:
  assumes "crypto_ok C" "length d = 192" "length k = 32"
  shows "rsa_pad_inverse C (rsa_pad C d k) = Inr d"
proof -
  let ?dh = "rev d @ sha256 C (k @ d)"
  let ?aes = "ige256_encrypt C ?dh k (replicate 32 0)"
  have sha: "length (sha256 C x) = 32" for x using assms(1) by (simp add: crypto_ok_def)
  have dh: "length ?dh = 224" by (simp add: assms(2) sha)
  have dec: "ige256_decrypt C ?aes k (replicate 32 0) = ?dh"
    using assms(1) dh by (simp add: crypto_ok_def)
  have key: "xor_bytes (xor_bytes k (sha256 C ?aes)) (sha256 C ?aes) = k"
    by (rule xor_bytes_cancel) (simp add: sha assms(3))
  show ?thesis
    by (simp add: rsa_pad_inverse_def rsa_pad_def Let_def sha assms(2,3) key zfill_id dec)
qed

section \<open>The shared key\<close>

lemma powmod_agree: "powmod (powmod g b p) a p = powmod (powmod g a p) b p"
proof -
  have "powmod (powmod g x p) y p = g ^ (nat x * nat y) mod p" for x y
    by (simp add: powmod_def power_mod power_mult)
  then show ?thesis by (simp add: mult.commute)
qed

text \<open>The generator of the fixed prime suits it: 3, with the prime 2 modulo 3.\<close>

lemma dh_prime_mod8: "CURRENT_DH_PRIME mod 8 = 3"
proof -
  have p: "CURRENT_DH_PRIME = 8 * 0x18E395D738D6392091CD8A45EE1E27EE7301A80471C7C43829269A06EAC7B261E903314154F8280B0452927A44A61E9B7F466DEDC15924A272A875DA8999CF86E41FAA3ED28B0E0B58D19A9FCD6D62757B92E8CA252D26508A9E31F5F18B2BEC848EFFD2D7655283AB79A3A95919893100E11F5366F1C789E7520C17DCCF9F349494D2B0220A320FC2C4EA76AD61ED6821B74E9B15096542966289C1DE2508EA9FA2FDB2A1AB2CB6973BA8CB05B622F1A2D38D788CB61ADFF3947251FDEB735C9C831F82BD07D7D41F0FF53FEBDDAE00A1BDA5093E8F7F2B3B2AD0A19D2530A3E1B022BEC6B620BDC5C9C2BA09648A97EDE9F5BE0696208062339B1C7725F98B + 3" by (simp add: CURRENT_DH_PRIME_def)
  have m: "(8 * q + 3) mod 8 = 3" for q :: int by presburger
  show ?thesis unfolding p by (rule m)
qed

lemma dh_prime_mod3: "CURRENT_DH_PRIME mod 3 = 2"
proof -
  have p: "CURRENT_DH_PRIME = 3 * 0x425EE4E897909856DA241B6525A5BFD132AF15612F6A0B406DBC4567C769DBAFC2B32E038D406AC80B86DBF0B710519EA8BBCFCF58EDB70687168F9C199A2967B5A9C5FCDC1D7AC8ECD99C54CE79068E9EDD1770632310D6C6FB2FE52EC87521617D54DCE90E315F1E99B46E42EEC32D57ADA8DE67DA141A68DACAEA4CD45336E18CDC805AC5DAD4B20D1BE723AFCE6B04937C4838190E06E65C1A04FB0D6D1C545D4F31AF1DCC919349C21D64905D2F07897941773AF2553436862FFA73DE4C4C0854074D6A3F8AFD7FE3551FA47AAC59F9B818A6D3FDC89DC781AEF8632C5FAF2B075211E5ACA4BA1A07456E617195251A8F50119056ABB0899DA13DBA9973 + 2" by (simp add: CURRENT_DH_PRIME_def)
  have m: "(3 * q + 2) mod 3 = 2" for q :: int by presburger
  show ?thesis unfolding p by (rule m)
qed

lemma dh_group: "gen_safe_prime = (CURRENT_DH_PRIME, 3)"
  by (simp add: gen_safe_prime_def dh_prime_mod8)

lemma dh_prime_gt: "1 < CURRENT_DH_PRIME"
  by (simp add: CURRENT_DH_PRIME_def)

section \<open>Checks\<close>

lemma slift_eval: "sbind (slift r) f s = (case r of Inl e \<Rightarrow> (Inl e, s) | Inr x \<Rightarrow> f x s)"
  by (cases r) (simp_all add: act_defs)

lemma require_404_eval: "sthen (require_404 b) m s = (if b then m s else (Inl (Disconnection (Some (-404))), s))"
  by (simp add: require_404_def act_defs)

lemmas kg_eval = slift_eval require_404_eval

text \<open>The state after the three checks of the last step, when they pass.\<close>

lemma set_client_dh_ok:
  assumes "set_client_dh_params_sync L req ga = (Inr (x, digest), ga')"
  obtains key iv bs k where "ga_tmp_aes_key ga = Some key" "ga_server_nonce ga = sc_server_nonce req"
    "ga_server_nonce ga = dh_server_nonce x"
    "read_client_dh L (drop 20 (ige256_decrypt L (sc_encrypted_data req) key iv)) = Inr x"
    "write_client_dh L x = Inr bs" "sha1 L bs = take 20 (ige256_decrypt L (sc_encrypted_data req) key iv)"
    "py_to_bytes_be 256 (powmod (py_from_bytes_be (dh_g_b x)) (ga_a ga) CURRENT_DH_PRIME) = Inr k"
    "ga' = ga\<lparr>ga_auth_key := Some k\<rparr>" "digest = sha1 L k"
  using assms unfolding set_client_dh_params_sync_def
  by (auto simp: kg_eval dh_group split: if_splits sum.splits)

lemma set_client_dh_fail:
  assumes "set_client_dh_params_sync L req ga = (Inl e, ga')"
  shows "ga' = ga"
  using assms unfolding set_client_dh_params_sync_def
  by (auto simp: kg_eval split: if_splits sum.splits)

lemma create_key_lookup:
  assumes "AuthKey_create_key d i key ks = (ks', Inr r)"
  shows "\<exists>k. perm_keys ks' i = Some k \<and> pk_auth_key k = key"
  using assms by (auto simp: AuthKey_create_key_def create_ignore_overflow_eq split: option.splits if_splits)

lemma create_temp_key_lookup:
  assumes "TempAuthKey_create_key d i key expires ks = (ks', Inr r)"
  shows "\<exists>k. temp_keys ks' i = Some k \<and> tk_auth_key k = key"
  using assms by (auto simp: TempAuthKey_create_key_def create_ignore_overflow_eq split: option.splits if_splits)

lemma create_key_refused:
  assumes "AuthKey_create_key d i key ks = (ks', Inl e)"
  shows "ks' = ks"
  using assms by (auto simp: AuthKey_create_key_def create_ignore_overflow_eq split: option.splits if_splits)

lemma create_temp_key_refused:
  assumes "TempAuthKey_create_key d i key expires ks = (ks', Inl e)"
  shows "ks' = ks"
  using assms by (auto simp: TempAuthKey_create_key_def create_ignore_overflow_eq split: option.splits if_splits)

text \<open>Nothing is stored unless the exchange succeeds, and then the key the client proved.\<close>

lemma set_client_dh_stores:
  assumes "set_client_dh_params L req ga ks = (replies, r, ga', ks')"
  shows "(\<forall>e. r = Inl e \<longrightarrow> ks' = ks) \<and>
    (r = Inr () \<longrightarrow> (\<exists>x digest k i.
        set_client_dh_params_sync L req ga = (Inr (x, digest), ga\<lparr>ga_auth_key := Some k\<rparr>)
        \<and> Int_read_bytes TLong (drop (length digest - 8) digest) True = Inr i
        \<and> (if ga_expires_in ga \<noteq> 0 then \<exists>t. temp_keys ks' i = Some t \<and> tk_auth_key t = k
           else \<exists>p. perm_keys ks' i = Some p \<and> pk_auth_key p = k)))"
proof (cases "set_client_dh_params_sync L req ga")
  case (Pair out ga1)
  show ?thesis
  proof (cases out)
    case (Inl e)
    then show ?thesis using assms Pair by (auto simp: set_client_dh_params_def)
  next
    case (Inr y)
    obtain x digest where y: "y = (x, digest)" by (cases y)
    note sync = Pair [unfolded Inr y]
    from sync obtain k where k: "ga1 = ga\<lparr>ga_auth_key := Some k\<rparr>"
      by (rule set_client_dh_ok) blast
    show ?thesis
    proof (cases "Int_read_bytes TLong (drop (length digest - 8) digest) True")
      case (Inl e)
      then show ?thesis using assms sync by (auto simp: set_client_dh_params_def)
    next
      case (Inr i)
      obtain k1 r1 where 1: "TempAuthKey_create_key (driver_raises L) i k
          (\<lfloor>server_time L\<rfloor> + ga_expires_in ga) ks = (k1, r1)" by (metis surj_pair)
      obtain k2 r2 where 2: "AuthKey_create_key (driver_raises L) i k ks = (k2, r2)" by (metis surj_pair)
      let ?ga = "ga\<lparr>ga_auth_key := Some k, ga_auth_key_id := Some i\<rparr>"
      have eq: "set_client_dh_params L req ga ks =
        (let (ks2, e) = (if ga_expires_in ga = 0 then (k2, rbind r2 (\<lambda>_. Inr ())) else (k1, rbind r1 (\<lambda>_. Inr ())))
         in case e of
              Inl _ \<Rightarrow> ([DhGenFail (dh_nonce x) (ga_server_nonce ga) (nonce_hash L ?ga 3 (take 8 digest))],
                Inl (Disconnection (Some (-404))), ?ga, ks2)
            | Inr _ \<Rightarrow> ([DhGenOk (dh_nonce x) (ga_server_nonce ga) (nonce_hash L ?ga 1 (take 8 digest))],
                Inr (), ?ga, ks2))"
        by (simp add: set_client_dh_params_def sync Inr k Let_def 1 2)
      note sync' = sync [unfolded k]
      have "(\<forall>e. r = Inl e \<longrightarrow> ks' = ks) \<and> (r = Inr () \<longrightarrow>
          (if ga_expires_in ga \<noteq> 0 then \<exists>t. temp_keys ks' i = Some t \<and> tk_auth_key t = k
           else \<exists>p. perm_keys ks' i = Some p \<and> pk_auth_key p = k))"
      proof (cases "ga_expires_in ga = 0")
        case True
        show ?thesis
          using assms [unfolded eq] True 2 create_key_lookup [of "driver_raises L" i k ks k2]
            create_key_refused [of "driver_raises L" i k ks k2]
          by (cases r2; clarsimp)
      next
        case False
        show ?thesis
          using assms [unfolded eq] False 1
            create_temp_key_lookup [of "driver_raises L" i k "\<lfloor>server_time L\<rfloor> + ga_expires_in ga" ks k1]
            create_temp_key_refused [of "driver_raises L" i k "\<lfloor>server_time L\<rfloor> + ga_expires_in ga" ks k1]
          by (cases r1; clarsimp)
      qed
      then show ?thesis using sync' Inr by blast
    qed
  qed
qed

text \<open>The client's share is not checked: with \<open>g_b = 1\<close> the key does not depend on the server.\<close>

lemma weak_share:
  assumes "set_client_dh_params_sync L req ga = (Inr (x, digest), ga')" "py_from_bytes_be (dh_g_b x) = 1"
  shows "ga_auth_key ga' = Some (replicate 255 0 @ [1])"
  using assms(1)
proof (rule set_client_dh_ok)
  fix k
  assume k: "py_to_bytes_be 256 (powmod (py_from_bytes_be (dh_g_b x)) (ga_a ga) CURRENT_DH_PRIME) = Inr k"
    and ga': "ga' = ga\<lparr>ga_auth_key := Some k\<rparr>"
  have "powmod 1 (ga_a ga) CURRENT_DH_PRIME = 1"
    using dh_prime_gt by (simp add: powmod_def)
  then have "py_to_bytes_be 256 1 = Inr k" using k assms(2) by simp
  moreover have "le_bytes 256 1 = 1 # replicate 255 0"
  proof -
    have "le_bytes n 0 = replicate n 0" for n by (induction n) simp_all
    then show ?thesis by (simp add: le_bytes_numeral)
  qed
  ultimately show ?thesis
    by (auto simp: ga' py_to_bytes_be_def py_to_bytes_le_def int_fits_def rbind_def)
qed

end
