(* ===== verification/AuthProperties.thy ===== *)
theory AuthProperties
  imports KeyGenFacts
begin

text \<open>
  What authorization keys promise: how they come about
  (\<^verbatim>\<open>piltover/gateway/_keygen_handlers.py\<close>) and how a temporary key is tied to a permanent one
  (\<^verbatim>\<open>piltover/app/handlers/auth.py\<close>).
\<close>

section \<open>Binding\<close>

text \<open>
  C8. A temporary key is bound only on the word of the permanent key: a message that decrypts under
  the stored permanent key names both keys, the session, the message and the nonce of the request,
  and the temporary key is not bound yet and not expired. Nothing else is stored.
\<close>

theorem binding_is_vouched:
  assumes "bind_temp_auth_key L now c req ks = Inr ks'"
  shows "\<exists>p k m x t. parse_packet L (br_encrypted_message req) = Some p
    \<and> perm_keys ks (br_perm_auth_key_id req) = Some k \<and> decrypt_v1 L p (pk_auth_key k) = Inr m
    \<and> pkt_message_id m = rc_message_id c \<and> read_bind_inner L (pkt_data m) = Inr x
    \<and> bi_nonce x = br_nonce req \<and> bi_temp_session_id x = rc_session_id c
    \<and> bi_temp_auth_key_id x = rc_auth_key_id c \<and> bi_perm_auth_key_id x = br_perm_auth_key_id req
    \<and> rc_perm_auth_key_id c = None \<and> temp_keys ks (rc_auth_key_id c) = Some t \<and> tk_expires_at t > now
    \<and> ks' = ks\<lparr>temp_keys := bind_rows (rc_auth_key_id c) (br_perm_auth_key_id req) (temp_keys ks)\<rparr>"
  using assms by (rule bind_temp_auth_key_ok) blast

definition demo_packets :: "unit packet_lib" where
  "demo_packets = \<lparr>parse_packet = (\<lambda>_. Some ()), packet_key_id = (\<lambda>_. 12),
     decrypt_v1 = (\<lambda>_ key. if key = [7] then Inr \<lparr>pkt_salt = [], pkt_session_id = 1, pkt_message_id = 4,
         pkt_seq_no = 0, pkt_data = replicate 40 0\<rparr> else Inl ValueError),
     read_bind_inner = (\<lambda>_. Inr \<lparr>bi_nonce = 9, bi_temp_auth_key_id = 11, bi_perm_auth_key_id = 12,
         bi_temp_session_id = 3\<rparr>)\<rparr>"

text \<open>A permanent key 12, a temporary key 10 bound to it, and a fresh temporary key 11.\<close>

definition demo_keys :: key_store where
  "demo_keys = \<lparr>perm_keys = [12 \<mapsto> \<lparr>pk_auth_key = [7], pk_layer = 133\<rparr>],
     temp_keys = [10 \<mapsto> \<lparr>tk_auth_key = [5], tk_expires_at = 100, tk_perm_key = Some 12\<rparr>,
       11 \<mapsto> \<lparr>tk_auth_key = [6], tk_expires_at = 100, tk_perm_key = None\<rparr>]\<rparr>"

definition demo_context :: request_context where
  "demo_context = \<lparr>rc_auth_key_id = 11, rc_perm_auth_key_id = None, rc_message_id = 4, rc_session_id = 3\<rparr>"

definition demo_request :: bind_request where
  "demo_request = \<lparr>br_perm_auth_key_id = 12, br_nonce = 9, br_encrypted_message = []\<rparr>"

lemma demo_binds:
  "bind_temp_auth_key demo_packets 50 demo_context demo_request demo_keys =
    Inr (demo_keys\<lparr>temp_keys := bind_rows 11 12 (temp_keys demo_keys)\<rparr>)"
  by (simp add: bind_temp_auth_key_def valid_temp_key_def check_bind_inner_def as_invalid_message_def sec_check_def
      rbind_def demo_packets_def demo_context_def demo_request_def demo_keys_def)

lemma binding_is_vouched_witness:
  "\<exists>p k m x t. parse_packet demo_packets (br_encrypted_message demo_request) = Some p
    \<and> perm_keys demo_keys 12 = Some k \<and> decrypt_v1 demo_packets p (pk_auth_key k) = Inr m \<and> pkt_message_id m = 4
    \<and> read_bind_inner demo_packets (pkt_data m) = Inr x \<and> bi_nonce x = 9
    \<and> temp_keys demo_keys 11 = Some t \<and> tk_expires_at t > 50"
  using binding_is_vouched [OF demo_binds] by (auto simp: demo_context_def demo_request_def)

text \<open>
  A permanent key has at most one temporary key bound to it, before and after every binding: the
  binding of a new one releases the old one.
\<close>

theorem one_binding_per_key:
  assumes "bound_once ks" "bind_temp_auth_key L now c req ks = Inr ks'"
  shows "bound_once ks'"
  using bind_temp_auth_key_ok [OF assms(2)] bind_rows_bound_once [OF assms(1)] by metis

lemma one_binding_per_key_witness:
  "bound_once (demo_keys\<lparr>temp_keys := bind_rows 11 12 (temp_keys demo_keys)\<rparr>)"
  by (rule one_binding_per_key [OF _ demo_binds])
    (auto simp: bound_once_def demo_keys_def split: if_splits)

section \<open>Making a key\<close>

definition demo_kg :: "byte list \<Rightarrow> unit kg_lib" where
  "demo_kg g_b = \<lparr>sha1 = (\<lambda>_. replicate 20 0), sha256 = (\<lambda>_. replicate 32 1), ige256_encrypt = (\<lambda>x _ _. x),
     ige256_decrypt = (\<lambda>_ _ _. replicate 20 0), read_object = (\<lambda>_. Inr ()), write_object = (\<lambda>_. Inr []),
     as_pq_inner = (\<lambda>_. None), read_client_dh = (\<lambda>_. Inr \<lparr>dh_nonce = 2, dh_server_nonce = 5, dh_g_b = g_b\<rparr>),
     write_client_dh = (\<lambda>_. Inr []), write_server_dh = (\<lambda>_ _ _ _ _ _. Inr []), random_bytes = (\<lambda>n. replicate n 0),
     rsa_n = 1, rsa_d = 1, fingerprint = 0, server_time = 0, driver_raises = True\<rparr>"

definition demo_ga :: gen_auth where
  "demo_ga = \<lparr>ga_p = 3, ga_q = 5, ga_server_nonce = 5, ga_is_temp = False, ga_expires_in = 0,
     ga_new_nonce = Some [], ga_server_nonce_bytes = Some [], ga_tmp_aes_key = Some [], ga_tmp_aes_iv = Some [],
     ga_a = 1, ga_auth_key = None, ga_auth_key_id = None\<rparr>"

definition demo_proof :: set_client_dh where
  "demo_proof = \<lparr>sc_server_nonce = 5, sc_encrypted_data = []\<rparr>"

lemma demo_exchange:
  assumes "py_from_bytes_be g_b = 1 \<or> py_from_bytes_be g_b = 3"
  shows "\<exists>k. set_client_dh_params_sync (demo_kg g_b) demo_proof demo_ga =
    (Inr (\<lparr>dh_nonce = 2, dh_server_nonce = 5, dh_g_b = g_b\<rparr>, replicate 20 0), demo_ga\<lparr>ga_auth_key := Some k\<rparr>)"
proof -
  have "powmod (py_from_bytes_be g_b) 1 CURRENT_DH_PRIME \<in> {1, 3}"
    using assms by (auto simp: powmod_def CURRENT_DH_PRIME_def)
  then have "\<exists>k. py_to_bytes_be 256 (powmod (py_from_bytes_be g_b) 1 CURRENT_DH_PRIME) = Inr k"
    by (auto simp: py_to_bytes_be_def py_to_bytes_le_def int_fits_def rbind_def)
  then show ?thesis
    by (auto simp: set_client_dh_params_sync_def kg_eval dh_group demo_kg_def demo_proof_def demo_ga_def)
qed

text \<open>
  C30. When the exchange succeeds, the server's key is the one the client computes from the server's
  share with its own secret.
\<close>

theorem shared_key:
  assumes "set_client_dh_params_sync L req ga = (Inr (x, digest), ga')"
    and "py_from_bytes_be (dh_g_b x) = powmod (snd gen_safe_prime) b (fst gen_safe_prime)"
  shows "\<exists>k. ga_auth_key ga' = Some k \<and> digest = sha1 L k
    \<and> py_to_bytes_be 256 (powmod (powmod (snd gen_safe_prime) (ga_a ga) (fst gen_safe_prime)) b (fst gen_safe_prime)) = Inr k"
  using assms(1)
proof (rule set_client_dh_ok)
  fix k
  assume "py_to_bytes_be 256 (powmod (py_from_bytes_be (dh_g_b x)) (ga_a ga) CURRENT_DH_PRIME) = Inr k"
    "ga' = ga\<lparr>ga_auth_key := Some k\<rparr>" "digest = sha1 L k"
  then show ?thesis using assms(2) powmod_agree by (simp add: dh_group)
qed

lemma shared_key_witness:
  "\<exists>x digest ga' k. set_client_dh_params_sync (demo_kg [3]) demo_proof demo_ga = (Inr (x, digest), ga')
    \<and> ga_auth_key ga' = Some k
    \<and> py_to_bytes_be 256 (powmod (powmod (snd gen_safe_prime) 1 (fst gen_safe_prime)) 1 (fst gen_safe_prime)) = Inr k"
proof -
  have g: "py_from_bytes_be [3] = 3" by (simp add: py_from_bytes_be_def py_from_bytes_le_def)
  obtain k where run: "set_client_dh_params_sync (demo_kg [3]) demo_proof demo_ga =
    (Inr (\<lparr>dh_nonce = 2, dh_server_nonce = 5, dh_g_b = [3]\<rparr>, replicate 20 0), demo_ga\<lparr>ga_auth_key := Some k\<rparr>)"
    using demo_exchange [of "[3]"] g by auto
  have "py_from_bytes_be (dh_g_b \<lparr>dh_nonce = 2, dh_server_nonce = 5, dh_g_b = [3]\<rparr>)
      = powmod (snd gen_safe_prime) 1 (fst gen_safe_prime)"
    using g by (simp add: powmod_def dh_group) (simp add: CURRENT_DH_PRIME_def)
  from shared_key [OF run this] show ?thesis
    by (intro exI [of _ k] exI [of _ "demo_ga\<lparr>ga_auth_key := Some k\<rparr>"] exI [of _ "replicate 20 0"] exI conjI)
      (rule run, simp_all add: demo_ga_def)
qed



text \<open>
  The server undoes the padding it documents: what a client pads and wraps under a fresh key is
  recovered, for every data of 192 bytes.
\<close>

theorem rsa_padding_roundtrip:
  assumes "\<forall>x. length (sha256 C x) = 32"
    and "\<forall>x k iv. length x mod 16 = 0 \<longrightarrow> length (ige256_encrypt C x k iv) = length x
      \<and> ige256_decrypt C (ige256_encrypt C x k iv) k iv = x"
    and "length d = 192" "length k = 32"
  shows "rsa_pad_inverse C (rsa_pad C d k) = Inr d"
  using rsa_pad_inverse_pad assms by (simp add: crypto_ok_def)

lemma rsa_padding_roundtrip_witness:
  "let C = \<lparr>sha1 = (\<lambda>_. []), sha256 = (\<lambda>x. replicate 32 (of_nat (length x))), ige256_encrypt = (\<lambda>x _ _. x),
       ige256_decrypt = (\<lambda>x _ _. x)\<rparr>
   in rsa_pad_inverse C (rsa_pad C (replicate 192 3) (replicate 32 9)) = Inr (replicate 192 3)"
  unfolding Let_def by (rule rsa_padding_roundtrip) simp_all

text \<open>
  The client's share is taken without a check of its range: for the share 1 the key is the number
  1, whatever secret the server drew.
\<close>

theorem trivial_share_accepted:
  assumes "set_client_dh_params_sync L req ga = (Inr (x, digest), ga')" "py_from_bytes_be (dh_g_b x) = 1"
  shows "ga_auth_key ga' = Some (replicate 255 0 @ [1])"
  using assms by (rule weak_share)

lemma trivial_share_accepted_witness:
  "\<exists>out ga'. set_client_dh_params_sync (demo_kg [1]) demo_proof demo_ga = (Inr out, ga')
    \<and> ga_auth_key ga' = Some (replicate 255 0 @ [1])"
proof -
  have g: "py_from_bytes_be [1] = 1" by (simp add: py_from_bytes_be_def py_from_bytes_le_def)
  obtain k where run: "set_client_dh_params_sync (demo_kg [1]) demo_proof demo_ga =
    (Inr (\<lparr>dh_nonce = 2, dh_server_nonce = 5, dh_g_b = [1]\<rparr>, replicate 20 0), demo_ga\<lparr>ga_auth_key := Some k\<rparr>)"
    using demo_exchange [of "[1]"] g by auto
  show ?thesis using trivial_share_accepted [OF run] run g by auto
qed

end
