(* ===== verification/Stars.thy ===== *)
theory Stars
  imports Complex_Main TlPrimitives PyText "HOL-Library.List_Lexorder" "HOL-Library.Char_ord" "HOL-Library.Product_Lexorder"
begin

text \<open>
  The star wallets (\<^verbatim>\<open>piltover/app/utils/stars_manager.py\<close> and the models it stores): balances,
  the transactions that explain them, payment forms, and invoices of bots.

  The tables are the state. \<open>in_transaction()\<close> takes back what its block did when the block
  raises. A handler's work up to an \<open>await\<close> on something outside is one step, so that two
  payments can be interleaved; the identifiers that \<open>uuid4\<close> and \<open>Snowflake\<close> make, the clock,
  the resolution of peers, the bot's answer and the class of invoices are parameters.
\<close>

section \<open>Rows\<close>

datatype stars_peer_type = FRAGMENT | APP_STORE | PLAY_MARKET | PREMIUM_BOT | PEER | ADS | API

datatype payment_purpose = TOPUP | GIFT | BOT_INVOICE

record stars_balance =
  amount :: int
  nanos :: int

record tx_info =
  ti_peer_type :: stars_peer_type
  ti_peer_user :: "int option"
  ti_title :: string
  ti_description :: "string option"
  ti_gift :: bool
  ti_msg_id :: "int option"
  ti_payload :: "byte list option"

record stars_tx =
  transaction_id :: string
  tx_user :: int
  stars_amount :: int
  inbound :: bool
  tx_date :: int
  tx_info :: tx_info

record payment_form =
  pf_user :: int
  pf_purpose :: payment_purpose
  pf_stars :: int
  pf_currency :: string
  pf_amount :: int
  pf_gift_user :: "int option"
  pf_bot_user :: "int option"
  pf_message :: "int option"
  pf_payload :: "byte list option"
  pf_expires_at :: real

text \<open>The reference of a message in one dialog; the content behind it is shared.\<close>

record message_ref =
  mr_content :: int
  mr_author :: int

record stars_db =
  balances :: "int \<Rightarrow> stars_balance option"
  transactions :: "stars_tx list"
  payment_forms :: "int \<Rightarrow> payment_form option"
  message_refs :: "int \<times> int \<Rightarrow> message_ref option"
  invoice_data :: "int \<Rightarrow> byte list option"

type_synonym 'a pay = "('a, stars_db) act"

section \<open>Parameters\<close>

datatype invoice =
    StarsTopup int string int
  | StarsGift int string int int
  | InvoiceMessage int int
  | OtherInvoice

record payment =
  pay_user :: int
  pay_form_id :: int
  pay_peer :: int
  pay_message :: int
  pay_content :: int
  pay_bot :: int
  pay_data :: "byte list"
  pay_payload :: "byte list"
  pay_stars :: int
  pay_title :: string
  pay_description :: string
  pay_currency :: string

record 'm invoice_class =
  media_write :: "'m \<Rightarrow> byte list res"
  media_read :: "byte list \<Rightarrow> 'm res"
  media_title :: "'m \<Rightarrow> string"
  media_description :: "'m \<Rightarrow> string"
  media_currency :: "'m \<Rightarrow> string"
  media_total_amount :: "'m \<Rightarrow> int"
  media_receipt :: "'m \<Rightarrow> int option"
  media_set_receipt :: "int \<Rightarrow> 'm \<Rightarrow> 'm"

record 'm stars_env = "'m invoice_class" +
  now :: real
  uuid :: "nat \<Rightarrow> string"
  stars_bot :: "int option"
  user_exists :: "int \<Rightarrow> bool"
  is_bot_user :: "int \<Rightarrow> bool"
  user_of_peer :: "int \<Rightarrow> int \<Rightarrow> int res"
  peer_of :: "int \<Rightarrow> int \<Rightarrow> int res"
  precheckout :: "payment \<Rightarrow> unit res"
  payment_message :: "payment \<Rightarrow> int res"
  other_messages :: "payment \<Rightarrow> unit res"

definition err400 :: "string \<Rightarrow> py_error" where
  "err400 m = ErrorRpc 400 m"

definition STARS_CURRENCY :: string where "STARS_CURRENCY = ''XTR''"

definition in_transaction :: "'a pay \<Rightarrow> 'a pay" where
  "in_transaction m = (\<lambda>s. case m s of (Inl e, _) \<Rightarrow> (Inl e, s) | (Inr x, s') \<Rightarrow> (Inr x, s'))"

definition ensure :: "bool \<Rightarrow> string \<Rightarrow> unit pay" where
  "ensure b m = (if b then sreturn () else sraise (err400 m))"

definition stars_text :: "string \<Rightarrow> int \<Rightarrow> string \<Rightarrow> string" where
  "stars_text pre n post = pre @ int_str n @ post"

definition or_text :: "string option \<Rightarrow> string \<Rightarrow> string option" where
  "or_text d t = (case d of None \<Rightarrow> Some t | Some s \<Rightarrow> if s = [] then Some t else Some s)"

section \<open>Balances and transactions\<close>

definition bot_net_stars :: "int \<Rightarrow> int" where
  "bot_net_stars gross = (if gross \<le> 0 then 0 else gross * 1300 div 1410)"

definition balance_of :: "int \<Rightarrow> stars_db \<Rightarrow> stars_balance" where
  "balance_of u db = (case balances db u of None \<Rightarrow> \<lparr>amount = 0, nanos = 0\<rparr> | Some b \<Rightarrow> b)"

definition get_or_create_for :: "int \<Rightarrow> stars_balance pay" where
  "get_or_create_for u =
     (\<lambda>db. (Inr (balance_of u db), db\<lparr>balances := (balances db)(u \<mapsto> balance_of u db)\<rparr>))"

definition save_balance :: "int \<Rightarrow> stars_balance \<Rightarrow> unit pay" where
  "save_balance u b = supd (\<lambda>db. db\<lparr>balances := (balances db)(u \<mapsto> b)\<rparr>)"

definition create_tx :: "'m stars_env \<Rightarrow> int \<Rightarrow> int \<Rightarrow> bool \<Rightarrow> tx_info \<Rightarrow> stars_tx pay" where
  "create_tx E u stars inb info =
     (\<lambda>db. let t = \<lparr>transaction_id = uuid E (length (transactions db)), tx_user = u,
                 stars_amount = stars, inbound = inb, tx_date = \<lfloor>now E\<rfloor>, tx_info = info\<rparr>
           in if transaction_id t \<in> transaction_id ` set (transactions db) then (Inl IntegrityError, db)
              else (Inr t, db\<lparr>transactions := transactions db @ [t]\<rparr>))"

definition credit_stars ::
    "'m stars_env \<Rightarrow> int \<Rightarrow> int \<Rightarrow> bool \<Rightarrow> tx_info \<Rightarrow> (stars_balance \<times> stars_tx) pay" where
  "credit_stars E u stars inb info =
     in_transaction
       (sbind (get_or_create_for u) (\<lambda>b.
        let b' = b\<lparr>amount := amount b + stars\<rparr> in
        sthen (save_balance u b')
       (sbind (create_tx E u stars inb info) (\<lambda>t. sreturn (b', t)))))"

definition debit_stars ::
    "'m stars_env \<Rightarrow> int \<Rightarrow> int \<Rightarrow> tx_info \<Rightarrow> (stars_balance \<times> stars_tx) pay" where
  "debit_stars E u stars info =
     sthen (ensure (stars > 0) ''STARS_AMOUNT_INVALID'')
       (in_transaction
         (\<lambda>db. case balances db u of
            None \<Rightarrow> (Inl (err400 ''BALANCE_TOO_LOW''), db)
          | Some b \<Rightarrow>
              (if amount b < stars then (Inl (err400 ''BALANCE_TOO_LOW''), db)
               else let b' = b\<lparr>amount := amount b - stars\<rparr> in
                 sthen (save_balance u b')
                (sbind (create_tx E u stars False info) (\<lambda>t. sreturn (b', t))) db)))"

text \<open>
  Both rows are loaded before either is saved. The transfer of a user to itself therefore saves
  the credited copy over the debited one.
\<close>

definition transfer_stars ::
    "'m stars_env \<Rightarrow> int \<Rightarrow> int \<Rightarrow> int \<Rightarrow> int option \<Rightarrow> tx_info \<Rightarrow> tx_info
      \<Rightarrow> (stars_balance \<times> stars_balance \<times> stars_tx \<times> stars_tx) pay" where
  "transfer_stars E from_user to_user stars recipient_stars out_info in_info =
     (let credited = (case recipient_stars of None \<Rightarrow> stars | Some n \<Rightarrow> n) in
      sthen (ensure (stars > 0) ''STARS_AMOUNT_INVALID'')
     (sthen (ensure (credited > 0 \<and> credited \<le> stars) ''STARS_AMOUNT_INVALID'')
       (in_transaction
         (\<lambda>db. case balances db from_user of
            None \<Rightarrow> (Inl (err400 ''BALANCE_TOO_LOW''), db)
          | Some p \<Rightarrow>
              (if amount p < stars then (Inl (err400 ''BALANCE_TOO_LOW''), db)
               else sbind (get_or_create_for to_user) (\<lambda>q.
                 let p' = p\<lparr>amount := amount p - stars\<rparr>; q' = q\<lparr>amount := amount q + credited\<rparr> in
                 sthen (save_balance from_user p')
                (sthen (save_balance to_user q')
                (sbind (create_tx E from_user stars False out_info) (\<lambda>t1.
                 sbind (create_tx E to_user credited True in_info) (\<lambda>t2.
                 sreturn (p', q', t1, t2)))))) db)))))"

section \<open>Grants and adjustments\<close>

definition peer_info :: "string \<Rightarrow> string option \<Rightarrow> int option \<Rightarrow> tx_info" where
  "peer_info title description peer_user =
     \<lparr>ti_peer_type = PEER, ti_peer_user = peer_user, ti_title = title, ti_description = description,
      ti_gift = False, ti_msg_id = None, ti_payload = None\<rparr>"

definition get_stars_bot_user_id :: "'m stars_env \<Rightarrow> int pay" where
  "get_stars_bot_user_id E = slift (case stars_bot E of None \<Rightarrow> Inl RuntimeError | Some u \<Rightarrow> Inr u)"

definition grant_stars :: "'m stars_env \<Rightarrow> int \<Rightarrow> int \<Rightarrow> string \<Rightarrow> string option \<Rightarrow> stars_balance pay" where
  "grant_stars E u stars title description =
     sbind (get_stars_bot_user_id E) (\<lambda>bot.
     sbind (credit_stars E u stars True (peer_info title
        (or_text description (stars_text ''Received '' stars '' Telegram Stars'')) (Some bot))) (\<lambda>(b, _). sreturn b))"

definition set_stars_balance :: "'m stars_env \<Rightarrow> int \<Rightarrow> int \<Rightarrow> string \<Rightarrow> string option \<Rightarrow> stars_balance pay" where
  "set_stars_balance E u target title description =
     sthen (ensure (0 \<le> target) ''STARS_AMOUNT_INVALID'')
     (sbind (get_stars_bot_user_id E) (\<lambda>bot.
      in_transaction
        (sbind (get_or_create_for u) (\<lambda>b.
         if amount b = target then sreturn b
         else let b' = b\<lparr>amount := target\<rparr>; 
                info = peer_info title (or_text description (stars_text ''Balance set to '' target '' stars'')) (Some bot) in
           sthen (save_balance u b')
          (sbind (if target > amount b
                  then create_tx E u (target - amount b) True info
                  else create_tx E u (amount b - target) False info) (\<lambda>_. sreturn b'))))))"

definition spend_stars :: "'m stars_env \<Rightarrow> int \<Rightarrow> int \<Rightarrow> tx_info \<Rightarrow> stars_balance pay" where
  "spend_stars E u stars info = sbind (debit_stars E u stars info) (\<lambda>(b, _). sreturn b)"

section \<open>The history of a wallet\<close>

definition tx_key :: "stars_tx \<Rightarrow> int \<times> string" where
  "tx_key t = (tx_date t, transaction_id t)"

definition direction_ok :: "bool \<Rightarrow> bool \<Rightarrow> stars_tx \<Rightarrow> bool" where
  "direction_ok inb outb t =
     (if inb \<and> \<not> outb then inbound t else if outb \<and> \<not> inb then \<not> inbound t else True)"

definition past_offset :: "bool \<Rightarrow> stars_tx option \<Rightarrow> stars_tx \<Rightarrow> bool" where
  "past_offset ascending off t =
     (case off of None \<Rightarrow> True
      | Some p \<Rightarrow> if ascending then tx_date t > tx_date p \<or> tx_date t = tx_date p \<and> transaction_id t > transaction_id p
                else tx_date t < tx_date p \<or> tx_date t = tx_date p \<and> transaction_id t < transaction_id p)"

definition order_txs :: "bool \<Rightarrow> stars_tx list \<Rightarrow> stars_tx list" where
  "order_txs ascending ts = (if ascending then sort_key tx_key ts else rev (sort_key tx_key ts))"

definition page_limit :: "int \<Rightarrow> nat" where
  "page_limit limit = nat (if limit \<le> 0 then 50 else min limit 50)"

definition fetch_transactions ::
    "int \<Rightarrow> bool \<Rightarrow> bool \<Rightarrow> bool \<Rightarrow> string \<Rightarrow> int \<Rightarrow> string option \<Rightarrow> stars_db \<Rightarrow> stars_tx list \<times> string option" where
  "fetch_transactions wallet inb outb ascending offset limit subscription db =
     (if subscription \<noteq> None then ([], None)
      else let k = page_limit limit;
               query = filter (\<lambda>t. tx_user t = wallet \<and> direction_ok inb outb t) (transactions db);
               off = (if offset = [] then None
                      else find (\<lambda>t. transaction_id t = offset \<and> tx_user t = wallet) (transactions db));
               rows = take (k + 1) (order_txs ascending (filter (past_offset ascending off) query));
               page = take k rows
           in (page, if length rows > k \<and> page \<noteq> [] then Some (transaction_id (last page)) else None))"

fun index_in :: "string list \<Rightarrow> string \<Rightarrow> nat" where
  "index_in [] i = 0"
| "index_in (x # xs) i = (if i \<in> set xs then Suc (index_in xs i) else if x = i then 0 else Suc (length xs))"

definition fetch_transactions_by_id :: "int \<Rightarrow> string list \<Rightarrow> stars_db \<Rightarrow> stars_tx list" where
  "fetch_transactions_by_id wallet ids db =
     (if ids = [] then []
      else sort_key (\<lambda>t. index_in ids (transaction_id t))
             (filter (\<lambda>t. tx_user t = wallet \<and> transaction_id t \<in> set ids) (transactions db)))"

section \<open>Invoices\<close>

definition pack_invoice_static :: "'m invoice_class \<Rightarrow> 'm \<Rightarrow> byte list \<Rightarrow> byte list res" where
  "pack_invoice_static L m payload =
     rbind (media_write L m) (\<lambda>bs.
     rbind (py_to_bytes_le 4 False (int (length bs))) (\<lambda>n. Inr (n @ bs @ payload)))"

definition unpack_invoice_static :: "'m invoice_class \<Rightarrow> byte list \<Rightarrow> ('m \<times> byte list) res" where
  "unpack_invoice_static L d =
     (if length d < 4 then Inl (err400 ''INVOICE_INVALID'')
      else let n = nat (py_from_bytes_le False (take 4 d)) in
        if 4 + n > length d then Inl (err400 ''INVOICE_INVALID'')
        else rbind (media_read L (take n (drop 4 d))) (\<lambda>m. Inr (m, drop (4 + n) d)))"

definition load_bot_invoice_message ::
    "'m stars_env \<Rightarrow> int \<Rightarrow> int \<Rightarrow> int \<Rightarrow> (message_ref \<times> byte list \<times> 'm \<times> byte list) pay" where
  "load_bot_invoice_message E u peer msg =
     sbind (slift (peer_of E u peer)) (\<lambda>p db.
       case message_refs db (p, msg) of
         None \<Rightarrow> (Inl (err400 ''MESSAGE_ID_INVALID''), db)
       | Some r \<Rightarrow>
           (if \<not> is_bot_user E (mr_author r) then (Inl (err400 ''MESSAGE_ID_INVALID''), db)
            else case invoice_data db (mr_content r) of
              None \<Rightarrow> (Inl (err400 ''INVOICE_INVALID''), db)
            | Some d \<Rightarrow>
                sbind (slift (unpack_invoice_static (invoice_class.truncate E) d)) (\<lambda>(m, payload).
                sthen (ensure (media_currency E m = STARS_CURRENCY) ''CURRENCY_TOTAL_AMOUNT_INVALID'')
               (sthen (ensure (media_receipt E m = None) ''MEDIA_ALREADY_PAID'')
                 (sreturn (r, d, m, payload)))) db))"

section \<open>Payment forms\<close>

definition create_form :: "int \<Rightarrow> payment_form \<Rightarrow> unit pay" where
  "create_form i f =
     (\<lambda>db. if payment_forms db i \<noteq> None then (Inl IntegrityError, db)
           else (Inr (), db\<lparr>payment_forms := (payment_forms db)(i \<mapsto> f)\<rparr>))"

definition delete_form :: "int \<Rightarrow> unit pay" where
  "delete_form i = supd (\<lambda>db. db\<lparr>payment_forms := (payment_forms db)(i := None)\<rparr>)"

definition form_is_expired :: "'m stars_env \<Rightarrow> payment_form \<Rightarrow> bool" where
  "form_is_expired E f \<longleftrightarrow> now E > pf_expires_at f"

definition gen_expires_at :: "'m stars_env \<Rightarrow> real" where
  "gen_expires_at E = now E + 10 * 60"

fun parse_stars_invoice ::
    "'m stars_env \<Rightarrow> int \<Rightarrow> invoice \<Rightarrow> (payment_purpose \<times> int \<times> string \<times> int \<times> int option) res" where
  "parse_stars_invoice E u (StarsTopup stars currency amt) =
     (if stars \<le> 0 then Inl (err400 ''STARS_AMOUNT_INVALID'') else Inr (TOPUP, stars, currency, amt, None))"
| "parse_stars_invoice E u (StarsGift stars currency amt target) =
     (if stars \<le> 0 then Inl (err400 ''STARS_AMOUNT_INVALID'')
      else rbind (user_of_peer E u target) (\<lambda>g. Inr (GIFT, stars, currency, amt, Some g)))"
| "parse_stars_invoice E u _ = Inl (err400 ''INVOICE_INVALID'')"

definition create_bot_payment_form :: "'m stars_env \<Rightarrow> int \<Rightarrow> int \<Rightarrow> int \<Rightarrow> int \<Rightarrow> int pay" where
  "create_bot_payment_form E form_id u peer msg =
     sbind (load_bot_invoice_message E u peer msg) (\<lambda>(r, _, m, payload).
     let stars = media_total_amount E m in
     sthen (create_form form_id
        \<lparr>pf_user = u, pf_purpose = BOT_INVOICE, pf_stars = stars, pf_currency = media_currency E m,
         pf_amount = stars, pf_gift_user = None, pf_bot_user = Some (mr_author r),
         pf_message = Some msg, pf_payload = Some payload, pf_expires_at = gen_expires_at E\<rparr>)
       (sreturn form_id))"

text \<open>The form of an invoice; the texts shown with it are left out.\<close>

definition create_payment_form :: "'m stars_env \<Rightarrow> int \<Rightarrow> int \<Rightarrow> invoice \<Rightarrow> int pay" where
  "create_payment_form E form_id u iv =
     (case iv of
        InvoiceMessage peer msg \<Rightarrow> create_bot_payment_form E form_id u peer msg
      | _ \<Rightarrow>
          sbind (slift (parse_stars_invoice E u iv)) (\<lambda>(purpose, stars, currency, amt, gift).
          sthen (ensure (purpose = GIFT \<longrightarrow> (case gift of None \<Rightarrow> False | Some g \<Rightarrow> user_exists E g)) ''USER_ID_INVALID'')
         (sthen (create_form form_id
            \<lparr>pf_user = u, pf_purpose = purpose, pf_stars = stars, pf_currency = currency,
             pf_amount = amt, pf_gift_user = gift, pf_bot_user = None, pf_message = None,
             pf_payload = None, pf_expires_at = gen_expires_at E\<rparr>)
           (sreturn form_id))))"

section \<open>Paying\<close>

definition stars_info :: "stars_peer_type \<Rightarrow> string \<Rightarrow> string \<Rightarrow> bool \<Rightarrow> int option \<Rightarrow> tx_info" where
  "stars_info pt title description gift peer_user =
     \<lparr>ti_peer_type = pt, ti_peer_user = peer_user, ti_title = title,
      ti_description = Some description, ti_gift = gift, ti_msg_id = None, ti_payload = None\<rparr>"

definition get_form :: "int \<Rightarrow> int \<Rightarrow> stars_db \<Rightarrow> payment_form option" where
  "get_form i u db = (case payment_forms db i of None \<Rightarrow> None | Some f \<Rightarrow> if pf_user f = u then Some f else None)"

definition settle_gift :: "'m stars_env \<Rightarrow> int \<Rightarrow> int \<Rightarrow> int \<Rightarrow> bool \<Rightarrow> (stars_balance \<times> int list) pay" where
  "settle_gift E u recipient stars with_stars =
     sbind (if with_stars
            then sbind (debit_stars E u stars (stars_info PEER ''Stars Gift''
               (stars_text ''Gifted '' stars '' Telegram Stars'') True (Some recipient))) (\<lambda>(b, _). sreturn b)
            else get_or_create_for u) (\<lambda>payer.
     sbind (credit_stars E recipient stars True (stars_info PEER ''Stars Gift''
        (stars_text ''Received '' stars '' Telegram Stars'') True (Some u))) (\<lambda>(b, _).
     sreturn (if with_stars then (payer, [u, recipient]) else (b, [recipient]))))"

text \<open>\<open>complete_payment_form\<close> for top-ups and gifts, from the form on.\<close>

definition settle_form ::
    "'m stars_env \<Rightarrow> int \<Rightarrow> int \<Rightarrow> payment_purpose \<Rightarrow> int \<Rightarrow> int option \<Rightarrow> payment_form \<Rightarrow> (stars_balance \<times> int list) pay" where
  "settle_form E u i purpose stars gift f =
     (if form_is_expired E f then sthen (delete_form i) (sraise (err400 ''FORM_EXPIRED''))
      else sthen (ensure (pf_purpose f = purpose \<and> pf_stars f = stars) ''INVOICE_INVALID'')
          (sthen (ensure (purpose = GIFT \<longrightarrow> pf_gift_user f = gift) ''INVOICE_INVALID'')
          (sthen (delete_form i)
          (if purpose = TOPUP
           then sthen (ensure (pf_currency f \<noteq> STARS_CURRENCY) ''INVOICE_INVALID'')
               (sbind (credit_stars E u stars True (stars_info FRAGMENT ''Stars Top-Up''
                  (stars_text ''Purchased '' stars '' Telegram Stars'') False None)) (\<lambda>(b, _).
                sreturn (b, [u])))
           else case gift of None \<Rightarrow> sraise AssertionError
                | Some g \<Rightarrow> settle_gift E u g stars (pf_currency f = STARS_CURRENCY)))))"

definition complete_stars_form :: "'m stars_env \<Rightarrow> int \<Rightarrow> int \<Rightarrow> invoice \<Rightarrow> (stars_balance \<times> int list) pay" where
  "complete_stars_form E u i iv =
     sbind (slift (parse_stars_invoice E u iv)) (\<lambda>(purpose, stars, _, _, gift) db.
       case get_form i u db of
         None \<Rightarrow> (Inl (err400 ''FORM_EXPIRED''), db)
       | Some f \<Rightarrow> settle_form E u i purpose stars gift f db)"

text \<open>
  A bot's invoice: up to the question to the bot, and from its answer on. In between, other
  requests run.
\<close>

definition already_paid :: "int \<Rightarrow> int \<Rightarrow> stars_db \<Rightarrow> bool" where
  "already_paid u msg db \<longleftrightarrow>
     (\<exists>t \<in> set (transactions db). tx_user t = u \<and> ti_msg_id (tx_info t) = Some msg \<and> \<not> inbound t)"

definition check_bot_form ::
    "'m stars_env \<Rightarrow> int \<Rightarrow> int \<Rightarrow> int \<Rightarrow> int \<Rightarrow> payment_form \<Rightarrow> message_ref \<Rightarrow> byte list \<Rightarrow> 'm \<Rightarrow> byte list \<Rightarrow> payment pay" where
  "check_bot_form E u i peer msg f r d m payload =
     (if form_is_expired E f then sthen (delete_form i) (sraise (err400 ''FORM_EXPIRED''))
      else
        sthen (ensure (pf_purpose f = BOT_INVOICE) ''INVOICE_INVALID'')
       (sthen (ensure (pf_stars f = media_total_amount E m \<and> pf_bot_user f = Some (mr_author r)
            \<and> pf_message f = Some msg) ''INVOICE_INVALID'')
       (sthen (ensure (pf_payload f = None \<or> pf_payload f = Some payload) ''INVOICE_INVALID'')
         (sreturn \<lparr>pay_user = u, pay_form_id = i, pay_peer = peer, pay_message = msg,
            pay_content = mr_content r, pay_bot = mr_author r, pay_data = d, pay_payload = payload,
            pay_stars = media_total_amount E m, pay_title = media_title E m,
            pay_description = media_description E m, pay_currency = media_currency E m\<rparr>))))"

definition begin_bot_payment :: "'m stars_env \<Rightarrow> int \<Rightarrow> int \<Rightarrow> int \<Rightarrow> int \<Rightarrow> payment pay" where
  "begin_bot_payment E u i peer msg =
     (\<lambda>db. case get_form i u db of
        None \<Rightarrow> (Inl (err400 (if already_paid u msg db then ''FORM_SUBMIT_DUPLICATE'' else ''FORM_EXPIRED'')), db)
      | Some f \<Rightarrow>
          sbind (load_bot_invoice_message E u peer msg) (\<lambda>(r, d, m, payload).
          check_bot_form E u i peer msg f r d m payload) db)"

definition bot_info :: "payment \<Rightarrow> int \<Rightarrow> tx_info" where
  "bot_info p peer_user =
     \<lparr>ti_peer_type = PEER, ti_peer_user = Some peer_user, ti_title = pay_title p,
      ti_description = Some (pay_description p), ti_gift = False, ti_msg_id = Some (pay_message p),
      ti_payload = (if pay_payload p = [] then None else Some (pay_payload p))\<rparr>"

definition update_invoice_receipt :: "'m stars_env \<Rightarrow> payment \<Rightarrow> int \<Rightarrow> unit pay" where
  "update_invoice_receipt E p receipt =
     sbind (slift (unpack_invoice_static (invoice_class.truncate E) (pay_data p))) (\<lambda>(m, payload).
     sbind (slift (pack_invoice_static (invoice_class.truncate E) (media_set_receipt E receipt m) payload)) (\<lambda>d.
     supd (\<lambda>db. db\<lparr>invoice_data := (invoice_data db)(pay_content p \<mapsto> d)\<rparr>)))"

definition send_bot_payment_messages :: "'m stars_env \<Rightarrow> payment \<Rightarrow> unit pay" where
  "send_bot_payment_messages E p =
     sbind (slift (payment_message E p)) (\<lambda>receipt.
     sthen (update_invoice_receipt E p receipt) (slift (other_messages E p)))"

definition finish_bot_payment :: "'m stars_env \<Rightarrow> payment \<Rightarrow> (stars_balance \<times> int list) pay" where
  "finish_bot_payment E p =
     sthen (delete_form (pay_form_id p))
    (sbind (slift (peer_of E (pay_user p) (pay_peer p))) (\<lambda>_.
     sbind (transfer_stars E (pay_user p) (pay_bot p) (pay_stars p) (Some (bot_net_stars (pay_stars p)))
        (bot_info p (pay_bot p)) (bot_info p (pay_user p))) (\<lambda>(b, _, _, _).
     sthen (send_bot_payment_messages E p) (sreturn (b, [pay_user p, pay_bot p])))))"

definition complete_bot_payment_form ::
    "'m stars_env \<Rightarrow> int \<Rightarrow> int \<Rightarrow> int \<Rightarrow> int \<Rightarrow> (stars_balance \<times> int list) pay" where
  "complete_bot_payment_form E u i peer msg =
     sbind (begin_bot_payment E u i peer msg) (\<lambda>p.
     sbind (slift (precheckout E p)) (\<lambda>_. finish_bot_payment E p))"

definition complete_payment_form :: "'m stars_env \<Rightarrow> int \<Rightarrow> int \<Rightarrow> invoice \<Rightarrow> (stars_balance \<times> int list) pay" where
  "complete_payment_form E u i iv =
     (case iv of InvoiceMessage peer msg \<Rightarrow> complete_bot_payment_form E u i peer msg
      | _ \<Rightarrow> complete_stars_form E u i iv)"

end
