(* ===== verification/StarsFacts.thy ===== *)
theory StarsFacts
  imports Stars Effects
begin

text \<open>
  The books of the star wallets: every balance is what its transactions say, and none is
  negative. Each operation keeps the books, whether it returns or raises; payments may be
  interleaved at the point where the bot is asked.
\<close>

section \<open>The books\<close>

definition wallet :: "int \<Rightarrow> stars_db \<Rightarrow> int" where
  "wallet u db = amount (balance_of u db)"

definition signed_amount :: "stars_tx \<Rightarrow> int" where
  "signed_amount t = (if inbound t then stars_amount t else - stars_amount t)"

definition ledger :: "int \<Rightarrow> stars_tx list \<Rightarrow> int" where
  "ledger u ts = sum_list (map signed_amount (filter (\<lambda>t. tx_user t = u) ts))"

definition books_ok :: "stars_db \<Rightarrow> bool" where
  "books_ok db \<longleftrightarrow> (\<forall>u. wallet u db = ledger u (transactions db)) \<and> (\<forall>u. 0 \<le> wallet u db)
     \<and> distinct (map transaction_id (transactions db))"

abbreviation keeps_books :: "'a pay \<Rightarrow> bool" where
  "keeps_books \<equiv> honours (keeps books_ok)"

interpretation books: guarantee "keeps books_ok"
  by unfold_locales (auto simp: keeps_def)

lemma ledger_snoc: "ledger u (ts @ [t]) = ledger u ts + (if tx_user t = u then signed_amount t else 0)"
  by (simp add: ledger_def)

lemma balance_of_upd: "balance_of v (db\<lparr>balances := (balances db)(u \<mapsto> b)\<rparr>) = (if v = u then b else balance_of v db)"
  by (simp add: balance_of_def)

text \<open>A balance saved together with the transaction that explains the change.\<close>

definition post :: "int \<Rightarrow> stars_balance \<Rightarrow> stars_tx \<Rightarrow> stars_db \<Rightarrow> stars_db" where
  "post u b t db = db\<lparr>balances := (balances db)(u \<mapsto> b), transactions := transactions db @ [t]\<rparr>"

lemma wallet_post: "wallet v (post u b t db) = (if v = u then amount b else wallet v db)"
  by (simp add: wallet_def balance_of_def post_def)

lemma transactions_post [simp]: "transactions (post u b t db) = transactions db @ [t]"
  by (simp add: post_def)

lemma post_books:
  assumes "books_ok db" "tx_user t = u" "amount b = wallet u db + signed_amount t" "0 \<le> amount b"
    and "transaction_id t \<notin> transaction_id ` set (transactions db)"
  shows "books_ok (post u b t db)"
proof -
  have "transactions (post u b t db) = transactions db @ [t]" by (simp add: post_def)
  then show ?thesis using assms by (auto simp: books_ok_def wallet_post ledger_snoc)
qed

lemma books_frame:
  assumes "\<And>s. balances (f s) = balances s" "\<And>s. transactions (f s) = transactions s"
  shows "keeps_books (supd f)"
  by (rule books.update) (auto simp: keeps_def books_ok_def wallet_def balance_of_def assms)

lemma get_or_create_books: "keeps_books (get_or_create_for u)"
proof (rule honoursI, rule keepsI)
  fix db assume "books_ok db"
  moreover have "wallet v (snd (get_or_create_for u db)) = wallet v db"
    "transactions (snd (get_or_create_for u db)) = transactions db" for v
    by (simp_all add: get_or_create_for_def wallet_def balance_of_upd)
  ultimately show "books_ok (snd (get_or_create_for u db))" by (metis books_ok_def)
qed

lemma ensure_books [simp]: "keeps_books (ensure b m)"
  by (simp add: ensure_def)

lemma ensure_then: "(b \<Longrightarrow> keeps_books k) \<Longrightarrow> keeps_books (sthen (ensure b m) k)"
  by (auto simp: ensure_def honours_def keeps_def act_defs)

lemma atomic_books:
  assumes "\<And>db x db'. books_ok db \<Longrightarrow> m db = (Inr x, db') \<Longrightarrow> books_ok db'"
  shows "keeps_books (in_transaction m)"
  by (rule honoursI, rule keepsI) (auto simp: in_transaction_def split: prod.split sum.split intro: assms)

section \<open>Operations keep the books\<close>

lemma create_tx_Inr:
  "create_tx E u n inb info db = (Inr t, db') \<longleftrightarrow>
     t = \<lparr>transaction_id = uuid E (length (transactions db)), tx_user = u, stars_amount = n,
          inbound = inb, tx_date = \<lfloor>now E\<rfloor>, tx_info = info\<rparr>
     \<and> transaction_id t \<notin> transaction_id ` set (transactions db)
     \<and> db' = db\<lparr>transactions := transactions db @ [t]\<rparr>"
  by (auto simp: create_tx_def Let_def)

lemma create_tx_bind:
  "sbind (create_tx E u n inb info) f db = (Inr y, db') \<longleftrightarrow>
     (\<exists>t. create_tx E u n inb info db = (Inr t, db\<lparr>transactions := transactions db @ [t]\<rparr>)
        \<and> f t (db\<lparr>transactions := transactions db @ [t]\<rparr>) = (Inr y, db'))"
  by (auto simp: create_tx_def sbind_def Let_def)

lemma save_post:
  "db\<lparr>balances := (balances db)(u \<mapsto> b), transactions := transactions db @ [t]\<rparr> = post u b t db"
  by (simp add: post_def)

lemma credit_result:
  assumes "credit_stars E u n inb info db = (Inr (b, t), db')"
  shows "db' = post u b t db" "amount b = wallet u db + n" "tx_user t = u" "stars_amount t = n"
    "inbound t = inb" "transaction_id t \<notin> transaction_id ` set (transactions db)" "tx_info t = info"
  using assms
  by (auto simp: credit_stars_def in_transaction_def get_or_create_for_def save_balance_def sbind_def
      sthen_def Let_def create_tx_def post_def wallet_def split: prod.splits sum.splits if_splits)

lemma credit_books: "0 \<le> n \<Longrightarrow> keeps_books (credit_stars E u n True info)"
proof (rule honoursI, rule keepsI)
  fix db assume n: "0 \<le> n" and ok: "books_ok db"
  show "books_ok (snd (credit_stars E u n True info db))"
  proof (cases "credit_stars E u n True info db")
    case (Pair r db')
    show ?thesis
    proof (cases r)
      case (Inl e)
      then show ?thesis using Pair ok
        by (auto simp: credit_stars_def in_transaction_def split: prod.splits sum.splits)
    next
      case (Inr bt)
      obtain b t where bt: "bt = (b, t)" by (cases bt)
      note res = credit_result [OF Pair [unfolded Inr bt]]
      have "books_ok (post u b t db)"
        by (rule post_books) (use res ok n in \<open>auto simp: signed_amount_def books_ok_def\<close>)
      then show ?thesis using Pair res(1) by simp
    qed
  qed
qed

lemma debit_result:
  assumes "debit_stars E u n info db = (Inr (b, t), db')"
  shows "db' = post u b t db" "amount b = wallet u db - n" "n \<le> wallet u db" "0 < n" "tx_user t = u"
    "stars_amount t = n" "\<not> inbound t" "transaction_id t \<notin> transaction_id ` set (transactions db)"
    "tx_info t = info"
  using assms
  by (auto simp: debit_stars_def in_transaction_def save_balance_def sbind_def ensure_def balance_of_def
      sthen_def Let_def create_tx_def post_def wallet_def split: prod.splits sum.splits if_splits option.splits)

lemma debit_raises: "debit_stars E u n info db = (Inl e, db') \<Longrightarrow> db' = db"
  by (auto simp: debit_stars_def in_transaction_def ensure_def sthen_def split: prod.splits sum.splits if_splits)

lemma debit_books: "keeps_books (debit_stars E u n info)"
proof (rule honoursI, rule keepsI)
  fix db assume ok: "books_ok db"
  obtain r db' where 1: "debit_stars E u n info db = (r, db')" by (metis surj_pair)
  show "books_ok (snd (debit_stars E u n info db))"
  proof (cases r)
    case (Inl e) then show ?thesis using 1 ok debit_raises by fastforce
  next
    case (Inr bt)
    obtain b t where bt: "bt = (b, t)" by (cases bt)
    note res = debit_result [OF 1 [unfolded Inr bt]]
    have "books_ok (post u b t db)"
      by (rule post_books) (use res ok in \<open>auto simp: signed_amount_def books_ok_def\<close>)
    then show ?thesis using 1 res(1) by simp
  qed
qed


lemma transfer_result:
  assumes "transfer_stars E u v n rec out_info in_info db = (Inr (p, q, t1, t2), db')" "u \<noteq> v"
  shows "db' = post v q t2 (post u p t1 db)" "amount p = wallet u db - n" "n \<le> wallet u db"
    "amount q = wallet v db + (case rec of None \<Rightarrow> n | Some k \<Rightarrow> k)"
    "0 < (case rec of None \<Rightarrow> n | Some k \<Rightarrow> k)" "(case rec of None \<Rightarrow> n | Some k \<Rightarrow> k) \<le> n"
    "tx_user t1 = u" "stars_amount t1 = n" "\<not> inbound t1" "tx_info t1 = out_info"
    "tx_user t2 = v" "stars_amount t2 = (case rec of None \<Rightarrow> n | Some k \<Rightarrow> k)" "inbound t2" "tx_info t2 = in_info"
    "transaction_id t1 \<notin> transaction_id ` set (transactions db)"
    "transaction_id t2 \<notin> insert (transaction_id t1) (transaction_id ` set (transactions db))"
  using assms
  by (auto simp: transfer_stars_def in_transaction_def get_or_create_for_def save_balance_def sbind_def
      ensure_def balance_of_def sthen_def Let_def create_tx_def post_def wallet_def fun_upd_twist
      split: prod.splits sum.splits if_splits option.splits)

lemma transfer_raises: "transfer_stars E u v n rec out_info in_info db = (Inl e, db') \<Longrightarrow> db' = db"
  by (auto simp: transfer_stars_def in_transaction_def ensure_def sthen_def Let_def
      split: prod.splits sum.splits if_splits)

lemma transfer_books:
  assumes "u \<noteq> v"
  shows "keeps_books (transfer_stars E u v n rec out_info in_info)"
proof (rule honoursI, rule keepsI)
  fix db assume ok: "books_ok db"
  obtain r db' where 1: "transfer_stars E u v n rec out_info in_info db = (r, db')" by (metis surj_pair)
  show "books_ok (snd (transfer_stars E u v n rec out_info in_info db))"
  proof (cases r)
    case (Inl e) then show ?thesis using 1 ok transfer_raises by fastforce
  next
    case (Inr x)
    obtain p q t1 t2 where x: "x = (p, q, t1, t2)" by (metis surj_pair)
    note res = transfer_result [OF 1 [unfolded Inr x] assms]
    have "books_ok (post u p t1 db)"
      by (rule post_books) (use res ok in \<open>auto simp: signed_amount_def books_ok_def\<close>)
    then have "books_ok (post v q t2 (post u p t1 db))"
      by (rule post_books) (use res ok assms in \<open>auto simp: signed_amount_def wallet_post books_ok_def\<close>)
    then show ?thesis using 1 res(1) by simp
  qed
qed


lemma grant_books: "0 \<le> n \<Longrightarrow> keeps_books (grant_stars E u n title description)"
  unfolding grant_stars_def get_stars_bot_user_id_def
  by (intro books.bind books.nothing credit_books) (auto split: prod.split intro: books.nothing)

lemma spend_books: "keeps_books (spend_stars E u n info)"
  unfolding spend_stars_def
  by (intro books.bind debit_books) (auto split: prod.split intro: books.nothing)

lemma set_balance_books: "keeps_books (set_stars_balance E u target title description)"
proof -
  have "keeps_books (in_transaction
        (sbind (get_or_create_for u) (\<lambda>b.
         if amount b = target then sreturn b
         else let b' = b\<lparr>amount := target\<rparr>; info = peer_info title d (Some bot) in
           sthen (save_balance u b')
          (sbind (if target > amount b
                  then create_tx E u (target - amount b) True info
                  else create_tx E u (amount b - target) False info) (\<lambda>_. sreturn b')))))"
    if "0 \<le> target" for d bot
  proof (rule atomic_books)
    fix db x db'
    assume ok: "books_ok db" and run: "sbind (get_or_create_for u) (\<lambda>b.
         if amount b = target then sreturn b
         else let b' = b\<lparr>amount := target\<rparr>; info = peer_info title d (Some bot) in
           sthen (save_balance u b')
          (sbind (if target > amount b
                  then create_tx E u (target - amount b) True info
                  else create_tx E u (amount b - target) False info) (\<lambda>_. sreturn b'))) db = (Inr x, db')"
    define db1 where "db1 = snd (get_or_create_for u db)"
    have ok1: "books_ok db1" using get_or_create_books ok by (auto simp: db1_def honours_def keeps_def)
    let ?b = "balance_of u db"
    have get: "get_or_create_for u db = (Inr ?b, db1)" by (simp add: get_or_create_for_def db1_def)
    have w: "wallet u db1 = amount ?b" by (simp add: db1_def get_or_create_for_def wallet_def balance_of_upd)
    show "books_ok db'"
    proof (cases "amount ?b = target")
      case True then show ?thesis using run ok1 get by (simp add: sbind_def)
    next
      case False
      then obtain t where db': "db' = post u (?b\<lparr>amount := target\<rparr>) t db1"
        and t: "tx_user t = u" "signed_amount t = target - amount ?b"
          "transaction_id t \<notin> transaction_id ` set (transactions db1)"
        using run get
        by (auto simp: sbind_def save_balance_def sthen_def Let_def create_tx_def post_def signed_amount_def
            split: if_splits)
      show ?thesis unfolding db' by (rule post_books) (use ok1 t w that in auto)
    qed
  qed
  then show ?thesis unfolding set_stars_balance_def get_stars_bot_user_id_def
    by (intro ensure_then books.bind books.nothing)
qed


section \<open>Forms and payments\<close>

lemma form_books [simp]: "keeps_books (delete_form i)" "keeps_books (create_form i f)"
proof -
  show "keeps_books (delete_form i)" unfolding delete_form_def by (rule books_frame) simp_all
  show "keeps_books (create_form i f)"
    by (rule honoursI, rule keepsI) (auto simp: create_form_def books_ok_def wallet_def balance_of_def)
qed

text \<open>Code that reads the tables and goes on.\<close>

lemma read_books: "(\<And>db. keeps_books (f db)) \<Longrightarrow> keeps_books (\<lambda>db. f db db)"
  by (simp add: honours_def)

lemma load_books: "keeps_books (load_bot_invoice_message E u peer msg)"
proof -
  have "snd (load_bot_invoice_message E u peer msg db) = db" for db
    by (auto simp: load_bot_invoice_message_def ensure_def act_defs split: sum.split option.split prod.split)
  then show ?thesis by (simp add: honours_def keeps_def)
qed

lemma create_payment_form_books: "keeps_books (create_payment_form E i u iv)"
proof -
  have bot: "keeps_books (create_bot_payment_form E i u peer msg)" for peer msg
    unfolding create_bot_payment_form_def Let_def
    by (intro books.bind load_books) (auto split: prod.split intro!: books.seq)
  have other: "keeps_books (sbind (slift (parse_stars_invoice E u iv)) (\<lambda>(purpose, stars, currency, amt, gift).
          sthen (ensure (purpose = GIFT \<longrightarrow> (case gift of None \<Rightarrow> False | Some g \<Rightarrow> user_exists E g)) ''USER_ID_INVALID'')
         (sthen (create_form i
            \<lparr>pf_user = u, pf_purpose = purpose, pf_stars = stars, pf_currency = currency,
             pf_amount = amt, pf_gift_user = gift, pf_bot_user = None, pf_message = None,
             pf_payload = None, pf_expires_at = gen_expires_at E\<rparr>)
           (sreturn i))))"
    by (intro books.bind books.nothing) (auto split: prod.split intro!: books.seq)
  show ?thesis using bot other by (auto simp: create_payment_form_def split: invoice.split)
qed

lemma settle_gift_books: "0 \<le> n \<Longrightarrow> keeps_books (settle_gift E u recipient n with_stars)"
  unfolding settle_gift_def
  by (intro books.bind)
    (auto split: prod.split intro!: books.bind debit_books credit_books get_or_create_books)

lemma parse_positive:
  "parse_stars_invoice E u iv = Inr (purpose, stars, currency, amt, gift) \<Longrightarrow> 0 < stars"
  by (cases "(E, u, iv)" rule: parse_stars_invoice.cases) (auto simp: rbind_Inr_iff split: if_splits)

lemma complete_stars_books: "keeps_books (complete_stars_form E u i iv)"
proof (cases "parse_stars_invoice E u iv")
  case (Inl e)
  then show ?thesis by (simp add: complete_stars_form_def honours_def keeps_def act_defs)
next
  case (Inr y)
  obtain purpose stars currency amt gift where y: "y = (purpose, stars, currency, amt, gift)" by (metis surj_pair)
  have n: "0 \<le> stars" using parse_positive Inr y by fastforce
  have "keeps_books (settle_form E u i purpose stars gift f)" for f
    unfolding settle_form_def
    by (intro books.branch books.seq books.bind credit_books n)
      (auto split: prod.split option.split intro: settle_gift_books n)
  then show ?thesis
    by (auto simp: complete_stars_form_def Inr y honours_def keeps_def act_defs(3,7) split: option.split)
qed

lemma begin_books: "keeps_books (begin_bot_payment E u i peer msg)"
proof -
  have "keeps_books (check_bot_form E u i peer msg f r d m payload)" for f r d m payload
    by (auto simp: check_bot_form_def intro!: books.seq)
  then have "keeps_books (sbind (load_bot_invoice_message E u peer msg) (\<lambda>(r, d, m, payload).
          check_bot_form E u i peer msg f r d m payload))" for f
    by (intro books.bind load_books) (auto split: prod.split)
  then show ?thesis
    by (auto simp: begin_bot_payment_def honours_def keeps_def split: option.split)
qed

lemma finish_books:
  assumes "pay_user p \<noteq> pay_bot p"
  shows "keeps_books (finish_bot_payment E p)"
proof -
  have "keeps_books (update_invoice_receipt E p receipt)" for receipt
    unfolding update_invoice_receipt_def
    by (intro books.bind) (auto split: prod.split intro!: books.bind books_frame)
  then have "keeps_books (send_bot_payment_messages E p)"
    unfolding send_bot_payment_messages_def by (intro books.bind books.seq) simp_all
  then show ?thesis
    unfolding finish_bot_payment_def
    by (intro books.bind books.seq transfer_books assms) (auto split: prod.split intro: books.seq)
qed

end
