(* ===== verification/StarsRun.thy ===== *)
theory StarsRun
  imports StarsFacts
begin

text \<open>
  Runs of the star wallets: requests of different users one after the other, with the payments
  of invoices split where the bot is asked. First the books over every run, then what a
  completed, an interleaved and a refused payment leave behind, and the pages of the history.
\<close>

section \<open>Runs\<close>

record pay_world =
  tables :: stars_db
  asked :: "payment list"

definition empty_tables :: "(int \<times> int \<Rightarrow> message_ref option) \<Rightarrow> (int \<Rightarrow> byte list option) \<Rightarrow> stars_db" where
  "empty_tables refs data =
     \<lparr>balances = Map.empty, transactions = [], payment_forms = Map.empty, message_refs = refs, invoice_data = data\<rparr>"

text \<open>
  What outside code answers may differ from step to step: the step takes one environment of a
  set. Payment requests are closed to bots.
\<close>

inductive pay_step :: "'m stars_env set \<Rightarrow> (int \<Rightarrow> bool) \<Rightarrow> pay_world \<Rightarrow> pay_world \<Rightarrow> bool"
  for Es bots where
  new_form: "E \<in> Es \<Longrightarrow> is_bot_user E = bots \<Longrightarrow> \<not> bots u \<Longrightarrow>
     create_payment_form E i u iv (tables w) = (r, db) \<Longrightarrow> pay_step Es bots w (w\<lparr>tables := db\<rparr>)"
| grant: "E \<in> Es \<Longrightarrow> 0 < n \<Longrightarrow>
     grant_stars E u n title d (tables w) = (r, db) \<Longrightarrow> pay_step Es bots w (w\<lparr>tables := db\<rparr>)"
| adjust: "E \<in> Es \<Longrightarrow>
     set_stars_balance E u n title d (tables w) = (r, db) \<Longrightarrow> pay_step Es bots w (w\<lparr>tables := db\<rparr>)"
| spend: "E \<in> Es \<Longrightarrow> spend_stars E u n info (tables w) = (r, db) \<Longrightarrow> pay_step Es bots w (w\<lparr>tables := db\<rparr>)"
| pay_stars_form: "E \<in> Es \<Longrightarrow> \<not> bots u \<Longrightarrow>
     complete_stars_form E u i iv (tables w) = (r, db) \<Longrightarrow> pay_step Es bots w (w\<lparr>tables := db\<rparr>)"
| refuse: "E \<in> Es \<Longrightarrow> is_bot_user E = bots \<Longrightarrow> \<not> bots u \<Longrightarrow>
     begin_bot_payment E u i peer msg (tables w) = (Inl e, db) \<Longrightarrow> pay_step Es bots w (w\<lparr>tables := db\<rparr>)"
| ask: "E \<in> Es \<Longrightarrow> is_bot_user E = bots \<Longrightarrow> \<not> bots u \<Longrightarrow>
     begin_bot_payment E u i peer msg (tables w) = (Inr p, db) \<Longrightarrow>
     pay_step Es bots w (w\<lparr>tables := db, asked := p # asked w\<rparr>)"
| bot_accepts: "E \<in> Es \<Longrightarrow> p \<in> set (asked w) \<Longrightarrow> precheckout E p = Inr () \<Longrightarrow>
     finish_bot_payment E p (tables w) = (r, db) \<Longrightarrow>
     pay_step Es bots w (w\<lparr>tables := db, asked := remove1 p (asked w)\<rparr>)"
| bot_refuses: "p \<in> set (asked w) \<Longrightarrow> pay_step Es bots w (w\<lparr>asked := remove1 p (asked w)\<rparr>)"

inductive pay_reachable :: "'m stars_env set \<Rightarrow> (int \<Rightarrow> bool) \<Rightarrow> pay_world \<Rightarrow> bool"
  for Es bots where
  start: "pay_reachable Es bots \<lparr>tables = empty_tables refs data, asked = []\<rparr>"
| step: "pay_reachable Es bots w \<Longrightarrow> pay_step Es bots w w' \<Longrightarrow> pay_reachable Es bots w'"

definition pay_inv :: "(int \<Rightarrow> bool) \<Rightarrow> pay_world \<Rightarrow> bool" where
  "pay_inv bots w \<longleftrightarrow> books_ok (tables w) \<and> (\<forall>p \<in> set (asked w). \<not> bots (pay_user p) \<and> bots (pay_bot p))"

lemma books_step: "keeps_books m \<Longrightarrow> books_ok db \<Longrightarrow> m db = (r, db') \<Longrightarrow> books_ok db'"
  by (metis honoursD keeps_def)

lemma load_InrD:
  assumes "load_bot_invoice_message E u peer msg db = (Inr (r, d, m, payload), db')"
  obtains p where "peer_of E u peer = Inr p" "message_refs db (p, msg) = Some r"
    "is_bot_user E (mr_author r)" "invoice_data db (mr_content r) = Some d"
    "unpack_invoice_static (invoice_class.truncate E) d = Inr (m, payload)"
    "media_currency E m = STARS_CURRENCY" "media_receipt E m = None" "db' = db"
proof -
  obtain p where p: "peer_of E u peer = Inr p"
    using assms by (cases "peer_of E u peer") (auto simp: load_bot_invoice_message_def act_defs)
  obtain r0 where r0: "message_refs db (p, msg) = Some r0" "is_bot_user E (mr_author r0)"
    using assms p by (auto simp: load_bot_invoice_message_def act_defs split: option.splits if_splits)
  obtain d0 where d0: "invoice_data db (mr_content r0) = Some d0"
    using assms p r0 by (auto simp: load_bot_invoice_message_def act_defs split: option.splits)
  obtain m0 payload0 where u: "unpack_invoice_static (invoice_class.truncate E) d0 = Inr (m0, payload0)"
    using assms p r0 d0
    by (cases "unpack_invoice_static (invoice_class.truncate E) d0")
      (auto simp: load_bot_invoice_message_def act_defs)
  show thesis
    using assms p r0 d0 u
    by (intro that [of p])
      (auto simp: load_bot_invoice_message_def ensure_def act_defs split: if_splits)
qed

lemma begin_InrD:
  assumes "begin_bot_payment E u i peer msg db = (Inr p, db')"
  obtains f r m where "get_form i u db = Some f"
    "load_bot_invoice_message E u peer msg db = (Inr (r, pay_data p, m, pay_payload p), db)" "db' = db"
    "pf_stars f = pay_stars p" "\<not> form_is_expired E f" "pay_stars p = media_total_amount E m"
    "pay_user p = u" "pay_form_id p = i" "pay_peer p = peer" "pay_message p = msg"
    "pay_content p = mr_content r" "pay_bot p = mr_author r"
proof -
  obtain f where f: "get_form i u db = Some f"
    using assms by (auto simp: begin_bot_payment_def split: option.splits)
  then have 1: "sbind (load_bot_invoice_message E u peer msg) (\<lambda>(r, d, m, payload).
      check_bot_form E u i peer msg f r d m payload) db = (Inr p, db')"
    using assms by (simp add: begin_bot_payment_def)
  then obtain r d m payload db1 where
    2: "load_bot_invoice_message E u peer msg db = (Inr (r, d, m, payload), db1)"
      "check_bot_form E u i peer msg f r d m payload db1 = (Inr p, db')"
    by (auto simp: sbind_def split: prod.splits sum.splits)
  have "db1 = db" using load_InrD [OF 2(1)] .
  then show thesis using 2 f
    by (intro that [of f r m]) (auto simp: check_bot_form_def delete_form_def ensure_def act_defs split: if_splits)
qed

lemma pay_step_inv: "pay_step Es bots w w' \<Longrightarrow> pay_inv bots w \<Longrightarrow> pay_inv bots w'"
proof (induction rule: pay_step.induct)
  case (ask E u i peer msg w p db)
  have "is_bot_user E (pay_bot p)"
    using begin_InrD [OF ask(4)] load_InrD by metis
  moreover have "pay_user p = u" using begin_InrD [OF ask(4)] by metis
  ultimately show ?case using ask books_step [OF begin_books _ ask(4)] by (auto simp: pay_inv_def)
next
  case (grant E n u title d w r db)
  then show ?case using books_step [OF grant_books _ grant(3)] by (auto simp: pay_inv_def)
next
  case (bot_accepts E p w r db)
  then have "pay_user p \<noteq> pay_bot p" by (auto simp: pay_inv_def)
  then have "books_ok db" using bot_accepts books_step [OF finish_books] by (auto simp: pay_inv_def)
  then show ?case using bot_accepts by (auto simp: pay_inv_def dest: notin_set_remove1)
qed (auto simp: pay_inv_def dest: notin_set_remove1
      intro: books_step [OF create_payment_form_books] books_step [OF set_balance_books]
        books_step [OF spend_books] books_step [OF complete_stars_books] books_step [OF begin_books])

lemma pay_reachable_inv: "pay_reachable Es bots w \<Longrightarrow> pay_inv bots w"
proof (induction rule: pay_reachable.induct)
  case (start refs data)
  show ?case by (simp add: pay_inv_def empty_tables_def books_ok_def wallet_def balance_of_def ledger_def)
qed (rule pay_step_inv)

section \<open>The invoice as stored\<close>

definition class_ok :: "'m invoice_class \<Rightarrow> bool" where
  "class_ok L \<longleftrightarrow> (\<forall>m bs. media_write L m = Inr bs \<longrightarrow> media_read L bs = Inr m)
     \<and> (\<forall>r m. media_receipt L (media_set_receipt L r m) = Some r
           \<and> media_currency L (media_set_receipt L r m) = media_currency L m)"

lemma unpack_pack:
  assumes "class_ok L" "pack_invoice_static L m payload = Inr d"
  shows "unpack_invoice_static L d = Inr (m, payload)"
proof -
  obtain bs n where bs: "media_write L m = Inr bs" "py_to_bytes_le 4 False (int (length bs)) = Inr n"
    and d: "d = n @ bs @ payload"
    using assms(2) by (auto simp: pack_invoice_static_def rbind_Inr_iff)
  have n: "length n = 4" "py_from_bytes_le False n = int (length bs)"
    using py_to_bytes_le_length [OF bs(2)] py_from_to_bytes_le [OF bs(2)] by auto
  moreover have "media_read L bs = Inr m" using assms(1) bs(1) by (auto simp: class_ok_def)
  ultimately show ?thesis by (simp add: unpack_invoice_static_def d)
qed

section \<open>What a payment leaves behind\<close>

lemma finish_InrD:
  assumes "finish_bot_payment E p db = (Inr y, db')" "pay_user p \<noteq> pay_bot p"
  obtains pr b q t1 t2 receipt db1 m payload d where
    "peer_of E (pay_user p) (pay_peer p) = Inr pr"
    "transfer_stars E (pay_user p) (pay_bot p) (pay_stars p) (Some (bot_net_stars (pay_stars p)))
       (bot_info p (pay_bot p)) (bot_info p (pay_user p))
       (db\<lparr>payment_forms := (payment_forms db)(pay_form_id p := None)\<rparr>) = (Inr (b, q, t1, t2), db1)"
    "payment_message E p = Inr receipt" "other_messages E p = Inr ()"
    "unpack_invoice_static (invoice_class.truncate E) (pay_data p) = Inr (m, payload)"
    "pack_invoice_static (invoice_class.truncate E) (media_set_receipt E receipt m) payload = Inr d"
    "db' = db1\<lparr>invoice_data := (invoice_data db1)(pay_content p \<mapsto> d)\<rparr>"
    "y = (b, [pay_user p, pay_bot p])"
  using assms
  by (auto simp: finish_bot_payment_def delete_form_def send_bot_payment_messages_def
      update_invoice_receipt_def sbind_def sthen_def split: prod.splits sum.splits if_splits)

lemma transfer_frame:
  "transfer_stars E u v n rec out_info in_info db = (Inr (p, q, t1, t2), db') \<Longrightarrow> u \<noteq> v \<Longrightarrow>
     payment_forms db' = payment_forms db \<and> message_refs db' = message_refs db \<and> invoice_data db' = invoice_data db"
  using transfer_result(1) by (fastforce simp: post_def)


text \<open>
  A completed payment of an invoice takes the price from the payer, gives the bot its share, uses
  up the form and leaves the receipt on the invoice, where every later payment of the same
  content meets it.
\<close>

lemma payment_result:
  assumes run: "finish_bot_payment E p db = (Inr y, db')" and ne: "pay_user p \<noteq> pay_bot p"
  shows "wallet (pay_user p) db' = wallet (pay_user p) db - pay_stars p"
    and "wallet (pay_bot p) db' = wallet (pay_bot p) db + bot_net_stars (pay_stars p)"
    and "v \<notin> {pay_user p, pay_bot p} \<Longrightarrow> wallet v db' = wallet v db"
    and "payment_forms db' = (payment_forms db)(pay_form_id p := None)"
    and "message_refs db' = message_refs db"
    and "\<exists>t1 t2. transactions db' = transactions db @ [t1, t2] \<and> \<not> inbound t1 \<and> tx_user t1 = pay_user p
          \<and> stars_amount t1 = pay_stars p \<and> ti_msg_id (tx_info t1) = Some (pay_message p)"
    and "pay_stars p \<le> wallet (pay_user p) db"
proof -
  obtain pr b q t1 t2 receipt db1 m payload d where
    t: "transfer_stars E (pay_user p) (pay_bot p) (pay_stars p) (Some (bot_net_stars (pay_stars p)))
       (bot_info p (pay_bot p)) (bot_info p (pay_user p))
       (db\<lparr>payment_forms := (payment_forms db)(pay_form_id p := None)\<rparr>) = (Inr (b, q, t1, t2), db1)"
    and db': "db' = db1\<lparr>invoice_data := (invoice_data db1)(pay_content p \<mapsto> d)\<rparr>"
    using finish_InrD [OF run ne] by metis
  have w: "wallet v db' = wallet v db1" "wallet v (db\<lparr>payment_forms := fs\<rparr>) = wallet v db" for v fs
    by (simp_all add: db' wallet_def balance_of_def)
  note r = transfer_result [OF t ne] and fr = transfer_frame [OF t ne]
  show "wallet (pay_user p) db' = wallet (pay_user p) db - pay_stars p"
    "wallet (pay_bot p) db' = wallet (pay_bot p) db + bot_net_stars (pay_stars p)"
    "v \<notin> {pay_user p, pay_bot p} \<Longrightarrow> wallet v db' = wallet v db"
    "pay_stars p \<le> wallet (pay_user p) db"
    using r ne by (simp_all add: w wallet_post)
  show "payment_forms db' = (payment_forms db)(pay_form_id p := None)" "message_refs db' = message_refs db"
    using fr by (simp_all add: db')
  show "\<exists>t1 t2. transactions db' = transactions db @ [t1, t2] \<and> \<not> inbound t1 \<and> tx_user t1 = pay_user p
          \<and> stars_amount t1 = pay_stars p \<and> ti_msg_id (tx_info t1) = Some (pay_message p)"
    using r by (intro exI [of _ t1] exI [of _ t2]) (simp add: db' bot_info_def)
qed

lemma receipt_stays:
  assumes L: "class_ok (invoice_class.truncate E)"
    and ask: "begin_bot_payment E u i peer msg db = (Inr p, db0)"
    and run: "finish_bot_payment E p db1 = (Inr y, db2)" and ne: "pay_user p \<noteq> pay_bot p"
  shows "\<exists>d m payload r. invoice_data db2 (pay_content p) = Some d
     \<and> unpack_invoice_static (invoice_class.truncate E) d = Inr (m, payload)
     \<and> media_receipt E m = Some r \<and> media_currency E m = STARS_CURRENCY"
proof -
  obtain receipt db3 m payload d where
    un: "unpack_invoice_static (invoice_class.truncate E) (pay_data p) = Inr (m, payload)"
    and pk: "pack_invoice_static (invoice_class.truncate E) (media_set_receipt E receipt m) payload = Inr d"
    and db': "db2 = db3\<lparr>invoice_data := (invoice_data db3)(pay_content p \<mapsto> d)\<rparr>"
    using finish_InrD [OF run ne] by metis
  obtain r' m' where "load_bot_invoice_message E u peer msg db = (Inr (r', pay_data p, m', pay_payload p), db)"
    using begin_InrD [OF ask] by metis
  then have "unpack_invoice_static (invoice_class.truncate E) (pay_data p) = Inr (m', pay_payload p)"
    "media_currency E m' = STARS_CURRENCY" using load_InrD by metis+
  then have "media_currency E m = STARS_CURRENCY" using un by simp
  moreover have "media_receipt E (media_set_receipt E receipt m) = Some receipt"
    "media_currency E (media_set_receipt E receipt m) = media_currency E m"
    using L by (auto simp: class_ok_def invoice_class.truncate_def)
  ultimately show ?thesis using unpack_pack [OF L pk] by (auto simp: db')
qed

lemma invoice_paid_once:
  assumes L: "class_ok (invoice_class.truncate E)"
    and ask: "begin_bot_payment E u i peer msg db = (Inr p, db0)"
    and run: "finish_bot_payment E p db1 = (Inr y, db2)" and ne: "pay_user p \<noteq> pay_bot p"
    and same: "peer_of E v peer' = Inr q" "message_refs db2 (q, msg') = Some r"
      "mr_content r = pay_content p" "is_bot_user E (mr_author r)"
  shows "load_bot_invoice_message E v peer' msg' db2 = (Inl (err400 ''MEDIA_ALREADY_PAID''), db2)"
  using receipt_stays [OF L ask run ne] same
  by (auto simp: load_bot_invoice_message_def ensure_def act_defs)

text \<open>
  Two payments that were both begun before either was finished are both carried out: nothing is
  checked again after the bot's answer.
\<close>

lemma transfer_succeeds:
  assumes "u \<noteq> v" "balances db u \<noteq> None" "n \<le> wallet u db" "0 < k" "k \<le> n"
    and "uuid E (length (transactions db)) \<notin> transaction_id ` set (transactions db)"
    and "uuid E (Suc (length (transactions db))) \<notin> transaction_id ` set (transactions db)"
    and "uuid E (Suc (length (transactions db))) \<noteq> uuid E (length (transactions db))"
  shows "\<exists>y db'. transfer_stars E u v n (Some k) out_info in_info db = (Inr y, db')"
  using assms
  by (auto simp: transfer_stars_def in_transaction_def get_or_create_for_def save_balance_def sbind_def
      ensure_def sthen_def Let_def create_tx_def wallet_def balance_of_def)

lemma paid_twice:
  assumes first: "finish_bot_payment E p db = (Inr y, db1)" and ne: "pay_user p \<noteq> pay_bot p"
    and rich: "2 * pay_stars p \<le> wallet (pay_user p) db"
    and fresh: "\<And>j. length (transactions db1) \<le> j \<Longrightarrow> uuid E j \<notin> transaction_id ` set (transactions db1)"
      "\<And>j. uuid E (Suc j) \<noteq> uuid E j"
  shows "\<exists>y2 db2. finish_bot_payment E p db1 = (Inr y2, db2)
    \<and> wallet (pay_user p) db2 = wallet (pay_user p) db - 2 * pay_stars p"
proof -
  let ?db = "db1\<lparr>payment_forms := (payment_forms db1)(pay_form_id p := None)\<rparr>"
  let ?net = "bot_net_stars (pay_stars p)"
  obtain pr b q t1 t2 receipt db0 m payload d where
    f: "peer_of E (pay_user p) (pay_peer p) = Inr pr"
    "transfer_stars E (pay_user p) (pay_bot p) (pay_stars p) (Some ?net) (bot_info p (pay_bot p))
       (bot_info p (pay_user p)) (db\<lparr>payment_forms := (payment_forms db)(pay_form_id p := None)\<rparr>)
       = (Inr (b, q, t1, t2), db0)"
    "payment_message E p = Inr receipt" "other_messages E p = Inr ()"
    "unpack_invoice_static (invoice_class.truncate E) (pay_data p) = Inr (m, payload)"
    "pack_invoice_static (invoice_class.truncate E) (media_set_receipt E receipt m) payload = Inr d"
    "db1 = db0\<lparr>invoice_data := (invoice_data db0)(pay_content p \<mapsto> d)\<rparr>"
    using finish_InrD [OF first ne] by metis
  have w1: "wallet (pay_user p) db1 = wallet (pay_user p) db - pay_stars p"
    using payment_result(1) [OF first ne] .
  have w: "wallet v ?db = wallet v db1" for v by (simp add: wallet_def balance_of_def)
  have net: "0 < ?net" "?net \<le> pay_stars p" using transfer_result(5,6) [OF f(2) ne] by auto
  have "balances db1 (pay_user p) = Some b"
    using transfer_result(1) [OF f(2) ne] ne by (simp add: f(7) post_def)
  then have "\<exists>z db2. transfer_stars E (pay_user p) (pay_bot p) (pay_stars p) (Some ?net)
      (bot_info p (pay_bot p)) (bot_info p (pay_user p)) ?db = (Inr z, db2)"
    by (intro transfer_succeeds) (use ne net rich fresh w1 w in simp_all)
  then obtain z db2 where z: "transfer_stars E (pay_user p) (pay_bot p) (pay_stars p) (Some ?net)
      (bot_info p (pay_bot p)) (bot_info p (pay_user p)) ?db = (Inr z, db2)" by blast
  obtain b' q' t1' t2' where zz: "z = (b', q', t1', t2')" by (metis surj_pair)
  have "\<exists>y2 db3. finish_bot_payment E p db1 = (Inr y2, db3)"
    using f z zz by (simp add: finish_bot_payment_def delete_form_def send_bot_payment_messages_def
        update_invoice_receipt_def sbind_def sthen_def act_defs)
  then obtain y2 db3 where 2: "finish_bot_payment E p db1 = (Inr y2, db3)" by blast
  then show ?thesis using payment_result(1) [OF 2 ne] w1 by auto
qed

lemma refused_payment_uses_form:
  assumes "peer_of E (pay_user p) (pay_peer p) = Inr q"
    and "pay_stars p = 1 \<or> wallet (pay_user p) db < pay_stars p"
  shows "\<exists>m. finish_bot_payment E p db = (Inl (err400 m), db\<lparr>payment_forms := (payment_forms db)(pay_form_id p := None)\<rparr>)"
proof -
  let ?db = "db\<lparr>payment_forms := (payment_forms db)(pay_form_id p := None)\<rparr>"
  have net: "bot_net_stars 1 = 0" by (simp add: bot_net_stars_def)
  have "wallet (pay_user p) ?db = wallet (pay_user p) db" by (simp add: wallet_def balance_of_def)
  then have "\<exists>m. transfer_stars E (pay_user p) (pay_bot p) (pay_stars p) (Some (bot_net_stars (pay_stars p)))
      (bot_info p (pay_bot p)) (bot_info p (pay_user p)) ?db = (Inl (err400 m), ?db)"
    using assms(2) net
    by (auto simp: transfer_stars_def ensure_def in_transaction_def act_defs wallet_def balance_of_def Let_def
        split: option.splits)
  then obtain m where "transfer_stars E (pay_user p) (pay_bot p) (pay_stars p) (Some (bot_net_stars (pay_stars p)))
      (bot_info p (pay_bot p)) (bot_info p (pay_user p)) ?db = (Inl (err400 m), ?db)" ..
  then have "finish_bot_payment E p db = (Inl (err400 m), ?db)" using assms(1)
    by (simp add: finish_bot_payment_def delete_form_def act_defs)
  then show ?thesis ..
qed

lemma transfer_to_self:
  assumes "transfer_stars E u u n rec out_info in_info db = (Inr y, db')"
  shows "wallet u db' = wallet u db + (case rec of None \<Rightarrow> n | Some k \<Rightarrow> k)"
  using assms
  by (auto simp: transfer_stars_def in_transaction_def get_or_create_for_def save_balance_def sbind_def
      ensure_def balance_of_def sthen_def Let_def create_tx_def wallet_def
      split: prod.splits sum.splits if_splits option.splits)

end
