(* ===== verification/StarsHistory.thy ===== *)
theory StarsHistory
  imports Stars
begin

text \<open>
  The pages of a wallet's history, as a client asks for them: from the first page on, each with
  the offset the page before returned. The pages are the history: nothing is skipped, nothing
  is shown twice.
\<close>

fun history_pages ::
    "nat \<Rightarrow> int \<Rightarrow> bool \<Rightarrow> bool \<Rightarrow> bool \<Rightarrow> int \<Rightarrow> stars_db \<Rightarrow> string \<Rightarrow> stars_tx list list option" where
  "history_pages 0 wallet inb outb ascending limit db offset = None"
| "history_pages (Suc n) wallet inb outb ascending limit db offset =
     (case fetch_transactions wallet inb outb ascending offset limit None db of
        (page, None) \<Rightarrow> Some [page]
      | (page, Some next) \<Rightarrow>
          map_option (Cons page) (history_pages n wallet inb outb ascending limit db next))"

definition wallet_history :: "int \<Rightarrow> bool \<Rightarrow> bool \<Rightarrow> bool \<Rightarrow> stars_db \<Rightarrow> stars_tx list" where
  "wallet_history wallet inb outb ascending db =
     order_txs ascending (filter (\<lambda>t. tx_user t = wallet \<and> direction_ok inb outb t) (transactions db))"

definition ids_ok :: "stars_db \<Rightarrow> bool" where
  "ids_ok db \<longleftrightarrow> distinct (map transaction_id (transactions db)) \<and> [] \<notin> transaction_id ` set (transactions db)"

definition comes_after :: "bool \<Rightarrow> stars_tx \<Rightarrow> stars_tx \<Rightarrow> bool" where
  "comes_after ascending p t = (if ascending then tx_key p < tx_key t else tx_key t < tx_key p)"

lemma past_offset_Some: "past_offset ascending (Some p) = comes_after ascending p"
  by (auto simp: past_offset_def comes_after_def tx_key_def fun_eq_iff)

lemma order_txs_filter: "order_txs ascending (filter P ts) = filter P (order_txs ascending ts)"
  by (simp add: order_txs_def rev_filter flip: filter_sort)

lemma order_txs_set [simp]: "set (order_txs ascending ts) = set ts"
  by (simp add: order_txs_def)

lemma order_txs_strict:
  assumes "distinct (map transaction_id ts)"
  shows "sorted_wrt (comes_after ascending) (order_txs ascending ts)"
proof -
  have "distinct (map tx_key ts)"
    using assms by (auto simp: distinct_map tx_key_def inj_on_def)
  then have "distinct (map tx_key (sort_key tx_key ts))" by (simp add: distinct_map)
  then have s: "sorted_wrt (<) (map tx_key (sort_key tx_key ts))"
    by (simp add: strict_sorted_iff)
  then have "sorted_wrt (\<lambda>p t. tx_key p < tx_key t) (sort_key tx_key ts)" by (simp add: sorted_wrt_map)
  then show ?thesis by (auto simp: order_txs_def sorted_wrt_rev comes_after_def [abs_def])
qed

lemma after_last:
  assumes "sorted_wrt (comes_after ascending) (xs @ ys)" "xs \<noteq> []"
  shows "filter (comes_after ascending (last xs)) (xs @ ys) = ys"
proof -
  have irr: "\<not> comes_after ascending p p" for p by (simp add: comes_after_def)
  have asym: "comes_after ascending t p \<Longrightarrow> \<not> comes_after ascending p t" for p t
    by (auto simp: comes_after_def split: if_splits)
  obtain zs where xs: "xs = zs @ [last xs]" using assms(2) by (metis append_butlast_last_id)
  have "\<forall>t \<in> set xs. \<not> comes_after ascending (last xs) t"
    using assms(1) by (subst xs) (subst (asm) xs, auto simp: sorted_wrt_append irr dest: asym)
  moreover have "\<forall>t \<in> set ys. comes_after ascending (last xs) t"
    using assms by (auto simp: sorted_wrt_append)
  ultimately show ?thesis by (simp add: filter_id_conv filter_empty_conv)
qed

lemma find_tx:
  assumes "distinct (map transaction_id ts)" "p \<in> set ts" "tx_user p = wallet"
  shows "find (\<lambda>t. transaction_id t = transaction_id p \<and> tx_user t = wallet) ts = Some p"
  using assms by (induction ts) (auto intro: rev_image_eqI)

lemma page_limit_pos: "0 < page_limit limit"
  by (simp add: page_limit_def)

text \<open>What is still to come after the transactions \<open>xs\<close>.\<close>

definition offset_of :: "stars_tx list \<Rightarrow> string" where
  "offset_of xs = (if xs = [] then [] else transaction_id (last xs))"

lemma fetch_suffix:
  fixes limit :: int
  assumes ok: "ids_ok db" and L: "wallet_history wallet inb outb ascending db = xs @ ys"
  defines "k \<equiv> page_limit limit"
  shows "fetch_transactions wallet inb outb ascending (offset_of xs) limit None db =
    (take k ys, if length ys > k then Some (transaction_id (last (take k ys))) else None)"
proof -
  let ?Q = "filter (\<lambda>t. tx_user t = wallet \<and> direction_ok inb outb t) (transactions db)"
  let ?off = "if offset_of xs = [] then None
    else find (\<lambda>t. transaction_id t = offset_of xs \<and> tx_user t = wallet) (transactions db)"
  have d: "distinct (map transaction_id (transactions db))" using ok by (simp add: ids_ok_def)
  then have "distinct (map transaction_id ?Q)" by (simp add: distinct_map_filter)
  from order_txs_strict [OF this] have s: "sorted_wrt (comes_after ascending) (xs @ ys)"
    by (simp add: L [symmetric] wallet_history_def)
  have "order_txs ascending (filter (past_offset ascending ?off) ?Q) = ys"
  proof (cases "xs = []")
    case True
    then show ?thesis using L
      by (simp add: offset_of_def wallet_history_def past_offset_def)
  next
    case False
    then have "last xs \<in> set (wallet_history wallet inb outb ascending db)" by (simp add: L)
    then have l: "last xs \<in> set (transactions db)" "tx_user (last xs) = wallet"
      by (auto simp: wallet_history_def)
    then have "transaction_id (last xs) \<noteq> []" using ok by (metis ids_ok_def image_eqI)
    then have "?off = Some (last xs)" using find_tx [OF d l] False by (simp add: offset_of_def)
    then have "order_txs ascending (filter (past_offset ascending ?off) ?Q)
        = filter (comes_after ascending (last xs)) (xs @ ys)"
      by (simp add: past_offset_Some order_txs_filter wallet_history_def flip: L)
    then show ?thesis using after_last [OF s False] by simp
  qed
  moreover have "take k ys \<noteq> []" if "length ys > k" using that page_limit_pos [of limit] by (auto simp: k_def)
  ultimately show ?thesis
    by (auto simp: fetch_transactions_def Let_def k_def min_def)
qed

lemma pages_suffix:
  assumes ok: "ids_ok db"
  shows "wallet_history wallet inb outb ascending db = xs @ ys \<Longrightarrow> length ys < n \<Longrightarrow>
    \<exists>ps. history_pages n wallet inb outb ascending limit db (offset_of xs) = Some ps \<and> concat ps = ys"
proof (induction n arbitrary: xs ys)
  case (Suc n)
  let ?k = "page_limit limit"
  note f = fetch_suffix [OF ok Suc.prems(1), of limit]
  show ?case
  proof (cases "length ys > ?k")
    case False
    then show ?thesis using f by simp
  next
    case True
    have k: "0 < ?k" by (rule page_limit_pos)
    then have ne: "take ?k ys \<noteq> []" using True by auto
    have off: "offset_of (xs @ take ?k ys) = transaction_id (last (take ?k ys))"
      using ne by (simp add: offset_of_def)
    have "wallet_history wallet inb outb ascending db = (xs @ take ?k ys) @ drop ?k ys"
      using Suc.prems(1) by simp
    moreover have "length (drop ?k ys) < n" using Suc.prems(2) True k by simp
    ultimately obtain ps where
      "history_pages n wallet inb outb ascending limit db (offset_of (xs @ take ?k ys)) = Some ps"
      "concat ps = drop ?k ys" using Suc.IH by blast
    then show ?thesis using f True by (simp add: off)
  qed
qed simp

lemma pages_are_history:
  assumes "ids_ok db" "length (transactions db) < n"
  shows "\<exists>ps. history_pages n wallet inb outb ascending limit db [] = Some ps
    \<and> concat ps = wallet_history wallet inb outb ascending db"
proof -
  have "length (wallet_history wallet inb outb ascending db) \<le> length (transactions db)"
    by (simp add: wallet_history_def order_txs_def)
  then show ?thesis
    using pages_suffix [OF assms(1), of wallet inb outb ascending "[]" _ n limit] assms(2)
    by (auto simp: offset_of_def)
qed

section \<open>The share of a bot\<close>

lemma bot_net_bounds:
  assumes "0 \<le> gross"
  shows "0 \<le> bot_net_stars gross" "bot_net_stars gross \<le> gross"
    "gross - bot_net_stars gross \<le> gross * 110 div 1410 + 1"
    "bot_net_stars gross = 0 \<longleftrightarrow> gross \<le> 1"
proof -
  define q where "q = gross * 1300 div 1410"
  have split: "x div 1410 * 1410 \<le> x" "x < (x div 1410 + 1) * 1410" for x :: int
    using div_mult_mod_eq [of x 1410] pos_mod_bound [of 1410 x] pos_mod_sign [of 1410 x]
    by (auto simp: distrib_right)
  have q: "q * 1410 \<le> gross * 1300" "gross * 1300 < (q + 1) * 1410"
    unfolding q_def by (rule split)+
  have e: "bot_net_stars gross = (if gross = 0 then 0 else q)"
    using assms by (simp add: bot_net_stars_def q_def)
  define c where "c = gross * 110 div 1410"
  have c: "gross * 110 < (c + 1) * 1410" unfolding c_def by (rule split)
  have "0 \<le> c" using assms by (simp add: c_def)
  show "0 \<le> bot_net_stars gross" "bot_net_stars gross \<le> gross"
    "gross - bot_net_stars gross \<le> gross * 110 div 1410 + 1"
    "bot_net_stars gross = 0 \<longleftrightarrow> gross \<le> 1"
    unfolding e c_def [symmetric] using q c \<open>0 \<le> c\<close> assms by auto
qed

end
