(* ===== verification/StarsProperties.thy ===== *)
theory StarsProperties
  imports StarsRun StarsHistory
begin

text \<open>What the accounts of stars promise (\<^verbatim>\<open>piltover/app/utils/stars_manager.py\<close>).\<close>

section \<open>A small market\<close>

text \<open>
  An invoice is the identifier of its receipt, if it has one; only the receipt 7 can be written.
  User 10 has the dialog 20 with bot 99, where message 5 is an invoice over 100 stars.
\<close>

definition demo_class :: "int option invoice_class" where
  "demo_class = \<lparr>media_write = (\<lambda>m. if m = None then Inr [0] else if m = Some 7 then Inr [1] else Inl ValueError),
     media_read = (\<lambda>bs. if bs = [0] then Inr None else if bs = [1] then Inr (Some 7) else Inl ValueError),
     media_title = (\<lambda>_. []), media_description = (\<lambda>_. []), media_currency = (\<lambda>_. STARS_CURRENCY),
     media_total_amount = (\<lambda>_. 100), media_receipt = (\<lambda>m. m), media_set_receipt = (\<lambda>r _. Some r)\<rparr>"

definition demo_stars_env :: "int option stars_env" where
  "demo_stars_env = invoice_class.extend demo_class
     \<lparr>now = 0, uuid = (\<lambda>n. replicate (Suc n) CHR ''x''), stars_bot = Some 1, user_exists = (\<lambda>_. True),
      is_bot_user = (\<lambda>u. u = 99), user_of_peer = (\<lambda>_ v. Inr v), peer_of = (\<lambda>_ p. Inr p),
      precheckout = (\<lambda>_. Inr ()), payment_message = (\<lambda>_. Inr 7), other_messages = (\<lambda>_. Inr ())\<rparr>"

definition demo_form :: payment_form where
  "demo_form = \<lparr>pf_user = 10, pf_purpose = BOT_INVOICE, pf_stars = 100, pf_currency = STARS_CURRENCY, pf_amount = 100,
     pf_gift_user = None, pf_bot_user = Some 99, pf_message = Some 5, pf_payload = None, pf_expires_at = 60\<rparr>"

definition demo_market :: "int \<Rightarrow> stars_db" where
  "demo_market n = \<lparr>balances = [10 \<mapsto> \<lparr>amount = n, nanos = 0\<rparr>], transactions = [], payment_forms = [3 \<mapsto> demo_form],
     message_refs = [(20, 5) \<mapsto> \<lparr>mr_content = 30, mr_author = 99\<rparr>], invoice_data = [30 \<mapsto> [1, 0, 0, 0, 0]]\<rparr>"

definition demo_payment :: payment where
  "demo_payment = \<lparr>pay_user = 10, pay_form_id = 3, pay_peer = 20, pay_message = 5, pay_content = 30, pay_bot = 99,
     pay_data = [1, 0, 0, 0, 0], pay_payload = [], pay_stars = 100, pay_title = [], pay_description = [],
     pay_currency = STARS_CURRENCY\<rparr>"

lemma demo_fields [simp]:
  "invoice_class.truncate demo_stars_env = demo_class" "now demo_stars_env = 0"
  "uuid demo_stars_env = (\<lambda>n. replicate (Suc n) CHR ''x'')" "stars_bot demo_stars_env = Some 1"
  "is_bot_user demo_stars_env = (\<lambda>u. u = 99)" "peer_of demo_stars_env = (\<lambda>_ p. Inr p)"
  "payment_message demo_stars_env = (\<lambda>_. Inr 7)" "other_messages demo_stars_env = (\<lambda>_. Inr ())"
  "media_currency demo_stars_env = (\<lambda>_. STARS_CURRENCY)" "media_total_amount demo_stars_env = (\<lambda>_. 100)"
  "media_receipt demo_stars_env = (\<lambda>m. m)" "media_title demo_stars_env = (\<lambda>_. [])"
  "media_description demo_stars_env = (\<lambda>_. [])" "media_set_receipt demo_stars_env = (\<lambda>r _. Some r)"
  by (simp_all add: demo_stars_env_def demo_class_def invoice_class.extend_def invoice_class.truncate_def)

lemma demo_class_ok: "class_ok demo_class"
  by (auto simp: class_ok_def demo_class_def split: if_splits)

lemma demo_unpack [simp]: "unpack_invoice_static demo_class [1, 0, 0, 0, 0] = Inr (None, [])"
  by (simp add: unpack_invoice_static_def demo_class_def py_from_bytes_le_def rbind_def eval_nat_numeral Let_def)

lemma demo_begin: "begin_bot_payment demo_stars_env 10 3 20 5 (demo_market n) = (Inr demo_payment, demo_market n)"
  by (simp add: begin_bot_payment_def get_form_def demo_market_def demo_form_def load_bot_invoice_message_def
      ensure_def act_defs check_bot_form_def form_is_expired_def demo_payment_def)

lemma demo_pack: "pack_invoice_static demo_class (Some 7) [] = Inr [1, 0, 0, 0, 1]"
  by (simp add: pack_invoice_static_def demo_class_def rbind_def py_to_bytes_le_def int_fits_def byte_eval)

lemma demo_finish:
  assumes "100 \<le> n"
  shows "\<exists>y db. finish_bot_payment demo_stars_env demo_payment (demo_market n) = (Inr y, db)"
  using assms demo_pack
  by (simp add: finish_bot_payment_def delete_form_def act_defs demo_payment_def transfer_stars_def ensure_def
      bot_net_stars_def in_transaction_def demo_market_def get_or_create_for_def save_balance_def create_tx_def
      balance_of_def send_bot_payment_messages_def update_invoice_receipt_def Let_def)

section \<open>The books\<close>

text \<open>
  C4. After any sequence of top-ups, gifts, grants, corrections, purchases and bot payments, also
  ones interleaved with each other, every wallet holds exactly what its transactions add up to, and
  none is negative; no two transactions share an identifier.
\<close>

theorem books_balance:
  assumes "pay_reachable Es bots w"
  shows "wallet u (tables w) = ledger u (transactions (tables w)) \<and> 0 \<le> wallet u (tables w)
    \<and> distinct (map transaction_id (transactions (tables w)))"
  using pay_reachable_inv [OF assms] unfolding pay_inv_def books_ok_def by blast

lemma books_balance_witness:
  "\<exists>w. pay_reachable {demo_stars_env} (\<lambda>u. u = 99) w \<and> ledger 10 (transactions (tables w)) = 5 \<and> wallet 10 (tables w) = 5"
proof -
  let ?w0 = "\<lparr>tables = empty_tables Map.empty Map.empty, asked = []\<rparr>"
  obtain r db where run: "grant_stars demo_stars_env 10 5 [] None (tables ?w0) = (r, db)" by (metis surj_pair)
  have "pay_reachable {demo_stars_env} (\<lambda>u. u = 99) ?w0" by (rule start)
  then have reach: "pay_reachable {demo_stars_env} (\<lambda>u. u = 99) (?w0\<lparr>tables := db\<rparr>)"
    by (rule step) (rule grant [OF _ _ run], simp_all)
  have "wallet 10 db = 5"
    using run by (auto simp: grant_stars_def get_stars_bot_user_id_def act_defs credit_stars_def in_transaction_def
        get_or_create_for_def save_balance_def create_tx_def balance_of_def empty_tables_def wallet_def Let_def)
  then show ?thesis using books_balance [OF reach, of 10] reach by auto
qed

text \<open>
  C18. Once a payment of a bot's invoice has gone through, the invoice carries its receipt and is
  refused for everyone from then on, in every dialog that shows it.
\<close>

theorem paid_invoice_refused:
  assumes "class_ok (invoice_class.truncate E)" "begin_bot_payment E u i peer msg db = (Inr p, db0)"
    and "finish_bot_payment E p db1 = (Inr y, db2)" "pay_user p \<noteq> pay_bot p"
    and "peer_of E v peer' = Inr q" "message_refs db2 (q, msg') = Some r"
    and "mr_content r = pay_content p" "is_bot_user E (mr_author r)"
  shows "load_bot_invoice_message E v peer' msg' db2 = (Inl (err400 ''MEDIA_ALREADY_PAID''), db2)"
  by (rule invoice_paid_once [OF assms])

lemma paid_invoice_refused_witness:
  "\<exists>y db. finish_bot_payment demo_stars_env demo_payment (demo_market 500) = (Inr y, db)
    \<and> load_bot_invoice_message demo_stars_env 10 20 5 db = (Inl (err400 ''MEDIA_ALREADY_PAID''), db)"
proof -
  obtain y db where run: "finish_bot_payment demo_stars_env demo_payment (demo_market 500) = (Inr y, db)"
    using demo_finish [of 500] by auto
  have ne: "pay_user demo_payment \<noteq> pay_bot demo_payment" by (simp add: demo_payment_def)
  have refs: "message_refs db (20, 5) = Some \<lparr>mr_content = 30, mr_author = 99\<rparr>"
    using payment_result(5) [OF run ne] by (simp add: demo_market_def)
  have "class_ok (invoice_class.truncate demo_stars_env)" by (simp add: demo_class_ok)
  from paid_invoice_refused [OF this demo_begin run ne, of 10 20 20 5, OF _ refs] show ?thesis
    using run by (auto simp: demo_payment_def)
qed

text \<open>
  Nothing looks at the receipt again after the bot was asked: a payment that was asked for twice
  before either was answered is carried out twice, and charged twice.
\<close>

theorem simultaneous_payments_charged_twice:
  assumes "finish_bot_payment E p db = (Inr y, db1)" "pay_user p \<noteq> pay_bot p"
    and "2 * pay_stars p \<le> wallet (pay_user p) db"
    and "\<And>j. length (transactions db1) \<le> j \<Longrightarrow> uuid E j \<notin> transaction_id ` set (transactions db1)"
    and "\<And>j. uuid E (Suc j) \<noteq> uuid E j"
  shows "\<exists>y2 db2. finish_bot_payment E p db1 = (Inr y2, db2)
    \<and> wallet (pay_user p) db2 = wallet (pay_user p) db - 2 * pay_stars p"
  using paid_twice [OF assms] .

lemma demo_paid_transactions:
  assumes "finish_bot_payment demo_stars_env demo_payment (demo_market 500) = (Inr y, db)"
  shows "map transaction_id (transactions db) = [''x'', ''xx'']"
  using assms demo_pack
  by (auto simp: finish_bot_payment_def delete_form_def act_defs demo_payment_def transfer_stars_def ensure_def
      bot_net_stars_def in_transaction_def demo_market_def get_or_create_for_def save_balance_def create_tx_def
      balance_of_def send_bot_payment_messages_def update_invoice_receipt_def Let_def)

lemma simultaneous_payments_charged_twice_witness:
  "\<exists>y db1 y2 db2. finish_bot_payment demo_stars_env demo_payment (demo_market 500) = (Inr y, db1)
    \<and> finish_bot_payment demo_stars_env demo_payment db1 = (Inr y2, db2) \<and> wallet 10 db2 = 300"
proof -
  obtain y db1 where run: "finish_bot_payment demo_stars_env demo_payment (demo_market 500) = (Inr y, db1)"
    using demo_finish [of 500] by auto
  have w: "wallet 10 (demo_market 500) = 500" by (simp add: wallet_def balance_of_def demo_market_def)
  have ids: "transaction_id ` set (transactions db1) = {''x'', ''xx''}" "length (transactions db1) = 2"
    using arg_cong [OF demo_paid_transactions [OF run], of set] arg_cong [OF demo_paid_transactions [OF run], of length]
    by (simp_all only: set_map length_map) simp_all
  have fresh: "uuid demo_stars_env j \<notin> transaction_id ` set (transactions db1)" if "length (transactions db1) \<le> j" for j
  proof
    assume "uuid demo_stars_env j \<in> transaction_id ` set (transactions db1)"
    then have "length (uuid demo_stars_env j) \<in> length ` {''x'', ''xx''}" unfolding ids(1) by (rule imageI)
    then show False using that ids(2) by simp
  qed
  have step: "uuid demo_stars_env (Suc j) \<noteq> uuid demo_stars_env j" for j
  proof -
    have "length (uuid demo_stars_env (Suc j)) \<noteq> length (uuid demo_stars_env j)" by simp
    then show ?thesis by metis
  qed
  have "\<exists>y2 db2. finish_bot_payment demo_stars_env demo_payment db1 = (Inr y2, db2)
    \<and> wallet (pay_user demo_payment) db2 = wallet (pay_user demo_payment) (demo_market 500) - 2 * pay_stars demo_payment"
    by (rule simultaneous_payments_charged_twice [OF run _ _ fresh step]) (simp_all add: demo_payment_def w)
  then show ?thesis using run w by (auto simp: demo_payment_def)
qed

text \<open>
  A payment that is refused has used up its form: when the balance is too low, and for every
  invoice over one star, of which nothing is left for the bot, the form is gone and nothing else
  has changed.
\<close>

theorem refusal_uses_up_form:
  assumes "peer_of E (pay_user p) (pay_peer p) = Inr q"
    and "pay_stars p = 1 \<or> wallet (pay_user p) db < pay_stars p"
  shows "\<exists>m. finish_bot_payment E p db = (Inl (err400 m), db\<lparr>payment_forms := (payment_forms db)(pay_form_id p := None)\<rparr>)"
  by (rule refused_payment_uses_form [OF assms])

lemma refusal_uses_up_form_witness:
  "\<exists>m. finish_bot_payment demo_stars_env demo_payment (demo_market 40) =
    (Inl (err400 m), (demo_market 40)\<lparr>payment_forms := (payment_forms (demo_market 40))(3 := None)\<rparr>)"
  using refusal_uses_up_form [of demo_stars_env demo_payment 20 "demo_market 40"]
  by (simp add: demo_payment_def wallet_def balance_of_def demo_market_def)

section \<open>The history\<close>

text \<open>
  C34. Following the offsets from page to page shows every transaction of the wallet in the asked
  direction exactly once, in order, and ends, whatever the page size asked for.
\<close>

theorem pages_show_history:
  assumes "distinct (map transaction_id (transactions db))" "[] \<notin> transaction_id ` set (transactions db)"
    and "length (transactions db) < n"
  shows "\<exists>ps. history_pages n u inb outb ascending limit db [] = Some ps
    \<and> concat ps = order_txs ascending (filter (\<lambda>t. tx_user t = u \<and> direction_ok inb outb t) (transactions db))"
  using pages_are_history [of db n] assms by (simp add: ids_ok_def wallet_history_def)

lemma pages_show_history_witness:
  "\<exists>ps. history_pages 4 10 False False False 1 ((demo_market 0)\<lparr>transactions := map (\<lambda>j. \<lparr>transaction_id = replicate (Suc j) CHR ''x'',
        tx_user = 10, stars_amount = 5, inbound = True, tx_date = 60 - int j,
        tx_info = peer_info [] None None\<rparr>) [0..<3]\<rparr>) [] = Some ps
    \<and> map stars_amount (concat ps) = [5, 5, 5]"
proof -
  let ?ts = "map (\<lambda>j. \<lparr>transaction_id = replicate (Suc j) CHR ''x'', tx_user = 10, stars_amount = 5, inbound = True,
      tx_date = 60 - int j, tx_info = peer_info [] None None\<rparr>) [0..<3]"
  have ts: "map stars_amount (order_txs False (filter (\<lambda>t. tx_user t = 10 \<and> direction_ok False False t) ?ts)) = [5, 5, 5]"
  proof -
    have f: "filter (\<lambda>t. tx_user t = 10 \<and> direction_ok False False t) ?ts = ?ts"
      by (simp add: direction_ok_def)
    have l: "length (order_txs False ?ts) = 3" by (simp add: order_txs_def)
    have a: "stars_amount t = 5" if "t \<in> set (order_txs False ?ts)" for t using that by auto
    have "map stars_amount (order_txs False ?ts) = replicate 3 5"
      using l a by (intro replicate_eqI) auto
    then show ?thesis unfolding f by (simp add: numeral_3_eq_3)
  qed
  show ?thesis
    using pages_show_history [of "(demo_market 0)\<lparr>transactions := ?ts\<rparr>" 4 10 False False False 1] ts
    by (auto simp: comp_def distinct_map inj_on_def numeral_3_eq_3)
qed

text \<open>
  What a bot is paid for an invoice is never more than the price, and never negative; it is
  nothing exactly for prices of at most one star.
\<close>

theorem bot_share_bounds:
  assumes "0 \<le> gross"
  shows "0 \<le> bot_net_stars gross \<and> bot_net_stars gross \<le> gross \<and> (bot_net_stars gross = 0 \<longleftrightarrow> gross \<le> 1)"
  using bot_net_bounds [OF assms] by blast

lemma bot_share_bounds_witness: "0 \<le> bot_net_stars 1 \<and> bot_net_stars 1 \<le> 1 \<and> bot_net_stars 1 = 0"
  using bot_share_bounds [of 1] by simp

text \<open>
  An invoice and its payload are read back from the stored data as they were packed.
\<close>

theorem invoice_roundtrip:
  assumes "\<forall>m bs. media_write L m = Inr bs \<longrightarrow> media_read L bs = Inr m"
    and "\<forall>r m. media_receipt L (media_set_receipt L r m) = Some r \<and> media_currency L (media_set_receipt L r m) = media_currency L m"
    and "pack_invoice_static L m payload = Inr d"
  shows "unpack_invoice_static L d = Inr (m, payload)"
  using unpack_pack [of L m payload d] assms by (simp add: class_ok_def)

lemma invoice_roundtrip_witness: "unpack_invoice_static demo_class [1, 0, 0, 0, 1] = Inr (Some 7, [])"
  using demo_class_ok by (intro invoice_roundtrip demo_pack) (simp_all add: class_ok_def)

end
