(* ===== verification/Privacy.thy ===== *)
theory Privacy
  imports Prelude
begin

text \<open>
  Privacy rules (\<^verbatim>\<open>piltover/db/models/privacy_rule.py\<close>, the keys from
  \<^verbatim>\<open>piltover/db/enums.py\<close>): who may see or do what, one question at a time and in bulk, with the
  cache of the answers. A rule is found by its owner and key, which are unique together; the
  answers are cached under the version of the rule, without an expiry.
\<close>

section \<open>Keys\<close>

datatype privacy_key =
    STATUS_TIMESTAMP | CHAT_INVITE | PHONE_CALL | PHONE_P2P | FORWARDS | PROFILE_PHOTO | PHONE_NUMBER
  | ADDED_BY_PHONE | VOICE_MESSAGE | ABOUT | BIRTHDAY | NO_PAID_MESSAGES | GIFTS_AUTOSAVE

datatype input_privacy_key =
    InputPrivacyKeyStatusTimestamp | InputPrivacyKeyChatInvite | InputPrivacyKeyPhoneCall
  | InputPrivacyKeyPhoneP2P | InputPrivacyKeyForwards | InputPrivacyKeyProfilePhoto
  | InputPrivacyKeyPhoneNumber | InputPrivacyKeyAddedByPhone | InputPrivacyKeyVoiceMessages
  | InputPrivacyKeyAbout | InputPrivacyKeyBirthday | InputPrivacyKeyNoPaidMessages
  | InputPrivacyKeyStarGiftsAutoSave

datatype tl_privacy_key =
    PrivacyKeyStatusTimestamp | PrivacyKeyChatInvite | PrivacyKeyPhoneCall | PrivacyKeyPhoneP2P
  | PrivacyKeyForwards | PrivacyKeyProfilePhoto | PrivacyKeyPhoneNumber | PrivacyKeyAddedByPhone
  | PrivacyKeyVoiceMessages | PrivacyKeyAbout | PrivacyKeyBirthday

fun key_from_tl :: "input_privacy_key \<Rightarrow> privacy_key" where
  "key_from_tl InputPrivacyKeyStatusTimestamp = STATUS_TIMESTAMP"
| "key_from_tl InputPrivacyKeyChatInvite = CHAT_INVITE"
| "key_from_tl InputPrivacyKeyPhoneCall = PHONE_CALL"
| "key_from_tl InputPrivacyKeyPhoneP2P = PHONE_P2P"
| "key_from_tl InputPrivacyKeyForwards = FORWARDS"
| "key_from_tl InputPrivacyKeyProfilePhoto = PROFILE_PHOTO"
| "key_from_tl InputPrivacyKeyPhoneNumber = PHONE_NUMBER"
| "key_from_tl InputPrivacyKeyAddedByPhone = ADDED_BY_PHONE"
| "key_from_tl InputPrivacyKeyVoiceMessages = VOICE_MESSAGE"
| "key_from_tl InputPrivacyKeyAbout = ABOUT"
| "key_from_tl InputPrivacyKeyBirthday = BIRTHDAY"
| "key_from_tl InputPrivacyKeyNoPaidMessages = NO_PAID_MESSAGES"
| "key_from_tl InputPrivacyKeyStarGiftsAutoSave = GIFTS_AUTOSAVE"

fun key_to_tl :: "privacy_key \<Rightarrow> tl_privacy_key res" where
  "key_to_tl STATUS_TIMESTAMP = Inr PrivacyKeyStatusTimestamp"
| "key_to_tl CHAT_INVITE = Inr PrivacyKeyChatInvite"
| "key_to_tl PHONE_CALL = Inr PrivacyKeyPhoneCall"
| "key_to_tl PHONE_P2P = Inr PrivacyKeyPhoneP2P"
| "key_to_tl FORWARDS = Inr PrivacyKeyForwards"
| "key_to_tl PROFILE_PHOTO = Inr PrivacyKeyProfilePhoto"
| "key_to_tl PHONE_NUMBER = Inr PrivacyKeyPhoneNumber"
| "key_to_tl ADDED_BY_PHONE = Inr PrivacyKeyAddedByPhone"
| "key_to_tl VOICE_MESSAGE = Inr PrivacyKeyVoiceMessages"
| "key_to_tl ABOUT = Inr PrivacyKeyAbout"
| "key_to_tl BIRTHDAY = Inr PrivacyKeyBirthday"
| "key_to_tl _ = Inl KeyError"

definition default_allow_all :: "privacy_key \<Rightarrow> bool" where
  "default_allow_all k \<longleftrightarrow> k \<noteq> PHONE_NUMBER"

definition default_allow_contacts :: "privacy_key \<Rightarrow> bool" where
  "default_allow_contacts k \<longleftrightarrow> k = PHONE_NUMBER"

section \<open>Rules\<close>

text \<open>The exceptions of a rule by user, with whether they allow.\<close>

record privacy_rule =
  pr_user :: int
  pr_key :: privacy_key
  pr_allow_all :: bool
  pr_allow_contacts :: bool
  pr_version :: int
  pr_exceptions :: "(int \<times> bool) list"

record privacy_db =
  rules :: "privacy_rule list"
  contact_rows :: "(int \<times> int) list"
  user_rows :: "int list"
  answers :: "int \<times> int \<times> privacy_key \<times> int \<Rightarrow> bool option"

datatype input_user = InputUser int int | InputPeerUser int int | InputUserSelf | OtherInputUser

datatype input_rule =
    InputAllowAll
  | InputAllowContacts
  | InputAllowUsers "input_user list"
  | InputDisallowUsers "input_user list"
  | OtherInputRule

datatype tl_rule = AllowAll | DisallowAll | AllowContacts | AllowUsers "int list" | DisallowUsers "int list"

definition find_rule :: "int \<Rightarrow> privacy_key \<Rightarrow> privacy_db \<Rightarrow> privacy_rule option" where
  "find_rule u k db = find (\<lambda>r. pr_user r = u \<and> pr_key r = k) (rules db)"

definition is_contact :: "int \<Rightarrow> int \<Rightarrow> privacy_db \<Rightarrow> bool" where
  "is_contact owner target db \<longleftrightarrow> (owner, target) \<in> set (contact_rows db)"

definition default_rule :: "int \<Rightarrow> privacy_key \<Rightarrow> privacy_rule" where
  "default_rule u k = \<lparr>pr_user = u, pr_key = k, pr_allow_all = default_allow_all k,
     pr_allow_contacts = default_allow_contacts k, pr_version = 0, pr_exceptions = []\<rparr>"

text \<open>The keys of \<open>_PRIVACY_ENUM_KEY_TO_TL\<close>, in their order.\<close>

definition shown_keys :: "privacy_key list" where
  "shown_keys = [STATUS_TIMESTAMP, CHAT_INVITE, PHONE_CALL, PHONE_P2P, FORWARDS, PROFILE_PHOTO, PHONE_NUMBER,
     ADDED_BY_PHONE, VOICE_MESSAGE, ABOUT, BIRTHDAY]"

definition create_defaults_for_user :: "int \<Rightarrow> privacy_db \<Rightarrow> privacy_db" where
  "create_defaults_for_user u db =
     db\<lparr>rules := rules db @ map (default_rule u) (filter (\<lambda>k. find_rule u k db = None) shown_keys)\<rparr>"

section \<open>Setting a rule\<close>

text \<open>\<open>check_access_hash\<close> for the session's authorization is a parameter.\<close>

fun add_input_user :: "(int \<Rightarrow> int \<Rightarrow> bool) \<Rightarrow> int \<Rightarrow> input_user \<Rightarrow> int set \<Rightarrow> int set" where
  "add_input_user check u (InputUser v h) S = (if v = u then S else if check v h then insert v S else S)"
| "add_input_user check u (InputPeerUser v h) S = (if v = u then S else if check v h then insert v S else S)"
| "add_input_user check u _ S = S"

definition inputusers_to_uids :: "(int \<Rightarrow> int \<Rightarrow> bool) \<Rightarrow> int \<Rightarrow> input_user list \<Rightarrow> int set \<Rightarrow> int set" where
  "inputusers_to_uids check u us S = fold (add_input_user check u) us S"

record rule_update =
  ru_allow_all :: bool
  ru_allow_contacts :: bool
  ru_allow :: "int set"
  ru_disallow :: "int set"

fun read_input_rule :: "(int \<Rightarrow> int \<Rightarrow> bool) \<Rightarrow> int \<Rightarrow> input_rule \<Rightarrow> rule_update \<Rightarrow> rule_update" where
  "read_input_rule check u InputAllowAll x = x\<lparr>ru_allow_all := True\<rparr>"
| "read_input_rule check u InputAllowContacts x = x\<lparr>ru_allow_contacts := True\<rparr>"
| "read_input_rule check u (InputAllowUsers us) x = x\<lparr>ru_allow := inputusers_to_uids check u us (ru_allow x)\<rparr>"
| "read_input_rule check u (InputDisallowUsers us) x =
     x\<lparr>ru_disallow := inputusers_to_uids check u us (ru_disallow x)\<rparr>"
| "read_input_rule check u OtherInputRule x = x"

definition read_input_rules :: "(int \<Rightarrow> int \<Rightarrow> bool) \<Rightarrow> int \<Rightarrow> input_rule list \<Rightarrow> rule_update" where
  "read_input_rules check u rs =
     fold (read_input_rule check u) rs
       \<lparr>ru_allow_all = False, ru_allow_contacts = False, ru_allow = {}, ru_disallow = {}\<rparr>"

text \<open>
  The exceptions after an update: those of users that are no longer named go, those that stay
  take the new answer, the others that exist as users are created.
\<close>

definition update_exceptions ::
    "int list \<Rightarrow> int set \<Rightarrow> int set \<Rightarrow> (int \<times> bool) list \<Rightarrow> (int \<times> bool) list" where
  "update_exceptions known allow disallow old =
     (let named = allow \<union> disallow in
      if named = {} then []
      else let kept = filter (\<lambda>(v, _). v \<in> named) old;
               to_create = filter (\<lambda>v. v \<in> named \<and> v \<notin> fst ` set kept) known
           in map (\<lambda>(v, a). (v, if v \<in> set known then v \<in> allow else a)) kept
              @ map (\<lambda>v. (v, v \<in> allow)) to_create)"

definition put_rule :: "privacy_rule \<Rightarrow> privacy_rule list \<Rightarrow> privacy_rule list" where
  "put_rule r rs =
     (if \<exists>q \<in> set rs. pr_user q = pr_user r \<and> pr_key q = pr_key r
      then map (\<lambda>q. if pr_user q = pr_user r \<and> pr_key q = pr_key r then r else q) rs else rs @ [r])"

definition update_from_tl ::
    "(int \<Rightarrow> int \<Rightarrow> bool) \<Rightarrow> int \<Rightarrow> privacy_key \<Rightarrow> input_rule list \<Rightarrow> privacy_db \<Rightarrow> privacy_rule \<times> privacy_db" where
  "update_from_tl check u k rs db =
     (let x = read_input_rules check u rs;
          old = (case find_rule u k db of None \<Rightarrow> (default_rule u k)\<lparr>pr_version := 0\<rparr> | Some r \<Rightarrow> r);
          r = old\<lparr>pr_allow_all := ru_allow_all x, pr_allow_contacts := ru_allow_contacts x,
                pr_exceptions := update_exceptions (user_rows db) (ru_allow x) (ru_disallow x) (pr_exceptions old),
                pr_version := pr_version old + 1\<rparr>
      in (r, db\<lparr>rules := put_rule r (rules db)\<rparr>))"

definition to_tl_rules :: "privacy_rule \<Rightarrow> tl_rule list" where
  "to_tl_rules r =
     (let base = (if pr_allow_all r then [AllowAll]
                  else if pr_allow_contacts r then [DisallowAll, AllowContacts] else [DisallowAll]);
          allow = map fst (filter snd (pr_exceptions r));
          disallow = map fst (filter (\<lambda>e. \<not> snd e) (pr_exceptions r))
      in base @ (if allow = [] then [] else [AllowUsers allow])
              @ (if disallow = [] then [] else [DisallowUsers disallow]))"

definition get_privacy_internal :: "privacy_key \<Rightarrow> int \<Rightarrow> privacy_db \<Rightarrow> tl_rule list" where
  "get_privacy_internal k u db =
     (case find_rule u k db of
        None \<Rightarrow> if default_allow_all k then [AllowAll] else [DisallowAll, AllowContacts]
      | Some r \<Rightarrow> to_tl_rules r)"

text \<open>\<open>setPrivacy\<close>: the rule is stored before the update with its key is made.\<close>

definition set_privacy ::
    "(int \<Rightarrow> int \<Rightarrow> bool) \<Rightarrow> int \<Rightarrow> input_privacy_key \<Rightarrow> input_rule list \<Rightarrow> (tl_rule list, privacy_db) act" where
  "set_privacy check u ik rs =
     (\<lambda>db. if length rs > 100 then (Inl (ErrorRpc 400 ''PRIVACY_TOO_LONG''), db)
           else let k = key_from_tl ik; (r, db1) = update_from_tl check u k rs db
                in case key_to_tl (pr_key r) of
                     Inl e \<Rightarrow> (Inl e, db1)
                   | Inr _ \<Rightarrow> (Inr (get_privacy_internal k u db1), db1))"

section \<open>Questions\<close>

definition rule_answer :: "privacy_rule \<Rightarrow> int \<Rightarrow> bool \<Rightarrow> bool" where
  "rule_answer r current contact =
     (case find (\<lambda>e. fst e = current) (pr_exceptions r) of
        Some e \<Rightarrow> snd e
      | None \<Rightarrow> pr_allow_all r \<or> pr_allow_contacts r \<and> contact)"

definition has_access_to :: "int \<Rightarrow> int \<Rightarrow> privacy_key \<Rightarrow> privacy_db \<Rightarrow> bool \<times> privacy_db" where
  "has_access_to current target k db =
     (if current = target then (True, db)
      else case find_rule target k db of
        None \<Rightarrow> (default_allow_all k \<or> is_contact target current db, db)
      | Some r \<Rightarrow>
          (case answers db (current, target, k, pr_version r) of
             Some a \<Rightarrow> (a, db)
           | None \<Rightarrow>
               (let a = rule_answer r current (is_contact target current db)
                in (a, db\<lparr>answers := (answers db)((current, target, k, pr_version r) \<mapsto> a)\<rparr>))))"

type_synonym answer_table = "int \<Rightarrow> (privacy_key \<Rightarrow> bool option) option"

definition all_true :: "privacy_key list \<Rightarrow> privacy_key \<Rightarrow> bool option" where
  "all_true ks k = (if k \<in> set ks then Some True else None)"

definition put_answer :: "int \<Rightarrow> privacy_key \<Rightarrow> bool \<Rightarrow> answer_table \<Rightarrow> answer_table" where
  "put_answer u k a t = t(u := Some (case t u of None \<Rightarrow> [k \<mapsto> a] | Some m \<Rightarrow> m(k \<mapsto> a)))"

text \<open>
  \<open>has_access_to_bulk\<close>: the targets, each with whether it came as a bot's object. The set
  \<open>contacts\<close> may be given by the caller; otherwise it is loaded, but only when an answer is not
  cached.
\<close>

definition bulk_targets :: "(int \<times> bool) list \<Rightarrow> int \<Rightarrow> int set" where
  "bulk_targets users this = fst ` set users - {this} - {u. (u, True) \<in> set users}"

definition bulk_start :: "(int \<times> bool) list \<Rightarrow> int \<Rightarrow> privacy_key list \<Rightarrow> answer_table" where
  "bulk_start users this ks =
     (\<lambda>u. if u \<notin> fst ` set users then None
          else if u = this \<or> (u, True) \<in> set users then Some (all_true ks) else Some Map.empty)"

definition bulk_contacts :: "int set \<Rightarrow> int \<Rightarrow> privacy_rule list \<Rightarrow> int set option \<Rightarrow> privacy_db \<Rightarrow> int set option" where
  "bulk_contacts ids this not_cached contacts db =
     (if not_cached \<noteq> [] \<and> contacts = None then Some {u \<in> ids. is_contact u this db} else contacts)"

definition put_leftover ::
    "int set option \<Rightarrow> int \<times> privacy_key \<Rightarrow> answer_table res \<Rightarrow> answer_table res" where
  "put_leftover contacts = (\<lambda>(u, k) t.
     rbind t (\<lambda>t.
       if default_allow_all k then Inr (put_answer u k True t)
       else case contacts of None \<Rightarrow> Inl TypeError | Some c \<Rightarrow> Inr (put_answer u k (u \<in> c) t)))"

definition bulk_leftover :: "int set \<Rightarrow> privacy_key list \<Rightarrow> privacy_rule list \<Rightarrow> (int \<times> privacy_key) list" where
  "bulk_leftover ids ks found =
     filter (\<lambda>(u, k). \<forall>r \<in> set found. \<not> (pr_user r = u \<and> pr_key r = k))
       (List.product (sorted_list_of_set ids) ks)"

definition has_access_to_bulk ::
    "(int \<times> bool) list \<Rightarrow> int \<Rightarrow> privacy_key list \<Rightarrow> int set option \<Rightarrow> (answer_table, privacy_db) act" where
  "has_access_to_bulk users this ks contacts =
     (\<lambda>db. if ks = [] then (Inr Map.empty, db)
           else let ids = bulk_targets users this; t0 = bulk_start users this ks in
             if ids = {} then (Inr t0, db)
             else let found = filter (\<lambda>r. pr_key r \<in> set ks \<and> pr_user r \<in> ids) (rules db);
                      cached = (\<lambda>r. answers db (this, pr_user r, pr_key r, pr_version r));
                      t1 = fold (\<lambda>r t. case cached r of None \<Rightarrow> t | Some a \<Rightarrow> put_answer (pr_user r) (pr_key r) a t) found t0;
                      not_cached = filter (\<lambda>r. cached r = None) found;
                      cs = bulk_contacts ids this not_cached contacts db;
                      decide = (\<lambda>r. rule_answer r this (\<exists>c. cs = Some c \<and> pr_user r \<in> c));
                      t2 = fold (\<lambda>r t. put_answer (pr_user r) (pr_key r) (decide r) t) not_cached t1
                  in case fold (put_leftover cs) (bulk_leftover ids ks found) (Inr t2) of
                       Inl e \<Rightarrow> (Inl e, db)
                     | Inr t \<Rightarrow>
                         (Inr t, db\<lparr>answers := fold (\<lambda>r m. m((this, pr_user r, pr_key r, pr_version r) \<mapsto> decide r))
                            not_cached (answers db)\<rparr>))"

text \<open>\<open>deleteContacts\<close> on the rows of contacts.\<close>

definition delete_contacts :: "int \<Rightarrow> int list \<Rightarrow> privacy_db \<Rightarrow> privacy_db" where
  "delete_contacts owner targets db =
     db\<lparr>contact_rows := filter (\<lambda>(o', t). \<not> (o' = owner \<and> t \<in> set targets)) (contact_rows db)\<rparr>"

end
