(* ===== verification/PrivacyFacts.thy ===== *)
theory PrivacyFacts
  imports Privacy
begin

text \<open>
  What the privacy rules promise. The reference is \<open>access\<close>, the answer read off the tables; the
  cached question and the question in bulk agree with it as long as the cache is true, which
  every operation on rules preserves and the removal of a contact does not. The rules that are
  shown to their owner say the same.
\<close>

definition rules_ok :: "privacy_db \<Rightarrow> bool" where
  "rules_ok db \<longleftrightarrow> distinct (map (\<lambda>r. (pr_user r, pr_key r)) (rules db))"

definition access :: "int \<Rightarrow> int \<Rightarrow> privacy_key \<Rightarrow> privacy_db \<Rightarrow> bool" where
  "access current target k db \<longleftrightarrow>
     current = target \<or>
     (case find_rule target k db of
        None \<Rightarrow> default_allow_all k \<or> is_contact target current db
      | Some r \<Rightarrow> rule_answer r current (is_contact target current db))"

text \<open>
  The cache is true: what it holds under the current version of a rule is the answer now, and it
  holds nothing under versions to come.
\<close>

definition cache_true :: "privacy_db \<Rightarrow> bool" where
  "cache_true db \<longleftrightarrow> (\<forall>current target k v a. answers db (current, target, k, v) = Some a \<longrightarrow>
     (\<exists>r. find_rule target k db = Some r \<and> v \<le> pr_version r
        \<and> (v = pr_version r \<longrightarrow> a = rule_answer r current (is_contact target current db))))"

lemma find_rule_iff:
  assumes "rules_ok db"
  shows "find_rule u k db = Some r \<longleftrightarrow> r \<in> set (rules db) \<and> pr_user r = u \<and> pr_key r = k"
proof -
  have "distinct (map (\<lambda>r. (pr_user r, pr_key r)) rs) \<Longrightarrow>
    find (\<lambda>r. pr_user r = u \<and> pr_key r = k) rs = Some r \<longleftrightarrow> r \<in> set rs \<and> pr_user r = u \<and> pr_key r = k" for rs
    by (induction rs) (auto simp: image_iff)
  then show ?thesis using assms by (simp add: rules_ok_def find_rule_def)
qed

lemma find_rule_None: "find_rule u k db = None \<longleftrightarrow> (\<forall>r \<in> set (rules db). \<not> (pr_user r = u \<and> pr_key r = k))"
  by (auto simp: find_rule_def find_None_iff)

lemma find_rule_keys: "find_rule u k db = Some r \<Longrightarrow> pr_user r = u \<and> pr_key r = k"
  by (auto simp: find_rule_def find_Some_iff)

section \<open>One question\<close>

lemma has_access_value: "cache_true db \<Longrightarrow> fst (has_access_to current target k db) = access current target k db"
  by (auto simp: has_access_to_def access_def cache_true_def Let_def split: option.splits) force+

lemma has_access_frame:
  "rules (snd (has_access_to current target k db)) = rules db"
  "contact_rows (snd (has_access_to current target k db)) = contact_rows db"
  by (auto simp: has_access_to_def Let_def split: option.splits)

lemma find_rule_cong: "rules db' = rules db \<Longrightarrow> find_rule u k db' = find_rule u k db"
  by (simp add: find_rule_def)

lemma is_contact_cong: "contact_rows db' = contact_rows db \<Longrightarrow> is_contact o' t db' = is_contact o' t db"
  by (simp add: is_contact_def)

lemma cache_put:
  assumes "cache_true db" "find_rule target k db = Some r"
    and "a = rule_answer r current (is_contact target current db)"
  shows "cache_true (db\<lparr>answers := (answers db)((current, target, k, pr_version r) \<mapsto> a)\<rparr>)"
  using assms by (auto simp: cache_true_def find_rule_def is_contact_def)

lemma has_access_cache: "cache_true db \<Longrightarrow> cache_true (snd (has_access_to current target k db))"
  by (auto simp: has_access_to_def Let_def split: option.splits intro: cache_put)

section \<open>In bulk\<close>

lemma put_answer_other: "u' \<noteq> u \<Longrightarrow> put_answer u k a t u' = t u'"
  by (simp add: put_answer_def)

definition answer_at :: "answer_table \<Rightarrow> int \<Rightarrow> privacy_key \<Rightarrow> bool option" where
  "answer_at t u k = (case t u of None \<Rightarrow> None | Some m \<Rightarrow> m k)"

lemma answer_put:
  "answer_at (put_answer u k a t) u' k' = (if u' = u \<and> k' = k then Some a else answer_at t u' k')"
  by (auto simp: answer_at_def put_answer_def split: option.split)

text \<open>Answers put for the rules of a list, whose owners and keys differ.\<close>

lemma answers_fold:
  assumes "distinct (map (\<lambda>r. (pr_user r, pr_key r)) rs)"
  shows "answer_at (fold (\<lambda>r t. case f r of None \<Rightarrow> t | Some a \<Rightarrow> put_answer (pr_user r) (pr_key r) a t) rs t) u k
    = (case find (\<lambda>r. pr_user r = u \<and> pr_key r = k) rs of
         None \<Rightarrow> answer_at t u k
       | Some r \<Rightarrow> (case f r of None \<Rightarrow> answer_at t u k | Some a \<Rightarrow> Some a))"
  using assms
proof (induction rs arbitrary: t)
  case (Cons r rs)
  have "find (\<lambda>r. pr_user r = u \<and> pr_key r = k) rs = None" if "pr_user r = u" "pr_key r = k"
    using Cons.prems that by (auto simp: find_None_iff image_iff)
  then show ?case using Cons by (auto simp: answer_put split: option.split)
qed simp

lemma answers_fold_all:
  assumes "distinct (map (\<lambda>r. (pr_user r, pr_key r)) rs)"
  shows "answer_at (fold (\<lambda>r t. put_answer (pr_user r) (pr_key r) (f r) t) rs t) u k
    = (case find (\<lambda>r. pr_user r = u \<and> pr_key r = k) rs of None \<Rightarrow> answer_at t u k | Some r \<Rightarrow> Some (f r))"
  using answers_fold [OF assms, of "\<lambda>r. Some (f r)" t u k] by (simp split: option.splits)

lemma leftover_raises: "fold (put_leftover cs) xs (Inl e) = Inl e"
  by (induction xs) (auto simp: put_leftover_def)

lemma leftover_fold:
  assumes "cs \<noteq> None \<or> (\<forall>(u, k) \<in> set xs. default_allow_all k)"
  shows "\<exists>t'. fold (put_leftover cs) xs (Inr t) = Inr t' \<and>
    (\<forall>u k. answer_at t' u k = (if (u, k) \<in> set xs then Some (default_allow_all k \<or> (\<exists>c. cs = Some c \<and> u \<in> c))
       else answer_at t u k))"
  using assms
proof (induction xs arbitrary: t)
  case (Cons x xs)
  obtain u k where x: "x = (u, k)" by (cases x)
  let ?a = "default_allow_all k \<or> (\<exists>c. cs = Some c \<and> u \<in> c)"
  have step: "put_leftover cs x (Inr t) = Inr (put_answer u k ?a t)"
    using Cons.prems by (auto simp: x put_leftover_def)
  have "cs \<noteq> None \<or> (\<forall>(u, k) \<in> set xs. default_allow_all k)" using Cons.prems by auto
  then obtain t' where t': "fold (put_leftover cs) xs (Inr (put_answer u k ?a t)) = Inr t'"
    "\<forall>u' k'. answer_at t' u' k' = (if (u', k') \<in> set xs then Some (default_allow_all k' \<or> (\<exists>c. cs = Some c \<and> u' \<in> c))
       else answer_at (put_answer u k ?a t) u' k')" using Cons.IH by blast
  have "fold (put_leftover cs) (x # xs) (Inr t) = Inr t'" using step t'(1) by simp
  then show ?case using t'(2) by (intro exI [of _ t']) (auto simp: x answer_put)
qed simp

lemma leftover_crash:
  assumes "(u, k) \<in> set xs" "\<not> default_allow_all k"
  shows "fold (put_leftover None) xs (Inr t) = Inl TypeError"
  using assms
proof (induction xs arbitrary: t)
  case (Cons x xs)
  obtain u' k' where x: "x = (u', k')" by (cases x)
  show ?case
  proof (cases "default_allow_all k'")
    case True
    then have "put_leftover None x (Inr t) = Inr (put_answer u' k' True t)" by (simp add: x put_leftover_def)
    moreover have "(u, k) \<in> set xs" using Cons.prems x True by auto
    ultimately show ?thesis using Cons.IH Cons.prems(2) by simp
  next
    case False
    then have "put_leftover None x (Inr t) = Inl TypeError" by (simp add: x put_leftover_def)
    then show ?thesis by (simp add: leftover_raises)
  qed
qed simp


lemma find_filter: "(\<And>x. P x \<Longrightarrow> Q x) \<Longrightarrow> find P (filter Q xs) = find P xs"
  by (induction xs) auto

lemma find_filter_key:
  assumes "distinct (map (\<lambda>r. (pr_user r, pr_key r)) rs)"
  shows "find (\<lambda>r. pr_user r = u \<and> pr_key r = k) (filter Q rs)
    = (case find (\<lambda>r. pr_user r = u \<and> pr_key r = k) rs of None \<Rightarrow> None | Some r \<Rightarrow> if Q r then Some r else None)"
  using assms
proof (induction rs)
  case (Cons r rs)
  have "find (\<lambda>r. pr_user r = u \<and> pr_key r = k) rs = None" if "pr_user r = u" "pr_key r = k"
    using Cons.prems that by (auto simp: find_None_iff image_iff)
  then show ?case using Cons by (auto split: option.split)
qed simp

lemma finite_targets: "finite (bulk_targets users this)"
  by (simp add: bulk_targets_def)

lemma leftover_iff:
  assumes "finite ids"
  shows "(u, k) \<in> set (bulk_leftover ids ks found) \<longleftrightarrow> u \<in> ids \<and> k \<in> set ks
    \<and> find (\<lambda>r. pr_user r = u \<and> pr_key r = k) found = None"
  using assms by (auto simp: bulk_leftover_def find_None_iff)

definition contacts_given :: "int set option \<Rightarrow> (int \<times> bool) list \<Rightarrow> int \<Rightarrow> privacy_db \<Rightarrow> bool" where
  "contacts_given contacts users this db \<longleftrightarrow>
     (\<forall>c. contacts = Some c \<longrightarrow> (\<forall>u \<in> bulk_targets users this. u \<in> c \<longleftrightarrow> is_contact u this db))"

lemma bulk_contacts_true:
  assumes "contacts_given contacts users this db" "bulk_contacts (bulk_targets users this) this nc contacts db = Some c"
    and "u \<in> bulk_targets users this"
  shows "u \<in> c \<longleftrightarrow> is_contact u this db"
  using assms by (auto simp: bulk_contacts_def contacts_given_def split: if_splits)

lemma bulk_agrees:
  assumes ok: "cache_true db" "rules_ok db" "contacts_given contacts users this db"
    and run: "has_access_to_bulk users this ks contacts db = (Inr t, db')"
    and u: "u \<in> fst ` set users" "(u, True) \<notin> set users" and k: "k \<in> set ks"
  shows "answer_at t u k = Some (access this u k db)"
proof (cases "bulk_targets users this = {}")
  case True
  then have "u = this" using u by (auto simp: bulk_targets_def)
  have "ks \<noteq> []" using k by auto
  then have "t = bulk_start users this ks" using run True by (simp add: has_access_to_bulk_def Let_def)
  then show ?thesis using u k \<open>u = this\<close> by (simp add: answer_at_def bulk_start_def all_true_def access_def)
next
  case False
  let ?P = "\<lambda>r. pr_user r = u \<and> pr_key r = k"
  have ks: "ks \<noteq> []" using k by auto
  define ids where ids: "ids = bulk_targets users this"
  define found where found: "found = filter (\<lambda>r. pr_key r \<in> set ks \<and> pr_user r \<in> ids) (rules db)"
  define cached :: "privacy_rule \<Rightarrow> bool option"
    where cached: "cached = (\<lambda>r. answers db (this, pr_user r, pr_key r, pr_version r))"
  define t1 where t1: "t1 = fold (\<lambda>r t. case cached r of None \<Rightarrow> t | Some a \<Rightarrow> put_answer (pr_user r) (pr_key r) a t)
      found (bulk_start users this ks)"
  define not_cached where nc: "not_cached = filter (\<lambda>r. cached r = None) found"
  define cs where cs: "cs = bulk_contacts ids this not_cached contacts db"
  define decide :: "privacy_rule \<Rightarrow> bool"
    where decide: "decide = (\<lambda>r. rule_answer r this (\<exists>c. cs = Some c \<and> pr_user r \<in> c))"
  define t2 where t2: "t2 = fold (\<lambda>r t. put_answer (pr_user r) (pr_key r) (decide r) t) not_cached t1"
  have eq: "has_access_to_bulk users this ks contacts db =
      (case fold (put_leftover cs) (bulk_leftover ids ks found) (Inr t2) of
         Inl e \<Rightarrow> (Inl e, db)
       | Inr t \<Rightarrow> (Inr t, db\<lparr>answers := fold (\<lambda>r m. m((this, pr_user r, pr_key r, pr_version r) \<mapsto> decide r))
            not_cached (answers db)\<rparr>))"
    using ks False unfolding has_access_to_bulk_def Let_def t2 t1 decide cs nc cached found ids by simp
  have fin: "finite ids" by (simp add: ids finite_targets)
  have left: "fold (put_leftover cs) (bulk_leftover ids ks found) (Inr t2) = Inr t"
    using run eq by (auto split: sum.splits)
  then have "cs \<noteq> None \<or> (\<forall>(u, k) \<in> set (bulk_leftover ids ks found). default_allow_all k)"
    using leftover_crash [of _ _ "bulk_leftover ids ks found" t2] by fastforce
  from leftover_fold [OF this, of t2] left
  have final: "answer_at t u k = (if (u, k) \<in> set (bulk_leftover ids ks found)
      then Some (default_allow_all k \<or> (\<exists>c. cs = Some c \<and> u \<in> c)) else answer_at t2 u k)" by auto
  have d: "distinct (map (\<lambda>r. (pr_user r, pr_key r)) (rules db))" using ok(2) by (simp add: rules_ok_def)
  then have df: "distinct (map (\<lambda>r. (pr_user r, pr_key r)) found)" by (simp add: found distinct_map_filter)
  then have dn: "distinct (map (\<lambda>r. (pr_user r, pr_key r)) not_cached)" by (simp add: nc distinct_map_filter)
  have at1: "answer_at t1 u k = (case find ?P found of None \<Rightarrow> answer_at (bulk_start users this ks) u k
      | Some r \<Rightarrow> (case cached r of None \<Rightarrow> answer_at (bulk_start users this ks) u k | Some a \<Rightarrow> Some a))"
    unfolding t1 by (rule answers_fold [OF df])
  have at2: "answer_at t2 u k = (case find ?P not_cached of None \<Rightarrow> answer_at t1 u k | Some r \<Rightarrow> Some (decide r))"
    unfolding t2 by (rule answers_fold_all [OF dn])
  have fn: "find ?P not_cached = (case find ?P found of None \<Rightarrow> None | Some r \<Rightarrow> if cached r = None then Some r else None)"
    unfolding nc by (rule find_filter_key [OF df])
  show ?thesis
  proof (cases "u \<in> ids")
    case False
    then have "u = this" using u by (auto simp: ids bulk_targets_def)
    have "find ?P found = None" using False by (auto simp: found find_None_iff)
    then have "answer_at t u k = answer_at (bulk_start users this ks) u k"
      using final at1 at2 fn False fin by (simp add: leftover_iff)
    then show ?thesis using \<open>u = this\<close> u k by (simp add: answer_at_def bulk_start_def all_true_def access_def)
  next
    case True
    then have ne: "this \<noteq> u" by (auto simp: ids bulk_targets_def)
    have fd: "find ?P found = find_rule u k db"
      unfolding found find_rule_def using True k by (intro find_filter) auto
    show ?thesis
    proof (cases "find_rule u k db")
      case None
      then have "(u, k) \<in> set (bulk_leftover ids ks found)" using True k fin fd by (simp add: leftover_iff)
      moreover have "(\<exists>c. cs = Some c \<and> u \<in> c) \<longleftrightarrow> is_contact u this db" if "\<not> default_allow_all k"
      proof -
        have "cs \<noteq> None" using leftover_crash [OF calculation that, of t2] left by (cases cs) auto
        then show ?thesis using bulk_contacts_true [OF ok(3)] True ids cs by auto
      qed
      ultimately show ?thesis using final None ne by (auto simp: access_def)
    next
      case (Some r)
      then have r: "pr_user r = u" "pr_key r = k" using find_rule_keys by auto
      have "(u, k) \<notin> set (bulk_leftover ids ks found)" using Some fd fin by (simp add: leftover_iff)
      then have t: "answer_at t u k = answer_at t2 u k" using final by simp
      show ?thesis
      proof (cases "cached r")
        case None
        then have "answer_at t u k = Some (decide r)" using t at2 fn fd Some by simp
        moreover have "not_cached \<noteq> []" using fn fd Some None by auto
        then have "cs \<noteq> None" by (simp add: cs bulk_contacts_def)
        then have "(\<exists>c. cs = Some c \<and> u \<in> c) \<longleftrightarrow> is_contact u this db"
          using bulk_contacts_true [OF ok(3)] True ids cs by auto
        ultimately show ?thesis using Some ne r by (simp add: decide access_def)
      next
        case (Some a)
        then have "answer_at t u k = Some a" using t at1 at2 fn fd \<open>find_rule u k db = Some r\<close> by simp
        moreover have "a = rule_answer r this (is_contact u this db)"
          using ok(1) Some \<open>find_rule u k db = Some r\<close> r by (fastforce simp: cache_true_def cached)
        ultimately show ?thesis using \<open>find_rule u k db = Some r\<close> ne by (simp add: access_def)
      qed
    qed
  qed
qed

lemma cache_fold:
  assumes "\<forall>r \<in> set rs. find_rule (pr_user r) (pr_key r) db = Some r
     \<and> f r = rule_answer r this (is_contact (pr_user r) this db)"
    and "cache_true (db\<lparr>answers := m\<rparr>)"
  shows "cache_true (db\<lparr>answers := fold (\<lambda>r m. m((this, pr_user r, pr_key r, pr_version r) \<mapsto> f r)) rs m\<rparr>)"
  using assms
proof (induction rs arbitrary: m)
  case (Cons r rs)
  have "cache_true ((db\<lparr>answers := m\<rparr>)\<lparr>answers := (answers (db\<lparr>answers := m\<rparr>))((this, pr_user r, pr_key r, pr_version r) \<mapsto> f r)\<rparr>)"
    by (rule cache_put [OF Cons.prems(2)])
      (use Cons.prems(1) in \<open>auto simp: find_rule_def is_contact_def\<close>)
  then have "cache_true (db\<lparr>answers := m((this, pr_user r, pr_key r, pr_version r) \<mapsto> f r)\<rparr>)"
    by (simp del: fun_upd_apply)
  then show ?case using Cons.IH [of "m((this, pr_user r, pr_key r, pr_version r) \<mapsto> f r)"] Cons.prems(1)
    by (simp only: fold.simps comp_apply list.set ball_simps) blast
qed simp

lemma bulk_cache:
  assumes ok: "cache_true db" "rules_ok db" "contacts_given contacts users this db"
  shows "cache_true (snd (has_access_to_bulk users this ks contacts db))"
proof -
  define ids where ids: "ids = bulk_targets users this"
  define found where found: "found = filter (\<lambda>r. pr_key r \<in> set ks \<and> pr_user r \<in> ids) (rules db)"
  define nc where nc: "nc = filter (\<lambda>r. answers db (this, pr_user r, pr_key r, pr_version r) = None) found"
  define cs where cs: "cs = bulk_contacts ids this nc contacts db"
  define decide :: "privacy_rule \<Rightarrow> bool"
    where decide: "decide = (\<lambda>r. rule_answer r this (\<exists>c. cs = Some c \<and> pr_user r \<in> c))"
  have "\<forall>r \<in> set nc. find_rule (pr_user r) (pr_key r) db = Some r
     \<and> decide r = rule_answer r this (is_contact (pr_user r) this db)"
  proof
    fix r assume r: "r \<in> set nc"
    then have "pr_user r \<in> ids" by (auto simp: nc found)
    moreover have "cs \<noteq> None" using r by (auto simp: cs bulk_contacts_def)
    ultimately have "(\<exists>c. cs = Some c \<and> pr_user r \<in> c) \<longleftrightarrow> is_contact (pr_user r) this db"
      using bulk_contacts_true [OF ok(3)] ids cs by auto
    then show "find_rule (pr_user r) (pr_key r) db = Some r
        \<and> decide r = rule_answer r this (is_contact (pr_user r) this db)"
      using r find_rule_iff [OF ok(2)] by (simp add: decide nc found)
  qed
  then have "cache_true (db\<lparr>answers := fold (\<lambda>r m. m((this, pr_user r, pr_key r, pr_version r) \<mapsto> decide r)) nc (answers db)\<rparr>)"
    by (rule cache_fold) (use ok(1) in simp)
  then show ?thesis using ok(1)
    unfolding has_access_to_bulk_def Let_def decide cs nc found ids by (simp split: sum.split)
qed

lemma bulk_crashes:
  assumes "u \<in> bulk_targets users this" "PHONE_NUMBER \<in> set ks" "find_rule u PHONE_NUMBER db = None"
    and "\<forall>r \<in> set (rules db). answers db (this, pr_user r, pr_key r, pr_version r) \<noteq> None"
  shows "has_access_to_bulk users this ks None db = (Inl TypeError, db)"
proof -
  have ne: "ks \<noteq> []" "bulk_targets users this \<noteq> {}" using assms(1,2) by auto
  let ?ids = "bulk_targets users this"
  define found where "found = filter (\<lambda>r. pr_key r \<in> set ks \<and> pr_user r \<in> ?ids) (rules db)"
  have "find (\<lambda>r. pr_user r = u \<and> pr_key r = PHONE_NUMBER) found = find_rule u PHONE_NUMBER db"
    unfolding found_def find_rule_def using assms(1,2) by (intro find_filter) auto
  then have l: "(u, PHONE_NUMBER) \<in> set (bulk_leftover ?ids ks found)"
    using assms(1-3) by (simp add: leftover_iff finite_targets)
  have "filter (\<lambda>r. answers db (this, pr_user r, pr_key r, pr_version r) = None) found = []"
    using assms(4) by (auto simp: found_def filter_empty_conv)
  then show ?thesis
    using ne leftover_crash [OF l] unfolding has_access_to_bulk_def
    by (simp add: Let_def bulk_contacts_def default_allow_all_def flip: found_def)
qed


section \<open>Setting a rule\<close>

lemma find_put_rule:
  assumes "distinct (map (\<lambda>r. (pr_user r, pr_key r)) rs)"
  shows "find (\<lambda>q. pr_user q = u \<and> pr_key q = k) (put_rule r rs) =
    (if pr_user r = u \<and> pr_key r = k then Some r else find (\<lambda>q. pr_user q = u \<and> pr_key q = k) rs)"
proof -
  let ?f = "\<lambda>q. if pr_user q = pr_user r \<and> pr_key q = pr_key r then r else q"
  have 1: "find (\<lambda>q. pr_user q = u \<and> pr_key q = k) (map ?f rs) =
    (if pr_user r = u \<and> pr_key r = k then map_option (\<lambda>_. r) (find (\<lambda>q. pr_user q = u \<and> pr_key q = k) rs)
     else find (\<lambda>q. pr_user q = u \<and> pr_key q = k) rs)" for rs
    by (induction rs) auto
  have 2: "find P (rs @ [r]) = (case find P rs of None \<Rightarrow> if P r then Some r else None | Some q \<Rightarrow> Some q)" for P
    by (induction rs) auto
  show ?thesis
  proof (cases "\<exists>q \<in> set rs. pr_user q = pr_user r \<and> pr_key q = pr_key r")
    case True
    then have "find (\<lambda>q. pr_user q = u \<and> pr_key q = k) rs \<noteq> None" if "pr_user r = u" "pr_key r = k"
      using that by (auto simp: find_None_iff)
    then show ?thesis using True 1 [of rs] by (auto simp: put_rule_def)
  next
    case False
    then have "find (\<lambda>q. pr_user q = u \<and> pr_key q = k) rs = None" if "pr_user r = u" "pr_key r = k"
      using that by (auto simp: find_None_iff)
    then show ?thesis using False 2 by (auto simp: put_rule_def split: option.split)
  qed
qed

lemma put_rule_distinct:
  assumes "distinct (map (\<lambda>r. (pr_user r, pr_key r)) rs)"
  shows "distinct (map (\<lambda>r. (pr_user r, pr_key r)) (put_rule r rs))"
proof -
  have "map (\<lambda>r. (pr_user r, pr_key r)) (map (\<lambda>q. if pr_user q = pr_user r \<and> pr_key q = pr_key r then r else q) rs)
      = map (\<lambda>r. (pr_user r, pr_key r)) rs" by (induction rs) auto
  then show ?thesis using assms by (auto simp: put_rule_def image_iff simp del: map_map)
qed

lemma update_keys [simp]:
  "pr_user (fst (update_from_tl check u k rs db)) = u" "pr_key (fst (update_from_tl check u k rs db)) = k"
  by (auto simp: update_from_tl_def Let_def default_rule_def split: option.splits dest: find_rule_keys)

lemma update_find:
  assumes "rules_ok db"
  shows "find_rule v j (snd (update_from_tl check u k rs db)) =
    (if v = u \<and> j = k then Some (fst (update_from_tl check u k rs db)) else find_rule v j db)"
proof -
  have "snd (update_from_tl check u k rs db) = db\<lparr>rules := put_rule (fst (update_from_tl check u k rs db)) (rules db)\<rparr>"
    by (simp add: update_from_tl_def Let_def)
  then show ?thesis
    using find_put_rule assms by (auto simp: find_rule_def rules_ok_def)
qed

lemma update_rules_ok: "rules_ok db \<Longrightarrow> rules_ok (snd (update_from_tl check u k rs db))"
  by (simp add: update_from_tl_def Let_def rules_ok_def put_rule_distinct)

lemma update_frame:
  "answers (snd (update_from_tl check u k rs db)) = answers db"
  "contact_rows (snd (update_from_tl check u k rs db)) = contact_rows db"
  by (simp_all add: update_from_tl_def Let_def)

text \<open>The new version leaves every cached answer behind.\<close>

lemma update_cache:
  assumes "cache_true db" "rules_ok db"
  shows "cache_true (snd (update_from_tl check u k rs db))"
proof -
  have v: "find_rule u k db = Some r \<Longrightarrow> pr_version (fst (update_from_tl check u k rs db)) = pr_version r + 1" for r
    by (simp add: update_from_tl_def Let_def)
  show ?thesis unfolding cache_true_def update_frame is_contact_cong [OF update_frame(2)]
  proof (intro allI impI)
    fix current target j w a
    assume "answers db (current, target, j, w) = Some a"
    then obtain r where r: "find_rule target j db = Some r" "w \<le> pr_version r"
      "w = pr_version r \<longrightarrow> a = rule_answer r current (is_contact target current db)"
      using assms(1) unfolding cache_true_def by blast
    then show "\<exists>r. find_rule target j (snd (update_from_tl check u k rs db)) = Some r \<and> w \<le> pr_version r
        \<and> (w = pr_version r \<longrightarrow> a = rule_answer r current (is_contact target current db))"
      using v by (cases "target = u \<and> j = k") (auto simp: update_find [OF assms(2)])
  qed
qed

section \<open>The rules as shown\<close>

text \<open>How a client reads the rules: a named user first, then the general ones.\<close>

definition shown_allow :: "tl_rule list \<Rightarrow> int \<Rightarrow> bool \<Rightarrow> bool" where
  "shown_allow rs u contact \<longleftrightarrow>
     (if \<exists>us. AllowUsers us \<in> set rs \<and> u \<in> set us then True
      else if \<exists>us. DisallowUsers us \<in> set rs \<and> u \<in> set us then False
      else AllowAll \<in> set rs \<or> AllowContacts \<in> set rs \<and> contact)"

lemma find_exception:
  assumes "distinct (map fst es)"
  shows "find (\<lambda>e. fst e = u) es = Some e \<longleftrightarrow> e \<in> set es \<and> fst e = u"
  using assms by (induction es) (auto simp: image_iff)

lemma shown_rule:
  assumes "distinct (map fst (pr_exceptions r))"
  shows "shown_allow (to_tl_rules r) u contact = rule_answer r u contact"
proof -
  note ex = find_exception [OF assms, of u]
  have none: "find (\<lambda>e. fst e = u) (pr_exceptions r) = None \<longleftrightarrow> (\<forall>e \<in> set (pr_exceptions r). fst e \<noteq> u)"
    by (auto simp: find_None_iff)
  have same: "a = b" if "(u, a) \<in> set (pr_exceptions r)" "(u, b) \<in> set (pr_exceptions r)" for a b
    using that assms by (metis eq_key_imp_eq_value)
  have named: "AllowUsers us \<in> set (to_tl_rules r) \<longleftrightarrow> us \<noteq> [] \<and> us = map fst (filter snd (pr_exceptions r))"
    "DisallowUsers us \<in> set (to_tl_rules r) \<longleftrightarrow> us \<noteq> [] \<and> us = map fst (filter (\<lambda>e. \<not> snd e) (pr_exceptions r))" for us
    by (auto simp: to_tl_rules_def Let_def)
  have members: "u \<in> set (map fst (filter snd (pr_exceptions r))) \<longleftrightarrow> (u, True) \<in> set (pr_exceptions r)"
    "u \<in> set (map fst (filter (\<lambda>e. \<not> snd e) (pr_exceptions r))) \<longleftrightarrow> (u, False) \<in> set (pr_exceptions r)"
    by force+
  have allow: "(\<exists>us. AllowUsers us \<in> set (to_tl_rules r) \<and> u \<in> set us) \<longleftrightarrow> (u, True) \<in> set (pr_exceptions r)"
    unfolding named using members(1) by (metis list.set_cases list.distinct(1))
  have disallow: "(\<exists>us. DisallowUsers us \<in> set (to_tl_rules r) \<and> u \<in> set us) \<longleftrightarrow> (u, False) \<in> set (pr_exceptions r)"
    unfolding named using members(2) by (metis list.set_cases list.distinct(1))
  have general: "AllowAll \<in> set (to_tl_rules r) \<longleftrightarrow> pr_allow_all r"
    "AllowContacts \<in> set (to_tl_rules r) \<longleftrightarrow> \<not> pr_allow_all r \<and> pr_allow_contacts r"
    by (auto simp: to_tl_rules_def Let_def)
  have shown: "shown_allow (to_tl_rules r) u contact \<longleftrightarrow>
      (if (u, True) \<in> set (pr_exceptions r) then True else if (u, False) \<in> set (pr_exceptions r) then False
       else pr_allow_all r \<or> pr_allow_contacts r \<and> contact)"
    unfolding shown_allow_def allow disallow general by auto
  show ?thesis
  proof (cases "find (\<lambda>e. fst e = u) (pr_exceptions r)")
    case None
    then have "(u, a) \<notin> set (pr_exceptions r)" for a using none by auto
    then show ?thesis using None by (simp add: shown rule_answer_def)
  next
    case (Some e)
    then obtain a where e: "e = (u, a)" "(u, a) \<in> set (pr_exceptions r)" using ex by (metis prod.collapse)
    then show ?thesis using Some same by (cases a) (auto simp: shown rule_answer_def)
  qed
qed


section \<open>What an update means\<close>

lemma find_map_key: "find (\<lambda>e. fst e = v) (map (\<lambda>(w, a). (w, f w a)) es) =
    map_option (\<lambda>(w, a). (w, f w a)) (find (\<lambda>e. fst e = v) es)"
  by (induction es) auto

lemma find_append: "find P (xs @ ys) = (case find P xs of None \<Rightarrow> find P ys | Some x \<Rightarrow> Some x)"
  by (induction xs) auto

lemma find_new: "find (\<lambda>e. fst e = v) (map (\<lambda>w. (w, f w)) ws) = (if v \<in> set ws then Some (v, f v) else None)"
  by (induction ws) auto

lemma update_exceptions_at:
  assumes "v \<in> set known"
  shows "find (\<lambda>e. fst e = v) (update_exceptions known allow disallow old) =
    (if v \<in> allow then Some (v, True) else if v \<in> disallow then Some (v, False) else None)"
proof -
  define named where "named = allow \<union> disallow"
  define kept where "kept = filter (\<lambda>(w, _). w \<in> named) old"
  have kept: "find (\<lambda>e. fst e = v) kept \<noteq> None \<longleftrightarrow> v \<in> fst ` set kept"
    by (auto simp: find_None_iff intro: rev_image_eqI)
  have some: "find (\<lambda>e. fst e = v) kept = Some e \<Longrightarrow> fst e = v" for e by (auto simp: find_Some_iff)
  have out: "find (\<lambda>e. fst e = v) kept = None" if "v \<notin> named"
    using that by (auto simp: find_None_iff kept_def)
  have eq: "update_exceptions known allow disallow old = (if named = {} then []
      else map (\<lambda>(w, a). (w, if w \<in> set known then w \<in> allow else a)) kept
        @ map (\<lambda>w. (w, w \<in> allow)) (filter (\<lambda>w. w \<in> named \<and> w \<notin> fst ` set kept) known))"
    by (simp add: update_exceptions_def Let_def named_def kept_def)
  have "find (\<lambda>e. fst e = v) (update_exceptions known allow disallow old) =
      (if v \<in> named then Some (v, v \<in> allow) else None)"
  proof (cases "find (\<lambda>e. fst e = v) kept")
    case None
    then show ?thesis using assms kept by (auto simp: eq find_append find_map_key find_new)
  next
    case (Some e)
    then obtain a where "e = (v, a)" using some by (metis prod.collapse)
    then show ?thesis using assms out Some by (auto simp: eq find_append find_map_key find_new)
  qed
  then show ?thesis by (auto simp: named_def)
qed

lemma update_access:
  fixes check :: "int \<Rightarrow> int \<Rightarrow> bool" and rs :: "input_rule list"
  assumes ok: "rules_ok db" and v: "v \<in> set (user_rows db)" "v \<noteq> u"
  defines "x \<equiv> read_input_rules check u rs"
  shows "access v u k (snd (update_from_tl check u k rs db)) =
    (if v \<in> ru_allow x then True else if v \<in> ru_disallow x then False
     else ru_allow_all x \<or> ru_allow_contacts x \<and> is_contact u v db)"
proof -
  have "pr_exceptions (fst (update_from_tl check u k rs db)) = update_exceptions (user_rows db) (ru_allow x) (ru_disallow x)
      (pr_exceptions (case find_rule u k db of None \<Rightarrow> default_rule u k | Some r \<Rightarrow> r))"
    "pr_allow_all (fst (update_from_tl check u k rs db)) = ru_allow_all x"
    "pr_allow_contacts (fst (update_from_tl check u k rs db)) = ru_allow_contacts x"
    by (auto simp: update_from_tl_def Let_def x_def split: option.splits)
  then show ?thesis
    using v by (simp add: access_def update_find [OF ok] is_contact_cong [OF update_frame(2)]
        rule_answer_def update_exceptions_at)
qed

text \<open>An owner never excepts itself, and a rule names nobody the access hash does not vouch for.\<close>

lemma inputusers_vouched:
  "v \<in> inputusers_to_uids check u us S \<Longrightarrow> v \<in> S \<or> v \<noteq> u \<and> (\<exists>h. check v h)"
proof (induction us arbitrary: S)
  case (Cons x us)
  then have "v \<in> add_input_user check u x S \<or> v \<noteq> u \<and> (\<exists>h. check v h)"
    by (simp add: inputusers_to_uids_def)
  then show ?case by (cases x) (auto split: if_splits)
qed (simp add: inputusers_to_uids_def)

lemma read_rules_vouched:
  assumes "v \<in> ru_allow (read_input_rules check u rs) \<union> ru_disallow (read_input_rules check u rs)"
  shows "v \<noteq> u \<and> (\<exists>h. check v h)"
proof -
  have "v \<in> ru_allow (fold (read_input_rule check u) rs x) \<union> ru_disallow (fold (read_input_rule check u) rs x)
      \<Longrightarrow> v \<in> ru_allow x \<union> ru_disallow x \<or> v \<noteq> u \<and> (\<exists>h. check v h)" for x
  proof (induction rs arbitrary: x)
    case (Cons r rs)
    let ?y = "read_input_rule check u r x"
    have "v \<in> ru_allow ?y \<union> ru_disallow ?y \<or> v \<noteq> u \<and> (\<exists>h. check v h)" using Cons by simp
    then show ?case by (cases r) (auto dest: inputusers_vouched)
  qed simp
  then show ?thesis using assms unfolding read_input_rules_def by fastforce
qed

section \<open>Where the cache goes wrong\<close>

text \<open>
  A removed contact: the answer that was cached while the contact was there stays, because the
  version of the rule did not change and the entry does not expire.
\<close>

lemma stale_answer:
  assumes "find_rule u k db = Some r" "\<not> pr_allow_all r" "pr_allow_contacts r"
    and "find (\<lambda>e. fst e = v) (pr_exceptions r) = None" "v \<noteq> u" "is_contact u v db" "cache_true db"
  defines "db' \<equiv> delete_contacts u [v] (snd (has_access_to v u k db))"
  shows "fst (has_access_to v u k db') \<and> \<not> access v u k db'"
proof -
  let ?db1 = "snd (has_access_to v u k db)"
  have a: "access v u k db" using assms by (simp add: access_def rule_answer_def)
  then have "fst (has_access_to v u k db)" using has_access_value assms(7) by blast
  then have "answers ?db1 (v, u, k, pr_version r) = Some True"
    using assms(1,5) by (auto simp: has_access_to_def Let_def split: option.splits)
  moreover have f: "find_rule u k db' = Some r"
    using assms(1) by (simp add: db'_def delete_contacts_def find_rule_def has_access_frame)
  moreover have "answers db' = answers ?db1" by (simp add: db'_def delete_contacts_def)
  ultimately have "fst (has_access_to v u k db')" using assms(5) by (simp add: has_access_to_def)
  moreover have "\<not> is_contact u v db'" by (auto simp: db'_def delete_contacts_def is_contact_def)
  ultimately show ?thesis using f assms(2-5) by (simp add: access_def rule_answer_def)
qed

lemma set_privacy_key_error:
  assumes "key_from_tl ik \<in> {NO_PAID_MESSAGES, GIFTS_AUTOSAVE}" "length rs \<le> 100"
  shows "set_privacy check u ik rs db = (Inl KeyError, snd (update_from_tl check u (key_from_tl ik) rs db))"
proof -
  obtain r db1 where r: "update_from_tl check u (key_from_tl ik) rs db = (r, db1)" by (metis surj_pair)
  then have "key_to_tl (pr_key r) = Inl KeyError"
    using assms(1) update_keys(2) [of check u "key_from_tl ik" rs db] by auto
  then show ?thesis using assms(2) r by (simp add: set_privacy_def Let_def)
qed

end
