(* ===== verification/PrivacyProperties.thy ===== *)
theory PrivacyProperties
  imports PrivacyFacts
begin

text \<open>What the privacy rules promise (\<^verbatim>\<open>piltover/db/models/privacy_rule.py\<close>).\<close>

section \<open>Rules and questions in any order\<close>

text \<open>The contacts stay as they are; what happens when they change is a property of its own.\<close>

inductive privacy_reachable :: "privacy_db \<Rightarrow> bool" where
  fresh: "rules db = [] \<Longrightarrow> answers db = (\<lambda>_. None) \<Longrightarrow> privacy_reachable db"
| registered: "privacy_reachable db \<Longrightarrow> privacy_reachable (create_defaults_for_user u db)"
| asked: "privacy_reachable db \<Longrightarrow> privacy_reachable (snd (has_access_to v u k db))"
| asked_bulk: "privacy_reachable db \<Longrightarrow> privacy_reachable (snd (has_access_to_bulk us v ks None db))"
| changed: "privacy_reachable db \<Longrightarrow> privacy_reachable (snd (update_from_tl check u k rs db))"

lemma defaults_rules: "rules (create_defaults_for_user u db) =
    rules db @ map (default_rule u) (filter (\<lambda>k. find_rule u k db = None) shown_keys)"
  by (simp add: create_defaults_for_user_def)

lemma defaults_find:
  assumes "find_rule v k db = Some r"
  shows "find_rule v k (create_defaults_for_user u db) = Some r"
  using assms by (simp add: find_rule_def defaults_rules find_append)

lemma defaults_rules_ok:
  assumes "rules_ok db"
  shows "rules_ok (create_defaults_for_user u db)"
proof -
  have d: "distinct shown_keys" by (simp add: shown_keys_def)
  have "\<not> (pr_user r = u \<and> pr_key r = k)" if "r \<in> set (rules db)" "find_rule u k db = None" for r k
    using that find_rule_None [of u k db] by blast
  then show ?thesis using assms d
    by (auto simp: rules_ok_def defaults_rules distinct_map inj_on_def default_rule_def)
qed

lemma defaults_cache:
  assumes "cache_true db"
  shows "cache_true (create_defaults_for_user u db)"
proof -
  have a: "answers (create_defaults_for_user u db) = answers db" "contact_rows (create_defaults_for_user u db) = contact_rows db"
    by (simp_all add: create_defaults_for_user_def)
  show ?thesis unfolding cache_true_def a(1)
  proof (intro allI impI)
    fix current target k v x assume "answers db (current, target, k, v) = Some x"
    then obtain r where "find_rule target k db = Some r" "v \<le> pr_version r"
      "v = pr_version r \<longrightarrow> x = rule_answer r current (is_contact target current db)"
      using assms unfolding cache_true_def by blast
    then show "\<exists>r. find_rule target k (create_defaults_for_user u db) = Some r \<and> v \<le> pr_version r
        \<and> (v = pr_version r \<longrightarrow> x = rule_answer r current (is_contact target current (create_defaults_for_user u db)))"
      using defaults_find is_contact_cong [OF a(2)] by auto
  qed
qed

lemma privacy_reachable_inv: "privacy_reachable db \<Longrightarrow> rules_ok db \<and> cache_true db"
proof (induction rule: privacy_reachable.induct)
  case (fresh db)
  then show ?case by (simp add: rules_ok_def cache_true_def)
next
  case (asked db v u k)
  have "rules_ok (snd (has_access_to v u k db)) = rules_ok db" by (simp add: rules_ok_def has_access_frame)
  then show ?case using asked has_access_cache by blast
next
  case (asked_bulk db us v ks)
  have "rules (snd (has_access_to_bulk us v ks None db)) = rules db"
    by (simp add: has_access_to_bulk_def Let_def split: sum.split)
  then have "rules_ok (snd (has_access_to_bulk us v ks None db))" using asked_bulk by (simp add: rules_ok_def)
  then show ?case using asked_bulk bulk_cache by (simp add: contacts_given_def)
qed (simp_all add: defaults_rules_ok defaults_cache update_rules_ok update_cache)


definition demo_privacy :: privacy_db where
  "demo_privacy = \<lparr>rules = [], contact_rows = [(1, 2)], user_rows = [1, 2, 3, 4], answers = (\<lambda>_. None)\<rparr>"

text \<open>User 1 shows the number to contacts and to user 3.\<close>

definition demo_changed :: privacy_db where
  "demo_changed = snd (update_from_tl (\<lambda>_ _. True) 1 PHONE_NUMBER [InputAllowContacts, InputAllowUsers [InputUser 3 0]]
     (create_defaults_for_user 1 demo_privacy))"

lemma demo_changed_reachable: "privacy_reachable demo_changed"
proof -
  have "privacy_reachable demo_privacy" by (rule fresh) (simp_all add: demo_privacy_def)
  then show ?thesis unfolding demo_changed_def by (intro changed registered)
qed

lemma demo_rules_ok: "rules_ok demo_privacy"
  by (simp add: rules_ok_def demo_privacy_def)

lemma demo_rule:
  "find_rule 1 PHONE_NUMBER demo_changed = Some (fst (update_from_tl (\<lambda>_ _. True) 1 PHONE_NUMBER
     [InputAllowContacts, InputAllowUsers [InputUser 3 0]] (create_defaults_for_user 1 demo_privacy)))"
  unfolding demo_changed_def using update_find [OF defaults_rules_ok [OF demo_rules_ok]] by simp

lemma demo_contacts: "is_contact 1 v demo_changed \<longleftrightarrow> v = 2"
  unfolding demo_changed_def is_contact_def update_frame(2)
  by (simp add: create_defaults_for_user_def demo_privacy_def)



lemma demo_bulk_runs: "\<exists>t. fst (has_access_to_bulk [(1, False)] 2 [PHONE_NUMBER] None demo_changed) = Inr t"
proof -
  define r where "r = fst (update_from_tl (\<lambda>_ _. True) 1 PHONE_NUMBER
     [InputAllowContacts, InputAllowUsers [InputUser 3 0]] (create_defaults_for_user 1 demo_privacy))"
  have r: "r \<in> set (rules demo_changed)" "pr_user r = 1" "pr_key r = PHONE_NUMBER"
    using demo_rule find_rule_iff [of demo_changed 1 PHONE_NUMBER r] privacy_reachable_inv [OF demo_changed_reachable]
    unfolding r_def by auto
  have left: "bulk_leftover (bulk_targets [(1, False)] 2) [PHONE_NUMBER] (filter (\<lambda>r. pr_key r \<in> set [PHONE_NUMBER]
      \<and> pr_user r \<in> bulk_targets [(1, False)] 2) (rules demo_changed)) = []"
    using r by (auto simp: bulk_leftover_def bulk_targets_def filter_empty_conv)
  have t: "bulk_targets [(1, False)] 2 \<noteq> {}" by (auto simp: bulk_targets_def)
  show ?thesis unfolding has_access_to_bulk_def Let_def left using t by simp
qed


section \<open>Changing a rule\<close>

text \<open>
  C36. After a change exactly the answers the new rule states hold for every other user, whatever the
  rule, its exceptions and the cache were before: allowed users first, then refused ones, then
  everybody or the contacts.
\<close>

theorem change_is_enforced:
  assumes "privacy_reachable db" "v \<in> set (user_rows db)" "v \<noteq> u"
  shows "fst (has_access_to v u k (snd (update_from_tl check u k rs db))) \<longleftrightarrow>
    (if v \<in> ru_allow (read_input_rules check u rs) then True
     else if v \<in> ru_disallow (read_input_rules check u rs) then False
     else ru_allow_all (read_input_rules check u rs) \<or> ru_allow_contacts (read_input_rules check u rs) \<and> is_contact u v db)"
proof -
  have ok: "rules_ok db" "cache_true db" using privacy_reachable_inv [OF assms(1)] by blast+
  have "cache_true (snd (update_from_tl check u k rs db))" using update_cache [OF ok(2,1)] .
  then show ?thesis using has_access_value update_access [OF ok(1) assms(2,3)] by simp
qed

lemma change_is_enforced_witness:
  "\<not> fst (has_access_to 3 1 PHONE_NUMBER (snd (update_from_tl (\<lambda>_ _. True) 1 PHONE_NUMBER
      [InputAllowAll, InputDisallowUsers [InputUser 3 0]] demo_changed)))
   \<and> fst (has_access_to 4 1 PHONE_NUMBER (snd (update_from_tl (\<lambda>_ _. True) 1 PHONE_NUMBER
      [InputAllowAll, InputDisallowUsers [InputUser 3 0]] demo_changed)))"
proof -
  have u: "user_rows demo_changed = [1, 2, 3, 4]"
    by (simp add: demo_changed_def update_from_tl_def create_defaults_for_user_def demo_privacy_def Let_def)
  show ?thesis
    using change_is_enforced [OF demo_changed_reachable, of 3 1] change_is_enforced [OF demo_changed_reachable, of 4 1] u
    by (simp add: read_input_rules_def inputusers_to_uids_def)
qed

text \<open>
  The rules a user is shown say what is enforced: reading them as the client does gives the
  answer of the stored rule, for every user and contact state.
\<close>

theorem shown_is_enforced:
  assumes "distinct (map fst (pr_exceptions r))"
  shows "shown_allow (to_tl_rules r) u contact = rule_answer r u contact"
  using assms by (rule shown_rule)

lemma shown_is_enforced_witness:
  "shown_allow (to_tl_rules ((default_rule 1 PHONE_NUMBER)\<lparr>pr_exceptions := [(3, True), (4, False)]\<rparr>)) 3 False
   \<and> \<not> shown_allow (to_tl_rules ((default_rule 1 PHONE_NUMBER)\<lparr>pr_exceptions := [(3, True), (4, False)]\<rparr>)) 4 True"
  using shown_is_enforced [of "(default_rule 1 PHONE_NUMBER)\<lparr>pr_exceptions := [(3, True), (4, False)]\<rparr>"]
  by (simp add: rule_answer_def)

section \<open>What goes wrong\<close>

text \<open>
  A contact who was once answered keeps his access after he was removed from the contacts: the
  cached answer has no expiry and the version of the rule does not change.
\<close>

theorem removed_contact_keeps_access:
  assumes "cache_true db" "find_rule u k db = Some r" "\<not> pr_allow_all r" "pr_allow_contacts r"
    and "find (\<lambda>e. fst e = v) (pr_exceptions r) = None" "v \<noteq> u" "is_contact u v db"
  shows "fst (has_access_to v u k (delete_contacts u [v] (snd (has_access_to v u k db))))
    \<and> \<not> is_contact u v (delete_contacts u [v] (snd (has_access_to v u k db)))"
  using stale_answer [OF assms(2-7,1)] by (simp add: is_contact_def delete_contacts_def)

lemma removed_contact_keeps_access_witness:
  "fst (has_access_to 2 1 PHONE_NUMBER (delete_contacts 1 [2] (snd (has_access_to 2 1 PHONE_NUMBER demo_changed))))
    \<and> \<not> is_contact 1 2 (delete_contacts 1 [2] (snd (has_access_to 2 1 PHONE_NUMBER demo_changed)))"
proof -
  have "cache_true demo_changed" using privacy_reachable_inv [OF demo_changed_reachable] ..
  then show ?thesis
    by (rule removed_contact_keeps_access [OF _ demo_rule])
      (simp_all add: demo_contacts update_from_tl_def read_input_rules_def inputusers_to_uids_def update_exceptions_def
        create_defaults_for_user_def demo_privacy_def find_rule_def shown_keys_def default_rule_def Let_def)
qed

text \<open>
  Two keys of the interface have no counterpart to show: setting such a rule stores it and then
  fails, so that the client is told nothing.
\<close>

theorem hidden_key_fails_after_storing:
  assumes "key_from_tl ik \<in> {NO_PAID_MESSAGES, GIFTS_AUTOSAVE}" "length rs \<le> 100"
  shows "set_privacy check u ik rs db = (Inl KeyError, snd (update_from_tl check u (key_from_tl ik) rs db))"
  using assms by (rule set_privacy_key_error)

lemma hidden_key_fails_after_storing_witness:
  "fst (set_privacy (\<lambda>_ _. True) 1 InputPrivacyKeyNoPaidMessages [InputAllowAll] demo_privacy) = Inl KeyError"
  using hidden_key_fails_after_storing [of InputPrivacyKeyNoPaidMessages "[InputAllowAll]"] by simp

text \<open>
  Asking in bulk for phone numbers fails when every rule asked about is cached and one user has no
  rule: the contacts, which decide his default, were never loaded.
\<close>

theorem bulk_question_fails:
  assumes "u \<in> bulk_targets users this" "PHONE_NUMBER \<in> set ks" "find_rule u PHONE_NUMBER db = None"
    and "\<forall>r \<in> set (rules db). answers db (this, pr_user r, pr_key r, pr_version r) \<noteq> None"
  shows "has_access_to_bulk users this ks None db = (Inl TypeError, db)"
  using assms by (rule bulk_crashes)

lemma bulk_question_fails_witness:
  "has_access_to_bulk [(1, False)] 2 [PHONE_NUMBER] None demo_privacy = (Inl TypeError, demo_privacy)"
  by (rule bulk_question_fails [of 1]) (auto simp: bulk_targets_def demo_privacy_def find_rule_def)

end
