(* ===== verification/Channels.thy ===== *)
theory Channels
  imports Complex_Main Effects PyText "HOL-Library.AList"
begin

text \<open>
  Rights in chats and channels (\<^verbatim>\<open>piltover/db/models/chat_base.py\<close>, \<^verbatim>\<open>chat_participant.py\<close>,
  \<^verbatim>\<open>channel.py\<close>) and the requests of \<^verbatim>\<open>piltover/app/handlers/channels.py\<close> that change them:
  administrators, restrictions, the creator, and who joins and leaves. A chat is its row with its
  participants and the pending join requests, each with the owner of the invite link it came by.
  The right sets are the flags' bits in a word; the pushes to clients and the
  messages that tell of a change are left out, the subscription of the joining user's sessions is
  the handler's result.
\<close>

unbundle bit_operations_syntax

section \<open>Rights\<close>

type_synonym rights = "32 word"

definition VIEW_MESSAGES :: rights where "VIEW_MESSAGES = 1"
definition SEND_MESSAGES :: rights where "SEND_MESSAGES = 2"
definition SEND_MEDIA :: rights where "SEND_MEDIA = 4"
definition BAN_INVITE_USERS :: rights where "BAN_INVITE_USERS = 0x8000"
definition BAN_PIN_MESSAGES :: rights where "BAN_PIN_MESSAGES = 0x20000"
definition SEND_PLAIN :: rights where "SEND_PLAIN = 0x2000000"

definition ADMIN_POST_MESSAGES :: rights where "ADMIN_POST_MESSAGES = 2"
definition ADMIN_EDIT_MESSAGES :: rights where "ADMIN_EDIT_MESSAGES = 4"
definition ADMIN_BAN_USERS :: rights where "ADMIN_BAN_USERS = 16"
definition ADMIN_INVITE_USERS :: rights where "ADMIN_INVITE_USERS = 32"
definition ADMIN_PIN_MESSAGES :: rights where "ADMIN_PIN_MESSAGES = 128"
definition ADMIN_ADD_ADMINS :: rights where "ADMIN_ADD_ADMINS = 0x200"

text \<open>All but \<open>ANONYMOUS\<close>.\<close>

definition CREATOR_RIGHTS :: rights where "CREATOR_RIGHTS = 0x1FABF"

section \<open>Rows\<close>

record participant =
  p_admin_rights :: rights
  p_banned_rights :: rights
  p_banned_until :: int
  p_left :: bool
  p_rank :: string
  p_promoted_by :: int
  p_inviter :: int

datatype log_action = PARTICIPANT_JOIN | PARTICIPANT_LEAVE | PARTICIPANT_BAN | PARTICIPANT_ADMIN

record chat =
  ch_is_channel :: bool
  ch_broadcast :: bool
  ch_creator :: int
  ch_banned_rights :: rights
  ch_nojoin_allow_view :: bool
  ch_is_discussion :: bool
  ch_join_to_send :: bool
  ch_deleted :: bool
  ch_version :: int
  ch_admins_count :: nat
  ch_members :: "(int \<times> participant) list"
  ch_requests :: "(int \<times> int) list"
  ch_log :: "(int \<times> log_action) list"

definition new_participant :: "int \<Rightarrow> participant" where
  "new_participant inviter = \<lparr>p_admin_rights = 0, p_banned_rights = 0, p_banned_until = 0, p_left = False,
     p_rank = [], p_promoted_by = 0, p_inviter = inviter\<rparr>"

definition is_admin :: "participant \<Rightarrow> bool" where
  "is_admin p \<longleftrightarrow> p_admin_rights p > 0"

definition get_participant :: "int \<Rightarrow> bool \<Rightarrow> chat \<Rightarrow> participant option" where
  "get_participant u allow_left c =
     (case map_of (ch_members c) u of None \<Rightarrow> None | Some p \<Rightarrow> if p_left p \<and> \<not> allow_left then None else Some p)"

section \<open>Permissions\<close>

text \<open>The participant is given with its user.\<close>

definition check_rights :: "chat \<Rightarrow> (int \<times> participant) option \<Rightarrow> rights \<Rightarrow> rights \<Rightarrow> bool" where
  "check_rights c who admin regular =
     (case who of
        None \<Rightarrow> ch_banned_rights c AND regular = 0
      | Some (u, p) \<Rightarrow>
          (if ch_creator c = u then True
           else let has_admin = (p_admin_rights p AND admin = admin) in
             if ch_is_channel c \<and> ch_broadcast c \<and> admin > 0
             then (if \<not> is_admin p then False else has_admin)
             else if p_banned_rights p AND regular > 0 then False
             else if has_admin then True
             else ch_banned_rights c AND regular = 0))"

text \<open>For a broadcast channel the participant is used without a check that there is one.\<close>

definition user_has_permission :: "chat \<Rightarrow> (int \<times> participant) option \<Rightarrow> rights \<Rightarrow> bool res" where
  "user_has_permission c who permission =
     (case who of
        None \<Rightarrow> if ch_is_channel c \<and> ch_broadcast c then Inl AttributeError
                else Inr (ch_banned_rights c AND permission = 0)
      | Some (u, p) \<Rightarrow>
          Inr (if ch_is_channel c \<and> ch_broadcast c \<and> \<not> is_admin p \<and> ch_creator c \<noteq> u then False
               else if is_admin p \<or> ch_creator c = u then True
               else if p_banned_rights p = 0 then ch_banned_rights c AND permission = 0
               else p_banned_rights p AND permission = 0))"

definition admin_has_permission :: "chat \<Rightarrow> int \<times> participant \<Rightarrow> rights \<Rightarrow> bool" where
  "admin_has_permission c = (\<lambda>(u, p) permission. ch_creator c = u \<or> p_admin_rights p AND permission = permission)"

definition can_view_messages :: "chat \<Rightarrow> (int \<times> participant) option \<Rightarrow> bool" where
  "can_view_messages c who =
     (if who = None \<or> (\<exists>u p. who = Some (u, p) \<and> p_left p)
      then ch_is_channel c \<and> ch_nojoin_allow_view c
      else check_rights c who 0 VIEW_MESSAGES)"

definition check_can_send :: "chat \<Rightarrow> (int \<times> participant) option \<Rightarrow> bool" where
  "check_can_send c who =
     (if \<not> can_view_messages c who then False
      else if \<not> ch_is_channel c \<and> who = None then False
      else if ch_is_channel c \<and> who = None \<and> ch_is_discussion c \<and> ch_join_to_send c then ch_nojoin_allow_view c
      else True)"

definition can_send_messages :: "chat \<Rightarrow> (int \<times> participant) option \<Rightarrow> bool" where
  "can_send_messages c who \<longleftrightarrow> check_can_send c who \<and> check_rights c who ADMIN_POST_MESSAGES SEND_MESSAGES"

definition can_send_plain :: "chat \<Rightarrow> (int \<times> participant) option \<Rightarrow> bool" where
  "can_send_plain c who \<longleftrightarrow> can_send_messages c who \<and> check_rights c who ADMIN_POST_MESSAGES SEND_PLAIN"

definition can_edit_messages :: "chat \<Rightarrow> (int \<times> participant) option \<Rightarrow> bool" where
  "can_edit_messages c who \<longleftrightarrow> check_can_send c who \<and> check_rights c who ADMIN_EDIT_MESSAGES SEND_MESSAGES"

definition can_send_media :: "chat \<Rightarrow> (int \<times> participant) option \<Rightarrow> rights \<Rightarrow> bool" where
  "can_send_media c who media_type \<longleftrightarrow>
     can_send_messages c who \<and> check_rights c who ADMIN_POST_MESSAGES (SEND_MEDIA OR media_type)"

definition can_pin_messages :: "chat \<Rightarrow> (int \<times> participant) option \<Rightarrow> bool" where
  "can_pin_messages c who \<longleftrightarrow> check_rights c who ADMIN_PIN_MESSAGES BAN_PIN_MESSAGES"

section \<open>Changes\<close>

type_synonym 'a chan = "('a, chat) act"

definition rpc :: "int \<Rightarrow> string \<Rightarrow> py_error" where
  "rpc code m = ErrorRpc code m"

definition require :: "bool \<Rightarrow> int \<Rightarrow> string \<Rightarrow> unit chan" where
  "require b code m = (if b then sreturn () else sraise (rpc code m))"

definition put_member :: "int \<Rightarrow> participant \<Rightarrow> chat \<Rightarrow> chat" where
  "put_member u p c = c\<lparr>ch_members := AList.update u p (ch_members c)\<rparr>"

definition add_log :: "int \<Rightarrow> log_action \<Rightarrow> chat \<Rightarrow> chat" where
  "add_log u a c = c\<lparr>ch_log := ch_log c @ [(u, a)]\<rparr>"

definition drop_request :: "int \<Rightarrow> chat \<Rightarrow> chat" where
  "drop_request u c = c\<lparr>ch_requests := filter (\<lambda>(v, _). v \<noteq> u) (ch_requests c)\<rparr>"

definition admins :: "chat \<Rightarrow> int list" where
  "admins c = map fst (filter (\<lambda>(u, p). is_admin p) (ch_members c))"

definition sync_admins_count :: "chat \<Rightarrow> chat" where
  "sync_admins_count c = c\<lparr>ch_admins_count := length (admins c)\<rparr>"

text \<open>How the client names the channel: by membership alone, or with an access hash.\<close>

datatype channel_access = ByMembership | ByAccessHash bool

definition find_channel :: "channel_access \<Rightarrow> int \<Rightarrow> chat \<Rightarrow> bool" where
  "find_channel a u c \<longleftrightarrow> \<not> ch_deleted c \<and>
     (case a of ByMembership \<Rightarrow> get_participant u False c \<noteq> None | ByAccessHash ok \<Rightarrow> ok)"

definition with_participant :: "int \<Rightarrow> int \<Rightarrow> string \<Rightarrow> (participant \<Rightarrow> 'a chan) \<Rightarrow> 'a chan" where
  "with_participant u code m k =
     (\<lambda>c. case get_participant u False c of None \<Rightarrow> (Inl (rpc code m), c) | Some p \<Rightarrow> k p c)"

text \<open>
  Whom a request names (\<^verbatim>\<open>piltover/db/models/peer.py\<close>). The flag of a user and the access of a
  channel are the outcome of the comparison of the access hash.
\<close>

datatype input_peer =
    InPeerSelf
  | InPeerUser int bool
  | InPeerChat int
  | InPeerChannel int channel_access
  | InPeerEmpty
  | InPeerOther

datatype peer_target = SelfPeer int | UserPeer int | ChatPeer int | ChannelPeer int

definition norm_id :: "int \<Rightarrow> int" where
  "norm_id t_id = t_id div 2"

definition type_and_id_from_input :: "int \<Rightarrow> input_peer \<Rightarrow> peer_target option res" where
  "type_and_id_from_input u inp =
     (case inp of
        InPeerEmpty \<Rightarrow> Inr None
      | InPeerSelf \<Rightarrow> Inr (Some (SelfPeer u))
      | InPeerUser v hash_ok \<Rightarrow>
          Inr (if v = u then Some (SelfPeer u) else if hash_ok then Some (UserPeer v) else None)
      | InPeerChat i \<Rightarrow> Inr (Some (ChatPeer (norm_id i)))
      | InPeerChannel i a \<Rightarrow> Inr (if a = ByAccessHash False then None else Some (ChannelPeer (norm_id i)))
      | InPeerOther \<Rightarrow> Inl (rpc 400 ''PEER_ID_NOT_SUPPORTED''))"

definition type_and_id_from_input_raise :: "int \<Rightarrow> input_peer \<Rightarrow> string \<Rightarrow> peer_target res" where
  "type_and_id_from_input_raise u inp m =
     rbind (type_and_id_from_input u inp) (\<lambda>t. case t of None \<Rightarrow> Inl (rpc 400 m) | Some t \<Rightarrow> Inr t)"

definition user_target :: "peer_target \<Rightarrow> string \<Rightarrow> int chan" where
  "user_target t m = (case t of UserPeer u \<Rightarrow> sreturn u | _ \<Rightarrow> sraise (rpc 400 m))"

definition banned_until :: "real \<Rightarrow> rights \<Rightarrow> int \<Rightarrow> int" where
  "banned_until now r until_date =
     (if r = 0 \<or> real_of_int until_date - now < 30 \<or> real_of_int until_date - now > 86400 * 366 then 0
      else until_date)"

definition set_banned :: "real \<Rightarrow> int \<Rightarrow> int \<Rightarrow> rights \<Rightarrow> int \<Rightarrow> unit chan" where
  "set_banned now u target r until_date =
     (\<lambda>c. let old = get_participant target True c;
              left = (case old of None \<Rightarrow> True | Some p \<Rightarrow> p_left p \<or> r AND VIEW_MESSAGES \<noteq> 0);
              base = (case old of None \<Rightarrow> new_participant 0 | Some p \<Rightarrow> p);
              c1 = put_member target (base\<lparr>p_banned_rights := r, p_banned_until := banned_until now r until_date,
                     p_left := left\<rparr>) c;
              c2 = (if r AND VIEW_MESSAGES \<noteq> 0 then drop_request target c1 else c1)
          in (Inr (), add_log u PARTICIPANT_BAN c2))"

definition edit_banned :: "real \<Rightarrow> channel_access \<Rightarrow> int \<Rightarrow> input_peer \<Rightarrow> rights \<Rightarrow> int \<Rightarrow> unit chan" where
  "edit_banned now a u inp r until_date =
     (\<lambda>c. sthen (require (find_channel a u c) 406 ''CHANNEL_PRIVATE'')
       (with_participant u 400 ''CHAT_RESTRICTED'' (\<lambda>p.
         sthen (require (admin_has_permission c (u, p) ADMIN_BAN_USERS) 403 ''RIGHT_FORBIDDEN'')
        (sbind (slift (type_and_id_from_input_raise u inp ''PARTICIPANT_ID_INVALID'')) (\<lambda>t.
         sbind (user_target t ''PARTICIPANT_ID_INVALID'') (\<lambda>target.
           case get_participant target True c of
             None \<Rightarrow> set_banned now u target r until_date
           | Some q \<Rightarrow>
               (if p_banned_rights q = r then sreturn ()
                else sthen (require (\<not> (is_admin q \<and> u \<noteq> ch_creator c)) 400 ''CHAT_ADMIN_REQUIRED'')
                       (set_banned now u target r until_date))))))) c)"

definition set_admin :: "int \<Rightarrow> int \<Rightarrow> participant \<Rightarrow> rights \<Rightarrow> string \<Rightarrow> unit chan" where
  "set_admin u target q r rank =
     supd (\<lambda>c. add_log u PARTICIPANT_ADMIN (sync_admins_count (put_member target
       (q\<lparr>p_rank := rank, p_admin_rights := r,
          p_promoted_by := (if p_promoted_by q = 0 then u else p_promoted_by q)\<rparr>) c)))"

definition edit_admin :: "nat \<Rightarrow> channel_access \<Rightarrow> int \<Rightarrow> int res \<Rightarrow> rights \<Rightarrow> string \<Rightarrow> unit chan" where
  "edit_admin admin_limit a u target_peer r rank =
     (\<lambda>c. sthen (require (find_channel a u c) 406 ''CHANNEL_PRIVATE'')
       (with_participant u 400 ''CHAT_RESTRICTED'' (\<lambda>p.
         sthen (require (admin_has_permission c (u, p) ADMIN_ADD_ADMINS) 403 ''RIGHT_FORBIDDEN'')
        (sbind (slift target_peer) (\<lambda>target.
         sthen (require (\<not> (target = ch_creator c \<and> target \<noteq> u)) 400 ''USER_CREATOR'')
        (with_participant target 400 ''PARTICIPANT_ID_INVALID'' (\<lambda>q.
         sthen (require (\<not> (r > 0 \<and> \<not> is_admin q \<and> ch_admins_count c \<ge> admin_limit)) 400 ''USERS_TOO_MUCH'')
          (let r' = (if target = ch_creator c then r OR CREATOR_RIGHTS else r) in
           sthen (require (u = ch_creator c \<or> r' AND NOT (p_admin_rights p) = 0) 403 ''RIGHT_FORBIDDEN'')
            (if p_admin_rights q = r' \<and> p_rank q = rank then sreturn ()
             else set_admin u target q r' rank)))))))) c)"

text \<open>\<open>password\<close> is the outcome of the check of the creator's password.\<close>

definition edit_creator :: "channel_access \<Rightarrow> unit res \<Rightarrow> int \<Rightarrow> input_peer \<Rightarrow> unit chan" where
  "edit_creator a password u inp =
     (\<lambda>c. sthen (require (find_channel a u c) 406 ''CHANNEL_PRIVATE'')
      (sthen (require (ch_creator c = u) 400 ''CHAT_ADMIN_REQUIRED'')
       (with_participant u 400 ''CHAT_ADMIN_REQUIRED'' (\<lambda>p.
         sbind (slift password) (\<lambda>_.
         sbind (slift (type_and_id_from_input_raise u inp ''PEER_ID_INVALID'')) (\<lambda>t.
         sbind (user_target t ''USER_ID_INVALID'') (\<lambda>target.
         with_participant target 400 ''USER_ID_INVALID'' (\<lambda>q.
           supd (\<lambda>c. sync_admins_count (put_member target (q\<lparr>p_admin_rights := CREATOR_RIGHTS\<rparr>)
             (put_member u (p\<lparr>p_admin_rights := 0\<rparr>)
               (c\<lparr>ch_creator := target, ch_version := ch_version c + 1\<rparr>))))))))))) c)"

definition members_count :: "chat \<Rightarrow> nat" where
  "members_count c = length (filter (\<lambda>(u, p). \<not> p_left p) (ch_members c))"

text \<open>\<open>user_join_chat_or_channel\<close> for a channel; the result is whose sessions to subscribe.\<close>

definition join_inviter :: "chat \<Rightarrow> int \<Rightarrow> int option \<Rightarrow> int" where
  "join_inviter c u from_invite =
     (case from_invite of Some i \<Rightarrow> i | None \<Rightarrow> if ch_is_channel c \<and> ch_broadcast c then u else 0)"

definition user_join_channel :: "nat \<Rightarrow> nat \<Rightarrow> nat \<Rightarrow> int \<Rightarrow> int option \<Rightarrow> int list chan" where
  "user_join_channel per_user_limit size_limit channels_count u from_invite =
     sthen (require (\<not> channels_count > per_user_limit) 400 ''CHANNELS_TOO_MUCH'')
      (\<lambda>c. sthen (require (\<not> members_count c > size_limit) 400 ''USERS_TOO_MUCH'')
       (sthen (supd (\<lambda>c. add_log u PARTICIPANT_JOIN (drop_request u (put_member u
          ((case get_participant u True c of None \<Rightarrow> new_participant 0 | Some p \<Rightarrow> p)
             \<lparr>p_inviter := join_inviter c u from_invite, p_left := False\<rparr>) c))))
        (sreturn [u])) c)"

definition join_channel :: "nat \<Rightarrow> nat \<Rightarrow> channel_access \<Rightarrow> nat \<Rightarrow> unit res \<Rightarrow> int \<Rightarrow> int list chan" where
  "join_channel per_user_limit size_limit a channels_count public_or_linked u =
     (\<lambda>c. sthen (require (find_channel a u c) 406 ''CHANNEL_PRIVATE'')
       (case get_participant u True c of
          None \<Rightarrow> sbind (slift public_or_linked) (\<lambda>_. user_join_channel per_user_limit size_limit channels_count u None)
        | Some p \<Rightarrow>
            sthen (require (p_left p) 400 ''USER_ALREADY_PARTICIPANT'')
           (sthen (require (p_banned_rights p AND VIEW_MESSAGES = 0) 406 ''CHANNEL_PRIVATE'')
             (sbind (slift public_or_linked) (\<lambda>_. user_join_channel per_user_limit size_limit channels_count u None)))) c)"

definition leave_channel :: "bool \<Rightarrow> int \<Rightarrow> int list chan" where
  "leave_channel peer_found u =
     (\<lambda>c. sthen (require peer_found 406 ''CHANNEL_PRIVATE'')
      (sthen (require (ch_creator c \<noteq> u) 400 ''USER_CREATOR'')
       (with_participant u 400 ''USER_NOT_PARTICIPANT'' (\<lambda>p.
         sthen (supd (\<lambda>c. add_log u PARTICIPANT_LEAVE (put_member u (p\<lparr>p_left := True\<rparr>) c)))
           (sreturn [])))) c)"

definition delete_channel :: "channel_access \<Rightarrow> int \<Rightarrow> unit chan" where
  "delete_channel a u =
     (\<lambda>c. sthen (require (find_channel a u c) 406 ''CHANNEL_PRIVATE'')
       (sthen (require (ch_creator c = u) 400 ''CHAT_ADMIN_REQUIRED'')
         (supd (\<lambda>c. c\<lparr>ch_deleted := True, ch_version := ch_version c + 1\<rparr>))) c)"

text \<open>
  Inviting: who of the named users is added. The privacy answers and the number of channels of
  each user are looked up before; \<open>existing\<close> are the rows at that time.
\<close>

record invite_limits =
  may_invite :: "int \<Rightarrow> bool"
  channels_of_user :: "int \<Rightarrow> nat"
  channels_limit :: nat
  member_limit :: nat

definition invite_one ::
    "invite_limits \<Rightarrow> nat \<Rightarrow> int \<Rightarrow> int \<Rightarrow> (int \<times> participant) list \<times> int list \<Rightarrow> ((int \<times> participant) list \<times> int list) res" where
  "invite_one L current u v = (\<lambda>(existing, added).
     let e = map_of existing v in
     if v = u \<or> (case e of None \<Rightarrow> False | Some p \<Rightarrow> \<not> p_left p) then Inr (existing, added)
     else if \<not> may_invite L v \<or> channels_of_user L v \<ge> channels_limit L then Inr (existing, added)
     else if current + length added \<ge> member_limit L then Inl (rpc 400 ''USERS_TOO_MUCH'')
     else case e of
            None \<Rightarrow> Inr (existing, added @ [v])
          | Some p \<Rightarrow> Inr (AList.update v (p\<lparr>p_left := False, p_inviter := u\<rparr>) existing, added @ [v]))"

fun invite_loop ::
    "invite_limits \<Rightarrow> nat \<Rightarrow> int \<Rightarrow> int list \<Rightarrow> (int \<times> participant) list \<times> int list \<Rightarrow> ((int \<times> participant) list \<times> int list) res" where
  "invite_loop L current u [] st = Inr st"
| "invite_loop L current u (v # vs) st = rbind (invite_one L current u v st) (invite_loop L current u vs)"

definition create_members :: "int \<Rightarrow> int list \<Rightarrow> (int \<times> participant) list \<Rightarrow> (int \<times> participant) list" where
  "create_members u vs ms =
     fold (\<lambda>v ms. if map_of ms v = None then AList.update v (new_participant u) ms else ms) vs ms"

text \<open>
  Every named user must be another user, with a right access hash; the request's own tests for the
  asker himself are never true.
\<close>

fun invited_ids :: "int \<Rightarrow> input_peer list \<Rightarrow> int list res" where
  "invited_ids u [] = Inr []"
| "invited_ids u (x # xs) =
     rbind (type_and_id_from_input_raise u x ''USER_ID_INVALID'') (\<lambda>t.
       case t of UserPeer v \<Rightarrow> rbind (invited_ids u xs) (\<lambda>vs. Inr (v # vs)) | _ \<Rightarrow> Inl (rpc 400 ''USER_ID_INVALID''))"

definition invite_to_channel ::
    "(int \<Rightarrow> bool) \<Rightarrow> invite_limits \<Rightarrow> channel_access \<Rightarrow> int \<Rightarrow> input_peer list \<Rightarrow> int list chan" where
  "invite_to_channel user_exists L a u request =
     sthen (require (a \<noteq> ByAccessHash False) 400 ''CHANNEL_PRIVATE'')
      (with_participant u 400 ''CHAT_RESTRICTED'' (\<lambda>p c.
        sbind (slift (user_has_permission c (Some (u, p)) BAN_INVITE_USERS)) (\<lambda>allowed.
        sthen (require (allowed \<or> admin_has_permission c (u, p) ADMIN_INVITE_USERS) 403 ''CHAT_ADMIN_REQUIRED'')
       (sbind (slift (invited_ids u (take 100 request))) (\<lambda>ids.
        sthen (require (ids \<noteq> []) 400 ''USER_ID_INVALID'')
       (sthen (require (list_all user_exists ids) 400 ''USER_ID_INVALID'')
         (\<lambda>c. case invite_loop L (members_count c) u ids (ch_members c, []) of
              Inl e \<Rightarrow> (Inl e, c)
            | Inr (updated, added) \<Rightarrow>
                (Inr added,
                 c\<lparr>ch_members := create_members u added updated,
                   ch_requests := filter (\<lambda>(v, _). v \<notin> set added) (ch_requests c),
                   ch_log := ch_log c @ map (\<lambda>v. (v, PARTICIPANT_JOIN)) added\<rparr>)))))) c))"

text \<open>
  Invite links (\<^verbatim>\<open>piltover/app/handlers/messages/invites.py\<close>). \<open>needs_request\<close> is the flag of the
  invite or of the channel; \<open>whom\<close> is the user named by a
  peer of the right kind.
\<close>

record invite_link =
  inv_owner :: int
  inv_usage :: nat
  inv_usage_limit :: "nat option"
  inv_expires_at :: "real option"
  inv_needs_request :: bool

definition check_invite :: "real \<Rightarrow> bool \<Rightarrow> invite_link option \<Rightarrow> int \<Rightarrow> invite_link chan" where
  "check_invite now hash_given link u = (\<lambda>c.
     if \<not> hash_given then (Inl (rpc 400 ''INVITE_HASH_EMPTY''), c)
     else case link of
         None \<Rightarrow> (Inl (rpc 400 ''INVITE_HASH_INVALID''), c)
       | Some i \<Rightarrow>
           if (case inv_usage_limit i of None \<Rightarrow> False | Some n \<Rightarrow> inv_usage i > n) then (Inl (rpc 400 ''USERS_TOO_MUCH''), c)
           else if (case inv_expires_at i of None \<Rightarrow> False | Some t \<Rightarrow> now > t) then (Inl (rpc 400 ''INVITE_HASH_EXPIRED''), c)
           else if (case get_participant u True c of None \<Rightarrow> False | Some p \<Rightarrow> p_banned_rights p AND VIEW_MESSAGES \<noteq> 0)
           then (Inl (rpc 400 ''INVITE_HASH_EXPIRED''), c)
           else (Inr i, c))"

definition import_chat_invite :: "nat \<Rightarrow> nat \<Rightarrow> nat \<Rightarrow> real \<Rightarrow> bool \<Rightarrow> invite_link option \<Rightarrow> int \<Rightarrow> int list chan" where
  "import_chat_invite per_user_limit size_limit channels_count now hash_given link u =
     sbind (check_invite now hash_given link u) (\<lambda>i c.
       (sthen (require (get_participant u False c = None) 400 ''USER_ALREADY_PARTICIPANT'')
         (if inv_needs_request i
          then sthen (supd (\<lambda>c. if u \<in> fst ` set (ch_requests c) then c
                             else c\<lparr>ch_requests := ch_requests c @ [(u, inv_owner i)]\<rparr>))
                 (sraise (rpc 400 ''INVITE_REQUEST_SENT''))
          else user_join_channel per_user_limit size_limit channels_count u (Some (inv_owner i)))) c)"

text \<open>\<open>bulk_create(..., ignore_conflicts=True)\<close>: who has a row keeps it.\<close>

definition add_requested_users :: "nat \<Rightarrow> (int \<times> int) list \<Rightarrow> int list chan" where
  "add_requested_users size_limit rs = (\<lambda>c.
     if rs = [] then (Inr [], c)
     else if length (ch_members c) + length rs > size_limit then (Inl (rpc 400 ''USERS_TOO_MUCH''), c)
     else (Inr (map fst rs),
           c\<lparr>ch_members := fold (\<lambda>(v, i) ms. if map_of ms v = None then AList.update v (new_participant i) ms else ms)
                              rs (ch_members c),
             ch_requests := filter (\<lambda>(v, _). v \<notin> fst ` set rs) (ch_requests c)\<rparr>))"

definition hide_join_request :: "nat \<Rightarrow> int \<Rightarrow> int option \<Rightarrow> bool \<Rightarrow> int list chan" where
  "hide_join_request size_limit u whom approved = (\<lambda>c.
     case get_participant u False c of
       None \<Rightarrow> (Inl (rpc 400 ''CHAT_ADMIN_REQUIRED''), c)
     | Some p \<Rightarrow>
         if \<not> admin_has_permission c (u, p) ADMIN_INVITE_USERS then (Inl (rpc 400 ''CHAT_ADMIN_REQUIRED''), c)
         else case whom of
             None \<Rightarrow> (Inl (rpc 400 ''PEER_ID_INVALID''), c)
           | Some v \<Rightarrow>
               (case map_of (ch_requests c) v of
                  None \<Rightarrow> (Inl (rpc 400 ''HIDE_REQUESTER_MISSING''), c)
                | Some i \<Rightarrow> if \<not> approved then (Inr [], drop_request v c)
                            else add_requested_users size_limit [(v, i)] c))"

text \<open>
  A new channel, with its creator. \<open>allowed\<close> is the outcome of the server's settings and of the
  check for spam.
\<close>

definition add_creator :: "int \<Rightarrow> chat \<Rightarrow> chat" where
  "add_creator creator c =
     sync_admins_count (put_member creator ((new_participant 0)\<lparr>p_admin_rights := CREATOR_RIGHTS\<rparr>) c)"

definition new_channel :: "int \<Rightarrow> bool \<Rightarrow> chat" where
  "new_channel creator broadcast =
     \<lparr>ch_is_channel = True, ch_broadcast = broadcast, ch_creator = creator, ch_banned_rights = 0,
      ch_nojoin_allow_view = False, ch_is_discussion = False, ch_join_to_send = True, ch_deleted = False,
      ch_version = 1, ch_admins_count = 0, ch_members = [], ch_requests = [], ch_log = []\<rparr>"

definition create_channel :: "unit res \<Rightarrow> int \<Rightarrow> bool \<Rightarrow> bool \<Rightarrow> bool \<Rightarrow> string \<Rightarrow> string \<Rightarrow> chat res" where
  "create_channel allowed creator broadcast megagroup forum title about =
     rbind allowed (\<lambda>_.
       if \<not> broadcast \<and> \<not> megagroup then Inl (rpc 400 ''CHANNELS_TOO_MUCH'')
       else if broadcast \<and> megagroup then Inl (rpc 400 ''CHANNEL_INVALID'')
       else if py_strip title = [] then Inl (rpc 400 ''CHAT_TITLE_EMPTY'')
       else if length (py_strip title) > 64 then Inl (rpc 400 ''CHAT_TITLE_EMPTY'')
       else if length (py_strip about) > 255 then Inl (rpc 400 ''CHAT_ABOUT_TOO_LONG'')
       else if forum \<and> broadcast then Inl (rpc 400 ''CHANNEL_INVALID'')
       else Inr (add_creator creator (new_channel creator broadcast)))"

end
