(* ===== verification/ChannelsFacts.thy ===== *)
theory ChannelsFacts
  imports Channels
begin

text \<open>
  What the rights of chats and channels promise: the creator stays a member with the creator's
  rights, the number of administrators is counted right, nobody hands out a right he does not
  hold, and who is not a member changes nothing. The permission checks are compared with a table.
\<close>

text \<open>The steps of a handler, run on a state.\<close>

lemma run_simps:
  "sthen (require b code m) k c = (if b then k c else (Inl (rpc code m), c))"
  "with_participant u code m f c = (case get_participant u False c of None \<Rightarrow> (Inl (rpc code m), c) | Some p \<Rightarrow> f p c)"
  "sbind (user_target t m) g c = (case t of UserPeer u \<Rightarrow> g u c | _ \<Rightarrow> (Inl (rpc 400 m), c))"
  "sbind (slift r) h c = (case r of Inl e \<Rightarrow> (Inl e, c) | Inr x \<Rightarrow> h x c)"
  by (auto simp: require_def with_participant_def user_target_def act_defs split: peer_target.split sum.split)

section \<open>The members of a chat\<close>

definition chan_inv :: "chat \<Rightarrow> bool" where
  "chan_inv c \<longleftrightarrow> distinct (map fst (ch_members c))
     \<and> (\<exists>p. map_of (ch_members c) (ch_creator c) = Some p \<and> \<not> p_left p
           \<and> p_admin_rights p AND CREATOR_RIGHTS = CREATOR_RIGHTS)
     \<and> ch_admins_count c = length (admins c)"

lemma map_of_put: "map_of (ch_members (put_member u p c)) v = (if v = u then Some p else map_of (ch_members c) v)"
  by (simp add: put_member_def update_conv')

lemma put_distinct: "distinct (map fst (ch_members c)) \<Longrightarrow> distinct (map fst (ch_members (put_member u p c)))"
  by (simp add: put_member_def distinct_update)

lemma put_frame [simp]:
  "ch_creator (put_member u p c) = ch_creator c" "ch_admins_count (put_member u p c) = ch_admins_count c"
  "ch_broadcast (put_member u p c) = ch_broadcast c" "ch_is_channel (put_member u p c) = ch_is_channel c"
  by (simp_all add: put_member_def)

lemma admins_set:
  assumes "distinct (map fst (ch_members c))"
  shows "u \<in> set (admins c) \<longleftrightarrow> (\<exists>p. map_of (ch_members c) u = Some p \<and> is_admin p)"
  using assms by (force simp: admins_def map_of_eq_Some_iff)

lemma admins_length:
  assumes "distinct (map fst (ch_members c))"
  shows "length (admins c) = card {u. \<exists>p. map_of (ch_members c) u = Some p \<and> is_admin p}"
proof -
  have "distinct (admins c)" using assms by (simp add: admins_def distinct_map_filter)
  then have "length (admins c) = card (set (admins c))" by (simp add: distinct_card)
  moreover have "set (admins c) = {u. \<exists>p. map_of (ch_members c) u = Some p \<and> is_admin p}"
    using admins_set [OF assms] by blast
  ultimately show ?thesis by simp
qed

lemma admins_cong:
  assumes "distinct (map fst (ch_members c))" "distinct (map fst (ch_members c'))"
    and "\<And>u. (\<exists>p. map_of (ch_members c') u = Some p \<and> is_admin p) = (\<exists>p. map_of (ch_members c) u = Some p \<and> is_admin p)"
  shows "length (admins c') = length (admins c)"
  using assms by (simp add: admins_length)

lemma creator_is_admin: "p_admin_rights p AND CREATOR_RIGHTS = CREATOR_RIGHTS \<Longrightarrow> is_admin p"
  by (auto simp: is_admin_def word_gt_0 CREATOR_RIGHTS_def)

text \<open>A row written without touching the rights of administrators.\<close>

lemma put_inv:
  assumes inv: "chan_inv c"
    and creator: "u = ch_creator c \<Longrightarrow> \<not> p_left p \<and> p_admin_rights p AND CREATOR_RIGHTS = CREATOR_RIGHTS"
    and same: "is_admin p \<longleftrightarrow> (\<exists>q. map_of (ch_members c) u = Some q \<and> is_admin q)"
  shows "chan_inv (put_member u p c)"
proof -
  have d: "distinct (map fst (ch_members c))" using inv by (simp add: chan_inv_def)
  have "length (admins (put_member u p c)) = length (admins c)"
    using same by (intro admins_cong put_distinct d) (auto simp: map_of_put)
  then show ?thesis using inv creator put_distinct [OF d] by (auto simp: chan_inv_def map_of_put)
qed

lemma sync_inv:
  assumes "distinct (map fst (ch_members c))" "map_of (ch_members c) (ch_creator c) = Some p" "\<not> p_left p"
    "p_admin_rights p AND CREATOR_RIGHTS = CREATOR_RIGHTS"
  shows "chan_inv (sync_admins_count c)"
  using assms by (simp add: chan_inv_def sync_admins_count_def admins_def)

lemma inv_frame [simp]:
  "chan_inv (add_log u a c) = chan_inv c" "chan_inv (drop_request u c) = chan_inv c"
  "chan_inv (c\<lparr>ch_deleted := b\<rparr>) = chan_inv c" "chan_inv (c\<lparr>ch_version := v\<rparr>) = chan_inv c"
  by (simp_all add: chan_inv_def add_log_def drop_request_def admins_def)

lemma members_frame [simp]:
  "ch_members (add_log u a c) = ch_members c" "ch_members (drop_request u c) = ch_members c"
  "ch_members (sync_admins_count c) = ch_members c" "ch_creator (add_log u a c) = ch_creator c"
  "ch_creator (drop_request u c) = ch_creator c" "ch_creator (sync_admins_count c) = ch_creator c"
  by (simp_all add: add_log_def drop_request_def sync_admins_count_def)

lemma get_participant_Some:
  "get_participant u b c = Some p \<longleftrightarrow> map_of (ch_members c) u = Some p \<and> (b \<or> \<not> p_left p)"
  by (auto simp: get_participant_def split: option.split)

text \<open>The only way to name a user is by an input peer of another user with a right hash.\<close>

lemma user_named:
  "type_and_id_from_input u inp = Inr (Some (UserPeer v)) \<longleftrightarrow> inp = InPeerUser v True \<and> v \<noteq> u"
  by (auto simp: type_and_id_from_input_def split: input_peer.split)

lemma raise_user_named:
  "type_and_id_from_input_raise u inp m = Inr (UserPeer v) \<longleftrightarrow> inp = InPeerUser v True \<and> v \<noteq> u"
  by (auto simp: type_and_id_from_input_raise_def user_named [symmetric] rbind_Inr_iff split: option.splits)

section \<open>Restrictions\<close>

lemma set_banned_members:
  "ch_members (snd (set_banned now u target r t c)) =
     ch_members (put_member target
       ((case get_participant target True c of None \<Rightarrow> new_participant 0 | Some p \<Rightarrow> p)
         \<lparr>p_banned_rights := r, p_banned_until := banned_until now r t,
          p_left := (case get_participant target True c of None \<Rightarrow> True | Some p \<Rightarrow> p_left p \<or> r AND VIEW_MESSAGES \<noteq> 0)\<rparr>) c)"
  by (simp add: set_banned_def Let_def)

lemma set_banned_inv:
  assumes inv: "chan_inv c" and t: "target \<noteq> ch_creator c"
  shows "chan_inv (snd (set_banned now u target r t c))"
proof -
  define p where "p = (case get_participant target True c of None \<Rightarrow> new_participant 0 | Some p \<Rightarrow> p)
         \<lparr>p_banned_rights := r, p_banned_until := banned_until now r t,
          p_left := (case get_participant target True c of None \<Rightarrow> True | Some p \<Rightarrow> p_left p \<or> r AND VIEW_MESSAGES \<noteq> 0)\<rparr>"
  have "is_admin p \<longleftrightarrow> (\<exists>q. map_of (ch_members c) target = Some q \<and> is_admin q)"
    by (auto simp: p_def is_admin_def new_participant_def get_participant_def split: option.split)
  then have "chan_inv (put_member target p c)" using put_inv [OF inv, of target p] t by simp
  then show ?thesis by (simp add: set_banned_def Let_def p_def)
qed

text \<open>A restriction goes through only for who may ban, and never against the creator.\<close>

lemma edit_banned_cases:
  obtains (same) "snd (edit_banned now a u inp r until_date c) = c"
  | (set) p target where "get_participant u False c = Some p" "admin_has_permission c (u, p) ADMIN_BAN_USERS"
      "inp = InPeerUser target True" "target \<noteq> u" "edit_banned now a u inp r until_date c = set_banned now u target r until_date c"
      "\<And>q. get_participant target True c = Some q \<Longrightarrow> is_admin q \<Longrightarrow> u = ch_creator c"
proof (cases "\<exists>p target. find_channel a u c \<and> get_participant u False c = Some p
    \<and> admin_has_permission c (u, p) ADMIN_BAN_USERS \<and> inp = InPeerUser target True \<and> target \<noteq> u")
  case False
  then show thesis
    by (intro same) (auto simp: edit_banned_def run_simps raise_user_named split: option.split peer_target.split sum.split)
next
  case True
  then obtain p target where p: "find_channel a u c" "get_participant u False c = Some p"
    "admin_has_permission c (u, p) ADMIN_BAN_USERS" "inp = InPeerUser target True" "target \<noteq> u" by blast
  have n: "type_and_id_from_input_raise u (InPeerUser target True) m = Inr (UserPeer target)" for m using p by (simp add: raise_user_named)
  show thesis
  proof (cases "get_participant target True c")
    case None
    then show thesis using p by (intro set [of p target]) (simp_all add: edit_banned_def run_simps n)
  next
    case (Some q)
    show thesis
    proof (cases "p_banned_rights q = r \<or> is_admin q \<and> u \<noteq> ch_creator c")
      case True
      then show thesis using p Some by (intro same) (auto simp: edit_banned_def run_simps n)
    next
      case False
      then show thesis using p Some by (intro set [of p target]) (auto simp: edit_banned_def run_simps n)
    qed
  qed
qed

lemma edit_banned_inv:
  assumes "chan_inv c"
  shows "chan_inv (snd (edit_banned now a u inp r until_date c))"
proof (cases rule: edit_banned_cases [of now a u inp r until_date c])
  case same then show ?thesis using assms by simp
next
  case (set p target)
  have "target \<noteq> ch_creator c"
  proof
    assume t: "target = ch_creator c"
    then obtain q where "get_participant target True c = Some q" "is_admin q"
      using assms creator_is_admin by (auto simp: chan_inv_def get_participant_Some)
    then have "u = ch_creator c" using set(6) by blast
    then show False using t set(4) by simp
  qed
  then show ?thesis using set_banned_inv [OF assms] set(5) by simp
qed

section \<open>Administrators\<close>

lemma edit_admin_cases:
  obtains (same) "snd (edit_admin limit a u tp r rank c) = c"
  | (set) p q target r' where "get_participant u False c = Some p" "admin_has_permission c (u, p) ADMIN_ADD_ADMINS"
      "tp = Inr target" "get_participant target False c = Some q" "target = ch_creator c \<Longrightarrow> u = ch_creator c"
      "r' = (if target = ch_creator c then r OR CREATOR_RIGHTS else r)"
      "u = ch_creator c \<or> r' AND NOT (p_admin_rights p) = 0"
      "r > 0 \<and> \<not> is_admin q \<longrightarrow> ch_admins_count c < limit"
      "edit_admin limit a u tp r rank c = set_admin u target q r' rank c"
proof (cases "\<exists>p target q. find_channel a u c \<and> get_participant u False c = Some p
    \<and> admin_has_permission c (u, p) ADMIN_ADD_ADMINS \<and> tp = Inr target
    \<and> \<not> (target = ch_creator c \<and> target \<noteq> u) \<and> get_participant target False c = Some q")
  case False
  then show thesis
    by (intro same) (auto simp: edit_admin_def run_simps split: option.split sum.split)
next
  case True
  then obtain p target q where p: "find_channel a u c" "get_participant u False c = Some p"
    "admin_has_permission c (u, p) ADMIN_ADD_ADMINS" "tp = Inr target"
    "\<not> (target = ch_creator c \<and> target \<noteq> u)" "get_participant target False c = Some q" by blast
  define r' where "r' = (if target = ch_creator c then r OR CREATOR_RIGHTS else r)"
  have eq: "edit_admin limit a u tp r rank c =
      (if r > 0 \<and> \<not> is_admin q \<and> ch_admins_count c \<ge> limit then (Inl (rpc 400 ''USERS_TOO_MUCH''), c)
       else if \<not> (u = ch_creator c \<or> r' AND NOT (p_admin_rights p) = 0) then (Inl (rpc 403 ''RIGHT_FORBIDDEN''), c)
       else if p_admin_rights q = r' \<and> p_rank q = rank then (Inr (), c) else set_admin u target q r' rank c)"
    using p by (simp add: edit_admin_def run_simps Let_def flip: r'_def)
  show thesis
  proof (cases "(r > 0 \<and> \<not> is_admin q \<and> ch_admins_count c \<ge> limit)
      \<or> \<not> (u = ch_creator c \<or> r' AND NOT (p_admin_rights p) = 0) \<or> p_admin_rights q = r' \<and> p_rank q = rank")
    case True
    then show thesis by (intro same) (auto simp: eq)
  next
    case False
    then show thesis using p eq by (intro set [of p target q r']) (auto simp: r'_def)
  qed
qed

text \<open>Writing admin rights recounts the administrators.\<close>

lemma put_sync_inv:
  assumes inv: "chan_inv c"
    and creator: "u = ch_creator c \<Longrightarrow> \<not> p_left p \<and> p_admin_rights p AND CREATOR_RIGHTS = CREATOR_RIGHTS"
  shows "chan_inv (sync_admins_count (put_member u p c))"
proof (cases "u = ch_creator c")
  case True
  then show ?thesis using assms put_distinct [of c]
    by (intro sync_inv [of _ p]) (auto simp: chan_inv_def map_of_put)
next
  case False
  obtain q where "map_of (ch_members c) (ch_creator c) = Some q" "\<not> p_left q"
    "p_admin_rights q AND CREATOR_RIGHTS = CREATOR_RIGHTS"
    using inv by (auto simp: chan_inv_def)
  then show ?thesis using False inv put_distinct [of c]
    by (intro sync_inv [of _ q]) (auto simp: chan_inv_def map_of_put)
qed

lemma creator_or: "(r OR CREATOR_RIGHTS) AND CREATOR_RIGHTS = CREATOR_RIGHTS"
  by (auto simp: bit_eq_iff bit_or_iff bit_and_iff)

lemma edit_admin_inv:
  assumes "chan_inv c"
  shows "chan_inv (snd (edit_admin limit a u tp r rank c))"
proof (cases rule: edit_admin_cases [of limit a u tp r rank c])
  case same then show ?thesis using assms by simp
next
  case (set p q target r')
  show ?thesis using set assms
    by (auto simp: set_admin_def supd_def get_participant_Some creator_or intro!: put_sync_inv)
qed

text \<open>
  The rights of the members a request leaves behind: only the named member's change, and unless the
  creator asks, to a subset of the asker's own.
\<close>

definition rights_of :: "chat \<Rightarrow> int \<Rightarrow> rights" where
  "rights_of c u = (case map_of (ch_members c) u of None \<Rightarrow> 0 | Some p \<Rightarrow> p_admin_rights p)"

lemma edit_admin_escalation:
  assumes "u \<noteq> ch_creator c"
    and changed: "rights_of (snd (edit_admin limit a u tp r rank c)) v \<noteq> rights_of c v"
  shows "v \<noteq> ch_creator c" "tp = Inr v" "rights_of c u AND ADMIN_ADD_ADMINS = ADMIN_ADD_ADMINS"
    "rights_of (snd (edit_admin limit a u tp r rank c)) v = r" "r AND NOT (rights_of c u) = 0"
proof -
  obtain p q target r' where s: "get_participant u False c = Some p" "admin_has_permission c (u, p) ADMIN_ADD_ADMINS"
      "tp = Inr target" "target = ch_creator c \<Longrightarrow> u = ch_creator c"
      "r' = (if target = ch_creator c then r OR CREATOR_RIGHTS else r)"
      "u = ch_creator c \<or> r' AND NOT (p_admin_rights p) = 0"
      "edit_admin limit a u tp r rank c = set_admin u target q r' rank c"
    using changed by (cases rule: edit_admin_cases [of limit a u tp r rank c]) auto
  have new: "rights_of (snd (edit_admin limit a u tp r rank c)) w = (if w = target then r else rights_of c w)" for w
    using s(4,5,7) assms(1) by (auto simp: set_admin_def supd_def rights_of_def map_of_put)
  have t: "v = target" using changed by (simp add: new split: if_splits)
  show "v \<noteq> ch_creator c" "tp = Inr v" "rights_of (snd (edit_admin limit a u tp r rank c)) v = r"
    using s(3,4) assms(1) t new by auto
  show "rights_of c u AND ADMIN_ADD_ADMINS = ADMIN_ADD_ADMINS" "r AND NOT (rights_of c u) = 0"
    using s assms(1) t by (auto simp: rights_of_def get_participant_Some admin_has_permission_def split: if_splits)
qed

section \<open>The creator\<close>

lemma edit_creator_cases:
  obtains (same) "snd (edit_creator a password u inp c) = c"
  | (set) p q target where "ch_creator c = u" "get_participant u False c = Some p" "inp = InPeerUser target True" "target \<noteq> u"
      "get_participant target False c = Some q" "password = Inr ()"
      "edit_creator a password u inp c = (Inr (), sync_admins_count (put_member target (q\<lparr>p_admin_rights := CREATOR_RIGHTS\<rparr>)
         (put_member u (p\<lparr>p_admin_rights := 0\<rparr>) (c\<lparr>ch_creator := target, ch_version := ch_version c + 1\<rparr>))))"
proof (cases "\<exists>p target q. find_channel a u c \<and> ch_creator c = u \<and> get_participant u False c = Some p
    \<and> password = Inr () \<and> inp = InPeerUser target True \<and> target \<noteq> u \<and> get_participant target False c = Some q")
  case False
  then show thesis
    by (intro same) (auto simp: edit_creator_def run_simps raise_user_named split: option.split sum.split peer_target.split)
next
  case True
  then obtain p target q where p: "find_channel a u c" "ch_creator c = u" "get_participant u False c = Some p"
    "password = Inr ()" "inp = InPeerUser target True" "target \<noteq> u" "get_participant target False c = Some q" by blast
  have n: "type_and_id_from_input_raise u (InPeerUser target True) m = Inr (UserPeer target)" for m using p by (simp add: raise_user_named)
  show thesis using p n by (intro set [of p target q]) (simp_all add: edit_creator_def run_simps supd_def)
qed

lemma edit_creator_inv:
  assumes "chan_inv c"
  shows "chan_inv (snd (edit_creator a password u inp c))"
proof (cases rule: edit_creator_cases [of a password u inp c])
  case same then show ?thesis using assms by simp
next
  case (set p q target)
  show ?thesis unfolding set(7) snd_conv
    by (rule sync_inv [of _ "q\<lparr>p_admin_rights := CREATOR_RIGHTS\<rparr>"])
      (use assms set in \<open>auto simp: chan_inv_def map_of_put get_participant_Some intro!: put_distinct\<close>)
qed

section \<open>Joining, leaving, deleting\<close>

lemma user_join_cases:
  obtains (same) "snd (user_join_channel n m k u i c) = c"
  | (set) p where "p = (case get_participant u True c of None \<Rightarrow> new_participant 0 | Some p \<Rightarrow> p)"
      "members_count c \<le> m"
      "user_join_channel n m k u i c = (Inr [u], add_log u PARTICIPANT_JOIN (drop_request u
         (put_member u (p\<lparr>p_inviter := join_inviter c u i, p_left := False\<rparr>) c)))"
proof (cases "k > n \<or> members_count c > m")
  case True
  then show thesis by (intro same) (auto simp: user_join_channel_def run_simps)
next
  case False
  then show thesis by (intro set) (auto simp: user_join_channel_def require_def act_defs)
qed

lemma user_join_inv:
  assumes "chan_inv c"
  shows "chan_inv (snd (user_join_channel n m k u i c))"
proof (cases rule: user_join_cases [of n m k u i c])
  case same then show ?thesis using assms by simp
next
  case (set p)
  have "chan_inv (put_member u (p\<lparr>p_inviter := join_inviter c u i, p_left := False\<rparr>) c)"
    using assms by (intro put_inv)
      (auto simp: set(1) chan_inv_def get_participant_def is_admin_def new_participant_def
        simp del: map_of_eq_Some_iff split: option.split)
  then show ?thesis using set by simp
qed

lemma join_channel_cases:
  obtains (same) "snd (join_channel n m a k pl u c) = c" "\<And>s. fst (join_channel n m a k pl u c) \<noteq> Inr s"
  | (set) "find_channel a u c" "pl = Inr ()"
      "\<And>p. get_participant u True c = Some p \<Longrightarrow> p_left p \<and> p_banned_rights p AND VIEW_MESSAGES = 0"
      "join_channel n m a k pl u c = user_join_channel n m k u None c"
proof (cases "find_channel a u c \<and> pl = Inr () \<and>
    (\<forall>p. get_participant u True c = Some p \<longrightarrow> p_left p \<and> p_banned_rights p AND VIEW_MESSAGES = 0)")
  case False
  then show thesis
    by (intro same) (auto simp: join_channel_def run_simps split: option.split sum.split)
next
  case True
  then show thesis by (intro set) (auto simp: join_channel_def run_simps split: option.split)
qed

lemma join_channel_inv:
  assumes "chan_inv c"
  shows "chan_inv (snd (join_channel n m a k pl u c))"
  by (cases rule: join_channel_cases [of n m a k pl u c]) (use assms user_join_inv in auto)

lemma leave_channel_cases:
  obtains (same) "snd (leave_channel f u c) = c" "\<And>s. fst (leave_channel f u c) \<noteq> Inr s"
  | (set) p where "ch_creator c \<noteq> u" "get_participant u False c = Some p"
      "leave_channel f u c = (Inr [], add_log u PARTICIPANT_LEAVE (put_member u (p\<lparr>p_left := True\<rparr>) c))"
proof (cases "\<exists>p. f \<and> ch_creator c \<noteq> u \<and> get_participant u False c = Some p")
  case False
  then show thesis by (intro same) (auto simp: leave_channel_def run_simps split: option.split)
next
  case True
  then show thesis by (auto simp: leave_channel_def require_def with_participant_def act_defs intro: set)
qed

lemma leave_channel_inv:
  assumes "chan_inv c"
  shows "chan_inv (snd (leave_channel f u c))"
proof (cases rule: leave_channel_cases [of f u c])
  case same then show ?thesis using assms by simp
next
  case (set p)
  have "chan_inv (put_member u (p\<lparr>p_left := True\<rparr>) c)"
    using assms set by (intro put_inv) (auto simp: get_participant_Some is_admin_def)
  then show ?thesis using set by simp
qed

lemma delete_channel_inv: "chan_inv c \<Longrightarrow> chan_inv (snd (delete_channel a u c))"
  by (simp add: delete_channel_def run_simps supd_def)

lemma create_channel_inv:
  assumes "create_channel allowed u b g f t d = Inr c"
  shows "chan_inv c"
proof -
  have c: "c = add_creator u (new_channel u b)"
    using assms by (auto simp: create_channel_def rbind_Inr_iff split: if_splits)
  show ?thesis unfolding c add_creator_def
    by (rule sync_inv [of _ "(new_participant 0)\<lparr>p_admin_rights := CREATOR_RIGHTS\<rparr>"])
      (simp_all add: map_of_put put_member_def new_channel_def new_participant_def)
qed

section \<open>Inviting\<close>

text \<open>What a batch of new members does to the rows: nobody loses a right or his membership.\<close>

fun row_grown :: "participant option \<Rightarrow> participant option \<Rightarrow> bool" where
  "row_grown None None \<longleftrightarrow> True"
| "row_grown None (Some q) \<longleftrightarrow> \<not> p_left q \<and> p_admin_rights q = 0"
| "row_grown (Some p) None \<longleftrightarrow> False"
| "row_grown (Some p) (Some q) \<longleftrightarrow> p_admin_rights q = p_admin_rights p \<and> (p_left q \<longrightarrow> p_left p)"

definition grown :: "(int \<times> participant) list \<Rightarrow> (int \<times> participant) list \<Rightarrow> bool" where
  "grown ms ms' \<longleftrightarrow> distinct (map fst ms') \<and> (\<forall>w. row_grown (map_of ms w) (map_of ms' w))"

lemma row_grown_refl [simp]: "row_grown r r"
  by (cases r) simp_all

lemma grown_refl: "distinct (map fst ms) \<Longrightarrow> grown ms ms"
  by (simp add: grown_def)

lemma grown_update:
  assumes "grown ms ms'" "row_grown (map_of ms v) (Some p)"
  shows "grown ms (AList.update v p ms')"
  using assms by (simp add: grown_def distinct_update update_conv')

lemma grown_add:
  assumes "grown ms ms'" "map_of ms' v = None"
  shows "grown ms (AList.update v (new_participant i) ms')"
proof (rule grown_update [OF assms(1)])
  have "row_grown (map_of ms v) None" using assms by (simp add: grown_def del: map_of_eq_None_iff) metis
  then show "row_grown (map_of ms v) (Some (new_participant i))"
    by (cases "map_of ms v") (simp_all add: new_participant_def)
qed

lemma grown_return:
  assumes "grown ms ms'" "map_of ms' v = Some p"
  shows "grown ms (AList.update v (p\<lparr>p_left := False, p_inviter := i\<rparr>) ms')"
proof (rule grown_update [OF assms(1)])
  have "row_grown (map_of ms v) (Some p)" using assms by (simp add: grown_def del: map_of_eq_Some_iff) metis
  then show "row_grown (map_of ms v) (Some (p\<lparr>p_left := False, p_inviter := i\<rparr>))"
    by (cases "map_of ms v") simp_all
qed

lemma grown_inv:
  assumes inv: "chan_inv c" and g: "grown (ch_members c) ms"
  shows "chan_inv (c\<lparr>ch_members := ms, ch_requests := rs, ch_log := l\<rparr>)"
proof -
  let ?c = "c\<lparr>ch_members := ms, ch_requests := rs, ch_log := l\<rparr>"
  have row: "row_grown (map_of (ch_members c) w) (map_of ms w)" for w
    using g by (simp add: grown_def)
  have d: "distinct (map fst (ch_members c))" "distinct (map fst (ch_members ?c))"
    using inv g by (simp_all add: chan_inv_def grown_def)
  have "length (admins ?c) = length (admins c)"
  proof (rule admins_cong [OF d])
    fix w show "(\<exists>p. map_of (ch_members ?c) w = Some p \<and> is_admin p) = (\<exists>p. map_of (ch_members c) w = Some p \<and> is_admin p)"
      using row [of w] by (cases "map_of (ch_members c) w"; cases "map_of ms w")
        (simp_all add: is_admin_def del: map_of_eq_Some_iff map_of_eq_None_iff)
  qed
  moreover obtain p where p: "map_of (ch_members c) (ch_creator c) = Some p" "\<not> p_left p"
    "p_admin_rights p AND CREATOR_RIGHTS = CREATOR_RIGHTS" using inv unfolding chan_inv_def by blast
  moreover obtain q where "map_of ms (ch_creator c) = Some q" "p_admin_rights q = p_admin_rights p" "\<not> p_left q"
    using row [of "ch_creator c"] p by (cases "map_of ms (ch_creator c)") (auto simp del: map_of_eq_Some_iff map_of_eq_None_iff)
  ultimately show ?thesis using inv d by (auto simp: chan_inv_def simp del: map_of_eq_Some_iff)
qed

lemma invite_one_result:
  assumes "invite_one L n u v (ms, added) = Inr (ms', added')"
  obtains (skip) "ms' = ms" "added' = added"
  | (new) "map_of ms v = None" "ms' = ms" "added' = added @ [v]" "n + length added < member_limit L"
  | (again) p where "map_of ms v = Some p" "p_left p" "added' = added @ [v]" "n + length added < member_limit L"
      "ms' = AList.update v (p\<lparr>p_left := False, p_inviter := u\<rparr>) ms"
  using assms by (cases "map_of ms v") (auto simp: invite_one_def Let_def split: if_splits)

lemma invite_loop_grown:
  "invite_loop L n u vs (ms, added) = Inr (ms', added') \<Longrightarrow> grown base ms \<Longrightarrow> grown base ms'"
proof (induction vs arbitrary: ms added)
  case (Cons v vs)
  from Cons.prems obtain ms1 a1 where 1: "invite_one L n u v (ms, added) = Inr (ms1, a1)"
    "invite_loop L n u vs (ms1, a1) = Inr (ms', added')" by (auto simp: rbind_Inr_iff)
  from 1(1) have "grown base ms1" using Cons.prems(2) by (cases rule: invite_one_result) (auto intro: grown_return)
  then show ?case by (rule Cons.IH [OF 1(2)])
qed simp

lemma invite_loop_limit:
  "invite_loop L n u vs (ms, added) = Inr (ms', added') \<Longrightarrow> n + length added \<le> member_limit L
    \<Longrightarrow> n + length added' \<le> member_limit L"
proof (induction vs arbitrary: ms added)
  case (Cons v vs)
  from Cons.prems obtain ms1 a1 where 1: "invite_one L n u v (ms, added) = Inr (ms1, a1)"
    "invite_loop L n u vs (ms1, a1) = Inr (ms', added')" by (auto simp: rbind_Inr_iff)
  from 1(1) have "n + length a1 \<le> member_limit L" using Cons.prems(2) by (cases rule: invite_one_result) auto
  then show ?case by (rule Cons.IH [OF 1(2)])
qed simp

text \<open>Only named users are reported, and everyone reported has been returned or is yet to be created.\<close>

lemma invite_loop_added:
  assumes "invite_loop L n u vs (ms, added) = Inr (ms', added')"
    and "\<forall>v \<in> set added. \<forall>p. map_of ms v = Some p \<longrightarrow> \<not> p_left p"
  shows "\<forall>v \<in> set added'. \<forall>p. map_of ms' v = Some p \<longrightarrow> \<not> p_left p" "set added' \<subseteq> set added \<union> set vs"
proof -
  have "(\<forall>v \<in> set added'. \<forall>p. map_of ms' v = Some p \<longrightarrow> \<not> p_left p) \<and> set added' \<subseteq> set added \<union> set vs"
    using assms
  proof (induction vs arbitrary: ms added)
    case (Cons v vs)
    from Cons.prems obtain ms1 a1 where 1: "invite_one L n u v (ms, added) = Inr (ms1, a1)"
      "invite_loop L n u vs (ms1, a1) = Inr (ms', added')" by (auto simp: rbind_Inr_iff)
    from 1(1) have "(\<forall>v \<in> set a1. \<forall>p. map_of ms1 v = Some p \<longrightarrow> \<not> p_left p) \<and> set a1 \<subseteq> set added \<union> {v}"
      using Cons.prems(2)
      by (cases rule: invite_one_result) (auto simp: update_conv' simp del: map_of_eq_Some_iff map_of_eq_None_iff)
    then show ?case using Cons.IH [OF 1(2)] by auto
  qed simp
  then show "\<forall>v \<in> set added'. \<forall>p. map_of ms' v = Some p \<longrightarrow> \<not> p_left p" "set added' \<subseteq> set added \<union> set vs"
    by blast+
qed

lemma create_rows_grown:
  "grown base ms \<Longrightarrow> grown base
     (fold (\<lambda>(v, i) ms. if map_of ms v = None then AList.update v (new_participant i) ms else ms) rs ms)"
proof (induction rs arbitrary: ms)
  case (Cons r rs)
  then show ?case by (cases r) (auto intro!: Cons.IH grown_add simp del: map_of_eq_None_iff)
qed simp

lemma create_members_rows:
  "create_members u vs ms = fold (\<lambda>(v, i) ms. if map_of ms v = None then AList.update v (new_participant i) ms else ms)
     (map (\<lambda>v. (v, u)) vs) ms"
  by (simp add: create_members_def fold_map comp_def)

lemma create_rows_map:
  "map_of (fold (\<lambda>(v, i) ms. if map_of ms v = None then AList.update v (new_participant i) ms else ms) rs ms) w =
     (case map_of ms w of Some p \<Rightarrow> Some p | None \<Rightarrow> map_option new_participant (map_of rs w))"
proof (induction rs arbitrary: ms)
  case (Cons r rs)
  obtain v i where r: "r = (v, i)" by (cases r)
  show ?case unfolding r
    by (cases "map_of ms v")
      (auto simp: Cons.IH update_conv' simp del: map_of_eq_Some_iff map_of_eq_None_iff split: option.split)
qed (simp split: option.split)

lemma invited_ids_named: "invited_ids u xs = Inr vs \<Longrightarrow> v \<in> set vs \<Longrightarrow> InPeerUser v True \<in> set xs"
proof (induction xs arbitrary: vs)
  case (Cons x xs)
  from Cons.prems(1) obtain t where t: "type_and_id_from_input_raise u x ''USER_ID_INVALID'' = Inr t"
    "(case t of UserPeer v \<Rightarrow> rbind (invited_ids u xs) (\<lambda>vs. Inr (v # vs)) | _ \<Rightarrow> Inl (rpc 400 ''USER_ID_INVALID'')) = Inr vs"
    by (auto simp: rbind_Inr_iff)
  then show ?case using Cons by (cases t) (auto simp: rbind_Inr_iff raise_user_named)
qed simp

lemma invite_cases:
  obtains (same) "snd (invite_to_channel ue L a u vs c) = c" "\<And>s. fst (invite_to_channel ue L a u vs c) \<noteq> Inr s"
  | (set) p ids ms added where "get_participant u False c = Some p"
      "user_has_permission c (Some (u, p)) BAN_INVITE_USERS = Inr True \<or> admin_has_permission c (u, p) ADMIN_INVITE_USERS"
      "invited_ids u (take 100 vs) = Inr ids" "list_all ue ids"
      "invite_loop L (members_count c) u ids (ch_members c, []) = Inr (ms, added)"
      "invite_to_channel ue L a u vs c = (Inr added, c\<lparr>ch_members := create_members u added ms,
         ch_requests := filter (\<lambda>(v, _). v \<notin> set added) (ch_requests c),
         ch_log := ch_log c @ map (\<lambda>v. (v, PARTICIPANT_JOIN)) added\<rparr>)"
proof (cases "a = ByAccessHash False \<or> get_participant u False c = None")
  case True
  then show thesis by (intro same) (auto simp: invite_to_channel_def run_simps)
next
  case False
  then obtain p where p: "a \<noteq> ByAccessHash False" "get_participant u False c = Some p" by auto
  obtain b where b: "user_has_permission c (Some (u, p)) BAN_INVITE_USERS = Inr b"
    by (simp add: user_has_permission_def)
  show thesis
  proof (cases "invited_ids u (take 100 vs)")
    case (Inl e)
    then show thesis using p b by (intro same) (auto simp: invite_to_channel_def run_simps)
  next
    case (Inr ids)
    show thesis
    proof (cases "(b \<or> admin_has_permission c (u, p) ADMIN_INVITE_USERS) \<and> ids \<noteq> [] \<and> list_all ue ids")
      case False
      then show thesis using p b Inr by (intro same) (auto simp: invite_to_channel_def run_simps)
    next
      case True
      show thesis
      proof (cases "invite_loop L (members_count c) u ids (ch_members c, [])")
        case (Inl e)
        then show thesis using p b Inr True by (intro same) (auto simp: invite_to_channel_def run_simps)
      next
        case loop: (Inr r)
        obtain ms added where r: "r = (ms, added)" by (cases r)
        show thesis using p b Inr True loop r
          by (intro set [of p ids ms added]) (auto simp: invite_to_channel_def run_simps)
      qed
    qed
  qed
qed

lemma invite_inv:
  assumes "chan_inv c"
  shows "chan_inv (snd (invite_to_channel ue L a u vs c))"
proof (cases rule: invite_cases [of ue L a u vs c])
  case same then show ?thesis using assms by simp
next
  case (set p ids ms added)
  have "grown (ch_members c) (ch_members c)" using assms by (simp add: grown_refl chan_inv_def)
  then have "grown (ch_members c) ms" by (rule invite_loop_grown [OF set(5)])
  then have "grown (ch_members c) (create_members u added ms)"
    unfolding create_members_rows by (rule create_rows_grown)
  then show ?thesis unfolding set(6) snd_conv by (rule grown_inv [OF assms])
qed

text \<open>Everyone the request reports was named, is a member afterwards, and the limit is kept.\<close>

lemma invite_added:
  assumes "fst (invite_to_channel ue L a u vs c) = Inr added"
  shows "v \<in> set added \<Longrightarrow> get_participant v False (snd (invite_to_channel ue L a u vs c)) \<noteq> None"
    "v \<in> set added \<Longrightarrow> InPeerUser v True \<in> set vs"
    "members_count c \<le> member_limit L \<Longrightarrow> members_count c + length added \<le> member_limit L"
proof -
  obtain ids ms where s: "invited_ids u (take 100 vs) = Inr ids"
    "invite_loop L (members_count c) u ids (ch_members c, []) = Inr (ms, added)"
    "ch_members (snd (invite_to_channel ue L a u vs c)) = create_members u added ms"
    using assms by (cases rule: invite_cases [of ue L a u vs c]) auto
  have a: "\<forall>v \<in> set added. \<forall>p. map_of ms v = Some p \<longrightarrow> \<not> p_left p" "set added \<subseteq> set ids"
    using invite_loop_added [OF s(2)] by auto
  show "members_count c \<le> member_limit L \<Longrightarrow> members_count c + length added \<le> member_limit L"
    using invite_loop_limit [OF s(2)] by simp
  show "InPeerUser v True \<in> set vs" if "v \<in> set added"
    using a(2) that invited_ids_named [OF s(1), of v] by (auto dest: in_set_takeD)
  assume v: "v \<in> set added"
  have "map_of (map (\<lambda>v. (v, u)) added) v = Some u" using v by (simp add: map_of_map_restrict)
  then show "get_participant v False (snd (invite_to_channel ue L a u vs c)) \<noteq> None"
    using v a(1) by (cases "map_of ms v")
      (auto simp: get_participant_def s(3) create_members_rows create_rows_map new_participant_def
       simp del: map_of_eq_Some_iff map_of_eq_None_iff)
qed

section \<open>Invite links and join requests\<close>

lemma check_invite_state [simp]: "snd (check_invite now h link u c) = c"
  by (auto simp: check_invite_def split: option.split)

lemma check_invite_ok:
  assumes "fst (check_invite now h link u c) = Inr i" "get_participant u True c = Some p"
  shows "p_banned_rights p AND VIEW_MESSAGES = 0"
  using assms by (auto simp: check_invite_def split: option.splits if_splits)

lemma import_cases:
  obtains (same) "snd (import_chat_invite n m k now h link u c) = c"
     "\<And>s. fst (import_chat_invite n m k now h link u c) \<noteq> Inr s"
  | (asked) r where "import_chat_invite n m k now h link u c = (Inl (rpc 400 ''INVITE_REQUEST_SENT''), c\<lparr>ch_requests := r\<rparr>)"
  | (set) i where "fst (check_invite now h link u c) = Inr i" "get_participant u False c = None" "\<not> inv_needs_request i"
      "import_chat_invite n m k now h link u c = user_join_channel n m k u (Some (inv_owner i)) c"
proof (cases "fst (check_invite now h link u c)")
  case (Inl e)
  then have "check_invite now h link u c = (Inl e, c)" by (metis check_invite_state prod.collapse)
  then show thesis by (intro same) (simp_all add: import_chat_invite_def sbind_def)
next
  case (Inr i)
  then have i: "check_invite now h link u c = (Inr i, c)" by (metis check_invite_state prod.collapse)
  show thesis
  proof (cases "get_participant u False c")
    case (Some p)
    then show thesis using i by (intro same) (simp_all add: import_chat_invite_def sbind_def run_simps)
  next
    case None
    show thesis
    proof (cases "inv_needs_request i")
      case True
      then show thesis using i None
        by (intro asked [of "if u \<in> fst ` set (ch_requests c) then ch_requests c else ch_requests c @ [(u, inv_owner i)]"])
          (simp add: import_chat_invite_def sbind_def run_simps)
    next
      case False
      then show thesis using i None Inr
        by (intro set [of i]) (simp_all add: import_chat_invite_def sbind_def run_simps)
    qed
  qed
qed

lemma requests_inv [simp]: "chan_inv (c\<lparr>ch_requests := r\<rparr>) = chan_inv c"
  by (simp add: chan_inv_def admins_def)

lemma import_inv:
  assumes "chan_inv c"
  shows "chan_inv (snd (import_chat_invite n m k now h link u c))"
  by (cases rule: import_cases [of n m k now h link u c]) (use assms user_join_inv in auto)

lemma add_requested_inv:
  assumes "chan_inv c"
  shows "chan_inv (snd (add_requested_users m rs c))"
proof -
  have "grown (ch_members c) (fold (\<lambda>(v, i) ms. if map_of ms v = None then AList.update v (new_participant i) ms else ms)
      rs (ch_members c))"
    using assms by (intro create_rows_grown grown_refl) (simp add: chan_inv_def)
  from grown_inv [OF assms this, where l = "ch_log c"] show ?thesis
    using assms by (simp add: add_requested_users_def del: map_of_eq_None_iff)
qed

lemma hide_cases:
  obtains (same) "snd (hide_join_request m u whom approved c) = c"
  | (dropped) v where "hide_join_request m u whom approved c = (Inr [], drop_request v c)"
  | (added) v i where "map_of (ch_requests c) v = Some i"
      "hide_join_request m u whom approved c = add_requested_users m [(v, i)] c"
proof (cases "\<exists>p v i. get_participant u False c = Some p \<and> admin_has_permission c (u, p) ADMIN_INVITE_USERS
    \<and> whom = Some v \<and> map_of (ch_requests c) v = Some i")
  case True
  then obtain p v i where "get_participant u False c = Some p" "admin_has_permission c (u, p) ADMIN_INVITE_USERS"
    "whom = Some v" "map_of (ch_requests c) v = Some i" by blast
  then show thesis using dropped [of v] added [of v i] by (cases approved) (simp_all add: hide_join_request_def)
next
  case False
  then show thesis by (intro same) (auto simp: hide_join_request_def simp del: map_of_eq_Some_iff split: option.split)
qed

lemma hide_inv:
  assumes "chan_inv c"
  shows "chan_inv (snd (hide_join_request m u whom approved c))"
  by (cases rule: hide_cases [of m u whom approved c]) (use assms add_requested_inv in auto)

end
