(* ===== verification/ChannelsRun.thy ===== *)
theory ChannelsRun
  imports ChannelsFacts
begin

text \<open>
  A chat under any sequence of requests by any users: the invariant of its members, who may gain
  rights, what a ban holds off, and how the permission checks move with the rights.
\<close>

section \<open>Requests\<close>

datatype chan_request =
    EditBanned real channel_access int input_peer rights int
  | EditAdmin nat channel_access int "int res" rights string
  | EditCreator channel_access "unit res" int input_peer
  | JoinChannel nat nat channel_access nat "unit res" int
  | LeaveChannel bool int
  | DeleteChannel channel_access int
  | InviteToChannel "int \<Rightarrow> bool" invite_limits channel_access int "input_peer list"
  | ImportChatInvite nat nat nat real bool "invite_link option" int
  | HideJoinRequest nat int "int option" bool

fun asker :: "chan_request \<Rightarrow> int" where
  "asker (EditBanned now a u inp r t) = u"
| "asker (EditAdmin limit a u tp r rank) = u"
| "asker (EditCreator a pw u inp) = u"
| "asker (JoinChannel n m a k pl u) = u"
| "asker (LeaveChannel f u) = u"
| "asker (DeleteChannel a u) = u"
| "asker (InviteToChannel ue L a u vs) = u"
| "asker (ImportChatInvite n m k now h link u) = u"
| "asker (HideJoinRequest m u whom ok) = u"

fun serve :: "chan_request \<Rightarrow> chat \<Rightarrow> chat" where
  "serve (EditBanned now a u inp r t) c = snd (edit_banned now a u inp r t c)"
| "serve (EditAdmin limit a u tp r rank) c = snd (edit_admin limit a u tp r rank c)"
| "serve (EditCreator a pw u inp) c = snd (edit_creator a pw u inp c)"
| "serve (JoinChannel n m a k pl u) c = snd (join_channel n m a k pl u c)"
| "serve (LeaveChannel f u) c = snd (leave_channel f u c)"
| "serve (DeleteChannel a u) c = snd (delete_channel a u c)"
| "serve (InviteToChannel ue L a u vs) c = snd (invite_to_channel ue L a u vs c)"
| "serve (ImportChatInvite n m k now h link u) c = snd (import_chat_invite n m k now h link u c)"
| "serve (HideJoinRequest m u whom ok) c = snd (hide_join_request m u whom ok c)"

inductive chan_reachable :: "chat \<Rightarrow> bool" where
  created: "create_channel allowed u broadcast megagroup forum title about = Inr c \<Longrightarrow> chan_reachable c"
| served: "chan_reachable c \<Longrightarrow> chan_reachable (serve r c)"

lemma serve_inv: "chan_inv c \<Longrightarrow> chan_inv (serve r c)"
  by (cases r) (simp_all add: edit_banned_inv edit_admin_inv edit_creator_inv join_channel_inv leave_channel_inv
      delete_channel_inv invite_inv import_inv hide_inv)

lemma reachable_chan_inv: "chan_reachable c \<Longrightarrow> chan_inv c"
  by (induction rule: chan_reachable.induct) (auto intro: create_channel_inv serve_inv)

lemma serve_run: "chan_reachable c \<Longrightarrow> chan_reachable (fold serve rs c)"
  by (induction rs arbitrary: c) (auto intro: served)

section \<open>Rights\<close>

lemma rights_put: "rights_of (put_member u p c) v = (if v = u then p_admin_rights p else rights_of c v)"
  by (simp add: rights_of_def map_of_put)

lemma rights_frame [simp]:
  "rights_of (add_log u a c) v = rights_of c v" "rights_of (drop_request u c) v = rights_of c v"
  "rights_of (sync_admins_count c) v = rights_of c v" "rights_of (c\<lparr>ch_requests := r\<rparr>) v = rights_of c v"
  "rights_of (c\<lparr>ch_deleted := b, ch_version := n\<rparr>) v = rights_of c v"
  "rights_of (c\<lparr>ch_creator := k, ch_version := n\<rparr>) v = rights_of c v"
  by (simp_all add: rights_of_def)

lemma rights_grown:
  assumes "grown (ch_members c) (ch_members c')"
  shows "rights_of c' v = rights_of c v"
proof -
  have "row_grown (map_of (ch_members c) v) (map_of (ch_members c') v)" using assms by (simp add: grown_def)
  then show ?thesis unfolding rights_of_def
    by (cases "map_of (ch_members c) v"; cases "map_of (ch_members c') v") (simp_all del: map_of_eq_Some_iff map_of_eq_None_iff)
qed

lemma rights_participant: "get_participant u b c = Some p \<Longrightarrow> rights_of c u = p_admin_rights p"
  by (simp add: rights_of_def get_participant_Some del: map_of_eq_Some_iff)

lemma rights_row: "rights_of c u = p_admin_rights (case get_participant u True c of None \<Rightarrow> new_participant i | Some p \<Rightarrow> p)"
  by (simp add: rights_of_def get_participant_def new_participant_def split: option.split)

lemma user_join_rights: "rights_of (snd (user_join_channel n m k u i c)) v = rights_of c v"
  by (cases rule: user_join_cases [of n m k u i c])
    (auto simp: rights_put rights_row [of c u 0])

lemma set_banned_rights: "rights_of (snd (set_banned now u w r t c)) v = rights_of c v"
  by (simp add: set_banned_def Let_def rights_put rights_row [of c w 0])

text \<open>Only the two requests about administrators change anybody's rights.\<close>

lemma serve_rights:
  assumes "chan_inv c" "rights_of (serve r c) v \<noteq> rights_of c v"
  shows "(\<exists>limit a u tp rs rank. r = EditAdmin limit a u tp rs rank) \<or> (\<exists>a pw u inp. r = EditCreator a pw u inp)"
proof (cases r)
  case (EditBanned now a u inp rs t)
  then show ?thesis using assms(2)
    by (cases rule: edit_banned_cases [of now a u inp rs t c]) (simp_all add: set_banned_rights)
next
  case (JoinChannel n m a k pl u)
  then show ?thesis using assms(2)
    by (cases rule: join_channel_cases [of n m a k pl u c]) (simp_all add: user_join_rights)
next
  case (LeaveChannel f u)
  then show ?thesis using assms(2)
    by (cases rule: leave_channel_cases [of f u c]) (auto simp: rights_put dest: rights_participant split: if_splits)
next
  case (DeleteChannel a u)
  then show ?thesis using assms(2) by (simp add: delete_channel_def run_simps split: if_splits)
next
  case (InviteToChannel ue L a u vs)
  then show ?thesis using assms
  proof (cases rule: invite_cases [of ue L a u vs c])
    case (set p ids ms added)
    have "grown (ch_members c) (ch_members (serve r c))"
      using assms(1) InviteToChannel set(5,6) by (auto simp: create_members_rows chan_inv_def
        intro!: create_rows_grown invite_loop_grown [OF set(5)] grown_refl)
    then show ?thesis using assms(2) rights_grown by blast
  qed simp
next
  case (ImportChatInvite n m k now h link u)
  then show ?thesis using assms(2)
    by (cases rule: import_cases [of n m k now h link u c]) (simp_all add: user_join_rights)
next
  case (HideJoinRequest m u whom ok)
  then show ?thesis using assms
  proof (cases rule: hide_cases [of m u whom ok c])
    case (added w i)
    have "grown (ch_members c) (ch_members (serve r c))"
      using assms(1) HideJoinRequest added create_rows_grown [OF grown_refl, of "ch_members c" "[(w, i)]"]
      by (simp add: add_requested_users_def chan_inv_def grown_refl del: map_of_eq_None_iff)
    then show ?thesis using assms(2) rights_grown by blast
  qed simp_all
qed auto

text \<open>
  Who is not the creator and may not add administrators changes nobody's rights; a right a
  non-creator hands out is one he holds.
\<close>

lemma no_escalation:
  assumes "chan_inv c" "asker r \<noteq> ch_creator c" "rights_of (serve r c) v \<noteq> rights_of c v"
  shows "v \<noteq> ch_creator c \<and> rights_of c (asker r) AND ADMIN_ADD_ADMINS = ADMIN_ADD_ADMINS
    \<and> rights_of (serve r c) v AND NOT (rights_of c (asker r)) = 0"
proof -
  from serve_rights [OF assms(1,3)] show ?thesis
  proof (elim disjE exE)
    fix limit a u tp rs rank assume r: "r = EditAdmin limit a u tp rs rank"
    then show ?thesis using edit_admin_escalation [of u c limit a tp rs rank v] assms(2,3) by simp
  next
    fix a pw u inp assume r: "r = EditCreator a pw u inp"
    then show ?thesis using assms(2,3)
      by (cases rule: edit_creator_cases [of a pw u inp c]) simp_all
  qed
qed

lemma other_keeps_creator:
  assumes "asker r \<noteq> ch_creator c" "chan_inv c"
  shows "ch_creator (serve r c) = ch_creator c"
proof (cases r)
  case (EditBanned now a u inp rs t)
  then show ?thesis by (cases rule: edit_banned_cases [of now a u inp rs t c]) (simp_all add: set_banned_def Let_def)
next
  case (EditAdmin limit a u tp rs rank)
  then show ?thesis by (cases rule: edit_admin_cases [of limit a u tp rs rank c]) (simp_all add: set_admin_def)
next
  case (EditCreator a pw u inp)
  then show ?thesis using assms(1) by (cases rule: edit_creator_cases [of a pw u inp c]) simp_all
next
  case (JoinChannel n m a k pl u)
  then show ?thesis
    by (cases rule: join_channel_cases [of n m a k pl u c]; cases rule: user_join_cases [of n m k u None c]) simp_all
next
  case (LeaveChannel f u)
  then show ?thesis by (cases rule: leave_channel_cases [of f u c]) auto
next
  case (DeleteChannel a u)
  then show ?thesis by (simp add: delete_channel_def run_simps)
next
  case (InviteToChannel ue L a u vs)
  then show ?thesis by (cases rule: invite_cases [of ue L a u vs c]) simp_all
next
  case (ImportChatInvite n m k now h link u)
  then show ?thesis
  proof (cases rule: import_cases [of n m k now h link u c])
    case (set i)
    then show ?thesis using ImportChatInvite
      by (cases rule: user_join_cases [of n m k u "Some (inv_owner i)" c]) simp_all
  qed simp_all
next
  case (HideJoinRequest m u whom ok)
  then show ?thesis by (cases rule: hide_cases [of m u whom ok c]) (simp_all add: add_requested_users_def)
qed

lemma others_keep_creator:
  "chan_inv c \<Longrightarrow> list_all (\<lambda>r. asker r \<noteq> ch_creator c) rs \<Longrightarrow> ch_creator (fold serve rs c) = ch_creator c"
proof (induction rs arbitrary: c)
  case (Cons r rs)
  have "ch_creator (serve r c) = ch_creator c" using other_keeps_creator Cons.prems by simp
  then show ?case using Cons.IH [OF serve_inv [OF Cons.prems(1), of r]] Cons.prems(2) by simp
qed simp

text \<open>
  As long as the creator asks for nothing, a right of a user who is not the creator was held by such a
  user from the start.
\<close>

lemma no_new_rights:
  assumes "chan_inv c" "list_all (\<lambda>r. asker r \<noteq> ch_creator c) rs"
    and "v \<noteq> ch_creator c" "bit (rights_of (fold serve rs c) v) n"
  shows "\<exists>w. w \<noteq> ch_creator c \<and> bit (rights_of c w) n"
  using assms
proof (induction rs arbitrary: c)
  case (Cons r rs)
  have k: "ch_creator (serve r c) = ch_creator c" using other_keeps_creator Cons.prems by simp
  then obtain w where w: "w \<noteq> ch_creator c" "bit (rights_of (serve r c) w) n"
    using Cons.IH [OF serve_inv [OF Cons.prems(1), of r]] Cons.prems by auto
  show ?case
  proof (cases "rights_of (serve r c) w = rights_of c w")
    case True then show ?thesis using w by auto
  next
    case False
    have a: "asker r \<noteq> ch_creator c" using Cons.prems(2) by simp
    have "rights_of (serve r c) w AND NOT (rights_of c (asker r)) = 0"
      using no_escalation [OF Cons.prems(1) a False] by simp
    then have "\<not> bit (rights_of (serve r c) w AND NOT (rights_of c (asker r))) n" by simp
    then have "bit (rights_of c (asker r)) n"
      using w(2) bit_imp_le_length [OF w(2)] by (simp add: bit_simps)
    then show ?thesis using a by blast
  qed
qed auto

section \<open>Who is not a member\<close>

text \<open>A request of somebody outside changes nothing, unless it is about coming in.\<close>

lemma outsider_changes_nothing:
  assumes inv: "chan_inv c" and out: "get_participant (asker r) False c = None"
    and "\<And>n m a k pl u. r \<noteq> JoinChannel n m a k pl u" "\<And>n m k now h link u. r \<noteq> ImportChatInvite n m k now h link u"
  shows "serve r c = c"
proof (cases r)
  case (EditBanned now a u inp rs t)
  then show ?thesis using out by (cases rule: edit_banned_cases [of now a u inp rs t c]) auto
next
  case (EditAdmin limit a u tp rs rank)
  then show ?thesis using out by (cases rule: edit_admin_cases [of limit a u tp rs rank c]) auto
next
  case (EditCreator a pw u inp)
  then show ?thesis using out by (cases rule: edit_creator_cases [of a pw u inp c]) auto
next
  case (LeaveChannel f u)
  then show ?thesis using out by (cases rule: leave_channel_cases [of f u c]) auto
next
  case (DeleteChannel a u)
  have "get_participant (ch_creator c) False c \<noteq> None"
    using inv unfolding chan_inv_def by (auto simp: get_participant_def simp del: map_of_eq_Some_iff)
  then have "ch_creator c \<noteq> u" using DeleteChannel out by auto
  then show ?thesis using DeleteChannel by (simp add: delete_channel_def run_simps)
next
  case (InviteToChannel ue L a u vs)
  then show ?thesis using out by (cases rule: invite_cases [of ue L a u vs c]) auto
next
  case (HideJoinRequest m u whom ok)
  then show ?thesis using out by (simp add: hide_join_request_def)
qed (use assms(3,4) in blast)+

section \<open>Bans\<close>

definition banned_out :: "chat \<Rightarrow> int \<Rightarrow> bool" where
  "banned_out c v \<longleftrightarrow> (case map_of (ch_members c) v of None \<Rightarrow> False
     | Some p \<Rightarrow> p_left p \<and> p_banned_rights p AND VIEW_MESSAGES \<noteq> 0)"

text \<open>The requests that can lift or overrun a ban of \<open>v\<close>.\<close>

fun spares :: "int \<Rightarrow> chan_request \<Rightarrow> bool" where
  "spares v (EditBanned now a u inp r t) \<longleftrightarrow> inp \<noteq> InPeerUser v True"
| "spares v (InviteToChannel ue L a u vs) \<longleftrightarrow> InPeerUser v True \<notin> set vs"
| "spares v _ \<longleftrightarrow> True"

lemma banned_out_row:
  "map_of (ch_members c') v = map_of (ch_members c) v \<Longrightarrow> banned_out c' v = banned_out c v"
  by (simp add: banned_out_def)

lemma banned_out_participant: "banned_out c v \<Longrightarrow> get_participant v False c = None"
  by (auto simp: banned_out_def get_participant_def split: option.split)

lemma banned_out_seen:
  "banned_out c v \<Longrightarrow> \<exists>p. get_participant v True c = Some p \<and> p_left p \<and> p_banned_rights p AND VIEW_MESSAGES \<noteq> 0"
  by (auto simp: banned_out_def get_participant_def split: option.splits)

lemma invite_loop_others:
  "invite_loop L n u vs (ms, added) = Inr (ms', added') \<Longrightarrow> v \<notin> set vs \<Longrightarrow> map_of ms' v = map_of ms v"
proof (induction vs arbitrary: ms added)
  case (Cons w vs)
  from Cons.prems obtain ms1 a1 where 1: "invite_one L n u w (ms, added) = Inr (ms1, a1)"
    "invite_loop L n u vs (ms1, a1) = Inr (ms', added')" by (auto simp: rbind_Inr_iff)
  from 1(1) have "map_of ms1 v = map_of ms v" using Cons.prems(2)
    by (cases rule: invite_one_result) (auto simp: update_conv')
  then show ?case using Cons.IH [OF 1(2)] Cons.prems(2) by simp
qed simp

lemma edit_banned_sticks:
  assumes "banned_out c v" "inp \<noteq> InPeerUser v True"
  shows "banned_out (snd (edit_banned now a u inp r t c)) v"
proof (cases rule: edit_banned_cases [of now a u inp r t c])
  case (set p target)
  have "map_of (ch_members (snd (edit_banned now a u inp r t c))) v = map_of (ch_members c) v"
    using set(3) assms(2) unfolding set(5) set_banned_members map_of_put by auto
  then show ?thesis using assms(1) banned_out_row by blast
qed (use assms in simp)

lemma join_sticks:
  assumes "banned_out c v" "u \<noteq> v"
  shows "banned_out (snd (user_join_channel n m k u i c)) v"
  using assms by (cases rule: user_join_cases [of n m k u i c])
    (auto simp: banned_out_def map_of_put simp del: map_of_eq_Some_iff)

lemma invite_sticks:
  assumes "banned_out c v" "InPeerUser v True \<notin> set vs"
  shows "banned_out (snd (invite_to_channel ue L a u vs c)) v"
proof (cases rule: invite_cases [of ue L a u vs c])
  case (set p ids ms added)
  have "v \<notin> set ids" using assms(2) invited_ids_named [OF set(3), of v] by (auto dest: in_set_takeD)
  then have "map_of ms v = map_of (ch_members c) v" by (rule invite_loop_others [OF set(5)])
  then have "map_of (create_members u added ms) v = map_of (ch_members c) v"
    using assms(1) by (auto simp: create_members_rows create_rows_map banned_out_def
        simp del: map_of_eq_Some_iff map_of_eq_None_iff split: option.splits)
  then show ?thesis using set(6) assms(1) by (simp add: banned_out_def)
qed (use assms in simp)

lemma serve_sticks:
  assumes b: "banned_out c v" and s: "spares v r"
  shows "banned_out (serve r c) v"
proof (cases r)
  case (EditBanned now a u inp rs t)
  then show ?thesis using edit_banned_sticks assms by simp
next
  case (EditAdmin limit a u tp rs rank)
  then show ?thesis using b banned_out_participant [OF b]
    by (cases rule: edit_admin_cases [of limit a u tp rs rank c])
      (auto simp: set_admin_def banned_out_def map_of_put simp del: map_of_eq_Some_iff)
next
  case (EditCreator a pw u inp)
  then show ?thesis using b banned_out_participant [OF b]
    by (cases rule: edit_creator_cases [of a pw u inp c])
      (auto simp: banned_out_def map_of_put simp del: map_of_eq_Some_iff)
next
  case (JoinChannel n m a k pl u)
  then show ?thesis
  proof (cases rule: join_channel_cases [of n m a k pl u c])
    case set
    have "u \<noteq> v" using banned_out_seen [OF b] set(3) by blast
    then show ?thesis using JoinChannel set(4) join_sticks [OF b] by simp
  qed (use b in simp)
next
  case (LeaveChannel f u)
  then show ?thesis using b banned_out_participant [OF b]
    by (cases rule: leave_channel_cases [of f u c]) (auto simp: banned_out_def map_of_put simp del: map_of_eq_Some_iff)
next
  case (DeleteChannel a u)
  then show ?thesis using b by (simp add: delete_channel_def run_simps banned_out_def)
next
  case (InviteToChannel ue L a u vs)
  then show ?thesis using invite_sticks assms by simp
next
  case (ImportChatInvite n m k now h link u)
  then show ?thesis
  proof (cases rule: import_cases [of n m k now h link u c])
    case (set i)
    have "u \<noteq> v" using banned_out_seen [OF b] check_invite_ok [OF set(1)] by blast
    then show ?thesis using ImportChatInvite set(4) join_sticks [OF b] by simp
  qed (use b ImportChatInvite in \<open>simp_all add: banned_out_def\<close>)
next
  case (HideJoinRequest m u whom ok)
  then show ?thesis using b
    by (cases rule: hide_cases [of m u whom ok c])
      (auto simp: banned_out_def add_requested_users_def update_conv'
        simp del: map_of_eq_Some_iff map_of_eq_None_iff split: option.splits)
qed

text \<open>A ban outlasts every request that neither names the banned user in a restriction nor invites him.\<close>

lemma ban_sticks: "banned_out c v \<Longrightarrow> list_all (spares v) rs \<Longrightarrow> banned_out (fold serve rs c) v"
  by (induction rs arbitrary: c) (auto intro: serve_sticks)

lemma set_banned_out:
  "r AND VIEW_MESSAGES \<noteq> 0 \<Longrightarrow> banned_out (snd (set_banned now u v r t c)) v"
  by (simp add: banned_out_def set_banned_members map_of_put split: option.split)

lemma ban_takes:
  assumes "edit_banned now a u inp r t c = (Inr (), c')" "c' \<noteq> c" "r AND VIEW_MESSAGES \<noteq> 0"
  obtains v where "inp = InPeerUser v True" "banned_out c' v"
  using assms set_banned_out [OF assms(3), of now u _ t c]
  by (cases rule: edit_banned_cases [of now a u inp r t c]) (auto, metis snd_conv)

text \<open>A restricted member who is no administrator is denied everything restricted.\<close>

lemma restriction_enforced:
  assumes "edit_banned now a u (InPeerUser v True) r t c = (Inr (), c')" "c' \<noteq> c"
    and "v \<noteq> ch_creator c" "\<not> is_admin p" "get_participant v True c' = Some p" "regular AND r \<noteq> 0"
  shows "\<not> check_rights c' (Some (v, p)) admin regular"
proof -
  have s: "edit_banned now a u (InPeerUser v True) r t c = set_banned now u v r t c"
    using assms(1,2) by (cases rule: edit_banned_cases [of now a u "InPeerUser v True" r t c]) auto
  have p: "p_banned_rights p = r"
    using assms(5) s [symmetric] assms(1) set_banned_members [of now u v r t c]
    by (auto simp: get_participant_Some map_of_put simp del: map_of_eq_Some_iff)
  have c: "ch_creator c' = ch_creator c"
    using s [symmetric] assms(1) by (auto simp: set_banned_def Let_def)
  have "r AND regular > 0" using assms(6) by (simp add: and.commute word_gt_0)
  then show ?thesis using assms(3,4) p c by (auto simp: check_rights_def Let_def)
qed

section \<open>Permissions and rights\<close>

lemma subset_bits:
  fixes a b m :: rights
  assumes "a AND NOT b = 0"
  shows "a AND m = m \<Longrightarrow> b AND m = m" "b AND m = 0 \<Longrightarrow> a AND m = 0"
proof -
  have sub: "a AND b = a"
  proof (rule bit_eqI)
    fix n
    have "\<not> bit (a AND NOT b) n" using assms by simp
    then show "bit (a AND b) n = bit a n" by (auto simp: bit_simps dest: bit_imp_le_length)
  qed
  show "b AND m = m" if "a AND m = m"
  proof -
    have "b AND m = b AND (a AND m)" using that by simp
    also have "\<dots> = (a AND b) AND m" by (simp add: ac_simps)
    finally show ?thesis using sub that by simp
  qed
  show "a AND m = 0" if "b AND m = 0"
  proof -
    have "a AND m = (a AND b) AND m" using sub by simp
    also have "\<dots> = a AND (b AND m)" by (simp add: ac_simps)
    finally show ?thesis using that by simp
  qed
qed

definition no_weaker :: "participant \<Rightarrow> participant \<Rightarrow> bool" where
  "no_weaker p q \<longleftrightarrow> p_left q = p_left p \<and> p_admin_rights p AND NOT (p_admin_rights q) = 0
     \<and> p_banned_rights q AND NOT (p_banned_rights p) = 0"

lemma check_rights_mono:
  assumes w: "no_weaker p q" and c: "check_rights c (Some (u, p)) admin regular"
  shows "check_rights c (Some (u, q)) admin regular"
proof -
  have sub: "p_admin_rights p AND NOT (p_admin_rights q) = 0" "p_banned_rights q AND NOT (p_banned_rights p) = 0"
    using w by (simp_all add: no_weaker_def)
  have a: "p_admin_rights q AND admin = admin" if "p_admin_rights p AND admin = admin"
    using that by (rule subset_bits(1) [OF sub(1)])
  have b: "p_banned_rights q AND regular = 0" if "p_banned_rights p AND regular = 0"
    using that by (rule subset_bits(2) [OF sub(2)])
  have i: "is_admin q" if "is_admin p"
    using that subset_bits(2) [OF sub(1), of "p_admin_rights p"] by (auto simp: is_admin_def word_gt_0)
  show ?thesis
  proof (cases "ch_creator c = u")
    case True then show ?thesis by (simp add: check_rights_def)
  next
    case False
    show ?thesis
    proof (cases "ch_is_channel c \<and> ch_broadcast c \<and> admin > 0")
      case True
      then show ?thesis using False c a i by (simp add: check_rights_def split: if_splits)
    next
      case n: False
      have "p_banned_rights p AND regular = 0" using c False n
        by (simp add: check_rights_def word_gt_0 split: if_splits)
      then have "p_banned_rights q AND regular = 0" by (rule b)
      then show ?thesis using c False n a by (simp add: check_rights_def word_gt_0 split: if_splits)
    qed
  qed
qed

text \<open>More rights and fewer restrictions never take a permission away.\<close>

lemma permissions_mono:
  assumes "no_weaker p q"
  shows "can_view_messages c (Some (u, p)) \<Longrightarrow> can_view_messages c (Some (u, q))"
    "can_send_plain c (Some (u, p)) \<Longrightarrow> can_send_plain c (Some (u, q))"
    "can_send_media c (Some (u, p)) m \<Longrightarrow> can_send_media c (Some (u, q)) m"
    "can_edit_messages c (Some (u, p)) \<Longrightarrow> can_edit_messages c (Some (u, q))"
    "can_pin_messages c (Some (u, p)) \<Longrightarrow> can_pin_messages c (Some (u, q))"
proof -
  note m = check_rights_mono [OF assms]
  have l: "p_left q = p_left p" using assms by (simp add: no_weaker_def)
  show v: "can_view_messages c (Some (u, p)) \<Longrightarrow> can_view_messages c (Some (u, q))"
    using m l by (auto simp: can_view_messages_def)
  show "can_send_plain c (Some (u, p)) \<Longrightarrow> can_send_plain c (Some (u, q))"
    "can_send_media c (Some (u, p)) m \<Longrightarrow> can_send_media c (Some (u, q)) m"
    "can_edit_messages c (Some (u, p)) \<Longrightarrow> can_edit_messages c (Some (u, q))"
    "can_pin_messages c (Some (u, p)) \<Longrightarrow> can_pin_messages c (Some (u, q))"
    using m v by (auto simp: can_send_plain_def can_send_media_def can_edit_messages_def can_pin_messages_def
        can_send_messages_def check_can_send_def split: if_splits)
qed

text \<open>
  The handlers look the sender up among those who have not left. In the discussion group of a
  public channel that makes a banned user an anonymous passer-by, who may write.
\<close>

lemma banned_can_post:
  assumes "banned_out c v" "ch_is_channel c" "ch_nojoin_allow_view c" "ch_banned_rights c = 0"
  shows "can_send_plain c (map_option (Pair v) (get_participant v False c))"
  using banned_out_participant [OF assms(1)] assms(2-4)
  by (simp add: can_send_plain_def can_send_messages_def check_can_send_def can_view_messages_def check_rights_def)

text \<open>An administrator who leaves and comes back has all his rights again.\<close>

lemma return_restores:
  assumes "chan_inv c" "leave_channel True u c = (Inr [], c1)"
  shows "rights_of (snd (join_channel n m a k pl u c1)) u = rights_of c u"
proof -
  have "rights_of c1 u = rights_of c u"
    using serve_rights [OF assms(1), of "LeaveChannel True u" u] assms(2) by auto
  moreover have "chan_inv c1" using leave_channel_inv [OF assms(1), of True u] assms(2) by simp
  then have "rights_of (snd (join_channel n m a k pl u c1)) u = rights_of c1 u"
    using serve_rights [of c1 "JoinChannel n m a k pl u" u] by auto
  ultimately show ?thesis by simp
qed

end
