(* ===== verification/ChannelProperties.thy ===== *)
theory ChannelProperties
  imports ChannelsRun
begin

text \<open>
  What the rights of a channel promise, over any sequence of requests of any users
  (\<^verbatim>\<open>piltover/app/handlers/channels.py\<close>, \<^verbatim>\<open>piltover/db/models/chat_base.py\<close>).
\<close>

section \<open>A group\<close>

text \<open>User 1 creates a public group, users 2 and 3 join, user 2 may add administrators and pin.\<close>

definition demo_join :: "int \<Rightarrow> chan_request" where
  "demo_join u = JoinChannel 500 200 (ByAccessHash True) 0 (Inr ()) u"

definition demo_promote :: "int \<Rightarrow> int \<Rightarrow> rights \<Rightarrow> chan_request" where
  "demo_promote u v r = EditAdmin 50 (ByAccessHash True) u (Inr v) r []"

definition demo_group :: chat where
  "demo_group = add_creator 1 (new_channel 1 False)"

definition demo_staffed :: chat where
  "demo_staffed = fold serve [demo_join 2, demo_join 3, demo_promote 1 2 (ADMIN_ADD_ADMINS OR ADMIN_PIN_MESSAGES)] demo_group"

lemma demo_group_reachable: "chan_reachable demo_group"
  by (rule created [of "Inr ()" 1 False True False "''t''" "[]"])
    (simp add: create_channel_def demo_group_def py_strip_def is_space_def)

lemma demo_staffed_reachable: "chan_reachable demo_staffed"
  unfolding demo_staffed_def by (rule serve_run [OF demo_group_reachable])

lemmas demo_chan_simps = demo_group_def demo_join_def demo_promote_def add_creator_def new_channel_def
  join_channel_def user_join_channel_def edit_admin_def set_admin_def find_channel_def get_participant_def
  put_member_def add_log_def drop_request_def sync_admins_count_def admins_def members_count_def
  new_participant_def join_inviter_def admin_has_permission_def with_participant_def is_admin_def rights_of_def run_simps

lemma demo_staffed_rows: "ch_creator demo_staffed = 1" "\<not> ch_deleted demo_staffed" "rights_of demo_staffed 2 = 0x280" "rights_of demo_staffed 3 = 0"
    "ch_is_channel demo_staffed" "\<not> ch_broadcast demo_staffed" "ch_banned_rights demo_staffed = 0"
    "ch_members demo_staffed = [(1, (new_participant 0)\<lparr>p_admin_rights := CREATOR_RIGHTS\<rparr>),
       (2, (new_participant 0)\<lparr>p_admin_rights := 0x280, p_promoted_by := 1\<rparr>), (3, new_participant 0)]"
  by (simp_all add: demo_staffed_def demo_chan_simps CREATOR_RIGHTS_def ADMIN_ADD_ADMINS_def ADMIN_PIN_MESSAGES_def)

section \<open>Who is in charge\<close>





text \<open>
  C31. Over any requests none of which the creator makes, the creator stays the same, and every right
  anybody else holds at the end was held by some administrator at the start.
\<close>

theorem rights_come_from_administrators:
  assumes "chan_reachable c" "list_all (\<lambda>r. asker r \<noteq> ch_creator c) rs"
  shows "ch_creator (fold serve rs c) = ch_creator c
    \<and> (\<forall>v n. v \<noteq> ch_creator c \<and> bit (rights_of (fold serve rs c) v) n
         \<longrightarrow> (\<exists>w. w \<noteq> ch_creator c \<and> bit (rights_of c w) n))"
  using no_new_rights others_keep_creator reachable_chan_inv [OF assms(1)] assms(2) by blast

text \<open>User 2 lets user 3 pin, user 3 leaves and comes back: the right to pin is still user 2's.\<close>

lemma rights_come_from_administrators_witness:
  "bit (rights_of (fold serve [demo_promote 2 3 ADMIN_PIN_MESSAGES, LeaveChannel True 3, demo_join 3] demo_staffed) 3) 7
    \<and> (\<exists>w. w \<noteq> 1 \<and> bit (rights_of demo_staffed w) 7)"
proof -
  let ?rs = "[demo_promote 2 3 ADMIN_PIN_MESSAGES, LeaveChannel True 3, demo_join 3]"
  have "rights_of (fold serve ?rs demo_staffed) 3 = ADMIN_PIN_MESSAGES"
    by (simp add: demo_staffed_def demo_chan_simps leave_channel_def CREATOR_RIGHTS_def ADMIN_ADD_ADMINS_def
        ADMIN_PIN_MESSAGES_def VIEW_MESSAGES_def)
  then have b: "bit (rights_of (fold serve ?rs demo_staffed) 3) 7" by (simp add: ADMIN_PIN_MESSAGES_def)
  then show ?thesis
    using rights_come_from_administrators [OF demo_staffed_reachable, of ?rs]
    by (simp add: demo_staffed_rows(1) demo_promote_def demo_join_def) (metis numeral_eq_one_iff semiring_norm(86))
qed

section \<open>Bans and restrictions\<close>

text \<open>
  C12. Once an administrator's ban of a user has taken, it holds through every sequence of requests, the
  user's own included, that neither restricts him anew nor invites him by name.
\<close>

theorem ban_holds:
  assumes "edit_banned now a u (InPeerUser v True) r t c = (Inr (), c')" "c' \<noteq> c" "r AND VIEW_MESSAGES \<noteq> 0"
    and "list_all (spares v) rs"
  shows "get_participant v False (fold serve rs c') = None"
proof -
  obtain w where "InPeerUser v True = InPeerUser w True" "banned_out c' w"
    using ban_takes [OF assms(1-3)] by blast
  then show ?thesis using ban_sticks [of c' v rs] assms(4) banned_out_participant by simp
qed

text \<open>The creator restricts user 3.\<close>

lemma demo_restrict:
  assumes "r \<noteq> 0"
  shows "edit_banned 0 (ByAccessHash True) 1 (InPeerUser 3 True) r 0 demo_staffed
      = (Inr (), snd (set_banned 0 1 3 r 0 demo_staffed))"
    "snd (set_banned 0 1 3 r 0 demo_staffed) \<noteq> demo_staffed"
proof -
  show "edit_banned 0 (ByAccessHash True) 1 (InPeerUser 3 True) r 0 demo_staffed
      = (Inr (), snd (set_banned 0 1 3 r 0 demo_staffed))"
    using assms by (simp add: edit_banned_def run_simps find_channel_def get_participant_def demo_staffed_rows
        admin_has_permission_def type_and_id_from_input_raise_def type_and_id_from_input_def rbind_def
        new_participant_def is_admin_def prod_eq_iff) (simp add: set_banned_def Let_def)
  have "map_of (ch_members (snd (set_banned 0 1 3 r 0 demo_staffed))) 3 \<noteq> map_of (ch_members demo_staffed) 3"
    unfolding set_banned_members map_of_put using assms
    by (simp add: get_participant_def demo_staffed_rows new_participant_def)
  then show "snd (set_banned 0 1 3 r 0 demo_staffed) \<noteq> demo_staffed" by metis
qed

text \<open>User 3 is banned; his joining is refused.\<close>

lemma ban_holds_witness:
  "get_participant 3 False (fold serve [demo_join 3, LeaveChannel True 3, demo_join 3]
     (snd (set_banned 0 1 3 VIEW_MESSAGES 0 demo_staffed))) = None"
  using ban_holds [OF demo_restrict(1) demo_restrict(2), of VIEW_MESSAGES "[demo_join 3, LeaveChannel True 3, demo_join 3]"]
  by (simp add: demo_join_def VIEW_MESSAGES_def)

text \<open>
  A member whom a restriction has just reached, and who is neither the creator nor an administrator,
  fails every check of a permission the restriction names, in a group and in a broadcast channel.
\<close>

theorem restriction_takes:
  assumes "edit_banned now a u (InPeerUser v True) r t c = (Inr (), c')" "c' \<noteq> c"
    and "v \<noteq> ch_creator c" "\<not> is_admin p" "get_participant v True c' = Some p" "regular AND r \<noteq> 0"
  shows "\<not> check_rights c' (Some (v, p)) admin regular"
  by (rule restriction_enforced [OF assms])

lemma restriction_takes_witness:
  "\<not> check_rights (snd (set_banned 0 1 3 SEND_MEDIA 0 demo_staffed))
     (Some (3, (new_participant 0)\<lparr>p_banned_rights := SEND_MEDIA\<rparr>)) ADMIN_POST_MESSAGES (SEND_MEDIA OR 8)"
proof -
  have "get_participant 3 True (snd (set_banned 0 1 3 SEND_MEDIA 0 demo_staffed))
      = Some ((new_participant 0)\<lparr>p_banned_rights := SEND_MEDIA\<rparr>)"
    by (simp add: get_participant_def set_banned_members map_of_put demo_staffed_rows new_participant_def
        banned_until_def SEND_MEDIA_def VIEW_MESSAGES_def)
  then show ?thesis
    using restriction_takes [OF demo_restrict(1) demo_restrict(2), of SEND_MEDIA _ "SEND_MEDIA OR 8" ADMIN_POST_MESSAGES]
    by (simp add: demo_staffed_rows is_admin_def new_participant_def SEND_MEDIA_def)
qed

section \<open>Permissions\<close>

text \<open>
  More rights and fewer restrictions never take away a permission: reading, writing, sending media of
  any type, editing and pinning are all monotone in the member's row.
\<close>

theorem permissions_grow_with_rights:
  assumes "no_weaker p q"
  shows "(can_view_messages c (Some (u, p)) \<longrightarrow> can_view_messages c (Some (u, q)))
    \<and> (can_send_plain c (Some (u, p)) \<longrightarrow> can_send_plain c (Some (u, q)))
    \<and> (can_send_media c (Some (u, p)) m \<longrightarrow> can_send_media c (Some (u, q)) m)
    \<and> (can_edit_messages c (Some (u, p)) \<longrightarrow> can_edit_messages c (Some (u, q)))
    \<and> (can_pin_messages c (Some (u, p)) \<longrightarrow> can_pin_messages c (Some (u, q)))"
  using permissions_mono [OF assms] by blast

lemma permissions_grow_with_rights_witness:
  "can_send_plain demo_staffed (Some (3, (new_participant 0)\<lparr>p_admin_rights := ADMIN_PIN_MESSAGES\<rparr>))"
proof -
  have "no_weaker (new_participant 0) ((new_participant 0)\<lparr>p_admin_rights := ADMIN_PIN_MESSAGES\<rparr>)"
    by (simp add: no_weaker_def new_participant_def)
  moreover have "can_send_plain demo_staffed (Some (3, new_participant 0))"
    by (simp add: demo_staffed_rows new_participant_def can_send_plain_def can_send_messages_def check_can_send_def
        can_view_messages_def check_rights_def)
  ultimately show ?thesis using permissions_grow_with_rights by blast
qed



section \<open>Coming in\<close>

text \<open>
  Whoever an invitation reports as added was named in it with a right access hash and is a member
  afterwards, and the invitation does not take the channel past the limit of its size.
\<close>

theorem invitation_adds_the_named:
  assumes "invite_to_channel ue L a u vs c = (Inr added, c')"
  shows "set added \<subseteq> {v. InPeerUser v True \<in> set vs \<and> get_participant v False c' \<noteq> None}
    \<and> (members_count c \<le> member_limit L \<longrightarrow> members_count c + length added \<le> member_limit L)"
  using invite_added [of ue L a u vs c added] assms by auto

lemma invitation_adds_the_named_witness:
  "\<exists>c'. invite_to_channel (\<lambda>_. True) \<lparr>may_invite = \<lambda>_. True, channels_of_user = \<lambda>_. 0, channels_limit = 5, member_limit = 9\<rparr>
      ByMembership 1 [InPeerUser 4 True] demo_staffed = (Inr [4], c') \<and> get_participant 4 False c' \<noteq> None"
proof -
  let ?i = "invite_to_channel (\<lambda>_. True) \<lparr>may_invite = \<lambda>_. True, channels_of_user = \<lambda>_. 0, channels_limit = 5, member_limit = 9\<rparr>
      ByMembership 1 [InPeerUser 4 True] demo_staffed"
  have "fst ?i = Inr [4]"
    by (simp add: invite_to_channel_def run_simps get_participant_def demo_staffed_rows user_has_permission_def
        new_participant_def is_admin_def admin_has_permission_def type_and_id_from_input_raise_def type_and_id_from_input_def
        rbind_def invite_one_def members_count_def CREATOR_RIGHTS_def)
  then have "?i = (Inr [4], snd ?i)" by (simp add: prod_eq_iff)
  then show ?thesis using invitation_adds_the_named by fastforce
qed

text \<open>
  A banned user may still write in the discussion group of a public channel: the handlers look him up
  among those who have not left, find nobody, and answer for a passer-by.
\<close>

theorem banned_user_posts:
  assumes "banned_out c v" "ch_is_channel c" "ch_nojoin_allow_view c" "ch_banned_rights c = 0"
  shows "can_send_plain c (map_option (Pair v) (get_participant v False c))"
  by (rule banned_can_post [OF assms])

lemma banned_user_posts_witness:
  "can_send_plain (snd (set_banned 0 1 3 VIEW_MESSAGES 0 (demo_staffed\<lparr>ch_nojoin_allow_view := True\<rparr>)))
     (map_option (Pair 3) (get_participant 3 False (snd (set_banned 0 1 3 VIEW_MESSAGES 0 (demo_staffed\<lparr>ch_nojoin_allow_view := True\<rparr>)))))"
  by (rule banned_user_posts, rule set_banned_out)
    (simp_all add: VIEW_MESSAGES_def set_banned_def Let_def add_log_def drop_request_def put_member_def demo_staffed_rows)

text \<open>
  Leaving does not end an administrator's rights: whoever leaves and joins again has exactly the
  rights he had.
\<close>

theorem rights_survive_leaving:
  assumes "chan_reachable c" "leave_channel True u c = (Inr [], c1)"
  shows "rights_of (snd (join_channel n m a k pl u c1)) u = rights_of c u"
  by (rule return_restores [OF reachable_chan_inv [OF assms(1)] assms(2)])

lemma rights_survive_leaving_witness:
  "rights_of (serve (demo_join 2) (serve (LeaveChannel True 2) demo_staffed)) 2 = 0x280"
proof -
  have "fst (leave_channel True 2 demo_staffed) = Inr []"
    by (simp add: leave_channel_def run_simps get_participant_def demo_staffed_rows new_participant_def)
  then have "leave_channel True 2 demo_staffed = (Inr [], snd (leave_channel True 2 demo_staffed))" by (simp add: prod_eq_iff)
  then show ?thesis using rights_survive_leaving [OF demo_staffed_reachable]
    by (simp add: demo_staffed_rows demo_join_def)
qed

end
