(* ===== verification/Srp.thy ===== *)
theory Srp
  imports KeyGen
begin

text \<open>
  Two-step verification: the password row of a user (\<^verbatim>\<open>piltover/db/models/user_password.py\<close>), the
  session of the secure remote password protocol (\<^verbatim>\<open>srp_session.py\<close>, \<^verbatim>\<open>piltover/utils/srp.py\<close>), the
  check of a proof (\<open>check_password_internal\<close> in \<^verbatim>\<open>piltover/app/utils/utils.py\<close>) and the change of the
  password (\<^verbatim>\<open>piltover/app/handlers/account.py\<close>). The hash function and the random bytes are
  parameters.
\<close>

section \<open>Rows\<close>

record user_password =
  pw_salt1 :: "byte list"
  pw_salt2 :: "byte list"
  pw_password :: "byte list option"
  pw_hint :: "string option"

record srp_session =
  srp_session_id :: int
  srp_priv_b :: "byte list"
  srp_created_at :: int

text \<open>The proof a client sends: nothing, a proof of the one kind that is read, or another kind.\<close>

datatype password_check = CheckEmpty | CheckSRP int "byte list" "byte list"

section \<open>Numbers\<close>

definition itob :: "int \<Rightarrow> byte list res" where
  "itob i = py_to_bytes_be 256 i"

definition btoi :: "byte list \<Rightarrow> int" where
  "btoi b = py_from_bytes_be b"

definition SRP_K :: "crypto \<Rightarrow> int res" where
  "SRP_K C = (let (p, g) = gen_safe_prime in
     rbind (itob p) (\<lambda>pb. rbind (itob g) (\<lambda>gb. Inr (btoi (sha256 C (pb @ gb))))))"

definition pub_B :: "crypto \<Rightarrow> byte list \<Rightarrow> srp_session \<Rightarrow> byte list res" where
  "pub_B C verifier s =
     (let (p, g) = gen_safe_prime in
      rbind (SRP_K C) (\<lambda>k. itob ((k * btoi verifier + powmod g (btoi (srp_priv_b s)) p) mod p)))"

text \<open>
  \<open>get_session\<close>: the session of the last half hour, or a new one; more than one match is an error
  of \<open>get_or_create\<close>.
\<close>

definition get_srp_session :: "int \<Rightarrow> int \<times> byte list \<Rightarrow> srp_session list \<Rightarrow> srp_session res \<times> srp_session list" where
  "get_srp_session now fresh ss =
     (case filter (\<lambda>s. srp_created_at s > now - 1800) ss of
        [] \<Rightarrow> (let s = \<lparr>srp_session_id = fst fresh, srp_priv_b = snd fresh, srp_created_at = now\<rparr> in (Inr s, ss @ [s]))
      | [s] \<Rightarrow> (Inr s, ss)
      | _ \<Rightarrow> (Inl OtherError, ss))"

section \<open>The check\<close>

text \<open>The message that proves the key \<open>s\<close> of an exchange with the shares \<open>A\<close> and \<open>B\<close>.\<close>

definition srp_message :: "crypto \<Rightarrow> user_password \<Rightarrow> byte list \<Rightarrow> byte list \<Rightarrow> int \<Rightarrow> byte list res" where
  "srp_message C pw A B s =
     (let (p, g) = gen_safe_prime in
      rbind (itob s) (\<lambda>sb. rbind (itob p) (\<lambda>pb. rbind (itob g) (\<lambda>gb.
        Inr (sha256 C (xor_bytes (sha256 C pb) (sha256 C gb) @ sha256 C (pw_salt1 pw) @ sha256 C (pw_salt2 pw)
               @ A @ B @ sha256 C sb))))))"

definition srp_server_key :: "crypto \<Rightarrow> byte list \<Rightarrow> srp_session \<Rightarrow> byte list \<Rightarrow> byte list \<Rightarrow> int" where
  "srp_server_key C verifier s A B =
     (let (p, g) = gen_safe_prime; u = sha256 C (A @ B)
      in powmod (btoi A * powmod (btoi verifier) (btoi u) p) (btoi (srp_priv_b s)) p)"

definition check_password_internal ::
    "crypto \<Rightarrow> int \<Rightarrow> int \<times> byte list \<Rightarrow> user_password \<Rightarrow> password_check \<Rightarrow> srp_session list
      \<Rightarrow> unit res \<times> srp_session list" where
  "check_password_internal C now fresh pw check ss =
     (case pw_password pw of
        None \<Rightarrow> (Inr (), ss)
      | Some verifier \<Rightarrow>
          (case check of
             CheckEmpty \<Rightarrow> (Inl (ErrorRpc 400 ''PASSWORD_HASH_INVALID''), ss)
           | CheckSRP i A M1 \<Rightarrow>
               (let (r, ss') = get_srp_session now fresh ss in
                (rbind r (\<lambda>s.
                   if srp_session_id s \<noteq> i then Inl (ErrorRpc 400 ''SRP_ID_INVALID'')
                   else rbind (pub_B C verifier s) (\<lambda>B.
                        rbind (srp_message C pw A B (srp_server_key C verifier s A B)) (\<lambda>M2.
                        if M1 \<noteq> M2 then Inl (ErrorRpc 400 ''PASSWORD_HASH_INVALID'') else Inr ()))),
                 ss'))))"

section \<open>A new password\<close>

text \<open>The settings; the algorithm is absent when it is not the one that is known.\<close>

record password_settings =
  new_password_hash :: "byte list option"
  new_salts :: "(byte list \<times> byte list) option"
  new_hint :: "string option"

definition new_password :: "password_settings \<Rightarrow> user_password \<Rightarrow> user_password res" where
  "new_password new pw =
     (let h = (case new_password_hash new of None \<Rightarrow> [] | Some h \<Rightarrow> h) in
      if h = [] then
        (if pw_password pw = None then Inl (ErrorRpc 400 ''NEW_SETTINGS_EMPTY'')
         else Inr (pw\<lparr>pw_password := None, pw_hint := None, pw_salt1 := take 8 (pw_salt1 pw)\<rparr>))
      else if btoi h \<ge> fst gen_safe_prime \<or> length h \<noteq> 256 then Inl (ErrorRpc 400 ''NEW_SETTINGS_INVALID'')
      else case new_salts new of
             None \<Rightarrow> Inl (ErrorRpc 400 ''NEW_SETTINGS_INVALID'')
           | Some (salt1, salt2) \<Rightarrow>
               if salt2 \<noteq> pw_salt2 pw \<or> take 8 salt1 \<noteq> take 8 (pw_salt1 pw) \<or> length salt1 \<noteq> 40
               then Inl (ErrorRpc 400 ''NEW_SALT_INVALID'')
               else Inr (pw\<lparr>pw_password := Some h, pw_hint := new_hint new, pw_salt1 := salt1\<rparr>))"

end
