(* ===== verification/RateLimit.thy ===== *)
theory RateLimit
  imports Complex_Main PyText
begin

text \<open>
  The limits on sending and trying login codes (\<^verbatim>\<open>piltover/app/utils/auth_rate_limit.py\<close>). The cache
  holds a value with the moment it expires; its keys are the prefixes of the source with what follows
  them. Both clocks, that of the entries and that of the expiry, are the one parameter \<open>now\<close>.
\<close>

section \<open>The cache\<close>

datatype rl_key =
    SendLast string
  | SendByIp string
  | SendByKey int
  | FailByIp string
  | FailByKey int
  | Shadow string

type_synonym rl_cache = "rl_key \<Rightarrow> (int \<times> real) option"

definition cache_get :: "real \<Rightarrow> rl_key \<Rightarrow> rl_cache \<Rightarrow> int option" where
  "cache_get now k c = (case c k of None \<Rightarrow> None | Some (v, expires) \<Rightarrow> if now < expires then Some v else None)"

definition cache_set :: "real \<Rightarrow> rl_key \<Rightarrow> int \<Rightarrow> int \<Rightarrow> rl_cache \<Rightarrow> rl_cache" where
  "cache_set now k v ttl c = c(k \<mapsto> (v, now + real_of_int ttl))"

record rl_cfg =
  rl_enabled :: bool
  send_min_interval :: int
  send_per_ip_limit :: int
  send_per_ip_window :: int
  send_per_key_limit :: int
  send_per_key_window :: int
  fail_limit :: int
  fail_window :: int
  shadow_threshold :: int
  shadow_duration :: int

section \<open>Operations\<close>

definition flood_wait :: "int \<Rightarrow> py_error" where
  "flood_wait seconds = ErrorRpc 420 (''FLOOD_WAIT_'' @ int_str (max seconds 1))"

definition bump_counter :: "real \<Rightarrow> rl_key \<Rightarrow> int \<Rightarrow> rl_cache \<Rightarrow> int \<times> rl_cache" where
  "bump_counter now k window c =
     (let v = (case cache_get now k c of None \<Rightarrow> 1 | Some n \<Rightarrow> n + 1) in (v, cache_set now k v window c))"

definition seconds_until :: "real \<Rightarrow> rl_key \<Rightarrow> int \<Rightarrow> rl_cache \<Rightarrow> int option" where
  "seconds_until now k min_interval c =
     (case cache_get now k c of
        None \<Rightarrow> None
      | Some sent \<Rightarrow> let elapsed = \<lfloor>now\<rfloor> - sent in if elapsed < min_interval then Some (min_interval - elapsed) else None)"

definition at_limit :: "real \<Rightarrow> rl_key \<Rightarrow> int \<Rightarrow> rl_cache \<Rightarrow> bool" where
  "at_limit now k limit c = (case cache_get now k c of None \<Rightarrow> False | Some n \<Rightarrow> n \<ge> limit)"

definition check_send_code_allowed :: "rl_cfg \<Rightarrow> real \<Rightarrow> string \<Rightarrow> int option \<Rightarrow> rl_cache \<Rightarrow> unit res" where
  "check_send_code_allowed cfg now ip key c =
     (if \<not> rl_enabled cfg then Inr ()
      else case (if send_min_interval cfg > 0 then seconds_until now (SendLast ip) (send_min_interval cfg) c else None) of
        Some wait \<Rightarrow> Inl (flood_wait wait)
      | None \<Rightarrow>
          if at_limit now (SendByIp ip) (send_per_ip_limit cfg) c then Inl (flood_wait (send_min_interval cfg))
          else if (case key of None \<Rightarrow> False | Some k \<Rightarrow> at_limit now (SendByKey k) (send_per_key_limit cfg) c)
          then Inl (flood_wait (send_min_interval cfg))
          else Inr ())"

definition record_send_code :: "rl_cfg \<Rightarrow> real \<Rightarrow> string \<Rightarrow> int option \<Rightarrow> rl_cache \<Rightarrow> rl_cache" where
  "record_send_code cfg now ip key c =
     (if \<not> rl_enabled cfg then c
      else let c1 = cache_set now (SendLast ip) \<lfloor>now\<rfloor> (send_per_ip_window cfg) c;
               c2 = snd (bump_counter now (SendByIp ip) (send_per_ip_window cfg) c1)
           in case key of None \<Rightarrow> c2 | Some k \<Rightarrow> snd (bump_counter now (SendByKey k) (send_per_key_window cfg) c2))"

definition is_shadow_banned :: "rl_cfg \<Rightarrow> real \<Rightarrow> string \<Rightarrow> rl_cache \<Rightarrow> bool" where
  "is_shadow_banned cfg now ip c = (rl_enabled cfg \<and> cache_get now (Shadow ip) c \<noteq> None)"

definition failures_of :: "real \<Rightarrow> string \<Rightarrow> int option \<Rightarrow> rl_cache \<Rightarrow> int" where
  "failures_of now ip key c =
     (let n = (case cache_get now (FailByIp ip) c of None \<Rightarrow> 0 | Some n \<Rightarrow> max 0 n)
      in case key of None \<Rightarrow> n
         | Some k \<Rightarrow> (case cache_get now (FailByKey k) c of None \<Rightarrow> n | Some m \<Rightarrow> max n m))"

definition check_sign_in_allowed :: "rl_cfg \<Rightarrow> real \<Rightarrow> string \<Rightarrow> int option \<Rightarrow> rl_cache \<Rightarrow> unit res" where
  "check_sign_in_allowed cfg now ip key c =
     (if \<not> rl_enabled cfg then Inr ()
      else if is_shadow_banned cfg now ip c then Inl (ErrorRpc 400 ''PHONE_CODE_INVALID'')
      else let n = failures_of now ip key c in
           if n \<ge> fail_limit cfg then Inl (flood_wait (min 600 (60 * (n - fail_limit cfg + 1)))) else Inr ())"

definition record_sign_in_failure :: "rl_cfg \<Rightarrow> real \<Rightarrow> string \<Rightarrow> int option \<Rightarrow> rl_cache \<Rightarrow> rl_cache" where
  "record_sign_in_failure cfg now ip key c =
     (if \<not> rl_enabled cfg then c
      else let (ip_failures, c1) = bump_counter now (FailByIp ip) (fail_window cfg) c;
               (key_failures, c2) = (case key of None \<Rightarrow> (0, c1) | Some k \<Rightarrow> bump_counter now (FailByKey k) (fail_window cfg) c1)
           in if max ip_failures key_failures \<ge> shadow_threshold cfg
              then cache_set now (Shadow ip) 1 (shadow_duration cfg) c2 else c2)"

definition clear_sign_in_failures :: "rl_cfg \<Rightarrow> string \<Rightarrow> int option \<Rightarrow> rl_cache \<Rightarrow> rl_cache" where
  "clear_sign_in_failures cfg ip key c =
     (if \<not> rl_enabled cfg then c
      else let c1 = c(FailByIp ip := None) in case key of None \<Rightarrow> c1 | Some k \<Rightarrow> c1(FailByKey k := None))"

end
