(* ===== verification/Login.thy ===== *)
theory Login
  imports Srp RateLimit
begin

text \<open>
  Signing in (\<^verbatim>\<open>piltover/app/handlers/auth.py\<close>, \<^verbatim>\<open>piltover/db/models/sentcode.py\<close>, \<^verbatim>\<open>qr_login.py\<close>,
  \<^verbatim>\<open>user_authorization.py\<close>): login codes, the password after the code, new accounts, login by QR code,
  bots, logging out. The tables are the state; identifiers are counted by the database, what is random
  or read from the clock comes with the environment of a request. Messages and updates to clients are
  left out, and of a new account the rows other theories keep (privacy rules, state, peer).
\<close>

section \<open>Rows\<close>

datatype code_purpose = SIGNIN | SIGNUP | CHANGE_NUMBER | CANCEL_ACCOUNT_DELETION

record sent_code =
  sc_id :: int
  sc_phone_number :: string
  sc_code :: int
  sc_hash :: int
  sc_expires_at :: int
  sc_used :: bool
  sc_purpose :: code_purpose

text \<open>A user, with the nonce of its token when it is a bot.\<close>

record account =
  ac_id :: int
  ac_phone_number :: "string option"
  ac_first_name :: string
  ac_last_name :: "string option"
  ac_admin :: bool
  ac_deleted :: bool
  ac_token_nonce :: "string option"

record authorization =
  au_id :: int
  au_user :: int
  au_key :: int
  au_mfa_pending :: bool
  au_created_at :: real

record qr_login =
  qr_id :: int
  qr_key :: int
  qr_nonce :: int
  qr_created_at :: real
  qr_auth :: "int option"

record login_db =
  lg_codes :: "sent_code list"
  lg_accounts :: "account list"
  lg_passwords :: "int \<Rightarrow> user_password option"
  lg_srp_sessions :: "int \<Rightarrow> srp_session list"
  lg_auths :: "authorization list"
  lg_qr_logins :: "qr_login list"
  lg_limits :: rl_cache
  lg_banned_phones :: "string set"
  lg_perm_keys :: "int set"
  lg_next_id :: int

text \<open>The context of a request, and what is drawn or read while it is served.\<close>

record login_ctx =
  lc_ip :: string
  lc_auth_key_id :: "int option"
  lc_perm_key :: "int option"
  lc_auth :: "int option"
  lc_user :: "int option"

record login_env =
  le_now :: real
  le_code :: int
  le_uuid :: int
  le_nonce :: int
  le_salt1 :: "byte list"
  le_salt2 :: "byte list"
  le_priv_b :: "byte list"
  le_cfg :: rl_cfg
  le_crypto :: crypto
  le_notified :: bool

type_synonym 'a login = "('a, login_db) act"

definition le_require :: "bool \<Rightarrow> int \<Rightarrow> string \<Rightarrow> unit login" where
  "le_require b code m = (if b then sreturn () else sraise (ErrorRpc code m))"

text \<open>\<open>get_or_none\<close>: more than one match is an error.\<close>

definition get_or_none :: "('r \<Rightarrow> bool) \<Rightarrow> 'r list \<Rightarrow> 'r option res" where
  "get_or_none P rows = (case filter P rows of [] \<Rightarrow> Inr None | [r] \<Rightarrow> Inr (Some r) | _ \<Rightarrow> Inl OtherError)"

section \<open>Phone numbers and codes\<close>

text \<open>\<open>str.isdigit\<close> also holds of the superscripts, which \<open>int\<close> refuses.\<close>

definition isdigit :: "char \<Rightarrow> bool" where
  "isdigit c \<longleftrightarrow> is_digit c \<or> (of_char c :: nat) \<in> {178, 179, 185}"

definition validate_phone :: "string \<Rightarrow> string res" where
  "validate_phone s =
     (let p = filter isdigit s in
      case int_of_text p of
        Inl _ \<Rightarrow> Inl (ErrorRpc 406 ''PHONE_NUMBER_INVALID'')
      | Inr n \<Rightarrow> if n < 100000 then Inl (ErrorRpc 406 ''PHONE_NUMBER_INVALID'') else Inr p)"

definition CODE_HASH_SIZE :: nat where
  "CODE_HASH_SIZE = 48"

definition gen_code_expires_at :: "real \<Rightarrow> int" where
  "gen_code_expires_at now = \<lfloor>now\<rfloor> + 5 * 60"

definition phone_code_hash :: "sent_code \<Rightarrow> string res" where
  "phone_code_hash c = rbind (Int_write TLong True (sc_id c)) (\<lambda>b. Inr (bytes_hex b @ uuid_hex (sc_hash c)))"

definition parse_code_hash :: "string \<Rightarrow> (int \<times> int) res" where
  "parse_code_hash h =
     rbind (bytes_fromhex (take 16 h)) (\<lambda>b.
     rbind (Int_read_bytes TLong b True) (\<lambda>i.
     rbind (uuid_of (drop 16 h)) (\<lambda>u. Inr (i, u))))"

definition get_code :: "string \<Rightarrow> string \<Rightarrow> code_purpose option \<Rightarrow> sent_code option login" where
  "get_code number h purpose =
     sbind (slift (parse_code_hash h)) (\<lambda>(i, u) db.
       (get_or_none (\<lambda>c. sc_id c = i \<and> sc_hash c = u \<and> sc_phone_number c = number \<and> \<not> sc_used c
          \<and> (case purpose of None \<Rightarrow> True | Some p \<Rightarrow> sc_purpose c = p)) (lg_codes db), db))"

definition delete_code :: "sent_code \<Rightarrow> unit login" where
  "delete_code c = supd (\<lambda>db. db\<lparr>lg_codes := filter (\<lambda>d. sc_id d \<noteq> sc_id c) (lg_codes db)\<rparr>)"

definition save_code :: "sent_code \<Rightarrow> unit login" where
  "save_code c = supd (\<lambda>db. db\<lparr>lg_codes := map (\<lambda>d. if sc_id d = sc_id c then c else d) (lg_codes db)\<rparr>)"

text \<open>\<open>check_raise\<close>: an expired code is deleted.\<close>

definition check_code :: "real \<Rightarrow> string option \<Rightarrow> sent_code \<Rightarrow> sent_code login" where
  "check_code now given c =
     sbind (slift (case given of None \<Rightarrow> Inr (sc_code c) | Some s \<Rightarrow> int_of_text s)) (\<lambda>n.
       sthen (le_require (sc_code c = n) 400 ''PHONE_CODE_INVALID'')
         (if real_of_int (sc_expires_at c) < now
          then sthen (delete_code c) (sraise (ErrorRpc 400 ''PHONE_CODE_EXPIRED'')) else sreturn c))"

definition check_code_cls :: "real \<Rightarrow> sent_code option \<Rightarrow> sent_code login" where
  "check_code_cls now c =
     (case c of None \<Rightarrow> sraise (ErrorRpc 400 ''PHONE_CODE_INVALID'') | Some c \<Rightarrow> check_code now None c)"

text \<open>A phone number of more than 20 digits does not fit the column.\<close>

definition create_code :: "login_env \<Rightarrow> string \<Rightarrow> sent_code login" where
  "create_code E number = (\<lambda>db.
     if length number > 20 then (Inl OtherError, db)
     else let c = \<lparr>sc_id = lg_next_id db, sc_phone_number = number, sc_code = le_code E, sc_hash = le_uuid E,
              sc_expires_at = gen_code_expires_at (le_now E), sc_used = False, sc_purpose = SIGNIN\<rparr>
          in (Inr c, db\<lparr>lg_codes := lg_codes db @ [c], lg_next_id := lg_next_id db + 1\<rparr>))"

section \<open>Looking up and storing\<close>

definition user_by_phone :: "string \<Rightarrow> login_db \<Rightarrow> account option" where
  "user_by_phone p db = find (\<lambda>a. ac_phone_number a = Some p) (lg_accounts db)"

definition get_or_create_password :: "login_env \<Rightarrow> int \<Rightarrow> user_password login" where
  "get_or_create_password E u = (\<lambda>db.
     case lg_passwords db u of
       Some p \<Rightarrow> (Inr p, db)
     | None \<Rightarrow> (let p = \<lparr>pw_salt1 = le_salt1 E, pw_salt2 = le_salt2 E, pw_password = None, pw_hint = None\<rparr>
                in (Inr p, db\<lparr>lg_passwords := (lg_passwords db)(u \<mapsto> p)\<rparr>)))"

definition perm_key_of :: "login_ctx \<Rightarrow> int login" where
  "perm_key_of x = (\<lambda>db. case lc_perm_key x of
     None \<Rightarrow> (Inl OtherError, db)
   | Some k \<Rightarrow> if k \<in> lg_perm_keys db then (Inr k, db) else (Inl OtherError, db))"

text \<open>With the authorizations go the QR logins that refer to them.\<close>

definition delete_auths :: "(authorization \<Rightarrow> bool) \<Rightarrow> unit login" where
  "delete_auths P = supd (\<lambda>db.
     let gone = au_id ` set (filter P (lg_auths db)) in
     db\<lparr>lg_auths := filter (\<lambda>a. \<not> P a) (lg_auths db),
        lg_qr_logins := filter (\<lambda>q. \<not> (\<exists>i. qr_auth q = Some i \<and> i \<in> gone)) (lg_qr_logins db)\<rparr>)"

text \<open>A key has at most one authorization.\<close>

definition create_auth :: "login_env \<Rightarrow> int \<Rightarrow> int \<Rightarrow> bool \<Rightarrow> authorization login" where
  "create_auth E u k mfa = (\<lambda>db.
     if \<exists>a \<in> set (lg_auths db). au_key a = k then (Inl IntegrityError, db)
     else let a = \<lparr>au_id = lg_next_id db, au_user = u, au_key = k, au_mfa_pending = mfa, au_created_at = le_now E\<rparr>
          in (Inr a, db\<lparr>lg_auths := lg_auths db @ [a], lg_next_id := lg_next_id db + 1\<rparr>))"

definition get_auth :: "(authorization \<Rightarrow> bool) \<Rightarrow> authorization login" where
  "get_auth P = (\<lambda>db. case filter P (lg_auths db) of [a] \<Rightarrow> (Inr a, db) | _ \<Rightarrow> (Inl OtherError, db))"

definition with_limits :: "(rl_cache \<Rightarrow> rl_cache) \<Rightarrow> unit login" where
  "with_limits f = supd (\<lambda>db. db\<lparr>lg_limits := f (lg_limits db)\<rparr>)"

definition ask_limits :: "(rl_cache \<Rightarrow> unit res) \<Rightarrow> unit login" where
  "ask_limits f = (\<lambda>db. (f (lg_limits db), db))"

section \<open>Sending a code\<close>

datatype code_place = SentBySms | SentByApp

definition send_or_resend_code :: "login_env \<Rightarrow> login_ctx \<Rightarrow> string \<Rightarrow> string option \<Rightarrow> (string \<times> code_place) login" where
  "send_or_resend_code E x phone given =
     sbind (slift (validate_phone phone)) (\<lambda>p.
     sbind (sget lg_banned_phones) (\<lambda>banned.
     sthen (le_require (p \<notin> banned) 400 ''PHONE_NUMBER_BANNED'')
    (sthen (ask_limits (check_send_code_allowed (le_cfg E) (le_now E) (lc_ip x) (lc_auth_key_id x)))
    (sbind
      (case given of
         None \<Rightarrow> create_code E p
       | Some h \<Rightarrow>
           sthen (le_require (length h = CODE_HASH_SIZE) 400 ''PHONE_CODE_EMPTY'')
          (sbind (get_code p h None) (\<lambda>found.
           sbind (check_code_cls (le_now E) found) (\<lambda>c.
             let c' = c\<lparr>sc_code := le_code E, sc_hash := le_uuid E, sc_expires_at := gen_code_expires_at (le_now E)\<rparr>
             in sthen (save_code c') (sreturn c')))))
      (\<lambda>c. sthen (with_limits (record_send_code (le_cfg E) (le_now E) (lc_ip x) (lc_auth_key_id x)))
        (sbind (slift (phone_code_hash c)) (\<lambda>h.
         sbind (sget (user_by_phone p)) (\<lambda>user.
           sreturn (h, if user \<noteq> None \<and> le_notified E then SentByApp else SentBySms)))))))))"

definition cancel_code :: "login_env \<Rightarrow> string \<Rightarrow> string \<Rightarrow> bool login" where
  "cancel_code E phone h =
     sbind (slift (validate_phone phone)) (\<lambda>p.
     sthen (le_require (length h = CODE_HASH_SIZE) 400 ''PHONE_CODE_INVALID'')
    (sbind (get_code p h None) (\<lambda>found.
     sbind (check_code_cls (le_now E) found) (\<lambda>c.
     sthen (delete_code c) (sreturn True)))))"

section \<open>Signing in and up\<close>

datatype sign_in_reply = LoggedIn int | SignUpRequired

definition is_rpc_error :: "py_error \<Rightarrow> bool" where
  "is_rpc_error e = (case e of ErrorRpc _ _ \<Rightarrow> True | _ \<Rightarrow> False)"

text \<open>The comparison of the code; a failure is counted, unless it is no error of the interface.\<close>

definition try_code :: "login_env \<Rightarrow> login_ctx \<Rightarrow> string \<Rightarrow> sent_code option \<Rightarrow> sent_code login" where
  "try_code E x given found =
     (case found of
        None \<Rightarrow> sthen (with_limits (record_sign_in_failure (le_cfg E) (le_now E) (lc_ip x) (lc_auth_key_id x)))
                  (sraise (ErrorRpc 400 ''PHONE_CODE_INVALID''))
      | Some c \<Rightarrow>
          (\<lambda>db. case check_code (le_now E) (Some given) c db of
             (Inl e, db1) \<Rightarrow>
               if is_rpc_error e
               then sthen (with_limits (record_sign_in_failure (le_cfg E) (le_now E) (lc_ip x) (lc_auth_key_id x)))
                      (sraise e) db1
               else (Inl e, db1)
           | (Inr c, db1) \<Rightarrow> (Inr c, db1)))"

text \<open>The authorization a user gets after the code: pending when there is a password.\<close>

definition authorize :: "login_env \<Rightarrow> login_ctx \<Rightarrow> int \<Rightarrow> sign_in_reply login" where
  "authorize E x u =
     sbind (get_or_create_password E u) (\<lambda>pw.
     sbind (perm_key_of x) (\<lambda>k.
     sthen (delete_auths (\<lambda>a. au_key a = k))
    (sbind (create_auth E u k (pw_password pw \<noteq> None)) (\<lambda>a.
     sthen (le_require (pw_password pw = None) 401 ''SESSION_PASSWORD_NEEDED'')
       (sreturn (LoggedIn u))))))"

definition sign_in :: "login_env \<Rightarrow> login_ctx \<Rightarrow> string \<Rightarrow> string \<Rightarrow> string option \<Rightarrow> sign_in_reply login" where
  "sign_in E x phone h given =
     sthen (le_require (length h = CODE_HASH_SIZE) 400 ''PHONE_CODE_INVALID'')
    (case given of
       None \<Rightarrow> sraise (ErrorRpc 400 ''PHONE_CODE_EMPTY'')
     | Some code \<Rightarrow>
         sbind (slift (validate_phone phone)) (\<lambda>p.
         sthen (ask_limits (check_sign_in_allowed (le_cfg E) (le_now E) (lc_ip x) (lc_auth_key_id x)))
        (sthen (slift (case int_of_text code of Inl _ \<Rightarrow> Inl (ErrorRpc 406 ''PHONE_CODE_INVALID'') | Inr _ \<Rightarrow> Inr ()))
        (sbind (get_code p h (Some SIGNIN)) (\<lambda>found.
         sbind (try_code E x code found) (\<lambda>c.
         sthen (save_code (c\<lparr>sc_used := False, sc_expires_at := gen_code_expires_at (le_now E), sc_purpose := SIGNUP\<rparr>))
        (sthen (with_limits (clear_sign_in_failures (le_cfg E) (lc_ip x) (lc_auth_key_id x)))
        (sbind (sget (user_by_phone p)) (\<lambda>user.
           case user of None \<Rightarrow> sreturn SignUpRequired | Some a \<Rightarrow> authorize E x (ac_id a))))))))))"

definition create_account :: "string \<Rightarrow> string \<Rightarrow> string option \<Rightarrow> int login" where
  "create_account p first last_name = (\<lambda>db.
     if length p > 20 then (Inl OtherError, db)
     else let u = lg_next_id db;
              make_admin = \<not> (\<exists>a \<in> set (lg_accounts db). ac_admin a \<and> \<not> ac_deleted a)
          in (Inr u, db\<lparr>lg_accounts := lg_accounts db @ [\<lparr>ac_id = u, ac_phone_number = Some p, ac_first_name = first,
                ac_last_name = last_name, ac_admin = make_admin, ac_deleted = False, ac_token_nonce = None\<rparr>],
              lg_next_id := u + 1\<rparr>))"

text \<open>The account is stored before its authorization, which is refused when the key has one.\<close>

definition register :: "login_env \<Rightarrow> login_ctx \<Rightarrow> string \<Rightarrow> string \<Rightarrow> string option \<Rightarrow> sign_in_reply login" where
  "register E x p first last_name =
     sbind (sget (user_by_phone p)) (\<lambda>user.
     sthen (le_require (user = None) 400 ''PHONE_NUMBER_OCCUPIED'')
    (sthen (le_require (first \<noteq> [] \<and> length first \<le> 128) 400 ''FIRSTNAME_INVALID'')
    (sthen (le_require (case last_name of None \<Rightarrow> True | Some l \<Rightarrow> length l \<le> 128) 400 ''LASTNAME_INVALID'')
    (sbind (create_account p first last_name) (\<lambda>u.
     sbind (perm_key_of x) (\<lambda>k.
     sbind (create_auth E u k False) (\<lambda>_. sreturn (LoggedIn u))))))))"

definition sign_up :: "login_env \<Rightarrow> login_ctx \<Rightarrow> string \<Rightarrow> string \<Rightarrow> string \<Rightarrow> string option \<Rightarrow> sign_in_reply login" where
  "sign_up E x phone h first last_name =
     sthen (le_require (length h = CODE_HASH_SIZE) 400 ''PHONE_CODE_INVALID'')
    (sbind (slift (validate_phone phone)) (\<lambda>p.
     sbind (sget lg_banned_phones) (\<lambda>banned.
     sthen (le_require (p \<notin> banned) 400 ''PHONE_NUMBER_BANNED'')
    (sbind (get_code p h (Some SIGNUP)) (\<lambda>found.
     sbind (check_code_cls (le_now E) found) (\<lambda>c.
     sthen (save_code (c\<lparr>sc_used := True\<rparr>))
       (register E x p first last_name)))))))"

section \<open>The password\<close>

definition check_user_password :: "login_env \<Rightarrow> int \<Rightarrow> user_password \<Rightarrow> password_check \<Rightarrow> unit login" where
  "check_user_password E u pw check = (\<lambda>db.
     let (r, ss) = check_password_internal (le_crypto E) \<lfloor>le_now E\<rfloor> (lg_next_id db, le_priv_b E) pw check (lg_srp_sessions db u)
     in (r, db\<lparr>lg_srp_sessions := (lg_srp_sessions db)(u := ss), lg_next_id := lg_next_id db + 1\<rparr>))"

definition check_password :: "login_env \<Rightarrow> login_ctx \<Rightarrow> password_check \<Rightarrow> sign_in_reply login" where
  "check_password E x check =
     sbind (get_auth (\<lambda>a. Some (au_id a) = lc_auth x \<and> Some (au_user a) = lc_user x)) (\<lambda>a.
       if \<not> au_mfa_pending a then sreturn (LoggedIn (au_user a))
       else sbind (get_or_create_password E (au_user a)) (\<lambda>pw.
            sthen (check_user_password E (au_user a) pw check)
           (sthen (supd (\<lambda>db. db\<lparr>lg_auths := map (\<lambda>b. if au_id b = au_id a then b\<lparr>au_mfa_pending := False\<rparr> else b) (lg_auths db)\<rparr>))
             (sreturn (LoggedIn (au_user a))))))"

text \<open>Taking the password away ends the logins that wait for it.\<close>

definition update_password_settings :: "login_env \<Rightarrow> int \<Rightarrow> password_check \<Rightarrow> password_settings \<Rightarrow> bool login" where
  "update_password_settings E u check new =
     sbind (get_or_create_password E u) (\<lambda>pw.
     sthen (check_user_password E u pw check)
    (sbind (slift (new_password new pw)) (\<lambda>pw'.
     sthen (supd (\<lambda>db. db\<lparr>lg_passwords := (lg_passwords db)(u \<mapsto> pw')\<rparr>))
    (sthen (if pw_password pw' = None then delete_auths (\<lambda>a. au_user a = u \<and> au_mfa_pending a) else sreturn ())
       (sreturn True)))))"

section \<open>QR codes, bots, logging out\<close>

datatype token_reply = TokenSuccess int | Token int "byte list"

definition EXPIRE_TIME :: int where
  "EXPIRE_TIME = 30"

definition to_token :: "qr_login \<Rightarrow> byte list res" where
  "to_token q = rbind (Int_write TLong True (qr_id q)) (\<lambda>a. rbind (Int_write TLong True (qr_nonce q)) (\<lambda>b. Inr (a @ b)))"

definition from_token :: "byte list \<Rightarrow> qr_login option login" where
  "from_token token =
     (if length token \<noteq> 16 then sreturn None
      else sbind (slift (Int_read_bytes TLong (take 8 token) True)) (\<lambda>i.
           sbind (slift (Int_read_bytes TLong (drop 8 token) True)) (\<lambda>n db.
             (get_or_none (\<lambda>q. qr_id q = i \<and> qr_nonce q = n) (lg_qr_logins db), db))))"

definition find_auth :: "int \<Rightarrow> login_db \<Rightarrow> authorization option" where
  "find_auth i db = find (\<lambda>a. au_id a = i) (lg_auths db)"

definition create_qr :: "login_env \<Rightarrow> int \<Rightarrow> qr_login login" where
  "create_qr E k = (\<lambda>db.
     let q = \<lparr>qr_id = lg_next_id db, qr_key = k, qr_nonce = le_nonce E, qr_created_at = le_now E, qr_auth = None\<rparr>
     in (Inr q, db\<lparr>lg_qr_logins := lg_qr_logins db @ [q], lg_next_id := lg_next_id db + 1\<rparr>))"

definition token_success :: "authorization \<Rightarrow> token_reply login" where
  "token_success a =
     (if au_mfa_pending a then sraise (ErrorRpc 401 ''SESSION_PASSWORD_NEEDED'') else sreturn (TokenSuccess (au_user a)))"

definition export_login_token :: "login_env \<Rightarrow> login_ctx \<Rightarrow> token_reply login" where
  "export_login_token E x =
     (case lc_auth x of
        Some i \<Rightarrow> sbind (get_auth (\<lambda>a. au_id a = i)) token_success
      | None \<Rightarrow>
          sbind (\<lambda>db. (get_or_none (\<lambda>q. Some (qr_key q) = lc_perm_key x
              \<and> (qr_created_at q > le_now E - real_of_int EXPIRE_TIME \<or> qr_auth q \<noteq> None)) (lg_qr_logins db), db)) (\<lambda>found.
          sbind (case found of Some q \<Rightarrow> sreturn q | None \<Rightarrow> sbind (perm_key_of x) (create_qr E)) (\<lambda>q.
          sbind (sget (\<lambda>db. case qr_auth q of None \<Rightarrow> None | Some i \<Rightarrow> find_auth i db)) (\<lambda>auth.
            case auth of
              Some a \<Rightarrow> token_success a
            | None \<Rightarrow> sbind (slift (to_token q)) (\<lambda>t. sreturn (Token (\<lfloor>qr_created_at q\<rfloor> + EXPIRE_TIME) t))))))"

definition accept_login_token :: "login_env \<Rightarrow> int \<Rightarrow> byte list \<Rightarrow> authorization login" where
  "accept_login_token E u token =
     sbind (from_token token) (\<lambda>found.
       case found of
         None \<Rightarrow> sraise (ErrorRpc 400 ''AUTH_TOKEN_INVALID'')
       | Some q \<Rightarrow>
           sthen (le_require (qr_auth q = None) 400 ''AUTH_TOKEN_ALREADY_ACCEPTED'')
          (sthen (le_require (\<not> qr_created_at q + real_of_int EXPIRE_TIME < le_now E) 400 ''AUTH_TOKEN_EXPIRED'')
          (sbind (get_or_create_password E u) (\<lambda>pw.
           sbind (create_auth E u (qr_key q) (pw_password pw \<noteq> None)) (\<lambda>a.
           sthen (supd (\<lambda>db. db\<lparr>lg_qr_logins := map (\<lambda>r. if qr_id r = qr_id q then r\<lparr>qr_auth := Some (au_id a)\<rparr> else r) (lg_qr_logins db)\<rparr>))
             (sreturn a))))))"

definition log_out :: "login_ctx \<Rightarrow> unit login" where
  "log_out x = delete_auths (\<lambda>a. Some (au_key a) = lc_perm_key x)"

text \<open>The result names the keys whose sessions are told.\<close>

definition reset_authorizations :: "login_env \<Rightarrow> login_ctx \<Rightarrow> int \<Rightarrow> int list login" where
  "reset_authorizations E x u =
     sbind (get_auth (\<lambda>a. Some (au_id a) = lc_auth x)) (\<lambda>this.
     sthen (le_require (\<not> au_created_at this + 86400 > le_now E) 406 ''FRESH_RESET_AUTHORISATION_FORBIDDEN'')
    (sbind (sget (\<lambda>db. filter (\<lambda>a. au_user a = u \<and> au_id a \<noteq> au_id this) (lg_auths db))) (\<lambda>others.
     sthen (delete_auths (\<lambda>a. au_id a \<in> au_id ` set others))
       (sreturn (map au_key others)))))"

definition import_bot_authorization :: "login_env \<Rightarrow> login_ctx \<Rightarrow> string \<Rightarrow> sign_in_reply login" where
  "import_bot_authorization E x token =
     (case py_split (CHR '':'') token of
        [bot_id, nonce] \<Rightarrow>
          if bot_id = [] \<or> \<not> list_all isdigit bot_id then sraise (ErrorRpc 400 ''ACCESS_TOKEN_INVALID'')
          else sbind (slift (int_of_text bot_id)) (\<lambda>i.
               sbind (sget (\<lambda>db. find (\<lambda>a. ac_id a = i \<and> ac_token_nonce a = Some nonce) (lg_accounts db))) (\<lambda>user.
                 case user of
                   None \<Rightarrow> sraise (ErrorRpc 400 ''ACCESS_TOKEN_INVALID'')
                 | Some a \<Rightarrow>
                     sbind (perm_key_of x) (\<lambda>k.
                     sthen (delete_auths (\<lambda>b. au_key b = k))
                    (sbind (create_auth E (ac_id a) k False) (\<lambda>_. sreturn (LoggedIn (ac_id a)))))))
      | _ \<Rightarrow> sraise (ErrorRpc 400 ''ACCESS_TOKEN_INVALID''))"

end
