(* ===== verification/SrpFacts.thy ===== *)
theory SrpFacts
  imports Srp KeyGenFacts
begin

text \<open>
  What two-step verification promises and what it does not: a client that knows the password computes
  the server's key and passes; a client that sends a share divisible by the prime passes as well.
\<close>

section \<open>The documented client\<close>

text \<open>
  With its password hashed to \<open>x\<close> and its secret \<open>a\<close>: the verifier it registers, its share, and the key
  it computes from the share \<open>B\<close> of the server.
\<close>

definition srp_verifier :: "int \<Rightarrow> byte list res" where
  "srp_verifier x = (let (p, g) = gen_safe_prime in itob (powmod g x p))"

definition srp_client_share :: "int \<Rightarrow> byte list res" where
  "srp_client_share a = (let (p, g) = gen_safe_prime in itob (powmod g a p))"

definition srp_client_key :: "crypto \<Rightarrow> int \<Rightarrow> int \<Rightarrow> byte list \<Rightarrow> byte list \<Rightarrow> int res" where
  "srp_client_key C x a A B =
     (let (p, g) = gen_safe_prime; u = btoi (sha256 C (A @ B)) in
      rbind (SRP_K C) (\<lambda>k. Inr (powmod ((btoi B - k * powmod g x p) mod p) (a + u * x) p)))"

section \<open>Numbers\<close>

lemma btoi_nonneg [simp]: "0 \<le> btoi b"
  by (simp add: btoi_def py_from_bytes_be_def)

lemma btoi_itob: "itob i = Inr b \<Longrightarrow> btoi b = i"
  by (simp add: itob_def btoi_def py_from_to_bytes_be)

lemma dh_prime_fits: "CURRENT_DH_PRIME < 256 ^ 256"
  by (simp add: CURRENT_DH_PRIME_def)

lemma itob_small: "0 \<le> i \<Longrightarrow> i \<le> CURRENT_DH_PRIME \<Longrightarrow> \<exists>b. itob i = Inr b"
  using dh_prime_fits by (simp add: itob_def py_to_bytes_be_def py_to_bytes_le_def int_fits_def rbind_def)

lemma powmod_range [simp]: "0 \<le> powmod b e CURRENT_DH_PRIME" "powmod b e CURRENT_DH_PRIME < CURRENT_DH_PRIME"
  "powmod b e CURRENT_DH_PRIME \<le> CURRENT_DH_PRIME"
  using dh_prime_gt by (simp_all add: powmod_def less_imp_le)

lemma itob_powmod: "\<exists>b'. itob (powmod b e CURRENT_DH_PRIME) = Inr b'"
  by (rule itob_small) simp_all

lemma srp_k_ok: "\<exists>k. SRP_K C = Inr k"
proof -
  obtain pb gb where "itob CURRENT_DH_PRIME = Inr pb" "itob 3 = Inr gb"
    using itob_small [of CURRENT_DH_PRIME] itob_small [of 3] dh_prime_gt by (fastforce simp: CURRENT_DH_PRIME_def)
  then show ?thesis by (simp add: SRP_K_def dh_group rbind_def)
qed

lemma pub_B_ok: "\<exists>B. pub_B C v s = Inr B"
proof -
  obtain k where k: "SRP_K C = Inr k" using srp_k_ok by blast
  let ?e = "(k * btoi v + powmod 3 (btoi (srp_priv_b s)) CURRENT_DH_PRIME) mod CURRENT_DH_PRIME"
  have "0 \<le> ?e" "?e \<le> CURRENT_DH_PRIME" using dh_prime_gt by (simp_all add: less_imp_le)
  then have "\<exists>B. itob ?e = Inr B" by (rule itob_small)
  then show ?thesis using k by (auto simp: pub_B_def dh_group rbind_def)
qed

lemma srp_message_ok: "0 \<le> i \<Longrightarrow> i \<le> CURRENT_DH_PRIME \<Longrightarrow> \<exists>M. srp_message C pw A B i = Inr M"
proof -
  assume i: "0 \<le> i" "i \<le> CURRENT_DH_PRIME"
  obtain sb where "itob i = Inr sb" using itob_small [OF i] by blast
  moreover obtain pb gb where "itob CURRENT_DH_PRIME = Inr pb" "itob 3 = Inr gb"
    using itob_small [of CURRENT_DH_PRIME] itob_small [of 3] dh_prime_gt by (fastforce simp: CURRENT_DH_PRIME_def)
  ultimately show ?thesis by (simp add: srp_message_def dh_group rbind_def)
qed

section \<open>Both sides agree\<close>

lemma powmod_collect:
  fixes g p :: int
  assumes "0 \<le> a" "0 \<le> x" "0 \<le> u"
  shows "powmod (powmod g a p * powmod (powmod g x p) u p) b p = powmod (powmod g b p) (a + u * x) p"
proof -
  have n: "nat (a + u * x) = nat a + nat x * nat u"
    using assms by (simp add: nat_add_distrib nat_mult_distrib mult.commute)
  have "powmod (powmod g a p * powmod (powmod g x p) u p) b p = (g ^ nat a * (g ^ nat x) ^ nat u) ^ nat b mod p"
    unfolding powmod_def by (metis (no_types) mod_mult_eq power_mod)
  also have "\<dots> = (g ^ nat b) ^ (nat a + nat x * nat u) mod p"
    by (simp add: power_add [symmetric] power_mult [symmetric] mult.commute)
  also have "\<dots> = powmod (powmod g b p) (a + u * x) p"
    unfolding powmod_def n by (simp add: mod_simps)
  finally show ?thesis .
qed

lemma srp_agree:
  assumes "0 \<le> a" "0 \<le> x" "srp_verifier x = Inr v" "srp_client_share a = Inr A" "pub_B C v s = Inr B"
  shows "srp_client_key C x a A B = Inr (srp_server_key C v s A B)"
proof -
  let ?p = CURRENT_DH_PRIME and ?b = "btoi (srp_priv_b s)" and ?u = "btoi (sha256 C (A @ B))"
  obtain k where k: "SRP_K C = Inr k" using srp_k_ok by blast
  have v: "btoi v = powmod 3 x ?p" and A: "btoi A = powmod 3 a ?p"
    using assms(3,4) by (simp_all add: srp_verifier_def srp_client_share_def dh_group btoi_itob)
  have B: "btoi B = (k * powmod 3 x ?p + powmod 3 ?b ?p) mod ?p"
    using assms(5) k v by (simp add: pub_B_def dh_group rbind_def btoi_itob)
  have "(btoi B - k * powmod 3 x ?p) mod ?p = (k * powmod 3 x ?p + powmod 3 ?b ?p - k * powmod 3 x ?p) mod ?p"
    unfolding B by (rule mod_diff_left_eq)
  also have "\<dots> = powmod 3 ?b ?p" by (simp add: powmod_def)
  finally have "srp_client_key C x a A B = Inr (powmod (powmod 3 ?b ?p) (a + ?u * x) ?p)"
    by (simp add: srp_client_key_def dh_group k rbind_def)
  moreover have "srp_server_key C v s A B = powmod (powmod 3 ?b ?p) (a + ?u * x) ?p"
    using powmod_collect [of a x ?u 3 ?p ?b] assms(1,2) by (simp add: srp_server_key_def dh_group v A)
  ultimately show ?thesis by simp
qed

section \<open>The check\<close>

lemma check_password_eval:
  assumes "pw_password pw = Some v" "get_srp_session now fresh ss = (Inr s, ss')" "pub_B C v s = Inr B"
  shows "fst (check_password_internal C now fresh pw (CheckSRP (srp_session_id s) A M) ss) = Inr () \<longleftrightarrow>
    srp_message C pw A B (srp_server_key C v s A B) = Inr M"
proof -
  obtain M2 where "srp_message C pw A B (srp_server_key C v s A B) = Inr M2"
    using srp_message_ok [of "srp_server_key C v s A B" C pw A B] by (auto simp: srp_server_key_def dh_group)
  then show ?thesis using assms by (auto simp: check_password_internal_def rbind_def)
qed

text \<open>Somebody who knows the hashed password is let in.\<close>

lemma password_holder_passes:
  assumes "0 \<le> a" "0 \<le> x" "srp_verifier x = Inr v" "pw_password pw = Some v"
    and "get_srp_session now fresh ss = (Inr s, ss')" "srp_client_share a = Inr A" "pub_B C v s = Inr B"
    and "srp_client_key C x a A B = Inr S" "srp_message C pw A B S = Inr M"
  shows "fst (check_password_internal C now fresh pw (CheckSRP (srp_session_id s) A M) ss) = Inr ()"
  using srp_agree [OF assms(1-3,6,7)] check_password_eval [OF assms(4,5,7), of A M] assms(8,9) by simp

text \<open>So is everybody who sends a share that is 0 modulo the prime: the key is 0 whatever the password.\<close>

lemma zero_share_key:
  assumes "btoi A mod CURRENT_DH_PRIME = 0" "btoi (srp_priv_b s) \<noteq> 0"
  shows "srp_server_key C v s A B = 0"
proof -
  have "0 < nat (btoi (srp_priv_b s))" using assms(2) btoi_nonneg [of "srp_priv_b s"] by linarith
  moreover have "CURRENT_DH_PRIME dvd btoi A" using assms(1) by auto
  ultimately have "CURRENT_DH_PRIME dvd (btoi A * z) ^ nat (btoi (srp_priv_b s))" for z
    by (meson dvd_mult2 dvd_power dvd_trans)
  then show ?thesis by (simp add: srp_server_key_def dh_group powmod_def)
qed

lemma zero_share_passes:
  assumes "pw_password pw = Some v" "get_srp_session now fresh ss = (Inr s, ss')" "pub_B C v s = Inr B"
    and "btoi A mod CURRENT_DH_PRIME = 0" "btoi (srp_priv_b s) \<noteq> 0" "srp_message C pw A B 0 = Inr M"
  shows "fst (check_password_internal C now fresh pw (CheckSRP (srp_session_id s) A M) ss) = Inr ()"
  using check_password_eval [OF assms(1-3), of A M] zero_share_key [OF assms(4,5)] assms(6) by simp

end
