(* ===== verification/RateLimitFacts.thy ===== *)
theory RateLimitFacts
  imports RateLimit
begin

text \<open>
  The counters of the limits: what one recorded event adds, what is left alone, and what an allowed
  request says of the counters.
\<close>

definition count_at :: "real \<Rightarrow> rl_key \<Rightarrow> rl_cache \<Rightarrow> int" where
  "count_at now k c = (case cache_get now k c of None \<Rightarrow> 0 | Some n \<Rightarrow> n)"

lemma cache_get_set [simp]:
  "cache_get t' k (cache_set t k v ttl c) = (if t' < t + real_of_int ttl then Some v else None)"
  "k' \<noteq> k \<Longrightarrow> cache_get t' k' (cache_set t k v ttl c) = cache_get t' k' c"
  by (simp_all add: cache_get_def cache_set_def)

lemma bump_eq: "bump_counter t k w c = (count_at t k c + 1, cache_set t k (count_at t k c + 1) w c)"
  by (simp add: bump_counter_def count_at_def Let_def split: option.split)

lemma count_at_set [simp]:
  "count_at t' k (cache_set t k v ttl c) = (if t' < t + real_of_int ttl then v else 0)"
  "k' \<noteq> k \<Longrightarrow> count_at t' k' (cache_set t k v ttl c) = count_at t' k' c"
  by (simp_all add: count_at_def)

section \<open>Sending\<close>

lemma record_send_get:
  assumes "rl_enabled cfg"
  shows "count_at t' (SendByIp ip) (record_send_code cfg t ip key c)
      = (if t' < t + real_of_int (send_per_ip_window cfg) then count_at t (SendByIp ip) c + 1 else 0)"
    "cache_get t' (SendLast ip) (record_send_code cfg t ip key c)
      = (if t' < t + real_of_int (send_per_ip_window cfg) then Some \<lfloor>t\<rfloor> else None)"
    "k \<notin> {SendLast ip, SendByIp ip} \<Longrightarrow> (\<And>i. key = Some i \<Longrightarrow> k \<noteq> SendByKey i)
      \<Longrightarrow> cache_get t' k (record_send_code cfg t ip key c) = cache_get t' k c"
  using assms by (auto simp: record_send_code_def bump_eq Let_def split: option.split)

lemma send_allowed:
  assumes "rl_enabled cfg" "check_send_code_allowed cfg t ip key c = Inr ()" "0 < send_per_ip_limit cfg"
  shows "count_at t (SendByIp ip) c < send_per_ip_limit cfg"
    "0 < send_min_interval cfg \<Longrightarrow> cache_get t (SendLast ip) c = Some s \<Longrightarrow> s + send_min_interval cfg \<le> \<lfloor>t\<rfloor>"
  using assms
  by (auto simp: check_send_code_allowed_def at_limit_def count_at_def seconds_until_def Let_def split: option.splits if_splits)

section \<open>Trying\<close>

lemma record_failure_get:
  assumes "rl_enabled cfg"
  shows "count_at t' (FailByIp ip) (record_sign_in_failure cfg t ip key c)
      = (if t' < t + real_of_int (fail_window cfg) then count_at t (FailByIp ip) c + 1 else 0)"
    "k \<notin> {FailByIp ip, Shadow ip} \<Longrightarrow> (\<And>i. key = Some i \<Longrightarrow> k \<noteq> FailByKey i)
      \<Longrightarrow> cache_get t' k (record_sign_in_failure cfg t ip key c) = cache_get t' k c"
  using assms by (auto simp: record_sign_in_failure_def bump_eq Let_def split: option.split)

lemma sign_in_allowed:
  assumes "rl_enabled cfg" "check_sign_in_allowed cfg t ip key c = Inr ()" "0 < fail_limit cfg"
  shows "count_at t (FailByIp ip) c < fail_limit cfg"
  using assms
  by (auto simp: check_sign_in_allowed_def failures_of_def count_at_def Let_def max_def split: option.splits if_splits)

lemma clear_get:
  assumes "rl_enabled cfg"
  shows "cache_get t (FailByIp ip) (clear_sign_in_failures cfg ip key c) = None"
    "key = Some i \<Longrightarrow> cache_get t (FailByKey i) (clear_sign_in_failures cfg ip key c) = None"
    "k \<noteq> FailByIp ip \<Longrightarrow> (\<And>i. key = Some i \<Longrightarrow> k \<noteq> FailByKey i)
      \<Longrightarrow> cache_get t k (clear_sign_in_failures cfg ip key c) = cache_get t k c"
  using assms by (auto simp: clear_sign_in_failures_def cache_get_def Let_def split: option.split)

text \<open>After a success the failures of the address and the key are forgotten.\<close>

lemma cleared_allowed:
  assumes "rl_enabled cfg" "0 < fail_limit cfg" "cache_get t (Shadow ip) c = None"
  shows "check_sign_in_allowed cfg t ip key (clear_sign_in_failures cfg ip key c) = Inr ()"
  using assms clear_get [OF assms(1)]
  by (auto simp: check_sign_in_allowed_def is_shadow_banned_def failures_of_def Let_def split: option.splits)

section \<open>Bans\<close>

text \<open>No address is banned, and no counter of failures is past the limit.\<close>

definition unbanned :: "rl_cfg \<Rightarrow> rl_cache \<Rightarrow> bool" where
  "unbanned cfg c \<longleftrightarrow> (\<forall>t ip. cache_get t (Shadow ip) c = None)
     \<and> (\<forall>t ip. count_at t (FailByIp ip) c \<le> fail_limit cfg) \<and> (\<forall>t i. count_at t (FailByKey i) c \<le> fail_limit cfg)"

lemma unbanned_send: "unbanned cfg c \<Longrightarrow> unbanned cfg (record_send_code cfg' t ip key c)"
  by (auto simp: unbanned_def record_send_code_def bump_eq Let_def count_at_def split: option.splits)

lemma unbanned_clear: "unbanned cfg c \<Longrightarrow> 0 < fail_limit cfg \<Longrightarrow> unbanned cfg (clear_sign_in_failures cfg' ip key c)"
  by (auto simp: unbanned_def clear_sign_in_failures_def Let_def count_at_def cache_get_def split: option.splits)

lemma unbanned_failure:
  assumes "unbanned cfg c" "0 < fail_limit cfg" "fail_limit cfg < shadow_threshold cfg"
    "check_sign_in_allowed cfg t ip key c = Inr ()"
  shows "unbanned cfg (record_sign_in_failure cfg t ip key c)"
proof (cases "rl_enabled cfg")
  case True
  have n: "count_at t (FailByIp ip) c < fail_limit cfg" "key = Some i \<Longrightarrow> count_at t (FailByKey i) c < fail_limit cfg" for i
    using True assms(2,4)
    by (auto simp: check_sign_in_allowed_def failures_of_def count_at_def Let_def max_def split: option.splits if_splits)
  have c1: "count_at t' (FailByIp j) (cache_set t (FailByIp ip) (count_at t (FailByIp ip) c + 1) (fail_window cfg) c) \<le> fail_limit cfg" for t' j
    using assms(1,2) n(1) by (cases "j = ip") (auto simp: unbanned_def)
  then have c1: "unbanned cfg (cache_set t (FailByIp ip) (count_at t (FailByIp ip) c + 1) (fail_window cfg) c)" (is "unbanned cfg ?c1")
    using assms(1) by (simp add: unbanned_def)
  show ?thesis
  proof (cases key)
    case None then show ?thesis using True c1 n(1) assms(2,3) by (simp add: record_sign_in_failure_def bump_eq Let_def max_def)
  next
    case (Some i)
    have "unbanned cfg (cache_set t (FailByKey i) (count_at t (FailByKey i) ?c1 + 1) (fail_window cfg) ?c1)" (is "unbanned cfg ?c2")
      unfolding unbanned_def
    proof (intro conjI allI)
      fix t' j show "count_at t' (FailByKey j) ?c2 \<le> fail_limit cfg"
        using c1 n(2) [OF Some] assms(2) by (cases "j = i") (auto simp: unbanned_def)
    qed (use c1 in \<open>simp_all add: unbanned_def\<close>)
    then show ?thesis using True n(1) n(2) [OF Some] assms(3) Some
      by (simp add: record_sign_in_failure_def bump_eq Let_def max_def)
  qed
qed (use assms(1) in \<open>simp add: record_sign_in_failure_def\<close>)

end
