(* ===== verification/LoginFacts.thy ===== *)
theory LoginFacts
  imports Login SrpFacts RateLimitFacts Effects "HOL-Library.Sublist"
begin

text \<open>
  Runs of login requests: what can let a key in, what the password keeps out, and that a key has one
  authorization.
\<close>

section \<open>Running a handler\<close>

definition code_found :: "string \<Rightarrow> string \<Rightarrow> code_purpose option \<Rightarrow> login_db \<Rightarrow> sent_code option res" where
  "code_found p h purpose db = rbind (parse_code_hash h) (\<lambda>(i, u).
     get_or_none (\<lambda>c. sc_id c = i \<and> sc_hash c = u \<and> sc_phone_number c = p \<and> \<not> sc_used c
       \<and> (case purpose of None \<Rightarrow> True | Some q \<Rightarrow> sc_purpose c = q)) (lg_codes db))"

lemma get_code_eval: "get_code p h purpose db = (code_found p h purpose db, db)"
  by (cases "parse_code_hash h") (simp_all add: get_code_def code_found_def act_defs split_def)

definition password_row :: "login_env \<Rightarrow> int \<Rightarrow> login_db \<Rightarrow> user_password" where
  "password_row E u db = (case lg_passwords db u of Some p \<Rightarrow> p
     | None \<Rightarrow> \<lparr>pw_salt1 = le_salt1 E, pw_salt2 = le_salt2 E, pw_password = None, pw_hint = None\<rparr>)"

lemma get_or_create_password_eval:
  "get_or_create_password E u db = (Inr (password_row E u db), db\<lparr>lg_passwords := (lg_passwords db)(u \<mapsto> password_row E u db)\<rparr>)"
  by (auto simp: get_or_create_password_def password_row_def Let_def fun_upd_idem split: option.split)

lemma get_or_none_found: "get_or_none P rows = Inr (Some r) \<Longrightarrow> r \<in> set rows \<and> P r"
  by (auto simp: get_or_none_def filter_eq_Cons_iff split: list.splits)

lemma get_auth_found: "get_auth P db = (Inr a, db') \<Longrightarrow> db' = db \<and> a \<in> set (lg_auths db) \<and> P a"
  by (auto simp: get_auth_def filter_eq_Cons_iff split: list.splits)

lemma get_auth_fail: "get_auth P db = (Inl e, db') \<Longrightarrow> db' = db"
  by (auto simp: get_auth_def split: list.splits)

lemma perm_key_eval: "perm_key_of x db = (case lc_perm_key x of None \<Rightarrow> (Inl OtherError, db)
    | Some k \<Rightarrow> (if k \<in> lg_perm_keys db then Inr k else Inl OtherError, db))"
  by (simp add: perm_key_of_def split: option.split)

lemma login_eval:
  "sthen (le_require b c m) k db = (if b then k db else (Inl (ErrorRpc c m), db))"
  "sbind (slift r) f db = (case r of Inl e \<Rightarrow> (Inl e, db) | Inr x \<Rightarrow> f x db)"
  "sthen (slift r1) k db = (case r1 of Inl e \<Rightarrow> (Inl e, db) | Inr x \<Rightarrow> k db)"
  "sthen (ask_limits g) k db = (case g (lg_limits db) of Inl e \<Rightarrow> (Inl e, db) | Inr x \<Rightarrow> k db)"
  "sthen (with_limits h) k db = k (db\<lparr>lg_limits := h (lg_limits db)\<rparr>)"
  "sthen (save_code c1) k db = k (db\<lparr>lg_codes := map (\<lambda>d. if sc_id d = sc_id c1 then c1 else d) (lg_codes db)\<rparr>)"
  "sthen (delete_code c1) k db = k (db\<lparr>lg_codes := filter (\<lambda>d. sc_id d \<noteq> sc_id c1) (lg_codes db)\<rparr>)"
  "sbind (get_code p i q) f1 db = (case code_found p i q db of Inl e \<Rightarrow> (Inl e, db) | Inr x \<Rightarrow> f1 x db)"
  "sbind (get_or_create_password E u) f2 db =
     f2 (password_row E u db) (db\<lparr>lg_passwords := (lg_passwords db)(u \<mapsto> password_row E u db)\<rparr>)"
  "sbind (perm_key_of x) f3 db = (case lc_perm_key x of None \<Rightarrow> (Inl OtherError, db)
     | Some k \<Rightarrow> if k \<in> lg_perm_keys db then f3 k db else (Inl OtherError, db))"
  by (simp_all add: act_defs le_require_def ask_limits_def with_limits_def save_code_def delete_code_def get_code_eval
      get_or_create_password_eval perm_key_eval split: sum.split option.split)

text \<open>The parts of the tables that logging in is about.\<close>

abbreviation same_logins :: "login_db \<Rightarrow> login_db \<Rightarrow> bool" where
  "same_logins db db' \<equiv> lg_auths db' = lg_auths db \<and> lg_accounts db' = lg_accounts db
     \<and> lg_perm_keys db' = lg_perm_keys db \<and> lg_next_id db \<le> lg_next_id db'"

definition passwords_kept :: "login_db \<Rightarrow> login_db \<Rightarrow> bool" where
  "passwords_kept db db' \<longleftrightarrow> (\<forall>u pw. lg_passwords db u = Some pw \<longrightarrow> lg_passwords db' u = Some pw)
     \<and> (\<forall>u pw. lg_passwords db u = None \<longrightarrow> lg_passwords db' u = Some pw \<longrightarrow> pw_password pw = None)"

lemma passwords_kept_refl [simp]: "passwords_kept db db" "lg_passwords db' = lg_passwords db \<Longrightarrow> passwords_kept db db'"
  by (simp_all add: passwords_kept_def)

lemma passwords_kept_row [simp]:
  "lg_passwords db' = (lg_passwords db)(u \<mapsto> password_row E u db) \<Longrightarrow> passwords_kept db db'"
  by (auto simp: passwords_kept_def password_row_def split: option.splits if_splits)

definition no_password :: "int \<Rightarrow> login_db \<Rightarrow> bool" where
  "no_password u db \<longleftrightarrow> (case lg_passwords db u of None \<Rightarrow> True | Some pw \<Rightarrow> pw_password pw = None)"

lemma password_row_none: "pw_password (password_row E u db) = None \<longleftrightarrow> no_password u db"
  by (simp add: password_row_def no_password_def split: option.split)

section \<open>Codes\<close>

lemma check_code_eval:
  "check_code now given c db =
     (case (case given of None \<Rightarrow> Inr (sc_code c) | Some s \<Rightarrow> int_of_text s) of
        Inl e \<Rightarrow> (Inl e, db)
      | Inr n \<Rightarrow>
          if sc_code c \<noteq> n then (Inl (ErrorRpc 400 ''PHONE_CODE_INVALID''), db)
          else if real_of_int (sc_expires_at c) < now
          then (Inl (ErrorRpc 400 ''PHONE_CODE_EXPIRED''), db\<lparr>lg_codes := filter (\<lambda>d. sc_id d \<noteq> sc_id c) (lg_codes db)\<rparr>)
          else (Inr c, db))"
  by (simp add: check_code_def login_eval split: option.split sum.split)

lemma check_code_same: "same_logins db (snd (check_code now given c db)) \<and> passwords_kept db (snd (check_code now given c db))"
  by (simp add: check_code_eval split: sum.split)

lemma check_code_cls_same:
  "same_logins db (snd (check_code_cls now f db)) \<and> passwords_kept db (snd (check_code_cls now f db))"
  using check_code_same by (simp add: check_code_cls_def split: option.split)

lemma check_code_cls_ok:
  "check_code_cls now f db = (Inr c, db') \<Longrightarrow> f = Some c \<and> db' = db \<and> now \<le> real_of_int (sc_expires_at c)"
  by (auto simp: check_code_cls_def check_code_eval split: option.splits if_splits)

lemma try_code_same: "same_logins db (snd (try_code E x s f db)) \<and> passwords_kept db (snd (try_code E x s f db))"
proof (cases f)
  case (Some c)
  obtain r db1 where "check_code (le_now E) (Some s) c db = (r, db1)" by (metis surj_pair)
  then show ?thesis using Some check_code_same [where db = db and now = "le_now E" and given = "Some s" and c = c]
    by (cases r) (auto simp: try_code_def login_eval passwords_kept_def)
qed (simp add: try_code_def login_eval)

lemma try_code_ok:
  "try_code E x s f db = (Inr c, db') \<Longrightarrow>
     f = Some c \<and> db' = db \<and> int_of_text s = Inr (sc_code c) \<and> le_now E \<le> real_of_int (sc_expires_at c)"
  by (auto simp: try_code_def check_code_eval login_eval split: option.splits sum.splits if_splits)

section \<open>How a key gets in\<close>

text \<open>\<open>gets_in db db' k u pending\<close>: the key \<open>k\<close> has one new authorization, of the user \<open>u\<close>, and all others stay.\<close>

definition gets_in :: "login_db \<Rightarrow> login_db \<Rightarrow> int \<Rightarrow> int \<Rightarrow> bool \<Rightarrow> bool" where
  "gets_in db db' k u pending \<longleftrightarrow>
     (\<exists>a. lg_auths db' = filter (\<lambda>b. au_key b \<noteq> k) (lg_auths db) @ [a] \<and> au_key a = k \<and> au_user a = u
        \<and> au_mfa_pending a = pending \<and> lg_next_id db \<le> au_id a \<and> au_id a < lg_next_id db')
     \<and> lg_perm_keys db' = lg_perm_keys db \<and> lg_next_id db \<le> lg_next_id db'"

definition made_auth :: "login_env \<Rightarrow> int \<Rightarrow> int \<Rightarrow> bool \<Rightarrow> login_db \<Rightarrow> authorization" where
  "made_auth E u k mfa db = \<lparr>au_id = lg_next_id db, au_user = u, au_key = k, au_mfa_pending = mfa, au_created_at = le_now E\<rparr>"

lemma create_auth_eval:
  "sbind (create_auth E u k mfa) f db =
     (if \<exists>a \<in> set (lg_auths db). au_key a = k then (Inl IntegrityError, db)
      else f (made_auth E u k mfa db)
        (db\<lparr>lg_auths := lg_auths db @ [made_auth E u k mfa db], lg_next_id := lg_next_id db + 1\<rparr>))"
  by (simp add: create_auth_def sbind_def Let_def made_auth_def)

lemma gets_in_new:
  assumes "lg_auths db' = filter (\<lambda>b. au_key b \<noteq> k) (lg_auths db) @ [made_auth E u k mfa db1]"
    and "lg_next_id db1 = lg_next_id db" "lg_next_id db' = lg_next_id db + 1" "lg_perm_keys db' = lg_perm_keys db"
  shows "gets_in db db' k u mfa"
  using assms by (simp add: gets_in_def made_auth_def)

lemma untaken: "\<not> (\<exists>a \<in> set (lg_auths db). au_key a = k) \<Longrightarrow> filter (\<lambda>b. au_key b \<noteq> k) (lg_auths db) = lg_auths db"
  by (auto simp: filter_id_conv)

lemma delete_auths_eval: "sthen (delete_auths P) k db = k (db\<lparr>lg_auths := filter (\<lambda>a. \<not> P a) (lg_auths db),
    lg_qr_logins := filter (\<lambda>q. \<not> (\<exists>i. qr_auth q = Some i \<and> i \<in> au_id ` set (filter P (lg_auths db)))) (lg_qr_logins db)\<rparr>)"
  by (simp add: delete_auths_def act_defs Let_def)

lemma authorize_cases:
  obtains (refused) db' where "authorize E x u db = (Inl OtherError, db')" "same_logins db db'" "passwords_kept db db'"
  | (entered) r k db' where "authorize E x u db = (r, db')" "lc_perm_key x = Some k" "k \<in> lg_perm_keys db"
      "gets_in db db' k u (\<not> no_password u db)" "lg_accounts db' = lg_accounts db" "passwords_kept db db'"
      "r = (if no_password u db then Inr (LoggedIn u) else Inl (ErrorRpc 401 ''SESSION_PASSWORD_NEEDED''))"
proof -
  define db1 where "db1 = db\<lparr>lg_passwords := (lg_passwords db)(u \<mapsto> password_row E u db)\<rparr>"
  have kept: "passwords_kept db db'" if "lg_passwords db' = lg_passwords db1" for db'
    using that unfolding db1_def by (intro passwords_kept_row [of _ _ u E]) simp
  show thesis
  proof (cases "\<exists>k. lc_perm_key x = Some k \<and> k \<in> lg_perm_keys db")
    case False
    then have "authorize E x u db = (Inl OtherError, db1)"
      by (auto simp: authorize_def login_eval db1_def split: option.splits)
    moreover have "same_logins db db1" by (simp add: db1_def)
    moreover have "passwords_kept db db1" by (rule kept) simp
    ultimately show thesis by (rule refused)
  next
    case True
    then obtain k where k: "lc_perm_key x = Some k" "k \<in> lg_perm_keys db" by blast
    define db2 where "db2 = db1\<lparr>lg_auths := filter (\<lambda>b. au_key b \<noteq> k) (lg_auths db) @ [made_auth E u k (\<not> no_password u db) db1],
      lg_qr_logins := filter (\<lambda>q. \<not> (\<exists>i. qr_auth q = Some i \<and> i \<in> au_id ` set (filter (\<lambda>b. au_key b = k) (lg_auths db)))) (lg_qr_logins db),
      lg_next_id := lg_next_id db + 1\<rparr>"
    have "authorize E x u db = (if no_password u db then Inr (LoggedIn u) else Inl (ErrorRpc 401 ''SESSION_PASSWORD_NEEDED''), db2)"
      by (simp add: authorize_def login_eval k delete_auths_eval create_auth_eval db1_def db2_def password_row_none made_auth_def
          del: not_None_eq)
    moreover have "gets_in db db2 k u (\<not> no_password u db)"
      by (rule gets_in_new [of _ _ _ E _ _ db1]) (simp_all add: db1_def db2_def)
    moreover have "lg_accounts db2 = lg_accounts db" by (simp add: db1_def db2_def)
    moreover have "passwords_kept db db2" by (rule kept) (simp add: db2_def)
    ultimately show thesis using k entered by blast
  qed
qed

lemma sbind_cases:
  obtains (raised) e db1 where "m db = (Inl e, db1)" "sbind m f db = (Inl e, db1)"
  | (went_on) y db1 where "m db = (Inr y, db1)" "sbind m f db = f y db1"
  by (cases "m db"; cases "fst (m db)") (auto simp: sbind_def)

lemma gets_in_cong:
  "lg_auths db1 = lg_auths db \<Longrightarrow> lg_perm_keys db1 = lg_perm_keys db \<Longrightarrow> lg_next_id db1 = lg_next_id db
    \<Longrightarrow> gets_in db1 db' k u m = gets_in db db' k u m"
  by (simp add: gets_in_def)

lemma no_password_cong: "lg_passwords db1 = lg_passwords db \<Longrightarrow> no_password u db1 = no_password u db"
  by (simp add: no_password_def)

lemma passwords_kept_cong: "lg_passwords db1 = lg_passwords db \<Longrightarrow> passwords_kept db1 db' = passwords_kept db db'"
  by (simp add: passwords_kept_def)

lemma sign_in_cases:
  obtains (same) r db' where "sign_in E x phone h given db = (r, db')" "same_logins db db'" "passwords_kept db db'"
  | (entered) r db' p code c a k where "sign_in E x phone h given db = (r, db')" "given = Some code"
      "validate_phone phone = Inr p" "check_sign_in_allowed (le_cfg E) (le_now E) (lc_ip x) (lc_auth_key_id x) (lg_limits db) = Inr ()"
      "code_found p h (Some SIGNIN) db = Inr (Some c)" "int_of_text code = Inr (sc_code c)" "le_now E \<le> real_of_int (sc_expires_at c)"
      "user_by_phone p db = Some a" "lc_perm_key x = Some k" "gets_in db db' k (ac_id a) (\<not> no_password (ac_id a) db)"
      "lg_accounts db' = lg_accounts db" "passwords_kept db db'"
proof (cases "length h = CODE_HASH_SIZE \<and> (\<exists>code p f n. given = Some code \<and> validate_phone phone = Inr p
    \<and> check_sign_in_allowed (le_cfg E) (le_now E) (lc_ip x) (lc_auth_key_id x) (lg_limits db) = Inr ()
    \<and> int_of_text code = Inr n \<and> code_found p h (Some SIGNIN) db = Inr f)")
  case False
  then have "snd (sign_in E x phone h given db) = db"
    by (auto simp: sign_in_def login_eval split: option.splits sum.splits)
  then show thesis using same [of "fst (sign_in E x phone h given db)" db] by (metis order_refl passwords_kept_refl(1) surjective_pairing)
next
  case True
  then obtain code p f n where t: "given = Some code" "validate_phone phone = Inr p" "int_of_text code = Inr n"
    "check_sign_in_allowed (le_cfg E) (le_now E) (lc_ip x) (lc_auth_key_id x) (lg_limits db) = Inr ()"
    "code_found p h (Some SIGNIN) db = Inr f" "length h = CODE_HASH_SIZE" by blast
  obtain r1 db1 where tried: "try_code E x code f db = (r1, db1)" by (metis surj_pair)
  show thesis
  proof (cases r1)
    case (Inl e)
    then have "sign_in E x phone h given db = (Inl e, db1)" by (simp add: sign_in_def login_eval t tried sbind_def [of "try_code E x code f"])
    then show thesis using same [of "Inl e" db1] try_code_same [where E = E and x = x and s = code and f = f and db = db] tried by auto
  next
    case (Inr c)
    note c = try_code_ok [OF tried [unfolded Inr]]
    define db2 where "db2 = db\<lparr>lg_codes := map (\<lambda>d. if sc_id d = sc_id c then c\<lparr>sc_used := False,
        sc_expires_at := gen_code_expires_at (le_now E), sc_purpose := SIGNUP\<rparr> else d) (lg_codes db),
      lg_limits := clear_sign_in_failures (le_cfg E) (lc_ip x) (lc_auth_key_id x) (lg_limits db)\<rparr>"
    have s: "sign_in E x phone h given db = (case user_by_phone p db of None \<Rightarrow> (Inr SignUpRequired, db2) | Some a \<Rightarrow> authorize E x (ac_id a) db2)"
      using c tried Inr by (auto simp: sign_in_def login_eval t sbind_def [of "try_code E x code (Some c)"] db2_def user_by_phone_def
          split: option.split)
    have same2: "lg_auths db2 = lg_auths db" "lg_perm_keys db2 = lg_perm_keys db" "lg_next_id db2 = lg_next_id db"
      "lg_accounts db2 = lg_accounts db" "lg_passwords db2 = lg_passwords db" by (simp_all add: db2_def)
    show thesis
    proof (cases "user_by_phone p db")
      case None
      then show thesis using s same [of "Inr SignUpRequired" db2] same2 by simp
    next
      case (Some a)
      then have s': "sign_in E x phone h given db = authorize E x (ac_id a) db2" using s by simp
      show thesis
      proof (cases rule: authorize_cases [of E x "ac_id a" db2])
        case (refused db')
        then show thesis using same [of "Inl OtherError" db'] s' same2 passwords_kept_cong [OF same2(5)] by simp
      next
        case e: (entered r k db')
        show thesis
          by (rule entered [OF s' [unfolded e(1)] t(1,2,4) _ _ _ Some e(2)])
            (use c t(5) e same2 gets_in_cong [OF same2(1-3)] no_password_cong [OF same2(5)] passwords_kept_cong [OF same2(5)] in auto)
      qed
    qed
  qed
qed

definition account_added :: "login_db \<Rightarrow> login_db \<Rightarrow> bool" where
  "account_added db db' \<longleftrightarrow> lg_next_id db < lg_next_id db' \<and>
     (\<exists>a. lg_accounts db' = lg_accounts db @ [a] \<and> ac_token_nonce a = None \<and> ac_id a = lg_next_id db)"

definition new_account :: "string \<Rightarrow> string \<Rightarrow> string option \<Rightarrow> login_db \<Rightarrow> account" where
  "new_account p first last_name db = \<lparr>ac_id = lg_next_id db, ac_phone_number = Some p, ac_first_name = first,
     ac_last_name = last_name, ac_admin = \<not> (\<exists>a \<in> set (lg_accounts db). ac_admin a \<and> \<not> ac_deleted a),
     ac_deleted = False, ac_token_nonce = None\<rparr>"

lemma create_account_eval:
  "sbind (create_account p first last_name) f db =
     (if length p > 20 then (Inl OtherError, db)
      else f (lg_next_id db) (db\<lparr>lg_accounts := lg_accounts db @ [new_account p first last_name db], lg_next_id := lg_next_id db + 1\<rparr>))"
  by (simp add: create_account_def sbind_def Let_def new_account_def)

text \<open>A new account is nobody's before; it may be left without an authorization.\<close>

lemma register_cases:
  obtains (refused) e where "register E x p first last_name db = (Inl e, db)"
  | (halfway) e db' where "register E x p first last_name db = (Inl e, db')" "lg_auths db' = lg_auths db"
      "lg_perm_keys db' = lg_perm_keys db" "account_added db db'" "lg_passwords db' = lg_passwords db"
  | (entered) k db' where "register E x p first last_name db = (Inr (LoggedIn (lg_next_id db)), db')"
      "user_by_phone p db = None" "lc_perm_key x = Some k" "gets_in db db' k (lg_next_id db) False"
      "account_added db db'" "lg_passwords db' = lg_passwords db"
proof (cases "user_by_phone p db = None \<and> first \<noteq> [] \<and> length first \<le> 128
    \<and> (case last_name of None \<Rightarrow> True | Some l \<Rightarrow> length l \<le> 128) \<and> length p \<le> 20")
  case False
  then have "\<exists>e. register E x p first last_name db = (Inl e, db)"
    by (auto simp: register_def login_eval create_account_eval)
  then show thesis using refused by blast
next
  case acc: True
  define db1 where "db1 = db\<lparr>lg_accounts := lg_accounts db @ [new_account p first last_name db], lg_next_id := lg_next_id db + 1\<rparr>"
  have s: "register E x p first last_name db = sbind (perm_key_of x) (\<lambda>k. sbind (create_auth E (lg_next_id db) k False)
      (\<lambda>_. sreturn (LoggedIn (lg_next_id db)))) db1"
    using acc by (simp add: register_def login_eval create_account_eval db1_def)
  show thesis
  proof (cases "\<exists>k. lc_perm_key x = Some k \<and> k \<in> lg_perm_keys db \<and> \<not> (\<exists>b \<in> set (lg_auths db). au_key b = k)")
    case False
    then have "\<exists>e. register E x p first last_name db = (Inl e, db1)"
      unfolding s by (auto simp: login_eval create_auth_eval db1_def split: option.splits)
    then show thesis using halfway [of _ db1] by (auto simp: db1_def account_added_def new_account_def)
  next
    case True
    then obtain k where k: "lc_perm_key x = Some k" "k \<in> lg_perm_keys db" "\<not> (\<exists>b \<in> set (lg_auths db). au_key b = k)" by blast
    define db2 where "db2 = db1\<lparr>lg_auths := lg_auths db @ [made_auth E (lg_next_id db) k False db1], lg_next_id := lg_next_id db + 2\<rparr>"
    have "register E x p first last_name db = (Inr (LoggedIn (lg_next_id db)), db2)"
      unfolding s using k by (simp add: login_eval create_auth_eval db2_def db1_def)
    moreover have "gets_in db db2 k (lg_next_id db) False"
      using untaken [OF k(3)] by (simp add: gets_in_def db2_def db1_def made_auth_def)
    moreover have "account_added db db2" "lg_passwords db2 = lg_passwords db"
      by (simp_all add: db2_def db1_def account_added_def new_account_def)
    ultimately show thesis using acc k(1) entered by blast
  qed
qed

lemma account_added_cong:
  "lg_accounts db1 = lg_accounts db \<Longrightarrow> lg_next_id db1 = lg_next_id db \<Longrightarrow> account_added db1 db' = account_added db db'"
  by (simp add: account_added_def)

lemma sign_up_cases:
  obtains (same) r db' where "sign_up E x phone h first last_name db = (r, db')" "lg_auths db' = lg_auths db"
      "lg_perm_keys db' = lg_perm_keys db" "lg_passwords db' = lg_passwords db" "lg_next_id db \<le> lg_next_id db'"
      "lg_accounts db' = lg_accounts db \<or> account_added db db'"
  | (entered) r db' p c k where "sign_up E x phone h first last_name db = (r, db')" "validate_phone phone = Inr p"
      "code_found p h (Some SIGNUP) db = Inr (Some c)" "le_now E \<le> real_of_int (sc_expires_at c)" "user_by_phone p db = None"
      "lc_perm_key x = Some k" "gets_in db db' k (lg_next_id db) False" "lg_passwords db' = lg_passwords db" "account_added db db'"
proof (cases "length h = CODE_HASH_SIZE \<and> (\<exists>p c. validate_phone phone = Inr p \<and> p \<notin> lg_banned_phones db
    \<and> code_found p h (Some SIGNUP) db = Inr (Some c))")
  case False
  have none: "sbind (check_code_cls (le_now E) None) f db = (Inl (ErrorRpc 400 ''PHONE_CODE_INVALID''), db)"
    for f :: "sent_code \<Rightarrow> sign_in_reply login" by (simp add: check_code_cls_def)
  have "snd (sign_up E x phone h first last_name db) = db"
    using False by (auto simp: sign_up_def login_eval none split: sum.splits)
  then show thesis using same [of "fst (sign_up E x phone h first last_name db)" db] by (simp add: prod_eq_iff)
next
  case True
  then obtain p c where t: "length h = CODE_HASH_SIZE" "validate_phone phone = Inr p" "p \<notin> lg_banned_phones db"
    "code_found p h (Some SIGNUP) db = Inr (Some c)" by blast
  obtain r1 db1 where chk: "check_code_cls (le_now E) (Some c) db = (r1, db1)" by (metis surj_pair)
  have s1: "same_logins db db1" "lg_passwords db1 = lg_passwords db"
    using check_code_cls_same [where db = db and now = "le_now E" and f = "Some c"] chk
    by (auto simp: check_code_cls_def check_code_eval split: if_splits)
  show thesis
  proof (cases r1)
    case (Inl e)
    then have "sign_up E x phone h first last_name db = (Inl e, db1)"
      by (simp add: sign_up_def login_eval t chk sbind_def [of "check_code_cls (le_now E) (Some c)"])
    then show thesis using same [of "Inl e" db1] s1 by simp
  next
    case (Inr c')
    have c: "c' = c" "db1 = db" "le_now E \<le> real_of_int (sc_expires_at c)"
      using check_code_cls_ok [OF chk [unfolded Inr]] by auto
    define db2 where "db2 = db\<lparr>lg_codes := map (\<lambda>d. if sc_id d = sc_id c then c\<lparr>sc_used := True\<rparr> else d) (lg_codes db)\<rparr>"
    have same2: "lg_auths db2 = lg_auths db" "lg_perm_keys db2 = lg_perm_keys db" "lg_next_id db2 = lg_next_id db"
      "lg_accounts db2 = lg_accounts db" "lg_passwords db2 = lg_passwords db" by (simp_all add: db2_def)
    have s: "sign_up E x phone h first last_name db = register E x p first last_name db2"
      using chk c Inr by (simp add: sign_up_def login_eval t sbind_def [of "check_code_cls (le_now E) (Some c)"] db2_def)
    show thesis
    proof (cases rule: register_cases [of E x p first last_name db2])
      case (refused e)
      then show thesis using same [of "Inl e" db2] s same2 by simp
    next
      case (halfway e db')
      then show thesis using same [of "Inl e" db'] s same2 account_added_cong [OF same2(4,3)]
        by (simp add: account_added_def)
    next
      case e: (entered k db')
      have "user_by_phone p db = None" using e(2) same2(4) by (simp add: user_by_phone_def)
      then show thesis
        by (rule entered [OF s [unfolded e(1)] t(2,4) c(3) _ e(3)])
          (use e same2 gets_in_cong [OF same2(1-3)] account_added_cong [OF same2(4,3)] in simp_all)
    qed
  qed
qed

section \<open>The other requests\<close>

definition password_proved :: "login_env \<Rightarrow> int \<Rightarrow> password_check \<Rightarrow> login_db \<Rightarrow> bool" where
  "password_proved E u check db \<longleftrightarrow>
     fst (check_password_internal (le_crypto E) \<lfloor>le_now E\<rfloor> (lg_next_id db, le_priv_b E) (password_row E u db) check (lg_srp_sessions db u))
       = Inr ()"

lemma check_user_password_eval:
  "sthen (check_user_password E u pw check) f db =
     (let (r, ss) = check_password_internal (le_crypto E) \<lfloor>le_now E\<rfloor> (lg_next_id db, le_priv_b E) pw check (lg_srp_sessions db u);
          db1 = db\<lparr>lg_srp_sessions := (lg_srp_sessions db)(u := ss), lg_next_id := lg_next_id db + 1\<rparr>
      in case r of Inl e \<Rightarrow> (Inl e, db1) | Inr _ \<Rightarrow> f db1)"
  by (simp add: check_user_password_def sthen_def sbind_def split_def Let_def split: sum.split)

lemma sbind_get_auth:
  obtains (none) e where "sbind (get_auth P) f db = (Inl e, db)"
  | (found) a where "a \<in> set (lg_auths db)" "P a" "sbind (get_auth P) f db = f a db"
proof -
  obtain r db1 where g: "get_auth P db = (r, db1)" by (metis surj_pair)
  show thesis
  proof (cases r)
    case (Inl e)
    then show thesis using none [of e] get_auth_fail [of P db e db1] g by (simp add: sbind_def)
  next
    case (Inr a)
    then show thesis using found [of a] get_auth_found [of P db a db1] g by (simp add: sbind_def)
  qed
qed

lemma check_password_cases:
  obtains (same) r db' where "check_password E x check db = (r, db')" "same_logins db db'" "passwords_kept db db'"
  | (entered) r db' a where "check_password E x check db = (r, db')" "a \<in> set (lg_auths db)" "Some (au_id a) = lc_auth x"
      "Some (au_user a) = lc_user x" "au_mfa_pending a" "password_proved E (au_user a) check db"
      "lg_auths db' = map (\<lambda>b. if au_id b = au_id a then b\<lparr>au_mfa_pending := False\<rparr> else b) (lg_auths db)"
      "lg_accounts db' = lg_accounts db" "lg_perm_keys db' = lg_perm_keys db" "lg_next_id db \<le> lg_next_id db'" "passwords_kept db db'"
proof (cases rule: sbind_get_auth [of "\<lambda>a. Some (au_id a) = lc_auth x \<and> Some (au_user a) = lc_user x"
      "\<lambda>a. if \<not> au_mfa_pending a then sreturn (LoggedIn (au_user a))
       else sbind (get_or_create_password E (au_user a)) (\<lambda>pw.
            sthen (check_user_password E (au_user a) pw check)
           (sthen (supd (\<lambda>db. db\<lparr>lg_auths := map (\<lambda>b. if au_id b = au_id a then b\<lparr>au_mfa_pending := False\<rparr> else b) (lg_auths db)\<rparr>))
             (sreturn (LoggedIn (au_user a)))))" db])
  case (none e)
  then show thesis using same [of "Inl e" db] by (simp add: check_password_def)
next
  case (found a)
  show thesis
  proof (cases "au_mfa_pending a")
    case False
    then show thesis using same [of "Inr (LoggedIn (au_user a))" db] found by (simp add: check_password_def)
  next
    case True
    define db1 where "db1 = db\<lparr>lg_passwords := (lg_passwords db)(au_user a \<mapsto> password_row E (au_user a) db)\<rparr>"
    obtain r ss where c: "check_password_internal (le_crypto E) \<lfloor>le_now E\<rfloor> (lg_next_id db, le_priv_b E)
        (password_row E (au_user a) db) check (lg_srp_sessions db (au_user a)) = (r, ss)" by (metis surj_pair)
    define db2 where "db2 = db1\<lparr>lg_srp_sessions := (lg_srp_sessions db)(au_user a := ss), lg_next_id := lg_next_id db + 1\<rparr>"
    have kept: "passwords_kept db db'" if "lg_passwords db' = lg_passwords db1" for db'
      using that unfolding db1_def by (intro passwords_kept_row [of _ _ "au_user a" E]) simp
    have run: "check_password E x check db = (case r of Inl e \<Rightarrow> (Inl e, db2) | Inr _ \<Rightarrow> (Inr (LoggedIn (au_user a)),
        db2\<lparr>lg_auths := map (\<lambda>b. if au_id b = au_id a then b\<lparr>au_mfa_pending := False\<rparr> else b) (lg_auths db)\<rparr>))"
      using found(3) True c
      by (simp add: check_password_def login_eval check_user_password_eval db1_def db2_def split: sum.split)
    show thesis
    proof (cases r)
      case (Inl e)
      have "passwords_kept db db2" by (rule kept) (simp add: db2_def)
      then show thesis using same [of "Inl e" db2] run Inl by (simp add: db2_def db1_def)
    next
      case (Inr y)
      let ?db = "db2\<lparr>lg_auths := map (\<lambda>b. if au_id b = au_id a then b\<lparr>au_mfa_pending := False\<rparr> else b) (lg_auths db)\<rparr>"
      have k: "passwords_kept db ?db" by (rule kept) (simp add: db2_def)
      have pr: "password_proved E (au_user a) check db" using c Inr by (simp add: password_proved_def)
      have e: "check_password E x check db = (Inr (LoggedIn (au_user a)), ?db)" using run Inr by simp
      have ids: "Some (au_id a) = lc_auth x" "Some (au_user a) = lc_user x" using found(2) by simp_all
      show thesis by (rule entered [OF e found(1) ids True pr _ _ _ _ k]) (simp_all add: db2_def db1_def)
    qed
  qed
qed

lemma update_password_cases:
  obtains (same) r db' where "update_password_settings E u check new db = (r, db')" "same_logins db db'" "passwords_kept db db'"
  | (changed) r db' pw where "update_password_settings E u check new db = (r, db')" "password_proved E u check db"
      "set (lg_auths db') \<subseteq> set (lg_auths db)" "subseq (lg_auths db') (lg_auths db)" "lg_accounts db' = lg_accounts db"
      "lg_perm_keys db' = lg_perm_keys db" "lg_next_id db \<le> lg_next_id db'" "lg_passwords db' = (lg_passwords db)(u \<mapsto> pw)"
      "\<exists>P. lg_auths db' = filter P (lg_auths db) \<and> (\<forall>a. \<not> au_mfa_pending a \<longrightarrow> P a)"
proof -
  define db1 where "db1 = db\<lparr>lg_passwords := (lg_passwords db)(u \<mapsto> password_row E u db)\<rparr>"
  obtain r ss where c: "check_password_internal (le_crypto E) \<lfloor>le_now E\<rfloor> (lg_next_id db, le_priv_b E)
      (password_row E u db) check (lg_srp_sessions db u) = (r, ss)" by (metis surj_pair)
  define db2 where "db2 = db1\<lparr>lg_srp_sessions := (lg_srp_sessions db)(u := ss), lg_next_id := lg_next_id db + 1\<rparr>"
  have kept: "passwords_kept db db2"
    by (rule passwords_kept_row [of _ _ u E]) (simp add: db2_def db1_def)
  have same2: "same_logins db db2" by (simp add: db2_def db1_def)
  show thesis
  proof (cases "\<exists>y pw'. r = Inr y \<and> new_password new (password_row E u db) = Inr pw'")
    case False
    then have "\<exists>e. update_password_settings E u check new db = (Inl e, db2)"
      using c by (cases r; cases "new_password new (password_row E u db)")
        (auto simp: update_password_settings_def login_eval check_user_password_eval Let_def db1_def db2_def)
    then show thesis using same same2 kept by blast
  next
    case True
    then obtain pw' where pw': "r = Inr ()" "new_password new (password_row E u db) = Inr pw'" by auto
    have pr: "password_proved E u check db" using c pw' by (simp add: password_proved_def)
    obtain r' db' where run: "update_password_settings E u check new db = (r', db')" by (metis surj_pair)
    have "lg_auths db' = (if pw_password pw' = None then filter (\<lambda>a. \<not> (au_user a = u \<and> au_mfa_pending a)) (lg_auths db) else lg_auths db)
        \<and> lg_accounts db' = lg_accounts db \<and> lg_perm_keys db' = lg_perm_keys db \<and> lg_next_id db' = lg_next_id db + 1
        \<and> lg_passwords db' = (lg_passwords db)(u \<mapsto> pw')"
      using run c pw'
      by (auto simp: update_password_settings_def login_eval check_user_password_eval delete_auths_eval db1_def db2_def split: if_splits)
    moreover from this have "\<exists>P. lg_auths db' = filter P (lg_auths db) \<and> (\<forall>a. \<not> au_mfa_pending a \<longrightarrow> P a)"
      by (cases "pw_password pw' = None") (auto intro: exI [of _ "\<lambda>_. True"])
    ultimately show thesis using changed [OF run pr] by (auto simp: subseq_filter_left split: if_splits)
  qed
qed

lemma from_token_found:
  "from_token token db = (Inr (Some q), db') \<Longrightarrow> db' = db \<and> q \<in> set (lg_qr_logins db)"
  by (auto simp: from_token_def login_eval dest: get_or_none_found split: if_splits sum.splits)

lemma from_token_state: "from_token token db = (r, db') \<Longrightarrow> db' = db"
  by (auto simp: from_token_def login_eval split: if_splits sum.splits)

lemma accept_cases:
  obtains (same) r db' where "accept_login_token E u token db = (r, db')" "same_logins db db'" "passwords_kept db db'"
  | (entered) r db' q where "accept_login_token E u token db = (r, db')" "from_token token db = (Inr (Some q), db)"
      "q \<in> set (lg_qr_logins db)" "qr_auth q = None" "le_now E \<le> qr_created_at q + real_of_int EXPIRE_TIME"
      "gets_in db db' (qr_key q) u (\<not> no_password u db)" "lg_accounts db' = lg_accounts db" "passwords_kept db db'"
proof (cases "\<exists>q. from_token token db = (Inr (Some q), db) \<and> qr_auth q = None \<and> le_now E \<le> qr_created_at q + real_of_int EXPIRE_TIME")
  case False
  obtain r1 db1 where f: "from_token token db = (r1, db1)" by (metis surj_pair)
  have "\<exists>e. accept_login_token E u token db = (Inl e, db)"
    using False f from_token_state [OF f]
    by (cases r1) (auto simp: accept_login_token_def sbind_def [of "from_token token"] login_eval split: option.splits)
  then show thesis using same by (metis order_refl passwords_kept_refl(1))
next
  case True
  then obtain q where q: "from_token token db = (Inr (Some q), db)" "qr_auth q = None"
    "le_now E \<le> qr_created_at q + real_of_int EXPIRE_TIME" by blast
  define db1 where "db1 = db\<lparr>lg_passwords := (lg_passwords db)(u \<mapsto> password_row E u db)\<rparr>"
  have kept: "passwords_kept db db'" if "lg_passwords db' = lg_passwords db1" for db'
    using that unfolding db1_def by (intro passwords_kept_row [of _ _ u E]) simp
  have s: "accept_login_token E u token db = sbind (create_auth E u (qr_key q) (\<not> no_password u db)) (\<lambda>a.
      sthen (supd (\<lambda>db. db\<lparr>lg_qr_logins := map (\<lambda>r. if qr_id r = qr_id q then r\<lparr>qr_auth := Some (au_id a)\<rparr> else r) (lg_qr_logins db)\<rparr>))
        (sreturn a)) db1"
    using q by (simp add: accept_login_token_def sbind_def [of "from_token token"] login_eval db1_def password_row_none del: not_None_eq)
  show thesis
  proof (cases "\<exists>a \<in> set (lg_auths db). au_key a = qr_key q")
    case True
    then have "accept_login_token E u token db = (Inl IntegrityError, db1)" unfolding s by (simp add: create_auth_eval db1_def)
    moreover have "same_logins db db1" by (simp add: db1_def)
    moreover have "passwords_kept db db1" by (rule kept) simp
    ultimately show thesis by (rule same)
  next
    case False
    obtain r db' where run: "accept_login_token E u token db = (r, db')" by (metis surj_pair)
    have r: "lg_auths db' = lg_auths db @ [made_auth E u (qr_key q) (\<not> no_password u db) db1]" "lg_next_id db' = lg_next_id db + 1"
      "lg_perm_keys db' = lg_perm_keys db" "lg_accounts db' = lg_accounts db" "lg_passwords db' = lg_passwords db1"
      using run False unfolding s by (auto simp: create_auth_eval db1_def)
    have "gets_in db db' (qr_key q) u (\<not> no_password u db)"
      by (rule gets_in_new [of _ _ _ E _ _ db1]) (use r untaken [OF False] in \<open>simp_all add: db1_def\<close>)
    then show thesis using entered [OF run q(1) _ q(2,3)] from_token_found [OF q(1)] r kept by blast
  qed
qed

lemma import_bot_cases:
  obtains (same) e where "import_bot_authorization E x token db = (Inl e, db)"
  | (entered) db' bot_id nonce a k where "import_bot_authorization E x token db = (Inr (LoggedIn (ac_id a)), db')"
      "py_split (CHR '':'') token = [bot_id, nonce]" "int_of_text bot_id = Inr (ac_id a)" "a \<in> set (lg_accounts db)"
      "ac_token_nonce a = Some nonce" "lc_perm_key x = Some k" "gets_in db db' k (ac_id a) False"
      "lg_accounts db' = lg_accounts db" "lg_passwords db' = lg_passwords db"
proof (cases "\<exists>bot_id nonce a k. py_split (CHR '':'') token = [bot_id, nonce] \<and> bot_id \<noteq> [] \<and> list_all isdigit bot_id
    \<and> (\<exists>i. int_of_text bot_id = Inr i \<and> find (\<lambda>a. ac_id a = i \<and> ac_token_nonce a = Some nonce) (lg_accounts db) = Some a)
    \<and> lc_perm_key x = Some k \<and> k \<in> lg_perm_keys db")
  case False
  then have "\<exists>e. import_bot_authorization E x token db = (Inl e, db)"
    by (auto simp: import_bot_authorization_def login_eval split: list.split sum.split option.split)
  then show thesis using same by blast
next
  case True
  then obtain bot_id nonce a k i where t: "py_split (CHR '':'') token = [bot_id, nonce]" "bot_id \<noteq> []" "list_all isdigit bot_id"
    "int_of_text bot_id = Inr i" "find (\<lambda>a. ac_id a = i \<and> ac_token_nonce a = Some nonce) (lg_accounts db) = Some a"
    "lc_perm_key x = Some k" "k \<in> lg_perm_keys db" by blast
  have a: "a \<in> set (lg_accounts db)" "ac_id a = i" "ac_token_nonce a = Some nonce"
    using t(5) by (auto simp: find_Some_iff)
  obtain r db' where run: "import_bot_authorization E x token db = (r, db')" by (metis surj_pair)
  have "r = Inr (LoggedIn (ac_id a)) \<and> lg_auths db' = filter (\<lambda>b. au_key b \<noteq> k) (lg_auths db) @ [made_auth E (ac_id a) k False db]
      \<and> lg_next_id db' = lg_next_id db + 1 \<and> lg_perm_keys db' = lg_perm_keys db \<and> lg_accounts db' = lg_accounts db
      \<and> lg_passwords db' = lg_passwords db"
    using run by (auto simp: import_bot_authorization_def login_eval t delete_auths_eval create_auth_eval made_auth_def)
  then show thesis using entered [of a db' bot_id nonce k] run t a gets_in_new [of db' k db E "ac_id a" False db] by simp
qed

lemma log_out_auths:
  "lg_auths (snd (log_out x db)) = filter (\<lambda>a. Some (au_key a) \<noteq> lc_perm_key x) (lg_auths db)"
  "lg_accounts (snd (log_out x db)) = lg_accounts db" "lg_perm_keys (snd (log_out x db)) = lg_perm_keys db"
  "lg_next_id (snd (log_out x db)) = lg_next_id db" "lg_passwords (snd (log_out x db)) = lg_passwords db"
  by (simp_all add: log_out_def delete_auths_def Let_def)

lemma reset_auths:
  "subseq (lg_auths (snd (reset_authorizations E x u db))) (lg_auths db)
    \<and> lg_accounts (snd (reset_authorizations E x u db)) = lg_accounts db
    \<and> lg_perm_keys (snd (reset_authorizations E x u db)) = lg_perm_keys db
    \<and> lg_next_id (snd (reset_authorizations E x u db)) = lg_next_id db
    \<and> lg_passwords (snd (reset_authorizations E x u db)) = lg_passwords db"
proof (cases rule: sbind_get_auth [of "\<lambda>a. Some (au_id a) = lc_auth x" "\<lambda>this.
     sthen (le_require (\<not> au_created_at this + 86400 > le_now E) 406 ''FRESH_RESET_AUTHORISATION_FORBIDDEN'')
    (sbind (sget (\<lambda>db. filter (\<lambda>a. au_user a = u \<and> au_id a \<noteq> au_id this) (lg_auths db))) (\<lambda>others.
     sthen (delete_auths (\<lambda>a. au_id a \<in> au_id ` set others)) (sreturn (map au_key others))))" db])
  case (none e)
  then show ?thesis by (simp add: reset_authorizations_def)
next
  case (found a)
  show ?thesis unfolding reset_authorizations_def found(3)
    by (simp add: login_eval delete_auths_eval)
qed

text \<open>Everything about codes and limits leaves the logins alone.\<close>

definition quiet_logins :: "login_db \<Rightarrow> login_db \<Rightarrow> bool" where
  "quiet_logins db db' \<longleftrightarrow> same_logins db db' \<and> lg_passwords db' = lg_passwords db"

interpretation logins: guarantee quiet_logins
  by unfold_locales (auto simp: quiet_logins_def)

lemma quiet_steps [intro]:
  "honours quiet_logins (le_require b c m)" "honours quiet_logins (ask_limits f)" "honours quiet_logins (with_limits g)"
  "honours quiet_logins (save_code d)" "honours quiet_logins (delete_code d)" "honours quiet_logins (get_code p h q)"
  "honours quiet_logins (create_code E p)" "honours quiet_logins (check_code_cls now found)"
  by (auto simp: honours_def quiet_logins_def le_require_def ask_limits_def with_limits_def save_code_def delete_code_def
      get_code_eval create_code_def Let_def check_code_cls_def check_code_eval split: option.split sum.split)

lemma send_quiet: "honours quiet_logins (send_or_resend_code E x phone given)"
  unfolding send_or_resend_code_def
  by (auto intro!: logins.bind logins.seq split: option.split simp: Let_def)

lemma cancel_quiet: "honours quiet_logins (cancel_code E phone h)"
  unfolding cancel_code_def by (auto intro!: logins.bind logins.seq)

lemma export_quiet: "honours quiet_logins (export_login_token E x)"
proof -
  have g: "honours quiet_logins (get_auth P)" for P
    by (auto simp: honours_def quiet_logins_def get_auth_def split: list.split)
  have n: "honours quiet_logins (\<lambda>db. (f db, db))" for f :: "login_db \<Rightarrow> 'a res"
    by (simp add: honours_def quiet_logins_def)
  have k: "honours quiet_logins (perm_key_of x)" "honours quiet_logins (create_qr E k)" for k
    by (auto simp: honours_def quiet_logins_def perm_key_eval create_qr_def Let_def split: option.split)
  have t: "honours quiet_logins (token_success a)" for a by (simp add: token_success_def)
  show ?thesis
    unfolding export_login_token_def by (auto intro!: logins.bind logins.seq g n k t split: option.split)
qed

end
