(* ===== verification/LoginRun.thy ===== *)
theory LoginRun
  imports LoginFacts
begin

text \<open>
  Any sequence of login requests by any clients: what each request can add to the logins, that every
  login goes back to a request that granted it, and that a password cannot be passed by.
\<close>

section \<open>Requests\<close>

datatype login_request =
    SendCode login_env login_ctx string
  | ResendCode login_env login_ctx string string
  | CancelCode login_env string string
  | SignIn login_env login_ctx string string "string option"
  | SignUp login_env login_ctx string string string "string option"
  | CheckPassword login_env login_ctx password_check
  | UpdatePasswordSettings login_env int password_check password_settings
  | ExportLoginToken login_env login_ctx
  | AcceptLoginToken login_env int "byte list"
  | LogOut login_ctx
  | ResetAuthorizations login_env login_ctx int
  | ImportBotAuthorization login_env login_ctx string

fun login_serve :: "login_request \<Rightarrow> login_db \<Rightarrow> login_db" where
  "login_serve (SendCode E x phone) db = snd (send_or_resend_code E x phone None db)"
| "login_serve (ResendCode E x phone h) db = snd (send_or_resend_code E x phone (Some h) db)"
| "login_serve (CancelCode E phone h) db = snd (cancel_code E phone h db)"
| "login_serve (SignIn E x phone h code) db = snd (sign_in E x phone h code db)"
| "login_serve (SignUp E x phone h f l) db = snd (sign_up E x phone h f l db)"
| "login_serve (CheckPassword E x check) db = snd (check_password E x check db)"
| "login_serve (UpdatePasswordSettings E u check new) db = snd (update_password_settings E u check new db)"
| "login_serve (ExportLoginToken E x) db = snd (export_login_token E x db)"
| "login_serve (AcceptLoginToken E u token) db = snd (accept_login_token E u token db)"
| "login_serve (LogOut x) db = snd (log_out x db)"
| "login_serve (ResetAuthorizations E x u) db = snd (reset_authorizations E x u db)"
| "login_serve (ImportBotAuthorization E x token) db = snd (import_bot_authorization E x token db)"

text \<open>A key is logged in as a user when it has an authorization that waits for no password.\<close>

definition logged_in :: "login_db \<Rightarrow> int \<Rightarrow> int \<Rightarrow> bool" where
  "logged_in db k u \<longleftrightarrow> (\<exists>a \<in> set (lg_auths db). au_key a = k \<and> au_user a = u \<and> \<not> au_mfa_pending a)"

text \<open>What lets the key \<open>k\<close> in as the user \<open>u\<close>.\<close>

fun grants :: "login_request \<Rightarrow> login_db \<Rightarrow> int \<Rightarrow> int \<Rightarrow> bool" where
  "grants (SignIn E x phone h given) db k u \<longleftrightarrow>
     lc_perm_key x = Some k \<and> no_password u db \<and>
     (\<exists>p code c a. validate_phone phone = Inr p \<and> given = Some code \<and> code_found p h (Some SIGNIN) db = Inr (Some c)
        \<and> int_of_text code = Inr (sc_code c) \<and> le_now E \<le> real_of_int (sc_expires_at c)
        \<and> user_by_phone p db = Some a \<and> ac_id a = u)"
| "grants (SignUp E x phone h f l) db k u \<longleftrightarrow>
     lc_perm_key x = Some k \<and> u = lg_next_id db \<and>
     (\<exists>p c. validate_phone phone = Inr p \<and> code_found p h (Some SIGNUP) db = Inr (Some c)
        \<and> le_now E \<le> real_of_int (sc_expires_at c) \<and> user_by_phone p db = None)"
| "grants (CheckPassword E x check) db k u \<longleftrightarrow>
     password_proved E u check db \<and>
     (\<exists>a \<in> set (lg_auths db). Some (au_id a) = lc_auth x \<and> Some (au_user a) = lc_user x \<and> au_key a = k \<and> au_user a = u
        \<and> au_mfa_pending a)"
| "grants (AcceptLoginToken E v token) db k u \<longleftrightarrow>
     v = u \<and> no_password u db \<and>
     (\<exists>q \<in> set (lg_qr_logins db). from_token token db = (Inr (Some q), db) \<and> qr_key q = k \<and> qr_auth q = None
        \<and> le_now E \<le> qr_created_at q + real_of_int EXPIRE_TIME)"
| "grants (ImportBotAuthorization E x token) db k u \<longleftrightarrow>
     lc_perm_key x = Some k \<and>
     (\<exists>a \<in> set (lg_accounts db). \<exists>b nonce. ac_id a = u \<and> ac_token_nonce a = Some nonce \<and> py_split (CHR '':'') token = [b, nonce]
        \<and> int_of_text b = Inr u)"
| "grants _ _ _ _ \<longleftrightarrow> False"

section \<open>The invariant of the tables\<close>

definition login_inv :: "login_db \<Rightarrow> bool" where
  "login_inv db \<longleftrightarrow> distinct (map au_key (lg_auths db)) \<and> distinct (map au_id (lg_auths db))
     \<and> (\<forall>a \<in> set (lg_auths db). au_id a < lg_next_id db) \<and> (\<forall>a \<in> set (lg_accounts db). ac_id a < lg_next_id db)"

lemma gets_in_logged:
  assumes "gets_in db db' k v pending" "logged_in db' k' u" "\<not> logged_in db k' u"
  shows "k' = k \<and> u = v \<and> \<not> pending"
  using assms unfolding gets_in_def logged_in_def by auto

lemma gets_in_inv:
  assumes "gets_in db db' k v pending" "login_inv db" "\<forall>a \<in> set (lg_accounts db'). ac_id a < lg_next_id db'"
  shows "login_inv db'"
proof -
  from assms(1) obtain a where a: "lg_auths db' = filter (\<lambda>b. au_key b \<noteq> k) (lg_auths db) @ [a]" "au_key a = k"
    "lg_next_id db \<le> au_id a" "au_id a < lg_next_id db'" "lg_next_id db \<le> lg_next_id db'"
    unfolding gets_in_def by blast
  have "au_id b \<noteq> au_id a" if "b \<in> set (lg_auths db)" for b using that assms(2) a(3) unfolding login_inv_def by force
  then show ?thesis using assms(2,3) a by (auto simp: login_inv_def distinct_map_filter)
qed

lemma accounts_below:
  "login_inv db \<Longrightarrow> lg_next_id db \<le> lg_next_id db' \<Longrightarrow> lg_accounts db' = lg_accounts db \<or> account_added db db'
    \<Longrightarrow> \<forall>a \<in> set (lg_accounts db'). ac_id a < lg_next_id db'"
  unfolding login_inv_def account_added_def by fastforce

lemma subseq_distinct: "subseq xs ys \<Longrightarrow> distinct ys \<Longrightarrow> distinct xs"
  by (induction rule: list_emb.induct) (auto dest: list_emb_set)

lemma inv_shrunk:
  assumes "login_inv db" "subseq (lg_auths db') (lg_auths db)" "lg_next_id db \<le> lg_next_id db'"
    and "lg_accounts db' = lg_accounts db \<or> account_added db db'"
  shows "login_inv db'"
proof -
  have "subseq (map au_key (lg_auths db')) (map au_key (lg_auths db))" "subseq (map au_id (lg_auths db')) (map au_id (lg_auths db))"
    using assms(2) by (auto intro: subseq_map)
  moreover have "set (lg_auths db') \<subseteq> set (lg_auths db)" using assms(2) by (auto dest: list_emb_set)
  ultimately show ?thesis using assms(1,3) accounts_below [OF assms(1,3,4)]
    unfolding login_inv_def by (fastforce intro: subseq_distinct)
qed

section \<open>What a request does to the logins\<close>

lemma login_step:
  obtains (shrunk) "subseq (lg_auths (login_serve r db)) (lg_auths db)" "lg_next_id db \<le> lg_next_id (login_serve r db)"
      "lg_accounts (login_serve r db) = lg_accounts db \<or> account_added db (login_serve r db)" "passwords_kept db (login_serve r db)"
  | (entered) k u pending where "gets_in db (login_serve r db) k u pending" "\<not> pending \<longrightarrow> grants r db k u"
      "lg_accounts (login_serve r db) = lg_accounts db \<or> account_added db (login_serve r db)" "passwords_kept db (login_serve r db)"
  | (proved) E x check a where "r = CheckPassword E x check" "a \<in> set (lg_auths db)" "grants r db (au_key a) (au_user a)"
      "lg_auths (login_serve r db) = map (\<lambda>b. if au_id b = au_id a then b\<lparr>au_mfa_pending := False\<rparr> else b) (lg_auths db)"
      "lg_accounts (login_serve r db) = lg_accounts db" "lg_next_id db \<le> lg_next_id (login_serve r db)"
      "passwords_kept db (login_serve r db)"
  | (changed) E u check new pw where "r = UpdatePasswordSettings E u check new" "password_proved E u check db"
      "subseq (lg_auths (login_serve r db)) (lg_auths db)" "lg_accounts (login_serve r db) = lg_accounts db"
      "lg_next_id db \<le> lg_next_id (login_serve r db)" "lg_passwords (login_serve r db) = (lg_passwords db)(u \<mapsto> pw)"
proof -
  have quiet: thesis if "honours quiet_logins m" "login_serve r db = snd (m db)" for m :: "'x login"
    using that shrunk by (auto simp: honours_def quiet_logins_def)
  show thesis
  proof (cases r)
    case (SendCode E x phone) then show thesis using quiet [OF send_quiet] by simp
  next
    case (ResendCode E x phone h) then show thesis using quiet [OF send_quiet] by simp
  next
    case (CancelCode E phone h) then show thesis using quiet [OF cancel_quiet] by simp
  next
    case (ExportLoginToken E x) then show thesis using quiet [OF export_quiet] by simp
  next
    case (SignIn E x phone h given)
    show thesis
    proof (cases rule: sign_in_cases [of E x phone h given db])
      case (same r' db') then show thesis using shrunk SignIn by simp
    next
      case e: (entered r' db' p code c a k)
      have "no_password (ac_id a) db \<longrightarrow> grants r db k (ac_id a)" using e SignIn by auto
      then show thesis using entered [of k "ac_id a" "\<not> no_password (ac_id a) db"] e SignIn by simp
    qed
  next
    case (SignUp E x phone h f l)
    show thesis
    proof (cases rule: sign_up_cases [of E x phone h f l db])
      case (same r' db') then show thesis using shrunk SignUp by simp
    next
      case e: (entered r' db' p c k)
      have "grants r db k (lg_next_id db)" using e SignUp by simp
      then show thesis using entered [of k "lg_next_id db" False] e SignUp by simp
    qed
  next
    case (CheckPassword E x check)
    show thesis
    proof (cases rule: check_password_cases [of E x check db])
      case (same r' db') then show thesis using shrunk CheckPassword by simp
    next
      case e: (entered r' db' a)
      have "grants r db (au_key a) (au_user a)" using e CheckPassword by auto
      then show thesis using proved [OF CheckPassword e(2)] e CheckPassword by simp
    qed
  next
    case (UpdatePasswordSettings E u check new)
    show thesis
    proof (cases rule: update_password_cases [of E u check new db])
      case (same r' db') then show thesis using shrunk UpdatePasswordSettings by simp
    next
      case e: (changed r' db' pw)
      then show thesis using changed [OF UpdatePasswordSettings e(2)] UpdatePasswordSettings by simp
    qed
  next
    case (AcceptLoginToken E u token)
    show thesis
    proof (cases rule: accept_cases [of E u token db])
      case (same r' db') then show thesis using shrunk AcceptLoginToken by simp
    next
      case e: (entered r' db' q)
      have "no_password u db \<longrightarrow> grants r db (qr_key q) u" using e AcceptLoginToken by auto
      then show thesis using entered [of "qr_key q" u "\<not> no_password u db"] e AcceptLoginToken by simp
    qed
  next
    case (LogOut x)
    then show thesis using shrunk by (simp add: log_out_auths)
  next
    case (ResetAuthorizations E x u)
    then show thesis using shrunk reset_auths [of E x u db] by simp
  next
    case (ImportBotAuthorization E x token)
    show thesis
    proof (cases rule: import_bot_cases [of E x token db])
      case (same e) then show thesis using shrunk ImportBotAuthorization by simp
    next
      case e: (entered db' b nonce a k)
      have "grants r db k (ac_id a)" using e ImportBotAuthorization by auto
      then show thesis using entered [of k "ac_id a" False] e ImportBotAuthorization by simp
    qed
  qed
qed

lemma serve_login_inv:
  assumes "login_inv db"
  shows "login_inv (login_serve r db)"
proof (cases rule: login_step [of r db])
  case shrunk then show ?thesis using inv_shrunk [OF assms] by blast
next
  case (entered k u pending)
  then show ?thesis using gets_in_inv [OF entered(1) assms] accounts_below [OF assms] by (auto simp: gets_in_def)
next
  case (proved E x check a)
  have "map au_id (lg_auths (login_serve r db)) = map au_id (lg_auths db)" "map au_key (lg_auths (login_serve r db)) = map au_key (lg_auths db)"
    unfolding proved(4) by simp_all
  moreover from this(1) have "au_id ` set (lg_auths (login_serve r db)) = au_id ` set (lg_auths db)" by (metis list.set_map)
  ultimately show ?thesis using assms proved(5,6) unfolding login_inv_def
    by (metis (no_types, lifting) image_iff order_less_le_trans)
next
  case (changed E u check new pw)
  then show ?thesis using inv_shrunk [OF assms] by blast
qed

text \<open>Nobody is let in without a reason.\<close>

lemma login_is_granted:
  assumes inv: "login_inv db" and new: "logged_in (login_serve r db) k u" "\<not> logged_in db k u"
  shows "grants r db k u"
proof (cases rule: login_step [of r db])
  case shrunk
  then have "set (lg_auths (login_serve r db)) \<subseteq> set (lg_auths db)" by (auto dest: list_emb_set)
  then show ?thesis using new unfolding logged_in_def by blast
next
  case (entered k' u' pending)
  then show ?thesis using gets_in_logged [OF entered(1) new] by simp
next
  case (proved E x check a)
  from new(1) obtain b where b: "b \<in> set (lg_auths db)" "au_key b = k" "au_user b = u" "\<not> au_mfa_pending b \<or> au_id b = au_id a"
    unfolding logged_in_def proved(4) by (auto split: if_splits)
  then have "au_id b = au_id a" using new(2) unfolding logged_in_def by blast
  moreover have "inj_on au_id (set (lg_auths db))" using inv by (simp add: login_inv_def distinct_map)
  ultimately have "b = a" using b(1) proved(2) by (auto dest: inj_onD)
  then show ?thesis using proved(3) b by simp
next
  case (changed E u' check new' pw)
  then have "set (lg_auths (login_serve r db)) \<subseteq> set (lg_auths db)" by (auto dest: list_emb_set)
  then show ?thesis using new unfolding logged_in_def by blast
qed

lemma serve_login_run: "login_inv db \<Longrightarrow> login_inv (fold login_serve rs db)"
  by (induction rs arbitrary: db) (auto intro: serve_login_inv)

section \<open>Histories\<close>

text \<open>Every login goes back to a request of the run that granted it.\<close>

lemma login_history:
  assumes "login_inv db" "logged_in (fold login_serve rs db) k u" "\<not> logged_in db k u"
  shows "\<exists>rs1 r rs2. rs = rs1 @ r # rs2 \<and> grants r (fold login_serve rs1 db) k u"
  using assms
proof (induction rs arbitrary: db)
  case (Cons r rs)
  show ?case
  proof (cases "logged_in (login_serve r db) k u")
    case True
    then have "grants r db k u" using login_is_granted Cons.prems(1,3) by blast
    then show ?thesis by (metis append_Nil fold_simps(1))
  next
    case False
    then obtain rs1 r' rs2 where "rs = rs1 @ r' # rs2" "grants r' (fold login_serve rs1 (login_serve r db)) k u"
      using Cons.IH [OF serve_login_inv [OF Cons.prems(1)], of r] Cons.prems(2) by auto
    then have "r # rs = (r # rs1) @ r' # rs2 \<and> grants r' (fold login_serve (r # rs1) db) k u" by simp
    then show ?thesis by blast
  qed
qed simp

section \<open>Passwords\<close>

text \<open>A request that proves the password of \<open>u\<close>.\<close>

fun proves :: "login_request \<Rightarrow> login_db \<Rightarrow> int \<Rightarrow> bool" where
  "proves (CheckPassword E x check) db u \<longleftrightarrow> lc_user x = Some u \<and> password_proved E u check db"
| "proves (UpdatePasswordSettings E v check new) db u \<longleftrightarrow> v = u \<and> password_proved E u check db"
| "proves _ db u \<longleftrightarrow> False"

fun unproved :: "login_request list \<Rightarrow> login_db \<Rightarrow> int \<Rightarrow> bool" where
  "unproved [] db u \<longleftrightarrow> True"
| "unproved (r # rs) db u \<longleftrightarrow> \<not> proves r db u \<and> unproved rs (login_serve r db) u"

text \<open>A user with a password, who is no bot and was there before.\<close>

definition guarded :: "int \<Rightarrow> login_db \<Rightarrow> bool" where
  "guarded u db \<longleftrightarrow> \<not> no_password u db \<and> u < lg_next_id db \<and> (\<forall>a \<in> set (lg_accounts db). ac_id a = u \<longrightarrow> ac_token_nonce a = None)"

lemma guarded_not_granted: "guarded u db \<Longrightarrow> \<not> proves r db u \<Longrightarrow> \<not> grants r db k u"
  by (cases r) (auto simp: guarded_def)

lemma guarded_step:
  assumes "guarded u db" "\<not> proves r db u"
  shows "guarded u (login_serve r db)"
proof -
  have acc: "\<forall>a \<in> set (lg_accounts db'). ac_id a = u \<longrightarrow> ac_token_nonce a = None"
    if "lg_accounts db' = lg_accounts db \<or> account_added db db'" for db'
    using that assms(1) by (auto simp: guarded_def account_added_def)
  have pw: "\<not> no_password u db'" if "passwords_kept db db'" for db'
    using that assms(1) unfolding guarded_def no_password_def passwords_kept_def
    by (auto split: option.splits)
  show ?thesis
  proof (cases rule: login_step [of r db])
    case shrunk then show ?thesis using acc pw assms(1) by (auto simp: guarded_def)
  next
    case (entered k v pending) then show ?thesis using acc pw assms(1) by (auto simp: guarded_def gets_in_def)
  next
    case (proved E x check a) then show ?thesis using acc pw assms(1) by (auto simp: guarded_def)
  next
    case (changed E v check new p)
    then have "v \<noteq> u" using assms(2) by auto
    then have "no_password u (login_serve r db) = no_password u db" using changed(6) by (simp add: no_password_def)
    then show ?thesis using acc assms(1) changed by (auto simp: guarded_def)
  qed
qed

text \<open>Without a proof of the password no key gets in.\<close>

lemma password_guards:
  assumes "login_inv db" "guarded u db" "unproved rs db u" "logged_in (fold login_serve rs db) k u"
  shows "logged_in db k u"
  using assms
proof (induction rs arbitrary: db)
  case (Cons r rs)
  have "logged_in (login_serve r db) k u"
    using Cons.IH [OF serve_login_inv [OF Cons.prems(1)], of r] Cons.prems(2-4) guarded_step by simp
  then show ?case using login_is_granted [OF Cons.prems(1)] guarded_not_granted [OF Cons.prems(2)] Cons.prems(3)
    by (metis unproved.simps(2))
qed simp

end
