(* ===== verification/LoginLimits.thy ===== *)
theory LoginLimits
  imports LoginRun
begin

text \<open>
  The limits in a run of login requests: how many wrong codes and how many sent codes an address gets
  through, and what a successful login forgets.
\<close>

section \<open>What leaves the counters alone\<close>

definition limits_kept :: "login_db \<Rightarrow> login_db \<Rightarrow> bool" where
  "limits_kept db db' \<longleftrightarrow> lg_limits db' = lg_limits db"

interpretation limits: guarantee limits_kept
  by unfold_locales (auto simp: limits_kept_def)

lemma limit_steps [intro]:
  "honours limits_kept (le_require b c m)" "honours limits_kept (ask_limits f)" "honours limits_kept (save_code d)"
  "honours limits_kept (delete_code d)" "honours limits_kept (get_code p h q)" "honours limits_kept (create_code E p)"
  "honours limits_kept (check_code now g d)" "honours limits_kept (check_code_cls now found)"
  "honours limits_kept (get_or_create_password E u)" "honours limits_kept (perm_key_of x)" "honours limits_kept (delete_auths P)"
  "honours limits_kept (create_auth E u k mfa)" "honours limits_kept (get_auth P)" "honours limits_kept (create_account p nm l)"
  "honours limits_kept (check_user_password E u pw check)" "honours limits_kept (from_token token)"
  by (auto simp: honours_def limits_kept_def le_require_def ask_limits_def save_code_def delete_code_def get_code_eval
      create_code_def Let_def check_code_cls_def check_code_eval get_or_create_password_def perm_key_eval delete_auths_def
      create_auth_def get_auth_def create_account_def check_user_password_def split_def
      dest: from_token_state split: option.split sum.split list.split) (metis from_token_state surjective_pairing)

lemma authorize_limits [intro]: "honours limits_kept (authorize E x u)"
  unfolding authorize_def by (auto intro!: limits.bind limits.seq)

lemma other_limits [intro]:
  "honours limits_kept (cancel_code E phone h)" "honours limits_kept (sign_up E x phone h f l)"
  "honours limits_kept (check_password E x check)" "honours limits_kept (update_password_settings E u check new)"
  "honours limits_kept (export_login_token E x)" "honours limits_kept (accept_login_token E u token)"
  "honours limits_kept (log_out x)" "honours limits_kept (reset_authorizations E x u)"
  "honours limits_kept (import_bot_authorization E x bt)"
proof -
  have n: "honours limits_kept (\<lambda>db. (f db, db))" for f :: "login_db \<Rightarrow> 'a res"
    by (simp add: honours_def limits_kept_def)
  have u: "honours limits_kept (supd (\<lambda>db. db\<lparr>lg_auths := f db\<rparr>))" "honours limits_kept (supd (\<lambda>db. db\<lparr>lg_passwords := g db\<rparr>))"
    "honours limits_kept (supd (\<lambda>db. db\<lparr>lg_qr_logins := q db\<rparr>))" for f g q by (simp_all add: honours_def limits_kept_def)
  have q: "honours limits_kept (create_qr E k)" "honours limits_kept (token_success a)" for k a
    by (simp_all add: honours_def limits_kept_def create_qr_def token_success_def Let_def)
  note r = limits.bind limits.seq n u q
  show "honours limits_kept (cancel_code E phone h)" unfolding cancel_code_def by (auto intro!: r)
  have "honours limits_kept (register E x p f l)" for p unfolding register_def by (auto intro!: r)
  then show "honours limits_kept (sign_up E x phone h f l)" unfolding sign_up_def by (auto intro!: r)
  show "honours limits_kept (check_password E x check)" unfolding check_password_def by (auto intro!: r)
  show "honours limits_kept (update_password_settings E u check new)" unfolding update_password_settings_def by (auto intro!: r)
  show "honours limits_kept (export_login_token E x)" unfolding export_login_token_def by (auto intro!: r split: option.split)
  show "honours limits_kept (accept_login_token E u token)" unfolding accept_login_token_def by (auto intro!: r split: option.split)
  show "honours limits_kept (log_out x)" unfolding log_out_def by auto
  show "honours limits_kept (reset_authorizations E x u)" unfolding reset_authorizations_def by (auto intro!: r)
  show "honours limits_kept (import_bot_authorization E x bt)"
    unfolding import_bot_authorization_def by (auto intro!: r split: list.split option.split)
qed

section \<open>Comparing a code\<close>

text \<open>Whether the request gets to the comparison of the code, and how that ends.\<close>

definition code_compared :: "login_env \<Rightarrow> login_ctx \<Rightarrow> string \<Rightarrow> string \<Rightarrow> string option \<Rightarrow> login_db \<Rightarrow> sent_code res option" where
  "code_compared E x phone h given db =
     (case (given, validate_phone phone) of
        (Some code, Inr p) \<Rightarrow>
          if length h = CODE_HASH_SIZE
             \<and> check_sign_in_allowed (le_cfg E) (le_now E) (lc_ip x) (lc_auth_key_id x) (lg_limits db) = Inr ()
             \<and> (\<exists>n. int_of_text code = Inr n)
          then (case code_found p h (Some SIGNIN) db of Inl _ \<Rightarrow> None | Inr f \<Rightarrow> Some (fst (try_code E x code f db)))
          else None
      | _ \<Rightarrow> None)"

lemma try_code_limits:
  assumes "int_of_text code = Inr n" "try_code E x code f db = (r, db')"
  shows "lg_limits db' = (case r of Inl e \<Rightarrow> record_sign_in_failure (le_cfg E) (le_now E) (lc_ip x) (lc_auth_key_id x) (lg_limits db)
    | Inr c \<Rightarrow> lg_limits db)"
  using assms by (auto simp: try_code_def check_code_eval login_eval is_rpc_error_def split: option.splits if_splits)

lemma sign_in_limits:
  "lg_limits (snd (sign_in E x phone h given db)) =
     (case code_compared E x phone h given db of
        None \<Rightarrow> lg_limits db
      | Some (Inl e) \<Rightarrow> record_sign_in_failure (le_cfg E) (le_now E) (lc_ip x) (lc_auth_key_id x) (lg_limits db)
      | Some (Inr c) \<Rightarrow> clear_sign_in_failures (le_cfg E) (lc_ip x) (lc_auth_key_id x) (lg_limits db))"
proof (cases "code_compared E x phone h given db")
  case None
  then have "snd (sign_in E x phone h given db) = db"
    by (auto simp: sign_in_def login_eval code_compared_def split: option.splits sum.splits if_splits)
  then show ?thesis using None by simp
next
  case (Some r)
  then obtain code p n f where t: "given = Some code" "validate_phone phone = Inr p" "length h = CODE_HASH_SIZE"
    "check_sign_in_allowed (le_cfg E) (le_now E) (lc_ip x) (lc_auth_key_id x) (lg_limits db) = Inr ()"
    "int_of_text code = Inr n" "code_found p h (Some SIGNIN) db = Inr f" "r = fst (try_code E x code f db)"
    by (auto simp: code_compared_def split: option.splits sum.splits if_splits)
  obtain db1 where tried: "try_code E x code f db = (r, db1)" using t(7) by (metis surj_pair fst_conv)
  show ?thesis
  proof (cases r)
    case (Inl e)
    then show ?thesis using Some tried try_code_limits [OF t(5) tried]
      by (simp add: sign_in_def login_eval t(1-6) sbind_def [of "try_code E x code f"])
  next
    case (Inr c)
    have "lg_limits (snd (authorize E x u db2)) = lg_limits db2" for u db2
      using authorize_limits [of E x u] by (simp add: honours_def limits_kept_def)
    then show ?thesis using Some tried try_code_limits [OF t(5) tried] Inr
      by (simp add: sign_in_def login_eval t(1-6) sbind_def [of "try_code E x code f"] split: option.split)
  qed
qed

fun wrong_guess :: "string \<Rightarrow> login_request \<Rightarrow> login_db \<Rightarrow> bool" where
  "wrong_guess ip (SignIn E x phone h given) db \<longleftrightarrow> lc_ip x = ip \<and> (\<exists>e. code_compared E x phone h given db = Some (Inl e))"
| "wrong_guess ip _ db \<longleftrightarrow> False"

fun right_guess :: "string \<Rightarrow> login_request \<Rightarrow> login_db \<Rightarrow> bool" where
  "right_guess ip (SignIn E x phone h given) db \<longleftrightarrow> lc_ip x = ip \<and> (\<exists>c. code_compared E x phone h given db = Some (Inr c))"
| "right_guess ip _ db \<longleftrightarrow> False"

fun limited_by :: "rl_cfg \<Rightarrow> login_request \<Rightarrow> bool" where
  "limited_by cfg (SignIn E x phone h given) \<longleftrightarrow> le_cfg E = cfg"
| "limited_by cfg _ \<longleftrightarrow> True"

fun guess_time :: "login_request \<Rightarrow> real" where
  "guess_time (SignIn E x phone h given) = le_now E"
| "guess_time _ = 0"

text \<open>The times of the wrong codes of an address in a run.\<close>

fun wrong_guesses :: "string \<Rightarrow> login_request list \<Rightarrow> login_db \<Rightarrow> real list" where
  "wrong_guesses ip [] db = []"
| "wrong_guesses ip (r # rs) db =
     (if wrong_guess ip r db then [guess_time r] else []) @ wrong_guesses ip rs (login_serve r db)"

fun never_right :: "string \<Rightarrow> login_request list \<Rightarrow> login_db \<Rightarrow> bool" where
  "never_right ip [] db \<longleftrightarrow> True"
| "never_right ip (r # rs) db \<longleftrightarrow> \<not> right_guess ip r db \<and> never_right ip rs (login_serve r db)"

text \<open>Sending a code counts no failure.\<close>

definition fails_kept :: "login_db \<Rightarrow> login_db \<Rightarrow> bool" where
  "fails_kept db db' \<longleftrightarrow> (\<forall>t ip. count_at t (FailByIp ip) (lg_limits db') = count_at t (FailByIp ip) (lg_limits db))"

interpretation fails: guarantee fails_kept
  by unfold_locales (auto simp: fails_kept_def)

lemma limits_fails: "honours limits_kept m \<Longrightarrow> honours fails_kept m"
  by (auto simp: honours_def limits_kept_def fails_kept_def)

lemma record_fails [intro]: "honours fails_kept (with_limits (record_send_code cfg t ip key))"
proof -
  have "count_at s (FailByIp i) (record_send_code cfg t ip key l) = count_at s (FailByIp i) l" for s i l
    using record_send_get(3) [of cfg "FailByIp i" ip key s t l]
    by (cases "rl_enabled cfg") (auto simp: count_at_def record_send_code_def)
  then show ?thesis by (simp add: honours_def fails_kept_def with_limits_def)
qed

lemma send_fails: "honours fails_kept (send_or_resend_code E x phone given)"
  unfolding send_or_resend_code_def
  by (auto intro!: fails.bind fails.seq limits_fails [OF limit_steps(1)] limits_fails [OF limit_steps(2)]
      limits_fails [OF limit_steps(3)] limits_fails [OF limit_steps(5)] limits_fails [OF limit_steps(6)]
      limits_fails [OF limit_steps(8)] simp: Let_def split: option.split)

lemma count_step:
  assumes "limited_by cfg r" "rl_enabled cfg"
  shows "\<not> wrong_guess ip r db \<Longrightarrow> \<not> right_guess ip r db
      \<Longrightarrow> count_at t (FailByIp ip) (lg_limits (login_serve r db)) = count_at t (FailByIp ip) (lg_limits db)"
    "wrong_guess ip r db \<Longrightarrow> count_at t (FailByIp ip) (lg_limits (login_serve r db))
      = (if t < guess_time r + real_of_int (fail_window cfg) then count_at (guess_time r) (FailByIp ip) (lg_limits db) + 1 else 0)"
    "wrong_guess ip r db \<Longrightarrow> 0 < fail_limit cfg \<Longrightarrow> count_at (guess_time r) (FailByIp ip) (lg_limits db) < fail_limit cfg"
proof -
  have kept: "lg_limits (snd (m db)) = lg_limits db" if "honours limits_kept m" for m :: "'x login"
    using that by (simp add: honours_def limits_kept_def)
  show "count_at t (FailByIp ip) (lg_limits (login_serve r db)) = count_at t (FailByIp ip) (lg_limits db)"
    if "\<not> wrong_guess ip r db" "\<not> right_guess ip r db"
  proof (cases r)
    case (SendCode E x phone) then show ?thesis using send_fails by (simp add: honours_def fails_kept_def)
  next
    case (ResendCode E x phone h) then show ?thesis using send_fails by (simp add: honours_def fails_kept_def)
  next
    case (SignIn E x phone h given)
    have e: "rl_enabled (le_cfg E)" using assms SignIn by simp
    then have "lc_ip x \<noteq> ip \<or> code_compared E x phone h given db = None"
      using that SignIn by (cases "code_compared E x phone h given db"; cases "the (code_compared E x phone h given db)") auto
    then show ?thesis using SignIn record_failure_get(2) [OF e, of "FailByIp ip" "lc_ip x"] clear_get(3) [OF e, of "FailByIp ip" "lc_ip x"]
      by (auto simp: sign_in_limits count_at_def split: option.split sum.split)
  qed (simp_all add: kept [OF other_limits(1)] kept [OF other_limits(2)] kept [OF other_limits(3)] kept [OF other_limits(4)]
      kept [OF other_limits(5)] kept [OF other_limits(6)] kept [OF other_limits(7)] kept [OF other_limits(8)] kept [OF other_limits(9)])
  show "count_at t (FailByIp ip) (lg_limits (login_serve r db))
      = (if t < guess_time r + real_of_int (fail_window cfg) then count_at (guess_time r) (FailByIp ip) (lg_limits db) + 1 else 0)"
    if "wrong_guess ip r db"
    using that assms by (cases r) (auto simp: sign_in_limits record_failure_get(1))
  show "count_at (guess_time r) (FailByIp ip) (lg_limits db) < fail_limit cfg" if "wrong_guess ip r db" "0 < fail_limit cfg"
    using that assms by (cases r) (auto simp: code_compared_def intro: sign_in_allowed split: option.splits sum.splits if_splits)
qed

section \<open>How many guesses\<close>

lemma guesses_from:
  assumes "rl_enabled cfg" "0 < fail_limit cfg" "list_all (limited_by cfg) rs" "never_right ip rs db"
    and "\<forall>t < w. n \<le> count_at t (FailByIp ip) (lg_limits db)"
    and "wrong_guesses ip rs db = t # ts" "t < w" "successively (\<lambda>s t. t < s + real_of_int (fail_window cfg)) (t # ts)"
  shows "n + 1 + int (length ts) \<le> fail_limit cfg"
  using assms
proof (induction rs arbitrary: db w n t ts)
  case (Cons r rs)
  have lim: "limited_by cfg r" "list_all (limited_by cfg) rs" and nr: "\<not> right_guess ip r db" "never_right ip rs (login_serve r db)"
    using Cons.prems(3,4) by simp_all
  show ?case
  proof (cases "wrong_guess ip r db")
    case False
    have "\<forall>t < w. n \<le> count_at t (FailByIp ip) (lg_limits (login_serve r db))"
      using count_step(1) [OF lim(1) Cons.prems(1) False nr(1)] Cons.prems(5) by simp
    then show ?thesis
      using Cons.IH [OF Cons.prems(1,2) lim(2) nr(2), of w n t ts] Cons.prems(6-8) False by simp
  next
    case True
    then have t: "guess_time r = t" "wrong_guesses ip rs (login_serve r db) = ts" using Cons.prems(6) by simp_all
    have c: "n \<le> count_at t (FailByIp ip) (lg_limits db)" using Cons.prems(5,7) by blast
    have lt: "count_at t (FailByIp ip) (lg_limits db) < fail_limit cfg"
      using count_step(3) [OF lim(1) Cons.prems(1) True Cons.prems(2)] t by simp
    show ?thesis
    proof (cases ts)
      case Nil then show ?thesis using c lt by simp
    next
      case (Cons t' ts')
      have "\<forall>s < t + real_of_int (fail_window cfg). n + 1 \<le> count_at s (FailByIp ip) (lg_limits (login_serve r db))"
        using count_step(2) [OF lim(1) Cons.prems(1) True] t c by simp
      then show ?thesis
        using Cons.IH [OF Cons.prems(1,2) lim(2) nr(2), of "t + real_of_int (fail_window cfg)" "n + 1" t' ts'] Cons.prems(8) t Cons
        by simp
    qed
  qed
qed simp

lemma guesses_bounded:
  assumes "rl_enabled cfg" "0 < fail_limit cfg" "list_all (limited_by cfg) rs" "never_right ip rs db"
    and "\<forall>t. 0 \<le> count_at t (FailByIp ip) (lg_limits db)"
    and "successively (\<lambda>s t. t < s + real_of_int (fail_window cfg)) (wrong_guesses ip rs db)"
  shows "int (length (wrong_guesses ip rs db)) \<le> fail_limit cfg"
proof (cases "wrong_guesses ip rs db")
  case (Cons t ts)
  then show ?thesis using guesses_from [OF assms(1-4), of "t + 1" 0 t ts] assms(5,6) by simp
qed (use assms(2) in simp)

text \<open>A right code, of any phone number, makes the address innocent again.\<close>

lemma right_code_forgets:
  assumes "code_compared E x phone h given db = Some (Inr c)" "rl_enabled (le_cfg E)" "0 < fail_limit (le_cfg E)"
    and "cache_get t (Shadow (lc_ip x)) (lg_limits db) = None"
  shows "check_sign_in_allowed (le_cfg E) t (lc_ip x) (lc_auth_key_id x) (lg_limits (snd (sign_in E x phone h given db))) = Inr ()"
  using cleared_allowed [OF assms(2,3,4)] assms(1) by (simp add: sign_in_limits)

section \<open>Bans\<close>

definition stays_unbanned :: "rl_cfg \<Rightarrow> login_db \<Rightarrow> login_db \<Rightarrow> bool" where
  "stays_unbanned cfg = keeps (\<lambda>db. unbanned cfg (lg_limits db))"

interpretation unbans: guarantee "stays_unbanned cfg" for cfg
  by unfold_locales (auto simp: stays_unbanned_def keeps_def)

lemma limits_unbans: "honours limits_kept m \<Longrightarrow> honours (stays_unbanned cfg) m"
  by (auto simp: honours_def limits_kept_def stays_unbanned_def keeps_def)

lemma send_unbans: "honours (stays_unbanned cfg) (send_or_resend_code E x phone given)"
proof -
  have "honours (stays_unbanned cfg) (with_limits (record_send_code c t ip key))" for c t ip key
    by (simp add: honours_def stays_unbanned_def keeps_def with_limits_def unbanned_send)
  then show ?thesis unfolding send_or_resend_code_def
    by (auto intro!: unbans.bind unbans.seq limits_unbans [OF limit_steps(1)] limits_unbans [OF limit_steps(2)]
      limits_unbans [OF limit_steps(3)] limits_unbans [OF limit_steps(5)] limits_unbans [OF limit_steps(6)]
      limits_unbans [OF limit_steps(8)] simp: Let_def split: option.split)
qed

lemma unbanned_serve:
  assumes "unbanned cfg (lg_limits db)" "0 < fail_limit cfg" "fail_limit cfg < shadow_threshold cfg" "limited_by cfg r"
  shows "unbanned cfg (lg_limits (login_serve r db))"
proof -
  have other: "unbanned cfg (lg_limits (snd (m db)))" if "honours limits_kept m" for m :: "'x login"
    using that assms(1) by (simp add: honours_def limits_kept_def)
  have send: "unbanned cfg (lg_limits (snd (send_or_resend_code E x phone given db)))" for E x phone given
    using send_unbans [of cfg E x phone given] assms(1) by (simp add: honours_def stays_unbanned_def keeps_def)
  show ?thesis
  proof (cases r)
    case (SignIn E x phone h given)
    then show ?thesis using assms unbanned_clear [OF assms(1,2)] unbanned_failure [OF assms(1-3)]
      by (auto simp: sign_in_limits code_compared_def split: option.split sum.split prod.split)
  qed (simp_all add: send other [OF other_limits(1)] other [OF other_limits(2)] other [OF other_limits(3)] other [OF other_limits(4)]
      other [OF other_limits(5)] other [OF other_limits(6)] other [OF other_limits(7)] other [OF other_limits(8)] other [OF other_limits(9)])
qed

lemma never_banned:
  assumes "unbanned cfg (lg_limits db)" "0 < fail_limit cfg" "fail_limit cfg < shadow_threshold cfg" "list_all (limited_by cfg) rs"
  shows "unbanned cfg (lg_limits (fold login_serve rs db))"
  using assms by (induction rs arbitrary: db) (simp_all add: unbanned_serve)

end
