(* ===== verification/LoginCodes.thy ===== *)
theory LoginCodes
  imports LoginLimits
begin

text \<open>
  The life of a login code: the hash that names it, the code that was sent is found again and lets in,
  and a code that was used is not found any more.
\<close>

section \<open>The hash of a code\<close>

lemma parse_code_hash_of:
  assumes "phone_code_hash c = Inr h" "0 \<le> sc_hash c" "sc_hash c < 2 ^ 128"
  shows "parse_code_hash h = Inr (sc_id c, sc_hash c)" "length h = CODE_HASH_SIZE"
proof -
  obtain b where b: "Int_write TLong True (sc_id c) = Inr b" and h: "h = bytes_hex b @ uuid_hex (sc_hash c)"
    using assms(1) by (auto simp: phone_code_hash_def rbind_def split: sum.splits)
  have len: "length (bytes_hex b) = 16" using Int_write_length [OF b] by (simp add: bytes_hex_length)
  show "parse_code_hash h = Inr (sc_id c, sc_hash c)"
    using b by (simp add: parse_code_hash_def h len fromhex_hex uuid_of_hex [OF assms(2,3)] Int_read_bytes_write rbind_def)
  show "length h = CODE_HASH_SIZE" using len by (simp add: h CODE_HASH_SIZE_def uuid_hex_def)
qed

definition codes_below :: "login_db \<Rightarrow> bool" where
  "codes_below db \<longleftrightarrow> (\<forall>c \<in> set (lg_codes db). sc_id c < lg_next_id db)"

section \<open>Sending\<close>

definition new_code :: "login_env \<Rightarrow> string \<Rightarrow> login_db \<Rightarrow> sent_code" where
  "new_code E p db = \<lparr>sc_id = lg_next_id db, sc_phone_number = p, sc_code = le_code E, sc_hash = le_uuid E,
     sc_expires_at = gen_code_expires_at (le_now E), sc_used = False, sc_purpose = SIGNIN\<rparr>"

lemma create_code_eval:
  "sbind (create_code E p) f db = (if length p > 20 then (Inl OtherError, db) else
     f (new_code E p db) (db\<lparr>lg_codes := lg_codes db @ [new_code E p db], lg_next_id := lg_next_id db + 1\<rparr>))"
  by (simp add: create_code_def sbind_def Let_def new_code_def)

lemma send_code_sent:
  assumes "send_or_resend_code E x phone None db = (Inr (h, place), db')" "validate_phone phone = Inr p"
  obtains c where "phone_code_hash c = Inr h" "sc_id c = lg_next_id db" "sc_phone_number c = p" "sc_code c = le_code E"
    "sc_hash c = le_uuid E" "sc_expires_at c = gen_code_expires_at (le_now E)" "\<not> sc_used c" "sc_purpose c = SIGNIN"
    "db' = db\<lparr>lg_codes := lg_codes db @ [c], lg_next_id := lg_next_id db + 1,
       lg_limits := record_send_code (le_cfg E) (le_now E) (lc_ip x) (lc_auth_key_id x) (lg_limits db)\<rparr>"
proof -
  let ?c = "new_code E p db"
  have "phone_code_hash ?c = Inr h \<and> db' = db\<lparr>lg_codes := lg_codes db @ [?c], lg_next_id := lg_next_id db + 1,
       lg_limits := record_send_code (le_cfg E) (le_now E) (lc_ip x) (lc_auth_key_id x) (lg_limits db)\<rparr>"
    using assms by (auto simp: send_or_resend_code_def login_eval create_code_eval split: if_splits sum.splits)
  then show thesis by (intro that [of ?c]) (simp_all add: new_code_def)
qed

lemma code_found_new:
  assumes "codes_below db" "phone_code_hash c = Inr h" "0 \<le> sc_hash c" "sc_hash c < 2 ^ 128" "sc_id c = lg_next_id db"
    "\<not> sc_used c" "lg_codes db' = lg_codes db @ [c]"
  shows "code_found (sc_phone_number c) h (Some (sc_purpose c)) db' = Inr (Some c)"
proof -
  have "filter (\<lambda>d. sc_id d = sc_id c \<and> sc_hash d = sc_hash c \<and> sc_phone_number d = sc_phone_number c \<and> \<not> sc_used d
      \<and> sc_purpose d = sc_purpose c) (lg_codes db) = []"
    using assms(1,5) by (auto simp: codes_below_def filter_empty_conv)
  then show ?thesis using parse_code_hash_of [OF assms(2-4)] assms(6,7) by (simp add: code_found_def rbind_def get_or_none_def)
qed

section \<open>Signing in with a code that is found\<close>

lemma sign_in_right:
  assumes "length h = CODE_HASH_SIZE" "validate_phone phone = Inr p" "int_of_text given = Inr (sc_code c)"
    "check_sign_in_allowed (le_cfg E) (le_now E) (lc_ip x) (lc_auth_key_id x) (lg_limits db) = Inr ()"
    "code_found p h (Some SIGNIN) db = Inr (Some c)" "le_now E \<le> real_of_int (sc_expires_at c)"
  shows "sign_in E x phone h (Some given) db =
    (let db1 = db\<lparr>lg_codes := map (\<lambda>d. if sc_id d = sc_id c then c\<lparr>sc_used := False,
           sc_expires_at := gen_code_expires_at (le_now E), sc_purpose := SIGNUP\<rparr> else d) (lg_codes db),
         lg_limits := clear_sign_in_failures (le_cfg E) (lc_ip x) (lc_auth_key_id x) (lg_limits db)\<rparr>
     in case user_by_phone p db of None \<Rightarrow> (Inr SignUpRequired, db1) | Some a \<Rightarrow> authorize E x (ac_id a) db1)"
  using assms by (simp add: sign_in_def login_eval try_code_def check_code_eval sbind_def [of "\<lambda>db. (Inr c, db)"] user_by_phone_def
      not_less [symmetric] split: option.split)

lemma authorize_right:
  assumes "lc_perm_key x = Some k" "k \<in> lg_perm_keys db"
  shows "fst (authorize E x u db) = (if no_password u db then Inr (LoggedIn u) else Inl (ErrorRpc 401 ''SESSION_PASSWORD_NEEDED''))"
    "no_password u db \<Longrightarrow> logged_in (snd (authorize E x u db)) k u"
    "lg_codes (snd (authorize E x u db)) = lg_codes db"
  using assms by (auto simp: authorize_def login_eval delete_auths_eval create_auth_eval password_row_none
      logged_in_def made_auth_def)

section \<open>A spent code\<close>

lemma authorize_codes: "lg_codes (snd (authorize E x u db)) = lg_codes db"
  by (auto simp: authorize_def login_eval delete_auths_eval create_auth_eval split: option.split)

lemma compared_right:
  assumes "code_compared E x phone h given db = Some (Inr c)"
  obtains code p where "given = Some code" "validate_phone phone = Inr p" "length h = CODE_HASH_SIZE"
    "check_sign_in_allowed (le_cfg E) (le_now E) (lc_ip x) (lc_auth_key_id x) (lg_limits db) = Inr ()"
    "int_of_text code = Inr (sc_code c)" "code_found p h (Some SIGNIN) db = Inr (Some c)" "le_now E \<le> real_of_int (sc_expires_at c)"
proof -
  from assms obtain code p f where 1: "given = Some code" "validate_phone phone = Inr p" "length h = CODE_HASH_SIZE"
    "check_sign_in_allowed (le_cfg E) (le_now E) (lc_ip x) (lc_auth_key_id x) (lg_limits db) = Inr ()"
    "code_found p h (Some SIGNIN) db = Inr f" "fst (try_code E x code f db) = Inr c"
    by (auto simp: code_compared_def split: option.splits sum.splits if_splits)
  then obtain db1 where "try_code E x code f db = (Inr c, db1)" by (metis surj_pair fst_conv)
  then show thesis using that 1 try_code_ok by metis
qed

lemma code_found_in:
  "code_found p h q db = Inr (Some c) \<Longrightarrow> c \<in> set (lg_codes db) \<and> parse_code_hash h = Inr (sc_id c, sc_hash c)"
  by (auto simp: code_found_def rbind_def dest!: get_or_none_found split: sum.splits)

lemma spent_not_found:
  assumes "distinct (map sc_id (lg_codes db))" "code_compared E x phone h given db = Some (Inr c)"
  shows "code_found p' h (Some SIGNIN) (snd (sign_in E x phone h given db)) = Inr None"
proof -
  obtain code p where t: "given = Some code" "validate_phone phone = Inr p" "length h = CODE_HASH_SIZE"
    "check_sign_in_allowed (le_cfg E) (le_now E) (lc_ip x) (lc_auth_key_id x) (lg_limits db) = Inr ()"
    "int_of_text code = Inr (sc_code c)" "code_found p h (Some SIGNIN) db = Inr (Some c)" "le_now E \<le> real_of_int (sc_expires_at c)"
    by (rule compared_right [OF assms(2)])
  let ?spent = "c\<lparr>sc_used := False, sc_expires_at := gen_code_expires_at (le_now E), sc_purpose := SIGNUP\<rparr>"
  have codes: "lg_codes (snd (sign_in E x phone h given db)) = map (\<lambda>d. if sc_id d = sc_id c then ?spent else d) (lg_codes db)"
    unfolding t(1) sign_in_right [OF t(3,2,5,4,6,7)] by (simp add: Let_def authorize_codes split: option.split)
  have h: "parse_code_hash h = Inr (sc_id c, sc_hash c)" using code_found_in [OF t(6)] by simp
  have "filter (\<lambda>d. sc_id d = sc_id c \<and> sc_hash d = sc_hash c \<and> sc_phone_number d = p' \<and> \<not> sc_used d \<and> sc_purpose d = SIGNIN)
      (map (\<lambda>d. if sc_id d = sc_id c then ?spent else d) (lg_codes db)) = []"
    by (auto simp: filter_empty_conv)
  then show ?thesis by (simp add: code_found_def rbind_def h codes get_or_none_def)
qed

lemma no_code_no_entry:
  assumes "\<And>p. code_found p h (Some SIGNIN) db = Inr None"
  shows "\<exists>e. fst (sign_in E x phone h given db) = Inl e"
  using assms by (auto simp: sign_in_def login_eval try_code_def sbind_def [of "\<lambda>db. (Inl e, db)" for e]
      sbind_def [of "sthen (with_limits g) m" for g m] split: option.split sum.split)

end
