(* ===== verification/LoginProperties.thy ===== *)
theory LoginProperties
  imports LoginCodes
begin

text \<open>
  What signing in promises: who gets in and why, what the code, the password and the limits keep out,
  and where they do not.
\<close>

section \<open>A small server\<close>

definition demo_crypto :: crypto where
  "demo_crypto = \<lparr>sha1 = (\<lambda>_. replicate 20 0), sha256 = (\<lambda>_. replicate 32 1), ige256_encrypt = (\<lambda>x _ _. x),
     ige256_decrypt = (\<lambda>x _ _. x)\<rparr>"

definition demo_limits :: rl_cfg where
  "demo_limits = \<lparr>rl_enabled = True, send_min_interval = 30, send_per_ip_limit = 10, send_per_ip_window = 600,
     send_per_key_limit = 10, send_per_key_window = 600, fail_limit = 2, fail_window = 600,
     shadow_threshold = 20, shadow_duration = 3600\<rparr>"

definition demo_login_env :: login_env where
  "demo_login_env = \<lparr>le_now = 100, le_code = 12345, le_uuid = 7, le_nonce = 5, le_salt1 = [1], le_salt2 = [2],
     le_priv_b = [3], le_cfg = demo_limits, le_crypto = demo_crypto, le_notified = False\<rparr>"

definition demo_ctx :: login_ctx where
  "demo_ctx = \<lparr>lc_ip = ''10.0.0.1'', lc_auth_key_id = Some 9, lc_perm_key = Some 9, lc_auth = None, lc_user = None\<rparr>"

text \<open>The account 5 has a phone number, the account 6 is a bot.\<close>

definition demo_logins :: login_db where
  "demo_logins = \<lparr>lg_codes = [],
     lg_accounts = [\<lparr>ac_id = 5, ac_phone_number = Some ''1234567'', ac_first_name = ''A'', ac_last_name = None,
         ac_admin = False, ac_deleted = False, ac_token_nonce = None\<rparr>,
       \<lparr>ac_id = 6, ac_phone_number = None, ac_first_name = ''B'', ac_last_name = None,
         ac_admin = False, ac_deleted = False, ac_token_nonce = Some ''n''\<rparr>],
     lg_passwords = Map.empty, lg_srp_sessions = (\<lambda>_. []), lg_auths = [], lg_qr_logins = [], lg_limits = Map.empty,
     lg_banned_phones = {}, lg_perm_keys = {9}, lg_next_id = 7\<rparr>"

lemma demo_login_inv: "login_inv demo_logins"
  by (simp add: login_inv_def demo_logins_def)

lemma int_of_digits: "int_of_text ''6'' = Inr 6" "int_of_text ''1234567'' = Inr 1234567" "int_of_text ''12345'' = Inr 12345"
  by (simp_all add: int_of_text_def split_sign_def digit_groups_def py_strip_def is_space_def is_digit_def)

lemma demo_bot:
  "logged_in (login_serve (ImportBotAuthorization demo_login_env demo_ctx ''6:n'') demo_logins) 9 6"
  by (simp add: import_bot_authorization_def isdigit_def is_digit_def int_of_digits login_eval
      demo_logins_def demo_ctx_def delete_auths_eval create_auth_eval logged_in_def made_auth_def)

section \<open>Who gets in\<close>

text \<open>
  Every login has a reason. When a key that was not logged in as a user is so after any sequence of
  requests of any clients, one of the requests let it in: with a right and fresh code for an account
  without a password, with a new account, with a proof of the password, with the token of a QR code
  accepted by that user, or with the token of a bot.
\<close>

theorem logins_have_a_reason:
  assumes "login_inv db" "logged_in (fold login_serve rs db) k u" "\<not> logged_in db k u"
  shows "\<exists>rs1 r rs2. rs = rs1 @ r # rs2 \<and> grants r (fold login_serve rs1 db) k u"
  using assms by (rule login_history)

lemma logins_have_a_reason_witness:
  "\<exists>rs1 r rs2. [ImportBotAuthorization demo_login_env demo_ctx ''6:n''] = rs1 @ r # rs2 \<and> grants r (fold login_serve rs1 demo_logins) 9 6"
  using logins_have_a_reason [OF demo_login_inv, of "[ImportBotAuthorization demo_login_env demo_ctx ''6:n'']" 9 6] demo_bot
  by (simp add: logged_in_def demo_logins_def del: login_serve.simps grants.simps)

text \<open>
  C16. A code that was sent lets its owner in. Signing in with the number, the hash of the answer and the
  code that was sent, from any address that may try and within five minutes of the sending, ends as
  documented: without an account a sign-up is asked for, with a password the password, and otherwise
  the key of the request is logged in.
\<close>

theorem sent_code_lets_in:
  assumes "codes_below db" "send_or_resend_code E x phone None db = (Inr (h, place), db1)" "0 \<le> le_uuid E" "le_uuid E < 2 ^ 128"
    and "validate_phone phone = Inr p" "int_of_text given = Inr (le_code E)" "le_now E' \<le> real_of_int (\<lfloor>le_now E\<rfloor> + 300)"
    and "check_sign_in_allowed (le_cfg E') (le_now E') (lc_ip y) (lc_auth_key_id y) (lg_limits db1) = Inr ()"
    and "lc_perm_key y = Some k" "k \<in> lg_perm_keys db1" "sign_in E' y phone h (Some given) db1 = (r, db2)"
  shows "case user_by_phone p db1 of
      None \<Rightarrow> r = Inr SignUpRequired
    | Some a \<Rightarrow> if no_password (ac_id a) db1 then r = Inr (LoggedIn (ac_id a)) \<and> logged_in db2 k (ac_id a)
        else r = Inl (ErrorRpc 401 ''SESSION_PASSWORD_NEEDED'')"
proof -
  obtain c where c: "phone_code_hash c = Inr h" "sc_id c = lg_next_id db" "sc_phone_number c = p" "sc_code c = le_code E"
    "sc_hash c = le_uuid E" "sc_expires_at c = gen_code_expires_at (le_now E)" "\<not> sc_used c" "sc_purpose c = SIGNIN"
    "db1 = db\<lparr>lg_codes := lg_codes db @ [c], lg_next_id := lg_next_id db + 1,
       lg_limits := record_send_code (le_cfg E) (le_now E) (lc_ip x) (lc_auth_key_id x) (lg_limits db)\<rparr>"
    by (rule send_code_sent [OF assms(2,5)])
  have uuid: "0 \<le> sc_hash c" "sc_hash c < 2 ^ 128" using assms(3,4) c(5) by simp_all
  have "code_found (sc_phone_number c) h (Some (sc_purpose c)) db1 = Inr (Some c)"
    by (rule code_found_new [OF assms(1) c(1) uuid c(2,7)]) (simp add: c(9))
  then have found: "code_found p h (Some SIGNIN) db1 = Inr (Some c)" by (simp add: c(3,8))
  have fresh: "le_now E' \<le> real_of_int (sc_expires_at c)" and code: "int_of_text given = Inr (sc_code c)"
    using assms(6,7) c(4,6) by (simp_all add: gen_code_expires_at_def)
  note right = sign_in_right [OF parse_code_hash_of(2) [OF c(1) uuid] assms(5) code assms(8) found fresh]
  show ?thesis
  proof (cases "user_by_phone p db1")
    case None then show ?thesis using right assms(11) by (simp add: Let_def)
  next
    case (Some a)
    let ?db = "db1\<lparr>lg_codes := map (\<lambda>d. if sc_id d = sc_id c then c\<lparr>sc_used := False,
        sc_expires_at := gen_code_expires_at (le_now E'), sc_purpose := SIGNUP\<rparr> else d) (lg_codes db1),
        lg_limits := clear_sign_in_failures (le_cfg E') (lc_ip y) (lc_auth_key_id y) (lg_limits db1)\<rparr>"
    have k: "k \<in> lg_perm_keys ?db" and n: "no_password u ?db = no_password u db1" for u
      using assms(10) by (simp_all add: no_password_def)
    have "authorize E' y (ac_id a) ?db = (r, db2)" using right assms(11) Some by (simp add: Let_def)
    then show ?thesis using authorize_right [OF assms(9) k, where E = E' and u = "ac_id a"] Some by (simp add: n)
  qed
qed

lemma demo_sent:
  obtains h db1 where "send_or_resend_code demo_login_env demo_ctx ''1234567'' None demo_logins = (Inr (h, SentBySms), db1)"
    "lg_limits db1 = record_send_code demo_limits 100 ''10.0.0.1'' (Some 9) Map.empty" "lg_perm_keys db1 = {9}"
    "lg_accounts db1 = lg_accounts demo_logins" "lg_passwords db1 = Map.empty"
proof -
  let ?c = "\<lparr>sc_id = 7, sc_phone_number = ''1234567'', sc_code = 12345, sc_hash = 7, sc_expires_at = 400, sc_used = False,
      sc_purpose = SIGNIN\<rparr>"
  obtain h where h: "phone_code_hash ?c = Inr h" by (simp add: phone_code_hash_def rbind_def Int_write_def py_to_bytes_le_def int_fits_def)
  have p: "validate_phone ''1234567'' = Inr ''1234567''"
    by (simp add: validate_phone_def int_of_digits isdigit_def is_digit_def)
  have "check_send_code_allowed demo_limits 100 ''10.0.0.1'' (Some 9) Map.empty = Inr ()"
    by (simp add: check_send_code_allowed_def seconds_until_def at_limit_def cache_get_def)
  then show thesis
    using that h by (simp add: send_or_resend_code_def p login_eval create_code_eval new_code_def
        demo_login_env_def demo_ctx_def demo_logins_def gen_code_expires_at_def)
qed

lemma sent_code_lets_in_witness:
  "\<exists>h db1 db2. fst (send_or_resend_code demo_login_env demo_ctx ''1234567'' None demo_logins) = Inr (h, SentBySms)
    \<and> sign_in demo_login_env demo_ctx ''1234567'' h (Some ''12345'') db1 = (Inr (LoggedIn 5), db2) \<and> logged_in db2 9 5"
proof -
  obtain h db1 where sent: "send_or_resend_code demo_login_env demo_ctx ''1234567'' None demo_logins = (Inr (h, SentBySms), db1)"
    and db1: "lg_limits db1 = record_send_code demo_limits 100 ''10.0.0.1'' (Some 9) Map.empty" "lg_perm_keys db1 = {9}"
    "lg_accounts db1 = lg_accounts demo_logins" "lg_passwords db1 = Map.empty"
    by (rule demo_sent)
  obtain r db2 where tried: "sign_in demo_login_env demo_ctx ''1234567'' h (Some ''12345'') db1 = (r, db2)" by (metis surj_pair)
  have p: "validate_phone ''1234567'' = Inr ''1234567''"
    by (simp add: validate_phone_def int_of_digits isdigit_def is_digit_def)
  have "check_sign_in_allowed demo_limits 100 ''10.0.0.1'' (Some 9) (lg_limits db1) = Inr ()"
    unfolding db1 by (simp add: check_sign_in_allowed_def is_shadow_banned_def failures_of_def record_send_get cache_get_def
        record_send_code_def demo_limits_def bump_counter_def cache_set_def Let_def)
  then have "case user_by_phone ''1234567'' db1 of
      None \<Rightarrow> r = Inr SignUpRequired
    | Some a \<Rightarrow> if no_password (ac_id a) db1 then r = Inr (LoggedIn (ac_id a)) \<and> logged_in db2 9 (ac_id a)
        else r = Inl (ErrorRpc 401 ''SESSION_PASSWORD_NEEDED'')"
    by (intro sent_code_lets_in [OF _ sent _ _ p _ _ _ _ _ tried])
      (simp_all add: codes_below_def demo_logins_def demo_login_env_def demo_ctx_def int_of_digits db1)
  then have "r = Inr (LoggedIn 5) \<and> logged_in db2 9 5"
    by (simp add: user_by_phone_def db1 no_password_def demo_logins_def)
  then show ?thesis using sent tried by auto
qed

section \<open>What keeps others out\<close>

abbreviation demo_coded :: login_db where
  "demo_coded \<equiv> demo_logins\<lparr>lg_codes := [new_code demo_login_env ''1234567'' demo_logins]\<rparr>"

lemma demo_phone: "validate_phone ''1234567'' = Inr ''1234567''"
  by (simp add: validate_phone_def int_of_digits isdigit_def is_digit_def)

lemma demo_compared:
  obtains h where "length h = CODE_HASH_SIZE" "code_found ''1234567'' h (Some SIGNIN) demo_coded = Inr (Some (new_code demo_login_env ''1234567'' demo_logins))"
    "check_sign_in_allowed demo_limits 100 ''10.0.0.1'' (Some 9) Map.empty = Inr ()"
proof -
  let ?c = "new_code demo_login_env ''1234567'' demo_logins"
  obtain h where h: "phone_code_hash ?c = Inr h"
    by (simp add: new_code_def demo_login_env_def demo_logins_def phone_code_hash_def rbind_def Int_write_def py_to_bytes_le_def int_fits_def)
  have uuid: "0 \<le> sc_hash ?c" "sc_hash ?c < 2 ^ 128" by (simp_all add: new_code_def demo_login_env_def)
  have "code_found (sc_phone_number ?c) h (Some (sc_purpose ?c)) demo_coded = Inr (Some ?c)"
    by (rule code_found_new [OF _ h uuid, of demo_logins]) (simp_all add: codes_below_def new_code_def demo_logins_def)
  moreover have "check_sign_in_allowed demo_limits 100 ''10.0.0.1'' (Some 9) Map.empty = Inr ()"
    by (simp add: check_sign_in_allowed_def is_shadow_banned_def failures_of_def cache_get_def demo_limits_def)
  ultimately show thesis using that parse_code_hash_of(2) [OF h uuid] by (simp add: new_code_def)
qed



text \<open>
  C10. A password keeps out who does not know it. As long as no request proves the password of a user that
  has one, no key gets logged in as this user, whatever codes, QR codes, bot tokens, keys and clients take
  part.
\<close>

theorem password_keeps_out:
  assumes "login_inv db" "guarded u db" "unproved rs db u" "\<not> logged_in db k u"
  shows "\<not> logged_in (fold login_serve rs db) k u"
  using password_guards [OF assms(1-3)] assms(4) by blast

lemma password_keeps_out_witness:
  "\<not> logged_in (fold login_serve [SignIn demo_login_env demo_ctx ''1234567'' ''0'' (Some ''12345'')]
      (demo_coded\<lparr>lg_passwords := [5 \<mapsto> \<lparr>pw_salt1 = [], pw_salt2 = [], pw_password = Some [7], pw_hint = None\<rparr>]\<rparr>)) 9 5"
proof (rule password_keeps_out)
  show "unproved [SignIn demo_login_env demo_ctx ''1234567'' ''0'' (Some ''12345'')] (demo_coded\<lparr>lg_passwords := p\<rparr>) 5" for p by simp
qed (auto simp: login_inv_def guarded_def no_password_def logged_in_def demo_logins_def)

text \<open>
  C17. Wrong codes are limited. In any run with requests of other kinds and from other addresses between,
  an address that never gives a right code has at most as many wrong codes compared as the limit says, as
  long as none waits out the window after the one before.
\<close>

theorem wrong_codes_are_limited:
  assumes "rl_enabled cfg" "0 < fail_limit cfg" "list_all (limited_by cfg) rs" "never_right ip rs db"
    and "\<forall>t. 0 \<le> count_at t (FailByIp ip) (lg_limits db)"
    and "successively (\<lambda>s t. t < s + real_of_int (fail_window cfg)) (wrong_guesses ip rs db)"
  shows "int (length (wrong_guesses ip rs db)) \<le> fail_limit cfg"
  using assms by (rule guesses_bounded)

lemma wrong_codes_are_limited_witness:
  "\<exists>h. wrong_guesses ''10.0.0.1'' [SignIn demo_login_env demo_ctx ''1234567'' h (Some ''6'')] demo_coded = [100]
    \<and> int (length (wrong_guesses ''10.0.0.1'' [SignIn demo_login_env demo_ctx ''1234567'' h (Some ''6'')] demo_coded)) \<le> 2"
proof (rule demo_compared)
  fix h
  assume h: "length h = CODE_HASH_SIZE" "code_found ''1234567'' h (Some SIGNIN) demo_coded = Inr (Some (new_code demo_login_env ''1234567'' demo_logins))"
    "check_sign_in_allowed demo_limits 100 ''10.0.0.1'' (Some 9) Map.empty = Inr ()"
  have e: "lg_limits demo_coded = Map.empty" "le_cfg demo_login_env = demo_limits" "le_now demo_login_env = 100" "lc_ip demo_ctx = ''10.0.0.1''"
    "lc_auth_key_id demo_ctx = Some 9" by (simp_all add: demo_logins_def demo_login_env_def demo_ctx_def)
  then have c: "\<exists>e. code_compared demo_login_env demo_ctx ''1234567'' h (Some ''6'') demo_coded = Some (Inl e)"
    using h by (simp add: code_compared_def demo_phone int_of_digits try_code_def check_code_eval login_eval is_rpc_error_def)
      (simp add: new_code_def demo_login_env_def)
  let ?rs = "[SignIn demo_login_env demo_ctx ''1234567'' h (Some ''6'')]"
  have w: "wrong_guesses ''10.0.0.1'' ?rs demo_coded = [100]" using c e by simp
  have "int (length (wrong_guesses ''10.0.0.1'' ?rs demo_coded)) \<le> fail_limit demo_limits"
    using c e unfolding w by (intro wrong_codes_are_limited [of demo_limits ?rs "''10.0.0.1''" demo_coded, unfolded w])
      (auto simp: demo_limits_def count_at_def cache_get_def)
  moreover have "fail_limit demo_limits = 2" by (simp add: demo_limits_def)
  ultimately show ?thesis using w by metis
qed

section \<open>Where they do not\<close>

text \<open>
  A right code makes an address innocent again. Whatever the number it belongs to, and however many
  wrong codes the address and the key gave before, signing in is allowed afterwards, unless the address is
  banned.
\<close>

theorem right_code_resets_limits:
  assumes "code_compared E x phone h given db = Some (Inr c)" "rl_enabled (le_cfg E)" "0 < fail_limit (le_cfg E)"
    and "cache_get t (Shadow (lc_ip x)) (lg_limits db) = None"
  shows "check_sign_in_allowed (le_cfg E) t (lc_ip x) (lc_auth_key_id x) (lg_limits (snd (sign_in E x phone h given db))) = Inr ()"
  using assms by (rule right_code_forgets)

lemma right_code_resets_limits_witness:
  "\<exists>h. check_sign_in_allowed demo_limits 100 ''10.0.0.1'' (Some 9)
     (lg_limits (snd (sign_in demo_login_env demo_ctx ''1234567'' h (Some ''12345'') demo_coded))) = Inr ()"
proof (rule demo_compared)
  fix h
  assume h: "length h = CODE_HASH_SIZE" "code_found ''1234567'' h (Some SIGNIN) demo_coded = Inr (Some (new_code demo_login_env ''1234567'' demo_logins))"
    "check_sign_in_allowed demo_limits 100 ''10.0.0.1'' (Some 9) Map.empty = Inr ()"
  have e: "lg_limits demo_coded = Map.empty" "le_cfg demo_login_env = demo_limits" "le_now demo_login_env = 100" "lc_ip demo_ctx = ''10.0.0.1''"
    "lc_auth_key_id demo_ctx = Some 9" by (simp_all add: demo_logins_def demo_login_env_def demo_ctx_def)
  then have c: "code_compared demo_login_env demo_ctx ''1234567'' h (Some ''12345'') demo_coded = Some (Inr (new_code demo_login_env ''1234567'' demo_logins))"
    using h by (simp add: code_compared_def demo_phone int_of_digits try_code_def check_code_eval)
      (simp add: new_code_def demo_login_env_def gen_code_expires_at_def)
  have "rl_enabled (le_cfg demo_login_env)" "0 < fail_limit (le_cfg demo_login_env)" "cache_get 100 (Shadow (lc_ip demo_ctx)) (lg_limits demo_coded) = None"
    unfolding e by (simp_all add: demo_limits_def cache_get_def)
  from right_code_resets_limits [OF c this] show ?thesis using e by metis
qed

text \<open>
  C33. Two-step verification lets its owner in: the proof computed as documented from the password, a share
  and the share of the server is accepted.
\<close>

theorem password_proof_accepted:
  assumes "0 \<le> a" "0 \<le> x" "srp_verifier x = Inr v" "pw_password pw = Some v"
    and "get_srp_session now fresh ss = (Inr s, ss')" "srp_client_share a = Inr A" "pub_B C v s = Inr B"
    and "srp_client_key C x a A B = Inr S" "srp_message C pw A B S = Inr M"
  shows "fst (check_password_internal C now fresh pw (CheckSRP (srp_session_id s) A M) ss) = Inr ()"
  using assms by (rule password_holder_passes)

text \<open>
  C39. It lets others in as well. A client that knows nothing of the password and sends a share that is a
  multiple of the prime is let in with the proof of the key 0: that share is never refused.
\<close>

theorem zero_share_is_let_in:
  assumes "pw_password pw = Some v" "get_srp_session now fresh ss = (Inr s, ss')" "pub_B C v s = Inr B"
    and "btoi A mod CURRENT_DH_PRIME = 0" "btoi (srp_priv_b s) \<noteq> 0" "srp_message C pw A B 0 = Inr M"
  shows "fst (check_password_internal C now fresh pw (CheckSRP (srp_session_id s) A M) ss) = Inr ()"
  using assms by (rule zero_share_passes)

lemma zero_share_is_let_in_witness:
  "\<exists>M. fst (check_password_internal demo_crypto 5 (1, [3]) \<lparr>pw_salt1 = [], pw_salt2 = [], pw_password = Some [7], pw_hint = None\<rparr>
     (CheckSRP 1 [] M) []) = Inr ()"
proof -
  let ?pw = "\<lparr>pw_salt1 = [], pw_salt2 = [], pw_password = Some [7], pw_hint = None\<rparr>" and ?s = "\<lparr>srp_session_id = 1, srp_priv_b = [3], srp_created_at = 5\<rparr>"
  obtain B where B: "pub_B demo_crypto [7] ?s = Inr B" using pub_B_ok by blast
  obtain M where M: "srp_message demo_crypto ?pw [] B 0 = Inr M" using srp_message_ok [of 0 demo_crypto ?pw "[]" B] by (auto simp: CURRENT_DH_PRIME_def)
  have "fst (check_password_internal demo_crypto 5 (1, [3]) ?pw (CheckSRP (srp_session_id ?s) [] M) []) = Inr ()"
    by (rule zero_share_is_let_in [OF _ _ B _ _ M]) (simp_all add: get_srp_session_def Let_def btoi_def py_from_bytes_be_def)
  then show ?thesis by auto
qed

lemma password_proof_accepted_witness:
  "\<exists>v A M. srp_verifier 2 = Inr v \<and> srp_client_share 1 = Inr A
     \<and> fst (check_password_internal demo_crypto 5 (1, [3]) \<lparr>pw_salt1 = [], pw_salt2 = [], pw_password = Some v, pw_hint = None\<rparr>
         (CheckSRP 1 A M) []) = Inr ()"
proof -
  let ?s = "\<lparr>srp_session_id = 1, srp_priv_b = [3], srp_created_at = 5\<rparr>"
  obtain v A where v: "srp_verifier 2 = Inr v" and A: "srp_client_share 1 = Inr A"
    using itob_powmod [of 3 2] itob_powmod [of 3 1] by (auto simp: srp_verifier_def srp_client_share_def dh_group)
  let ?pw = "\<lparr>pw_salt1 = [], pw_salt2 = [], pw_password = Some v, pw_hint = None\<rparr>"
  obtain B where B: "pub_B demo_crypto v ?s = Inr B" using pub_B_ok by blast
  have S: "srp_client_key demo_crypto 2 1 A B = Inr (srp_server_key demo_crypto v ?s A B)"
    by (rule srp_agree [OF _ _ v A B]) simp_all
  obtain M where M: "srp_message demo_crypto ?pw A B (srp_server_key demo_crypto v ?s A B) = Inr M"
    using srp_message_ok [of "srp_server_key demo_crypto v ?s A B" demo_crypto ?pw A B] by (auto simp: srp_server_key_def dh_group)
  have "fst (check_password_internal demo_crypto 5 (1, [3]) ?pw (CheckSRP (srp_session_id ?s) A M) []) = Inr ()"
    by (rule password_proof_accepted [OF _ _ v _ _ A B S M]) (simp_all add: get_srp_session_def Let_def)
  then show ?thesis using v A by auto
qed

text \<open>
  Bans are out of reach. When the limit of failures is below the threshold of a ban, as it is by
  default (5 and 15), no sequence of requests, however many wrong codes it holds, gets an address banned:
  at the limit further codes are refused before they are counted.
\<close>

theorem bans_are_out_of_reach:
  assumes "unbanned cfg (lg_limits db)" "0 < fail_limit cfg" "fail_limit cfg < shadow_threshold cfg" "list_all (limited_by cfg) rs"
  shows "\<not> is_shadow_banned cfg t ip (lg_limits (fold login_serve rs db))"
  using never_banned [OF assms] by (simp add: is_shadow_banned_def unbanned_def)

lemma bans_are_out_of_reach_witness:
  "\<not> is_shadow_banned demo_limits 200 ''10.0.0.1''
     (lg_limits (fold login_serve (replicate 100 (SignIn demo_login_env demo_ctx ''1234567'' ''0'' (Some ''6''))) demo_coded))"
  by (rule bans_are_out_of_reach)
    (simp_all add: unbanned_def demo_limits_def demo_logins_def demo_login_env_def cache_get_def count_at_def list_all_iff)

end
