(* ===== verification/Worker.thy ===== *)
theory Worker
  imports Outbound
begin

text \<open>
  The worker (\<^verbatim>\<open>piltover/worker.py\<close>, \<^verbatim>\<open>piltover/enums.py\<close>): the table of request handlers, who may have
  which request served, and what becomes of a handler's result or exception. Handlers are actions on
  the state of the database; reading and writing the generated classes is a parameter. Logging and the
  timing of calls are left out.
\<close>

unbundle bit_operations_syntax

section \<open>Handlers\<close>

abbreviation AUTH_NOT_REQUIRED :: int where "AUTH_NOT_REQUIRED \<equiv> 1"
abbreviation ALLOW_MFA_PENDING :: int where "ALLOW_MFA_PENDING \<equiv> 2"
abbreviation BOT_NOT_ALLOWED :: int where "BOT_NOT_ALLOWED \<equiv> 4"
abbreviation REFRESH_SESSION :: int where "REFRESH_SESSION \<equiv> 8"
abbreviation USER_NOT_ALLOWED :: int where "USER_NOT_ALLOWED \<equiv> 16"
abbreviation INTERNAL :: int where "INTERNAL \<equiv> 32"
abbreviation DONT_FETCH_USER :: int where "DONT_FETCH_USER \<equiv> 64"
abbreviation FETCH_USER_WITH_USERNAME :: int where "FETCH_USER_WITH_USERNAME \<equiv> 128"

text \<open>The context a handler runs in; the worker and the file storage it also names are left out.\<close>

record 'x rpc_context =
  rq_auth_key_id :: int
  rq_perm_auth_key_id :: "int option"
  rq_message_id :: int
  rq_session_id :: int
  rq_obj :: 'x
  rq_layer :: int
  rq_auth_id :: "int option"
  rq_user_id :: "int option"
  rq_ip :: string

text \<open>The keyword arguments of a call: absent when the handler does not name them.\<close>

record ('x, 'u) kwargs =
  kw_request :: "'x option"
  kw_user :: "'u option option"
  kw_user_id :: "int option option"

type_synonym ('x, 'u, 'r, 's) handler_func = "('x, 'u) kwargs \<Rightarrow> 'x rpc_context \<Rightarrow> ('r option, 's) act"

record ('x, 'u, 'r, 's) request_handler =
  h_func :: "('x, 'u, 'r, 's) handler_func"
  h_args :: "string list"
  h_flags :: int

definition has_flag :: "int \<Rightarrow> ('x, 'u, 'r, 's) request_handler \<Rightarrow> bool" where
  "has_flag f h \<longleftrightarrow> h_flags h AND f \<noteq> 0"

definition auth_required :: "('x, 'u, 'r, 's) request_handler \<Rightarrow> bool" where
  "auth_required h \<longleftrightarrow> \<not> has_flag AUTH_NOT_REQUIRED h"

definition call_handler ::
    "('u \<Rightarrow> int) \<Rightarrow> ('x, 'u, 'r, 's) request_handler \<Rightarrow> 'x \<Rightarrow> 'u option \<Rightarrow> int option \<Rightarrow> 'x rpc_context \<Rightarrow> ('r option, 's) act" where
  "call_handler user_key h x user user_id ctx =
     h_func h
       \<lparr>kw_request = (if ''request'' \<in> set (h_args h) then Some x else None),
        kw_user = (if ''user'' \<in> set (h_args h) then Some user else None),
        kw_user_id = (if ''user_id'' \<in> set (h_args h)
           then Some (case user_id of Some i \<Rightarrow> Some i | None \<Rightarrow> map_option user_key user) else None)\<rparr> ctx"

section \<open>The table\<close>

record ('x, 'u, 'r, 's) message_handler =
  mh_name :: "string option"
  mh_registered :: bool
  request_handlers :: "int \<Rightarrow> ('x, 'u, 'r, 's) request_handler option"

definition new_handler :: "string option \<Rightarrow> ('x, 'u, 'r, 's) message_handler" where
  "new_handler name = \<lparr>mh_name = name, mh_registered = False, request_handlers = Map.empty\<rparr>"

definition on_request ::
    "int \<Rightarrow> int \<Rightarrow> string list \<Rightarrow> ('x, 'u, 'r, 's) handler_func \<Rightarrow> ('x, 'u, 'r, 's) message_handler \<Rightarrow> ('x, 'u, 'r, 's) message_handler" where
  "on_request tid flags args func m =
     m\<lparr>request_handlers := (request_handlers m)(tid \<mapsto> \<lparr>h_func = func, h_args = args, h_flags = flags\<rparr>)\<rparr>"

text \<open>The table takes the entries of another one, which is emptied and marked.\<close>

definition register_handler ::
    "('x, 'u, 'r, 's) message_handler \<Rightarrow> bool \<Rightarrow> ('x, 'u, 'r, 's) message_handler
      \<Rightarrow> (('x, 'u, 'r, 's) message_handler \<times> ('x, 'u, 'r, 's) message_handler) res" where
  "register_handler other clear m =
     (if mh_registered other then Inl RuntimeError
      else Inr (m\<lparr>request_handlers := request_handlers m ++ request_handlers other\<rparr>,
        other\<lparr>request_handlers := (if clear then Map.empty else request_handlers other), mh_registered := True\<rparr>))"

text \<open>The modules of handlers, registered one after the other; the table is kept as it was at an error.\<close>

fun register_handlers ::
    "('x, 'u, 'r, 's) message_handler list \<Rightarrow> ('x, 'u, 'r, 's) message_handler
      \<Rightarrow> ('x, 'u, 'r, 's) message_handler res" where
  "register_handlers [] m = Inr m"
| "register_handlers (h # hs) m = rbind (register_handler h True m) (\<lambda>(m', _). register_handlers hs m')"

section \<open>Calls\<close>

record 'x call_rpc =
  cl_obj :: 'x
  cl_layer :: int
  cl_auth_key_id :: int
  cl_perm_auth_key_id :: "int option"
  cl_session_id :: int
  cl_message_id :: int
  cl_auth_id :: "int option"
  cl_user_id :: "int option"
  cl_is_bot :: bool
  cl_mfa_pending :: bool
  cl_ip :: "string option"

record 'x call_rpc_internal =
  ci_obj :: 'x
  ci_as_auth_id :: "int option"
  ci_as_user :: "int option"

datatype 'r rpc_result = RpcError int string | RpcValue 'r

record 'r rpc_response =
  rr_req_msg_id :: int
  rr_result :: "'r rpc_result"
  rr_needs :: "needs_values option"
  rr_refresh_auth :: bool

text \<open>An object handed over as it is, or written and coded in hexadecimal.\<close>

datatype 'a transferred = Direct 'a | Hex string

record ('x, 'u, 'r, 's) worker =
  wk_table :: "('x, 'u, 'r, 's) message_handler"
  wk_tlid :: "'x \<Rightarrow> int"
  wk_find_user :: "int \<Rightarrow> int \<Rightarrow> bool \<Rightarrow> 's \<Rightarrow> 'u option res"
  wk_user_key :: "'u \<Rightarrow> int"
  wk_context_of :: "'r \<Rightarrow> context_needs res"
  wk_in_memory :: bool
  wk_read_call :: "byte list \<Rightarrow> 'x call_rpc res"
  wk_read_internal :: "byte list \<Rightarrow> 'x call_rpc_internal res"
  wk_write_response :: "'r rpc_response \<Rightarrow> byte list res"
  wk_write_result :: "'r rpc_result \<Rightarrow> byte list res"
  wk_layer :: int

definition transfer :: "bool \<Rightarrow> ('a \<Rightarrow> byte list res) \<Rightarrow> 'a \<Rightarrow> 'a transferred res" where
  "transfer in_memory w x = (if in_memory then Inr (Direct x) else rbind (w x) (\<lambda>b. Inr (Hex (bytes_hex b))))"

text \<open>The other side, in the gateway.\<close>

definition received :: "(byte list \<Rightarrow> 'a res) \<Rightarrow> 'a transferred \<Rightarrow> 'a res" where
  "received rd t = (case t of Direct x \<Rightarrow> Inr x | Hex h \<Rightarrow> rbind (bytes_fromhex h) rd)"

section \<open>Who may\<close>

definition get_user :: "('x, 'u, 'r, 's) worker \<Rightarrow> 'x call_rpc \<Rightarrow> bool \<Rightarrow> bool \<Rightarrow> 's \<Rightarrow> 'u option res" where
  "get_user W c allow_mfa_pending with_username s =
     (case (cl_user_id c, cl_auth_id c) of
        (Some u, Some a) \<Rightarrow>
          if cl_mfa_pending c \<and> \<not> allow_mfa_pending then Inl (ErrorRpc 401 ''SESSION_PASSWORD_NEEDED'')
          else wk_find_user W u a with_username s
      | _ \<Rightarrow> Inr None)"

text \<open>The user to call the handler with, or the error that refuses the call.\<close>

definition admit :: "('x, 'u, 'r, 's) worker \<Rightarrow> ('x, 'u, 'r, 's) request_handler \<Rightarrow> 'x call_rpc \<Rightarrow> 's \<Rightarrow> 'u option res" where
  "admit W h c s =
     (if cl_is_bot c \<and> has_flag BOT_NOT_ALLOWED h then Inl (ErrorRpc 400 ''BOT_METHOD_INVALID'')
      else if \<not> cl_is_bot c \<and> has_flag USER_NOT_ALLOWED h then Inl (ErrorRpc 400 ''USER_BOT_REQUIRED'')
      else if (auth_required h \<or> ''user'' \<in> set (h_args h)) \<and> \<not> has_flag DONT_FETCH_USER h
      then rbind (get_user W c (has_flag ALLOW_MFA_PENDING h) (has_flag FETCH_USER_WITH_USERNAME h) s) (\<lambda>user.
             if user = None \<and> auth_required h then Inl (ErrorRpc 401 ''AUTH_KEY_UNREGISTERED'') else Inr user)
      else if has_flag DONT_FETCH_USER h \<and> auth_required h
      then (if cl_user_id c \<in> {None, Some 0} then Inl (ErrorRpc 401 ''AUTH_KEY_UNREGISTERED'')
            else if cl_mfa_pending c \<and> \<not> has_flag ALLOW_MFA_PENDING h then Inl (ErrorRpc 401 ''SESSION_PASSWORD_NEEDED'')
            else Inr None)
      else Inr None)"

section \<open>Serving\<close>

definition handler_outcome :: "'r option res \<Rightarrow> 'r rpc_result" where
  "handler_outcome r =
     (case r of
        Inl (ErrorRpc code m) \<Rightarrow> RpcError code m
      | Inl _ \<Rightarrow> RpcError 500 ''Server error''
      | Inr None \<Rightarrow> RpcError 500 ''NOT_IMPLEMENTED''
      | Inr (Some x) \<Rightarrow> RpcValue x)"

definition call_context :: "'x call_rpc \<Rightarrow> 'x rpc_context" where
  "call_context c =
     \<lparr>rq_auth_key_id = cl_auth_key_id c, rq_perm_auth_key_id = cl_perm_auth_key_id c, rq_message_id = cl_message_id c,
      rq_session_id = cl_session_id c, rq_obj = cl_obj c, rq_layer = cl_layer c, rq_auth_id = cl_auth_id c,
      rq_user_id = cl_user_id c, rq_ip = (case cl_ip c of None \<Rightarrow> ''127.0.0.1'' | Some ip \<Rightarrow> if ip = [] then ''127.0.0.1'' else ip)\<rparr>"

definition err_response :: "int \<Rightarrow> int \<Rightarrow> string \<Rightarrow> 'r rpc_response" where
  "err_response mid code m = \<lparr>rr_req_msg_id = mid, rr_result = RpcError code m, rr_needs = None, rr_refresh_auth = False\<rparr>"

definition value_needs :: "('x, 'u, 'r, 's) worker \<Rightarrow> 'r rpc_result \<Rightarrow> needs_values option res" where
  "value_needs W r =
     (case r of
        RpcError _ _ \<Rightarrow> Inr None
      | RpcValue x \<Rightarrow> rbind (wk_context_of W x) (\<lambda>c. Inr (if needs_any c then Some (needs_to_tl c) else None)))"

definition run_handler ::
    "('x, 'u, 'r, 's) worker \<Rightarrow> ('x, 'u, 'r, 's) request_handler \<Rightarrow> 'x call_rpc \<Rightarrow> 'u option \<Rightarrow> ('r rpc_response, 's) act" where
  "run_handler W h c user =
     (\<lambda>s. case call_handler (wk_user_key W) h (cl_obj c) user (cl_user_id c) (call_context c) s of
        (r, s') \<Rightarrow>
          (rbind (value_needs W (handler_outcome r)) (\<lambda>needs.
             Inr \<lparr>rr_req_msg_id = cl_message_id c, rr_result = handler_outcome r, rr_needs = needs,
                  rr_refresh_auth = has_flag REFRESH_SESSION h\<rparr>), s'))"

definition serve_call :: "('x, 'u, 'r, 's) worker \<Rightarrow> 'x call_rpc \<Rightarrow> ('r rpc_response, 's) act" where
  "serve_call W c =
     (case request_handlers (wk_table W) (wk_tlid W (cl_obj c)) of
        None \<Rightarrow> sreturn (err_response (cl_message_id c) 500 ''NOT_IMPLEMENTED'')
      | Some h \<Rightarrow>
          if has_flag INTERNAL h then sreturn (err_response (cl_message_id c) 500 ''NOT_IMPLEMENTED'')
          else (\<lambda>s. case admit W h c s of
                 Inl (ErrorRpc code m) \<Rightarrow> (Inr (err_response (cl_message_id c) code m), s)
               | Inl e \<Rightarrow> (Inl e, s)
               | Inr user \<Rightarrow> run_handler W h c user s))"

definition handle_tl_rpc :: "('x, 'u, 'r, 's) worker \<Rightarrow> string \<Rightarrow> ('r rpc_response transferred, 's) act" where
  "handle_tl_rpc W call_hex =
     sbind (slift (rbind (bytes_fromhex call_hex) (wk_read_call W))) (\<lambda>c.
     sbind (serve_call W c) (\<lambda>resp. slift (transfer (wk_in_memory W) (wk_write_response W) resp)))"

text \<open>Requests of the server's own parts.\<close>

definition zero_or :: "int option \<Rightarrow> int" where
  "zero_or i = (case i of None \<Rightarrow> 0 | Some n \<Rightarrow> n)"

definition serve_internal :: "('x, 'u, 'r, 's) worker \<Rightarrow> 'x call_rpc_internal \<Rightarrow> ('r rpc_result, 's) act" where
  "serve_internal W c =
     (case request_handlers (wk_table W) (wk_tlid W (ci_obj c)) of
        None \<Rightarrow> sreturn (RpcError 500 ''NOT_IMPLEMENTED'')
      | Some h \<Rightarrow>
          if \<not> has_flag INTERNAL h then sreturn (RpcError 500 ''ERROR_METHOD_NOT_INTERNAL'')
          else (\<lambda>s. case call_handler (wk_user_key W) h (ci_obj c) None None
                   \<lparr>rq_auth_key_id = 0, rq_perm_auth_key_id = Some 0, rq_message_id = 0, rq_session_id = 0, rq_obj = ci_obj c,
                    rq_layer = wk_layer W, rq_auth_id = Some (zero_or (ci_as_auth_id c)),
                    rq_user_id = Some (zero_or (ci_as_user c)), rq_ip = ''127.0.0.1''\<rparr> s of
                 (r, s') \<Rightarrow> (Inr (handler_outcome r), s')))"

definition handle_tl_rpc_internal :: "('x, 'u, 'r, 's) worker \<Rightarrow> string \<Rightarrow> ('r rpc_result transferred, 's) act" where
  "handle_tl_rpc_internal W call_hex =
     sbind (slift (rbind (bytes_fromhex call_hex) (wk_read_internal W))) (\<lambda>c.
     sbind (serve_internal W c) (\<lambda>r. slift (transfer (wk_in_memory W) (wk_write_result W) r)))"

end
