(* ===== verification/WorkerFacts.thy ===== *)
theory WorkerFacts
  imports Worker
begin

text \<open>
  What serving a call amounts to: who is admitted, that nobody else changes anything, that every call
  is answered under its identifier, and how the table of handlers is made.
\<close>

section \<open>Admission\<close>

text \<open>The user the call comes from, as far as a handler with these flags asks.\<close>

definition known_user :: "('x, 'u, 'r, 's) worker \<Rightarrow> ('x, 'u, 'r, 's) request_handler \<Rightarrow> 'x call_rpc \<Rightarrow> 's \<Rightarrow> bool" where
  "known_user W h c s \<longleftrightarrow>
     (if has_flag DONT_FETCH_USER h then cl_user_id c \<notin> {None, Some 0}
      else \<exists>u a user. cl_user_id c = Some u \<and> cl_auth_id c = Some a
        \<and> wk_find_user W u a (has_flag FETCH_USER_WITH_USERNAME h) s = Inr (Some user))"

definition waits_for_password :: "('x, 'u, 'r, 's) request_handler \<Rightarrow> 'x call_rpc \<Rightarrow> bool" where
  "waits_for_password h c \<longleftrightarrow> cl_mfa_pending c \<and> \<not> has_flag ALLOW_MFA_PENDING h
     \<and> (has_flag DONT_FETCH_USER h \<or> cl_user_id c \<noteq> None \<and> cl_auth_id c \<noteq> None)"

definition right_kind :: "('x, 'u, 'r, 's) request_handler \<Rightarrow> 'x call_rpc \<Rightarrow> bool" where
  "right_kind h c \<longleftrightarrow> \<not> (if cl_is_bot c then has_flag BOT_NOT_ALLOWED h else has_flag USER_NOT_ALLOWED h)"

lemma admit_required:
  assumes "auth_required h"
  shows "(\<exists>user. admit W h c s = Inr user) \<longleftrightarrow> right_kind h c \<and> known_user W h c s \<and> \<not> waits_for_password h c"
  using assms
  by (auto simp: admit_def right_kind_def known_user_def waits_for_password_def get_user_def rbind_def
      split: option.splits sum.splits if_splits)

lemma admit_free:
  assumes "\<not> auth_required h" "''user'' \<notin> set (h_args h) \<or> has_flag DONT_FETCH_USER h"
  shows "(\<exists>user. admit W h c s = Inr user) \<longleftrightarrow> right_kind h c"
  using assms by (auto simp: admit_def right_kind_def)

lemma admit_user:
  assumes "admit W h c s = Inr user" "auth_required h" "\<not> has_flag DONT_FETCH_USER h"
  shows "user \<noteq> None \<and> (\<exists>u a. cl_user_id c = Some u \<and> cl_auth_id c = Some a
    \<and> wk_find_user W u a (has_flag FETCH_USER_WITH_USERNAME h) s = Inr user)"
  using assms by (auto simp: admit_def get_user_def rbind_def split: option.splits sum.splits if_splits)

lemma admit_pending:
  assumes "admit W h c s = Inr user" "auth_required h" "cl_mfa_pending c" "\<not> has_flag ALLOW_MFA_PENDING h"
  shows False
proof -
  have "known_user W h c s \<and> \<not> waits_for_password h c" using admit_required [OF assms(2), of W c s] assms(1) by blast
  then show False using assms(3,4) by (auto simp: known_user_def waits_for_password_def split: if_splits)
qed

section \<open>Serving\<close>

lemma serve_call_cases:
  obtains (refused) code m where "serve_call W c s = (Inr (err_response (cl_message_id c) code m), s)"
  | (failed) e where "serve_call W c s = (Inl e, s)"
  | (run) h user where "request_handlers (wk_table W) (wk_tlid W (cl_obj c)) = Some h" "\<not> has_flag INTERNAL h"
      "admit W h c s = Inr user" "serve_call W c s = run_handler W h c user s"
proof (cases "request_handlers (wk_table W) (wk_tlid W (cl_obj c))")
  case None then show thesis by (intro refused) (simp add: serve_call_def)
next
  case (Some h)
  show thesis
  proof (cases "has_flag INTERNAL h")
    case True then show thesis using Some by (intro refused) (simp add: serve_call_def)
  next
    case False
    show thesis
    proof (cases "admit W h c s")
      case (Inl e)
      show thesis
      proof (cases "\<exists>code m. e = ErrorRpc code m")
        case True then show thesis using Some False Inl refused by (auto simp: serve_call_def)
      next
        case F: False
        have "serve_call W c s = (Inl e, s)" using Some False Inl F by (cases e) (simp_all add: serve_call_def)
        then show thesis by (rule failed)
      qed
    next
      case (Inr user) then show thesis using Some False by (intro run) (simp_all add: serve_call_def)
    qed
  qed
qed

lemma served_changes:
  assumes "snd (serve_call W c s) \<noteq> s"
  obtains h user where "request_handlers (wk_table W) (wk_tlid W (cl_obj c)) = Some h" "\<not> has_flag INTERNAL h"
    "admit W h c s = Inr user" "serve_call W c s = run_handler W h c user s"
  using assms by (cases rule: serve_call_cases [of W c s]) auto

lemma admit_no_other_error:
  assumes "\<And>u a b s. \<exists>user. wk_find_user W u a b s = Inr user" "admit W h c s = Inl e"
  shows "\<exists>code m. e = ErrorRpc code m"
proof -
  have "wk_find_user W u a b s \<noteq> Inl e'" for u a b e' using assms(1) by (metis Inr_Inl_False)
  then show ?thesis using assms(2)
    by (auto simp: admit_def get_user_def rbind_def split: option.splits sum.splits if_splits)
qed

lemma value_needs_ok:
  assumes "\<And>x. \<exists>n. wk_context_of W x = Inr n"
  shows "\<exists>n. value_needs W r = Inr n"
proof (cases r)
  case (RpcValue x)
  obtain n where "wk_context_of W x = Inr n" using assms by blast
  then show ?thesis using RpcValue by (simp add: value_needs_def)
qed (simp add: value_needs_def)

text \<open>Every call that can be read is answered, under its identifier, when the table of users answers.\<close>

lemma call_answered:
  assumes "\<And>u a b s. \<exists>user. wk_find_user W u a b s = Inr user" "\<And>x. \<exists>n. wk_context_of W x = Inr n"
  shows "\<exists>resp. fst (serve_call W c s) = Inr resp \<and> rr_req_msg_id resp = cl_message_id c"
proof (cases rule: serve_call_cases [of W c s])
  case (refused code m) then show ?thesis by (simp add: err_response_def)
next
  case (failed e)
  then obtain h where "request_handlers (wk_table W) (wk_tlid W (cl_obj c)) = Some h" "\<not> has_flag INTERNAL h"
    by (auto simp: serve_call_def split: option.splits if_splits)
  moreover have False if "admit W h c s = Inl e'" for e'
    using admit_no_other_error [OF assms(1) that] that failed calculation by (auto simp: serve_call_def)
  moreover have False if "admit W h c s = Inr user" for user
  proof -
    obtain r s' where r: "call_handler (wk_user_key W) h (cl_obj c) user (cl_user_id c) (call_context c) s = (r, s')"
      by (metis surj_pair)
    obtain n where "value_needs W (handler_outcome r) = Inr n" using value_needs_ok [OF assms(2)] by blast
    then show False using failed calculation(1,2) that r by (simp add: serve_call_def run_handler_def)
  qed
  ultimately show ?thesis by (cases "admit W h c s") auto
next
  case (run h user)
  obtain r s' where r: "call_handler (wk_user_key W) h (cl_obj c) user (cl_user_id c) (call_context c) s = (r, s')"
    by (metis surj_pair)
  obtain n where "value_needs W (handler_outcome r) = Inr n" using value_needs_ok [OF assms(2)] by blast
  then show ?thesis using run r by (simp add: run_handler_def)
qed

section \<open>The table\<close>

lemma register_ok: "\<not> mh_registered h \<Longrightarrow> register_handler h c m = Inr (m\<lparr>request_handlers := request_handlers m ++ request_handlers h\<rparr>,
    h\<lparr>request_handlers := (if c then Map.empty else request_handlers h), mh_registered := True\<rparr>)"
  by (simp add: register_handler_def)

lemma register_handlers_table:
  assumes "list_all (\<lambda>h. \<not> mh_registered h) hs"
  shows "register_handlers hs m = Inr (m\<lparr>request_handlers := foldl (\<lambda>t h. t ++ request_handlers h) (request_handlers m) hs\<rparr>)"
  using assms by (induction hs arbitrary: m) (simp_all add: register_handler_def rbind_def)

lemma last_registered:
  "foldl (\<lambda>t h. t ++ request_handlers h) t hs k
    = (case find (\<lambda>h. request_handlers h k \<noteq> None) (rev hs) of None \<Rightarrow> t k | Some h \<Rightarrow> request_handlers h k)"
  by (induction hs arbitrary: t rule: rev_induct) (auto simp: map_add_def split: option.split)

lemma transfer_received:
  assumes "transfer in_memory w x = Inr t" "\<And>b. w x = Inr b \<Longrightarrow> rd b = Inr x"
  shows "received rd t = Inr x"
  using assms by (auto simp: transfer_def received_def fromhex_hex rbind_def split: if_splits sum.splits)

end
