(* ===== verification/LoginService.thy ===== *)
theory LoginService
  imports WorkerFacts LoginCodes ServerFacts
begin

text \<open>
  The login requests as the worker serves them: the handlers with the flags they are registered with
  (\<^verbatim>\<open>handlers/auth.py\<close>, \<^verbatim>\<open>account.py\<close>), the call the gateway makes of a session (\<open>_kiq\<close> in \<^verbatim>\<open>client.py\<close>),
  and how the session's own authorization fares.
\<close>

section \<open>Requests and answers\<close>

datatype login_object =
    TlSendCode string
  | TlResendCode string string
  | TlCancelCode string string
  | TlSignIn string string "string option"
  | TlSignUp string string string "string option"
  | TlCheckPassword password_check
  | TlUpdatePasswordSettings password_check password_settings
  | TlExportLoginToken
  | TlAcceptLoginToken "byte list"
  | TlLogOut
  | TlResetAuthorizations
  | TlImportBotAuthorization string

datatype login_answer =
    SentCodeAnswer string code_place
  | SignInAnswer sign_in_reply
  | TokenAnswer token_reply
  | AuthorizationAnswer authorization
  | BoolAnswer bool
  | LoggedOut

definition login_tlid :: "login_object \<Rightarrow> int" where
  "login_tlid x = (case x of TlSendCode _ \<Rightarrow> 1 | TlResendCode _ _ \<Rightarrow> 2 | TlCancelCode _ _ \<Rightarrow> 3 | TlSignIn _ _ _ \<Rightarrow> 4
     | TlSignUp _ _ _ _ \<Rightarrow> 5 | TlCheckPassword _ \<Rightarrow> 6 | TlUpdatePasswordSettings _ _ \<Rightarrow> 7 | TlExportLoginToken \<Rightarrow> 8
     | TlAcceptLoginToken _ \<Rightarrow> 9 | TlLogOut \<Rightarrow> 10 | TlResetAuthorizations \<Rightarrow> 11 | TlImportBotAuthorization _ \<Rightarrow> 12)"

definition context_login :: "login_object rpc_context \<Rightarrow> login_ctx" where
  "context_login x = \<lparr>lc_ip = rq_ip x, lc_auth_key_id = Some (rq_auth_key_id x), lc_perm_key = rq_perm_auth_key_id x,
     lc_auth = rq_auth_id x, lc_user = rq_user_id x\<rparr>"

definition answering :: "('a \<Rightarrow> login_answer) \<Rightarrow> 'a login \<Rightarrow> login_answer option login" where
  "answering f m = sbind m (\<lambda>x. sreturn (Some (f x)))"

text \<open>The handlers; what they are called with is what their arguments name.\<close>

definition login_func :: "login_env \<Rightarrow> (login_object, account, login_answer, login_db) handler_func" where
  "login_func E kw ctx =
     (let x = context_login ctx in
      case (kw_request kw, kw_user kw, kw_user_id kw) of
        (Some (TlSendCode p), _, _) \<Rightarrow> answering (\<lambda>(h, place). SentCodeAnswer h place) (send_or_resend_code E x p None)
      | (Some (TlResendCode p h), _, _) \<Rightarrow> answering (\<lambda>(h, place). SentCodeAnswer h place) (send_or_resend_code E x p (Some h))
      | (Some (TlCancelCode p h), _, _) \<Rightarrow> answering BoolAnswer (cancel_code E p h)
      | (Some (TlSignIn p h code), _, _) \<Rightarrow> answering SignInAnswer (sign_in E x p h code)
      | (Some (TlSignUp p h f l), _, _) \<Rightarrow> answering SignInAnswer (sign_up E x p h f l)
      | (Some (TlCheckPassword check), Some _, _) \<Rightarrow> answering SignInAnswer (check_password E x check)
      | (Some (TlUpdatePasswordSettings check new), _, Some (Some u)) \<Rightarrow> answering BoolAnswer (update_password_settings E u check new)
      | (Some (TlAcceptLoginToken token), _, Some (Some u)) \<Rightarrow> answering AuthorizationAnswer (accept_login_token E u token)
      | (Some (TlImportBotAuthorization token), _, _) \<Rightarrow> answering SignInAnswer (import_bot_authorization E x token)
      | (None, Some (Some user), _) \<Rightarrow> answering (\<lambda>_. BoolAnswer True) (reset_authorizations E x (ac_id user))
      | (None, None, _) \<Rightarrow>
          (case rq_obj ctx of
             TlExportLoginToken \<Rightarrow> answering TokenAnswer (export_login_token E x)
           | TlLogOut \<Rightarrow> answering (\<lambda>_. LoggedOut) (log_out x)
           | _ \<Rightarrow> sraise TypeError)
      | _ \<Rightarrow> sraise TypeError)"

definition login_registrations :: "(int \<times> int \<times> string list) list" where
  "login_registrations =
     [(1, AUTH_NOT_REQUIRED, [''request'']), (2, AUTH_NOT_REQUIRED, [''request'']), (3, AUTH_NOT_REQUIRED, [''request'']),
      (4, AUTH_NOT_REQUIRED OR REFRESH_SESSION, [''request'']), (5, AUTH_NOT_REQUIRED OR REFRESH_SESSION, [''request'']),
      (6, ALLOW_MFA_PENDING OR BOT_NOT_ALLOWED OR REFRESH_SESSION, [''request'', ''user'']),
      (7, BOT_NOT_ALLOWED OR DONT_FETCH_USER, [''request'', ''user_id'']),
      (8, AUTH_NOT_REQUIRED OR REFRESH_SESSION, []),
      (9, BOT_NOT_ALLOWED OR DONT_FETCH_USER, [''request'', ''user_id'']),
      (10, REFRESH_SESSION, []), (11, BOT_NOT_ALLOWED, [''user'']),
      (12, AUTH_NOT_REQUIRED OR REFRESH_SESSION, [''request''])]"

definition login_handlers :: "login_env \<Rightarrow> (login_object, account, login_answer, login_db) message_handler" where
  "login_handlers E = fold (\<lambda>(t, flags, args). on_request t flags args (login_func E)) login_registrations (new_handler (Some ''auth''))"

text \<open>\<open>User.get_or_none(id=..., userauthorizations__id=...)\<close>\<close>

definition find_login_user :: "int \<Rightarrow> int \<Rightarrow> login_db \<Rightarrow> account option" where
  "find_login_user u a db =
     (if \<exists>auth \<in> set (lg_auths db). au_id auth = a \<and> au_user auth = u then find (\<lambda>acc. ac_id acc = u) (lg_accounts db) else None)"

type_synonym login_worker_state = "(login_object, account, login_answer, login_db) worker"

definition login_worker :: "login_worker_state \<Rightarrow> login_env \<Rightarrow> login_worker_state" where
  "login_worker W E = W\<lparr>wk_table := login_handlers E, wk_tlid := login_tlid,
     wk_find_user := (\<lambda>u a _ db. Inr (find_login_user u a db)), wk_user_key := ac_id, wk_context_of := (\<lambda>_. Inr empty_needs)\<rparr>"

text \<open>The call the gateway makes for a request in a session.\<close>

definition kiq :: "'x \<Rightarrow> session \<Rightarrow> int \<Rightarrow> string \<Rightarrow> 'x call_rpc res" where
  "kiq x s mid peer =
     (case auth_data s of
        None \<Rightarrow> Inl AttributeError
      | Some d \<Rightarrow> (case auth_key_id d of None \<Rightarrow> Inl OtherError | Some key \<Rightarrow>
          Inr \<lparr>cl_obj = x, cl_layer = layer s, cl_auth_key_id = key, cl_perm_auth_key_id = perm_auth_key_id d,
          cl_session_id = session_id s, cl_message_id = mid, cl_auth_id = auth_id s, cl_user_id = user_id s, cl_is_bot = is_bot s,
          cl_mfa_pending = mfa_pending s, cl_ip = Some peer\<rparr>))"

section \<open>Looking up a handler\<close>

lemma login_table [simp]:
  "request_handlers (login_handlers E) (login_tlid x) = Some
     (case x of
        TlSendCode _ \<Rightarrow> \<lparr>h_func = login_func E, h_args = [''request''], h_flags = 1\<rparr>
      | TlResendCode _ _ \<Rightarrow> \<lparr>h_func = login_func E, h_args = [''request''], h_flags = 1\<rparr>
      | TlCancelCode _ _ \<Rightarrow> \<lparr>h_func = login_func E, h_args = [''request''], h_flags = 1\<rparr>
      | TlSignIn _ _ _ \<Rightarrow> \<lparr>h_func = login_func E, h_args = [''request''], h_flags = 9\<rparr>
      | TlSignUp _ _ _ _ \<Rightarrow> \<lparr>h_func = login_func E, h_args = [''request''], h_flags = 9\<rparr>
      | TlCheckPassword _ \<Rightarrow> \<lparr>h_func = login_func E, h_args = [''request'', ''user''], h_flags = 14\<rparr>
      | TlUpdatePasswordSettings _ _ \<Rightarrow> \<lparr>h_func = login_func E, h_args = [''request'', ''user_id''], h_flags = 68\<rparr>
      | TlExportLoginToken \<Rightarrow> \<lparr>h_func = login_func E, h_args = [], h_flags = 9\<rparr>
      | TlAcceptLoginToken _ \<Rightarrow> \<lparr>h_func = login_func E, h_args = [''request'', ''user_id''], h_flags = 68\<rparr>
      | TlLogOut \<Rightarrow> \<lparr>h_func = login_func E, h_args = [], h_flags = 8\<rparr>
      | TlResetAuthorizations \<Rightarrow> \<lparr>h_func = login_func E, h_args = [''user''], h_flags = 4\<rparr>
      | TlImportBotAuthorization _ \<Rightarrow> \<lparr>h_func = login_func E, h_args = [''request''], h_flags = 9\<rparr>)"
  by (cases x) (simp_all add: login_handlers_def login_registrations_def on_request_def new_handler_def login_tlid_def)

lemma login_worker_fields [simp]:
  "wk_table (login_worker W E) = login_handlers E" "wk_tlid (login_worker W E) = login_tlid"
  "wk_find_user (login_worker W E) = (\<lambda>u a _ db. Inr (find_login_user u a db))" "wk_user_key (login_worker W E) = ac_id"
  "wk_context_of (login_worker W E) = (\<lambda>_. Inr empty_needs)"
  by (simp_all add: login_worker_def)

section \<open>Serving is the handler's work\<close>

lemma answering_state [simp]: "snd (answering f m db) = snd (m db)"
  by (cases "m db"; cases "fst (m db)") (auto simp: answering_def sbind_def)

lemma run_login_handler:
  obtains resp where "run_handler (login_worker W E) h c user db
      = (Inr resp, snd (call_handler ac_id h (cl_obj c) user (cl_user_id c) (call_context c) db))"
    "rr_refresh_auth resp \<longleftrightarrow> has_flag REFRESH_SESSION h" "rr_req_msg_id resp = cl_message_id c"
    "rr_result resp = handler_outcome (fst (call_handler ac_id h (cl_obj c) user (cl_user_id c) (call_context c) db))"
proof -
  have "value_needs (login_worker W E) r = Inr None" for r
    by (simp add: value_needs_def empty_needs_def needs_any_def split: rpc_result.split)
  then show thesis
    by (intro that [of "\<lparr>rr_req_msg_id = cl_message_id c, rr_result = handler_outcome (fst (call_handler ac_id h (cl_obj c) user
        (cl_user_id c) (call_context c) db)), rr_needs = None, rr_refresh_auth = has_flag REFRESH_SESSION h\<rparr>"])
      (simp_all add: run_handler_def split: prod.split)
qed

lemmas login_flags = has_flag_def auth_required_def

text \<open>The request a call amounts to, with the context it brings.\<close>

abbreviation call_login :: "login_object call_rpc \<Rightarrow> login_ctx" where
  "call_login c \<equiv> context_login (call_context c)"

fun login_request_of :: "login_env \<Rightarrow> login_object \<Rightarrow> login_ctx \<Rightarrow> int \<Rightarrow> login_request" where
  "login_request_of E (TlSendCode p) x u = SendCode E x p"
| "login_request_of E (TlResendCode p h) x u = ResendCode E x p h"
| "login_request_of E (TlCancelCode p h) x u = CancelCode E p h"
| "login_request_of E (TlSignIn p h code) x u = SignIn E x p h code"
| "login_request_of E (TlSignUp p h f l) x u = SignUp E x p h f l"
| "login_request_of E (TlCheckPassword check) x u = CheckPassword E x check"
| "login_request_of E (TlUpdatePasswordSettings check new) x u = UpdatePasswordSettings E u check new"
| "login_request_of E TlExportLoginToken x u = ExportLoginToken E x"
| "login_request_of E (TlAcceptLoginToken token) x u = AcceptLoginToken E u token"
| "login_request_of E TlLogOut x u = LogOut x"
| "login_request_of E TlResetAuthorizations x u = ResetAuthorizations E x u"
| "login_request_of E (TlImportBotAuthorization token) x u = ImportBotAuthorization E x token"

lemma served_request:
  assumes "admit (login_worker W E) h c db = Inr user" "request_handlers (login_handlers E) (login_tlid (cl_obj c)) = Some h"
  shows "snd (call_handler ac_id h (cl_obj c) user (cl_user_id c) (call_context c) db)
    = login_serve (login_request_of E (cl_obj c) (call_login c) (the (cl_user_id c))) db"
proof -
  have rq: "rq_obj (call_context c) = cl_obj c" by (simp add: call_context_def)
  show ?thesis
  proof (cases "cl_obj c")
    case (TlUpdatePasswordSettings check new)
    then obtain u where "cl_user_id c = Some u" using assms by (auto simp: admit_def login_flags split: if_splits)
    then show ?thesis using assms TlUpdatePasswordSettings by (auto simp: call_handler_def login_func_def)
  next
    case (TlAcceptLoginToken token)
    then obtain u where "cl_user_id c = Some u" using assms by (auto simp: admit_def login_flags split: if_splits)
    then show ?thesis using assms TlAcceptLoginToken by (auto simp: call_handler_def login_func_def)
  next
    case TlResetAuthorizations
    then have h: "auth_required h" "\<not> has_flag DONT_FETCH_USER h" "h = \<lparr>h_func = login_func E, h_args = [''user''], h_flags = 4\<rparr>"
      using assms(2) by (auto simp: login_flags)
    obtain u a acc where a: "cl_user_id c = Some u" "user = Some acc" "find_login_user u a db = Some acc"
      using admit_user [OF assms(1) h(1,2)] by auto
    then have "ac_id acc = u" by (auto simp: find_login_user_def find_Some_iff split: if_splits)
    then show ?thesis using a h(3) TlResetAuthorizations by (simp add: call_handler_def login_func_def)
  next
    case (TlCheckPassword check)
    then have h: "h = \<lparr>h_func = login_func E, h_args = [''request'', ''user''], h_flags = 14\<rparr>" using assms(2) by auto
    then show ?thesis using TlCheckPassword by (simp add: call_handler_def login_func_def)
  qed (use assms(2) rq in \<open>auto simp: call_handler_def login_func_def\<close>)
qed

lemma served_login:
  "snd (serve_call (login_worker W E) c db) = db
    \<or> snd (serve_call (login_worker W E) c db) = login_serve (login_request_of E (cl_obj c) (call_login c) (the (cl_user_id c))) db"
proof (cases rule: serve_call_cases [of "login_worker W E" c db])
  case (run h user)
  then show ?thesis using served_request [OF run(3)] run_login_handler [of W E h c user db] by (metis login_worker_fields(1,2) snd_conv)
qed auto

section \<open>The session's own authorization\<close>

definition own_auth :: "login_db \<Rightarrow> int option \<Rightarrow> authorization option" where
  "own_auth db key = (case key of None \<Rightarrow> None | Some k \<Rightarrow> find (\<lambda>a. au_key a = k) (lg_auths db))"

text \<open>What a call says of its authorization is what is stored.\<close>

definition current_call :: "login_db \<Rightarrow> 'x call_rpc \<Rightarrow> bool" where
  "current_call db c \<longleftrightarrow>
     (case own_auth db (cl_perm_auth_key_id c) of
        None \<Rightarrow> cl_auth_id c = None \<and> cl_user_id c = None \<and> \<not> cl_mfa_pending c
      | Some a \<Rightarrow> cl_auth_id c = Some (au_id a) \<and> cl_user_id c = Some (au_user a) \<and> cl_mfa_pending c = au_mfa_pending a)"

lemma own_auth_same: "lg_auths db' = lg_auths db \<Longrightarrow> own_auth db' k = own_auth db k"
  by (simp add: own_auth_def split: option.split)

lemma find_filter_kept: "find Q xs = Some a \<Longrightarrow> P a \<Longrightarrow> find Q (filter P xs) = Some a"
  by (induction xs) (auto split: if_splits)

lemma own_auth_filter:
  assumes "own_auth db key = Some a" "lg_auths db' = filter P (lg_auths db)" "P a"
  shows "own_auth db' key = Some a"
  using assms find_filter_kept by (auto simp: own_auth_def split: option.splits)

lemma own_auth_found: "own_auth db key = Some a \<Longrightarrow> a \<in> set (lg_auths db) \<and> key = Some (au_key a)"
  by (auto simp: own_auth_def find_Some_iff split: option.splits)

lemma own_auth_append:
  assumes "own_auth db key = Some a" "lg_auths db' = lg_auths db @ new"
  shows "own_auth db' key = Some a"
proof -
  have "find Q xs = Some a \<Longrightarrow> find Q (xs @ ys) = Some a" for Q xs and ys :: "authorization list"
    by (induction xs) auto
  then show ?thesis using assms by (auto simp: own_auth_def split: option.splits)
qed

lemma update_keeps_own:
  assumes "own_auth db key = Some a" "\<not> au_mfa_pending a"
  shows "own_auth (snd (update_password_settings E u check new db)) key = Some a"
proof (cases rule: update_password_cases [of E u check new db])
  case (same r db') then show ?thesis using assms(1) own_auth_same by (metis snd_conv)
next
  case (changed r db' pw)
  then obtain P where "lg_auths db' = filter P (lg_auths db)" "\<forall>a. \<not> au_mfa_pending a \<longrightarrow> P a" by blast
  then show ?thesis using own_auth_filter [OF assms(1), of db' P] assms(2) changed(1) by simp
qed

lemma reset_keeps_own:
  assumes "own_auth db key = Some a" "lc_auth x = Some (au_id a)"
  shows "own_auth (snd (reset_authorizations E x u db)) key = Some a"
proof (cases "get_auth (\<lambda>a. Some (au_id a) = lc_auth x) db")
  case (Pair r db1)
  show ?thesis
  proof (cases r)
    case (Inl e)
    then show ?thesis using Pair assms(1) get_auth_fail by (auto simp: reset_authorizations_def sbind_def [of "get_auth P" for P])
  next
    case (Inr this)
    then have t: "db1 = db" "au_id this = au_id a" using Pair get_auth_found assms(2) by (fastforce, fastforce)
    define others where "others = filter (\<lambda>b. au_user b = u \<and> au_id b \<noteq> au_id this) (lg_auths db)"
    have "lg_auths (snd (reset_authorizations E x u db)) = lg_auths db
        \<or> lg_auths (snd (reset_authorizations E x u db)) = filter (\<lambda>b. \<not> au_id b \<in> au_id ` set others) (lg_auths db)"
      using Pair Inr t by (simp add: reset_authorizations_def sbind_def [of "get_auth P" for P] login_eval delete_auths_eval others_def)
    moreover have "\<not> au_id a \<in> au_id ` set others" using t(2) by (auto simp: others_def)
    ultimately show ?thesis using own_auth_same own_auth_filter assms(1) by metis
  qed
qed

lemma accept_keeps_own:
  assumes "own_auth db key = Some a"
  shows "own_auth (snd (accept_login_token E u token db)) key = Some a"
proof -
  have "\<exists>new. lg_auths (snd (accept_login_token E u token db)) = lg_auths db @ new"
  proof (cases rule: accept_cases [of E u token db])
    case (same r db') then show ?thesis by auto
  next
    case (entered r db' q)
    then have "lg_auths db' = lg_auths db \<or> (\<exists>b. lg_auths db' = lg_auths db @ [b])"
      by (auto simp: accept_login_token_def sbind_def [of "from_token token"] login_eval create_auth_eval split: if_splits)
    then show ?thesis using entered(1) by auto
  qed
  then show ?thesis using own_auth_append [OF assms] by blast
qed

section \<open>Who is told of a change\<close>

lemma quiet_auths: "honours quiet_logins m \<Longrightarrow> lg_auths (snd (m db)) = lg_auths db"
  by (simp add: honours_def quiet_logins_def)

lemma own_change_refreshes:
  assumes "current_call db c"
    and "own_auth (snd (serve_call (login_worker W E) c db)) (cl_perm_auth_key_id c) \<noteq> own_auth db (cl_perm_auth_key_id c)"
  shows "\<exists>resp. fst (serve_call (login_worker W E) c db) = Inr resp \<and> rr_refresh_auth resp"
proof (cases rule: serve_call_cases [of "login_worker W E" c db])
  case (refused code m) then show ?thesis using assms(2) by simp
next
  case (failed e) then show ?thesis using assms(2) by simp
next
  case (run h user)
  let ?key = "cl_perm_auth_key_id c" and ?x = "call_login c"
  have h: "request_handlers (login_handlers E) (login_tlid (cl_obj c)) = Some h" using run(1) by simp
  obtain resp where resp: "serve_call (login_worker W E) c db
      = (Inr resp, login_serve (login_request_of E (cl_obj c) ?x (the (cl_user_id c))) db)" "rr_refresh_auth resp = has_flag REFRESH_SESSION h"
    using run(4) served_request [OF run(3) h] run_login_handler [of W E h c user db] by metis
  have x: "lc_auth ?x = cl_auth_id c" by (simp add: context_login_def call_context_def)
  have own: "\<exists>a. own_auth db ?key = Some a \<and> cl_auth_id c = Some (au_id a) \<and> cl_user_id c = Some (au_user a) \<and> \<not> au_mfa_pending a"
    if "auth_required h" "\<not> has_flag ALLOW_MFA_PENDING h"
  proof -
    have k: "known_user (login_worker W E) h c db" "\<not> cl_mfa_pending c"
      using admit_required [OF that(1), of "login_worker W E" c db] admit_pending [OF run(3) that(1) _ that(2)] run(3) by blast+
    then have "cl_user_id c \<noteq> None" by (auto simp: known_user_def split: if_splits)
    then show ?thesis using assms(1) k(2) by (auto simp: current_call_def split: option.splits)
  qed
  show ?thesis
  proof (cases "has_flag REFRESH_SESSION h")
    case True then show ?thesis using resp by simp
  next
    case False
    have changed: "own_auth (login_serve (login_request_of E (cl_obj c) ?x (the (cl_user_id c))) db) ?key \<noteq> own_auth db ?key"
      using assms(2) resp(1) by simp
    have False
    proof (cases "cl_obj c")
      case (TlSendCode p) then show False using changed own_auth_same [OF quiet_auths [OF send_quiet]] by simp
    next
      case (TlResendCode p i) then show False using changed own_auth_same [OF quiet_auths [OF send_quiet]] by simp
    next
      case (TlCancelCode p i) then show False using changed own_auth_same [OF quiet_auths [OF cancel_quiet]] by simp
    next
      case (TlUpdatePasswordSettings check new)
      then have "auth_required h \<and> \<not> has_flag ALLOW_MFA_PENDING h" using h by (auto simp: login_flags)
      then obtain a where "own_auth db ?key = Some a" "\<not> au_mfa_pending a" using own by blast
      then show False using changed update_keeps_own [of db ?key a] TlUpdatePasswordSettings by simp
    next
      case (TlAcceptLoginToken token)
      then have "auth_required h \<and> \<not> has_flag ALLOW_MFA_PENDING h" using h by (auto simp: login_flags)
      then obtain a where "own_auth db ?key = Some a" using own by blast
      then show False using changed accept_keeps_own [of db ?key a] TlAcceptLoginToken by simp
    next
      case TlResetAuthorizations
      then have "auth_required h \<and> \<not> has_flag ALLOW_MFA_PENDING h" using h by (auto simp: login_flags)
      then obtain a where "own_auth db ?key = Some a" "cl_auth_id c = Some (au_id a)" using own by blast
      then show False using changed reset_keeps_own [of db ?key a ?x] x TlResetAuthorizations by simp
    qed (use h False in \<open>auto simp: login_flags\<close>)
    then show ?thesis ..
  qed
qed

text \<open>A login that waits for its password.\<close>

fun needs_login :: "login_object \<Rightarrow> bool" where
  "needs_login (TlUpdatePasswordSettings _ _) = True"
| "needs_login (TlAcceptLoginToken _) = True"
| "needs_login TlLogOut = True"
| "needs_login TlResetAuthorizations = True"
| "needs_login _ = False"

lemma pending_refused:
  assumes "cl_mfa_pending c" "cl_user_id c = Some u" "u \<noteq> 0" "cl_auth_id c = Some a" "\<not> cl_is_bot c" "needs_login (cl_obj c)"
  shows "serve_call (login_worker W E) c db = (Inr (err_response (cl_message_id c) 401 ''SESSION_PASSWORD_NEEDED''), db)"
  using assms by (cases "cl_obj c") (simp_all add: serve_call_def admit_def get_user_def login_flags)

section \<open>A revoked login\<close>

lemma accept_lets_in:
  assumes "from_token token db = (Inr (Some q), db)" "qr_auth q = None" "le_now E \<le> qr_created_at q + real_of_int EXPIRE_TIME"
    "no_password u db" "\<forall>a \<in> set (lg_auths db). au_key a \<noteq> qr_key q"
  shows "logged_in (snd (accept_login_token E u token db)) (qr_key q) u"
proof -
  have "pw_password (password_row E u db) = None" using assms(4) by (simp add: password_row_none)
  then show ?thesis using assms
    by (auto simp: accept_login_token_def sbind_def [of "from_token token"] login_eval create_auth_eval logged_in_def made_auth_def)
qed

lemma serve_accept:
  assumes "cl_obj c = TlAcceptLoginToken token" "cl_user_id c = Some u" "u \<noteq> 0" "\<not> cl_is_bot c" "\<not> cl_mfa_pending c"
  shows "snd (serve_call (login_worker W E) c db) = snd (accept_login_token E u token db)"
proof -
  let ?h = "\<lparr>h_func = login_func E, h_args = [''request'', ''user_id''], h_flags = 68\<rparr>"
  have h: "request_handlers (login_handlers E) (login_tlid (cl_obj c)) = Some ?h" using assms(1) by simp
  have a: "admit (login_worker W E) ?h c db = Inr None" using assms by (simp add: admit_def login_flags)
  have "serve_call (login_worker W E) c db = run_handler (login_worker W E) ?h c None db"
    using h a by (simp add: serve_call_def login_flags)
  then show ?thesis
    using served_request [OF a h] run_login_handler [of W E ?h c None db] assms(1,2) by (metis login_serve.simps(9)
      login_request_of.simps(9) option.sel snd_conv)
qed

text \<open>Within a minute of the last look the session keeps what it saw.\<close>

lemma refresh_channels_login [simp]:
  "user_id (heap (refresh_channels D t r w) r) = user_id (heap w r)" "auth_id (heap (refresh_channels D t r w) r) = auth_id (heap w r)"
  "mfa_pending (heap (refresh_channels D t r w) r) = mfa_pending (heap w r)" "is_bot (heap (refresh_channels D t r w) r) = is_bot (heap w r)"
  "auth_data (heap (refresh_channels D t r w) r) = auth_data (heap w r)"
  by (simp_all add: refresh_channels_def Let_def split: option.split)

lemma resubscribe_same_heap [simp]: "heap (resubscribe u a r w) = heap w"
  by (simp add: resubscribe_def Let_def)

lemma unrefreshed_session:
  assumes "auth_data (heap w r) = Some d" "auth_key_id d = Some key" "perm_auth_key_id d = Some perm" "auth_id (heap w r) \<noteq> None"
    "t - auth_loaded_at (heap w r) \<le> 60" "refresh_auth_maybe D t False r w = (w', e)"
  shows "user_id (heap w' r) = user_id (heap w r)" "auth_id (heap w' r) = auth_id (heap w r)"
    "mfa_pending (heap w' r) = mfa_pending (heap w r)" "is_bot (heap w' r) = is_bot (heap w r)"
    "auth_data (heap w' r) = auth_data (heap w r)"
proof -
  have "refetch_auth_data D False r w = w" by (simp add: refetch_auth_data_def split: option.split)
  then have w': "w' = reload_auth D t False perm r w"
    using assms by (auto simp: refresh_auth_maybe_def Let_def)
  show "user_id (heap w' r) = user_id (heap w r)" "auth_id (heap w' r) = auth_id (heap w r)"
    "mfa_pending (heap w' r) = mfa_pending (heap w r)" "is_bot (heap w' r) = is_bot (heap w r)"
    "auth_data (heap w' r) = auth_data (heap w r)"
    by (simp_all add: w' reload_auth_def Let_def)
qed

end
