(* ===== verification/WorkerProperties.thy ===== *)
theory WorkerProperties
  imports LoginService LoginProperties
begin

text \<open>
  What the worker promises of every request, and of the login requests it serves: who acts, that every
  call is answered, that a session learns of its own login, and how long a revoked one still acts.
\<close>

section \<open>Any worker\<close>


text \<open>A worker without transport, whose only state are the login tables.\<close>

definition demo_worker :: login_worker_state where
  "demo_worker = \<lparr>wk_table = new_handler None, wk_tlid = login_tlid, wk_find_user = (\<lambda>_ _ _ _. Inr None), wk_user_key = ac_id,
     wk_context_of = (\<lambda>_. Inr empty_needs), wk_in_memory = True, wk_read_call = (\<lambda>_. Inl ValueError),
     wk_read_internal = (\<lambda>_. Inl ValueError), wk_write_response = (\<lambda>_. Inr []), wk_write_result = (\<lambda>_. Inr []), wk_layer = 1\<rparr>"

definition demo_call :: "login_object \<Rightarrow> int option \<Rightarrow> int option \<Rightarrow> login_object call_rpc" where
  "demo_call x auth user = \<lparr>cl_obj = x, cl_layer = 1, cl_auth_key_id = 9, cl_perm_auth_key_id = Some 9, cl_session_id = 1,
     cl_message_id = 4, cl_auth_id = auth, cl_user_id = user, cl_is_bot = False, cl_mfa_pending = False, cl_ip = None\<rparr>"

lemma demo_served_bot:
  "snd (serve_call (login_worker demo_worker demo_login_env) (demo_call (TlImportBotAuthorization ''6:n'') None None) demo_logins)
    = login_serve (ImportBotAuthorization demo_login_env (call_login (demo_call (TlImportBotAuthorization ''6:n'') None None)) ''6:n'') demo_logins"
  (is "snd (serve_call ?W ?c _) = _")
proof -
  let ?h = "\<lparr>h_func = login_func demo_login_env, h_args = [''request''], h_flags = 9\<rparr>"
  have h: "request_handlers (login_handlers demo_login_env) (login_tlid (cl_obj ?c)) = Some ?h" by (simp add: demo_call_def)
  have a: "admit ?W ?h ?c demo_logins = Inr None" by (simp add: admit_def login_flags demo_call_def)
  have "serve_call ?W ?c demo_logins = run_handler ?W ?h ?c None demo_logins"
    using h a by (simp add: serve_call_def login_flags)
  then show ?thesis using served_request [OF a h] run_login_handler [of demo_worker demo_login_env ?h ?c None demo_logins]
    by (metis demo_call_def call_rpc.select_convs(1) login_request_of.simps(12) snd_conv)
qed

lemma demo_served_in:
  "logged_in (snd (serve_call (login_worker demo_worker demo_login_env) (demo_call (TlImportBotAuthorization ''6:n'') None None) demo_logins)) 9 6"
  unfolding demo_served_bot
  by (simp add: import_bot_authorization_def isdigit_def is_digit_def int_of_digits login_eval context_login_def call_context_def
      demo_call_def demo_logins_def delete_auths_eval create_auth_eval logged_in_def made_auth_def)

lemma demo_not_in: "\<not> logged_in demo_logins 9 6"
  by (simp add: logged_in_def demo_logins_def)


text \<open>
  Every call is answered. As long as the table of users and the walk over the answer do not raise, a
  call that was read gets a response under its own message identifier, whatever its handler does or raises.
\<close>

theorem every_call_is_answered:
  assumes "\<And>u a b s. \<exists>user. wk_find_user W u a b s = Inr user" "\<And>x. \<exists>n. wk_context_of W x = Inr n"
  shows "\<exists>resp. fst (serve_call W c s) = Inr resp \<and> rr_req_msg_id resp = cl_message_id c"
  using assms by (rule call_answered)

lemma every_call_is_answered_witness:
  "\<exists>resp. fst (serve_call demo_worker (demo_call TlLogOut None None) demo_logins) = Inr resp \<and> rr_req_msg_id resp = 4"
  using every_call_is_answered [of demo_worker "demo_call TlLogOut None None" demo_logins]
  by (simp add: demo_worker_def demo_call_def)

text \<open>
  The last registration counts. After the modules of handlers are registered one after the other, a
  request goes to the handler of the last module that has one for it.
\<close>

theorem last_registration_counts:
  assumes "list_all (\<lambda>h. \<not> mh_registered h) hs" "register_handlers hs (new_handler name) = Inr m"
  shows "request_handlers m k = (case find (\<lambda>h. request_handlers h k \<noteq> None) (rev hs) of
    None \<Rightarrow> None | Some h \<Rightarrow> request_handlers h k)"
  using assms last_registered [of _ hs k]
  by (auto simp: register_handlers_table new_handler_def split: option.split)

lemma last_registration_counts_witness:
  "\<exists>m. register_handlers [login_handlers demo_login_env, on_request 4 1 [] (login_func demo_login_env) (new_handler None)] (new_handler None) = Inr m
    \<and> request_handlers m 4 = Some \<lparr>h_func = login_func demo_login_env, h_args = [], h_flags = 1\<rparr>"
proof -
  let ?hs = "[login_handlers demo_login_env, on_request 4 1 [] (login_func demo_login_env) (new_handler None)]"
  have free: "list_all (\<lambda>h. \<not> mh_registered h) ?hs"
    by (simp add: login_handlers_def login_registrations_def on_request_def new_handler_def)
  then obtain m where m: "register_handlers ?hs (new_handler None) = Inr m" using register_handlers_table by blast
  have "request_handlers m 4 = Some \<lparr>h_func = login_func demo_login_env, h_args = [], h_flags = 1\<rparr>"
    unfolding last_registration_counts [OF free m] by (simp add: on_request_def new_handler_def)
  then show ?thesis using m by blast
qed

section \<open>The login requests\<close>

text \<open>
  C11. A session learns what became of its login. Whenever serving a login request changes the
  authorization of the key it came under, be it made, replaced or taken away, the response tells the
  gateway to refresh the session; for all other requests the session stays right as it is.
\<close>

theorem own_login_change_refreshes:
  assumes "current_call db c"
    and "own_auth (snd (serve_call (login_worker W E) c db)) (cl_perm_auth_key_id c) \<noteq> own_auth db (cl_perm_auth_key_id c)"
  shows "\<exists>resp. fst (serve_call (login_worker W E) c db) = Inr resp \<and> rr_refresh_auth resp"
  using assms by (rule own_change_refreshes)

lemma own_login_change_refreshes_witness:
  "\<exists>resp. fst (serve_call (login_worker demo_worker demo_login_env) (demo_call (TlImportBotAuthorization ''6:n'') None None) demo_logins) = Inr resp
    \<and> rr_refresh_auth resp"
proof (rule own_login_change_refreshes)
  show "current_call demo_logins (demo_call (TlImportBotAuthorization ''6:n'') None None)"
    by (simp add: current_call_def own_auth_def demo_logins_def demo_call_def)
  have "own_auth demo_logins (Some 9) = None" by (simp add: own_auth_def demo_logins_def)
  moreover have "own_auth db (Some 9) \<noteq> None" if "logged_in db 9 6" for db
    using that by (auto simp: own_auth_def logged_in_def find_None_iff)
  ultimately show "own_auth (snd (serve_call (login_worker demo_worker demo_login_env) (demo_call (TlImportBotAuthorization ''6:n'') None None) demo_logins))
      (cl_perm_auth_key_id (demo_call (TlImportBotAuthorization ''6:n'') None None))
    \<noteq> own_auth demo_logins (cl_perm_auth_key_id (demo_call (TlImportBotAuthorization ''6:n'') None None))"
    using demo_served_in by (simp add: demo_call_def)
qed

text \<open>
  A login that waits for its password can do nothing but give it. Changing the password, accepting a QR
  code, logging out and ending other logins are refused, and nothing changes.
\<close>

theorem pending_login_waits:
  assumes "cl_mfa_pending c" "cl_user_id c = Some u" "u \<noteq> 0" "cl_auth_id c = Some a" "\<not> cl_is_bot c" "needs_login (cl_obj c)"
  shows "serve_call (login_worker W E) c db = (Inr (err_response (cl_message_id c) 401 ''SESSION_PASSWORD_NEEDED''), db)"
  using assms by (rule pending_refused)

lemma pending_login_waits_witness:
  "serve_call (login_worker demo_worker demo_login_env) ((demo_call TlLogOut (Some 3) (Some 5))\<lparr>cl_mfa_pending := True\<rparr>) demo_logins
    = (Inr (err_response 4 401 ''SESSION_PASSWORD_NEEDED''), demo_logins)"
  using pending_login_waits [of "(demo_call TlLogOut (Some 3) (Some 5))\<lparr>cl_mfa_pending := True\<rparr>" 5 3 demo_worker demo_login_env demo_logins]
  by (simp add: demo_call_def)

text \<open>Calls one after the other, each in its own environment.\<close>

definition serve_calls :: "login_worker_state \<Rightarrow> (login_env \<times> login_object call_rpc) list \<Rightarrow> login_db \<Rightarrow> login_db" where
  "serve_calls W = fold (\<lambda>(E, c) db. snd (serve_call (login_worker W E) c db))"

definition call_request :: "login_env \<times> login_object call_rpc \<Rightarrow> login_request" where
  "call_request = (\<lambda>(E, c). login_request_of E (cl_obj c) (call_login c) (the (cl_user_id c)))"

lemma serve_calls_requests:
  "\<exists>rs. serve_calls W cs db = fold login_serve rs db \<and> set rs \<subseteq> call_request ` set cs"
proof (induction cs arbitrary: db)
  case Nil then show ?case by (simp add: serve_calls_def)
next
  case (Cons x cs)
  obtain E c where x: "x = (E, c)" by (cases x)
  let ?db = "snd (serve_call (login_worker W E) c db)"
  obtain rs where rs: "serve_calls W cs ?db = fold login_serve rs ?db" "set rs \<subseteq> call_request ` set cs" using Cons.IH by blast
  have run: "serve_calls W (x # cs) db = fold login_serve rs ?db" using rs(1) by (simp add: serve_calls_def x)
  show ?case
  proof (cases "?db = db")
    case True
    then have "serve_calls W (x # cs) db = fold login_serve rs db \<and> set rs \<subseteq> call_request ` set (x # cs)" using run rs(2) by auto
    then show ?thesis by blast
  next
    case False
    then have "?db = login_serve (call_request x) db" using served_login [of W E c db] by (auto simp: call_request_def x)
    then have "serve_calls W (x # cs) db = fold login_serve (call_request x # rs) db \<and> set (call_request x # rs) \<subseteq> call_request ` set (x # cs)"
      using run rs(2) by auto
    then show ?thesis by blast
  qed
qed



text \<open>
  C40. A revoked login still lets others in. For a minute after its last look at the table a session keeps
  the user it saw; a call of it that accepts a QR code is served although no authorization of that user is
  left, and the key of the QR code gets logged in.
\<close>

theorem revoked_login_lets_in:
  assumes session: "auth_data (heap w r) = Some d" "auth_key_id d = Some key" "perm_auth_key_id d = Some perm"
      "auth_id (heap w r) \<noteq> None" "user_id (heap w r) = Some u" "u \<noteq> 0" "\<not> is_bot (heap w r)" "\<not> mfa_pending (heap w r)"
      "t - auth_loaded_at (heap w r) \<le> 60" "refresh_auth_maybe D t False r w = (w', e)"
    and revoked: "\<forall>a \<in> set (lg_auths db). au_user a \<noteq> u"
    and token: "from_token token db = (Inr (Some q), db)" "qr_auth q = None" "le_now E \<le> qr_created_at q + real_of_int EXPIRE_TIME"
      "no_password u db" "\<forall>a \<in> set (lg_auths db). au_key a \<noteq> qr_key q"
    and call: "kiq (TlAcceptLoginToken token) (heap w' r) mid peer = Inr c"
  shows "logged_in (snd (serve_call (login_worker W E) c db)) (qr_key q) u"
proof -
  note kept = unrefreshed_session [OF session(1-4,9,10)]
  have c: "cl_obj c = TlAcceptLoginToken token" "cl_user_id c = Some u" "\<not> cl_is_bot c" "\<not> cl_mfa_pending c"
    using call session(1,2,5,7,8) by (auto simp: kiq_def kept)
  show ?thesis unfolding serve_accept [OF c(1,2) session(6) c(3,4)] by (rule accept_lets_in [OF token])
qed

abbreviation demo_qr :: qr_login where
  "demo_qr \<equiv> \<lparr>qr_id = 1, qr_key = 77, qr_nonce = 2, qr_created_at = 100, qr_auth = None\<rparr>"

definition demo_session :: session where
  "demo_session = (new_session 3 None (Some \<lparr>auth_key_id = Some 9, auth_key = None, perm_auth_key_id = Some 9\<rparr>))
     \<lparr>user_id := Some 5, auth_id := Some 1, auth_loaded_at := 70\<rparr>"

definition demo_sessions :: server where
  "demo_sessions =
     \<lparr>heap = (\<lambda>_. demo_session), next_ref = 1, sessions = Map.empty,
      broker = \<lparr>subscribed_users = Map.empty, subscribed_sessions = Map.empty, subscribed_keys = Map.empty,
        subscribed_auths = Map.empty, subscribed_channels = Map.empty, internal_push_users = Map.empty\<rparr>,
      channel_cache = Map.empty, upd_seq_column = Map.empty, woken = {}, leave_scheduled = {}\<rparr>"

lemma revoked_login_lets_in_witness:
  "\<exists>token c. logged_in (snd (serve_call (login_worker demo_worker demo_login_env) c (demo_logins\<lparr>lg_qr_logins := [demo_qr]\<rparr>))) 77 5
     \<and> cl_obj c = TlAcceptLoginToken token \<and> cl_user_id c = Some 5"
proof -
  let ?db = "demo_logins\<lparr>lg_qr_logins := [demo_qr]\<rparr>" and ?d = "\<lparr>auth_key_id = Some 9, auth_key = None, perm_auth_key_id = Some 9\<rparr>"
  obtain a b where ab: "Int_write TLong True 1 = Inr a" "Int_write TLong True 2 = Inr b"
    by (simp add: Int_write_def py_to_bytes_le_def int_fits_def)
  have len: "length a = 8" "length b = 8" using ab Int_write_length by fastforce+
  have "from_token (a @ b) ?db = (Inr (Some demo_qr), ?db)"
    using ab by (simp add: from_token_def len Int_read_bytes_write get_or_none_def login_eval)
  note token = this
  let ?D = "\<lparr>get_auth_data = \<lambda>_. None, authorization_of = \<lambda>_. None, channels_of = \<lambda>_. [], perm_key_layer = \<lambda>_. None\<rparr>"
  obtain w' e where look: "refresh_auth_maybe ?D 100 False 0 demo_sessions = (w', e)" by (metis surj_pair)
  have s: "auth_data (heap demo_sessions 0) = Some ?d" "auth_key_id ?d = Some 9" "perm_auth_key_id ?d = Some 9"
    "auth_id (heap demo_sessions 0) \<noteq> None" "user_id (heap demo_sessions 0) = Some 5" "\<not> is_bot (heap demo_sessions 0)"
    "\<not> mfa_pending (heap demo_sessions 0)" "100 - auth_loaded_at (heap demo_sessions 0) \<le> 60"
    by (simp_all add: demo_sessions_def demo_session_def new_session_def)
  note kept = unrefreshed_session [OF s(1-4,8) look]
  obtain c where c: "kiq (TlAcceptLoginToken (a @ b)) (heap w' 0) 4 ''10.0.0.1'' = Inr c" using s(1) by (simp add: kiq_def kept)
  have "logged_in (snd (serve_call (login_worker demo_worker demo_login_env) c ?db)) (qr_key demo_qr) 5"
    by (rule revoked_login_lets_in [OF s(1-5) _ s(6-8) look _ token _ _ _ _ c])
      (simp_all add: demo_logins_def demo_login_env_def EXPIRE_TIME_def no_password_def)
  moreover have "cl_obj c = TlAcceptLoginToken (a @ b) \<and> cl_user_id c = Some 5" using c s(1,5) by (auto simp: kiq_def kept)
  ultimately show ?thesis by auto
qed

end
