(* ===== verification/Updates.thy ===== *)
theory Updates
  imports Effects Channels Privacy Messages
begin

text \<open>
  The updates a client is told about: their log in the database and the way out.

  Whatever changes for a user is numbered: the user's state holds a counter, the \<open>pts\<close>
  (\<^verbatim>\<open>piltover/db/models/state.py\<close>), every change takes the next numbers of it, is kept as a row of
  the log (\<^verbatim>\<open>piltover/db/models/update.py\<close>) and is sent to the sessions of the user. A channel has
  a counter and a log of its own. The functions of \<^verbatim>\<open>piltover/app/utils/updates_manager.py\<close> do the
  three things together, one function for each kind of change. This theory holds the tables and the
  steps the functions are made of.

  An update names what it is about: a message is its identifier and the user it is rendered for, a
  poll, a call or a sticker set the identifier of its row. The users, chats and channels that
  accompany the updates are the set of those named to \<open>UsersChatsChannels\<close>. The rows of other
  parts are read from a record of tables, \<open>world\<close>.
\<close>

section \<open>Peers, messages and what is said about them\<close>

record peer =
  peer_id :: int
  peer_owner :: int
  peer_to :: peer_target
  peer_blocked :: bool

datatype tl_peer = PeerUser int | PeerChat int | PeerChannel int

definition make_id_from :: "int \<Rightarrow> int" where
  "make_id_from in_id = in_id * 2 + 1"

definition chat_make_id_from :: "int \<Rightarrow> int" where
  "chat_make_id_from in_id = in_id * 2"

definition peer_to_tl :: "peer \<Rightarrow> tl_peer" where
  "peer_to_tl p =
     (case peer_to p of
        SelfPeer u \<Rightarrow> PeerUser (peer_owner p)
      | UserPeer u \<Rightarrow> PeerUser u
      | ChatPeer c \<Rightarrow> PeerChat (chat_make_id_from c)
      | ChannelPeer c \<Rightarrow> PeerChannel (make_id_from c))"

record message =
  ms_id :: int
  ms_content :: int
  ms_random_id :: "int option"
  ms_pinned :: bool

definition random_id :: "message \<Rightarrow> int option" where
  "random_id m = (case ms_random_id m of Some r \<Rightarrow> if r = 0 then None else Some r | None \<Rightarrow> None)"

datatype tl_message =
    MessageFor int int bool
  | ChannelMessageToFormat int

datatype entity = UserOf int | DeletedUser int | ChatOf int | ChannelOf int | MentionedIn int

definition add_peer :: "peer \<Rightarrow> entity" where
  "add_peer p =
     (case peer_to p of
        SelfPeer u \<Rightarrow> UserOf u
      | UserPeer u \<Rightarrow> UserOf u
      | ChatPeer c \<Rightarrow> ChatOf c
      | ChannelPeer c \<Rightarrow> ChannelOf c)"

definition add_message :: "message \<Rightarrow> entity" where
  "add_message m = MentionedIn (ms_content m)"

datatype notify_peer = NotifyPeer tl_peer | NotifyUsers | NotifyChats | NotifyBroadcasts

datatype secret_message = EncryptedMessageService int int int "byte list" | EncryptedMessage int int int "byte list" "int option"

datatype (plugins only: code size) tl_update =
    UpdateNewMessage tl_message int int
  | UpdateMessageID int int
  | UpdateMessageIDToFormat int int int
  | UpdateNewChannelMessage tl_message int int
  | UpdateEditMessage tl_message int int
  | UpdateEditChannelMessage tl_message int int
  | UpdateDeleteMessages "int list" int int
  | UpdateDeleteChannelMessages int "int list" int int
  | UpdateDialogPinned bool tl_peer
  | UpdateDraftMessage tl_peer "int option"
  | UpdatePinnedDialogs "tl_peer list"
  | UpdatePinnedMessages bool tl_peer "int list" int int
  | UpdatePinnedChannelMessages bool int "int list" int int
  | UpdateUser int
  | UpdateChatParticipants int int "int list"
  | UpdateUserStatus int int
  | UpdateUserName int string string "string list"
  | UpdatePeerSettings tl_peer
  | UpdatePeerBlocked tl_peer bool
  | UpdateChat int
  | UpdateChannel int
  | UpdateDialogUnreadMark tl_peer bool
  | UpdateReadHistoryInbox tl_peer int int int int
  | UpdateReadHistoryOutbox tl_peer int int int
  | UpdateReadChannelInbox int int int int
  | UpdateReadChannelOutbox int int
  | UpdateReadChannelDiscussionInbox int int int int int
  | UpdateReadChannelDiscussionOutbox int int int
  | UpdateFolderPeers "(tl_peer \<times> int) list" int int
  | UpdateChatDefaultBannedRights tl_peer rights int
  | UpdateMessagePoll int
  | UpdateDialogFilter int "int option"
  | UpdateDialogFilterOrder "int list"
  | UpdateMessageReactions tl_peer int int
  | UpdateEncryption int int
  | UpdateNewEncryptedMessage secret_message int
  | UpdateEncryptedMessagesRead int int int
  | UpdateEncryptedChatTyping int
  | UpdateConfig
  | UpdateRecentReactions
  | UpdateNewAuthorization bool int "(int \<times> string \<times> string) option"
  | UpdateNewStickerSet int int
  | UpdateStickerSets
  | UpdateStickerSetsOrder "int list"
  | UpdatePeerWallpaper bool tl_peer "int option"
  | UpdateReadMessagesContents "int list" int int int
  | UpdateChannelReadMessagesContents "int list" int
  | UpdateNewScheduledMessage tl_message
  | UpdateDeleteScheduledMessages tl_peer "int list" "int list option"
  | UpdatePeerHistoryTTL tl_peer "int option"
  | UpdateBotCallbackQuery int int tl_peer int "byte list"
  | UpdateBotPrecheckoutQuery int int "byte list" string int
  | UpdateUserPhone int "string option"
  | UpdateNotifySettings notify_peer int
  | UpdateSavedGifs
  | UpdateBotInlineQuery int int string int "string option"
  | UpdateRecentStickers
  | UpdateFavedStickers
  | UpdateSavedDialogPinned bool tl_peer
  | UpdatePinnedSavedDialogs "tl_peer list"
  | UpdatePrivacy tl_privacy_key "tl_rule list"
  | UpdateChannelAvailableMessages int int
  | UpdatePhoneCall int
  | UpdatePhoneCallSignalingData int "byte list"
  | UpdateUserEmojiStatus int "(int \<times> int option) option"
  | UpdateStarsBalance int
  | UpdateChannelTooLong int int

text \<open>\<open>UpdatesWithDefaults\<close>: the updates and those they mention. The date is the time of sending and the sequence number is filled in by the session.\<close>

record tl_updates =
  upd_list :: "tl_update list"
  upd_mentions :: "entity set"

definition just :: "tl_update list \<Rightarrow> tl_updates" where
  "just us = \<lparr>upd_list = us, upd_mentions = {}\<rparr>"

section \<open>The tables\<close>

datatype (plugins only: code size) update_type =
    MESSAGE_DELETE | MESSAGE_EDIT | DIALOG_PIN | DRAFT_UPDATE | DIALOG_PIN_REORDER | USER_UPDATE | CHAT_CREATE
  | USER_UPDATE_NAME | UPDATE_CONTACT | UPDATE_BLOCK | UPDATE_CHAT | UPDATE_DIALOG_UNREAD_MARK | READ_INBOX
  | READ_OUTBOX | FOLDER_PEERS | UPDATE_CHAT_BANNED_RIGHTS | UPDATE_CHANNEL | UPDATE_POLL | UPDATE_FOLDER
  | FOLDERS_ORDER | UPDATE_ENCRYPTION | UPDATE_CONFIG | UPDATE_RECENT_REACTIONS | NEW_AUTHORIZATION
  | NEW_STICKERSET | UPDATE_STICKERSETS | UPDATE_STICKERSETS_ORDER | UPDATE_CHAT_WALLPAPER
  | READ_MESSAGES_CONTENTS | NEW_SCHEDULED_MESSAGE | DELETE_SCHEDULED_MESSAGE | UPDATE_HISTORY_TTL
  | BOT_CALLBACK_QUERY | UPDATE_PHONE | UPDATE_PEER_NOTIFY_SETTINGS | SAVED_GIFS | BOT_INLINE_QUERY
  | UPDATE_RECENT_STICKERS | UPDATE_FAVED_STICKERS | SAVED_DIALOG_PIN | SAVED_DIALOG_PIN_REORDER
  | UPDATE_PRIVACY | NEW_MESSAGE | UPDATE_MESSAGE_ID | READ_CHANNEL_MESSAGES_CONTENTS | UPDATE_PHONE_CALL
  | UPDATE_CHANNEL_MIN_AVAILABLE_ID | READ_INBOX_CHANNEL | READ_OUTBOX_CHANNEL | PIN_MESSAGES | UNPIN_MESSAGES
  | EMOJI_STATUS | BOT_PRECHECKOUT_QUERY

text \<open>A row of the log of a user; \<open>u_data\<close> is \<open>additional_data\<close>, a list that may hold \<open>null\<close>.\<close>

record update_row =
  u_user :: int
  u_type :: update_type
  u_pts :: int
  u_pts_count :: int
  u_date :: int
  u_related_id :: "int option"
  u_related_ids :: "int list option"
  u_data :: "int option list option"
  u_peer :: "int option"
  u_update_user :: "int option"
  u_dialog :: "int option"
  u_draft :: "int option"
  u_message :: "int option"
  u_encrypted_chat :: "int option"
  u_authorization :: "int option"
  u_stickerset :: "int option"

datatype channel_update_type =
    CHANNEL_UPDATE | CHANNEL_NEW_MESSAGE | CHANNEL_EDIT_MESSAGE | CHANNEL_DELETE_MESSAGES
  | CHANNEL_MIN_AVAILABLE_ID | CHANNEL_PIN_MESSAGES | CHANNEL_UNPIN_MESSAGES

record channel_row =
  c_channel :: int
  c_type :: channel_update_type
  c_pts :: int
  c_pts_count :: int
  c_date :: int
  c_extra_data :: "byte list option"
  c_message :: "int option"

datatype secret_update_type = SECRET_NEW_MESSAGE | SECRET_HISTORY_READ

record secret_row =
  s_id :: int
  s_qts :: int
  s_type :: secret_update_type
  s_date :: int
  s_auth :: int
  s_chat :: int
  s_data :: "byte list"
  s_random_id :: int
  s_is_service :: bool
  s_file :: "int option"

text \<open>What is handed to \<open>SessionManager.send\<close> and \<open>SessionManager.send_internal_push\<close>.\<close>

datatype outgoing =
    ToSessions tl_updates ids ids ids "int option" "int option"
  | ToInternalPush "int list"

record updates_db =
  user_pts :: "int \<Rightarrow> int option"
  user_updates :: "update_row list"
  channel_pts :: "int \<Rightarrow> int option"
  channel_updates :: "channel_row list"
  secret_updates :: "secret_row list"
  handed_over :: "outgoing list"

type_synonym 'a upd = "('a, updates_db) act"

text \<open>Rows of the other parts, the time and the request that is served, if any.\<close>

record user_card =
  uc_first_name :: string
  uc_last_name :: "string option"
  uc_username :: "string option"
  uc_phone_number :: "string option"
  uc_support :: bool

record basic_chat =
  bc_id :: int
  bc_creator :: int
  bc_deleted :: bool
  bc_members :: "(int \<times> bool) list"
  bc_banned_rights :: rights
  bc_version :: int

record dialog =
  dl_id :: int
  dl_peer :: peer
  dl_pinned_index :: "int option"
  dl_visible :: bool
  dl_unread_mark :: bool
  dl_folder :: int

record saved_dialog =
  sd_peer :: peer
  sd_pinned_index :: "int option"

record folder =
  fo_id :: int
  fo_owner :: int
  fo_id_for_user :: int

record secret_chat =
  en_id :: int
  en_from_user :: int
  en_to_user :: int

record client_auth =
  ca_id :: int
  ca_user :: int
  ca_confirmed :: bool
  ca_hash :: int
  ca_created_at :: int
  ca_device_model :: string
  ca_ip :: string

record chat_wallpaper =
  cw_user :: int
  cw_wallpaper :: int
  cw_overridden :: bool

record callback_query =
  cq_id :: int
  cq_user :: int
  cq_inline :: bool
  cq_message :: message
  cq_peer :: peer
  cq_data :: "byte list"

record precheckout_query =
  pq_id :: int
  pq_user :: int
  pq_payload :: "byte list"
  pq_currency :: string
  pq_total_amount :: int

record inline_query =
  iq_id :: int
  iq_bot :: int
  iq_user :: int
  iq_text :: string
  iq_peer :: int
  iq_offset :: "string option"

record notify_row =
  ns_id :: int
  ns_user :: int
  ns_peer :: "peer option"
  ns_not_peer :: "int option"

record phone_call =
  pc_id :: int
  pc_from_user :: int
  pc_to_user :: int

record world =
  w_now :: int
  w_auth :: "int option"
  w_layer :: int
  w_peers :: "peer list"
  w_messages :: "message list"
  w_dialogs :: "dialog list"
  w_saved_dialogs :: "saved_dialog list"
  w_drafts :: "int list"
  w_users :: "int \<Rightarrow> user_card option"
  w_chats :: "basic_chat list"
  w_folders :: "folder list"
  w_secret_chats :: "secret_chat list"
  w_auths :: "client_auth list"
  w_stickersets :: "(int \<times> bool) list"
  w_chat_wallpapers :: "chat_wallpaper list"
  w_callback_queries :: "callback_query list"
  w_precheckout_queries :: "precheckout_query list"
  w_inline_queries :: "inline_query list"
  w_notify_settings :: "notify_row list"
  w_privacy_rules :: "(int \<times> privacy_rule) list"
  w_calls :: "phone_call list"
  w_polls :: "int list"
  w_channels_of_user :: "int \<Rightarrow> int list"
  w_last_message :: "int \<Rightarrow> message option"
  w_seq_qts :: "int \<times> int"

text \<open>A row with the defaults of the table.\<close>

definition new_update :: "world \<Rightarrow> int \<Rightarrow> update_type \<Rightarrow> int \<Rightarrow> update_row" where
  "new_update W user t p =
     \<lparr>u_user = user, u_type = t, u_pts = p, u_pts_count = 0, u_date = w_now W, u_related_id = None, u_related_ids = None,
      u_data = None, u_peer = None, u_update_user = None, u_dialog = None, u_draft = None, u_message = None,
      u_encrypted_chat = None, u_authorization = None, u_stickerset = None\<rparr>"

definition new_channel_update :: "world \<Rightarrow> int \<Rightarrow> channel_update_type \<Rightarrow> int \<Rightarrow> int \<Rightarrow> channel_row" where
  "new_channel_update W ch t p n =
     \<lparr>c_channel = ch, c_type = t, c_pts = p, c_pts_count = n, c_date = w_now W, c_extra_data = None, c_message = None\<rparr>"

section \<open>Taking numbers\<close>

definition add_pts :: "int \<Rightarrow> int \<Rightarrow> int upd" where
  "add_pts user n = (\<lambda>s.
     case user_pts s user of
       None \<Rightarrow> (Inl OtherError, s)
     | Some p \<Rightarrow>
         if n \<le> 0 then (Inr p, s) else (Inr (p + n), s\<lparr>user_pts := (user_pts s)(user \<mapsto> p + n)\<rparr>))"

text \<open>The states are loaded once for each user and changed in place, so a user named twice gets the last number twice.\<close>

fun bump :: "(int \<times> int) list \<Rightarrow> (int \<Rightarrow> int option) \<Rightarrow> (int \<Rightarrow> int option) res" where
  "bump [] m = Inr m"
| "bump ((user, n) # r) m =
     (if n \<le> 0 then bump r m
      else case m user of None \<Rightarrow> Inl KeyError | Some p \<Rightarrow> bump r (m(user \<mapsto> p + n)))"

fun collect :: "(int \<Rightarrow> int option) \<Rightarrow> int list \<Rightarrow> int list res" where
  "collect m [] = Inr []"
| "collect m (user # r) =
     (case m user of None \<Rightarrow> Inl KeyError | Some p \<Rightarrow> rbind (collect m r) (\<lambda>ps. Inr (p # ps)))"

definition add_pts_bulk :: "int list \<Rightarrow> int list \<Rightarrow> int list upd" where
  "add_pts_bulk us counts = (\<lambda>s.
     if us = [] then (Inr [], s)
     else if length counts \<noteq> length us then (Inl ValueError, s)
     else case bump (zip us counts) (user_pts s) of
            Inl e \<Rightarrow> (Inl e, s)
          | Inr m \<Rightarrow> (collect m us, s\<lparr>user_pts := m\<rparr>))"

definition channel_add_pts :: "int \<Rightarrow> int \<Rightarrow> int upd" where
  "channel_add_pts ch n = (\<lambda>s.
     case channel_pts s ch of
       None \<Rightarrow> (Inl OtherError, s)
     | Some p \<Rightarrow>
         if n \<le> 0 then (Inr p, s) else (Inr (p + n), s\<lparr>channel_pts := (channel_pts s)(ch \<mapsto> p + n)\<rparr>))"

section \<open>Storing and handing over\<close>

definition create_updates :: "update_row list \<Rightarrow> unit upd" where
  "create_updates rs = supd (\<lambda>s. s\<lparr>user_updates := user_updates s @ rs\<rparr>)"

definition create_channel_updates :: "channel_row list \<Rightarrow> unit upd" where
  "create_channel_updates rs = supd (\<lambda>s. s\<lparr>channel_updates := channel_updates s @ rs\<rparr>)"

definition hand_over :: "outgoing list \<Rightarrow> unit upd" where
  "hand_over os = supd (\<lambda>s. s\<lparr>handed_over := handed_over s @ os\<rparr>)"

definition to_user :: "int \<Rightarrow> tl_updates \<Rightarrow> outgoing" where
  "to_user user us = ToSessions us (OneId user) NoIds NoIds None None"

definition to_users :: "int list \<Rightarrow> tl_updates \<Rightarrow> outgoing" where
  "to_users to us = ToSessions us (ManyIds to) NoIds NoIds None None"

definition to_channel :: "int \<Rightarrow> tl_updates \<Rightarrow> outgoing" where
  "to_channel ch us = ToSessions us NoIds (OneId ch) NoIds None None"

definition to_auth :: "int \<Rightarrow> tl_updates \<Rightarrow> outgoing" where
  "to_auth a us = ToSessions us NoIds NoIds (OneId a) None None"

text \<open>The keys of a dictionary in order of insertion, and the value a key has after the last assignment.\<close>

definition dict_keys :: "'k list \<Rightarrow> 'k list" where
  "dict_keys ks = rev (remdups (rev ks))"

definition dict_get :: "('k \<times> 'v) list \<Rightarrow> 'k \<Rightarrow> 'v option" where
  "dict_get kvs = map_of (rev kvs)"

end
