(* ===== verification/UpdatesManager.thy ===== *)
theory UpdatesManager
  imports Updates
begin

text \<open>
  One function for each kind of change (\<^verbatim>\<open>piltover/app/utils/updates_manager.py\<close>, up to the group
  calls): it takes the numbers, adds the rows to the log, hands the updates over and returns those
  the caller answers with. What a function reads of other tables it takes from the \<open>world\<close>.
\<close>

section \<open>Messages\<close>

text \<open>The log rows of a new message.\<close>

definition message_id_row :: "world \<Rightarrow> int \<Rightarrow> message \<Rightarrow> int \<Rightarrow> int \<Rightarrow> update_row" where
  "message_id_row W user m r p =
     (new_update W user UPDATE_MESSAGE_ID p)\<lparr>u_pts_count := 1, u_related_id := Some (ms_id m), u_related_ids := Some [r]\<rparr>"

definition new_message_row :: "world \<Rightarrow> int \<Rightarrow> message \<Rightarrow> int \<Rightarrow> update_row" where
  "new_message_row W user m p =
     (new_update W user NEW_MESSAGE p)\<lparr>u_pts_count := 1, u_related_id := Some (ms_id m), u_message := Some (ms_id m)\<rparr>"

definition message_rows :: "world \<Rightarrow> int \<Rightarrow> message \<Rightarrow> int \<Rightarrow> update_row list" where
  "message_rows W user m p =
     (case random_id m of
        Some r \<Rightarrow> [message_id_row W user m r (p - 1), new_message_row W user m p]
      | None \<Rightarrow> [new_message_row W user m p])"

definition message_pts :: "message \<Rightarrow> int" where
  "message_pts m = (if random_id m = None then 1 else 2)"

definition message_id_update :: "message \<Rightarrow> tl_update list" where
  "message_id_update m = (case random_id m of Some r \<Rightarrow> [UpdateMessageID (ms_id m) r] | None \<Rightarrow> [])"

definition message_updates :: "int \<Rightarrow> message \<Rightarrow> int \<Rightarrow> int \<Rightarrow> tl_update list" where
  "message_updates user m p n =
     message_id_update m @ [UpdateNewMessage (MessageFor (ms_id m) user False) p n]"

text \<open>\<open>next(iter(messages.values()))\<close>, whose \<open>StopIteration\<close> a coroutine turns into a \<open>RuntimeError\<close>.\<close>

definition first_value :: "('k \<times> 'v) list \<Rightarrow> 'v res" where
  "first_value kvs = (case kvs of [] \<Rightarrow> Inl RuntimeError | (_, v) # _ \<Rightarrow> Inr v)"

text \<open>
  The owners of the peers in turn, each with its number and what the dictionary has for the owner's
  last peer.
\<close>

definition owner_targets :: "(peer \<times> 'm) list \<Rightarrow> 'p list \<Rightarrow> (int \<times> 'p \<times> 'm) list" where
  "owner_targets messages ps =
     concat (map (\<lambda>(t, p). case dict_get (map (\<lambda>(q, m). (peer_owner q, m)) messages) t of
                             None \<Rightarrow> [] | Some m \<Rightarrow> [(t, p, m)])
       (zip (map (\<lambda>(q, m). peer_owner q) messages) ps))"

text \<open>
  One copy of the message for each owner of a peer. The current user's other sessions are told,
  the session the request came from gets the result.
\<close>

definition send_message ::
    "world \<Rightarrow> int option \<Rightarrow> (peer \<times> message) list \<Rightarrow> bool \<Rightarrow> tl_updates option upd" where
  "send_message W user messages ignore_current =
     sbind (slift (first_value messages)) (\<lambda>first.
          let owners = map (\<lambda>(p, m). peer_owner p) messages;
              told = (\<lambda>us. \<lparr>upd_list = us, upd_mentions = {add_message first}\<rparr>)
          in sbind (add_pts_bulk owners (map (\<lambda>(p, m). message_pts m) messages)) (\<lambda>ptss.
             let targets = owner_targets messages ptss;
                 rows = concat (map (\<lambda>(t, p, m). message_rows W t m p) targets);
                 ignored = (\<lambda>t. if ignore_current \<and> Some t = user then w_auth W else None);
                 outbound = map (\<lambda>(t, p, m).
                   ToSessions (told (message_updates t m p 1)) (OneId t) NoIds NoIds (ignored t) None) targets;
                 results = map (\<lambda>(t, p, m).
                   (t, told (message_updates t m p (if random_id m \<noteq> None \<and> 1 < length messages then 0 else 1)))) targets
             in sthen (create_updates rows)
               (sthen (hand_over outbound)
               (sthen (hand_over [ToInternalPush (dict_keys owners)])
               (sreturn (case user of None \<Rightarrow> None | Some t \<Rightarrow> dict_get results t))))))"

definition send_message_channel_user ::
    "world \<Rightarrow> int \<Rightarrow> int \<Rightarrow> message \<Rightarrow> bool \<Rightarrow> tl_updates upd" where
  "send_message_channel_user W user ch m ignore_current =
     sbind (channel_add_pts ch 1) (\<lambda>p.
       let told = (\<lambda>n. \<lparr>upd_list = [UpdateNewChannelMessage (MessageFor (ms_id m) user False) p n],
                         upd_mentions = {add_message m}\<rparr>)
       in sthen (create_channel_updates [(new_channel_update W ch CHANNEL_NEW_MESSAGE p 1)\<lparr>c_message := Some (ms_id m)\<rparr>])
         (sthen (hand_over [ToSessions (told 0) (OneId user) NoIds NoIds (if ignore_current then w_auth W else None) None])
         (sreturn (told 1))))"

definition send_message_channel :: "world \<Rightarrow> int \<Rightarrow> int \<Rightarrow> message \<Rightarrow> tl_updates upd" where
  "send_message_channel W user ch m =
     sbind (channel_add_pts ch 1) (\<lambda>p.
       let told = (\<lambda>us. \<lparr>upd_list = us, upd_mentions = {add_message m}\<rparr>)
       in sthen (create_channel_updates [(new_channel_update W ch CHANNEL_NEW_MESSAGE p 1)\<lparr>c_message := Some (ms_id m)\<rparr>])
         (sthen (hand_over [ToSessions
            (told [UpdateMessageIDToFormat (ms_id m) (case ms_random_id m of None \<Rightarrow> 0 | Some r \<Rightarrow> r) user,
                   UpdateNewChannelMessage (ChannelMessageToFormat (ms_id m)) p 1])
            NoIds (OneId ch) NoIds (w_auth W) None])
         (sreturn (told (message_id_update m @ [UpdateNewChannelMessage (MessageFor (ms_id m) user False) p 1])))))"

text \<open>Several messages of one owner in a row: each with the number it ends at.\<close>

fun numbered :: "message list \<Rightarrow> int \<Rightarrow> (message \<times> int) list" where
  "numbered [] p = []"
| "numbered (m # ms) p = (m, p + message_pts m) # numbered ms (p + message_pts m)"

definition existing_updates :: "message \<Rightarrow> tl_update \<Rightarrow> tl_update list" where
  "existing_updates m x = (case ms_random_id m of None \<Rightarrow> [x] | Some r \<Rightarrow> [UpdateMessageID (ms_id m) r, x])"

text \<open>The messages a repeated request had created before come first; they are found by their \<open>random_id\<close>.\<close>

definition prepend ::
    "message list \<Rightarrow> (message \<Rightarrow> tl_update) \<Rightarrow> entity set \<Rightarrow> tl_updates \<Rightarrow> tl_updates" where
  "prepend existing shown mentions result =
     \<lparr>upd_list = concat (map (\<lambda>m. existing_updates m (shown m)) existing) @ upd_list result,
      upd_mentions = mentions \<union> set (map add_message existing)\<rparr>"

definition send_messages ::
    "world \<Rightarrow> (peer \<times> message list) list \<Rightarrow> int option \<Rightarrow> message list \<Rightarrow> tl_updates option upd" where
  "send_messages W messages user existing =
     sbind (slift (first_value messages)) (\<lambda>first.
          let owners = map (\<lambda>(p, ms). peer_owner p) messages;
              counts = map (\<lambda>(p, ms). sum_list (map message_pts ms)) messages;
              mentions = set (map add_message first)
          in sbind (add_pts_bulk owners counts) (\<lambda>ptss.
             let targets = map (\<lambda>(t, (n, p), ms). (t, p, numbered ms (p - n))) (owner_targets messages (zip counts ptss));
                 rows = concat (map (\<lambda>(t, p, ms). concat (map (\<lambda>(m, q). message_rows W t m q) ms)) targets);
                 told = (\<lambda>t ms. \<lparr>upd_list = concat (map (\<lambda>(m, q). message_updates t m q 1) ms), upd_mentions = mentions\<rparr>);
                 result = (case user of None \<Rightarrow> None | Some u \<Rightarrow> dict_get (map (\<lambda>(t, p, ms). (t, p, told t ms)) targets) u)
             in sthen (create_updates rows)
               (sthen (hand_over (map (\<lambda>(t, p, ms). to_user t (told t ms)) targets))
               (sthen (hand_over [ToInternalPush (dict_keys owners)])
               (case user of
                  Some u \<Rightarrow>
                    if existing = [] then sreturn (map_option snd result)
                    else sbind (case result of Some (p, _) \<Rightarrow> sreturn p | None \<Rightarrow> add_pts u 0) (\<lambda>p.
                      sreturn (Some (prepend existing (\<lambda>m. UpdateNewMessage (MessageFor (ms_id m) u True) p 0) mentions
                        (case result of Some (_, r) \<Rightarrow> r | None \<Rightarrow> just []))))
                | None \<Rightarrow> sreturn None)))))"

text \<open>
  Without new messages the number the answer is to carry was never assigned: an
  \<open>UnboundLocalError\<close>.
\<close>

definition channel_numbered :: "message list \<Rightarrow> int \<Rightarrow> (message \<times> int) list" where
  "channel_numbered ms start = zip ms (map (\<lambda>i. start + int i) [1..<Suc (length ms)])"

definition send_messages_channel ::
    "world \<Rightarrow> message list \<Rightarrow> int \<Rightarrow> message list \<Rightarrow> int option \<Rightarrow> tl_updates upd" where
  "send_messages_channel W ms ch existing user =
     (let mentions = set (map add_message ms);
          answer = (\<lambda>last_pts result.
            case user of
              Some u \<Rightarrow>
                if existing = [] \<or> u = 0 then sreturn result
                else (case last_pts of
                        None \<Rightarrow> sraise OtherError
                      | Some p \<Rightarrow> sreturn (prepend existing (\<lambda>m. UpdateNewChannelMessage (MessageFor (ms_id m) u True) p 0)
                                    mentions result))
            | None \<Rightarrow> sreturn result)
      in if ms = [] then answer None (just [])
         else sbind (channel_add_pts ch (int (length ms))) (\<lambda>p.
           let placed = channel_numbered ms (p - int (length ms));
               result = \<lparr>upd_list = concat (map (\<lambda>(m, q).
                           message_id_update m @ [UpdateNewChannelMessage (ChannelMessageToFormat (ms_id m)) q 1]) placed),
                         upd_mentions = mentions\<rparr>
           in sthen (create_channel_updates
                (map (\<lambda>(m, q). (new_channel_update W ch CHANNEL_NEW_MESSAGE q 1)\<lparr>c_message := Some (ms_id m)\<rparr>) placed))
             (sthen (hand_over [to_channel ch result])
             (answer (Some p) result))))"

text \<open>The row of deleted messages holds their number only as the length of the list.\<close>

definition delete_messages :: "world \<Rightarrow> int option \<Rightarrow> (int \<times> int list) list \<Rightarrow> int option upd" where
  "delete_messages W user messages =
     sbind (add_pts_bulk (map fst messages) (map (\<lambda>(t, ids). int (length ids)) messages)) (\<lambda>ptss.
       let items = zip messages ptss
       in sthen (hand_over (map (\<lambda>((t, ids), p). to_user t (just [UpdateDeleteMessages ids p (int (length ids))])) items))
         (sthen (create_updates (map (\<lambda>((t, ids), p). (new_update W t MESSAGE_DELETE p)\<lparr>u_related_ids := Some ids\<rparr>) items))
         (sreturn (case user of None \<Rightarrow> None | Some u \<Rightarrow> dict_get (map (\<lambda>((t, ids), p). (t, p)) items) u))))"

text \<open>\<open>b"".join([Long.write(i) for i in ids])\<close>\<close>

fun write_longs :: "int list \<Rightarrow> byte list res" where
  "write_longs [] = Inr []"
| "write_longs (i # is) = rbind (Int_write TLong True i) (\<lambda>b. rbind (write_longs is) (\<lambda>bs. Inr (b @ bs)))"

definition delete_messages_channel :: "world \<Rightarrow> int \<Rightarrow> int list \<Rightarrow> (tl_updates \<times> int) upd" where
  "delete_messages_channel W ch ids =
     sbind (channel_add_pts ch (int (length ids))) (\<lambda>p.
     sbind (slift (write_longs ids)) (\<lambda>bs.
       let us = \<lparr>upd_list = [UpdateDeleteChannelMessages (make_id_from ch) ids p (int (length ids))],
                 upd_mentions = {ChannelOf ch}\<rparr>
       in sthen (create_channel_updates
            [(new_channel_update W ch CHANNEL_DELETE_MESSAGES p (int (length ids)))\<lparr>c_extra_data := Some bs\<rparr>])
         (sthen (supd (\<lambda>s. s\<lparr>channel_updates := filter (\<lambda>r.
            \<not> (c_type r \<in> {CHANNEL_NEW_MESSAGE, CHANNEL_EDIT_MESSAGE} \<and> c_channel r = ch
               \<and> c_message r \<in> Some ` set ids)) (channel_updates s)\<rparr>))
         (sthen (hand_over [to_channel ch us])
         (sreturn (us, p))))))"

definition edit_message :: "world \<Rightarrow> int \<Rightarrow> (peer \<times> message) list \<Rightarrow> tl_updates option upd" where
  "edit_message W user messages =
     sbind (slift (first_value messages)) (\<lambda>first.
          sbind (add_pts_bulk (map (\<lambda>(q, m). peer_owner q) messages) (map (\<lambda>_. 1) messages)) (\<lambda>ptss.
            let items = map (\<lambda>((q, m), p).
                  (peer_owner q, m, p, \<lparr>upd_list = [UpdateEditMessage (MessageFor (ms_id m) (peer_owner q) True) p 1],
                                         upd_mentions = {add_message first}\<rparr>)) (zip messages ptss)
            in sthen (hand_over (map (\<lambda>(t, m, p, us). to_user t us) items))
              (sthen (create_updates (map (\<lambda>(t, m, p, us). (new_update W t MESSAGE_EDIT p)
                   \<lparr>u_related_id := Some (ms_id m), u_message := Some (ms_id m)\<rparr>) items))
              (sreturn (dict_get (map (\<lambda>(t, m, p, us). (t, us)) items) user)))))"

definition edit_message_channel :: "world \<Rightarrow> int \<Rightarrow> message \<Rightarrow> tl_updates upd" where
  "edit_message_channel W ch m =
     sbind (channel_add_pts ch 1) (\<lambda>p.
       let us = \<lparr>upd_list = [UpdateEditChannelMessage (ChannelMessageToFormat (ms_id m)) p 1], upd_mentions = {add_message m}\<rparr>
       in sthen (create_channel_updates [(new_channel_update W ch CHANNEL_EDIT_MESSAGE p 1)\<lparr>c_message := Some (ms_id m)\<rparr>])
         (sthen (hand_over [to_channel ch us])
         (sreturn us)))"

section \<open>The common shape\<close>

text \<open>Most changes concern one user: take the numbers, log one row, tell the user's sessions.\<close>

definition announce :: "int \<Rightarrow> int \<Rightarrow> (int \<Rightarrow> update_row) \<Rightarrow> (int \<Rightarrow> tl_updates) \<Rightarrow> tl_updates upd" where
  "announce user n row told =
     sbind (add_pts user n) (\<lambda>p.
     sthen (create_updates [row p])
     (sthen (hand_over [to_user user (told p)])
     (sreturn (told p))))"

definition unit_of :: "'a upd \<Rightarrow> unit upd" where
  "unit_of m = sbind m (\<lambda>_. sreturn ())"

fun for_each :: "'a list \<Rightarrow> ('a \<Rightarrow> 'b upd) \<Rightarrow> 'b list upd" where
  "for_each [] f = sreturn []"
| "for_each (x # xs) f = sbind (f x) (\<lambda>y. sbind (for_each xs f) (\<lambda>ys. sreturn (y # ys)))"

section \<open>Dialogs, drafts and pinned messages\<close>

definition pin_dialog :: "world \<Rightarrow> int \<Rightarrow> peer \<Rightarrow> dialog \<Rightarrow> unit upd" where
  "pin_dialog W user q d =
     unit_of (announce user 1
       (\<lambda>p. (new_update W user DIALOG_PIN p)
          \<lparr>u_related_id := Some (peer_id q), u_peer := Some (peer_id q), u_dialog := Some (dl_id d)\<rparr>)
       (\<lambda>p. \<lparr>upd_list = [UpdateDialogPinned (dl_pinned_index d \<noteq> None) (peer_to_tl q)],
             upd_mentions = {add_peer q, UserOf user}\<rparr>))"

definition draft_row :: "world \<Rightarrow> int \<Rightarrow> peer \<Rightarrow> int option \<Rightarrow> int \<Rightarrow> update_row" where
  "draft_row W user q draft p =
     (new_update W user DRAFT_UPDATE p)\<lparr>u_related_id := Some (peer_id q), u_peer := Some (peer_id q), u_draft := draft\<rparr>"

definition update_draft :: "world \<Rightarrow> int \<Rightarrow> peer \<Rightarrow> int option \<Rightarrow> unit upd" where
  "update_draft W user q draft =
     unit_of (announce user 1 (draft_row W user q draft)
       (\<lambda>p. \<lparr>upd_list = [UpdateDraftMessage (peer_to_tl q) draft], upd_mentions = {add_peer q}\<rparr>))"

definition update_drafts :: "world \<Rightarrow> int \<Rightarrow> peer list \<Rightarrow> int option list \<Rightarrow> tl_updates upd" where
  "update_drafts W user qs drafts =
     (if length qs \<noteq> length drafts then sraise ValueError
      else sbind (add_pts user (int (length drafts))) (\<lambda>p.
        let us = \<lparr>upd_list = map (\<lambda>(q, d). UpdateDraftMessage (peer_to_tl q) d) (zip qs drafts),
                  upd_mentions = set (map add_peer qs)\<rparr>
        in sthen (create_updates (map (\<lambda>(i, q, d). draft_row W user q d (p - int (length drafts) + int i))
                (zip [1..<Suc (length qs)] (zip qs drafts))))
          (sthen (hand_over [to_user user us])
          (sreturn us))))"

definition reorder_pinned_dialogs :: "world \<Rightarrow> int \<Rightarrow> dialog list \<Rightarrow> unit upd" where
  "reorder_pinned_dialogs W user ds =
     unit_of (announce user 1 (new_update W user DIALOG_PIN_REORDER)
       (\<lambda>p. \<lparr>upd_list = [UpdatePinnedDialogs (map (\<lambda>d. peer_to_tl (dl_peer d)) ds)],
             upd_mentions = set (map (\<lambda>d. add_peer (dl_peer d)) ds)\<rparr>))"

text \<open>Of the numbers taken for pinned and unpinned messages the pinned ones come first.\<close>

definition pinned_ids :: "message list \<Rightarrow> int list" where
  "pinned_ids ms = map ms_id (filter ms_pinned ms)"

definition unpinned_ids :: "message list \<Rightarrow> int list" where
  "unpinned_ids ms = map ms_id (filter (\<lambda>m. \<not> ms_pinned m) ms)"

definition pin_parts :: "message list \<Rightarrow> int \<Rightarrow> (bool \<times> int list \<times> int) list" where
  "pin_parts ms p =
     (if pinned_ids ms = [] then [] else [(True, pinned_ids ms, p - int (length (unpinned_ids ms)))])
     @ (if unpinned_ids ms = [] then [] else [(False, unpinned_ids ms, p)])"

definition pin_row :: "world \<Rightarrow> peer \<Rightarrow> bool \<times> int list \<times> int \<Rightarrow> update_row" where
  "pin_row W q part =
     (case part of (pinned, ids, p) \<Rightarrow>
        (new_update W (peer_owner q) (if pinned then PIN_MESSAGES else UNPIN_MESSAGES) p)
          \<lparr>u_pts_count := int (length ids), u_related_id := Some (peer_id q), u_related_ids := Some ids,
           u_peer := Some (peer_id q)\<rparr>)"

definition pin_messages :: "world \<Rightarrow> int \<Rightarrow> (peer \<times> message list) list \<Rightarrow> (int \<times> int \<times> tl_updates option) upd" where
  "pin_messages W user messages =
     (let mentions = set (map (\<lambda>(q, ms). add_peer q) messages)
      in sbind (add_pts_bulk (map (\<lambda>(q, ms). peer_owner q) messages) (map (\<lambda>(q, ms). int (length ms)) messages)) (\<lambda>ptss.
        let items = map (\<lambda>((q, ms), p). (q, ms, p, pin_parts ms p)) (zip messages ptss);
            told = (\<lambda>q parts. \<lparr>upd_list = map (\<lambda>(pinned, ids, p).
                      UpdatePinnedMessages pinned (peer_to_tl q) ids p (int (length ids))) parts,
                    upd_mentions = mentions\<rparr>);
            own = dict_get (map (\<lambda>(q, ms, p, parts). (peer_owner q, (p, int (length ms), Some (told q parts)))) items) user
        in sthen (hand_over (map (\<lambda>(q, ms, p, parts). to_user (peer_owner q) (told q parts)) items))
          (sthen (create_updates (concat (map (\<lambda>(q, ms, p, parts). map (pin_row W q) parts) items)))
          (sthen (hand_over [ToInternalPush (dict_keys (map (\<lambda>(q, ms). peer_owner q) messages))])
          (sreturn (case own of None \<Rightarrow> (0, 0, None) | Some r \<Rightarrow> r))))))"

fun channel_pin_rows :: "world \<Rightarrow> int \<Rightarrow> (bool \<times> int list \<times> int) list \<Rightarrow> channel_row list res" where
  "channel_pin_rows W ch [] = Inr []"
| "channel_pin_rows W ch ((pinned, ids, p) # parts) =
     rbind (write_longs ids) (\<lambda>bs. rbind (channel_pin_rows W ch parts) (\<lambda>rs. Inr
       ((new_channel_update W ch (if pinned then CHANNEL_PIN_MESSAGES else CHANNEL_UNPIN_MESSAGES) p (int (length ids)))
          \<lparr>c_extra_data := Some bs\<rparr> # rs)))"

definition pin_channel_messages :: "world \<Rightarrow> int \<Rightarrow> message list \<Rightarrow> (int \<times> int \<times> tl_updates) upd" where
  "pin_channel_messages W ch ms =
     sbind (channel_add_pts ch (int (length ms))) (\<lambda>p.
     sbind (slift (channel_pin_rows W ch (pin_parts ms p))) (\<lambda>rows.
       let us = \<lparr>upd_list = map (\<lambda>(pinned, ids, q).
                   UpdatePinnedChannelMessages pinned (make_id_from ch) ids q (int (length ids))) (pin_parts ms p),
                 upd_mentions = {ChannelOf ch}\<rparr>
       in sthen (hand_over [to_channel ch us])
         (sthen (create_channel_updates rows)
         (sreturn (p, int (length ms), us)))))"

section \<open>Users, contacts and chats\<close>

definition self_peers :: "world \<Rightarrow> int \<Rightarrow> peer list" where
  "self_peers W user = filter (\<lambda>q. peer_owner q = user \<and> peer_to q \<in> {SelfPeer user, UserPeer user}) (w_peers W)"

definition update_user :: "world \<Rightarrow> int \<Rightarrow> unit upd" where
  "update_user W user =
     sbind (for_each (self_peers W user) (\<lambda>q.
        sbind (sget (\<lambda>s. user_pts s (peer_owner q))) (\<lambda>known.
          if known = None then sreturn []
          else sbind (add_pts (peer_owner q) 1) (\<lambda>p.
            sthen (hand_over [to_user (peer_owner q) \<lparr>upd_list = [UpdateUser user], upd_mentions = {UserOf user}\<rparr>])
            (sreturn [(new_update W (peer_owner q) USER_UPDATE p)\<lparr>u_related_id := Some user\<rparr>]))))) (\<lambda>rows.
     create_updates (concat rows))"

definition notify_user_deleted :: "world \<Rightarrow> int \<Rightarrow> unit upd" where
  "notify_user_deleted W user =
     (let owners = filter (\<lambda>u. u \<noteq> user) (remdups (map peer_owner (filter (\<lambda>q. peer_to q = UserPeer user) (w_peers W))))
      in sbind (for_each owners (\<lambda>owner.
           sbind (sget (\<lambda>s. user_pts s owner)) (\<lambda>known.
             if known = None then sreturn []
             else sbind (add_pts owner 1) (\<lambda>p.
               sthen (hand_over [to_user owner \<lparr>upd_list = [UpdateUser user], upd_mentions = {DeletedUser user}\<rparr>])
               (sreturn [(new_update W owner USER_UPDATE p)\<lparr>u_related_id := Some user\<rparr>]))))) (\<lambda>rows.
         create_updates (concat rows)))"

text \<open>A change all of some users are told in the same words, each with the next number.\<close>

definition announce_all ::
    "int list \<Rightarrow> (int \<Rightarrow> int \<Rightarrow> update_row) \<Rightarrow> tl_updates \<Rightarrow> tl_updates upd" where
  "announce_all to row us =
     sbind (add_pts_bulk to (map (\<lambda>_. 1) to)) (\<lambda>ptss.
     sthen (create_updates (map (\<lambda>(u, p). row u p) (zip to ptss)))
     (sthen (hand_over [to_users to us])
     (sreturn us)))"

definition update_chat_participants :: "world \<Rightarrow> basic_chat \<Rightarrow> peer list \<Rightarrow> tl_updates upd" where
  "update_chat_participants W c qs =
     announce_all (map peer_owner qs)
       (\<lambda>u p. (new_update W u CHAT_CREATE p)\<lparr>u_related_id := Some (bc_id c)\<rparr>)
       \<lparr>upd_list = [UpdateChatParticipants (chat_make_id_from (bc_id c)) (bc_creator c) (map fst (bc_members c))],
        upd_mentions = {ChatOf (bc_id c)} \<union> UserOf ` fst ` set (bc_members c)\<rparr>"

definition update_status :: "bool \<Rightarrow> int \<Rightarrow> int list \<Rightarrow> unit upd" where
  "update_status support user to =
     (if support then sreturn ()
      else hand_over (map (\<lambda>t. to_user t \<lparr>upd_list = [UpdateUserStatus user t], upd_mentions = {UserOf user}\<rparr>) to))"

definition name_update :: "int \<Rightarrow> user_card \<Rightarrow> tl_update" where
  "name_update user c =
     UpdateUserName user (uc_first_name c) (case uc_last_name c of None \<Rightarrow> '''' | Some n \<Rightarrow> n)
       (case uc_username c of None \<Rightarrow> [] | Some n \<Rightarrow> [n])"

definition update_user_name :: "world \<Rightarrow> int \<Rightarrow> user_card \<Rightarrow> unit upd" where
  "update_user_name W user c =
     sbind (for_each (self_peers W user) (\<lambda>q.
        sbind (add_pts (peer_owner q) 1) (\<lambda>p.
          sthen (hand_over [to_user (peer_owner q) \<lparr>upd_list = [name_update user c], upd_mentions = {UserOf user}\<rparr>])
          (sreturn ((new_update W (peer_owner q) USER_UPDATE_NAME p)\<lparr>u_related_id := Some user\<rparr>))))) create_updates"

text \<open>A target that comes again is skipped, its number is not.\<close>

fun first_places :: "int list \<Rightarrow> int \<Rightarrow> int set \<Rightarrow> (int \<times> int) list" where
  "first_places [] i seen = []"
| "first_places (t # ts) i seen =
     (if t \<in> seen then first_places ts (i + 1) seen else (t, i) # first_places ts (i + 1) (insert t seen))"

definition add_remove_contact :: "world \<Rightarrow> int \<Rightarrow> int list \<Rightarrow> tl_updates upd" where
  "add_remove_contact W user targets =
     sbind (add_pts user (int (length targets))) (\<lambda>p.
       let placed = first_places targets (p - int (length targets) + 1) {};
           us = \<lparr>upd_list = map (\<lambda>(t, i). UpdatePeerSettings (PeerUser t)) placed, upd_mentions = UserOf ` set targets\<rparr>
       in sthen (create_updates (map (\<lambda>(t, i). (new_update W user UPDATE_CONTACT i)
                \<lparr>u_related_id := Some t, u_update_user := Some t\<rparr>) placed))
         (sthen (hand_over [to_user user us])
         (sreturn us)))"

definition peer_user :: "peer \<Rightarrow> int option" where
  "peer_user q = (case peer_to q of SelfPeer u \<Rightarrow> Some u | UserPeer u \<Rightarrow> Some u | _ \<Rightarrow> None)"

definition block_unblock_user :: "world \<Rightarrow> int \<Rightarrow> peer \<Rightarrow> unit upd" where
  "block_unblock_user W user q =
     (case peer_user q of
        Some v \<Rightarrow>
          unit_of (announce user 1
            (\<lambda>p. (new_update W user UPDATE_BLOCK p)\<lparr>u_related_id := Some v, u_peer := Some (peer_id q)\<rparr>)
            (\<lambda>p. \<lparr>upd_list = [UpdatePeerBlocked (peer_to_tl q) (peer_blocked q)], upd_mentions = {UserOf v}\<rparr>))
      | None \<Rightarrow> sbind (add_pts user 1) (\<lambda>_. sraise AttributeError))"

definition present :: "basic_chat \<Rightarrow> int list" where
  "present c = map fst (filter (\<lambda>(u, left). \<not> left) (bc_members c))"

definition update_chat :: "world \<Rightarrow> basic_chat \<Rightarrow> tl_updates upd" where
  "update_chat W c =
     announce_all (present c) (\<lambda>u p. (new_update W u UPDATE_CHAT p)\<lparr>u_related_id := Some (bc_id c)\<rparr>)
       \<lparr>upd_list = [UpdateChat (chat_make_id_from (bc_id c))], upd_mentions = {ChatOf (bc_id c)}\<rparr>"

definition update_chat_default_banned_rights :: "world \<Rightarrow> basic_chat \<Rightarrow> tl_updates upd" where
  "update_chat_default_banned_rights W c =
     announce_all (present c) (\<lambda>u p. (new_update W u UPDATE_CHAT_BANNED_RIGHTS p)\<lparr>u_related_id := Some (bc_id c)\<rparr>)
       \<lparr>upd_list = [UpdateChatDefaultBannedRights (PeerChat (chat_make_id_from (bc_id c))) (bc_banned_rights c) (bc_version c)],
        upd_mentions = {ChatOf (bc_id c)}\<rparr>"

definition migrate_chat :: "world \<Rightarrow> basic_chat \<Rightarrow> int \<Rightarrow> int list \<Rightarrow> tl_updates upd" where
  "migrate_chat W c ch to =
     (let us = \<lparr>upd_list = [UpdateChat (chat_make_id_from (bc_id c)), UpdateChannel (make_id_from ch)],
                upd_mentions = {ChatOf (bc_id c), ChannelOf ch}\<rparr>
      in sbind (add_pts_bulk to (map (\<lambda>_. 2) to)) (\<lambda>ptss.
         sthen (create_updates (concat (map (\<lambda>(u, p).
             [(new_update W u UPDATE_CHAT (p - 1))\<lparr>u_related_id := Some (bc_id c)\<rparr>,
              (new_update W u UPDATE_CHANNEL p)\<lparr>u_related_id := Some ch\<rparr>]) (zip to ptss))))
        (sthen (hand_over [to_users to us])
        (sreturn us))))"

definition update_dialog_unread_mark :: "world \<Rightarrow> int \<Rightarrow> dialog \<Rightarrow> unit upd" where
  "update_dialog_unread_mark W user d =
     unit_of (announce user 1
       (\<lambda>p. (new_update W user UPDATE_DIALOG_UNREAD_MARK p)\<lparr>u_peer := Some (peer_id (dl_peer d)), u_dialog := Some (dl_id d)\<rparr>)
       (\<lambda>p. \<lparr>upd_list = [UpdateDialogUnreadMark (peer_to_tl (dl_peer d)) (dl_unread_mark d)],
             upd_mentions = {add_peer (dl_peer d)}\<rparr>))"

section \<open>Reading\<close>

text \<open>Readers are told at once only when \<open>broadcast\<close> is set; the row is kept in any case.\<close>

definition announce_maybe ::
    "bool \<Rightarrow> int \<Rightarrow> (int \<Rightarrow> update_row) \<Rightarrow> (int \<Rightarrow> tl_updates) \<Rightarrow> (int \<times> tl_updates) upd" where
  "announce_maybe broadcast user row told =
     sbind (add_pts user 1) (\<lambda>p.
     sthen (create_updates [row p])
     (sthen (if broadcast then hand_over [to_user user (told p)] else sreturn ())
     (sreturn (p, told p))))"

definition update_read_history_inbox :: "world \<Rightarrow> peer \<Rightarrow> int \<Rightarrow> int \<Rightarrow> bool \<Rightarrow> (int \<times> tl_updates) upd" where
  "update_read_history_inbox W q max_id unread broadcast =
     announce_maybe broadcast (peer_owner q)
       (\<lambda>p. (new_update W (peer_owner q) READ_INBOX p)
          \<lparr>u_pts_count := 1, u_related_id := Some (peer_id q), u_data := Some [Some max_id, Some unread],
           u_peer := Some (peer_id q)\<rparr>)
       (\<lambda>p. \<lparr>upd_list = [UpdateReadHistoryInbox (peer_to_tl q) max_id unread p 1], upd_mentions = {add_peer q}\<rparr>)"

definition update_read_history_inbox_channel ::
    "world \<Rightarrow> int \<Rightarrow> int \<Rightarrow> int \<Rightarrow> int \<Rightarrow> bool \<Rightarrow> tl_updates upd" where
  "update_read_history_inbox_channel W user ch max_id unread broadcast =
     sbind (announce_maybe broadcast user
       (\<lambda>p. (new_update W user READ_INBOX_CHANNEL p)
          \<lparr>u_pts_count := 1, u_related_id := Some ch, u_data := Some [Some max_id, Some unread]\<rparr>)
       (\<lambda>p. \<lparr>upd_list = [UpdateReadChannelInbox (make_id_from ch) max_id unread p], upd_mentions = {ChannelOf ch}\<rparr>))
     (\<lambda>(p, us). sreturn us)"

definition update_read_channel_discussion_inbox ::
    "world \<Rightarrow> int \<Rightarrow> int \<Rightarrow> int \<Rightarrow> int \<Rightarrow> int \<Rightarrow> tl_updates upd" where
  "update_read_channel_discussion_inbox W user ch post thread read_max =
     announce user 1
       (\<lambda>p. (new_update W user READ_INBOX_CHANNEL p)
          \<lparr>u_pts_count := 1, u_related_id := Some ch, u_data := Some [Some thread, Some read_max, Some post]\<rparr>)
       (\<lambda>p. \<lparr>upd_list = [UpdateReadChannelDiscussionInbox (make_id_from ch) thread read_max (make_id_from ch) post],
             upd_mentions = {ChannelOf ch}\<rparr>)"

definition update_read_channel_discussion_outbox :: "world \<Rightarrow> int \<Rightarrow> int \<Rightarrow> int \<Rightarrow> int \<Rightarrow> unit upd" where
  "update_read_channel_discussion_outbox W ch thread read_max author =
     unit_of (announce author 1
       (\<lambda>p. (new_update W author READ_OUTBOX_CHANNEL p)
          \<lparr>u_pts_count := 1, u_related_id := Some ch, u_data := Some [Some thread, Some read_max]\<rparr>)
       (\<lambda>p. \<lparr>upd_list = [UpdateReadChannelDiscussionOutbox (make_id_from ch) thread read_max], upd_mentions = {ChannelOf ch}\<rparr>))"

definition update_read_history_outbox_channel :: "world \<Rightarrow> int \<Rightarrow> (int option \<times> int) list \<Rightarrow> unit upd" where
  "update_read_history_outbox_channel W ch max_ids =
     (let known = concat (map (\<lambda>(u, m). case u of None \<Rightarrow> [] | Some u \<Rightarrow> [(u, m)]) max_ids)
      in if known = [] then sreturn ()
         else sbind (add_pts_bulk (map fst known) (map (\<lambda>_. 1) known)) (\<lambda>ptss.
           let items = zip known ptss
           in sthen (hand_over (map (\<lambda>((u, m), p).
                to_user u \<lparr>upd_list = [UpdateReadChannelOutbox (make_id_from ch) m], upd_mentions = {ChannelOf ch}\<rparr>) items))
             (create_updates (map (\<lambda>((u, m), p). (new_update W u READ_OUTBOX_CHANNEL p)
                \<lparr>u_pts_count := 1, u_related_id := Some ch, u_data := Some [Some m]\<rparr>) items))))"

fun outbox_mentions :: "(peer \<times> int) list \<Rightarrow> entity set res" where
  "outbox_mentions [] = Inr {}"
| "outbox_mentions ((q, m) # r) =
     (case peer_to q of
        SelfPeer v \<Rightarrow> rbind (outbox_mentions r) (\<lambda>es. Inr ({UserOf (peer_owner q), UserOf v} \<union> es))
      | UserPeer v \<Rightarrow> rbind (outbox_mentions r) (\<lambda>es. Inr ({UserOf (peer_owner q), UserOf v} \<union> es))
      | ChatPeer c \<Rightarrow> rbind (outbox_mentions r) (\<lambda>es. Inr (insert (ChatOf c) es))
      | ChannelPeer c \<Rightarrow> Inl Unreachable)"

definition update_read_history_outbox :: "world \<Rightarrow> (peer \<times> int) list \<Rightarrow> unit upd" where
  "update_read_history_outbox W items =
     sbind (slift (outbox_mentions items)) (\<lambda>mentions.
     sbind (add_pts_bulk (map (\<lambda>(q, m). peer_owner q) items) (map (\<lambda>_. 1) items)) (\<lambda>ptss.
     sthen (hand_over (map (\<lambda>((q, m), p). to_user (peer_owner q)
         \<lparr>upd_list = [UpdateReadHistoryOutbox (peer_to_tl q) m p 1], upd_mentions = mentions\<rparr>) (zip items ptss)))
     (create_updates (map (\<lambda>((q, m), p). (new_update W (peer_owner q) READ_OUTBOX p)
         \<lparr>u_pts_count := 1, u_related_id := Some (peer_id q), u_data := Some [Some m], u_peer := Some (peer_id q)\<rparr>)
         (zip items ptss)))))"

definition read_messages_contents :: "world \<Rightarrow> int \<Rightarrow> int list \<Rightarrow> (int \<times> tl_updates) upd" where
  "read_messages_contents W user ids =
     sbind (add_pts user (int (length ids))) (\<lambda>p.
       let us = just [UpdateReadMessagesContents ids p (int (length ids)) (w_now W)]
       in sthen (create_updates [(new_update W user READ_MESSAGES_CONTENTS p)
              \<lparr>u_pts_count := int (length ids), u_related_ids := Some ids\<rparr>])
         (sthen (hand_over [to_user user us])
         (sreturn (p, us))))"

definition read_channel_messages_contents :: "int \<Rightarrow> int \<Rightarrow> int list \<Rightarrow> unit upd" where
  "read_channel_messages_contents user ch ids = hand_over [to_user user (just [UpdateChannelReadMessagesContents ids ch])]"

section \<open>Channels\<close>

definition update_channel :: "world \<Rightarrow> int \<Rightarrow> int list option \<Rightarrow> tl_updates upd" where
  "update_channel W ch recipients_only =
     sbind (channel_add_pts ch 1) (\<lambda>p.
       let us = \<lparr>upd_list = [UpdateChannel (make_id_from ch)], upd_mentions = {ChannelOf ch}\<rparr>
       in sthen (create_channel_updates [new_channel_update W ch CHANNEL_UPDATE p 1])
         (sthen (hand_over [case recipients_only of None \<Rightarrow> to_channel ch us | Some to \<Rightarrow> to_users to us])
         (sreturn us)))"

definition update_channel_for_user :: "world \<Rightarrow> int \<Rightarrow> int \<Rightarrow> bool \<Rightarrow> tl_updates upd" where
  "update_channel_for_user W ch user ignore_current =
     sbind (add_pts user 1) (\<lambda>p.
       let us = \<lparr>upd_list = [UpdateChannel (make_id_from ch)], upd_mentions = {ChannelOf ch}\<rparr>
       in sthen (create_updates [(new_update W user UPDATE_CHANNEL p)\<lparr>u_related_id := Some ch\<rparr>])
         (sthen (hand_over [ToSessions us (OneId user) NoIds NoIds (if ignore_current then w_auth W else None) None])
         (sreturn us)))"

definition update_channel_available_messages :: "world \<Rightarrow> int \<Rightarrow> int \<Rightarrow> tl_updates upd" where
  "update_channel_available_messages W ch min_id =
     sbind (channel_add_pts ch 1) (\<lambda>p.
     sbind (slift (Int_write TLong True min_id)) (\<lambda>bs.
       let us = \<lparr>upd_list = [UpdateChannelAvailableMessages (make_id_from ch) min_id], upd_mentions = {ChannelOf ch}\<rparr>
       in sthen (create_channel_updates [(new_channel_update W ch CHANNEL_MIN_AVAILABLE_ID p 1)\<lparr>c_extra_data := Some bs\<rparr>])
         (sthen (hand_over [to_channel ch us])
         (sreturn us))))"

definition update_channel_participant_available_message :: "world \<Rightarrow> int \<Rightarrow> int \<Rightarrow> int \<Rightarrow> tl_updates upd" where
  "update_channel_participant_available_message W user ch min_id =
     announce user 1
       (\<lambda>p. (new_update W user UPDATE_CHANNEL_MIN_AVAILABLE_ID p)
          \<lparr>u_pts_count := 1, u_related_id := Some ch, u_data := Some [Some min_id]\<rparr>)
       (\<lambda>p. \<lparr>upd_list = [UpdateChannelAvailableMessages (make_id_from ch) min_id], upd_mentions = {ChannelOf ch}\<rparr>)"

section \<open>Folders, polls, reactions\<close>

definition update_folder_peers :: "world \<Rightarrow> int \<Rightarrow> dialog list \<Rightarrow> tl_updates upd" where
  "update_folder_peers W user ds =
     announce user (int (length ds))
       (\<lambda>p. (new_update W user FOLDER_PEERS p)
          \<lparr>u_pts_count := int (length ds), u_related_ids := Some (map (\<lambda>d. peer_id (dl_peer d)) ds)\<rparr>)
       (\<lambda>p. \<lparr>upd_list = [UpdateFolderPeers (map (\<lambda>d. (peer_to_tl (dl_peer d), dl_folder d)) ds) p (int (length ds))],
             upd_mentions = set (map (\<lambda>d. add_peer (dl_peer d)) ds)\<rparr>)"

definition update_folder :: "world \<Rightarrow> int \<Rightarrow> int \<Rightarrow> int option \<Rightarrow> tl_updates upd" where
  "update_folder W user i row =
     announce user 1
       (\<lambda>p. (new_update W user UPDATE_FOLDER p)\<lparr>u_pts_count := 1, u_related_id := row, u_related_ids := Some [i]\<rparr>)
       (\<lambda>p. just [UpdateDialogFilter i row])"

definition update_folders_order :: "world \<Rightarrow> int \<Rightarrow> int list \<Rightarrow> tl_updates upd" where
  "update_folders_order W user ids =
     announce user (int (length ids))
       (\<lambda>p. (new_update W user FOLDERS_ORDER p)\<lparr>u_pts_count := int (length ids), u_related_ids := Some ids\<rparr>)
       (\<lambda>p. just [UpdateDialogFilterOrder ids])"

definition update_message_poll :: "world \<Rightarrow> int \<Rightarrow> int \<Rightarrow> tl_updates upd" where
  "update_message_poll W poll user =
     announce user 1 (\<lambda>p. (new_update W user UPDATE_POLL p)\<lparr>u_related_id := Some poll\<rparr>)
       (\<lambda>p. just [UpdateMessagePoll poll])"

definition update_reactions :: "int \<Rightarrow> message list \<Rightarrow> peer \<Rightarrow> bool \<Rightarrow> tl_updates upd" where
  "update_reactions user ms q tell =
     (let us = \<lparr>upd_list = map (\<lambda>m. UpdateMessageReactions (peer_to_tl q) (ms_id m) user) ms,
                upd_mentions = set (map add_message ms)\<rparr>
      in sthen (if tell then hand_over [to_user user us] else sreturn ()) (sreturn us))"

section \<open>Secret chats\<close>

text \<open>Only the last state of a secret chat is kept in the log.\<close>

definition encryption_update :: "world \<Rightarrow> int \<Rightarrow> secret_chat \<Rightarrow> unit upd" where
  "encryption_update W user c =
     sbind (add_pts user 1) (\<lambda>p.
     sthen (supd (\<lambda>s. s\<lparr>user_updates := filter (\<lambda>r.
        \<not> (u_user r = user \<and> u_type r = UPDATE_ENCRYPTION \<and> u_encrypted_chat r = Some (en_id c))) (user_updates s)\<rparr>))
     (sthen (create_updates [(new_update W user UPDATE_ENCRYPTION p)
        \<lparr>u_pts_count := 1, u_related_id := Some (en_id c), u_encrypted_chat := Some (en_id c)\<rparr>])
     (hand_over [to_user user
        \<lparr>upd_list = [UpdateEncryption (en_id c) (w_now W)],
         upd_mentions = {UserOf (if user = en_to_user c then en_from_user c else en_to_user c)}\<rparr>])))"

definition secret_to_tl :: "secret_row \<Rightarrow> tl_update res" where
  "secret_to_tl r =
     (case s_type r of
        SECRET_NEW_MESSAGE \<Rightarrow>
          Inr (UpdateNewEncryptedMessage
            (if s_is_service r then EncryptedMessageService (s_random_id r) (s_chat r) (s_date r) (s_data r)
             else EncryptedMessage (s_random_id r) (s_chat r) (s_date r) (s_data r) (s_file r)) (s_qts r))
      | SECRET_HISTORY_READ \<Rightarrow>
          rbind (Int_read_bytes TLong (s_data r) True) (\<lambda>d. Inr (UpdateEncryptedMessagesRead (s_chat r) d (s_date r))))"

definition send_encrypted_update :: "secret_row \<Rightarrow> unit upd" where
  "send_encrypted_update r =
     sbind (slift (secret_to_tl r)) (\<lambda>x. hand_over [to_auth (s_auth r) (just [x])])"

definition send_encrypted_typing :: "int \<Rightarrow> int \<Rightarrow> unit upd" where
  "send_encrypted_typing ch auth = hand_over [to_auth auth (just [UpdateEncryptedChatTyping ch])]"

section \<open>Settings, authorizations, stickers\<close>

text \<open>A row that says no more than that something changed.\<close>

definition bare_row :: "world \<Rightarrow> int \<Rightarrow> update_type \<Rightarrow> int \<Rightarrow> update_row" where
  "bare_row W user t p = (new_update W user t p)\<lparr>u_pts_count := 1\<rparr>"

definition update_config :: "world \<Rightarrow> int \<Rightarrow> tl_updates upd" where
  "update_config W user = announce user 1 (bare_row W user UPDATE_CONFIG) (\<lambda>p. just [UpdateConfig])"

definition update_recent_reactions :: "world \<Rightarrow> int \<Rightarrow> tl_updates upd" where
  "update_recent_reactions W user =
     announce user 1 (bare_row W user UPDATE_RECENT_REACTIONS) (\<lambda>p. just [UpdateRecentReactions])"

definition authorization_update :: "client_auth \<Rightarrow> tl_update" where
  "authorization_update a =
     UpdateNewAuthorization (\<not> ca_confirmed a) (ca_hash a)
       (if ca_confirmed a then None else Some (ca_created_at a, ca_device_model a, ca_ip a))"

definition new_auth :: "world \<Rightarrow> int \<Rightarrow> client_auth \<Rightarrow> tl_updates upd" where
  "new_auth W user a =
     sbind (add_pts user 1) (\<lambda>p.
       let us = just [authorization_update a]
       in sthen (create_updates [(bare_row W user NEW_AUTHORIZATION p)\<lparr>u_authorization := Some (ca_id a)\<rparr>])
         (sthen (hand_over [ToSessions us (OneId user) NoIds NoIds None (Some 163)])
         (sreturn us)))"

definition new_stickerset :: "world \<Rightarrow> int \<Rightarrow> int \<Rightarrow> tl_updates upd" where
  "new_stickerset W user i =
     announce user 1 (\<lambda>p. (bare_row W user NEW_STICKERSET p)\<lparr>u_stickerset := Some i\<rparr>) (\<lambda>p. just [UpdateNewStickerSet i user])"

definition update_stickersets :: "world \<Rightarrow> int \<Rightarrow> tl_updates upd" where
  "update_stickersets W user = announce user 1 (bare_row W user UPDATE_STICKERSETS) (\<lambda>p. just [UpdateStickerSets])"

definition update_stickersets_order :: "world \<Rightarrow> int \<Rightarrow> int list \<Rightarrow> tl_updates upd" where
  "update_stickersets_order W user order =
     announce user 1 (\<lambda>p. (bare_row W user UPDATE_STICKERSETS_ORDER p)\<lparr>u_related_ids := Some order\<rparr>)
       (\<lambda>p. just [UpdateStickerSetsOrder order])"

definition update_chat_wallpaper :: "world \<Rightarrow> int \<Rightarrow> int \<Rightarrow> chat_wallpaper option \<Rightarrow> tl_updates upd" where
  "update_chat_wallpaper W user target cw =
     announce user 1
       (\<lambda>p. (bare_row W user UPDATE_CHAT_WALLPAPER p)
          \<lparr>u_related_id := Some target, u_related_ids := map_option (\<lambda>c. [cw_wallpaper c]) cw\<rparr>)
       (\<lambda>p. \<lparr>upd_list = [UpdatePeerWallpaper (case cw of None \<Rightarrow> False | Some c \<Rightarrow> cw_overridden c) (PeerUser target)
                           (map_option cw_wallpaper cw)],
             upd_mentions = {UserOf target}\<rparr>)"

definition update_recent_stickers :: "world \<Rightarrow> int \<Rightarrow> tl_updates upd" where
  "update_recent_stickers W user = announce user 1 (bare_row W user UPDATE_RECENT_STICKERS) (\<lambda>p. just [UpdateRecentStickers])"

definition update_faved_stickers :: "world \<Rightarrow> int \<Rightarrow> tl_updates upd" where
  "update_faved_stickers W user = announce user 1 (bare_row W user UPDATE_FAVED_STICKERS) (\<lambda>p. just [UpdateFavedStickers])"

definition update_saved_gifs :: "world \<Rightarrow> int \<Rightarrow> tl_updates upd" where
  "update_saved_gifs W user = announce user 1 (bare_row W user SAVED_GIFS) (\<lambda>p. just [UpdateSavedGifs])"

section \<open>Scheduled messages, timers, notifications\<close>

definition new_scheduled_message :: "world \<Rightarrow> int \<Rightarrow> message \<Rightarrow> tl_updates upd" where
  "new_scheduled_message W user m =
     announce user 1
       (\<lambda>p. (bare_row W user NEW_SCHEDULED_MESSAGE p)\<lparr>u_related_id := Some (ms_id m), u_message := Some (ms_id m)\<rparr>)
       (\<lambda>p. just [UpdateNewScheduledMessage (MessageFor (ms_id m) user True)])"

definition none_if_empty :: "'a list \<Rightarrow> 'a list option" where
  "none_if_empty xs = (if xs = [] then None else Some xs)"

text \<open>The sent messages follow the deleted ones in the row; \<open>pts_count\<close> tells where they begin.\<close>

definition delete_scheduled_messages :: "world \<Rightarrow> int \<Rightarrow> peer \<Rightarrow> int list \<Rightarrow> int list option \<Rightarrow> tl_updates upd" where
  "delete_scheduled_messages W user q deleted sent_ids =
     (let also_sent = (case sent_ids of None \<Rightarrow> [] | Some xs \<Rightarrow> xs)
      in announce user (int (length deleted))
           (\<lambda>p. (new_update W user DELETE_SCHEDULED_MESSAGE p)
              \<lparr>u_pts_count := int (length deleted), u_related_id := Some (peer_id q),
               u_related_ids := Some (deleted @ also_sent), u_peer := Some (peer_id q)\<rparr>)
           (\<lambda>p. just [UpdateDeleteScheduledMessages (peer_to_tl q) deleted (none_if_empty also_sent)]))"

definition ttl_period :: "int \<Rightarrow> int option" where
  "ttl_period days = (if days = 0 then None else Some (days * 86400))"

definition update_history_ttl :: "world \<Rightarrow> peer \<Rightarrow> peer list \<Rightarrow> int \<Rightarrow> tl_updates option upd" where
  "update_history_ttl W q opposite days =
     sbind (add_pts_bulk (map peer_owner (q # opposite)) (map (\<lambda>_. 1) (q # opposite))) (\<lambda>ptss.
       let items = map (\<lambda>(q', p). (q', p, just [UpdatePeerHistoryTTL (peer_to_tl q') (ttl_period days)])) (zip (q # opposite) ptss)
       in sthen (create_updates (map (\<lambda>(q', p, us). (bare_row W (peer_owner q') UPDATE_HISTORY_TTL p)
              \<lparr>u_related_id := Some (peer_id q'), u_data := Some [Some days], u_peer := Some (peer_id q')\<rparr>) items))
         (sthen (hand_over (map (\<lambda>(q', p, us). to_user (peer_owner q') us) items))
         (sreturn (dict_get (map (\<lambda>(q', p, us). (peer_id q', us)) items) (peer_id q)))))"

definition notify_peer_to_tl :: "peer option \<Rightarrow> int option \<Rightarrow> notify_peer res" where
  "notify_peer_to_tl q not_peer =
     (case q of
        Some q \<Rightarrow> Inr (NotifyPeer (peer_to_tl q))
      | None \<Rightarrow>
          if not_peer = Some 0 then Inr NotifyUsers
          else if not_peer = Some 1 then Inr NotifyChats
          else if not_peer = Some 2 then Inr NotifyBroadcasts
          else Inl Unreachable)"

text \<open>\<open>if not_peer\<close> is false for the first of the kinds, the users, whose number is zero.\<close>

definition update_peer_notify_settings ::
    "world \<Rightarrow> int \<Rightarrow> peer option \<Rightarrow> int option \<Rightarrow> int \<Rightarrow> tl_updates upd" where
  "update_peer_notify_settings W user q not_peer settings =
     sbind (add_pts user 1) (\<lambda>p.
     sthen (create_updates [(bare_row W user UPDATE_PEER_NOTIFY_SETTINGS p)
        \<lparr>u_related_id := map_option peer_id q,
         u_data := (case not_peer of None \<Rightarrow> None | Some k \<Rightarrow> if k = 0 then None else Some [Some k])\<rparr>])
     (sbind (slift (notify_peer_to_tl q not_peer)) (\<lambda>np.
        let us = just [UpdateNotifySettings np settings]
        in sthen (hand_over [to_user user us]) (sreturn us))))"

section \<open>Bots\<close>

text \<open>The HTTP queue of the bot API, which hears of the query too, is left out.\<close>

definition precheckout_update :: "precheckout_query \<Rightarrow> tl_update" where
  "precheckout_update x = UpdateBotPrecheckoutQuery (pq_id x) (pq_user x) (pq_payload x) (pq_currency x) (pq_total_amount x)"

definition bot_precheckout_query :: "world \<Rightarrow> int \<Rightarrow> precheckout_query \<Rightarrow> unit upd" where
  "bot_precheckout_query W bid x =
     unit_of (announce bid 1
       (\<lambda>p. (bare_row W bid BOT_PRECHECKOUT_QUERY p)\<lparr>u_related_id := Some (pq_id x), u_related_ids := Some []\<rparr>)
       (\<lambda>p. \<lparr>upd_list = [precheckout_update x], upd_mentions = {UserOf (pq_user x)}\<rparr>))"

definition callback_update :: "callback_query \<Rightarrow> tl_update" where
  "callback_update x =
     UpdateBotCallbackQuery (cq_id x) (cq_user x) (peer_to_tl (cq_peer x)) (ms_id (cq_message x)) (cq_data x)"

definition bot_callback_query :: "world \<Rightarrow> int \<Rightarrow> callback_query \<Rightarrow> unit upd" where
  "bot_callback_query W bid x =
     unit_of (announce bid 1
       (\<lambda>p. (bare_row W bid BOT_CALLBACK_QUERY p)\<lparr>u_related_id := Some (cq_id x), u_related_ids := Some []\<rparr>)
       (\<lambda>p. \<lparr>upd_list = [callback_update x], upd_mentions = {add_message (cq_message x)}\<rparr>))"

text \<open>No offset is sent as an empty text; the log hands out the column as it is.\<close>

definition inline_update :: "inline_query \<Rightarrow> string option \<Rightarrow> tl_update" where
  "inline_update x offs = UpdateBotInlineQuery (iq_id x) (iq_user x) (iq_text x) (iq_peer x) offs"

definition bot_inline_query :: "world \<Rightarrow> int \<Rightarrow> inline_query \<Rightarrow> unit upd" where
  "bot_inline_query W bid x =
     unit_of (announce bid 1
       (\<lambda>p. (bare_row W bid BOT_INLINE_QUERY p)\<lparr>u_related_id := Some (iq_id x), u_related_ids := Some []\<rparr>)
       (\<lambda>p. \<lparr>upd_list = [inline_update x (Some (case iq_offset x of None \<Rightarrow> '''' | Some t \<Rightarrow> t))], upd_mentions = {UserOf (iq_user x)}\<rparr>))"

section \<open>The account\<close>

definition update_user_phone :: "world \<Rightarrow> int \<Rightarrow> string option \<Rightarrow> tl_updates upd" where
  "update_user_phone W user phone =
     announce user 1 (\<lambda>p. (bare_row W user UPDATE_PHONE p)\<lparr>u_related_id := Some user\<rparr>) (\<lambda>p. just [UpdateUserPhone user phone])"

definition pin_saved_dialog :: "world \<Rightarrow> int \<Rightarrow> saved_dialog \<Rightarrow> unit upd" where
  "pin_saved_dialog W user d =
     unit_of (announce user 1
       (\<lambda>p. (new_update W user SAVED_DIALOG_PIN p)\<lparr>u_related_id := Some (peer_id (sd_peer d))\<rparr>)
       (\<lambda>p. \<lparr>upd_list = [UpdateSavedDialogPinned (sd_pinned_index d \<noteq> None) (peer_to_tl (sd_peer d))],
             upd_mentions = {add_peer (sd_peer d), UserOf user}\<rparr>))"

definition reorder_pinned_saved_dialogs :: "world \<Rightarrow> int \<Rightarrow> saved_dialog list \<Rightarrow> unit upd" where
  "reorder_pinned_saved_dialogs W user ds =
     unit_of (announce user 1 (new_update W user SAVED_DIALOG_PIN_REORDER)
       (\<lambda>p. \<lparr>upd_list = [UpdatePinnedSavedDialogs (map (\<lambda>d. peer_to_tl (sd_peer d)) ds)],
             upd_mentions = set (concat (map (\<lambda>d. case peer_to (sd_peer d) of UserPeer v \<Rightarrow> [UserOf v] | _ \<Rightarrow> []) ds))\<rparr>))"

definition update_privacy :: "world \<Rightarrow> int \<Rightarrow> int \<Rightarrow> privacy_rule \<Rightarrow> tl_rule list \<Rightarrow> entity set \<Rightarrow> tl_updates upd" where
  "update_privacy W user i rule tl_rules mentions =
     sbind (add_pts user 1) (\<lambda>p.
     sthen (create_updates [(bare_row W user UPDATE_PRIVACY p)\<lparr>u_related_id := Some i\<rparr>])
     (sbind (slift (key_to_tl (pr_key rule))) (\<lambda>k.
        let us = \<lparr>upd_list = [UpdatePrivacy k tl_rules], upd_mentions = mentions\<rparr>
        in sthen (hand_over [to_user user us]) (sreturn us))))"

definition phone_call_update :: "world \<Rightarrow> int \<Rightarrow> phone_call \<Rightarrow> int list option \<Rightarrow> tl_updates upd" where
  "phone_call_update W user c to =
     sbind (add_pts user 1) (\<lambda>p.
       let us = \<lparr>upd_list = [UpdatePhoneCall (pc_id c)], upd_mentions = {UserOf (pc_from_user c), UserOf (pc_to_user c)}\<rparr>
       in sthen (create_updates [(bare_row W user UPDATE_PHONE_CALL p)\<lparr>u_related_id := Some (pc_id c)\<rparr>])
         (sthen (hand_over [case to of None \<Rightarrow> to_user user us | Some as \<Rightarrow> ToSessions us NoIds NoIds (ManyIds as) None None])
         (sreturn us)))"

definition phone_signaling_update :: "int \<Rightarrow> int \<Rightarrow> byte list \<Rightarrow> unit upd" where
  "phone_signaling_update auth call data =
     hand_over [ToSessions (just [UpdatePhoneCallSignalingData call data]) NoIds NoIds (ManyIds [auth]) None None]"

text \<open>The status is the emoji and when it ends.\<close>

definition update_user_emoji_status :: "world \<Rightarrow> int \<Rightarrow> (int \<times> int option) option \<Rightarrow> tl_updates upd" where
  "update_user_emoji_status W user status =
     announce user 1
       (\<lambda>p. (bare_row W user EMOJI_STATUS p)
          \<lparr>u_related_id := map_option fst status,
           u_data := Some [case status of None \<Rightarrow> None | Some (e, until) \<Rightarrow> until]\<rparr>)
       (\<lambda>p. \<lparr>upd_list = [UpdateUserEmojiStatus user status], upd_mentions = {UserOf user}\<rparr>)"

definition update_stars_balance :: "int \<Rightarrow> int \<Rightarrow> unit upd" where
  "update_stars_balance user balance = hand_over [to_user user (just [UpdateStarsBalance balance])]"

end
