(* ===== verification/UpdateReplay.thy ===== *)
theory UpdateReplay
  imports UpdatesManager
begin

text \<open>
  The log read back (\<open>Update.to_tl\<close> in \<^verbatim>\<open>piltover/db/models/update.py\<close>, \<open>ChannelUpdate.to_tl\<close> in
  \<^verbatim>\<open>piltover/db/models/channel_update.py\<close>): what a row of the log is shown as to a client that
  catches up, with the users, chats and channels it mentions. A row may show nothing: when what it
  is about is gone, or its data is not what its kind expects. Where the code would raise, the result
  is the exception; a \<open>null\<close> where the TL class has a number, which fails when the answer is
  written, is a \<open>TypeError\<close> here.
\<close>

section \<open>Lookups\<close>

definition by_id :: "('a \<Rightarrow> int) \<Rightarrow> 'a list \<Rightarrow> int option \<Rightarrow> 'a option" where
  "by_id f xs i = (case i of None \<Rightarrow> None | Some i \<Rightarrow> find (\<lambda>x. f x = i) xs)"

definition row_peer :: "world \<Rightarrow> update_row \<Rightarrow> peer option" where
  "row_peer W r = by_id peer_id (w_peers W) (u_peer r)"

definition row_message :: "world \<Rightarrow> update_row \<Rightarrow> message option" where
  "row_message W r = by_id ms_id (w_messages W) (u_message r)"

definition visible_dialog :: "world \<Rightarrow> update_row \<Rightarrow> dialog option" where
  "visible_dialog W r =
     (case by_id dl_id (w_dialogs W) (u_dialog r) of
        None \<Rightarrow> None | Some d \<Rightarrow> if dl_visible d then Some d else None)"

type_synonym shown = "(tl_update \<times> entity set) option res"

definition show_it :: "entity set \<Rightarrow> tl_update \<Rightarrow> shown" where
  "show_it es x = Inr (Some (x, es))"

definition shows_nothing :: shown where
  "shows_nothing = Inr None"

definition unless_gone :: "'a option \<Rightarrow> ('a \<Rightarrow> shown) \<Rightarrow> shown" where
  "unless_gone x f = (case x of None \<Rightarrow> shows_nothing | Some y \<Rightarrow> f y)"

definition required :: "'a option \<Rightarrow> ('a \<Rightarrow> shown) \<Rightarrow> shown" where
  "required x f = (case x of None \<Rightarrow> Inl TypeError | Some y \<Rightarrow> f y)"

definition first_of :: "'a list option \<Rightarrow> 'a res" where
  "first_of xs = (case xs of None \<Rightarrow> Inl TypeError | Some [] \<Rightarrow> Inl IndexError | Some (x # _) \<Rightarrow> Inr x)"

text \<open>\<open>additional_data\<close> of exactly one or two values.\<close>

definition one_value :: "update_row \<Rightarrow> (int \<Rightarrow> shown) \<Rightarrow> shown" where
  "one_value r f = (case u_data r of Some [a] \<Rightarrow> required a f | _ \<Rightarrow> shows_nothing)"

definition two_values :: "update_row \<Rightarrow> (int \<Rightarrow> int \<Rightarrow> shown) \<Rightarrow> shown" where
  "two_values r f = (case u_data r of Some [a, b] \<Rightarrow> required a (\<lambda>x. required b (f x)) | _ \<Rightarrow> shows_nothing)"

definition pinned_dialogs :: "world \<Rightarrow> int \<Rightarrow> dialog list" where
  "pinned_dialogs W user =
     filter (\<lambda>d. peer_owner (dl_peer d) = user \<and> dl_pinned_index d \<noteq> None \<and> dl_visible d) (w_dialogs W)"

definition pinned_saved_dialogs :: "world \<Rightarrow> int \<Rightarrow> saved_dialog list" where
  "pinned_saved_dialogs W user =
     filter (\<lambda>d. peer_owner (sd_peer d) = user \<and> sd_pinned_index d \<noteq> None) (w_saved_dialogs W)"

definition chat_of_member :: "world \<Rightarrow> int \<Rightarrow> int option \<Rightarrow> basic_chat option" where
  "chat_of_member W user i =
     (case by_id bc_id (w_chats W) i of
        None \<Rightarrow> None
      | Some c \<Rightarrow> if \<not> bc_deleted c \<and> (\<exists>q \<in> set (w_peers W). peer_owner q = user \<and> peer_to q = ChatPeer (bc_id c))
                  then Some c else None)"

definition notify_settings_update :: "world \<Rightarrow> int \<Rightarrow> update_row \<Rightarrow> shown" where
  "notify_settings_update W user r =
     (case u_related_id r of
        Some i \<Rightarrow>
          (case find (\<lambda>n. ns_user n = user \<and> (case ns_peer n of None \<Rightarrow> False | Some q \<Rightarrow> peer_owner q = user \<and> peer_id q = i))
                  (w_notify_settings W) of
             None \<Rightarrow> shows_nothing
           | Some n \<Rightarrow>
               rbind (notify_peer_to_tl (ns_peer n) None) (\<lambda>np.
                 show_it (case ns_peer n of None \<Rightarrow> {} | Some q \<Rightarrow> {add_peer q}) (UpdateNotifySettings np (ns_id n))))
      | None \<Rightarrow>
          (case u_data r of
             Some (Some k # _) \<Rightarrow>
               if k \<in> {0, 1, 2} then
                 (case find (\<lambda>n. ns_user n = user \<and> ns_peer n = None \<and> ns_not_peer n = Some k) (w_notify_settings W) of
                    None \<Rightarrow> Inl AttributeError
                  | Some n \<Rightarrow> rbind (notify_peer_to_tl None (ns_not_peer n)) (\<lambda>np. show_it {} (UpdateNotifySettings np (ns_id n))))
               else shows_nothing
           | _ \<Rightarrow> shows_nothing))"

section \<open>A row of a user's log\<close>

definition update_to_tl :: "world \<Rightarrow> int \<Rightarrow> (int \<Rightarrow> tl_message option) \<Rightarrow> int option \<Rightarrow> update_row \<Rightarrow> shown" where
  "update_to_tl W user formatted auth r =
     (case u_type r of
        MESSAGE_DELETE \<Rightarrow> required (u_related_ids r) (\<lambda>ids. show_it {} (UpdateDeleteMessages ids (u_pts r) (int (length ids))))
      | MESSAGE_EDIT \<Rightarrow> unless_gone (row_message W r) (\<lambda>m.
          case formatted (ms_id m) of None \<Rightarrow> Inl KeyError
          | Some x \<Rightarrow> show_it {add_message m} (UpdateEditMessage x (u_pts r) 1))
      | DIALOG_PIN \<Rightarrow> unless_gone (row_peer W r) (\<lambda>q. unless_gone (visible_dialog W r) (\<lambda>d.
          show_it {add_peer q} (UpdateDialogPinned (dl_pinned_index d \<noteq> None) (peer_to_tl q))))
      | DIALOG_PIN_REORDER \<Rightarrow>
          show_it (set (map (\<lambda>d. add_peer (dl_peer d)) (pinned_dialogs W user)))
            (UpdatePinnedDialogs (map (\<lambda>d. peer_to_tl (dl_peer d)) (pinned_dialogs W user)))
      | DRAFT_UPDATE \<Rightarrow> unless_gone (row_peer W r) (\<lambda>q.
          show_it {add_peer q} (UpdateDraftMessage (peer_to_tl q) (by_id id (w_drafts W) (u_draft r))))
      | USER_UPDATE \<Rightarrow> required (u_related_id r) (\<lambda>u. show_it {UserOf u} (UpdateUser u))
      | CHAT_CREATE \<Rightarrow> unless_gone (chat_of_member W user (u_related_id r)) (\<lambda>c.
          show_it ({ChatOf (bc_id c)} \<union> UserOf ` set (present c)) (UpdateChatParticipants (bc_id c) (bc_creator c) (present c)))
      | USER_UPDATE_NAME \<Rightarrow> required (u_related_id r) (\<lambda>u. unless_gone (w_users W u) (\<lambda>c. show_it {UserOf u} (name_update u c)))
      | UPDATE_CONTACT \<Rightarrow> unless_gone (u_update_user r) (\<lambda>u. show_it {UserOf u} (UpdatePeerSettings (PeerUser u)))
      | UPDATE_BLOCK \<Rightarrow> unless_gone (row_peer W r) (\<lambda>q. show_it {add_peer q} (UpdatePeerBlocked (peer_to_tl q) (peer_blocked q)))
      | UPDATE_CHAT \<Rightarrow> required (u_related_id r) (\<lambda>c. show_it {ChatOf c} (UpdateChat c))
      | UPDATE_DIALOG_UNREAD_MARK \<Rightarrow> unless_gone (row_peer W r) (\<lambda>q. unless_gone (visible_dialog W r) (\<lambda>d.
          show_it {add_peer q} (UpdateDialogUnreadMark (peer_to_tl q) (dl_unread_mark d))))
      | READ_INBOX \<Rightarrow> two_values r (\<lambda>m n. unless_gone (row_peer W r) (\<lambda>q. show_it {add_peer q}
          (case peer_to q of
             ChannelPeer c \<Rightarrow> UpdateReadChannelInbox c m n (u_pts r)
           | _ \<Rightarrow> UpdateReadHistoryInbox (peer_to_tl q) m n (u_pts r) (u_pts_count r))))
      | READ_INBOX_CHANNEL \<Rightarrow> two_values r (\<lambda>m n. required (u_related_id r) (\<lambda>c.
          show_it {ChannelOf c} (UpdateReadChannelInbox c m n (u_pts r))))
      | READ_OUTBOX \<Rightarrow> one_value r (\<lambda>m. unless_gone (row_peer W r) (\<lambda>q.
          show_it {add_peer q} (UpdateReadHistoryOutbox (peer_to_tl q) m (u_pts r) (u_pts_count r))))
      | READ_OUTBOX_CHANNEL \<Rightarrow> one_value r (\<lambda>m. required (u_related_id r) (\<lambda>c.
          show_it {ChannelOf c} (UpdateReadChannelOutbox c m)))
      | FOLDER_PEERS \<Rightarrow> required (u_related_ids r) (\<lambda>ids.
          let ds = filter (\<lambda>d. peer_owner (dl_peer d) = user \<and> peer_id (dl_peer d) \<in> set ids \<and> dl_visible d) (w_dialogs W)
          in show_it (set (map (\<lambda>d. add_peer (dl_peer d)) ds))
               (UpdateFolderPeers (map (\<lambda>d. (peer_to_tl (dl_peer d), dl_folder d)) ds) (u_pts r) (u_pts_count r)))
      | UPDATE_CHANNEL \<Rightarrow> required (u_related_id r) (\<lambda>c. show_it {ChannelOf c} (UpdateChannel c))
      | UPDATE_POLL \<Rightarrow> unless_gone (by_id id (w_polls W) (u_related_id r)) (\<lambda>i. show_it {} (UpdateMessagePoll i))
      | UPDATE_FOLDER \<Rightarrow> rbind (first_of (u_related_ids r)) (\<lambda>i. show_it {} (UpdateDialogFilter i
          (case u_related_id r of
             None \<Rightarrow> None
           | Some j \<Rightarrow> map_option fo_id
               (find (\<lambda>f. fo_owner f = user \<and> fo_id f = j \<and> fo_id_for_user f = i) (w_folders W)))))
      | FOLDERS_ORDER \<Rightarrow> required (u_related_ids r) (\<lambda>ids. show_it {} (UpdateDialogFilterOrder ids))
      | UPDATE_ENCRYPTION \<Rightarrow>
          if auth = None then shows_nothing
          else unless_gone (by_id en_id (w_secret_chats W) (u_encrypted_chat r)) (\<lambda>c.
            show_it {UserOf (if user = en_to_user c then en_from_user c else en_to_user c)} (UpdateEncryption (en_id c) (u_date r)))
      | UPDATE_CONFIG \<Rightarrow> show_it {} UpdateConfig
      | UPDATE_RECENT_REACTIONS \<Rightarrow> show_it {} UpdateRecentReactions
      | NEW_AUTHORIZATION \<Rightarrow> unless_gone (by_id ca_id (w_auths W) (u_authorization r)) (\<lambda>a. show_it {} (authorization_update a))
      | NEW_STICKERSET \<Rightarrow> unless_gone (by_id fst (w_stickersets W) (u_stickerset r)) (\<lambda>(i, deleted).
          if deleted then shows_nothing else show_it {} (UpdateNewStickerSet i user))
      | UPDATE_STICKERSETS \<Rightarrow> show_it {} UpdateStickerSets
      | UPDATE_STICKERSETS_ORDER \<Rightarrow> (case u_related_ids r of
            None \<Rightarrow> shows_nothing | Some ids \<Rightarrow> if ids = [] then shows_nothing else show_it {} (UpdateStickerSetsOrder ids))
      | UPDATE_CHAT_WALLPAPER \<Rightarrow> required (u_related_id r) (\<lambda>u.
          let cw = (case u_related_ids r of
                      Some (i # _) \<Rightarrow> find (\<lambda>c. cw_user c = user \<and> cw_wallpaper c = i) (w_chat_wallpapers W)
                    | _ \<Rightarrow> None)
          in show_it {UserOf u} (UpdatePeerWallpaper (case cw of None \<Rightarrow> False | Some c \<Rightarrow> cw_overridden c) (PeerUser u)
               (map_option cw_wallpaper cw)))
      | READ_MESSAGES_CONTENTS \<Rightarrow> (case u_related_ids r of
            None \<Rightarrow> shows_nothing
          | Some ids \<Rightarrow> if ids = [] then shows_nothing
              else show_it {} (UpdateReadMessagesContents ids (u_pts r) (u_pts_count r) (u_date r)))
      | NEW_SCHEDULED_MESSAGE \<Rightarrow> unless_gone (row_message W r) (\<lambda>m.
          case formatted (ms_id m) of None \<Rightarrow> Inl KeyError | Some x \<Rightarrow> show_it {add_message m} (UpdateNewScheduledMessage x))
      | DELETE_SCHEDULED_MESSAGE \<Rightarrow> unless_gone (row_peer W r) (\<lambda>q. required (u_related_ids r) (\<lambda>ids.
          show_it {} (UpdateDeleteScheduledMessages (peer_to_tl q) (take (nat (u_pts_count r)) ids)
            (none_if_empty (drop (nat (u_pts_count r)) ids)))))
      | UPDATE_HISTORY_TTL \<Rightarrow> unless_gone (row_peer W r) (\<lambda>q. rbind (first_of (u_data r)) (\<lambda>days.
          show_it {} (UpdatePeerHistoryTTL (peer_to_tl q) (case days of None \<Rightarrow> None | Some n \<Rightarrow> ttl_period n))))
      | BOT_CALLBACK_QUERY \<Rightarrow> unless_gone (by_id cq_id (filter (\<lambda>x. \<not> cq_inline x) (w_callback_queries W)) (u_related_id r))
          (\<lambda>x. show_it {add_message (cq_message x)} (callback_update x))
      | BOT_PRECHECKOUT_QUERY \<Rightarrow> unless_gone (by_id pq_id (w_precheckout_queries W) (u_related_id r))
          (\<lambda>x. show_it {UserOf (pq_user x)} (precheckout_update x))
      | UPDATE_PHONE \<Rightarrow> required (u_related_id r) (\<lambda>u. unless_gone (w_users W u)
          (\<lambda>c. show_it {UserOf u} (UpdateUserPhone u (uc_phone_number c))))
      | UPDATE_PEER_NOTIFY_SETTINGS \<Rightarrow> notify_settings_update W user r
      | SAVED_GIFS \<Rightarrow> show_it {} UpdateSavedGifs
      | BOT_INLINE_QUERY \<Rightarrow> unless_gone (by_id iq_id (filter (\<lambda>x. iq_bot x = user) (w_inline_queries W)) (u_related_id r))
          (\<lambda>x. show_it {UserOf (iq_user x)} (inline_update x (iq_offset x)))
      | UPDATE_RECENT_STICKERS \<Rightarrow> show_it {} UpdateRecentStickers
      | UPDATE_FAVED_STICKERS \<Rightarrow> show_it {} UpdateFavedStickers
      | SAVED_DIALOG_PIN \<Rightarrow>
          unless_gone (by_id (\<lambda>d. peer_id (sd_peer d)) (filter (\<lambda>d. peer_owner (sd_peer d) = user) (w_saved_dialogs W))
            (u_related_id r))
          (\<lambda>d. show_it {add_peer (sd_peer d)} (UpdateSavedDialogPinned (sd_pinned_index d \<noteq> None) (peer_to_tl (sd_peer d))))
      | SAVED_DIALOG_PIN_REORDER \<Rightarrow>
          show_it (set (map (\<lambda>d. add_peer (sd_peer d)) (pinned_saved_dialogs W user)))
            (UpdatePinnedSavedDialogs (map (\<lambda>d. peer_to_tl (sd_peer d)) (pinned_saved_dialogs W user)))
      | UPDATE_PRIVACY \<Rightarrow> unless_gone (by_id fst (filter (\<lambda>(i, x). pr_user x = user) (w_privacy_rules W)) (u_related_id r))
          (\<lambda>(i, x). rbind (key_to_tl (pr_key x)) (\<lambda>k.
             show_it (UserOf ` fst ` set (pr_exceptions x)) (UpdatePrivacy k (to_tl_rules x))))
      | NEW_MESSAGE \<Rightarrow> shows_nothing
      | UPDATE_MESSAGE_ID \<Rightarrow> rbind (first_of (u_related_ids r)) (\<lambda>rnd.
          required (u_related_id r) (\<lambda>i. show_it {} (UpdateMessageID i rnd)))
      | UPDATE_PHONE_CALL \<Rightarrow>
          unless_gone (by_id pc_id (filter (\<lambda>c. pc_from_user c = user \<or> pc_to_user c = user) (w_calls W)) (u_related_id r))
          (\<lambda>c. show_it {UserOf (pc_from_user c), UserOf (pc_to_user c)} (UpdatePhoneCall (pc_id c)))
      | UPDATE_CHANNEL_MIN_AVAILABLE_ID \<Rightarrow> (case u_data r of
            Some (x # _) \<Rightarrow> required x (\<lambda>m. required (u_related_id r) (\<lambda>c.
              show_it {ChannelOf c} (UpdateChannelAvailableMessages (make_id_from c) m)))
          | _ \<Rightarrow> shows_nothing)
      | PIN_MESSAGES \<Rightarrow> unless_gone (row_peer W r) (\<lambda>q. required (u_related_ids r) (\<lambda>ids.
          show_it {add_peer q} (UpdatePinnedMessages True (peer_to_tl q) ids (u_pts r) (u_pts_count r))))
      | UNPIN_MESSAGES \<Rightarrow> unless_gone (row_peer W r) (\<lambda>q. required (u_related_ids r) (\<lambda>ids.
          show_it {add_peer q} (UpdatePinnedMessages False (peer_to_tl q) ids (u_pts r) (u_pts_count r))))
      | EMOJI_STATUS \<Rightarrow> show_it {UserOf user} (UpdateUserEmojiStatus user
          (case u_related_id r of
             None \<Rightarrow> None
           | Some e \<Rightarrow> if e = 0 then None
               else Some (e, case u_data r of Some (x # _) \<Rightarrow> x | _ \<Rightarrow> None)))
      | _ \<Rightarrow> shows_nothing)"

section \<open>A row of a channel's log\<close>

text \<open>\<open>[Long.read_bytes(data[i * 8:(i + 1) * 8]) for i in range(n)]\<close>\<close>

fun read_longs :: "nat \<Rightarrow> byte list \<Rightarrow> int list res" where
  "read_longs 0 bs = Inr []"
| "read_longs (Suc n) bs =
     rbind (Int_read_bytes TLong (take 8 bs) True) (\<lambda>i. rbind (read_longs n (drop 8 bs)) (\<lambda>is. Inr (i # is)))"

definition ids_in :: "channel_row \<Rightarrow> int list res" where
  "ids_in r =
     (case c_extra_data r of
        None \<Rightarrow> if c_pts_count r \<le> 0 then Inr [] else Inl TypeError
      | Some bs \<Rightarrow> read_longs (nat (c_pts_count r)) bs)"

definition channel_update_to_tl :: "world \<Rightarrow> (int \<Rightarrow> tl_message option) \<Rightarrow> channel_row \<Rightarrow> shown" where
  "channel_update_to_tl W edited r =
     (let ch = make_id_from (c_channel r); es = {ChannelOf (c_channel r)}
      in case c_type r of
           CHANNEL_UPDATE \<Rightarrow> show_it es (UpdateChannel ch)
         | CHANNEL_NEW_MESSAGE \<Rightarrow> shows_nothing
         | CHANNEL_EDIT_MESSAGE \<Rightarrow>
             (case c_message r of
                None \<Rightarrow> shows_nothing
              | Some i \<Rightarrow>
                  case edited i of
                    None \<Rightarrow> shows_nothing
                  | Some x \<Rightarrow>
                      (case by_id ms_id (w_messages W) (Some i) of
                         None \<Rightarrow> Inl AttributeError
                       | Some m \<Rightarrow> show_it (insert (add_message m) es) (UpdateEditChannelMessage x (c_pts r) 1)))
         | CHANNEL_DELETE_MESSAGES \<Rightarrow> rbind (ids_in r) (\<lambda>ids. show_it es (UpdateDeleteChannelMessages ch ids (c_pts r) 1))
         | CHANNEL_MIN_AVAILABLE_ID \<Rightarrow>
             (case c_extra_data r of
                None \<Rightarrow> Inl TypeError
              | Some bs \<Rightarrow> rbind (Int_read_bytes TLong bs True) (\<lambda>m. show_it es (UpdateChannelAvailableMessages ch m)))
         | CHANNEL_PIN_MESSAGES \<Rightarrow> rbind (ids_in r) (\<lambda>ids.
             show_it es (UpdatePinnedChannelMessages True ch ids (c_pts r) (c_pts_count r)))
         | CHANNEL_UNPIN_MESSAGES \<Rightarrow> rbind (ids_in r) (\<lambda>ids.
             show_it es (UpdatePinnedChannelMessages False ch ids (c_pts r) (c_pts_count r))))"

end
