(* ===== verification/Difference.thy ===== *)
theory Difference
  imports UpdateReplay
begin

text \<open>
  Catching up (\<^verbatim>\<open>piltover/app/handlers/updates.py\<close>): a client that knows the changes up to some
  \<open>pts\<close> asks for the later ones and gets the rows of the log in order, new messages apart from
  the other updates, at most 500 rows at a time. The handlers only read, except that a client too
  far behind in a channel gets its dialog created, which is left out.
\<close>

record tl_state =
  st_pts :: int
  st_qts :: int
  st_seq :: int
  st_date :: int

record diff =
  df_new_messages :: "tl_message list"
  df_new_encrypted :: "secret_message list"
  df_other_updates :: "tl_update list"
  df_mentions :: "entity set"

datatype difference =
    DifferenceTooLong int
  | DifferenceEmpty int int
  | Difference diff tl_state
  | DifferenceSlice diff tl_state

record difference_request =
  gd_old :: bool
  gd_pts :: int
  gd_qts :: int
  gd_date :: int
  gd_pts_total_limit :: "int option"
  gd_pts_limit :: "int option"

definition get_state_internal :: "world \<Rightarrow> updates_db \<Rightarrow> int \<Rightarrow> int option \<Rightarrow> tl_state" where
  "get_state_internal W s user p =
     \<lparr>st_pts = (case p of Some n \<Rightarrow> n | None \<Rightarrow> (case user_pts s user of None \<Rightarrow> 0 | Some n \<Rightarrow> n)),
      st_qts = snd (w_seq_qts W), st_seq = fst (w_seq_qts W), st_date = w_now W\<rparr>"

definition get_state :: "world \<Rightarrow> updates_db \<Rightarrow> int \<Rightarrow> tl_state" where
  "get_state W s user = get_state_internal W s user None"

text \<open>The rows of a user by number.\<close>

definition log_of :: "int \<Rightarrow> updates_db \<Rightarrow> update_row list" where
  "log_of user s = filter (\<lambda>r. u_user r = user) (user_updates s)"

definition in_pts_order :: "update_row list \<Rightarrow> update_row list" where
  "in_pts_order rs = sort_key u_pts rs"

definition last_or :: "'b \<Rightarrow> ('a \<Rightarrow> 'b) \<Rightarrow> 'a list \<Rightarrow> 'b" where
  "last_or d f xs = (case rev xs of [] \<Rightarrow> d | x # _ \<Rightarrow> f x)"

definition server_pts :: "int \<Rightarrow> updates_db \<Rightarrow> int" where
  "server_pts user s = last_or 0 u_pts (in_pts_order (log_of user s))"

definition known_date :: "int \<Rightarrow> difference_request \<Rightarrow> updates_db \<Rightarrow> int" where
  "known_date user req s =
     last_or (gd_date req) u_date (in_pts_order (filter (\<lambda>r. u_pts r \<le> gd_pts req) (log_of user s)))"

definition max_pts :: "int \<Rightarrow> difference_request \<Rightarrow> updates_db \<Rightarrow> int" where
  "max_pts user req s =
     (if gd_old req then server_pts user s
      else case gd_pts_limit req of None \<Rightarrow> server_pts user s | Some n \<Rightarrow> gd_pts req + n)"

definition new_updates :: "int \<Rightarrow> difference_request \<Rightarrow> updates_db \<Rightarrow> update_row list" where
  "new_updates user req s =
     take 500 (in_pts_order (filter (\<lambda>r. gd_pts req < u_pts r \<and> u_pts r \<le> max_pts user req s) (log_of user s)))"

definition new_secret :: "int \<Rightarrow> difference_request \<Rightarrow> updates_db \<Rightarrow> secret_row list" where
  "new_secret auth req s =
     (let mine = filter (\<lambda>r. s_auth r = auth) (secret_updates s);
          seen = last_or 0 s_id (sort_key s_qts (filter (\<lambda>r. s_qts r \<le> gd_qts req) mine))
      in filter (\<lambda>r. seen < s_id r) mine)"

text \<open>Messages of the rows, rendered for the user.\<close>

definition row_messages :: "world \<Rightarrow> update_row list \<Rightarrow> message list" where
  "row_messages W rs = List.map_filter (row_message W) rs"

definition formatted_for :: "int \<Rightarrow> message list \<Rightarrow> int \<Rightarrow> tl_message option" where
  "formatted_for user ms i = (if i \<in> set (map ms_id ms) then Some (MessageFor i user True) else None)"

definition is_new_message :: "update_row \<Rightarrow> bool" where
  "is_new_message r \<longleftrightarrow> u_type r = NEW_MESSAGE"

definition fresh_messages :: "world \<Rightarrow> update_row list \<Rightarrow> message list" where
  "fresh_messages W rs = row_messages W (filter is_new_message rs)"

text \<open>Rows passed over: edits of messages that are new here, and the client's own authorization.\<close>

definition passed_over :: "world \<Rightarrow> int \<Rightarrow> int option set \<Rightarrow> update_row \<Rightarrow> bool" where
  "passed_over W auth fresh r \<longleftrightarrow>
     (u_type r = MESSAGE_EDIT \<and> u_message r \<in> fresh)
     \<or> (u_type r = NEW_AUTHORIZATION \<and> (u_related_id r = Some auth \<or> w_layer W < 163))"

fun show_all :: "('a \<Rightarrow> shown) \<Rightarrow> 'a list \<Rightarrow> (tl_update \<times> entity set) list res" where
  "show_all f [] = Inr []"
| "show_all f (r # rs) =
     rbind (f r) (\<lambda>x. rbind (show_all f rs) (\<lambda>xs. Inr (case x of None \<Rightarrow> xs | Some y \<Rightarrow> y # xs)))"

fun secret_parts :: "secret_row list \<Rightarrow> (secret_message list \<times> tl_update list) res" where
  "secret_parts [] = Inr ([], [])"
| "secret_parts (r # rs) =
     rbind (secret_to_tl r) (\<lambda>x. rbind (secret_parts rs) (\<lambda>(ms, us).
       Inr (case x of UpdateNewEncryptedMessage m q \<Rightarrow> (m # ms, us) | _ \<Rightarrow> (ms, x # us))))"

text \<open>Channels of the user with rows after the last change the client knows.\<close>

definition behind_channels :: "world \<Rightarrow> int \<Rightarrow> int \<Rightarrow> updates_db \<Rightarrow> (int \<times> int) list" where
  "behind_channels W user date s =
     (let rows = filter (\<lambda>r. c_channel r \<in> set (w_channels_of_user W user) \<and> date < c_date r) (channel_updates s)
      in map (\<lambda>c. (c, Min (set (map c_pts (filter (\<lambda>r. c_channel r = c) rows))))) (dict_keys (map c_channel rows)))"

definition difference_parts ::
    "world \<Rightarrow> int \<Rightarrow> int \<Rightarrow> difference_request \<Rightarrow> update_row list \<Rightarrow> secret_row list \<Rightarrow> updates_db \<Rightarrow> diff res" where
  "difference_parts W user auth req rows secrets s =
     (let fresh = fresh_messages W rows;
          behind = behind_channels W user (known_date user req s) s
      in rbind (show_all (update_to_tl W user (formatted_for user (row_messages W rows)) (Some auth))
                 (filter (\<lambda>r. \<not> passed_over W auth (u_message ` set (filter is_new_message rows)) r) rows)) (\<lambda>shown.
         rbind (secret_parts secrets) (\<lambda>(encrypted, others).
         Inr \<lparr>df_new_messages = map (\<lambda>m. MessageFor (ms_id m) user True) fresh,
              df_new_encrypted = encrypted,
              df_other_updates = map fst shown @ others @ map (\<lambda>(c, p). UpdateChannelTooLong c p) behind,
              df_mentions = set (map add_message fresh) \<union> \<Union> (snd ` set shown) \<union> (ChannelOf \<circ> fst) ` set behind
                              \<union> {UserOf user}\<rparr>)))"

definition get_difference :: "world \<Rightarrow> int \<Rightarrow> int \<Rightarrow> difference_request \<Rightarrow> updates_db \<Rightarrow> difference res" where
  "get_difference W user auth req s =
     (let top_pts = server_pts user s;
          rows = new_updates user req s;
          secrets = new_secret auth req s
      in if (case gd_pts_total_limit req of None \<Rightarrow> False | Some n \<Rightarrow> gd_pts req + n < top_pts)
         then Inr (DifferenceTooLong top_pts)
         else if rows = [] \<and> secrets = [] then Inr (DifferenceEmpty (w_now W) (fst (w_seq_qts W)))
         else rbind (difference_parts W user auth req rows secrets s) (\<lambda>d.
           Inr (if rows = [] \<or> top_pts \<le> last_or 0 u_pts rows
                then Difference d (get_state_internal W s user None)
                else DifferenceSlice d (get_state_internal W s user (Some (last_or 0 u_pts rows))))))"

section \<open>Channels\<close>

datatype channel_difference =
    ChannelDifferenceTooLong bool int "message option"
  | ChannelDifferenceEmpty bool int
  | ChannelDifference bool int "tl_message list" "tl_update list" "entity set"

definition channel_log :: "int \<Rightarrow> updates_db \<Rightarrow> channel_row list" where
  "channel_log ch s = filter (\<lambda>r. c_channel r = ch) (channel_updates s)"

definition channel_server_pts :: "int \<Rightarrow> updates_db \<Rightarrow> int" where
  "channel_server_pts ch s = last_or 0 c_pts (sort_key c_pts (channel_log ch s))"

definition new_channel_updates :: "int \<Rightarrow> int \<Rightarrow> nat \<Rightarrow> updates_db \<Rightarrow> channel_row list" where
  "new_channel_updates ch p n s = take n (sort_key c_pts (filter (\<lambda>r. p < c_pts r) (channel_log ch s)))"

fun fetch_messages :: "world \<Rightarrow> channel_row list \<Rightarrow> message list res" where
  "fetch_messages W [] = Inr []"
| "fetch_messages W (r # rs) =
     (case c_message r of
        None \<Rightarrow> fetch_messages W rs
      | Some i \<Rightarrow>
          case by_id ms_id (w_messages W) (Some i) of
            None \<Rightarrow> Inl AttributeError
          | Some m \<Rightarrow> rbind (fetch_messages W rs) (\<lambda>ms. Inr (m # ms)))"

text \<open>Of the rows about one message the last decides what the message is shown as.\<close>

definition last_type :: "channel_row list \<Rightarrow> int \<Rightarrow> channel_update_type option" where
  "last_type rs i = dict_get (map (\<lambda>r. (c_message r, c_type r)) rs) (Some i)"

definition channel_parts :: "world \<Rightarrow> int \<Rightarrow> channel_row list \<Rightarrow> (tl_message list \<times> tl_update list \<times> entity set) res" where
  "channel_parts W user rows =
     (let fresh = c_message ` set (filter (\<lambda>r. c_type r = CHANNEL_NEW_MESSAGE) rows);
          kept = filter (\<lambda>r. \<not> (c_type r = CHANNEL_EDIT_MESSAGE \<and> c_message r \<in> fresh)) rows
      in rbind (fetch_messages W rows) (\<lambda>ms.
         let edited = filter (\<lambda>m. last_type rows (ms_id m) = Some CHANNEL_EDIT_MESSAGE) ms
         in rbind (show_all (channel_update_to_tl W (formatted_for user edited)) kept) (\<lambda>shown.
            Inr (map (\<lambda>m. MessageFor (ms_id m) user True)
                   (filter (\<lambda>m. last_type rows (ms_id m) = Some CHANNEL_NEW_MESSAGE) ms),
                 map fst shown,
                 set (map add_message ms) \<union> \<Union> (snd ` set shown) \<union> (ChannelOf \<circ> c_channel) ` set kept))))"

definition get_channel_difference ::
    "world \<Rightarrow> int \<Rightarrow> input_peer \<Rightarrow> int \<Rightarrow> int \<Rightarrow> updates_db \<Rightarrow> channel_difference res" where
  "get_channel_difference W user channel p limit s =
     rbind (type_and_id_from_input_raise user channel ''PEER_ID_INVALID'') (\<lambda>target.
       case target of
         ChannelPeer ch \<Rightarrow>
           if \<forall>q \<in> set (w_peers W). peer_to q \<noteq> ChannelPeer ch then Inl (rpc 400 ''CHANNEL_INVALID'')
           else case channel_pts s ch of
                  None \<Rightarrow> Inl (rpc 400 ''CHANNEL_INVALID'')
                | Some now_pts \<Rightarrow>
                    if p + limit < channel_server_pts ch s then Inr (ChannelDifferenceTooLong True now_pts (w_last_message W ch))
                    else if limit < 0 then Inl OtherError
                    else let rows = new_channel_updates ch p (nat limit) s
                         in if rows = [] then Inr (ChannelDifferenceEmpty True now_pts)
                            else rbind (channel_parts W user rows) (\<lambda>(ms, us, es).
                              Inr (ChannelDifference (\<not> (\<exists>r \<in> set (channel_log ch s). last_or 0 c_pts rows < c_pts r))
                                (last_or 0 c_pts rows) ms us es))
       | _ \<Rightarrow> Inl (rpc 400 ''CHANNEL_INVALID''))"

end
