(* ===== verification/UpdatesFacts.thy ===== *)
theory UpdatesFacts
  imports Difference
begin

text \<open>
  What the functions of the updates manager do to the logs. A log grows when its counter goes
  up and rows are added with numbers between the old counter and the new one, in order; rows may
  also go. Every function lets all logs grow, so that the rows of a log are always in order and
  never ahead of the counter. The two kinds of log, of users and of channels, share the contract
  \<open>numbered_log\<close>.
\<close>

section \<open>Logs\<close>

definition placed :: "('r \<Rightarrow> int) \<Rightarrow> int \<Rightarrow> int \<Rightarrow> 'r list \<Rightarrow> bool" where
  "placed key lo hi rs \<longleftrightarrow> sorted_wrt (<) (map key rs) \<and> (\<forall>r \<in> set rs. lo < key r \<and> key r \<le> hi)"

text \<open>A log that is opened starts at zero.\<close>

definition start :: "int option \<Rightarrow> int" where
  "start c = (case c of None \<Rightarrow> 0 | Some p \<Rightarrow> p)"

definition grows :: "('r \<Rightarrow> int) \<Rightarrow> int option \<times> 'r list \<Rightarrow> int option \<times> 'r list \<Rightarrow> bool" where
  "grows key l l' \<longleftrightarrow>
     (\<exists>P new. snd l' = filter P (snd l) @ new
        \<and> (fst l' = None \<longrightarrow> fst l = None \<and> new = [])
        \<and> start (fst l) \<le> start (fst l') \<and> placed key (start (fst l)) (start (fst l')) new)"

definition ordered_log :: "('r \<Rightarrow> int) \<Rightarrow> int option \<times> 'r list \<Rightarrow> bool" where
  "ordered_log key l \<longleftrightarrow>
     (fst l = None \<longrightarrow> snd l = []) \<and> 0 \<le> start (fst l) \<and> placed key 0 (start (fst l)) (snd l)"

lemma start_simps [simp]: "start None = 0" "start (Some p) = p"
  by (simp_all add: start_def)

lemma placed_Nil [simp]: "placed key lo hi []"
  by (simp add: placed_def)

lemma placed_one [simp]: "placed key lo hi [r] \<longleftrightarrow> lo < key r \<and> key r \<le> hi"
  by (simp add: placed_def)

lemma placed_filter: "placed key lo hi rs \<Longrightarrow> placed key lo hi (filter P rs)"
  by (auto simp: placed_def sorted_wrt_map sorted_wrt_filter)

lemma placed_append:
  assumes "placed key lo mid xs" "placed key mid hi ys" "lo \<le> mid" "mid \<le> hi"
  shows "placed key lo hi (xs @ ys)"
  using assms by (fastforce simp: placed_def sorted_wrt_append)

lemma placed_widen: "placed key lo hi rs \<Longrightarrow> lo' \<le> lo \<Longrightarrow> hi \<le> hi' \<Longrightarrow> placed key lo' hi' rs"
  by (force simp: placed_def)

lemma growsI:
  assumes "snd l' = filter P (snd l) @ new" "fst l' = None \<longrightarrow> fst l = None \<and> new = []"
    "start (fst l) \<le> start (fst l')" "placed key (start (fst l)) (start (fst l')) new"
  shows "grows key l l'"
  unfolding grows_def using assms by (intro exI [of _ P] exI [of _ new]) simp

lemma growsE:
  assumes "grows key l l'"
  obtains P new where "snd l' = filter P (snd l) @ new" "fst l' = None \<longrightarrow> fst l = None \<and> new = []"
    "start (fst l) \<le> start (fst l')" "placed key (start (fst l)) (start (fst l')) new"
  using assms unfolding grows_def by (elim exE conjE) (rule that)

lemma grows_adding: "p \<le> q \<Longrightarrow> placed key p q new \<Longrightarrow> grows key (Some p, rs) (Some q, filter P rs @ new)"
  by (rule growsI [of _ P _ new]) simp_all

lemma grows_less: "grows key (c, rs) (c, filter P rs)"
  by (rule growsI [of _ P _ "[]"]) simp_all

lemma grows_refl: "grows key l l"
  using grows_less [of key "fst l" "snd l" "\<lambda>_. True"] by simp

lemma grows_trans:
  assumes "grows key l l'" "grows key l' l''"
  shows "grows key l l''"
proof -
  obtain P new where 1: "snd l' = filter P (snd l) @ new" "fst l' = None \<longrightarrow> fst l = None \<and> new = []"
    "start (fst l) \<le> start (fst l')" "placed key (start (fst l)) (start (fst l')) new"
    using assms(1) by (rule growsE)
  obtain Q new' where 2: "snd l'' = filter Q (snd l') @ new'" "fst l'' = None \<longrightarrow> fst l' = None \<and> new' = []"
    "start (fst l') \<le> start (fst l'')" "placed key (start (fst l')) (start (fst l'')) new'"
    using assms(2) by (rule growsE)
  show ?thesis
  proof (rule growsI [of _ "\<lambda>x. P x \<and> Q x" _ "filter Q new @ new'"])
    show "placed key (start (fst l)) (start (fst l'')) (filter Q new @ new')"
      by (rule placed_append [OF placed_filter [OF 1(4)] 2(4) 1(3) 2(3)])
  qed (use 1 2 in \<open>auto simp: conj_commute\<close>)
qed

lemma grows_ordered:
  assumes "grows key l l'" "ordered_log key l"
  shows "ordered_log key l'"
proof -
  obtain P new where 1: "snd l' = filter P (snd l) @ new" "fst l' = None \<longrightarrow> fst l = None \<and> new = []"
    "start (fst l) \<le> start (fst l')" "placed key (start (fst l)) (start (fst l')) new"
    using assms(1) by (rule growsE)
  have "placed key 0 (start (fst l')) (snd l')"
    unfolding 1(1) using assms(2) 1(3,4) by (auto simp: ordered_log_def intro: placed_append placed_filter)
  then show ?thesis using assms(2) 1 by (auto simp: ordered_log_def)
qed

text \<open>The contract between the logs and those who read them.\<close>

locale numbered_log =
  fixes log :: "'k \<Rightarrow> 's \<Rightarrow> int option \<times> 'r list"
    and key :: "'r \<Rightarrow> int"
    and step :: "'s \<Rightarrow> 's \<Rightarrow> bool"
  assumes step_grows: "step s s' \<Longrightarrow> grows key (log k s) (log k s')"
begin

lemma run_grows: "step\<^sup>*\<^sup>* s s' \<Longrightarrow> grows key (log k s) (log k s')"
  by (induction rule: rtranclp_induct) (auto intro: grows_refl grows_trans step_grows)

lemma run_ordered: "step\<^sup>*\<^sup>* s s' \<Longrightarrow> ordered_log key (log k s) \<Longrightarrow> ordered_log key (log k s')"
  using grows_ordered [OF run_grows] .

text \<open>A row that is there later was there before, or has a higher number than the counter had.\<close>

lemma later_row:
  assumes "step\<^sup>*\<^sup>* s s'" "r \<in> set (snd (log k s'))"
  shows "r \<in> set (snd (log k s)) \<or> start (fst (log k s)) < key r"
  using run_grows [OF assms(1), of k] assms(2) by (auto simp: grows_def placed_def)

end

section \<open>The functions let the logs grow\<close>

definition user_log :: "int \<Rightarrow> updates_db \<Rightarrow> int option \<times> update_row list" where
  "user_log user s = (user_pts s user, log_of user s)"

definition log_of_channel :: "int \<Rightarrow> updates_db \<Rightarrow> int option \<times> channel_row list" where
  "log_of_channel ch s = (channel_pts s ch, channel_log ch s)"

definition logs_grow :: "updates_db \<Rightarrow> updates_db \<Rightarrow> bool" where
  "logs_grow s s' \<longleftrightarrow>
     (\<forall>u. grows u_pts (user_log u s) (user_log u s'))
     \<and> (\<forall>c. grows c_pts (log_of_channel c s) (log_of_channel c s'))"

interpretation growing: guarantee logs_grow
  by unfold_locales (auto simp: logs_grow_def intro: grows_refl grows_trans)

text \<open>Only messages go out.\<close>

definition only_sends :: "updates_db \<Rightarrow> updates_db \<Rightarrow> bool" where
  "only_sends s s' \<longleftrightarrow> (\<exists>os. s' = s\<lparr>handed_over := os\<rparr>)"

interpretation silence: guarantee only_sends
proof unfold_locales
  show "only_sends s s" for s by (auto simp: only_sends_def intro!: exI [of _ "handed_over s"])
  show "only_sends s t \<Longrightarrow> only_sends t u \<Longrightarrow> only_sends s u" for s t u by (auto simp: only_sends_def)
qed

lemma only_sends_grows: "only_sends s s' \<Longrightarrow> logs_grow s s'"
  by (auto simp: only_sends_def logs_grow_def user_log_def log_of_channel_def log_of_def channel_log_def grows_refl)

lemma hand_over_quiet [simp]: "honours only_sends (hand_over os)"
  by (auto simp: honours_def hand_over_def only_sends_def)

lemma honours_mono: "honours R m \<Longrightarrow> (\<And>s s'. R s s' \<Longrightarrow> R' s s') \<Longrightarrow> honours R' m"
  by (auto simp: honours_def)

text \<open>Rows are added to the log of users, or to that of channels; nothing else changes but what goes out.\<close>

definition adds :: "update_row list \<Rightarrow> updates_db \<Rightarrow> updates_db \<Rightarrow> bool" where
  "adds rs s s' \<longleftrightarrow>
     (\<exists>P Q os. s' = s\<lparr>user_updates := filter P (user_updates s) @ filter Q rs, handed_over := os\<rparr>)"

definition channel_adds :: "channel_row list \<Rightarrow> updates_db \<Rightarrow> updates_db \<Rightarrow> bool" where
  "channel_adds rs s s' \<longleftrightarrow>
     (\<exists>P Q os. s' = s\<lparr>channel_updates := filter P (channel_updates s) @ filter Q rs, handed_over := os\<rparr>)"

lemma addsI:
  "s' = s\<lparr>user_updates := filter P (user_updates s) @ filter Q rs, handed_over := os\<rparr> \<Longrightarrow> adds rs s s'"
  by (auto simp: adds_def)

lemma channel_addsI:
  "s' = s\<lparr>channel_updates := filter P (channel_updates s) @ filter Q rs, handed_over := os\<rparr> \<Longrightarrow> channel_adds rs s s'"
  by (auto simp: channel_adds_def)

lemma only_sends_adds: "only_sends s s' \<Longrightarrow> adds rs s s'"
  unfolding only_sends_def
  by (elim exE, rule addsI [where P = "\<lambda>_. True" and Q = "\<lambda>_. False"], cases s) auto

lemma only_sends_channel_adds: "only_sends s s' \<Longrightarrow> channel_adds rs s s'"
  unfolding only_sends_def
  by (elim exE, rule channel_addsI [where P = "\<lambda>_. True" and Q = "\<lambda>_. False"], cases s) auto

lemma adds_then_quiet: "adds rs s t \<Longrightarrow> only_sends t s' \<Longrightarrow> adds rs s s'"
  unfolding only_sends_def adds_def
  by (elim exE) (simp, blast)

lemma channel_adds_then_quiet: "channel_adds rs s t \<Longrightarrow> only_sends t s' \<Longrightarrow> channel_adds rs s s'"
  unfolding only_sends_def channel_adds_def
  by (elim exE) (simp, blast)

lemma quiet_then_adds: "only_sends s t \<Longrightarrow> adds rs t s' \<Longrightarrow> adds rs s s'"
  unfolding only_sends_def adds_def
  by (elim exE) (simp, blast)

lemma quiet_then_channel_adds: "only_sends s t \<Longrightarrow> channel_adds rs t s' \<Longrightarrow> channel_adds rs s s'"
  unfolding only_sends_def channel_adds_def
  by (elim exE) (simp, blast)

named_theorems quiet_intros \<open>parts that only hand updates over\<close>
named_theorems adds_intros \<open>parts that add rows to a log\<close>

lemma honours_via:
  assumes "honours R m" "\<And>x. honours S (f x)"
    and "\<And>s t. R s t \<Longrightarrow> T s t" "\<And>s t u. R s t \<Longrightarrow> S t u \<Longrightarrow> T s u"
  shows "honours T (sbind m f)"
proof (rule honoursI)
  fix s
  obtain r t where 1: "m s = (r, t)" by (metis surj_pair)
  then have 2: "R s t" by (rule honoursD [OF assms(1)])
  show "T s (snd (sbind m f s))"
    using 1 2 assms(2-4) by (cases r) (auto simp: sbind_def honours_def)
qed

lemma create_adds [adds_intros]: "honours (adds rs) (create_updates rs)"
proof (rule honoursI)
  show "adds rs s (snd (create_updates rs s))" for s
    by (rule addsI [where P = "\<lambda>_. True" and Q = "\<lambda>_. True" and os = "handed_over s"])
      (simp add: create_updates_def supd_def)
qed

lemma create_channel_adds [adds_intros]: "honours (channel_adds rs) (create_channel_updates rs)"
proof (rule honoursI)
  show "channel_adds rs s (snd (create_channel_updates rs s))" for s
    by (rule channel_addsI [where P = "\<lambda>_. True" and Q = "\<lambda>_. True" and os = "handed_over s"])
      (simp add: create_channel_updates_def supd_def)
qed

lemma create_then [adds_intros]:
  assumes "honours only_sends k" shows "honours (adds rs) (sthen (create_updates rs) k)"
  unfolding sthen_def by (rule honours_via [OF create_adds assms]) (auto intro: adds_then_quiet)

lemma create_channel_then [adds_intros]:
  assumes "honours only_sends k" shows "honours (channel_adds rs) (sthen (create_channel_updates rs) k)"
  unfolding sthen_def by (rule honours_via [OF create_channel_adds assms]) (auto intro: channel_adds_then_quiet)

lemma quiet_bind [adds_intros]:
  assumes "honours only_sends m" "\<And>x. honours (adds rs) (f x)" shows "honours (adds rs) (sbind m f)"
  by (rule honours_via [OF assms]) (auto intro: only_sends_adds quiet_then_adds)

lemma quiet_channel_bind [adds_intros]:
  assumes "honours only_sends m" "\<And>x. honours (channel_adds rs) (f x)" shows "honours (channel_adds rs) (sbind m f)"
  by (rule honours_via [OF assms]) (auto intro: only_sends_channel_adds quiet_then_channel_adds)

lemma quiet_then [adds_intros]:
  "honours only_sends m \<Longrightarrow> honours (adds rs) k \<Longrightarrow> honours (adds rs) (sthen m k)"
  unfolding sthen_def by (rule quiet_bind)

lemma quiet_channel_then [adds_intros]:
  "honours only_sends m \<Longrightarrow> honours (channel_adds rs) k \<Longrightarrow> honours (channel_adds rs) (sthen m k)"
  unfolding sthen_def by (rule quiet_channel_bind)

lemmas [quiet_intros] = silence.bind silence.seq silence.nothing hand_over_quiet

text \<open>One log: the numbers are taken, then rows are added within them.\<close>

lemma filter_parts: "filter U (filter P xs @ filter Q ys) = filter P (filter U xs) @ filter Q (filter U ys)"
  by (simp add: conj_commute)

lemma users_grow:
  assumes "s' = s\<lparr>user_pts := m, user_updates := filter P (user_updates s) @ filter Q rs, handed_over := os\<rparr>"
    and "\<And>v. grows u_pts (user_log v s) (m v, filter P (log_of v s) @ filter Q (filter (\<lambda>r. u_user r = v) rs))"
  shows "logs_grow s s'"
  unfolding logs_grow_def
proof (intro conjI allI)
  show "grows u_pts (user_log v s) (user_log v s')" for v
    using assms(2) [of v] unfolding assms(1) by (simp add: user_log_def log_of_def filter_parts del: filter_filter filter_append)
qed (simp_all add: assms(1) log_of_channel_def channel_log_def grows_refl)

lemma channels_grow:
  assumes "s' = s\<lparr>channel_pts := m, channel_updates := filter P (channel_updates s) @ filter Q rs, handed_over := os\<rparr>"
    and "\<And>v. grows c_pts (log_of_channel v s) (m v, filter P (channel_log v s) @ filter Q (filter (\<lambda>r. c_channel r = v) rs))"
  shows "logs_grow s s'"
  unfolding logs_grow_def
proof (intro conjI allI)
  show "grows c_pts (log_of_channel v s) (log_of_channel v s')" for v
    using assms(2) [of v] unfolding assms(1) by (simp add: log_of_channel_def channel_log_def filter_parts del: filter_filter filter_append)
qed (simp_all add: assms(1) user_log_def log_of_def grows_refl)

lemma logged:
  assumes "\<And>p. honours (adds (rows p)) (k p)"
    and "\<And>p r. r \<in> set (rows p) \<Longrightarrow> u_user r = user" "\<And>p. placed u_pts (p - n) p (rows p)"
  shows "honours logs_grow (sbind (add_pts user n) k)"
proof (rule honoursI)
  fix s
  show "logs_grow s (snd (sbind (add_pts user n) k s))"
  proof (cases "user_pts s user")
    case None
    then show ?thesis by (simp add: sbind_def add_pts_def growing.same)
  next
    case (Some p)
    define q where "q = (if n \<le> 0 then p else p + n)"
    define t where "t = (if n \<le> 0 then s else s\<lparr>user_pts := (user_pts s)(user \<mapsto> q)\<rparr>)"
    have t: "t = s\<lparr>user_pts := (user_pts s)(user \<mapsto> q)\<rparr>"
      using Some by (auto simp: t_def q_def fun_upd_idem)
    have run: "sbind (add_pts user n) k s = k q t"
      using Some by (simp add: sbind_def add_pts_def t_def q_def)
    obtain P Q os where after: "snd (k q t) = t\<lparr>user_updates := filter P (user_updates t) @ filter Q (rows q), handed_over := os\<rparr>"
      using assms(1) [of q] unfolding honours_def adds_def by blast
    have within: "placed u_pts p q (rows q)"
      using assms(3) [of q] by (auto simp: q_def placed_def split: if_splits)
    have le: "p \<le> q" by (simp add: q_def)
    have rows: "filter (\<lambda>r. u_user r = v) (rows q) = (if v = user then rows q else [])" for v
      using assms(2) by (auto simp: filter_id_conv filter_empty_conv)
    have "logs_grow s (snd (k q t))"
    proof (rule users_grow)
      show "snd (k q t) = s\<lparr>user_pts := (user_pts s)(user \<mapsto> q),
          user_updates := filter P (user_updates s) @ filter Q (rows q), handed_over := os\<rparr>"
        unfolding after by (simp add: t)
      show "grows u_pts (user_log v s)
          (((user_pts s)(user \<mapsto> q)) v, filter P (log_of v s) @ filter Q (filter (\<lambda>r. u_user r = v) (rows q)))" for v
        using Some grows_adding [OF le placed_filter [OF within]] by (simp add: rows user_log_def grows_less)
    qed
    then show ?thesis by (simp only: run)
  qed
qed

lemma channel_logged:
  assumes "\<And>p. honours (channel_adds (rows p)) (k p)"
    and "\<And>p r. r \<in> set (rows p) \<Longrightarrow> c_channel r = ch" "\<And>p. placed c_pts (p - n) p (rows p)"
  shows "honours logs_grow (sbind (channel_add_pts ch n) k)"
proof (rule honoursI)
  fix s
  show "logs_grow s (snd (sbind (channel_add_pts ch n) k s))"
  proof (cases "channel_pts s ch")
    case None
    then show ?thesis by (simp add: sbind_def channel_add_pts_def growing.same)
  next
    case (Some p)
    define q where "q = (if n \<le> 0 then p else p + n)"
    define t where "t = (if n \<le> 0 then s else s\<lparr>channel_pts := (channel_pts s)(ch \<mapsto> q)\<rparr>)"
    have t: "t = s\<lparr>channel_pts := (channel_pts s)(ch \<mapsto> q)\<rparr>"
      using Some by (auto simp: t_def q_def fun_upd_idem)
    have run: "sbind (channel_add_pts ch n) k s = k q t"
      using Some by (simp add: sbind_def channel_add_pts_def t_def q_def)
    obtain P Q os where after: "snd (k q t) = t\<lparr>channel_updates := filter P (channel_updates t) @ filter Q (rows q), handed_over := os\<rparr>"
      using assms(1) [of q] unfolding honours_def channel_adds_def by blast
    have within: "placed c_pts p q (rows q)"
      using assms(3) [of q] by (auto simp: q_def placed_def split: if_splits)
    have le: "p \<le> q" by (simp add: q_def)
    have rows: "filter (\<lambda>r. c_channel r = v) (rows q) = (if v = ch then rows q else [])" for v
      using assms(2) by (auto simp: filter_id_conv filter_empty_conv)
    have "logs_grow s (snd (k q t))"
    proof (rule channels_grow)
      show "snd (k q t) = s\<lparr>channel_pts := (channel_pts s)(ch \<mapsto> q),
          channel_updates := filter P (channel_updates s) @ filter Q (rows q), handed_over := os\<rparr>"
        unfolding after by (simp add: t)
      show "grows c_pts (log_of_channel v s)
          (((channel_pts s)(ch \<mapsto> q)) v, filter P (channel_log v s) @ filter Q (filter (\<lambda>r. c_channel r = v) (rows q)))" for v
        using Some grows_adding [OF le placed_filter [OF within]] by (simp add: rows log_of_channel_def grows_less)
    qed
    then show ?thesis by (simp only: run)
  qed
qed

text \<open>Several logs at once, no user twice.\<close>

definition bumped :: "int \<Rightarrow> int option \<Rightarrow> int option" where
  "bumped n c = (if n \<le> 0 then c else map_option (\<lambda>p. p + n) c)"

lemma bump_outside: "bump uns m = Inr m' \<Longrightarrow> v \<notin> fst ` set uns \<Longrightarrow> m' v = m v"
proof (induction uns m rule: bump.induct)
  case (2 u n r m)
  then show ?case by (cases "n \<le> 0"; cases "m u") (auto simp: fun_upd_def)
qed simp

lemma bump_inside:
  "bump uns m = Inr m' \<Longrightarrow> distinct (map fst uns) \<Longrightarrow> (v, n) \<in> set uns \<Longrightarrow> m' v = bumped n (m v)"
proof (induction uns m rule: bump.induct)
  case (2 u k r m)
  show ?case
  proof (cases "(v, n) = (u, k)")
    case True
    then have "u \<notin> fst ` set r" using "2.prems" by auto
    then show ?thesis
      using "2.prems" True by (cases "k \<le> 0"; cases "m u") (auto simp: bumped_def dest: bump_outside)
  next
    case False
    then have "(v, n) \<in> set r" "v \<noteq> u" "distinct (map fst r)" using "2.prems" by force+
    then show ?thesis
      using 2 by (cases "k \<le> 0"; cases "m u") (auto simp: fun_upd_def)
  qed
qed simp

lemma collect_nth: "collect m us = Inr ps \<Longrightarrow> length ps = length us \<and> (\<forall>i < length us. m (us ! i) = Some (ps ! i))"
  by (induction us arbitrary: ps)
    (auto simp: rbind_Inr_iff nth_Cons split: option.splits nat.splits)

text \<open>The rows written for the owners \<open>own x\<close> of some items, each within its numbers.\<close>

definition rows_of :: "('x \<Rightarrow> int \<Rightarrow> update_row list) \<Rightarrow> 'x list \<Rightarrow> int list \<Rightarrow> update_row list" where
  "rows_of f xs ps = concat (map (\<lambda>(x, p). f x p) (zip xs ps))"

lemma rows_of_owner:
  assumes "distinct (map own xs)" "length ps = length xs" "i < length xs"
    and "\<And>x p r. x \<in> set xs \<Longrightarrow> r \<in> set (f x p) \<Longrightarrow> u_user r = own x"
  shows "filter (\<lambda>r. u_user r = own (xs ! i)) (rows_of f xs ps) = f (xs ! i) (ps ! i)"
  using assms
proof (induction xs ps arbitrary: i rule: list_induct2')
  case (4 x xs p ps)
  have head: "filter (\<lambda>r. u_user r = v) (f x p) = (if v = own x then f x p else [])" for v
    using 4(5) by (auto simp: filter_id_conv filter_empty_conv)
  have rest: "v \<notin> own ` set xs \<Longrightarrow> filter (\<lambda>r. u_user r = v) (rows_of f xs ps) = []" for v
    using 4(5) by (fastforce simp: rows_of_def filter_empty_conv dest: set_zip_leftD)
  show ?case
  proof (cases i)
    case 0
    then show ?thesis using 4(2) rest [of "own x"] by (simp add: rows_of_def head)
  next
    case (Suc j)
    then have j: "j < length xs" using 4(4) by simp
    then have "own (xs ! j) \<in> own ` set xs" by simp
    then have "own (xs ! j) \<noteq> own x" using 4(2) by auto
    with j show ?thesis using 4 Suc by (simp add: rows_of_def head)
  qed
qed auto

lemma rows_of_others:
  assumes "v \<notin> own ` set xs" "\<And>x p r. x \<in> set xs \<Longrightarrow> r \<in> set (f x p) \<Longrightarrow> u_user r = own x"
  shows "filter (\<lambda>r. u_user r = v) (rows_of f xs ps) = []"
  using assms by (fastforce simp: rows_of_def filter_empty_conv dest: set_zip_leftD)

lemma bumped_grow: "grows key (c, rs) (bumped n c, filter P rs)"
  by (rule growsI [of _ P _ "[]"]) (cases c; simp add: bumped_def)+

lemma bumped_adding:
  assumes "bumped n c = Some q" "placed key (q - n) q new"
  shows "grows key (c, rs) (Some q, filter P rs @ filter Q new)"
proof (cases c)
  case (Some p)
  have q: "q = (if n \<le> 0 then p else p + n)" using assms(1) Some by (simp add: bumped_def split: if_splits)
  have "placed key p q new" using assms(2) by (auto simp: q placed_def split: if_splits)
  then show ?thesis
    unfolding Some using q by (intro grows_adding placed_filter) auto
qed (use assms in \<open>simp add: bumped_def split: if_splits\<close>)

lemma bulk_numbers:
  assumes "distinct (map own xs)" "bump (zip (map own xs) (map cnt xs)) f = Inr m"
  shows "x \<in> set xs \<Longrightarrow> m (own x) = bumped (cnt x) (f (own x))" "v \<notin> own ` set xs \<Longrightarrow> m v = f v"
proof -
  have zip: "zip (map own xs) (map cnt xs) = map (\<lambda>x. (own x, cnt x)) xs"
    by (induction xs) auto
  show "x \<in> set xs \<Longrightarrow> m (own x) = bumped (cnt x) (f (own x))"
    using bump_inside [OF assms(2), of "own x" "cnt x"] assms(1) by (auto simp: zip comp_def)
  show "v \<notin> own ` set xs \<Longrightarrow> m v = f v"
    using bump_outside [OF assms(2), of v] by (force simp: zip)
qed

lemma logged_bulk:
  assumes own: "distinct (map own xs)"
    and k: "\<And>ps. length ps = length xs \<Longrightarrow> honours (adds (rows_of f xs ps)) (k ps)"
    and f: "\<And>x p r. x \<in> set xs \<Longrightarrow> r \<in> set (f x p) \<Longrightarrow> u_user r = own x"
    and within: "\<And>x p. x \<in> set xs \<Longrightarrow> placed u_pts (p - cnt x) p (f x p)"
  shows "honours logs_grow (sbind (add_pts_bulk (map own xs) (map cnt xs)) k)"
proof (rule honoursI)
  fix s
  let ?b = "add_pts_bulk (map own xs) (map cnt xs)"
  show "logs_grow s (snd (sbind ?b k s))"
  proof (cases "bump (zip (map own xs) (map cnt xs)) (user_pts s)")
    case (Inl e)
    then have "xs \<noteq> []" by auto
    then show ?thesis using Inl by (simp add: sbind_def add_pts_bulk_def growing.same)
  next
    case (Inr m)
    let ?t = "s\<lparr>user_pts := m\<rparr>"
    note m = bulk_numbers [OF own Inr]
    have run: "?b s = (collect m (map own xs), ?t)"
      using Inr by (cases "xs = []") (auto simp: add_pts_bulk_def)
    show ?thesis
    proof (cases "collect m (map own xs)")
      case (Inl e)
      have "logs_grow s ?t"
      proof (rule users_grow [where rs = "[]" and P = "\<lambda>_. True" and Q = "\<lambda>_. True" and os = "handed_over s"])
        show "grows u_pts (user_log v s) (m v, filter (\<lambda>_. True) (log_of v s) @ filter (\<lambda>_. True) (filter (\<lambda>r. u_user r = v) []))" for v
          using m bumped_grow [of u_pts "user_pts s v" "log_of v s" _ "\<lambda>_. True"]
          by (cases "v \<in> own ` set xs") (auto simp: user_log_def grows_refl)
      qed simp
      then show ?thesis using Inl run by (simp add: sbind_def)
    next
      case (Inr ps)
      note ps = collect_nth [OF Inr, simplified]
      obtain P Q os where after:
        "snd (k ps ?t) = ?t\<lparr>user_updates := filter P (user_updates ?t) @ filter Q (rows_of f xs ps), handed_over := os\<rparr>"
        using k [of ps] ps unfolding honours_def adds_def by blast
      have "logs_grow s (snd (k ps ?t))"
      proof (rule users_grow)
        show "snd (k ps ?t) = s\<lparr>user_pts := m, user_updates := filter P (user_updates s) @ filter Q (rows_of f xs ps), handed_over := os\<rparr>"
          unfolding after by simp
        show "grows u_pts (user_log v s) (m v, filter P (log_of v s) @ filter Q (filter (\<lambda>r. u_user r = v) (rows_of f xs ps)))" for v
        proof (cases "v \<in> own ` set xs")
          case True
          then obtain i where i: "i < length xs" "v = own (xs ! i)" by (auto simp: in_set_conv_nth)
          have q: "bumped (cnt (xs ! i)) (user_pts s v) = Some (ps ! i)" "m v = Some (ps ! i)"
            using m(1) [of "xs ! i"] ps i by auto
          have rows: "filter (\<lambda>r. u_user r = v) (rows_of f xs ps) = f (xs ! i) (ps ! i)"
            unfolding i(2) using ps by (intro rows_of_owner [OF own _ i(1)] f) auto
          show ?thesis
            unfolding rows q(2) user_log_def by (intro bumped_adding [OF q(1)] within) (use i in auto)
        next
          case False
          then show ?thesis
            using m(2) rows_of_others [OF False f, where ps = ps] by (simp add: user_log_def grows_less)
        qed
      qed
      then show ?thesis using Inr run by (simp add: sbind_def)
    qed
  qed
qed

end
