(* ===== verification/UpdatesRun.thy ===== *)
theory UpdatesRun
  imports UpdatesFacts
begin

text \<open>
  Every function of the updates manager lets the logs grow, and so does every run of them. The
  functions that tell several users ask for different owners, as the dictionaries their callers
  build have; those that take a list of things to number ask for at least one.
\<close>

named_theorems grow_intros \<open>functions that let the logs grow\<close>

lemma new_update_simps [simp]:
  "u_user (new_update W u t p) = u" "u_pts (new_update W u t p) = p" "u_type (new_update W u t p) = t"
  by (simp_all add: new_update_def)

lemma bare_row_simps [simp]:
  "u_user (bare_row W u t p) = u" "u_pts (bare_row W u t p) = p" "u_type (bare_row W u t p) = t"
  by (simp_all add: bare_row_def)

lemma new_channel_update_simps [simp]:
  "c_channel (new_channel_update W ch t p n) = ch" "c_pts (new_channel_update W ch t p n) = p"
  "c_type (new_channel_update W ch t p n) = t" "c_pts_count (new_channel_update W ch t p n) = n"
  by (simp_all add: new_channel_update_def)

section \<open>One user\<close>

lemma logged_one:
  assumes "\<And>p. honours only_sends (k p)" "0 < n" "\<And>p. u_user (row p) = user" "\<And>p. u_pts (row p) = p"
  shows "honours logs_grow (sbind (add_pts user n) (\<lambda>p. sthen (create_updates [row p]) (k p)))"
  by (rule logged [where rows = "\<lambda>p. [row p]"]) (use assms in \<open>auto intro: create_then\<close>)

lemma quiet_is_growing: "honours only_sends m \<Longrightarrow> honours logs_grow m"
  by (rule honours_mono, assumption, rule only_sends_grows)

lemma announce_grows:
  assumes "0 < n" "\<And>p. u_user (row p) = user" "\<And>p. u_pts (row p) = p"
  shows "honours logs_grow (announce user n row told)"
  unfolding announce_def using assms by (intro logged_one quiet_intros) auto

lemma announce_maybe_grows:
  assumes "\<And>p. u_user (row p) = user" "\<And>p. u_pts (row p) = p"
  shows "honours logs_grow (announce_maybe b user row told)"
  unfolding announce_maybe_def using assms
  by (intro logged_one silence.seq silence.branch quiet_intros) auto

lemma unit_of_grows [grow_intros]: "honours logs_grow m \<Longrightarrow> honours logs_grow (unit_of m)"
  unfolding unit_of_def by (intro growing.bind growing.nothing)

lemma announcements_grow [grow_intros]:
  "honours logs_grow (pin_dialog W user q d)"
  "honours logs_grow (update_draft W user q draft)"
  "honours logs_grow (reorder_pinned_dialogs W user ds)"
  "honours logs_grow (update_dialog_unread_mark W user d)"
  "honours logs_grow (update_read_channel_discussion_inbox W user ch post thread m)"
  "honours logs_grow (update_read_channel_discussion_outbox W ch thread m user)"
  "honours logs_grow (update_channel_participant_available_message W user ch i)"
  "honours logs_grow (update_folder W user i row)"
  "honours logs_grow (update_message_poll W poll user)"
  by (simp_all add: pin_dialog_def update_draft_def draft_row_def reorder_pinned_dialogs_def update_dialog_unread_mark_def
      update_read_channel_discussion_inbox_def update_read_channel_discussion_outbox_def
      update_channel_participant_available_message_def update_folder_def update_message_poll_def
      announce_grows unit_of_grows)

lemma settings_grow [grow_intros]:
  "honours logs_grow (update_config W user)"
  "honours logs_grow (update_recent_reactions W user)"
  "honours logs_grow (new_stickerset W user i)"
  "honours logs_grow (update_stickersets W user)"
  "honours logs_grow (update_stickersets_order W user order)"
  "honours logs_grow (update_chat_wallpaper W user target cw)"
  "honours logs_grow (update_recent_stickers W user)"
  "honours logs_grow (update_faved_stickers W user)"
  "honours logs_grow (update_saved_gifs W user)"
  "honours logs_grow (new_scheduled_message W user m)"
  "honours logs_grow (bot_precheckout_query W user x)"
  "honours logs_grow (bot_callback_query W user y)"
  "honours logs_grow (bot_inline_query W user z)"
  "honours logs_grow (update_user_phone W user phone)"
  "honours logs_grow (pin_saved_dialog W user sd)"
  "honours logs_grow (reorder_pinned_saved_dialogs W user sds)"
  "honours logs_grow (update_user_emoji_status W user status)"
  by (simp_all add: update_config_def update_recent_reactions_def new_stickerset_def update_stickersets_def
      update_stickersets_order_def update_chat_wallpaper_def update_recent_stickers_def update_faved_stickers_def
      update_saved_gifs_def new_scheduled_message_def bot_precheckout_query_def bot_callback_query_def bot_inline_query_def
      update_user_phone_def pin_saved_dialog_def reorder_pinned_saved_dialogs_def update_user_emoji_status_def
      announce_grows unit_of_grows)

lemma numbered_lists_grow [grow_intros]:
  "ds \<noteq> [] \<Longrightarrow> honours logs_grow (update_folder_peers W user ds)"
  "ids \<noteq> [] \<Longrightarrow> honours logs_grow (update_folders_order W user ids)"
  "ids \<noteq> [] \<Longrightarrow> honours logs_grow (delete_scheduled_messages W user q ids later)"
  by (simp_all add: update_folder_peers_def update_folders_order_def delete_scheduled_messages_def Let_def announce_grows)

lemma read_history_grows [grow_intros]:
  "honours logs_grow (update_read_history_inbox W q m n b)"
  "honours logs_grow (update_read_history_inbox_channel W user ch m n b)"
  by (auto simp: update_read_history_inbox_def update_read_history_inbox_channel_def
      intro!: announce_maybe_grows growing.bind growing.nothing)

lemma read_messages_contents_grows [grow_intros]:
  "ids \<noteq> [] \<Longrightarrow> honours logs_grow (read_messages_contents W user ids)"
  unfolding read_messages_contents_def Let_def by (intro logged_one quiet_intros) auto

lemma update_channel_for_user_grows [grow_intros]: "honours logs_grow (update_channel_for_user W ch user ig)"
  unfolding update_channel_for_user_def Let_def by (intro logged_one quiet_intros) auto

lemma new_auth_grows [grow_intros]: "honours logs_grow (new_auth W user a)"
  unfolding new_auth_def Let_def by (intro logged_one quiet_intros) auto

lemma phone_call_update_grows [grow_intros]: "honours logs_grow (phone_call_update W user c to)"
  unfolding phone_call_update_def Let_def by (intro logged_one quiet_intros) auto

lemma update_privacy_grows [grow_intros]: "honours logs_grow (update_privacy W user i rule trs es)"
  unfolding update_privacy_def Let_def by (intro logged_one quiet_intros) auto

lemma update_peer_notify_settings_grows [grow_intros]: "honours logs_grow (update_peer_notify_settings W user q k settings)"
  unfolding update_peer_notify_settings_def Let_def by (intro logged_one quiet_intros) auto

lemma sbind_sreturn: "sbind m sreturn = m"
  by (auto simp: fun_eq_iff sbind_def sreturn_def split: prod.splits sum.splits)

lemma add_pts_grows: "honours logs_grow (add_pts user n)"
proof -
  have "honours (adds []) (sreturn p :: int upd)" for p
    by (rule honours_mono [OF silence.nothing(1)]) (rule only_sends_adds)
  then show ?thesis
    using logged [of "\<lambda>_. []" sreturn user n] by (simp add: sbind_sreturn)
qed

lemma block_unblock_user_grows [grow_intros]: "honours logs_grow (block_unblock_user W user q)"
  unfolding block_unblock_user_def
  by (cases "peer_user q") (auto intro!: announce_grows unit_of_grows growing.bind add_pts_grows)

lemma update_drafts_grows [grow_intros]: "honours logs_grow (update_drafts W user qs drafts)"
proof (cases "length qs = length drafts")
  case True
  let ?rows = "\<lambda>p. map (\<lambda>(i, q, d). draft_row W user q d (p - int (length drafts) + int i))
                 (zip [1..<Suc (length qs)] (zip qs drafts))"
  have pts: "map u_pts (?rows p) = map (\<lambda>i. p - int (length drafts) + int i) [1..<Suc (length drafts)]" for p
    using True by (intro nth_equalityI) (auto simp: draft_row_def simp del: upt_Suc)
  have "placed u_pts (p - int (length drafts)) p (?rows p)" for p
  proof -
    have "sorted_wrt (<) (map u_pts (?rows p))" unfolding pts by (simp add: sorted_wrt_iff_nth_less del: upt_Suc)
    moreover have "x \<in> set (map u_pts (?rows p)) \<Longrightarrow> p - int (length drafts) < x \<and> x \<le> p" for x
      unfolding pts by auto
    ultimately show ?thesis by (auto simp: placed_def)
  qed
  then show ?thesis
    unfolding update_drafts_def Let_def using True
    by (auto intro!: logged [where rows = ?rows] create_then quiet_intros simp: draft_row_def)
qed (simp add: update_drafts_def)

lemma first_places_range:
  "(t, j) \<in> set (first_places ts i seen) \<Longrightarrow> i \<le> j \<and> j < i + int (length ts)"
  by (induction ts i seen rule: first_places.induct) (force split: if_splits)+

lemma first_places_sorted: "sorted_wrt (<) (map snd (first_places ts i seen))"
proof (induction ts i seen rule: first_places.induct)
  case (2 t ts i seen)
  then show ?case by (force dest: first_places_range)
qed simp

lemma add_remove_contact_grows [grow_intros]: "honours logs_grow (add_remove_contact W user ts)"
proof -
  let ?places = "\<lambda>p. first_places ts (p - int (length ts) + 1) {}"
  let ?row = "\<lambda>(t, i). (new_update W user UPDATE_CONTACT i)\<lparr>u_related_id := Some t, u_update_user := Some t\<rparr>"
  have "map u_pts (map ?row xs) = map snd xs" for xs by (auto simp: case_prod_unfold)
  then have "sorted_wrt (<) (map u_pts (map ?row (?places p)))" for p
    using first_places_sorted by metis
  moreover have "r \<in> set (map ?row (?places p)) \<Longrightarrow> p - int (length ts) < u_pts r \<and> u_pts r \<le> p" for p r
    by (auto dest: first_places_range)
  ultimately have "placed u_pts (p - int (length ts)) p (map ?row (?places p))" for p
    unfolding placed_def by blast
  then show ?thesis
    unfolding add_remove_contact_def Let_def
    by (intro logged [where rows = "\<lambda>p. map ?row (?places p)"] create_then quiet_intros) auto
qed

section \<open>One number after the other\<close>

text \<open>Loops take numbers as they go and the rows are stored at the end.\<close>

definition counted :: "update_row list \<Rightarrow> updates_db \<Rightarrow> updates_db \<Rightarrow> bool" where
  "counted rows s s' \<longleftrightarrow>
     (\<exists>m os. s' = s\<lparr>user_pts := m, handed_over := os\<rparr>
        \<and> (\<forall>v. (m v = None \<longrightarrow> user_pts s v = None \<and> filter (\<lambda>r. u_user r = v) rows = [])
             \<and> start (user_pts s v) \<le> start (m v)
             \<and> placed u_pts (start (user_pts s v)) (start (m v)) (filter (\<lambda>r. u_user r = v) rows)))"

lemma countedE:
  assumes "counted rows s s'"
  obtains m os where "s' = s\<lparr>user_pts := m, handed_over := os\<rparr>"
    and "\<And>v. m v = None \<longrightarrow> user_pts s v = None \<and> filter (\<lambda>r. u_user r = v) rows = []"
    and "\<And>v. start (user_pts s v) \<le> start (m v)"
    and "\<And>v. placed u_pts (start (user_pts s v)) (start (m v)) (filter (\<lambda>r. u_user r = v) rows)"
  using assms unfolding counted_def by (elim exE conjE) (rule that, auto)

lemma counted_append:
  assumes "counted rs s t" "counted rs' t s'"
  shows "counted (rs @ rs') s s'"
proof -
  obtain m os where 1: "t = s\<lparr>user_pts := m, handed_over := os\<rparr>"
    and 2: "\<And>v. m v = None \<longrightarrow> user_pts s v = None \<and> filter (\<lambda>r. u_user r = v) rs = []"
    and 3: "\<And>v. start (user_pts s v) \<le> start (m v)"
    and 4: "\<And>v. placed u_pts (start (user_pts s v)) (start (m v)) (filter (\<lambda>r. u_user r = v) rs)"
    using assms(1) by (rule countedE) (rule that)
  obtain m' os' where 5: "s' = t\<lparr>user_pts := m', handed_over := os'\<rparr>"
    and 6: "\<And>v. m' v = None \<longrightarrow> user_pts t v = None \<and> filter (\<lambda>r. u_user r = v) rs' = []"
    and 7: "\<And>v. start (user_pts t v) \<le> start (m' v)"
    and 8: "\<And>v. placed u_pts (start (user_pts t v)) (start (m' v)) (filter (\<lambda>r. u_user r = v) rs')"
    using assms(2) by (rule countedE) (rule that)
  have t: "user_pts t = m" by (simp add: 1)
  show ?thesis
    unfolding counted_def
  proof (intro exI conjI allI)
    show "s' = s\<lparr>user_pts := m', handed_over := os'\<rparr>" by (simp add: 5 1)
    show "placed u_pts (start (user_pts s v)) (start (m' v)) (filter (\<lambda>r. u_user r = v) (rs @ rs'))" for v
      using placed_append [OF 4 8 [unfolded t] 3 7 [unfolded t]] by simp
    show "start (user_pts s v) \<le> start (m' v)" for v
      using order_trans [OF 3 7 [unfolded t]] .
    show "m' v = None \<longrightarrow> user_pts s v = None \<and> filter (\<lambda>r. u_user r = v) (rs @ rs') = []" for v
      using 2 [of v] 6 [of v] by (simp add: t)
  qed
qed

lemma quiet_counted: "only_sends s s' \<Longrightarrow> counted [] s s'"
  unfolding only_sends_def counted_def
  by (elim exE, intro exI [of _ "user_pts s"] exI) (cases s, simp)

definition numbers :: "('b \<Rightarrow> update_row list) \<Rightarrow> 'b upd \<Rightarrow> bool" where
  "numbers g m \<longleftrightarrow> (\<forall>s. case m s of (Inr x, s') \<Rightarrow> counted (g x) s s' | (Inl _, s') \<Rightarrow> counted [] s s')"

lemma counted_raises:
  assumes "counted rs s t" "counted [] t s'" shows "counted [] s s'"
proof -
  have "counted (rs @ []) s s'" using assms by (rule counted_append)
  then show ?thesis by (auto simp: counted_def)
qed

lemma numbers_return: "g x = [] \<Longrightarrow> numbers g (sreturn x)"
  by (simp add: numbers_def quiet_counted silence.same)

lemma numbers_get: "(\<And>x. numbers g (f x)) \<Longrightarrow> numbers g (sbind (sget a) f)"
  by (simp add: numbers_def)

lemma numbers_one:
  assumes "\<And>p. u_user (row p) = owner" "\<And>p. u_pts (row p) = p" "\<And>p. g (h p) = [row p]"
  shows "numbers g (sbind (add_pts owner 1) (\<lambda>p. sthen (hand_over (os p)) (sreturn (h p))))"
  unfolding numbers_def
proof
  fix s
  show "case sbind (add_pts owner 1) (\<lambda>p. sthen (hand_over (os p)) (sreturn (h p))) s of
      (Inr x, s') \<Rightarrow> counted (g x) s s' | (Inl _, s') \<Rightarrow> counted [] s s'"
  proof (cases "user_pts s owner")
    case None
    then show ?thesis by (simp add: sbind_def add_pts_def quiet_counted silence.same)
  next
    case (Some p)
    have "counted [row (p + 1)] s (s\<lparr>user_pts := (user_pts s)(owner \<mapsto> p + 1), handed_over := handed_over s @ os (p + 1)\<rparr>)"
      unfolding counted_def using Some assms by (intro exI conjI allI) auto
    then show ?thesis
      using Some assms by (simp add: sbind_def add_pts_def hand_over_def)
  qed
qed

lemma numbers_loop:
  assumes "\<And>x. x \<in> set xs \<Longrightarrow> numbers g (f x)"
  shows "numbers (\<lambda>ys. concat (map g ys)) (for_each xs f)"
  using assms
proof (induction xs)
  case Nil
  show ?case unfolding for_each.simps by (rule numbers_return) simp
next
  case (Cons x xs)
  have head: "numbers g (f x)" and tail: "numbers (\<lambda>ys. concat (map g ys)) (for_each xs f)"
    using Cons by simp_all
  show ?case
    unfolding numbers_def
  proof
    fix s
    obtain r t where 1: "f x s = (r, t)" by (metis surj_pair)
    obtain r' t' where 2: "for_each xs f t = (r', t')" by (metis surj_pair)
    show "case for_each (x # xs) f s of
        (Inr ys, s') \<Rightarrow> counted (concat (map g ys)) s s' | (Inl _, s') \<Rightarrow> counted [] s s'"
      using head [unfolded numbers_def, rule_format, of s] tail [unfolded numbers_def, rule_format, of t]
      by (cases r; cases r') (auto simp: sbind_def 1 2 sreturn_def intro: counted_append counted_raises)
  qed
qed

lemma counted_rows_grow:
  assumes "counted rows s t"
  shows "logs_grow s (t\<lparr>user_updates := user_updates t @ rows\<rparr>)" "logs_grow s t"
proof -
  obtain m os where t: "t = s\<lparr>user_pts := m, handed_over := os\<rparr>"
    and m: "\<And>v. m v = None \<longrightarrow> user_pts s v = None \<and> filter (\<lambda>r. u_user r = v) rows = []"
    and le: "\<And>v. start (user_pts s v) \<le> start (m v)"
    and new: "\<And>v. placed u_pts (start (user_pts s v)) (start (m v)) (filter (\<lambda>r. u_user r = v) rows)"
    using assms by (rule countedE) (rule that)
  have g: "grows u_pts (user_log v s) (m v, filter (\<lambda>_. True) (log_of v s) @ filter (\<lambda>_. b) (filter (\<lambda>r. u_user r = v) rows))" for v b
    by (rule growsI [of _ "\<lambda>_. True" _ "filter (\<lambda>_. b) (filter (\<lambda>r. u_user r = v) rows)"])
      (use m [of v] le [of v] new [of v] in \<open>cases b; simp add: user_log_def\<close>)+
  show "logs_grow s (t\<lparr>user_updates := user_updates t @ rows\<rparr>)"
    by (rule users_grow [where m = m and os = os, OF _ g [of _ True]]) (simp add: t)
  show "logs_grow s t"
    by (rule users_grow [where m = m and os = os, OF _ g [of _ False]]) (cases s, simp add: t)
qed

lemma logged_loop:
  assumes "numbers g m" "\<And>x. rows x = g x"
  shows "honours logs_grow (sbind m (\<lambda>x. create_updates (rows x)))"
proof (rule honoursI)
  fix s
  obtain r t where 1: "m s = (r, t)" by (metis surj_pair)
  show "logs_grow s (snd (sbind m (\<lambda>x. create_updates (rows x)) s))"
    using assms(1) [unfolded numbers_def, rule_format, of s] counted_rows_grow
    by (cases r) (auto simp: sbind_def 1 create_updates_def supd_def assms(2))
qed

lemma self_updates_grow [grow_intros]:
  "honours logs_grow (update_user W user)"
  "honours logs_grow (notify_user_deleted W user)"
  "honours logs_grow (update_user_name W user c)"
proof -
  show "honours logs_grow (update_user W user)"
    unfolding update_user_def
    by (rule logged_loop [where g = "\<lambda>ys. concat (map id ys)"], rule numbers_loop)
      (auto intro!: numbers_get numbers_return
        numbers_one [where row = "\<lambda>p. (new_update W o' USER_UPDATE p)\<lparr>u_related_id := Some user\<rparr>" for o'])
  show "honours logs_grow (notify_user_deleted W user)"
    unfolding notify_user_deleted_def Let_def
    by (rule logged_loop [where g = "\<lambda>ys. concat (map id ys)"], rule numbers_loop)
      (auto intro!: numbers_get numbers_return
        numbers_one [where row = "\<lambda>p. (new_update W o' USER_UPDATE p)\<lparr>u_related_id := Some user\<rparr>" for o'])
  show "honours logs_grow (update_user_name W user c)"
    unfolding update_user_name_def
    by (rule logged_loop [where g = "\<lambda>ys. concat (map (\<lambda>r. [r]) ys)" and rows = "\<lambda>ys. ys"], rule numbers_loop)
      (auto intro!: numbers_one)
qed

section \<open>Several users at once\<close>

lemma logged_many:
  assumes "us = map own xs" "ns = map cnt xs" "distinct us"
    and "\<And>ps. length ps = length xs \<Longrightarrow> honours (adds (rows_of f xs ps)) (k ps)"
    and "\<And>x p r. x \<in> set xs \<Longrightarrow> r \<in> set (f x p) \<Longrightarrow> u_user r = own x"
    and "\<And>x p. x \<in> set xs \<Longrightarrow> placed u_pts (p - cnt x) p (f x p)"
  shows "honours logs_grow (sbind (add_pts_bulk us ns) k)"
  unfolding assms(1,2) using assms by (intro logged_bulk) auto

lemma rows_of_single: "rows_of (\<lambda>x p. [f x p]) xs ps = map (\<lambda>(x, p). f x p) (zip xs ps)"
  by (simp add: rows_of_def case_prod_unfold)

lemma stores_rows:
  "rs = rs' \<Longrightarrow> honours only_sends k \<Longrightarrow> honours (adds rs) (sthen (create_updates rs') k)"
  "rs = rs' \<Longrightarrow> honours only_sends m \<Longrightarrow> honours (adds rs) (sthen m (create_updates rs'))"
  "rs = rs' \<Longrightarrow> honours only_sends m \<Longrightarrow> honours only_sends k \<Longrightarrow> honours (adds rs) (sthen m (sthen (create_updates rs') k))"
  by (auto intro: create_then quiet_then create_adds)

lemmas row_maps = rows_of_def rows_of_single case_prod_unfold comp_def

lemma announce_all_grows:
  assumes "distinct to" "\<And>u p. u_user (row u p) = u" "\<And>u p. u_pts (row u p) = p"
  shows "honours logs_grow (announce_all to row us)"
  unfolding announce_all_def
  by (rule logged_many [where own = "\<lambda>u. u" and cnt = "\<lambda>_. 1" and f = "\<lambda>u p. [row u p]"])
    (use assms in \<open>auto simp: rows_of_single intro!: stores_rows quiet_intros\<close>)

lemma chats_grow [grow_intros]:
  "distinct (map peer_owner qs) \<Longrightarrow> honours logs_grow (update_chat_participants W c qs)"
  "distinct (map fst (bc_members c)) \<Longrightarrow> honours logs_grow (update_chat W c)"
  "distinct (map fst (bc_members c)) \<Longrightarrow> honours logs_grow (update_chat_default_banned_rights W c)"
  by (auto simp: update_chat_participants_def update_chat_def update_chat_default_banned_rights_def present_def
      intro!: announce_all_grows dest: distinct_map_filter)

lemma migrate_chat_grows [grow_intros]:
  assumes "distinct to" shows "honours logs_grow (migrate_chat W c ch to)"
  unfolding migrate_chat_def Let_def
  by (rule logged_many [where own = "\<lambda>u. u" and cnt = "\<lambda>_. 2" and f = "\<lambda>u p.
        [(new_update W u UPDATE_CHAT (p - 1))\<lparr>u_related_id := Some (bc_id c)\<rparr>,
         (new_update W u UPDATE_CHANNEL p)\<lparr>u_related_id := Some ch\<rparr>]"])
    (use assms in \<open>auto simp: placed_def rows_of_def intro!: stores_rows quiet_intros\<close>)

lemma delete_messages_grows [grow_intros]:
  assumes "distinct (map fst ms)" "\<forall>(u, ids) \<in> set ms. ids \<noteq> []"
  shows "honours logs_grow (delete_messages W user ms)"
  unfolding delete_messages_def Let_def
  by (rule logged_many [where own = fst and cnt = "\<lambda>(t, ids). int (length ids)"
        and f = "\<lambda>(t, ids) p. [(new_update W t MESSAGE_DELETE p)\<lparr>u_related_ids := Some ids\<rparr>]"])
    (use assms in \<open>auto simp: row_maps intro!: stores_rows quiet_intros\<close>)

lemma edit_message_grows [grow_intros]:
  assumes "distinct (map (\<lambda>(q, m). peer_owner q) ms)"
  shows "honours logs_grow (edit_message W user ms)"
  unfolding edit_message_def Let_def
  by (intro logged_many [where own = "\<lambda>(q, m). peer_owner q" and cnt = "\<lambda>_. 1"
        and f = "\<lambda>(q, m) p. [(new_update W (peer_owner q) MESSAGE_EDIT p)
           \<lparr>u_related_id := Some (ms_id m), u_message := Some (ms_id m)\<rparr>]"] growing.bind growing.nothing)
    (use assms in \<open>auto simp: row_maps intro!: stores_rows quiet_intros\<close>)

lemma outboxes_grow [grow_intros]:
  "distinct (map (\<lambda>(q, m). peer_owner q) items) \<Longrightarrow> honours logs_grow (update_read_history_outbox W items)"
  unfolding update_read_history_outbox_def
  by (intro growing.bind growing.nothing
      logged_many [where own = "\<lambda>(q, m). peer_owner q" and cnt = "\<lambda>_. 1"
        and f = "\<lambda>(q, m) p. [(new_update W (peer_owner q) READ_OUTBOX p)
           \<lparr>u_pts_count := 1, u_related_id := Some (peer_id q), u_data := Some [Some m], u_peer := Some (peer_id q)\<rparr>]"])
    (auto simp: row_maps intro!: stores_rows quiet_intros)

lemma channel_outboxes_grow [grow_intros]:
  assumes "distinct (map fst max_ids)"
  shows "honours logs_grow (update_read_history_outbox_channel W ch max_ids)"
proof -
  let ?known = "concat (map (\<lambda>(u, m). case u of None \<Rightarrow> [] | Some u \<Rightarrow> [(u, m)]) max_ids)"
  have "distinct (map fst ?known)" "fst ` set ?known \<subseteq> {u. Some u \<in> fst ` set max_ids}" using assms
    by (induction max_ids) (force split: option.splits)+
  then show ?thesis
    unfolding update_read_history_outbox_channel_def Let_def
    by (intro growing.branch growing.nothing logged_many [where own = fst and cnt = "\<lambda>_. 1"
          and f = "\<lambda>(u, m) p. [(new_update W u READ_OUTBOX_CHANNEL p)
             \<lparr>u_pts_count := 1, u_related_id := Some ch, u_data := Some [Some m]\<rparr>]"])
      (auto simp: row_maps intro!: stores_rows quiet_intros)
qed

lemma update_history_ttl_grows [grow_intros]:
  assumes "distinct (map peer_owner (q # qs))" shows "honours logs_grow (update_history_ttl W q qs days)"
  unfolding update_history_ttl_def Let_def
  by (rule logged_many [where own = peer_owner and cnt = "\<lambda>_. 1"
        and f = "\<lambda>q' p. [(bare_row W (peer_owner q') UPDATE_HISTORY_TTL p)
           \<lparr>u_related_id := Some (peer_id q'), u_data := Some [Some days], u_peer := Some (peer_id q')\<rparr>]"])
    (use assms in \<open>auto simp: row_maps simp del: list.map intro!: stores_rows quiet_intros\<close>)

lemma pin_parts_lengths: "length (pinned_ids ms) + length (unpinned_ids ms) = length ms"
  by (simp add: pinned_ids_def unpinned_ids_def sum_length_filter_compl)

lemma pin_parts_placed:
  assumes "\<And>pinned ids p. key (row (pinned, ids, p)) = p"
  shows "placed key (p - int (length ms)) p (map row (pin_parts ms p))"
  using pin_parts_lengths [of ms] assms
  by (auto simp: pin_parts_def placed_def simp flip: length_greater_0_conv)

lemma pin_messages_grows [grow_intros]:
  assumes "distinct (map (\<lambda>(q, ms). peer_owner q) messages)"
  shows "honours logs_grow (pin_messages W user messages)"
  unfolding pin_messages_def Let_def
  by (rule logged_many [where own = "\<lambda>(q, ms). peer_owner q" and cnt = "\<lambda>(q, ms). int (length ms)"
        and f = "\<lambda>(q, ms) p. map (pin_row W q) (pin_parts ms p)"])
    (use assms in \<open>auto simp: row_maps pin_row_def intro!: stores_rows quiet_intros pin_parts_placed\<close>)

lemma dict_get_distinct: "distinct (map fst kvs) \<Longrightarrow> (k, v) \<in> set kvs \<Longrightarrow> dict_get kvs k = Some v"
  by (simp add: dict_get_def rev_map [symmetric])

lemma dict_get_own:
  assumes "distinct (map own xs)" "x \<in> set xs"
  shows "dict_get (map (\<lambda>x. (own x, val x)) xs) (own x) = Some (val x)"
  using assms by (intro dict_get_distinct) (auto simp: comp_def)

lemma owner_targets_distinct:
  assumes "distinct (map (\<lambda>(q, m). peer_owner q) xs)"
  shows "owner_targets xs ps = map (\<lambda>((q, m), p). (peer_owner q, p, m)) (zip xs ps)"
proof -
  have "concat (map (\<lambda>(t, p). case dict_get (map (\<lambda>(q, m). (peer_owner q, m)) xs) t of None \<Rightarrow> [] | Some m \<Rightarrow> [(t, p, m)])
           (zip (map (\<lambda>(q, m). peer_owner q) ys) ps))
         = map (\<lambda>((q, m), p). (peer_owner q, p, m)) (zip ys ps)" if "set ys \<subseteq> set xs" for ys
    using that
  proof (induction ys ps rule: list_induct2')
    case (4 y ys p ps)
    obtain q m where y: "y = (q, m)" by (cases y)
    have "dict_get (map (\<lambda>(q, m). (peer_owner q, m)) xs) (peer_owner q) = Some m"
      using assms 4(2) y by (intro dict_get_distinct) (force simp: comp_def case_prod_unfold)+
    then show ?case using 4 y by simp
  qed auto
  then show ?thesis by (simp add: owner_targets_def)
qed

lemma message_rows_placed: "placed u_pts (p - message_pts m) p (message_rows W u m p)"
  by (auto simp: message_rows_def message_pts_def placed_def message_id_row_def new_message_row_def split: option.splits)

lemma message_rows_user: "r \<in> set (message_rows W u m p) \<Longrightarrow> u_user r = u"
  by (auto simp: message_rows_def message_id_row_def new_message_row_def split: option.splits)

lemma send_message_grows [grow_intros]:
  assumes "distinct (map (\<lambda>(q, m). peer_owner q) messages)"
  shows "honours logs_grow (send_message W user messages ig)"
  unfolding send_message_def Let_def
  by (intro logged_many [where own = "\<lambda>(q, m). peer_owner q" and cnt = "\<lambda>(q, m). message_pts m"
        and f = "\<lambda>(q, m) p. message_rows W (peer_owner q) m p"] growing.bind growing.nothing)
    (use assms in \<open>auto simp: row_maps owner_targets_distinct message_rows_placed dest: message_rows_user
      intro!: stores_rows quiet_intros\<close>)

lemma numbered_placed:
  "placed u_pts p (p + sum_list (map message_pts ms)) (concat (map (\<lambda>(m, q). message_rows W u m q) (numbered ms p)))"
proof (induction ms p rule: numbered.induct)
  case (2 m ms p)
  have "0 \<le> message_pts m" "0 \<le> sum_list (map message_pts ms)"
    by (auto simp: message_pts_def intro!: sum_list_nonneg)
  then show ?case
    using placed_append [OF message_rows_placed [of "p + message_pts m" m W u] "2.IH"] by (simp add: add.assoc)
qed simp

lemma add_nothing_quiet [quiet_intros]: "honours only_sends (add_pts u 0)"
  by (auto simp: honours_def add_pts_def silence.same split: option.splits)

lemma send_messages_grows [grow_intros]:
  assumes "distinct (map (\<lambda>(q, ms). peer_owner q) messages)"
  shows "honours logs_grow (send_messages W messages user existing)"
proof -
  let ?counts = "map (\<lambda>(q, ms). sum_list (map message_pts ms)) messages"
  have ts: "map (\<lambda>(t, (n, p), ms). (t, p, numbered ms (p - n))) (owner_targets messages (zip ?counts ps))
      = map (\<lambda>((q, ms), p). (peer_owner q, p, numbered ms (p - sum_list (map message_pts ms)))) (zip messages ps)" for ps
    unfolding owner_targets_distinct [OF assms]
    by (induction messages ps rule: list_induct2') auto
  have fits: "placed u_pts (p - sum_list (map message_pts ms)) p
      (concat (map (\<lambda>(m, q). message_rows W u m q) (numbered ms (p - sum_list (map message_pts ms)))))" for u p ms
    using numbered_placed [of "p - sum_list (map message_pts ms)" ms W u] by simp
  have after: "honours only_sends (case user of None \<Rightarrow> sreturn None | Some u \<Rightarrow>
      if existing = [] then sreturn (a u) else sbind (case r u of None \<Rightarrow> add_pts u 0 | Some (p, x) \<Rightarrow> sreturn p) (\<lambda>p. sreturn (b u p)))" for a r b
    by (cases user) (auto split: option.split simp del: sbind_eval intro!: quiet_intros)
  show ?thesis
    unfolding send_messages_def Let_def ts
    by (intro logged_many [where own = "\<lambda>(q, m). peer_owner q"
          and cnt = "\<lambda>(q, ms). sum_list (map message_pts ms)"
          and f = "\<lambda>(q, ms) p. concat (map (\<lambda>(m, q'). message_rows W (peer_owner q) m q')
                     (numbered ms (p - sum_list (map message_pts ms))))"] growing.bind growing.nothing)
      (use assms fits after in \<open>auto simp: row_maps simp del: sbind_eval dest: message_rows_user
        intro!: stores_rows quiet_intros\<close>)
qed

end
