(* ===== verification/UpdatesSteps.thy ===== *)
theory UpdatesSteps
  imports UpdatesRun
begin

text \<open>
  The functions on channels, and the runs of all functions of the manager: a step is one call, or
  what other parts of the server do to the tables, opening a log and deleting rows.
\<close>

section \<open>Channels\<close>

lemma channel_logged_one:
  assumes "\<And>p. honours only_sends (k p)" "0 < n" "\<And>p. c_channel (row p) = ch" "\<And>p. c_pts (row p) = p"
  shows "honours logs_grow (sbind (channel_add_pts ch n) (\<lambda>p. sthen (create_channel_updates [row p]) (k p)))"
  by (rule channel_logged [where rows = "\<lambda>p. [row p]"]) (use assms in \<open>auto intro: create_channel_then\<close>)

lemma channel_messages_grow [grow_intros]:
  "honours logs_grow (send_message_channel_user W user ch m ig)"
  "honours logs_grow (send_message_channel W user ch m)"
  "honours logs_grow (edit_message_channel W ch m)"
  "honours logs_grow (update_channel W ch only)"
  unfolding send_message_channel_user_def send_message_channel_def edit_message_channel_def update_channel_def Let_def
  by (intro channel_logged_one quiet_intros; simp)+

lemma channel_add_pts_grows: "honours logs_grow (channel_add_pts ch n)"
proof -
  have "honours (channel_adds []) (sreturn p :: int upd)" for p
    by (rule honours_mono [OF silence.nothing(1)]) (rule only_sends_channel_adds)
  then show ?thesis
    using channel_logged [of "\<lambda>_. []" sreturn ch n] by (simp add: sbind_sreturn)
qed

lemma sbind_slift: "sbind (slift r) f = (case r of Inl e \<Rightarrow> sraise e | Inr x \<Rightarrow> f x)"
  by (auto simp: sbind_def slift_def sraise_def fun_eq_iff split: sum.splits)

lemma available_messages_grow [grow_intros]: "honours logs_grow (update_channel_available_messages W ch i)"
proof (cases "Int_write TLong True i")
  case (Inl e)
  then show ?thesis
    unfolding update_channel_available_messages_def sbind_slift
    by (auto simp del: sbind_eval intro!: growing.bind growing.nothing channel_add_pts_grows)
next
  case (Inr bs)
  then show ?thesis
    unfolding update_channel_available_messages_def sbind_slift Let_def
    by (auto simp del: sbind_eval intro!: channel_logged_one quiet_intros)
qed

definition filters_channels :: "(channel_row \<Rightarrow> bool) \<Rightarrow> updates_db \<Rightarrow> updates_db \<Rightarrow> bool" where
  "filters_channels P s s' \<longleftrightarrow> (\<exists>os. s' = s\<lparr>channel_updates := filter P (channel_updates s), handed_over := os\<rparr>)"

lemma channel_adds_then_filter:
  assumes "channel_adds rs s t" "filters_channels P t u" shows "channel_adds rs s u"
proof -
  obtain A B os where t: "t = s\<lparr>channel_updates := filter A (channel_updates s) @ filter B rs, handed_over := os\<rparr>"
    using assms(1) unfolding channel_adds_def by (elim exE) (rule that)
  obtain os' where u: "u = t\<lparr>channel_updates := filter P (channel_updates t), handed_over := os'\<rparr>"
    using assms(2) unfolding filters_channels_def by (elim exE) (rule that)
  show ?thesis
    by (rule channel_addsI [where P = "\<lambda>x. P x \<and> A x" and Q = "\<lambda>x. P x \<and> B x" and os = os'])
      (simp add: t u conj_commute)
qed

lemma filter_after_adding:
  assumes "honours (channel_adds rs) (m :: unit upd)" "honours only_sends k"
  shows "honours (channel_adds rs) (sthen m (sthen (supd (\<lambda>s. s\<lparr>channel_updates := filter P (channel_updates s)\<rparr>)) k))"
proof -
  have "honours (filters_channels P) (sthen (supd (\<lambda>s. s\<lparr>channel_updates := filter P (channel_updates s)\<rparr>)) k)"
    using assms(2) by (auto simp: honours_def only_sends_def filters_channels_def)
  then show ?thesis
    unfolding sthen_def [of m] by (rule honours_via [OF assms(1)]) (auto intro: channel_adds_then_filter)
qed

lemma delete_messages_channel_grows [grow_intros]:
  assumes "ids \<noteq> []" shows "honours logs_grow (delete_messages_channel W ch ids)"
proof (cases "write_longs ids")
  case (Inl e)
  then show ?thesis
    unfolding delete_messages_channel_def sbind_slift
    by (auto simp del: sbind_eval intro!: growing.bind growing.nothing channel_add_pts_grows)
next
  case (Inr bs)
  then show ?thesis
    unfolding delete_messages_channel_def sbind_slift Let_def using assms
    by (auto simp del: sbind_eval intro!: channel_logged [where rows = "\<lambda>p. [(new_channel_update W ch CHANNEL_DELETE_MESSAGES p
        (int (length ids)))\<lparr>c_extra_data := Some bs\<rparr>]"] filter_after_adding create_channel_adds quiet_intros)
qed

lemma channel_stores:
  "rs = rs' \<Longrightarrow> honours only_sends k \<Longrightarrow> honours (channel_adds rs) (sthen (create_channel_updates rs') k)"
  "rs = rs' \<Longrightarrow> honours only_sends m \<Longrightarrow> honours only_sends k \<Longrightarrow> honours (channel_adds rs) (sthen m (sthen (create_channel_updates rs') k))"
  by (auto intro: create_channel_then quiet_channel_then)

lemma channel_quiet: "honours only_sends m \<Longrightarrow> honours (channel_adds rs) m"
  by (rule honours_mono, assumption, rule only_sends_channel_adds)

lemma channel_pin_rows_facts:
  "channel_pin_rows W ch parts = Inr rs \<Longrightarrow> (\<forall>r \<in> set rs. c_channel r = ch) \<and> map c_pts rs = map (\<lambda>(b, ids, p). p) parts"
  by (induction W ch parts arbitrary: rs rule: channel_pin_rows.induct) (auto simp: rbind_Inr_iff)

lemma placed_keys: "placed key lo hi rs \<longleftrightarrow> sorted_wrt (<) (map key rs) \<and> (\<forall>x \<in> set (map key rs). lo < x \<and> x \<le> hi)"
  by (simp add: placed_def)

lemma pin_channel_messages_grows [grow_intros]: "honours logs_grow (pin_channel_messages W ch ms)"
proof -
  let ?rows = "\<lambda>p. case channel_pin_rows W ch (pin_parts ms p) of Inl _ \<Rightarrow> [] | Inr rs \<Rightarrow> rs"
  show ?thesis
    unfolding pin_channel_messages_def Let_def sbind_slift
  proof (rule channel_logged [where rows = ?rows])
    show "placed c_pts (p - int (length ms)) p (?rows p)" for p
    proof (cases "channel_pin_rows W ch (pin_parts ms p)")
      case (Inr rs)
      then have "map c_pts rs = map (\<lambda>(b, ids, q). q) (pin_parts ms p)"
        using channel_pin_rows_facts by blast
      then show ?thesis
        using pin_parts_placed [where key = "\<lambda>(b, ids, q). q" and row = "\<lambda>x. x" and ms = ms and p = p]
        unfolding Inr placed_keys by simp
    qed simp
    show "c_channel r = ch" if "r \<in> set (?rows p)" for p r
      using that by (cases "channel_pin_rows W ch (pin_parts ms p)") (auto dest: channel_pin_rows_facts)
    show "honours (channel_adds (?rows p)) (case channel_pin_rows W ch (pin_parts ms p) of Inl e \<Rightarrow> sraise e
        | Inr rows \<Rightarrow> sthen (hand_over (os p)) (sthen (create_channel_updates rows) (sreturn (x p))))" for p os and x :: "int \<Rightarrow> 'x"
      by (cases "channel_pin_rows W ch (pin_parts ms p)") (auto intro: channel_quiet channel_stores quiet_intros)
  qed
qed

lemma channel_numbered_facts:
  "map snd (channel_numbered ms q) = map (\<lambda>i. q + int i) [1..<Suc (length ms)]"
  by (simp add: channel_numbered_def del: upt_Suc)

lemma send_messages_channel_grows [grow_intros]: "honours logs_grow (send_messages_channel W ms ch existing user)"
proof -
  let ?rows = "\<lambda>p. map (\<lambda>(m, q). (new_channel_update W ch CHANNEL_NEW_MESSAGE q 1)\<lparr>c_message := Some (ms_id m)\<rparr>)
                 (channel_numbered ms (p - int (length ms)))"
  have pts: "map c_pts (?rows p) = map (\<lambda>i. p - int (length ms) + int i) [1..<Suc (length ms)]" for p
    unfolding channel_numbered_facts [symmetric] by (simp add: case_prod_unfold)
  have "sorted_wrt (<) (map c_pts (?rows p))" for p
    unfolding pts by (simp add: sorted_wrt_iff_nth_less del: upt_Suc)
  moreover have "x \<in> set (map c_pts (?rows p)) \<Longrightarrow> p - int (length ms) < x \<and> x \<le> p" for p x
    unfolding pts by auto
  ultimately have "placed c_pts (p - int (length ms)) p (?rows p)" for p by (auto simp: placed_def)
  moreover have "honours only_sends (case user of Some u \<Rightarrow> if b u then sreturn r else (case l of None \<Rightarrow> sraise e | Some p \<Rightarrow> sreturn (f u p)) | None \<Rightarrow> sreturn r)"
    for b r l e f
    by (auto split: option.split intro!: quiet_intros)
  ultimately show ?thesis
    unfolding send_messages_channel_def Let_def
    by (intro growing.branch quiet_is_growing channel_logged [where rows = ?rows])
      (auto intro!: channel_stores quiet_intros)
qed

lemma encryption_update_grows [grow_intros]: "honours logs_grow (encryption_update W user c)"
  unfolding encryption_update_def
proof (rule logged [where rows = "\<lambda>p. [(new_update W user UPDATE_ENCRYPTION p)
    \<lparr>u_pts_count := 1, u_related_id := Some (en_id c), u_encrypted_chat := Some (en_id c)\<rparr>]"])
  show "honours (adds [r]) (sthen (supd (\<lambda>s. s\<lparr>user_updates := filter P (user_updates s)\<rparr>)) (sthen (create_updates [r]) (hand_over os)))" for r P os
  proof (rule honoursI)
    show "adds [r] s (snd (sthen (supd (\<lambda>s. s\<lparr>user_updates := filter P (user_updates s)\<rparr>)) (sthen (create_updates [r]) (hand_over os)) s))" for s
      by (rule addsI [where P = P and Q = "\<lambda>_. True" and os = "handed_over s @ os"])
        (simp add: create_updates_def hand_over_def)
  qed
qed auto

lemma only_handed_over [quiet_intros]:
  "honours only_sends (update_status support user to)"
  "honours only_sends (read_channel_messages_contents user ch ids)"
  "honours only_sends (update_reactions user ms q tell)"
  "honours only_sends (send_encrypted_update r)"
  "honours only_sends (send_encrypted_typing ch auth)"
  "honours only_sends (phone_signaling_update auth call data)"
  "honours only_sends (update_stars_balance user balance)"
  by (auto simp: update_status_def read_channel_messages_contents_def update_reactions_def send_encrypted_update_def
      send_encrypted_typing_def phone_signaling_update_def update_stars_balance_def Let_def simp del: sbind_eval
      intro!: silence.branch silence.bind silence.seq quiet_intros)

section \<open>Runs\<close>

text \<open>
  One step: a call of the manager, with a world that may differ from step to step, or what other
  parts do to the tables.
\<close>

inductive manager_step :: "updates_db \<Rightarrow> updates_db \<Rightarrow> bool" where
  "distinct (map (\<lambda>(q, m). peer_owner q) ms) \<Longrightarrow> manager_step s (snd (send_message W ou ms b s))"
| "distinct (map (\<lambda>(q, m). peer_owner q) mss) \<Longrightarrow> manager_step s (snd (send_messages W mss ou existing s))"
| "distinct (map fst idss) \<Longrightarrow> \<forall>(u, ids) \<in> set idss. ids \<noteq> [] \<Longrightarrow> manager_step s (snd (delete_messages W ou idss s))"
| "distinct (map (\<lambda>(q, m). peer_owner q) ms) \<Longrightarrow> manager_step s (snd (edit_message W u ms s))"
| "distinct (map (\<lambda>(q, m). peer_owner q) mss) \<Longrightarrow> manager_step s (snd (pin_messages W u mss s))"
| "manager_step s (snd (send_message_channel_user W u ch m b s))"
| "manager_step s (snd (send_message_channel W u ch m s))"
| "manager_step s (snd (send_messages_channel W msgs ch existing ou s))"
| "ids \<noteq> [] \<Longrightarrow> manager_step s (snd (delete_messages_channel W ch ids s))"
| "manager_step s (snd (edit_message_channel W ch m s))"
| "manager_step s (snd (pin_channel_messages W ch msgs s))"
| "manager_step s (snd (update_channel W ch only s))"
| "manager_step s (snd (update_channel_available_messages W ch i s))"
| "manager_step s (snd (pin_dialog W u q d s))"
| "manager_step s (snd (update_draft W u q draft s))"
| "manager_step s (snd (update_drafts W u qs drafts s))"
| "manager_step s (snd (reorder_pinned_dialogs W u ds s))"
| "manager_step s (snd (update_user W u s))"
| "manager_step s (snd (notify_user_deleted W u s))"
| "manager_step s (snd (update_user_name W u c s))"
| "distinct (map peer_owner qs) \<Longrightarrow> manager_step s (snd (update_chat_participants W bc qs s))"
| "distinct (map fst (bc_members bc)) \<Longrightarrow> manager_step s (snd (update_chat W bc s))"
| "distinct (map fst (bc_members bc)) \<Longrightarrow> manager_step s (snd (update_chat_default_banned_rights W bc s))"
| "distinct to \<Longrightarrow> manager_step s (snd (migrate_chat W bc ch to s))"
| "manager_step s (snd (add_remove_contact W u targets s))"
| "manager_step s (snd (block_unblock_user W u q s))"
| "manager_step s (snd (update_dialog_unread_mark W u d s))"
| "manager_step s (snd (update_read_history_inbox W q i n b s))"
| "manager_step s (snd (update_read_history_inbox_channel W u ch i n b s))"
| "manager_step s (snd (update_read_channel_discussion_inbox W u ch i j k s))"
| "manager_step s (snd (update_read_channel_discussion_outbox W ch i j u s))"
| "distinct (map fst max_ids) \<Longrightarrow> manager_step s (snd (update_read_history_outbox_channel W ch max_ids s))"
| "distinct (map (\<lambda>(q, i). peer_owner q) items) \<Longrightarrow> manager_step s (snd (update_read_history_outbox W items s))"
| "ids \<noteq> [] \<Longrightarrow> manager_step s (snd (read_messages_contents W u ids s))"
| "manager_step s (snd (update_channel_for_user W ch u b s))"
| "manager_step s (snd (update_channel_participant_available_message W u ch i s))"
| "ds \<noteq> [] \<Longrightarrow> manager_step s (snd (update_folder_peers W u ds s))"
| "manager_step s (snd (update_folder W u i oi s))"
| "ids \<noteq> [] \<Longrightarrow> manager_step s (snd (update_folders_order W u ids s))"
| "manager_step s (snd (update_message_poll W i u s))"
| "manager_step s (snd (encryption_update W u sc s))"
| "manager_step s (snd (update_config W u s))"
| "manager_step s (snd (update_recent_reactions W u s))"
| "manager_step s (snd (new_auth W u a s))"
| "manager_step s (snd (new_stickerset W u i s))"
| "manager_step s (snd (update_stickersets W u s))"
| "manager_step s (snd (update_stickersets_order W u ids s))"
| "manager_step s (snd (update_chat_wallpaper W u i cw s))"
| "manager_step s (snd (update_recent_stickers W u s))"
| "manager_step s (snd (update_faved_stickers W u s))"
| "manager_step s (snd (update_saved_gifs W u s))"
| "manager_step s (snd (new_scheduled_message W u m s))"
| "ids \<noteq> [] \<Longrightarrow> manager_step s (snd (delete_scheduled_messages W u q ids oids s))"
| "distinct (map peer_owner (q # qs)) \<Longrightarrow> manager_step s (snd (update_history_ttl W q qs i s))"
| "manager_step s (snd (update_peer_notify_settings W u oq oi i s))"
| "manager_step s (snd (bot_precheckout_query W u pq s))"
| "manager_step s (snd (bot_callback_query W u cq s))"
| "manager_step s (snd (bot_inline_query W u iq s))"
| "manager_step s (snd (update_user_phone W u phone s))"
| "manager_step s (snd (pin_saved_dialog W u sd s))"
| "manager_step s (snd (reorder_pinned_saved_dialogs W u sds s))"
| "manager_step s (snd (update_privacy W u i rule trs es s))"
| "manager_step s (snd (phone_call_update W u pc only s))"
| "manager_step s (snd (update_user_emoji_status W u status s))"
| only_told: "only_sends s s' \<Longrightarrow> manager_step s s'"
| new_user: "user_pts s u = None \<Longrightarrow> manager_step s (s\<lparr>user_pts := (user_pts s)(u \<mapsto> 0)\<rparr>)"
| new_channel: "channel_pts s ch = None \<Longrightarrow> manager_step s (s\<lparr>channel_pts := (channel_pts s)(ch \<mapsto> 0)\<rparr>)"
| rows_deleted: "manager_step s (s\<lparr>user_updates := filter P (user_updates s), channel_updates := filter Q (channel_updates s)\<rparr>)"
| secret_rows: "manager_step s (s\<lparr>secret_updates := srs\<rparr>)"

lemma grows_filtered: "grows key (c, filter U rs) (c, filter U (filter P rs))"
  using grows_less [of key c "filter U rs" P] by (simp add: conj_commute)

lemma tables_grow:
  "user_pts s u = None \<Longrightarrow> logs_grow s (s\<lparr>user_pts := (user_pts s)(u \<mapsto> 0)\<rparr>)"
  "channel_pts s ch = None \<Longrightarrow> logs_grow s (s\<lparr>channel_pts := (channel_pts s)(ch \<mapsto> 0)\<rparr>)"
  "logs_grow s (s\<lparr>user_updates := filter P (user_updates s), channel_updates := filter Q (channel_updates s)\<rparr>)"
  "logs_grow s (s\<lparr>secret_updates := srs\<rparr>)"
proof -
  note logs = logs_grow_def user_log_def log_of_channel_def log_of_def channel_log_def
  have opened: "grows key (None, rs) (Some 0, rs)" for key :: "'r \<Rightarrow> int" and rs
    by (rule growsI [of _ "\<lambda>_. True" _ "[]"]) simp_all
  show "user_pts s u = None \<Longrightarrow> logs_grow s (s\<lparr>user_pts := (user_pts s)(u \<mapsto> 0)\<rparr>)"
    by (auto simp: logs grows_refl opened)
  show "channel_pts s ch = None \<Longrightarrow> logs_grow s (s\<lparr>channel_pts := (channel_pts s)(ch \<mapsto> 0)\<rparr>)"
    by (auto simp: logs grows_refl opened)
  show "logs_grow s (s\<lparr>user_updates := filter P (user_updates s), channel_updates := filter Q (channel_updates s)\<rparr>)"
    by (simp add: logs grows_filtered del: filter_filter)
  show "logs_grow s (s\<lparr>secret_updates := srs\<rparr>)"
    by (simp add: logs grows_refl)
qed

lemma grows_here: "honours logs_grow m \<Longrightarrow> logs_grow s (snd (m s))"
  by (simp add: honours_def)

theorem manager_step_grows: "manager_step s s' \<Longrightarrow> logs_grow s s'"
  by (induction rule: manager_step.induct)
    ((rule grows_here, rule grow_intros; assumption?)+, auto intro: tables_grow only_sends_grows)

interpretation user_logs: numbered_log user_log u_pts manager_step
  by unfold_locales (simp add: manager_step_grows [unfolded logs_grow_def])

interpretation channel_logs: numbered_log log_of_channel c_pts manager_step
  by unfold_locales (simp add: manager_step_grows [unfolded logs_grow_def])

definition no_updates :: updates_db where
  "no_updates = \<lparr>user_pts = Map.empty, user_updates = [], channel_pts = Map.empty, channel_updates = [],
     secret_updates = [], handed_over = []\<rparr>"

lemma reached_logs:
  assumes "manager_step\<^sup>*\<^sup>* no_updates s"
  shows "ordered_log u_pts (user_log u s)" "ordered_log c_pts (log_of_channel ch s)"
  using user_logs.run_ordered [OF assms, of u] channel_logs.run_ordered [OF assms, of ch]
  by (simp_all add: no_updates_def ordered_log_def user_log_def log_of_channel_def log_of_def channel_log_def)

end
