(* ===== verification/UpdateShapes.thy ===== *)
theory UpdateShapes
  imports UpdatesSteps
begin

text \<open>
  What reading a row back relies on: depending on its kind, that the row names what it is about,
  has a list of identifiers, or data without gaps. Every row the manager stores has the shape of
  its kind, and a row of the right shape is shown without an exception, unless a lookup in another
  table fails.
\<close>

section \<open>The shape of a row\<close>

definition names_ids :: "update_row \<Rightarrow> bool" where
  "names_ids r \<longleftrightarrow>
     (u_type r \<in> {MESSAGE_DELETE, FOLDER_PEERS, FOLDERS_ORDER, DELETE_SCHEDULED_MESSAGE, PIN_MESSAGES, UNPIN_MESSAGES}
        \<longrightarrow> u_related_ids r \<noteq> None)
     \<and> (u_type r \<in> {UPDATE_FOLDER, UPDATE_MESSAGE_ID} \<longrightarrow> u_related_ids r \<noteq> None \<and> u_related_ids r \<noteq> Some [])"

definition names_subject :: "update_row \<Rightarrow> bool" where
  "names_subject r \<longleftrightarrow>
     (u_type r \<in> {USER_UPDATE, USER_UPDATE_NAME, UPDATE_CHAT, UPDATE_CHANNEL, UPDATE_PHONE, UPDATE_CHAT_WALLPAPER,
                   UPDATE_MESSAGE_ID, READ_INBOX_CHANNEL, READ_OUTBOX_CHANNEL, UPDATE_CHANNEL_MIN_AVAILABLE_ID}
        \<longrightarrow> u_related_id r \<noteq> None)"

definition has_values :: "update_row \<Rightarrow> bool" where
  "has_values r \<longleftrightarrow>
     (u_type r \<in> {READ_INBOX, READ_OUTBOX, READ_INBOX_CHANNEL, READ_OUTBOX_CHANNEL, UPDATE_CHANNEL_MIN_AVAILABLE_ID}
        \<longrightarrow> (case u_data r of None \<Rightarrow> True | Some ds \<Rightarrow> None \<notin> set ds))
     \<and> (u_type r = UPDATE_HISTORY_TTL \<longrightarrow> u_data r \<noteq> None \<and> u_data r \<noteq> Some [])"

definition row_shape :: "update_row \<Rightarrow> bool" where
  "row_shape r \<longleftrightarrow> names_ids r \<and> names_subject r \<and> has_values r"

lemmas shape_defs = row_shape_def names_ids_def names_subject_def has_values_def new_update_def bare_row_def

definition shaped_rows :: "updates_db \<Rightarrow> updates_db \<Rightarrow> bool" where
  "shaped_rows s s' \<longleftrightarrow> (\<forall>r \<in> set (user_updates s'). r \<in> set (user_updates s) \<or> row_shape r)"

interpretation shapes: guarantee shaped_rows
  by unfold_locales (auto simp: shaped_rows_def)

lemma shapes_numbers [simp]:
  "honours shaped_rows (add_pts user n)" "honours shaped_rows (channel_add_pts ch n)" "honours shaped_rows (add_pts_bulk us ns)"
  by (auto simp: honours_def add_pts_def channel_add_pts_def add_pts_bulk_def shapes.same split: option.split)
    (auto simp: shaped_rows_def split: sum.split)

lemma shapes_create: "(\<And>r. r \<in> set rs \<Longrightarrow> row_shape r) \<Longrightarrow> honours shaped_rows (create_updates rs)"
  by (auto simp: honours_def create_updates_def shaped_rows_def)

lemma shapes_others [simp]:
  "honours shaped_rows (create_channel_updates crs)" "honours shaped_rows (hand_over os)"
  by (auto simp: honours_def create_channel_updates_def hand_over_def shaped_rows_def)

lemma shapes_quiet: "honours only_sends m \<Longrightarrow> honours shaped_rows m"
  by (rule honours_mono, assumption, auto simp: only_sends_def shaped_rows_def)

lemma shapes_supd:
  "(\<And>s. set (user_updates (f s)) \<subseteq> set (user_updates s)) \<Longrightarrow> honours shaped_rows (supd f)"
  by (auto simp: honours_def shaped_rows_def)

lemma shapes_loop: "(\<And>x. honours shaped_rows (f x)) \<Longrightarrow> honours shaped_rows (for_each xs f)"
  by (induction xs) (auto intro!: shapes.bind simp del: sbind_eval)

named_theorems shape_intros \<open>functions that store rows of the right shape\<close>

lemma announce_shapes:
  "(\<And>p. row_shape (row p)) \<Longrightarrow> honours shaped_rows (announce user n row told)"
  "(\<And>p. row_shape (row p)) \<Longrightarrow> honours shaped_rows (announce_maybe b user row told)"
  "(\<And>u p. row_shape (row' u p)) \<Longrightarrow> honours shaped_rows (announce_all to row' us)"
  "honours shaped_rows m \<Longrightarrow> honours shaped_rows (unit_of m)"
  unfolding announce_def announce_maybe_def announce_all_def unit_of_def
  by (auto intro!: shapes.bind shapes.seq shapes_create)

lemma announcements_shape [shape_intros]:
  "honours shaped_rows (pin_dialog W user q d)"
  "honours shaped_rows (update_draft W user q draft)"
  "honours shaped_rows (reorder_pinned_dialogs W user ds)"
  "honours shaped_rows (update_dialog_unread_mark W user d)"
  "honours shaped_rows (update_read_history_inbox W q i n b)"
  "honours shaped_rows (update_read_channel_discussion_inbox W user ch post thread m)"
  "honours shaped_rows (update_read_channel_discussion_outbox W ch thread m user)"
  "honours shaped_rows (update_channel_participant_available_message W user ch i)"
  "honours shaped_rows (update_folder W user i row)"
  "honours shaped_rows (update_message_poll W poll user)"
  "honours shaped_rows (update_folder_peers W user ds)"
  "honours shaped_rows (update_folders_order W user ids)"
  "honours shaped_rows (delete_scheduled_messages W user q ids later)"
  unfolding pin_dialog_def update_draft_def draft_row_def reorder_pinned_dialogs_def update_dialog_unread_mark_def
      update_read_history_inbox_def update_read_channel_discussion_inbox_def update_read_channel_discussion_outbox_def
      update_channel_participant_available_message_def update_folder_def update_message_poll_def update_folder_peers_def
      update_folders_order_def delete_scheduled_messages_def Let_def
  by (intro announce_shapes; simp add: shape_defs)+

lemma settings_shape [shape_intros]:
  "honours shaped_rows (update_config W user)"
  "honours shaped_rows (update_recent_reactions W user)"
  "honours shaped_rows (new_stickerset W user i)"
  "honours shaped_rows (update_stickersets W user)"
  "honours shaped_rows (update_stickersets_order W user order)"
  "honours shaped_rows (update_chat_wallpaper W user target cw)"
  "honours shaped_rows (update_recent_stickers W user)"
  "honours shaped_rows (update_faved_stickers W user)"
  "honours shaped_rows (update_saved_gifs W user)"
  "honours shaped_rows (new_scheduled_message W user m)"
  "honours shaped_rows (bot_precheckout_query W user x)"
  "honours shaped_rows (bot_callback_query W user y)"
  "honours shaped_rows (bot_inline_query W user z)"
  "honours shaped_rows (update_user_phone W user phone)"
  "honours shaped_rows (pin_saved_dialog W user sd)"
  "honours shaped_rows (reorder_pinned_saved_dialogs W user sds)"
  "honours shaped_rows (update_user_emoji_status W user status)"
  unfolding update_config_def update_recent_reactions_def new_stickerset_def update_stickersets_def
      update_stickersets_order_def update_chat_wallpaper_def update_recent_stickers_def update_faved_stickers_def
      update_saved_gifs_def new_scheduled_message_def bot_precheckout_query_def bot_callback_query_def bot_inline_query_def
      update_user_phone_def pin_saved_dialog_def reorder_pinned_saved_dialogs_def update_user_emoji_status_def
  by (intro announce_shapes; simp add: shape_defs)+

lemma chats_shape [shape_intros]:
  "honours shaped_rows (update_chat_participants W c qs)"
  "honours shaped_rows (update_chat W c)"
  "honours shaped_rows (update_chat_default_banned_rights W c)"
  unfolding update_chat_participants_def update_chat_def update_chat_default_banned_rights_def
  by (intro announce_shapes; simp add: shape_defs)+

lemmas shape_parts = shapes.bind shapes.seq shapes.branch shapes_create shapes_quiet [OF add_nothing_quiet] shapes_loop shapes_supd

lemma messages_shape [shape_intros]:
  "honours shaped_rows (send_message W ou ms b)"
  "honours shaped_rows (send_messages W mss ou existing)"
  "honours shaped_rows (delete_messages W ou idss)"
  "honours shaped_rows (edit_message W u ms)"
  "honours shaped_rows (pin_messages W u mss)"
proof -
  have rows: "r \<in> set (message_rows W u m p) \<Longrightarrow> row_shape r" for r u m p
    by (auto simp: message_rows_def message_id_row_def new_message_row_def shape_defs split: option.splits)
  show "honours shaped_rows (send_message W ou ms b)"
    unfolding send_message_def Let_def by (intro shape_parts) (auto dest: rows)
  show "honours shaped_rows (send_messages W mss ou existing)"
    unfolding send_messages_def Let_def
    by (cases ou) (intro shape_parts; auto dest: rows split: option.split intro!: shape_parts simp del: sbind_eval)+
  show "honours shaped_rows (delete_messages W ou idss)" "honours shaped_rows (edit_message W u ms)"
    "honours shaped_rows (pin_messages W u mss)"
    unfolding delete_messages_def edit_message_def pin_messages_def Let_def
    by (intro shape_parts; auto simp: pin_row_def shape_defs split: if_splits)+
qed

lemma channels_shape [shape_intros]:
  "honours shaped_rows (send_message_channel_user W u ch m b)"
  "honours shaped_rows (send_message_channel W u ch m)"
  "honours shaped_rows (send_messages_channel W msgs ch existing ou)"
  "honours shaped_rows (delete_messages_channel W ch ids)"
  "honours shaped_rows (edit_message_channel W ch m)"
  "honours shaped_rows (pin_channel_messages W ch msgs)"
  "honours shaped_rows (update_channel W ch only)"
  "honours shaped_rows (update_channel_available_messages W ch i)"
  unfolding send_message_channel_user_def send_message_channel_def delete_messages_channel_def edit_message_channel_def
    pin_channel_messages_def update_channel_def update_channel_available_messages_def send_messages_channel_def Let_def
  by (intro shape_parts; auto simp del: sbind_eval intro!: shape_parts split: option.split)+

text \<open>Where the rows come out of a loop, what the loop returns matters.\<close>

definition yields :: "('b \<Rightarrow> bool) \<Rightarrow> 'b upd \<Rightarrow> bool" where
  "yields Q m \<longleftrightarrow> (\<forall>s. case fst (m s) of Inr x \<Rightarrow> Q x | Inl _ \<Rightarrow> True)"

lemma yields_return: "Q x \<Longrightarrow> yields Q (sreturn x)"
  by (simp add: yields_def)

lemma yields_bind: "(\<And>x. yields Q (f x)) \<Longrightarrow> yields Q (sbind m f)"
  by (auto simp: yields_def sbind_def split: prod.split sum.split) (metis fst_conv old.sum.simps(6))

lemma yields_seq: "yields Q k \<Longrightarrow> yields Q (sthen m k)"
  unfolding sthen_def by (rule yields_bind)

lemma yields_loop: "(\<And>x. yields Q (f x)) \<Longrightarrow> yields (\<lambda>ys. \<forall>y \<in> set ys. Q y) (for_each xs f)"
proof (induction xs)
  case (Cons x xs)
  then have 1: "yields Q (f x)" and 2: "yields (\<lambda>ys. \<forall>y \<in> set ys. Q y) (for_each xs f)" by simp_all
  show ?case
    unfolding yields_def
  proof
    fix s
    obtain r t where f: "f x s = (r, t)" by (metis surj_pair)
    obtain r' t' where fs: "for_each xs f t = (r', t')" by (metis surj_pair)
    show "case fst (for_each (x # xs) f s) of Inr ys \<Rightarrow> \<forall>y \<in> set ys. Q y | Inl _ \<Rightarrow> True"
      using 1 [unfolded yields_def, rule_format, of s] 2 [unfolded yields_def, rule_format, of t]
      by (cases r; cases r') (auto simp: sbind_def f fs sreturn_def)
  qed
qed (simp add: yields_def)

lemma shapes_bind_of:
  assumes "yields Q m" "honours shaped_rows m" "\<And>x. Q x \<Longrightarrow> honours shaped_rows (f x)"
  shows "honours shaped_rows (sbind m f)"
proof (rule honoursI)
  fix s
  obtain r t where m: "m s = (r, t)" by (metis surj_pair)
  have "shaped_rows s t" by (rule honoursD [OF assms(2) m])
  then show "shaped_rows s (snd (sbind m f s))"
    using assms(1) [unfolded yields_def, rule_format, of s] assms(3)
    by (cases r) (auto simp: sbind_def m honours_def intro: shapes.chain)
qed

lemma own_rows_shape [shape_intros]:
  "honours shaped_rows (update_drafts W u qs drafts)"
  "honours shaped_rows (update_user W u)"
  "honours shaped_rows (notify_user_deleted W u)"
  "honours shaped_rows (update_user_name W u c)"
  "honours shaped_rows (migrate_chat W bc ch to)"
  "honours shaped_rows (add_remove_contact W u targets)"
  "honours shaped_rows (block_unblock_user W u q)"
proof -
  show "honours shaped_rows (update_drafts W u qs drafts)" "honours shaped_rows (migrate_chat W bc ch to)"
    "honours shaped_rows (add_remove_contact W u targets)"
    unfolding update_drafts_def draft_row_def migrate_chat_def add_remove_contact_def Let_def
    by (intro shape_parts; auto simp: shape_defs)+
  show "honours shaped_rows (block_unblock_user W u q)"
    unfolding block_unblock_user_def
    by (cases "peer_user q") (auto intro!: announce_shapes shape_parts simp: shape_defs simp del: sbind_eval)
  have user_rows: "row_shape ((new_update W' o' USER_UPDATE p)\<lparr>u_related_id := Some i\<rparr>)"
    "row_shape ((new_update W' o' USER_UPDATE_NAME p)\<lparr>u_related_id := Some i\<rparr>)" for W' o' p i
    by (simp_all add: shape_defs)
  show "honours shaped_rows (update_user W u)" "honours shaped_rows (notify_user_deleted W u)"
    unfolding update_user_def notify_user_deleted_def Let_def
    by (rule shapes_bind_of [where Q = "\<lambda>rss. \<forall>rs \<in> set rss. \<forall>r \<in> set rs. row_shape r"];
        auto intro!: yields_loop yields_bind yields_seq yields_return shape_parts user_rows split: if_splits simp del: sbind_eval)+
  show "honours shaped_rows (update_user_name W u c)"
    unfolding update_user_name_def
    by (rule shapes_bind_of [where Q = "\<lambda>rs. \<forall>r \<in> set rs. row_shape r"];
        auto intro!: yields_loop yields_bind yields_seq yields_return shape_parts user_rows simp del: sbind_eval)
qed

lemma single_rows_shape [shape_intros]:
  "honours shaped_rows (update_read_history_inbox_channel W u ch i n b)"
  "honours shaped_rows (update_read_history_outbox_channel W ch max_ids)"
  "honours shaped_rows (update_read_history_outbox W items)"
  "honours shaped_rows (read_messages_contents W u ids)"
  "honours shaped_rows (update_channel_for_user W ch u b)"
  "honours shaped_rows (encryption_update W u sc)"
  "honours shaped_rows (new_auth W u a)"
  "honours shaped_rows (update_history_ttl W q qs i)"
  "honours shaped_rows (update_peer_notify_settings W u oq oi i)"
  "honours shaped_rows (update_privacy W u i rule trs es)"
  "honours shaped_rows (phone_call_update W u pc' only)"
  unfolding update_read_history_inbox_channel_def update_read_history_outbox_channel_def update_read_history_outbox_def
    read_messages_contents_def update_channel_for_user_def encryption_update_def new_auth_def update_history_ttl_def
    update_peer_notify_settings_def update_privacy_def phone_call_update_def Let_def
  by (intro announce_shapes shape_parts; auto simp: shape_defs split: option.split)+

theorem manager_step_shapes:
  "manager_step s s' \<Longrightarrow> shaped_rows s s'"
  by (induction rule: manager_step.induct)
    ((rule honoursD [OF _ surjective_pairing], rule shape_intros)+, auto simp: shaped_rows_def only_sends_def)

lemma reached_shapes:
  assumes "manager_step\<^sup>*\<^sup>* no_updates s" "r \<in> set (user_updates s)"
  shows "row_shape r"
proof -
  have "shaped_rows no_updates s"
    using assms(1) by (induction rule: rtranclp_induct) (auto intro: shapes.same shapes.chain manager_step_shapes)
  then show ?thesis using assms(2) by (auto simp: shaped_rows_def no_updates_def)
qed

end
