(* ===== verification/DifferenceFacts.thy ===== *)
theory DifferenceFacts
  imports UpdateShapes
begin

text \<open>
  Catching up over the logs: on a log in order the rows after a number come in order, each answer
  takes the next 500, and following the answers to the end hands out every later row once. A row
  of the right shape is shown without an exception when the tables it is looked up in still answer.
\<close>

section \<open>Showing a row\<close>

definition lookups_answer :: "world \<Rightarrow> int \<Rightarrow> update_row \<Rightarrow> bool" where
  "lookups_answer W user r \<longleftrightarrow>
     (u_type r = UPDATE_PRIVACY \<longrightarrow>
        (\<forall>(i, x) \<in> set (w_privacy_rules W). Some i = u_related_id r \<longrightarrow> key_to_tl (pr_key x) \<noteq> Inl KeyError))
     \<and> (u_type r = UPDATE_PEER_NOTIFY_SETTINGS \<and> u_related_id r = None \<longrightarrow>
        (\<forall>k \<in> {0, 1, 2}. (\<exists>ds. u_data r = Some (Some k # ds)) \<longrightarrow>
           (\<exists>n \<in> set (w_notify_settings W). ns_user n = user \<and> ns_peer n = None \<and> ns_not_peer n = Some k)))"

lemma key_to_tl_cases: "key_to_tl k = Inl KeyError \<or> (\<exists>t. key_to_tl k = Inr t)"
  by (cases k) auto

lemma by_id_Some: "by_id f xs i = Some x \<Longrightarrow> i = Some (f x) \<and> x \<in> set xs"
  by (auto simp: by_id_def find_Some_iff split: option.splits)

definition is_shown :: "shown \<Rightarrow> bool" where
  "is_shown x \<longleftrightarrow> (\<exists>y. x = Inr y)"

lemma is_shown_simps [simp]:
  "is_shown shows_nothing" "is_shown (show_it es x)" "is_shown (Inr y)" "\<not> is_shown (Inl e)"
  by (simp_all add: is_shown_def shows_nothing_def show_it_def)

lemma is_shown_unless [intro]: "(\<And>y. x = Some y \<Longrightarrow> is_shown (f y)) \<Longrightarrow> is_shown (unless_gone x f)"
  by (cases x) (auto simp: unless_gone_def)

lemma is_shown_required: "x \<noteq> None \<Longrightarrow> (\<And>y. x = Some y \<Longrightarrow> is_shown (f y)) \<Longrightarrow> is_shown (required x f)"
  by (cases x) (auto simp: required_def)

lemma is_shown_values:
  "(case u_data r of None \<Rightarrow> True | Some ds \<Rightarrow> None \<notin> set ds) \<Longrightarrow> (\<And>x. is_shown (f x)) \<Longrightarrow> is_shown (one_value r f)"
  "(case u_data r of None \<Rightarrow> True | Some ds \<Rightarrow> None \<notin> set ds) \<Longrightarrow> (\<And>x y. is_shown (g x y)) \<Longrightarrow> is_shown (two_values r g)"
  by (auto simp: one_value_def two_values_def required_def split: option.splits list.splits)

lemma is_shown_first: "xs \<noteq> None \<Longrightarrow> xs \<noteq> Some [] \<Longrightarrow> (\<And>x. is_shown (f x)) \<Longrightarrow> is_shown (rbind (first_of xs) f)"
  by (auto simp: first_of_def split: option.splits list.splits)

lemma notify_settings_shown:
  assumes "u_type r = UPDATE_PEER_NOTIFY_SETTINGS" "lookups_answer W user r"
  shows "is_shown (notify_settings_update W user r)"
proof (cases "u_related_id r")
  case (Some i)
  then show ?thesis
    by (auto simp: notify_settings_update_def notify_peer_to_tl_def find_Some_iff split: option.splits)
next
  case None
  show ?thesis
  proof (cases "\<exists>k ds. u_data r = Some (Some k # ds) \<and> k \<in> {0, 1, 2}")
    case True
    then obtain k ds where k: "u_data r = Some (Some k # ds)" "k \<in> {0, 1, 2}" by blast
    then obtain n where "n \<in> set (w_notify_settings W)" "ns_user n = user \<and> ns_peer n = None \<and> ns_not_peer n = Some k"
      using assms None by (auto simp: lookups_answer_def)
    then obtain m where m: "find (\<lambda>n. ns_user n = user \<and> ns_peer n = None \<and> ns_not_peer n = Some k) (w_notify_settings W) = Some m"
      using find_None_iff [of "\<lambda>n. ns_user n = user \<and> ns_peer n = None \<and> ns_not_peer n = Some k"] by fastforce
    then have "ns_not_peer m = Some k" by (auto simp: find_Some_iff)
    then show ?thesis
      using None k m by (auto simp: notify_settings_update_def notify_peer_to_tl_def)
  next
    case False
    then show ?thesis
      using None by (auto simp: notify_settings_update_def split: option.splits list.splits)
  qed
qed

lemma privacy_shown:
  assumes "u_type r = UPDATE_PRIVACY" "lookups_answer W user r"
    and "by_id fst (filter (\<lambda>(i, x). pr_user x = user) (w_privacy_rules W)) (u_related_id r) = Some (i, x)"
  shows "\<exists>k. key_to_tl (pr_key x) = Inr k"
  using by_id_Some [OF assms(3)] assms(1,2) key_to_tl_cases [of "pr_key x"] by (auto simp: lookups_answer_def)

lemma row_is_shown:
  assumes "row_shape r" "lookups_answer W user r"
    and "\<And>m. row_message W r = Some m \<Longrightarrow> formatted (ms_id m) \<noteq> None"
  shows "is_shown (update_to_tl W user formatted auth r)"
proof -
  note shape = assms(1) [unfolded row_shape_def names_ids_def names_subject_def has_values_def]
  show ?thesis
  proof (cases "u_type r")
    case UPDATE_PRIVACY
    then show ?thesis
      using privacy_shown [OF UPDATE_PRIVACY assms(2)] by (auto simp: update_to_tl_def intro!: is_shown_unless)
  next
    case UPDATE_PEER_NOTIFY_SETTINGS
    then show ?thesis using notify_settings_shown assms(2) by (simp add: update_to_tl_def)
  next
    case MESSAGE_EDIT
    then show ?thesis using assms(3) by (auto simp: update_to_tl_def split: option.split)
  next
    case NEW_SCHEDULED_MESSAGE
    then show ?thesis using assms(3) by (auto simp: update_to_tl_def split: option.split)
  next
    case UPDATE_CHANNEL_MIN_AVAILABLE_ID
    then show ?thesis
      using shape by (auto simp: update_to_tl_def required_def split: option.split list.split)
  qed (use shape in \<open>auto simp: update_to_tl_def Let_def intro!: is_shown_unless is_shown_required is_shown_values is_shown_first
      split: option.split prod.split list.split\<close>)
qed

lemma show_all_shown:
  assumes "\<And>r. r \<in> set rs \<Longrightarrow> is_shown (f r)"
  shows "\<exists>xs. show_all f rs = Inr xs"
  using assms by (induction rs) (force simp: is_shown_def)+

lemma show_all_in:
  assumes "show_all f rs = Inr xs" "r \<in> set rs" "f r = Inr (Some x)"
  shows "x \<in> set xs"
  using assms
proof (induction rs arbitrary: xs)
  case (Cons a rs)
  obtain y ys where "f a = Inr y" "show_all f rs = Inr ys" "xs = (case y of None \<Rightarrow> ys | Some z \<Rightarrow> z # ys)"
    using Cons.prems(1) by (auto simp: rbind_Inr_iff)
  then show ?case using Cons by (cases "r = a"; cases y) auto
qed simp

text \<open>What a row is shown as depends on its own message only.\<close>

definition shown_alone :: "world \<Rightarrow> int \<Rightarrow> int \<Rightarrow> update_row \<Rightarrow> shown" where
  "shown_alone W user auth r = update_to_tl W user (formatted_for user (row_messages W [r])) (Some auth) r"

lemma in_row_messages: "m \<in> set (row_messages W rs) \<longleftrightarrow> (\<exists>r \<in> set rs. row_message W r = Some m)"
  by (force simp: row_messages_def List.map_filter_def)

lemma formatted_own:
  assumes "r \<in> set rs" "row_message W r = Some m"
  shows "formatted_for user (row_messages W rs) (ms_id m) = Some (MessageFor (ms_id m) user True)"
proof -
  have "m \<in> set (row_messages W rs)" using assms by (auto simp: in_row_messages)
  then show ?thesis by (auto simp: formatted_for_def)
qed

lemma shown_in_batch:
  assumes "r \<in> set rs"
  shows "update_to_tl W user (formatted_for user (row_messages W rs)) (Some auth) r = shown_alone W user auth r"
proof (cases "row_message W r")
  case None
  then show ?thesis
    by (cases "u_type r") (simp_all add: shown_alone_def update_to_tl_def unless_gone_def)
next
  case (Some m)
  have "formatted_for user (row_messages W rs) (ms_id m) = formatted_for user (row_messages W [r]) (ms_id m)"
    using formatted_own [OF assms Some, of user] formatted_own [of r "[r]" W m user] Some by simp
  then show ?thesis
    using Some by (cases "u_type r") (simp_all add: shown_alone_def update_to_tl_def unless_gone_def)
qed

section \<open>The log in order\<close>

lemma sort_key_sorted:
  fixes f :: "'a \<Rightarrow> int" shows "sorted_wrt (<) (map f rs) \<Longrightarrow> sort_key f rs = rs"
  by (rule sort_key_id_if_sorted) (auto intro: sorted_wrt_mono_rel [of _ "(<)"])

lemma ordered_rows:
  assumes "ordered_log u_pts (user_log user s)"
  shows "sorted_wrt (<) (map u_pts (log_of user s))" "\<And>r. r \<in> set (log_of user s) \<Longrightarrow> 0 < u_pts r \<and> u_pts r \<le> start (user_pts s user)"
  using assms by (auto simp: ordered_log_def placed_def user_log_def)

lemma ordered_filter: "sorted_wrt (<) (map f rs) \<Longrightarrow> sorted_wrt (<) (map f (filter P rs))"
  by (simp add: sorted_wrt_map sorted_wrt_filter)

lemma last_or_snoc [simp]: "last_or d f [] = d" "last_or d f (xs @ [x]) = f x" "last_or d f [x] = f x"
  by (simp_all add: last_or_def)

lemma last_or_last: "rs \<noteq> [] \<Longrightarrow> last_or d f rs = f (List.last rs)"
  by (cases rs rule: rev_cases) auto

lemma last_or_in: "rs \<noteq> [] \<Longrightarrow> \<exists>r \<in> set rs. last_or d f rs = f r"
  by (cases rs rule: rev_cases) auto

lemma last_or_greatest:
  fixes f :: "'a \<Rightarrow> int"
  assumes "sorted_wrt (<) (map f rs)" "r \<in> set rs"
  shows "f r \<le> last_or d f rs"
  using assms by (cases rs rule: rev_cases) (auto simp: sorted_wrt_append)

lemma rest_after:
  fixes f :: "'a \<Rightarrow> int"
  assumes "sorted_wrt (<) (map f rs)" "0 < n" "rs \<noteq> []"
  shows "filter (\<lambda>r. last_or d f (take n rs) < f r) rs = drop n rs"
proof -
  have sorted: "sorted_wrt (<) (map f (take n rs @ drop n rs))" using assms(1) by simp
  have ne: "take n rs \<noteq> []" using assms(2,3) by simp
  have "f r \<le> last_or d f (take n rs)" if "r \<in> set (take n rs)" for r
    using sorted that by (intro last_or_greatest) (simp_all add: sorted_wrt_append del: append_take_drop_id)
  then have first: "filter (\<lambda>r. last_or d f (take n rs) < f r) (take n rs) = []"
    by (fastforce simp: filter_empty_conv)
  have "List.last (take n rs) \<in> set (take n rs)" using ne by simp
  then have "last_or d f (take n rs) < f r" if "r \<in> set (drop n rs)" for r
    using sorted that unfolding last_or_last [OF ne] map_append sorted_wrt_append by simp
  then have second: "filter (\<lambda>r. last_or d f (take n rs) < f r) (drop n rs) = drop n rs"
    by (simp add: filter_id_conv)
  have "filter P rs = filter P (take n rs) @ filter P (drop n rs)" for P
    by (metis append_take_drop_id filter_append)
  then show ?thesis using first second by simp
qed

section \<open>Following the answers\<close>

definition later_rows :: "int \<Rightarrow> int \<Rightarrow> updates_db \<Rightarrow> update_row list" where
  "later_rows user p s = filter (\<lambda>r. p < u_pts r) (log_of user s)"

definition no_limit :: "difference_request \<Rightarrow> bool" where
  "no_limit req \<longleftrightarrow> gd_pts_total_limit req = None \<and> (gd_old req \<or> gd_pts_limit req = None)"

text \<open>What a client does with a slice: it goes on from the state of the slice.\<close>

definition go_on :: "difference_request \<Rightarrow> tl_state \<Rightarrow> difference_request" where
  "go_on req st = req\<lparr>gd_pts := st_pts st, gd_qts := st_qts st, gd_date := st_date st\<rparr>"

fun follow :: "nat \<Rightarrow> world \<Rightarrow> int \<Rightarrow> int \<Rightarrow> difference_request \<Rightarrow> updates_db \<Rightarrow> (diff list \<times> int) option" where
  "follow 0 W user auth req s = None"
| "follow (Suc k) W user auth req s =
     (case get_difference W user auth req s of
        Inr (DifferenceEmpty d q) \<Rightarrow> Some ([], gd_pts req)
      | Inr (Difference d st) \<Rightarrow> Some ([d], st_pts st)
      | Inr (DifferenceSlice d st) \<Rightarrow>
          map_option (\<lambda>(ds, p). (d # ds, p)) (follow k W user auth (go_on req st) s)
      | _ \<Rightarrow> None)"

text \<open>A log whose rows can all be shown.\<close>

definition log_readable :: "world \<Rightarrow> int \<Rightarrow> updates_db \<Rightarrow> bool" where
  "log_readable W user s \<longleftrightarrow>
     ordered_log u_pts (user_log user s)
     \<and> (\<forall>r \<in> set (log_of user s). row_shape r \<and> lookups_answer W user r)
     \<and> (\<forall>r \<in> set (secret_updates s). is_shown (map_sum id (\<lambda>x. Some (x, {})) (secret_to_tl r)))"

lemma secret_parts_shown:
  assumes "\<forall>r \<in> set rs. is_shown (map_sum id (\<lambda>x. Some (x, {})) (secret_to_tl r))"
  shows "\<exists>xs. secret_parts rs = Inr xs"
  using assms
proof (induction rs)
  case (Cons r rs)
  then obtain xs x where "secret_parts rs = Inr xs" "secret_to_tl r = Inr x"
    by (cases "secret_to_tl r") (auto simp: is_shown_def)
  then show ?case by (cases xs) simp
qed simp

lemma readable_ordered: "log_readable W user s \<Longrightarrow> ordered_log u_pts (user_log user s)"
  by (simp add: log_readable_def)

lemma later_rows_order: "ordered_log u_pts (user_log user s) \<Longrightarrow> sorted_wrt (<) (map u_pts (later_rows user p s))"
  unfolding later_rows_def by (intro ordered_filter ordered_rows)

lemma server_pts_last: "ordered_log u_pts (user_log user s) \<Longrightarrow> server_pts user s = last_or 0 u_pts (log_of user s)"
  using ordered_rows(1) by (simp add: server_pts_def in_pts_order_def sort_key_sorted)

lemma server_pts_greatest: "ordered_log u_pts (user_log user s) \<Longrightarrow> r \<in> set (log_of user s) \<Longrightarrow> u_pts r \<le> server_pts user s"
  unfolding server_pts_last by (rule last_or_greatest [OF ordered_rows(1)])

lemma new_updates_unlimited:
  assumes "ordered_log u_pts (user_log user s)" "no_limit req"
  shows "new_updates user req s = take 500 (later_rows user (gd_pts req) s)"
proof -
  have "max_pts user req s = server_pts user s"
    using assms(2) by (auto simp: max_pts_def no_limit_def)
  then have "filter (\<lambda>r. gd_pts req < u_pts r \<and> u_pts r \<le> max_pts user req s) (log_of user s) = later_rows user (gd_pts req) s"
    using server_pts_greatest [OF assms(1)] by (auto simp: later_rows_def intro: filter_cong)
  then show ?thesis
    using later_rows_order [OF assms(1)] by (simp add: new_updates_def in_pts_order_def sort_key_sorted)
qed

text \<open>The new messages of the rows in order, and every other update, edits of new messages apart.\<close>

definition serves :: "world \<Rightarrow> int \<Rightarrow> int \<Rightarrow> update_row list \<Rightarrow> diff list \<Rightarrow> bool" where
  "serves W user auth rows ds \<longleftrightarrow>
     concat (map df_new_messages ds) = map (\<lambda>m. MessageFor (ms_id m) user True) (fresh_messages W rows)
     \<and> (\<forall>r \<in> set rows. \<forall>x es. u_type r \<notin> {MESSAGE_EDIT, NEW_AUTHORIZATION}
          \<longrightarrow> shown_alone W user auth r = Inr (Some (x, es)) \<longrightarrow> x \<in> set (concat (map df_other_updates ds)))"

lemma fresh_append: "fresh_messages W (xs @ ys) = fresh_messages W xs @ fresh_messages W ys"
  by (simp add: fresh_messages_def row_messages_def List.map_filter_def)

lemma serves_append: "serves W user auth xs [d] \<Longrightarrow> serves W user auth ys ds \<Longrightarrow> serves W user auth (xs @ ys) (d # ds)"
  by (fastforce simp: serves_def fresh_append)

lemma serves_nothing [simp]: "serves W user auth [] []"
  by (simp add: serves_def fresh_messages_def row_messages_def List.map_filter_def)

lemma difference_parts_serve:
  assumes "log_readable W user s" "set rows \<subseteq> set (log_of user s)"
  shows "\<exists>d. difference_parts W user auth req rows (new_secret a req s) s = Inr d \<and> serves W user auth rows [d]"
proof -
  let ?show = "update_to_tl W user (formatted_for user (row_messages W rows)) (Some auth)"
  let ?kept = "filter (\<lambda>r. \<not> passed_over W auth (u_message ` set (filter is_new_message rows)) r) rows"
  have "is_shown (?show r)" if "r \<in> set ?kept" for r
  proof (rule row_is_shown)
    show "row_shape r" "lookups_answer W user r"
      using that assms by (auto simp: log_readable_def)
    show "row_message W r = Some m \<Longrightarrow> formatted_for user (row_messages W rows) (ms_id m) \<noteq> None" for m
      using formatted_own [of r rows] that by simp
  qed
  then obtain shown where shown: "show_all ?show ?kept = Inr shown"
    using show_all_shown [of ?kept ?show] by blast
  have "set (new_secret a req s) \<subseteq> set (secret_updates s)"
    by (auto simp: new_secret_def Let_def)
  then obtain encrypted others where secret: "secret_parts (new_secret a req s) = Inr (encrypted, others)"
    using secret_parts_shown [of "new_secret a req s"] assms(1) by (force simp: log_readable_def)
  have "x \<in> fst ` set shown"
    if "r \<in> set rows" "u_type r \<notin> {MESSAGE_EDIT, NEW_AUTHORIZATION}" "shown_alone W user auth r = Inr (Some (x, es))" for r x es
  proof -
    have "r \<in> set ?kept" using that by (auto simp: passed_over_def)
    moreover have "?show r = Inr (Some (x, es))" using shown_in_batch [OF that(1)] that(3) by simp
    ultimately have "(x, es) \<in> set shown" by (rule show_all_in [OF shown])
    then show ?thesis by force
  qed
  then show ?thesis
    unfolding difference_parts_def Let_def shown secret rbind_simps prod.case
    by (intro exI conjI refl) (auto simp: serves_def)
qed

lemma readable_state: "log_readable W user s \<Longrightarrow> r \<in> set (log_of user s) \<Longrightarrow> u_pts r \<le> st_pts (get_state W s user)"
  using ordered_rows(2) by (force simp: log_readable_def get_state_def get_state_internal_def start_def split: option.splits)

text \<open>One answer serves the next 500 rows and either ends there or says where to go on.\<close>

lemma one_answer:
  assumes r: "log_readable W user s" and n: "no_limit req"
  shows "\<exists>ds. serves W user auth (take 500 (later_rows user (gd_pts req) s)) ds
     \<and> (if length (later_rows user (gd_pts req) s) \<le> 500
        then (\<exists>d q. get_difference W user auth req s = Inr (DifferenceEmpty d q) \<and> ds = [] \<and> later_rows user (gd_pts req) s = [])
           \<or> (\<exists>d. get_difference W user auth req s = Inr (Difference d (get_state W s user)) \<and> ds = [d])
        else \<exists>d st. get_difference W user auth req s = Inr (DifferenceSlice d st) \<and> ds = [d]
           \<and> later_rows user (st_pts st) s = drop 500 (later_rows user (gd_pts req) s))"
proof -
  let ?later = "later_rows user (gd_pts req) s"
  let ?rows = "take 500 ?later"
  note o = readable_ordered [OF r]
  have rows: "new_updates user req s = ?rows" by (rule new_updates_unlimited [OF o n])
  have sub: "set ?rows \<subseteq> set (log_of user s)" by (auto simp: later_rows_def dest: in_set_takeD)
  obtain d where d: "difference_parts W user auth req ?rows (new_secret auth req s) s = Inr d" "serves W user auth ?rows [d]"
    using difference_parts_serve [OF r sub] by blast
  have total: "gd_pts_total_limit req = None" using n by (simp add: no_limit_def)
  let ?last = "last_or 0 u_pts ?rows"
  have rest: "?later \<noteq> [] \<Longrightarrow> filter (\<lambda>x. ?last < u_pts x) ?later = drop 500 ?later"
    by (rule rest_after [OF later_rows_order [OF o]]) auto
  show ?thesis
  proof (cases "length ?later \<le> 500")
    case True
    have "?later = [] \<or> server_pts user s \<le> ?last"
    proof (rule disjCI)
      assume ne: "\<not> server_pts user s \<le> ?last"
      then have "log_of user s \<noteq> [] \<or> ?later = []" by (auto simp: later_rows_def)
      moreover have False if some: "?later \<noteq> []"
      proof -
        obtain x where x: "x \<in> set ?later" using some by (cases ?later) auto
        then have "log_of user s \<noteq> []" by (auto simp: later_rows_def)
        then obtain y where y: "y \<in> set (log_of user s)" "server_pts user s = u_pts y"
          using last_or_in by (metis server_pts_last [OF o])
        have "u_pts x \<le> u_pts y"
          using server_pts_greatest [OF o, of x] x y by (auto simp: later_rows_def)
        then have "y \<in> set ?later" using x y by (auto simp: later_rows_def)
        then show False using rest [OF some] True ne y by (auto simp: filter_empty_conv)
      qed
      ultimately show "?later = []" by blast
    qed
    then show ?thesis
      using True d total unfolding get_difference_def Let_def rows
      by (cases "?later = []"; cases "new_secret auth req s = []")
        (auto simp: get_state_def)
  next
    case False
    then have ne: "?later \<noteq> []" by auto
    obtain y where y: "y \<in> set (drop 500 ?later)" using False by (cases "drop 500 ?later") auto
    have "?last < u_pts y" using y unfolding rest [OF ne, symmetric] by simp
    moreover have "u_pts y \<le> server_pts user s"
      using server_pts_greatest [OF o] y by (auto simp: later_rows_def dest: in_set_dropD)
    ultimately have top: "\<not> server_pts user s \<le> ?last" by simp
    have "?rows \<noteq> []" using ne by simp
    then obtain x where x: "x \<in> set ?rows" "?last = u_pts x" using last_or_in by metis
    have "gd_pts req < ?last" using x by (auto simp: later_rows_def dest: in_set_takeD)
    then have "later_rows user ?last s = drop 500 ?later"
      unfolding rest [OF ne, symmetric] by (auto simp: later_rows_def intro: filter_cong)
    then show ?thesis
      using False d total top ne unfolding get_difference_def Let_def rows
      by (auto simp: get_state_internal_def)
  qed
qed

lemma follow_serves:
  assumes "log_readable W user s" "no_limit req" "length (later_rows user (gd_pts req) s) div 500 < k"
  shows "\<exists>ds p. follow k W user auth req s = Some (ds, p)
     \<and> serves W user auth (later_rows user (gd_pts req) s) ds
     \<and> (later_rows user (gd_pts req) s \<noteq> [] \<longrightarrow> p = st_pts (get_state W s user))"
  using assms(2,3)
proof (induction k arbitrary: req)
  case (Suc k)
  let ?later = "later_rows user (gd_pts req) s"
  obtain ds where ds: "serves W user auth (take 500 ?later) ds"
    and answer: "if length ?later \<le> 500
        then (\<exists>d q. get_difference W user auth req s = Inr (DifferenceEmpty d q) \<and> ds = [] \<and> ?later = [])
           \<or> (\<exists>d. get_difference W user auth req s = Inr (Difference d (get_state W s user)) \<and> ds = [d])
        else \<exists>d st. get_difference W user auth req s = Inr (DifferenceSlice d st) \<and> ds = [d]
           \<and> later_rows user (st_pts st) s = drop 500 ?later"
    using one_answer [OF assms(1) Suc.prems(1), of auth] by blast
  show ?case
  proof (cases "length ?later \<le> 500")
    case True
    then show ?thesis using answer ds by auto
  next
    case False
    then obtain d st where d: "get_difference W user auth req s = Inr (DifferenceSlice d st)" "ds = [d]"
      "later_rows user (gd_pts (go_on req st)) s = drop 500 ?later"
      using answer by (auto simp: go_on_def)
    have "no_limit (go_on req st)" using Suc.prems(1) by (simp add: no_limit_def go_on_def)
    moreover have "length (later_rows user (gd_pts (go_on req st)) s) div 500 < k"
      using False Suc.prems(2) unfolding d(3) by simp
    ultimately obtain ds' p where tail: "follow k W user auth (go_on req st) s = Some (ds', p)"
      "serves W user auth (drop 500 ?later) ds'" "drop 500 ?later \<noteq> [] \<longrightarrow> p = st_pts (get_state W s user)"
      using Suc.IH [of "go_on req st"] unfolding d(3) by blast
    have "serves W user auth (take 500 ?later @ drop 500 ?later) (d # ds')"
      using ds tail(2) unfolding d(2) by (rule serves_append)
    then show ?thesis using d(1) tail False by auto
  qed
qed simp

section \<open>A row that cannot be shown\<close>

lemma show_all_fails: "r \<in> set rs \<Longrightarrow> \<not> is_shown (f r) \<Longrightarrow> \<exists>e. show_all f rs = Inl e"
proof (induction rs)
  case (Cons a rs)
  then show ?case by (cases "f a"; cases "show_all f rs") (auto split: option.split)
qed simp

text \<open>No answer has the row, and following them never comes past it.\<close>

lemma answer_stops:
  assumes "ordered_log u_pts (user_log user s)" "no_limit req"
    and "r \<in> set (log_of user s)" "u_type r \<notin> {MESSAGE_EDIT, NEW_AUTHORIZATION}" "\<not> is_shown (shown_alone W user auth r)"
    and "r \<in> set (take 500 (later_rows user (gd_pts req) s))"
  shows "\<exists>e. get_difference W user auth req s = Inl e"
proof -
  let ?rows = "take 500 (later_rows user (gd_pts req) s)"
  let ?kept = "filter (\<lambda>r. \<not> passed_over W auth (u_message ` set (filter is_new_message ?rows)) r) ?rows"
  have "r \<in> set ?kept" using assms(4,6) by (auto simp: passed_over_def)
  moreover have "\<not> is_shown (update_to_tl W user (formatted_for user (row_messages W ?rows)) (Some auth) r)"
    using shown_in_batch [OF assms(6)] assms(5) by simp
  ultimately have "\<exists>e. show_all (update_to_tl W user (formatted_for user (row_messages W ?rows)) (Some auth)) ?kept = Inl e"
    by (rule show_all_fails)
  then obtain e where e: "show_all (update_to_tl W user (formatted_for user (row_messages W ?rows)) (Some auth)) ?kept = Inl e" ..
  have parts: "difference_parts W user auth req ?rows secrets s = Inl e" for secrets
    unfolding difference_parts_def Let_def e by simp
  have "?rows \<noteq> []" using assms(6) by (cases ?rows) auto
  moreover have "gd_pts_total_limit req = None" using assms(2) by (simp add: no_limit_def)
  ultimately show ?thesis
    unfolding get_difference_def Let_def new_updates_unlimited [OF assms(1,2)] parts by simp
qed

lemma follow_stops:
  assumes "ordered_log u_pts (user_log user s)" "no_limit req"
    and "r \<in> set (log_of user s)" "u_type r \<notin> {MESSAGE_EDIT, NEW_AUTHORIZATION}" "\<not> is_shown (shown_alone W user auth r)"
    and "gd_pts req < u_pts r"
  shows "follow k W user auth req s = None"
  using assms(2,6)
proof (induction k arbitrary: req)
  case (Suc k)
  let ?later = "later_rows user (gd_pts req) s"
  have later: "r \<in> set ?later" using assms(3) Suc.prems(2) by (simp add: later_rows_def)
  show ?case
  proof (cases "r \<in> set (take 500 ?later)")
    case True
    then show ?thesis using answer_stops [OF assms(1) Suc.prems(1) assms(3-5) True] by auto
  next
    case False
    have ne: "?later \<noteq> []" using later by auto
    note rows = new_updates_unlimited [OF assms(1) Suc.prems(1)]
    let ?last = "last_or 0 u_pts (take 500 ?later)"
    have rest: "filter (\<lambda>x. ?last < u_pts x) ?later = drop 500 ?later"
      by (rule rest_after [OF later_rows_order [OF assms(1)] _ ne]) simp
    have "r \<in> set (drop 500 ?later)" using False later by (metis Un_iff append_take_drop_id set_append)
    then have past: "?last < u_pts r" unfolding rest [symmetric] by simp
    moreover have "u_pts r \<le> server_pts user s" by (rule server_pts_greatest [OF assms(1,3)])
    ultimately have "\<not> server_pts user s \<le> ?last" by simp
    then consider e where "get_difference W user auth req s = Inl e"
      | d st where "get_difference W user auth req s = Inr (DifferenceSlice d st)" "st_pts st = ?last"
      using Suc.prems(1) ne unfolding get_difference_def Let_def rows
      by (cases "difference_parts W user auth req (take 500 ?later) (new_secret auth req s) s")
        (auto simp: no_limit_def get_state_internal_def)
    then show ?thesis
      by cases (use past Suc in \<open>simp_all add: go_on_def no_limit_def\<close>)
  qed
qed simp

end
