(* ===== verification/ChannelDifference.thy ===== *)
theory ChannelDifference
  imports DifferenceFacts
begin

text \<open>
  Catching up in a channel: on a log in order an answer that is not \<open>too long\<close> holds every later
  row, because the rows have different numbers and there are not more of them than the request
  allows. What one call adds to the log of a channel or of a user, as the next difference sees it.
\<close>

section \<open>The log of a channel\<close>

definition later_channel_rows :: "int \<Rightarrow> int \<Rightarrow> updates_db \<Rightarrow> channel_row list" where
  "later_channel_rows ch p s = filter (\<lambda>r. p < c_pts r) (channel_log ch s)"

lemma ordered_channel:
  assumes "ordered_log c_pts (log_of_channel ch s)"
  shows "sorted_wrt (<) (map c_pts (channel_log ch s))"
    "\<And>r. r \<in> set (channel_log ch s) \<Longrightarrow> 0 < c_pts r \<and> c_pts r \<le> start (channel_pts s ch)"
  using assms by (auto simp: ordered_log_def placed_def log_of_channel_def)

lemma channel_server_pts_last:
  "ordered_log c_pts (log_of_channel ch s) \<Longrightarrow> channel_server_pts ch s = last_or 0 c_pts (channel_log ch s)"
  using ordered_channel(1) by (simp add: channel_server_pts_def sort_key_sorted)

lemma channel_server_pts_greatest:
  "ordered_log c_pts (log_of_channel ch s) \<Longrightarrow> r \<in> set (channel_log ch s) \<Longrightarrow> c_pts r \<le> channel_server_pts ch s"
  unfolding channel_server_pts_last by (rule last_or_greatest [OF ordered_channel(1)])

text \<open>As many rows as fit between two numbers.\<close>

lemma ordered_length:
  fixes f :: "'a \<Rightarrow> int"
  assumes "sorted_wrt (<) (map f rs)" "\<And>r. r \<in> set rs \<Longrightarrow> lo < f r \<and> f r \<le> hi"
  shows "length rs \<le> nat (hi - lo)"
proof -
  have "distinct (map f rs)" using assms(1) strict_sorted_iff by blast
  then have "length rs = card (f ` set rs)" by (metis distinct_card length_map set_map)
  also have "\<dots> \<le> card {lo<..hi}" using assms(2) by (intro card_mono) auto
  finally show ?thesis by simp
qed

lemma all_rows_fit:
  assumes "ordered_log c_pts (log_of_channel ch s)" "channel_server_pts ch s \<le> p + limit"
  shows "new_channel_updates ch p (nat limit) s = later_channel_rows ch p s"
proof -
  have sorted: "sorted_wrt (<) (map c_pts (later_channel_rows ch p s))"
    unfolding later_channel_rows_def by (intro ordered_filter ordered_channel assms)
  have "length (later_channel_rows ch p s) \<le> nat (channel_server_pts ch s - p)"
    using sorted channel_server_pts_greatest [OF assms(1)]
    by (intro ordered_length) (auto simp: later_channel_rows_def)
  also have "\<dots> \<le> nat limit" using assms(2) by simp
  finally show ?thesis
    using sorted by (simp add: new_channel_updates_def later_channel_rows_def sort_key_sorted)
qed

lemma last_later_channel_row:
  assumes "ordered_log c_pts (log_of_channel ch s)" "later_channel_rows ch p s \<noteq> []"
  shows "last_or 0 c_pts (later_channel_rows ch p s) = channel_server_pts ch s"
proof -
  obtain x where x: "x \<in> set (later_channel_rows ch p s)"
    using assms(2) by (cases "later_channel_rows ch p s") auto
  then have "channel_log ch s \<noteq> []" by (auto simp: later_channel_rows_def)
  then obtain y where y: "y \<in> set (channel_log ch s)" "channel_server_pts ch s = c_pts y"
    using last_or_in by (metis channel_server_pts_last [OF assms(1)])
  have "c_pts x \<le> c_pts y" using x y channel_server_pts_greatest [OF assms(1), of x] by (auto simp: later_channel_rows_def)
  then have "y \<in> set (later_channel_rows ch p s)" using x y by (auto simp: later_channel_rows_def)
  moreover have "sorted_wrt (<) (map c_pts (later_channel_rows ch p s))"
    unfolding later_channel_rows_def by (intro ordered_filter ordered_channel assms)
  ultimately have "c_pts y \<le> last_or 0 c_pts (later_channel_rows ch p s)" by (rule last_or_greatest [rotated])
  moreover have "last_or 0 c_pts (later_channel_rows ch p s) \<le> c_pts y"
  proof -
    obtain z where "z \<in> set (later_channel_rows ch p s)" "last_or 0 c_pts (later_channel_rows ch p s) = c_pts z"
      using last_or_in [OF assms(2)] by metis
    then show ?thesis
      using channel_server_pts_greatest [OF assms(1), of z] y by (auto simp: later_channel_rows_def)
  qed
  ultimately show ?thesis using y by simp
qed

text \<open>An answer with updates is the last one.\<close>

lemma channel_answer:
  assumes "ordered_log c_pts (log_of_channel ch s)"
    and "type_and_id_from_input_raise user channel ''PEER_ID_INVALID'' = Inr (ChannelPeer ch)"
    and "get_channel_difference W user channel p limit s = Inr (ChannelDifference final q ms us es)"
  shows "final" "q = channel_server_pts ch s" "channel_parts W user (later_channel_rows ch p s) = Inr (ms, us, es)"
proof -
  let ?rows = "new_channel_updates ch p (nat limit) s"
  note answer = assms(3) [unfolded get_channel_difference_def assms(2) rbind_simps peer_target.case]
  have peer: "\<not> (\<forall>q \<in> set (w_peers W). peer_to q \<noteq> ChannelPeer ch)"
    by (rule notI) (use answer in simp)
  obtain n where n: "channel_pts s ch = Some n"
    by (cases "channel_pts s ch") (use answer peer in simp_all)
  note answer = answer [unfolded if_not_P [OF peer] n option.case]
  have fits: "channel_server_pts ch s \<le> p + limit" "\<not> limit < 0"
    by (rule leI, rule notI, use answer in simp) (rule notI, use answer in \<open>simp split: if_splits\<close>)
  note answer = answer [unfolded if_not_P [OF fits(1) [unfolded not_less [symmetric]]] if_not_P [OF fits(2)] Let_def]
  have ne: "?rows \<noteq> []"
    by (rule notI) (use answer in simp)
  obtain ms' us' es' where parts': "channel_parts W user ?rows = Inr (ms', us', es')"
    by (cases "channel_parts W user ?rows") (use answer ne in auto)
  have parts: "channel_parts W user ?rows = Inr (ms, us, es)"
    and final: "final \<longleftrightarrow> \<not> (\<exists>r \<in> set (channel_log ch s). last_or 0 c_pts ?rows < c_pts r)"
    and q: "q = last_or 0 c_pts ?rows"
    using answer ne parts' by auto
  note rows = all_rows_fit [OF assms(1) fits(1)]
  show "channel_parts W user (later_channel_rows ch p s) = Inr (ms, us, es)" using parts by (simp add: rows)
  show q': "q = channel_server_pts ch s" using q ne last_later_channel_row [OF assms(1)] by (simp add: rows)
  show final
    using channel_server_pts_greatest [OF assms(1)] q q' unfolding final by (auto simp: not_less)
qed

lemma fetched:
  assumes "fetch_messages W rows = Inr found" "r \<in> set rows" "c_message r = Some i"
  shows "\<exists>m \<in> set found. ms_id m = i \<and> by_id ms_id (w_messages W) (Some i) = Some m"
  using assms
proof (induction rows arbitrary: found)
  case (Cons x xs)
  then show ?case
    by (cases "c_message x") (force simp: rbind_Inr_iff dest: by_id_Some split: option.splits)+
qed simp

lemma shown_messages:
  assumes "channel_parts W user rows = Inr (ms, us, es)" "r \<in> set rows" "c_message r = Some i"
    "last_type rows i = Some CHANNEL_NEW_MESSAGE"
  shows "MessageFor i user True \<in> set ms"
proof -
  obtain found where found: "fetch_messages W rows = Inr found"
    and ms: "ms = map (\<lambda>m. MessageFor (ms_id m) user True) (filter (\<lambda>m. last_type rows (ms_id m) = Some CHANNEL_NEW_MESSAGE) found)"
    using assms(1) by (auto simp: channel_parts_def Let_def rbind_Inr_iff)
  have "\<exists>m \<in> set found. ms_id m = i" using fetched [OF found assms(2,3)] by blast
  then show ?thesis using ms assms(4) by force
qed

lemma last_type_all:
  assumes "r \<in> set rows" "c_message r = Some i" "\<And>r'. r' \<in> set rows \<Longrightarrow> c_message r' = Some i \<Longrightarrow> c_type r' = t"
  shows "last_type rows i = Some t"
proof -
  have "Some i \<in> dom (map_of (rev (map (\<lambda>r. (c_message r, c_type r)) rows)))"
    unfolding dom_map_of_conv_image_fst using assms(1,2) by (auto intro!: image_eqI [of _ fst "(Some i, c_type r)"] image_eqI [of _ _ r])
  then obtain u where u: "last_type rows i = Some u" by (auto simp: last_type_def dict_get_def)
  then have "(Some i, u) \<in> set (rev (map (\<lambda>r. (c_message r, c_type r)) rows))"
    unfolding last_type_def dict_get_def by (rule map_of_SomeD)
  then show ?thesis using assms(3) u by force
qed

lemma channel_partsE:
  assumes "channel_parts W user rows = Inr (ms, us, es)"
  obtains found shown where "fetch_messages W rows = Inr found"
    "show_all (channel_update_to_tl W (formatted_for user (filter (\<lambda>m. last_type rows (ms_id m) = Some CHANNEL_EDIT_MESSAGE) found)))
       (filter (\<lambda>r. \<not> (c_type r = CHANNEL_EDIT_MESSAGE \<and> c_message r \<in> c_message ` set (filter (\<lambda>r. c_type r = CHANNEL_NEW_MESSAGE) rows))) rows)
       = Inr shown"
    "us = map fst shown"
  using assms by (auto simp: channel_parts_def Let_def rbind_Inr_iff)

text \<open>Every row but an edit is shown as it is on its own.\<close>

lemma shown_others:
  assumes "channel_parts W user rows = Inr (ms, us, es)" "r \<in> set rows" "c_type r \<noteq> CHANNEL_EDIT_MESSAGE"
    "channel_update_to_tl W edited r = Inr (Some (x, ys))"
  shows "x \<in> set us"
proof -
  obtain found shown where shown: "show_all (channel_update_to_tl W (formatted_for user
      (filter (\<lambda>m. last_type rows (ms_id m) = Some CHANNEL_EDIT_MESSAGE) found)))
       (filter (\<lambda>r. \<not> (c_type r = CHANNEL_EDIT_MESSAGE \<and> c_message r \<in> c_message ` set (filter (\<lambda>r. c_type r = CHANNEL_NEW_MESSAGE) rows))) rows)
       = Inr shown" and us: "us = map fst shown"
    using assms(1) by (rule channel_partsE)
  have "channel_update_to_tl W f r = channel_update_to_tl W edited r" for f
    using assms(3) by (cases "c_type r") (simp_all add: channel_update_to_tl_def)
  note same = trans [OF this assms(4)]
  have "(x, ys) \<in> set shown" by (rule show_all_in [OF shown _ same]) (use assms(2,3) in simp)
  then show ?thesis unfolding us by force
qed

text \<open>An edit is shown when the message is not new and was not deleted.\<close>

lemma shown_edits:
  assumes "channel_parts W user rows = Inr (ms, us, es)" "r \<in> set rows" "c_type r = CHANNEL_EDIT_MESSAGE"
    "c_message r = Some i" "\<And>r'. r' \<in> set rows \<Longrightarrow> c_message r' = Some i \<Longrightarrow> c_type r' = CHANNEL_EDIT_MESSAGE"
  shows "UpdateEditChannelMessage (MessageFor i user True) (c_pts r) 1 \<in> set us"
proof -
  obtain found shown where found: "fetch_messages W rows = Inr found"
    and shown: "show_all (channel_update_to_tl W (formatted_for user
      (filter (\<lambda>m. last_type rows (ms_id m) = Some CHANNEL_EDIT_MESSAGE) found)))
       (filter (\<lambda>r. \<not> (c_type r = CHANNEL_EDIT_MESSAGE \<and> c_message r \<in> c_message ` set (filter (\<lambda>r. c_type r = CHANNEL_NEW_MESSAGE) rows))) rows)
       = Inr shown" and us: "us = map fst shown"
    using assms(1) by (rule channel_partsE)
  obtain m where m: "m \<in> set found" "ms_id m = i" "by_id ms_id (w_messages W) (Some i) = Some m"
    using fetched [OF found assms(2,4)] by blast
  have last: "last_type rows i = Some CHANNEL_EDIT_MESSAGE" by (rule last_type_all [OF assms(2,4,5)])
  have "i \<in> set (map ms_id (filter (\<lambda>m. last_type rows (ms_id m) = Some CHANNEL_EDIT_MESSAGE) found))"
    using m last by force
  then obtain ys where ys: "channel_update_to_tl W (formatted_for user
      (filter (\<lambda>m. last_type rows (ms_id m) = Some CHANNEL_EDIT_MESSAGE) found)) r
      = Inr (Some (UpdateEditChannelMessage (MessageFor i user True) (c_pts r) 1, ys))"
    using assms(3,4) m(3) by (simp add: channel_update_to_tl_def formatted_for_def show_it_def Let_def)
  have "(UpdateEditChannelMessage (MessageFor i user True) (c_pts r) 1, ys) \<in> set shown"
    by (rule show_all_in [OF shown _ ys]) (use assms(2-5) in force)
  then show ?thesis unfolding us by force
qed

text \<open>The next answer when rows were added since.\<close>

lemma next_answer:
  assumes "ordered_log c_pts (log_of_channel ch s)" "channel_pts s ch = Some p"
    and "channel_log ch s' = channel_log ch s @ rows" "channel_pts s' ch = Some p'"
    and "sorted_wrt (<) (map c_pts rows)" "\<forall>r \<in> set rows. p < c_pts r" "rows \<noteq> []"
    and "c_pts (List.last rows) \<le> p + limit" "length rows \<le> nat limit"
    and "type_and_id_from_input_raise user channel ''PEER_ID_INVALID'' = Inr (ChannelPeer ch)"
    and "q \<in> set (w_peers W)" "peer_to q = ChannelPeer ch"
    and "channel_parts W user rows = Inr (ms, us, es)"
  shows "get_channel_difference W user channel p limit s' = Inr (ChannelDifference True (c_pts (List.last rows)) ms us es)"
proof -
  have old: "sorted_wrt (<) (map c_pts (channel_log ch s))" "\<And>r. r \<in> set (channel_log ch s) \<Longrightarrow> c_pts r \<le> p"
    using ordered_channel [OF assms(1)] assms(2) by auto
  have sorted: "sorted_wrt (<) (map c_pts (channel_log ch s'))"
    unfolding assms(3) using old assms(5,6) by (force simp: sorted_wrt_append)
  have top: "channel_server_pts ch s' = c_pts (List.last rows)"
    using assms(7) by (simp add: channel_server_pts_def sort_key_sorted [OF sorted] last_or_last) (simp add: assms(3) last_or_last)
  have "filter (\<lambda>r. p < c_pts r) (channel_log ch s') = rows"
    unfolding assms(3) using old(2) assms(6) by (simp add: filter_empty_conv filter_id_conv not_less)
  then have rows: "new_channel_updates ch p (nat limit) s' = rows"
    using assms(5,9) by (simp add: new_channel_updates_def sort_key_sorted)
  have final: "\<not> (\<exists>r \<in> set (channel_log ch s'). last_or 0 c_pts rows < c_pts r)"
    using last_or_greatest [OF sorted] assms(7) unfolding assms(3) by (fastforce simp: last_or_last not_less)
  have "0 \<le> limit" using assms(7,9) by (cases rows) auto
  moreover have "\<not> (\<forall>q \<in> set (w_peers W). peer_to q \<noteq> ChannelPeer ch)" using assms(11,12) by blast
  ultimately show ?thesis
    unfolding get_channel_difference_def assms(10) rbind_simps peer_target.case top rows
    using assms(4,7,8,13) final by (simp add: last_or_last Let_def)
qed

section \<open>What is told and what is shown later\<close>

text \<open>One change, told to the user's sessions and logged as one row.\<close>

definition told_and_logged :: "int \<Rightarrow> 'a upd \<Rightarrow> updates_db \<Rightarrow> tl_update \<Rightarrow> update_row \<Rightarrow> bool" where
  "told_and_logged user f s x r \<longleftrightarrow>
     log_of user (snd (f s)) = log_of user s @ [r]
     \<and> (\<exists>us. handed_over (snd (f s)) = handed_over s @ [to_user user us] \<and> upd_list us = [x])"

text \<open>Catching up shows the update that was told, or shows nothing.\<close>

definition shown_again :: "world \<Rightarrow> int \<Rightarrow> int \<Rightarrow> 'a upd \<Rightarrow> updates_db \<Rightarrow> bool" where
  "shown_again W user auth f s \<longleftrightarrow>
     (\<exists>x r es. told_and_logged user f s x r \<and> shown_alone W user auth r = Inr (Some (x, es)))"

definition never_shown_again :: "world \<Rightarrow> int \<Rightarrow> int \<Rightarrow> 'a upd \<Rightarrow> updates_db \<Rightarrow> bool" where
  "never_shown_again W user auth f s \<longleftrightarrow>
     (\<exists>x r. told_and_logged user f s x r \<and> shown_alone W user auth r = Inr None)"

lemma announced:
  assumes "user_pts s user = Some p" "0 < n" "u_user (row (p + n)) = user" "upd_list (told (p + n)) = [x]"
  shows "told_and_logged user (announce user n row told) s x (row (p + n))"
    "told_and_logged user (unit_of (announce user n row told)) s x (row (p + n))"
  using assms by (auto simp: told_and_logged_def announce_def unit_of_def sbind_def sthen_def add_pts_def create_updates_def
      hand_over_def supd_def sreturn_def log_of_def)

lemma announced_again:
  assumes "user_pts s user = Some p" "0 < n" "u_user (row (p + n)) = user" "upd_list (told (p + n)) = [x]"
    "shown_alone W user auth (row (p + n)) = Inr (Some (x, es))"
  shows "shown_again W user auth (announce user n row told) s" "shown_again W user auth (unit_of (announce user n row told)) s"
  unfolding shown_again_def using announced [of s user p n row told x, OF assms(1-4)] assms(5) by blast+

lemma announced_not_again:
  assumes "user_pts s user = Some p" "0 < n" "u_user (row (p + n)) = user" "upd_list (told (p + n)) = [x]"
    "shown_alone W user auth (row (p + n)) = Inr None"
  shows "never_shown_again W user auth (announce user n row told) s"
    "never_shown_again W user auth (unit_of (announce user n row told)) s"
  unfolding never_shown_again_def using announced [of s user p n row told x, OF assms(1-4)] assms(5) by blast+

end
