(* ===== verification/UpdatesProperties.thy ===== *)
theory UpdatesProperties
  imports ChannelDifference
begin

text \<open>
  The properties of the updates clients are told about: the logs stay in order, a client that
  catches up gets all it missed, and where it does not. They are stated over runs of
  \<open>manager_step\<close>, any sequence of the manager's functions and of the other parts' work on the tables.
\<close>

section \<open>Two users, a channel and a message\<close>

definition demo_peer :: peer where
  "demo_peer = \<lparr>peer_id = 11, peer_owner = 1, peer_to = UserPeer 2, peer_blocked = False\<rparr>"

definition demo_message :: message where
  "demo_message = \<lparr>ms_id = 21, ms_content = 31, ms_random_id = Some 77, ms_pinned = False\<rparr>"

definition demo_post :: message where
  "demo_post = \<lparr>ms_id = 22, ms_content = 32, ms_random_id = None, ms_pinned = False\<rparr>"

definition demo_world :: world where
  "demo_world =
     \<lparr>w_now = 1000, w_auth = Some 5, w_layer = 200,
      w_peers = [demo_peer, \<lparr>peer_id = 12, peer_owner = 0, peer_to = ChannelPeer 7, peer_blocked = False\<rparr>],
      w_messages = [demo_message, demo_post], w_dialogs = [], w_saved_dialogs = [], w_drafts = [],
      w_users = (\<lambda>_. None), w_chats = [], w_folders = [], w_secret_chats = [], w_auths = [], w_stickersets = [],
      w_chat_wallpapers = [], w_callback_queries = [], w_precheckout_queries = [], w_inline_queries = [],
      w_notify_settings = [], w_privacy_rules = [], w_calls = [], w_polls = [], w_channels_of_user = (\<lambda>_. []),
      w_last_message = (\<lambda>_. None), w_seq_qts = (0, 0)\<rparr>"

definition demo_opened :: updates_db where
  "demo_opened = no_updates\<lparr>user_pts := [1 \<mapsto> 0], channel_pts := [7 \<mapsto> 0]\<rparr>"

definition demo_message_sent :: updates_db where
  "demo_message_sent = snd (send_message demo_world (Some 1) [(demo_peer, demo_message)] True demo_opened)"

lemma demo_opened_reached: "manager_step\<^sup>*\<^sup>* no_updates demo_opened"
proof -
  let ?s = "no_updates\<lparr>user_pts := (user_pts no_updates)(1 \<mapsto> 0)\<rparr>"
  have 1: "manager_step no_updates ?s" by (rule new_user) (simp add: no_updates_def)
  have 2: "manager_step ?s (?s\<lparr>channel_pts := (channel_pts ?s)(7 \<mapsto> 0)\<rparr>)" by (rule new_channel) (simp add: no_updates_def)
  have 3: "?s\<lparr>channel_pts := (channel_pts ?s)(7 \<mapsto> 0)\<rparr> = demo_opened" by (simp add: demo_opened_def no_updates_def)
  show ?thesis using 1 2 [unfolded 3] by (rule converse_rtranclp_into_rtranclp [OF _ r_into_rtranclp])
qed

lemma demo_message_sent_step: "manager_step demo_opened demo_message_sent"
  unfolding demo_message_sent_def by (rule manager_step.intros(1)) simp

lemma demo_message_sent_reached: "manager_step\<^sup>*\<^sup>* no_updates demo_message_sent"
  by (rule rtranclp.rtrancl_into_rtrancl [OF demo_opened_reached demo_message_sent_step])

lemmas demo_defs = demo_world_def demo_opened_def demo_peer_def demo_message_def demo_post_def no_updates_def

lemma demo_message_sent_eval:
  "user_pts demo_message_sent = [1 \<mapsto> 2]" "channel_pts demo_message_sent = [7 \<mapsto> 0]"
  "user_updates demo_message_sent = message_rows demo_world 1 demo_message 2"
  "channel_updates demo_message_sent = []" "secret_updates demo_message_sent = []"
  by (simp_all add: demo_message_sent_def send_message_def first_value_def slift_def add_pts_bulk_def owner_targets_def dict_get_def
      create_updates_def hand_over_def supd_def sthen_def sbind_def sreturn_def message_pts_def random_id_def demo_defs Let_def)

lemma demo_rows:
  "message_rows demo_world 1 demo_message 2 = [message_id_row demo_world 1 demo_message 77 1, new_message_row demo_world 1 demo_message 2]"
  by (simp add: message_rows_def random_id_def demo_message_def)

section \<open>The logs\<close>



section \<open>Catching up\<close>

lemma state_pts: "st_pts (get_state W s user) = start (user_pts s user)"
  by (simp add: get_state_def get_state_internal_def start_def)

lemma rows_since:
  assumes "manager_step\<^sup>*\<^sup>* no_updates s" "manager_step\<^sup>*\<^sup>* s s'"
  shows "later_rows user (start (user_pts s user)) s' = filter (\<lambda>r. r \<notin> set (log_of user s)) (log_of user s')"
proof -
  have "r \<in> set (log_of user s) \<longleftrightarrow> \<not> start (user_pts s user) < u_pts r" if "r \<in> set (log_of user s')" for r
    using user_logs.later_row [OF assms(2), of r user] that ordered_rows(2) [OF reached_logs(1) [OF assms(1)], of r user]
    by (auto simp: user_log_def)
  then show ?thesis by (auto simp: later_rows_def intro: filter_cong)
qed

lemma reached_readable:
  assumes "manager_step\<^sup>*\<^sup>* no_updates s" "\<forall>r \<in> set (log_of user s). lookups_answer W user r"
    "\<forall>r \<in> set (secret_updates s). \<exists>x. secret_to_tl r = Inr x"
  shows "log_readable W user s"
  unfolding log_readable_def
proof (intro conjI ballI)
  show "ordered_log u_pts (user_log user s)" by (rule reached_logs(1) [OF assms(1)])
  show "row_shape r" if "r \<in> set (log_of user s)" for r
    using that by (intro reached_shapes [OF assms(1)]) (simp add: log_of_def)
  show "is_shown (map_sum id (\<lambda>x. Some (x, {})) (secret_to_tl r))" if "r \<in> set (secret_updates s)" for r
    using assms(3) that by (auto simp: is_shown_def)
qed (use assms(2) in blast)


definition demo_difference :: difference_request where
  "demo_difference = \<lparr>gd_old = False, gd_pts = 0, gd_qts = 0, gd_date = 0, gd_pts_total_limit = None, gd_pts_limit = None\<rparr>"




text \<open>
  C26. A privacy rule for a key without a name in TL: announcing the change stores the row and then
  fails. From then on, whatever else happens, a client that has not seen the row can never
  follow the difference to its end while the rule and the row are there.
\<close>
theorem unnamed_key_blocks_catching_up:
  assumes "manager_step\<^sup>*\<^sup>* no_updates s" "user_pts s user = Some p" "key_to_tl (pr_key rule) = Inl KeyError"
    and "manager_step\<^sup>*\<^sup>* (snd (update_privacy W user i rule trs es s)) s'"
    and "(bare_row W user UPDATE_PRIVACY (p + 1))\<lparr>u_related_id := Some i\<rparr> \<in> set (user_updates s')"
    and "find (\<lambda>(j, x). j = i \<and> pr_user x = user) (w_privacy_rules W') = Some (i, rule)"
    and "no_limit req" "gd_pts req \<le> p"
  shows "fst (update_privacy W user i rule trs es s) = Inl KeyError \<and> follow k W' user auth req s' = None"
proof
  show "fst (update_privacy W user i rule trs es s) = Inl KeyError"
    using assms(2,3) by (simp add: update_privacy_def sbind_def sthen_def add_pts_def create_updates_def supd_def slift_def sraise_def)
  let ?r = "(bare_row W user UPDATE_PRIVACY (p + 1))\<lparr>u_related_id := Some i\<rparr>"
  have "manager_step\<^sup>*\<^sup>* no_updates s'"
    by (rule rtranclp_trans [OF rtranclp.rtrancl_into_rtrancl [OF assms(1)] assms(4)]) (rule manager_step.intros)
  then have ordered: "ordered_log u_pts (user_log user s')" by (rule reached_logs)
  have "by_id fst (filter (\<lambda>(j, x). pr_user x = user) rs) (Some i) = find (\<lambda>(j, x). j = i \<and> pr_user x = user) rs" for rs
    by (induction rs) (auto simp: by_id_def)
  note found = trans [OF this assms(6)]
  have "\<not> is_shown (shown_alone W' user auth ?r)"
    using assms(3) by (simp add: found shown_alone_def update_to_tl_def unless_gone_def bare_row_def new_update_def)
  then show "follow k W' user auth req s' = None"
    using assms(5,8) by (intro follow_stops [OF ordered assms(7), of ?r]) (simp_all add: log_of_def bare_row_def new_update_def)
qed

definition demo_hidden_rule :: privacy_rule where
  "demo_hidden_rule = \<lparr>pr_user = 1, pr_key = NO_PAID_MESSAGES, pr_allow_all = True, pr_allow_contacts = False, pr_version = 1,
     pr_exceptions = []\<rparr>"

lemma unnamed_key_blocks_catching_up_witness:
  "follow 9 (demo_world\<lparr>w_privacy_rules := [(3, demo_hidden_rule)]\<rparr>) 1 5 demo_difference
     (snd (update_privacy demo_world 1 3 demo_hidden_rule [] {} demo_opened)) = None"
proof -
  have "(bare_row demo_world 1 UPDATE_PRIVACY (0 + 1))\<lparr>u_related_id := Some 3\<rparr>
      \<in> set (user_updates (snd (update_privacy demo_world 1 3 demo_hidden_rule [] {} demo_opened)))"
    by (simp add: update_privacy_def sbind_def sthen_def add_pts_def create_updates_def supd_def slift_def sraise_def
        demo_hidden_rule_def demo_opened_def no_updates_def)
  from unnamed_key_blocks_catching_up [OF demo_opened_reached _ _ rtranclp.rtrancl_refl this,
      of "demo_world\<lparr>w_privacy_rules := [(3, demo_hidden_rule)]\<rparr>" demo_difference 9 5]
  show ?thesis by (simp add: demo_opened_def demo_hidden_rule_def no_limit_def demo_difference_def)
qed

text \<open>
  C27. A client that asks for at most so many numbers at a time stays behind for good when more messages
  than that are deleted at once: the one row of the deletion has the last of the numbers, so the
  client is told that there is nothing new, then and however much happens later.
\<close>
theorem limited_difference_skips:
  assumes "manager_step\<^sup>*\<^sup>* no_updates s" "user_pts s user = Some p" "0 \<le> n" "n < int (length ids)"
    and "manager_step\<^sup>*\<^sup>* (snd (delete_messages W ou [(user, ids)] s)) s'"
    and "\<not> gd_old req" "gd_pts req = p" "gd_pts_total_limit req = None" "gd_pts_limit req = Some n"
    and "\<forall>r \<in> set (secret_updates s'). s_auth r \<noteq> auth"
  shows "get_difference W' user auth req s' = Inr (DifferenceEmpty (w_now W') (fst (w_seq_qts W')))"
proof -
  let ?t = "snd (delete_messages W ou [(user, ids)] s)"
  have t: "user_pts ?t user = Some (p + int (length ids))"
    "log_of user ?t = log_of user s @ [(new_update W user MESSAGE_DELETE (p + int (length ids)))\<lparr>u_related_ids := Some ids\<rparr>]"
    using assms(2-4) by (simp_all add: delete_messages_def add_pts_bulk_def sbind_def sthen_def hand_over_def create_updates_def
        supd_def sreturn_def log_of_def new_update_def)
  have "r \<in> set (log_of user s') \<Longrightarrow> u_pts r \<le> p \<or> p + n < u_pts r" for r
    using user_logs.later_row [OF assms(5), of r user] ordered_rows(2) [OF reached_logs(1) [OF assms(1)], of r user] assms(2,4)
    by (auto simp: user_log_def t new_update_def)
  then have "\<forall>r \<in> set (log_of user s'). \<not> (p < u_pts r \<and> u_pts r \<le> p + n)" by fastforce
  then have "filter (\<lambda>r. p < u_pts r \<and> u_pts r \<le> p + n) (log_of user s') = []" by (simp only: filter_empty_conv)
  then have "new_updates user req s' = []"
    using assms(6,7,9) by (simp add: new_updates_def max_pts_def in_pts_order_def)
  moreover have "new_secret auth req s' = []"
    using assms(10) by (simp add: new_secret_def Let_def filter_empty_conv)
  ultimately show ?thesis using assms(8) by (simp add: get_difference_def)
qed

lemma limited_difference_skips_witness:
  "get_difference demo_world 1 5 (demo_difference\<lparr>gd_pts_limit := Some 2\<rparr>)
     (snd (delete_messages demo_world (Some 1) [(1, [21, 22, 23])] demo_opened)) = Inr (DifferenceEmpty 1000 0)"
  using limited_difference_skips [OF demo_opened_reached _ _ _ rtranclp.rtrancl_refl, of 1 0 2 "[21, 22, 23]"
      "demo_difference\<lparr>gd_pts_limit := Some 2\<rparr>" demo_world "Some 1" 5 demo_world]
  by (simp add: demo_opened_def demo_difference_def no_updates_def demo_world_def delete_messages_def add_pts_bulk_def sbind_def
      sthen_def hand_over_def create_updates_def supd_def sreturn_def)

section \<open>Channels\<close>

lemma channel_rows_since:
  assumes "manager_step\<^sup>*\<^sup>* no_updates s" "manager_step\<^sup>*\<^sup>* s s'"
  shows "later_channel_rows ch (start (channel_pts s ch)) s' = filter (\<lambda>r. r \<notin> set (channel_log ch s)) (channel_log ch s')"
proof -
  have "r \<in> set (channel_log ch s) \<longleftrightarrow> \<not> start (channel_pts s ch) < c_pts r" if "r \<in> set (channel_log ch s')" for r
    using channel_logs.later_row [OF assms(2), of r ch] that ordered_channel(2) [OF reached_logs(2) [OF assms(1)], of r ch]
    by (auto simp: log_of_channel_def)
  then show ?thesis by (auto simp: later_channel_rows_def intro: filter_cong)
qed


lemma number_channel: "type_and_id_from_input_raise user (InPeerChannel (make_id_from ch) ByMembership) m = Inr (ChannelPeer ch)"
  by (simp add: type_and_id_from_input_raise_def type_and_id_from_input_def norm_id_def make_id_from_def)

lemma channel_sent:
  assumes "channel_pts s ch = Some p"
  shows "channel_pts (snd (send_message_channel W user ch m s)) ch = Some (p + 1)"
    "channel_log ch (snd (send_message_channel W user ch m s)) = channel_log ch s @
      [(new_channel_update W ch CHANNEL_NEW_MESSAGE (p + 1) 1)\<lparr>c_message := Some (ms_id m)\<rparr>]"
    "channel_pts (snd (edit_message_channel W ch m s)) ch = Some (p + 1)"
    "channel_log ch (snd (edit_message_channel W ch m s)) = channel_log ch s @
      [(new_channel_update W ch CHANNEL_EDIT_MESSAGE (p + 1) 1)\<lparr>c_message := Some (ms_id m)\<rparr>]"
  using assms by (simp_all add: send_message_channel_def edit_message_channel_def sbind_def sthen_def channel_add_pts_def
      create_channel_updates_def hand_over_def supd_def sreturn_def channel_log_def new_channel_update_def Let_def)

lemma demo_open: "channel_pts demo_opened 7 = Some 0"
  by (simp add: demo_opened_def)

lemma demo_channel_peer:
  "\<lparr>peer_id = 12, peer_owner = 0, peer_to = ChannelPeer 7, peer_blocked = False\<rparr> \<in> set (w_peers demo_world)"
  "by_id ms_id (w_messages demo_world) (Some (ms_id demo_post)) = Some demo_post"
  by (simp_all add: demo_world_def by_id_def demo_post_def demo_message_def)


text \<open>
  C24. Whoever names a channel by its number, with zero for the access hash, is given what is posted there: the
  handler asks neither for the membership nor for anything else of the user.
\<close>
theorem anyone_reads_a_channel:
  assumes "manager_step\<^sup>*\<^sup>* no_updates s" "channel_pts s ch = Some p" "1 \<le> limit"
    and "q \<in> set (w_peers W)" "peer_to q = ChannelPeer ch" "by_id ms_id (w_messages W) (Some (ms_id m)) = Some m"
  shows "get_channel_difference W stranger (InPeerChannel (make_id_from ch) ByMembership) p limit
      (snd (send_message_channel W' user ch m s))
    = Inr (ChannelDifference True (p + 1) [MessageFor (ms_id m) stranger True] [] {add_message m, ChannelOf ch})"
  using next_answer [OF reached_logs(2) [OF assms(1)] assms(2) channel_sent(2) [OF assms(2), of W' user m]
      channel_sent(1) [OF assms(2)] _ _ _ _ _ number_channel assms(4,5)] assms(3,6)
  by (simp add: channel_parts_def new_channel_update_def last_type_def dict_get_def channel_update_to_tl_def shows_nothing_def)

lemma anyone_reads_a_channel_witness:
  "get_channel_difference demo_world 99 (InPeerChannel (make_id_from 7) ByMembership) 0 100
      (snd (send_message_channel demo_world 1 7 demo_post demo_opened))
    = Inr (ChannelDifference True 1 [MessageFor 22 99 True] [] {MentionedIn 32, ChannelOf 7})"
  using anyone_reads_a_channel [OF demo_opened_reached demo_open _ demo_channel_peer(1) _ demo_channel_peer(2), of 100 99 demo_world 1]
  by (simp add: demo_post_def add_message_def)

text \<open>
  C25. A post that was edited before a client catches up is in no part of the answer, neither among
  the new messages nor among the edits, and the client is told that it has everything.
\<close>
theorem edited_new_message_is_lost:
  assumes "manager_step\<^sup>*\<^sup>* no_updates s" "channel_pts s ch = Some p" "2 \<le> limit"
    and "q \<in> set (w_peers W)" "peer_to q = ChannelPeer ch" "by_id ms_id (w_messages W) (Some (ms_id m)) = Some m"
  shows "get_channel_difference W user (InPeerChannel (make_id_from ch) ByMembership) p limit
      (snd (edit_message_channel W' ch m (snd (send_message_channel W' author ch m s))))
    = Inr (ChannelDifference True (p + 2) [] [] {add_message m, ChannelOf ch})"
proof -
  let ?s = "snd (send_message_channel W' author ch m s)"
  note sent = channel_sent(1,2) [OF assms(2), of W' author m]
  have log: "channel_log ch (snd (edit_message_channel W' ch m ?s)) = channel_log ch s @
      [(new_channel_update W' ch CHANNEL_NEW_MESSAGE (p + 1) 1)\<lparr>c_message := Some (ms_id m)\<rparr>,
       (new_channel_update W' ch CHANNEL_EDIT_MESSAGE (p + 1 + 1) 1)\<lparr>c_message := Some (ms_id m)\<rparr>]"
    unfolding channel_sent(4) [OF sent(1)] sent(2) by simp
  show ?thesis
    using next_answer [OF reached_logs(2) [OF assms(1)] assms(2) log channel_sent(3) [OF sent(1)] _ _ _ _ _ number_channel assms(4,5)]
      assms(3,6)
    by (simp add: channel_parts_def new_channel_update_def last_type_def dict_get_def channel_update_to_tl_def shows_nothing_def)
qed

lemma edited_new_message_is_lost_witness:
  "get_channel_difference demo_world 99 (InPeerChannel (make_id_from 7) ByMembership) 0 100
      (snd (edit_message_channel demo_world 7 demo_post (snd (send_message_channel demo_world 1 7 demo_post demo_opened))))
    = Inr (ChannelDifference True 2 [] [] {MentionedIn 32, ChannelOf 7})"
  using edited_new_message_is_lost [OF demo_opened_reached demo_open _ demo_channel_peer(1) _ demo_channel_peer(2), of 100 99 demo_world 1]
  by (simp add: demo_post_def add_message_def)

section \<open>What is told and what is shown later\<close>

lemmas shows_row = shown_alone_def update_to_tl_def new_update_def bare_row_def row_peer_def visible_dialog_def
  unless_gone_def required_def first_of_def show_it_def shows_nothing_def just_def


definition demo_dialog :: dialog where
  "demo_dialog = \<lparr>dl_id = 41, dl_peer = demo_peer, dl_pinned_index = Some 0, dl_visible = True, dl_unread_mark = True, dl_folder = 0\<rparr>"


text \<open>
  Changes that are told at once, take a number and are logged, but that are never shown to a client that
  catches up: how far a discussion was read on either side, and the user's notification settings for all
  private chats.
\<close>
theorem changes_never_shown_again:
  assumes "user_pts s user = Some p"
  shows "never_shown_again W user auth (update_read_channel_discussion_inbox W user ch post thread read_max) s
    \<and> never_shown_again W user auth (update_read_channel_discussion_outbox W ch thread read_max user) s
    \<and> never_shown_again W user auth (update_peer_notify_settings W user None (Some 0) settings) s"
proof (intro conjI)
  show "never_shown_again W user auth (update_read_channel_discussion_inbox W user ch post thread read_max) s"
    "never_shown_again W user auth (update_read_channel_discussion_outbox W ch thread read_max user) s"
    unfolding update_read_channel_discussion_inbox_def update_read_channel_discussion_outbox_def
    by (rule announced_not_again [OF assms]; simp add: shows_row two_values_def one_value_def)+
  have settings: "update_peer_notify_settings W user None (Some 0) settings
      = announce user 1 (bare_row W user UPDATE_PEER_NOTIFY_SETTINGS) (\<lambda>p. just [UpdateNotifySettings NotifyUsers settings])"
    by (simp add: update_peer_notify_settings_def announce_def notify_peer_to_tl_def bare_row_def new_update_def sbind_slift Let_def)
  show "never_shown_again W user auth (update_peer_notify_settings W user None (Some 0) settings) s"
    unfolding settings by (rule announced_not_again [OF assms]; simp add: shows_row notify_settings_update_def)
qed

lemma changes_never_shown_again_witness:
  "never_shown_again demo_world 1 5 (update_peer_notify_settings demo_world 1 None (Some 0) 8) demo_opened"
  using changes_never_shown_again [of demo_opened 1 0] by (simp add: demo_opened_def)

end
