(* ===== verification/Spec2Isabelle.thy ===== *)
theory Spec2Isabelle
  imports TlProperties SessionProperties GatewayProperties AuthProperties StarsProperties PrivacyProperties
    ChannelProperties LoginProperties WorkerProperties UpdatesProperties
begin

text \<open>
  A verification development for piltover, a Telegram server written in Python.

  \<^bold>\<open>The program.\<close> A client speaks TL objects in MTProto packets to a gateway
  (\<^verbatim>\<open>piltover/gateway\<close>). The gateway makes authorization keys with the client, keeps a session per
  client (\<^verbatim>\<open>piltover/session\<close>), answers the protocol's own requests and hands all others to a worker
  that runs the handlers of \<^verbatim>\<open>piltover/app\<close> on the database models of \<^verbatim>\<open>piltover/db\<close>. Handlers push
  updates through the session manager and the message broker (\<^verbatim>\<open>piltover/message_brokers\<close>) to the
  sessions of the users concerned, and the send loop of each connection writes them out.

  \<^bold>\<open>Theories, bottom up.\<close>
  \<^item> \<^verbatim>\<open>Prelude\<close>: Python's values, exceptions as \<^const>\<open>Inl\<close> of \<open>py_error + 'a\<close>, state and
    exception threaded together as \<open>act\<close>; lemmas on bytes, maps of sets, association lists.
    \<^verbatim>\<open>Effects\<close>: the locale \<open>guarantee\<close>, a relation between the states before and after that passes
    through every combinator; it is interpreted for the books of the star wallets, for the gateway and for
    the logs of updates.
  \<^item> The wire format (\<^verbatim>\<open>piltover/tl\<close>): \<^verbatim>\<open>TlPrimitives\<close> (\<^verbatim>\<open>primitives/int_.py\<close>, \<^verbatim>\<open>float_.py\<close>,
    \<^verbatim>\<open>bool_.py\<close>, \<^verbatim>\<open>str_.py\<close>), \<^verbatim>\<open>TlVector\<close> (texts and \<^verbatim>\<open>vector.py\<close>, with the locale \<open>tl_codec\<close> between
    an element's writer and reader, interpreted for each class), \<^verbatim>\<open>TlCore\<close> and \<^verbatim>\<open>TlCoreFacts\<close>
    (\<^verbatim>\<open>core_types.py\<close>, \<^verbatim>\<open>tl_object.py\<close>, \<^verbatim>\<open>serialization_utils.py\<close>, \<^verbatim>\<open>utils.py\<close>); \<^verbatim>\<open>TlProperties\<close>.
  \<^item> Sessions and the broker: \<^verbatim>\<open>Outbound\<close> (what is pushed, with the context it needs,
    \<^verbatim>\<open>context.py\<close>), \<^verbatim>\<open>SessionState\<close> and \<^verbatim>\<open>SessionStateFacts\<close> (\<^verbatim>\<open>session.py\<close>: identifiers, salts,
    acknowledgements, finished requests, checks of incoming messages), \<^verbatim>\<open>Broker\<close> and \<^verbatim>\<open>BrokerFacts\<close>
    (\<^verbatim>\<open>base_broker.py\<close>: subscription tables, with the locale \<open>subscription_table\<close>, and recipients),
    \<^verbatim>\<open>Server\<close> and \<^verbatim>\<open>ServerFacts\<close> (the shared state: sessions by reference, connecting, queueing,
    flushing, refreshing the authorization; \<^verbatim>\<open>session_manager.py\<close>), \<^verbatim>\<open>Messages\<close> (the broker's messages),
    \<^verbatim>\<open>Subscriptions\<close> and \<^verbatim>\<open>Reachable\<close> (the step relation \<open>server_step\<close> and the agreement of the
    tables with the sessions in every reachable state); \<^verbatim>\<open>SessionProperties\<close>.
  \<^item> The gateway: \<^verbatim>\<open>AuthKeys\<close> (\<^verbatim>\<open>db/models/authkey.py\<close>, binding a temporary key in
    \<^verbatim>\<open>handlers/auth.py\<close>), \<^verbatim>\<open>KeyGen\<close> and \<^verbatim>\<open>KeyGenFacts\<close> (\<^verbatim>\<open>_keygen_handlers.py\<close>, \<^verbatim>\<open>rsa_utils.py\<close>),
    \<^verbatim>\<open>Gateway\<close> and \<^verbatim>\<open>GatewayFacts\<close> (\<^verbatim>\<open>client.py\<close>, \<^verbatim>\<open>_system_handlers.py\<close>), \<^verbatim>\<open>SendLoop\<close> (when the send
    loop comes to rest), \<^verbatim>\<open>Completion\<close> (every request is recorded as finished); \<^verbatim>\<open>GatewayProperties\<close>,
    \<^verbatim>\<open>AuthProperties\<close>.
  \<^item> Logging in: \<^verbatim>\<open>PyText\<close> (numbers, hexadecimal text and identifiers as Python reads and writes them),
    \<^verbatim>\<open>Srp\<close> and \<^verbatim>\<open>SrpFacts\<close> (\<^verbatim>\<open>user_password.py\<close>, \<^verbatim>\<open>srp_session.py\<close>, \<^verbatim>\<open>utils/srp.py\<close>: two-step
    verification), \<^verbatim>\<open>RateLimit\<close> and \<^verbatim>\<open>RateLimitFacts\<close> (\<^verbatim>\<open>auth_rate_limit.py\<close>), \<^verbatim>\<open>Login\<close> and
    \<^verbatim>\<open>LoginFacts\<close> (\<^verbatim>\<open>handlers/auth.py\<close>, \<^verbatim>\<open>sentcode.py\<close>, \<^verbatim>\<open>qr_login.py\<close>, \<^verbatim>\<open>user_authorization.py\<close>),
    \<^verbatim>\<open>LoginRun\<close> (any sequence of login requests), \<^verbatim>\<open>LoginLimits\<close> (the counters over such a sequence),
    \<^verbatim>\<open>LoginCodes\<close> (the life of a code); \<^verbatim>\<open>LoginProperties\<close>.
  \<^item> The worker: \<^verbatim>\<open>Worker\<close> and \<^verbatim>\<open>WorkerFacts\<close> (\<^verbatim>\<open>worker.py\<close>, \<^verbatim>\<open>enums.py\<close>: the table of handlers, who is
    admitted, responses), \<^verbatim>\<open>LoginService\<close> (the login requests behind the worker, with the call the gateway
    makes of a session); \<^verbatim>\<open>WorkerProperties\<close>.
  \<^item> Handlers: \<^verbatim>\<open>Stars\<close>, \<^verbatim>\<open>StarsFacts\<close>, \<^verbatim>\<open>StarsRun\<close>, \<^verbatim>\<open>StarsHistory\<close> (\<^verbatim>\<open>stars_manager.py\<close>: wallets,
    transactions, payment forms, invoices); \<^verbatim>\<open>Privacy\<close>, \<^verbatim>\<open>PrivacyFacts\<close> (\<^verbatim>\<open>privacy_rule.py\<close> and the
    account handlers around it); \<^verbatim>\<open>Channels\<close>, \<^verbatim>\<open>ChannelsFacts\<close>, \<^verbatim>\<open>ChannelsRun\<close> (\<^verbatim>\<open>chat_base.py\<close>,
    \<^verbatim>\<open>handlers/channels.py\<close>, \<^verbatim>\<open>messages/invites.py\<close>: permissions, administrators, bans, joining and
    inviting), each with its \<^verbatim>\<open>Properties\<close> theory.
  \<^item> Updates to clients: \<^verbatim>\<open>Updates\<close> (the tables and their steps: \<^verbatim>\<open>state.py\<close>, \<^verbatim>\<open>update.py\<close>,
    \<^verbatim>\<open>channel_update.py\<close>, \<^verbatim>\<open>secret_update.py\<close>), \<^verbatim>\<open>UpdatesManager\<close> (\<^verbatim>\<open>updates_manager.py\<close>, one definition
    for each function), \<^verbatim>\<open>UpdateReplay\<close> (the rows read back, \<open>to_tl\<close>), \<^verbatim>\<open>Difference\<close>
    (\<^verbatim>\<open>handlers/updates.py\<close>: catching up); \<^verbatim>\<open>UpdatesFacts\<close>, \<^verbatim>\<open>UpdatesRun\<close> and \<^verbatim>\<open>UpdatesSteps\<close> (every function
    lets the logs grow in order; the step relation \<open>manager_step\<close> and the locale \<open>numbered_log\<close> of a log
    with its counter, interpreted for users and for channels), \<^verbatim>\<open>UpdateShapes\<close> (rows have what showing
    them needs), \<^verbatim>\<open>DifferenceFacts\<close> (following the answers to the end), \<^verbatim>\<open>ChannelDifference\<close>;
    \<^verbatim>\<open>UpdatesProperties\<close>.

  \<^bold>\<open>How the parts meet.\<close> Shared objects are kept by reference: \<open>server\<close> maps references to
  \<open>session\<close> records, and the tables of the broker hold references. The gateway's state \<open>gateway\<close> is a
  connection's own part, the shared \<open>server\<close> and the table of keys. Work between two \<open>await\<close>s on
  something outside is one step; the step relations \<open>server_step\<close>, \<open>pay_step\<close> and \<open>manager_step\<close> and the fold of
  \<open>serve\<close> over requests are the orders in which such steps can come. Database transactions that
  raise take back their block's changes.

  \<^bold>\<open>What is shown.\<close> Codecs: what was written is read back, with exactly its bytes consumed.
  Sessions: identifiers grow, queues lose nothing on success and at most one message on failure, an
  update reaches exactly the connected sessions logged in as its user. Gateway: a request is recorded
  as finished however it ends, an unregistered key reaches no handler, announced salts are accepted.
  Logging in: every login goes back to a call that grants it, a password keeps out who does not prove it,
  wrong codes are limited. Worker: nobody acts who is not admitted, and a session learns what became of
  its own login.
  Keys: a stored key is the one both sides computed, a binding is vouched for by the permanent key.
  Stars: balances are what the transactions say and never negative, whatever the interleaving; a paid
  invoice is not paid again, unless both payments were begun before. Privacy: the cache never gives
  another answer than the rules as long as contacts stay; the bulk question is the single one.
  Channels: no user gains a right nobody held, bans hold. Updates: the logs stay in order, every row
  can be shown, and a client that catches up gets all it missed, from a user's log slice by slice and from a
  channel's in one answer. The theorems that state what goes
  wrong (a lost message, a payment made twice, a send loop that never rests, a ban that does
  not keep from writing, an edited post no difference has, a row no client gets past, a channel
  anybody can read) are about the code as it is.

  \<^bold>\<open>Bounds and fuel.\<close> Reading nested TL objects takes the interpreter's recursion limit; the nesting
  depth of the object is enough, and more never changes a result. \<open>send_until_idle\<close> takes a number of
  rounds; two are enough when every session is connected and writes succeed. \<open>history_pages\<close> takes
  a number of pages; more than the number of transactions is enough. \<open>follow\<close> takes a number of
  answers; one for each 500 rows of the log and one more are enough. The loop over finished requests
  and UTF-8 decoding terminate by a measure. Integers of the wire keep their width in \<open>int_fits\<close> and
  the byte lists; right sets are 32-bit words; Python's other integers are unbounded.

  \<^bold>\<open>Parameters.\<close> The classes generated from the TL schema, packets and encryption (the transport
  library), hash functions, AES-IGE, random bytes, the clock, the LRU caches' choice of a victim, the
  worker's reply, database look-ups outside the modelled tables, and the answers of bots. Hypotheses on
  them state documented behaviour (a codec round trip, a hash of 32 bytes) and are met by concrete
  instances in the witnesses.

  \<^bold>\<open>Not modelled.\<close> Message storage and search, dialogs, stickers, files, group calls, secret chats,
  the built-in bots' conversations, the bot API over HTTP, the layer converters, RabbitMQ and Redis back ends, migrations, tracing and
  command-line tools. Handlers' network and database effects that a property does not concern
  (notifications, log texts, photos) are left out of the modelled handlers, as each theory says. Of the
  updates manager the group calls and \<open>merge_updates\<close> are left out; the other functions are modelled
  with the rows they read in the record \<open>world\<close>, and the messages, users and chats they render are named
  by their identifiers. Which requests call them is not modelled: \<open>manager_step\<close> allows any calls.
\<close>

end
